(* ===== verification/Prelude.thy ===== *)
theory Prelude
  imports Main "HOL-Library.Char_ord" "HOL-Library.List_Lexorder" "HOL-Library.Sublist"
begin

text \<open>
  The prelude of the development: the error type and the error-returning
  sequencing every operation is written with, the Go string operations the
  program uses (a Go \<^verbatim>\<open>string\<close> is a byte sequence, here a \<open>string\<close> of 8-bit
  characters), the loops that deduplicate a slice, and the locales that more
  than one component instantiates: a status machine with terminal states, and an
  append-only ledger.
\<close>

named_theorems guard_simps \<open>rules that turn a successful guarded computation into its guards\<close>

section \<open>Errors\<close>

text \<open>
  \<open>AuthErr\<close> is the typed \<^verbatim>\<open>*auth.Error\<close> of internal/auth/errors.go with its code,
  \<open>PlainErr\<close> an error built by \<^verbatim>\<open>fmt.Errorf\<close> or \<^verbatim>\<open>errors.New\<close> whose message starts
  with a code, \<open>StoreErr\<close> a failure reported by the database (a violated
  constraint or an aborting trigger). Only the codes are modelled, not the
  formatted remainder of the message.
\<close>

datatype err = AuthErr string | PlainErr string | StoreErr string

type_synonym 'a result = "err + 'a"

definition and_then :: "'a result \<Rightarrow> ('a \<Rightarrow> 'b result) \<Rightarrow> 'b result" where
  "and_then m f = (case m of Inl e \<Rightarrow> Inl e | Inr x \<Rightarrow> f x)"

definition ensure :: "bool \<Rightarrow> err \<Rightarrow> unit result" where
  "ensure b e = (if b then Inr () else Inl e)"

definition from_option :: "err \<Rightarrow> 'a option \<Rightarrow> 'a result" where
  "from_option e m = (case m of None \<Rightarrow> Inl e | Some x \<Rightarrow> Inr x)"

lemma and_then_Inl [simp]: "and_then (Inl e) f = Inl e"
  by (simp add: and_then_def)

lemma and_then_Inr [simp]: "and_then (Inr x) f = f x"
  by (simp add: and_then_def)

lemma and_then_eq_Inr [guard_simps]:
  "and_then m f = Inr y \<longleftrightarrow> (\<exists>x. m = Inr x \<and> f x = Inr y)"
  by (auto simp: and_then_def split: sum.splits)

lemma and_then_eq_Inl:
  "and_then m f = Inl e \<longleftrightarrow> m = Inl e \<or> (\<exists>x. m = Inr x \<and> f x = Inl e)"
  by (auto simp: and_then_def split: sum.splits)

lemma and_then_assoc: "and_then (and_then m f) g = and_then m (\<lambda>x. and_then (f x) g)"
  by (simp add: and_then_def split: sum.splits)

lemma ensure_True [simp]: "ensure True e = Inr ()"
  by (simp add: ensure_def)

lemma ensure_False [simp]: "ensure False e = Inl e"
  by (simp add: ensure_def)

lemma ensure_eq_Inr [guard_simps]: "ensure b e = Inr u \<longleftrightarrow> b"
  by (simp add: ensure_def)

lemma ensure_eq_Inl: "ensure b e = Inl e' \<longleftrightarrow> \<not> b \<and> e' = e"
  by (auto simp: ensure_def)

lemma from_option_eq_Inr [guard_simps]: "from_option e m = Inr x \<longleftrightarrow> m = Some x"
  by (auto simp: from_option_def split: option.splits)

lemma from_option_Some [simp]: "from_option e (Some x) = Inr x"
  by (simp add: from_option_def)

lemma from_option_None [simp]: "from_option e None = Inl e"
  by (simp add: from_option_def)

section \<open>Go strings\<close>

text \<open>
  \<^verbatim>\<open>strings.TrimSpace(s) == ""\<close>: every rune of \<open>s\<close> is Unicode white space. The
  code points are matched on their UTF-8 bytes: the six ASCII ones, U+0085 and
  U+00A0 (two bytes), U+1680, U+2000 to U+200A, U+2028, U+2029, U+202F, U+205F
  and U+3000 (three bytes).
\<close>

definition ascii_space :: "char \<Rightarrow> bool" where
  "ascii_space c \<longleftrightarrow> (let n = (of_char c :: nat) in (9 \<le> n \<and> n \<le> 13) \<or> n = 32)"

definition space2 :: "nat \<Rightarrow> nat \<Rightarrow> bool" where
  "space2 a b \<longleftrightarrow> a = 194 \<and> (b = 133 \<or> b = 160)"

definition space3 :: "nat \<Rightarrow> nat \<Rightarrow> nat \<Rightarrow> bool" where
  "space3 a b c \<longleftrightarrow>
     (a = 225 \<and> b = 154 \<and> c = 128) \<or>
     (a = 226 \<and> b = 128 \<and> ((128 \<le> c \<and> c \<le> 138) \<or> c = 168 \<or> c = 169 \<or> c = 175)) \<or>
     (a = 226 \<and> b = 129 \<and> c = 159) \<or>
     (a = 227 \<and> b = 128 \<and> c = 128)"

fun blank :: "string \<Rightarrow> bool" where
  "blank [] = True"
| "blank [a] = ascii_space a"
| "blank [a, b] =
     (if ascii_space a then blank [b] else space2 (of_char a) (of_char b))"
| "blank (a # b # c # s) =
     (if ascii_space a then blank (b # c # s)
      else if space2 (of_char a) (of_char b) then blank (c # s)
      else space3 (of_char a) (of_char b) (of_char c) \<and> blank s)"

text \<open>\<^verbatim>\<open>strings.ToLower\<close> on ASCII input, \<^verbatim>\<open>strings.Contains\<close>, \<^verbatim>\<open>strings.Join\<close>.\<close>

definition ascii_lower :: "char \<Rightarrow> char" where
  "ascii_lower c = (let n = (of_char c :: nat) in
     if 65 \<le> n \<and> n \<le> 90 then char_of (n + 32) else c)"

fun contains_sub :: "string \<Rightarrow> string \<Rightarrow> bool" where
  "contains_sub p [] = (p = [])"
| "contains_sub p (c # s) = (take (length p) (c # s) = p \<or> contains_sub p s)"

fun join :: "string \<Rightarrow> string list \<Rightarrow> string" where
  "join sep [] = []"
| "join sep [x] = x"
| "join sep (x # y # xs) = x @ sep @ join sep (y # xs)"

definition NUL :: string where
  "NUL = [char_of (0::nat)]"

definition is_digit :: "char \<Rightarrow> bool" where
  "is_digit c \<longleftrightarrow> (let n = (of_char c :: nat) in 48 \<le> n \<and> n \<le> 57)"

definition digit_val :: "char \<Rightarrow> nat" where
  "digit_val c = of_char c - 48"

definition is_lower_hex :: "char \<Rightarrow> bool" where
  "is_lower_hex c \<longleftrightarrow> (let n = (of_char c :: nat) in (48 \<le> n \<and> n \<le> 57) \<or> (97 \<le> n \<and> n \<le> 102))"

definition is_upper :: "char \<Rightarrow> bool" where
  "is_upper c \<longleftrightarrow> (let n = (of_char c :: nat) in 65 \<le> n \<and> n \<le> 90)"

text \<open>Decimal formatting of a natural number (\<^verbatim>\<open>strconv.Itoa\<close> on non-negative values).\<close>

fun dec_nat :: "nat \<Rightarrow> string" where
  "dec_nat n = (if n < 10 then [char_of (48 + n)] else dec_nat (n div 10) @ [char_of (48 + n mod 10)])"

declare dec_nat.simps [simp del]

definition dec_int :: "int \<Rightarrow> string" where
  "dec_int i = (if i < 0 then CHR ''-'' # dec_nat (nat (- i)) else dec_nat (nat i))"

lemma dec_nat_nonempty: "dec_nat n \<noteq> []"
  by (subst dec_nat.simps) simp

lemma dec_nat_digits: "\<forall>c \<in> set (dec_nat n). is_digit c"
proof (induction n rule: dec_nat.induct)
  case (1 n)
  show ?case
  proof (cases "n < 10")
    case True
    then show ?thesis by (subst dec_nat.simps) (simp add: is_digit_def)
  next
    case False
    moreover have "n mod 10 < 10" by simp
    ultimately show ?thesis
      using 1 by (subst dec_nat.simps) (auto simp: is_digit_def Let_def)
  qed
qed

text \<open>The value a digit string denotes; \<open>dec_nat\<close> is right-inverse to it, hence injective.\<close>

definition dec_value :: "string \<Rightarrow> nat" where
  "dec_value s = foldl (\<lambda>a c. 10 * a + digit_val c) 0 s"

lemma dec_value_snoc: "dec_value (s @ [c]) = 10 * dec_value s + digit_val c"
  by (simp add: dec_value_def)

lemma dec_value_dec_nat [simp]: "dec_value (dec_nat n) = n"
proof (induction n rule: dec_nat.induct)
  case (1 n)
  show ?case
  proof (cases "n < 10")
    case True
    then show ?thesis by (subst dec_nat.simps) (simp add: dec_value_def digit_val_def)
  next
    case False
    with 1 have "dec_value (dec_nat (n div 10)) = n div 10" by simp
    with False show ?thesis
      by (subst dec_nat.simps) (simp add: dec_value_snoc digit_val_def)
  qed
qed

lemma dec_nat_inject [simp]: "dec_nat m = dec_nat n \<longleftrightarrow> m = n"
  by (metis dec_value_dec_nat)

section \<open>NUL-separated canonical strings\<close>

lemma NUL_eq: "NUL = [CHR 0x00]"
  by (simp add: NUL_def char_of_def)

text \<open>A field without the separator byte.\<close>

definition nul_free :: "string \<Rightarrow> bool" where
  "nul_free s \<longleftrightarrow> CHR 0x00 \<notin> set s"

lemma nul_free_simps [simp]:
  "nul_free []" "nul_free (c # s) \<longleftrightarrow> c \<noteq> CHR 0x00 \<and> nul_free s"
  "nul_free (a @ b) \<longleftrightarrow> nul_free a \<and> nul_free b"
  by (auto simp: nul_free_def)

text \<open>Splitting at the separator undoes the join of separator-free tokens.\<close>

fun split_nul :: "string \<Rightarrow> string list" where
  "split_nul [] = [[]]"
| "split_nul (c # s) =
     (if c = CHR 0x00 then [] # split_nul s
      else (case split_nul s of t # ts \<Rightarrow> (c # t) # ts | [] \<Rightarrow> [[c]]))"

lemma split_nul_free: "nul_free a \<Longrightarrow> split_nul a = [a]"
  by (induction a) auto

lemma split_nul_append: "nul_free a \<Longrightarrow> split_nul (a @ NUL @ s) = a # split_nul s"
  by (induction a) (auto simp: NUL_eq)

lemma split_nul_join:
  "xs \<noteq> [] \<Longrightarrow> list_all nul_free xs \<Longrightarrow> split_nul (join NUL xs) = xs"
proof (induction xs)
  case (Cons x xs)
  then show ?case by (cases xs) (simp_all add: split_nul_append split_nul_free)
qed simp

lemma join_nul_inject:
  assumes "list_all nul_free xs" and "list_all nul_free ys"
    and "xs \<noteq> []" and "ys \<noteq> []" and "join NUL xs = join NUL ys"
  shows "xs = ys"
  using assms by (metis split_nul_join)

text \<open>Nested joins: the canonical strings are joins of longer token lists.\<close>

lemma join_append:
  "xs \<noteq> [] \<Longrightarrow> ys \<noteq> [] \<Longrightarrow> join sep (xs @ ys) = join sep xs @ sep @ join sep ys"
proof (induction xs)
  case (Cons x xs)
  then show ?case by (cases xs; cases ys) simp_all
qed simp

lemma join_Cons: "xs \<noteq> [] \<Longrightarrow> join sep (x # xs) = x @ sep @ join sep xs"
  by (cases xs) auto

section \<open>Slices\<close>

text \<open>
  The deduplication loop the code repeats in many places (\<^verbatim>\<open>seen\<close> map, keep the first
  occurrence), as one function.
\<close>

fun dedup_acc :: "'a list \<Rightarrow> 'a list \<Rightarrow> 'a list" where
  "dedup_acc seen [] = []"
| "dedup_acc seen (x # xs) =
     (if x \<in> set seen then dedup_acc seen xs else x # dedup_acc (x # seen) xs)"

definition dedup :: "'a list \<Rightarrow> 'a list" where
  "dedup xs = dedup_acc [] xs"

lemma set_dedup_acc: "set (dedup_acc seen xs) = set xs - set seen"
  by (induction seen xs rule: dedup_acc.induct) auto

lemma distinct_dedup_acc: "distinct (dedup_acc seen xs)"
  by (induction seen xs rule: dedup_acc.induct) (auto simp: set_dedup_acc)

lemma set_dedup [simp]: "set (dedup xs) = set xs"
  by (simp add: dedup_def set_dedup_acc)

lemma distinct_dedup [simp]: "distinct (dedup xs)"
  by (simp add: dedup_def distinct_dedup_acc)

lemma dedup_acc_distinct:
  "distinct xs \<Longrightarrow> set xs \<inter> set seen = {} \<Longrightarrow> dedup_acc seen xs = xs"
  by (induction seen xs rule: dedup_acc.induct) auto

lemma dedup_distinct: "distinct xs \<Longrightarrow> dedup xs = xs"
  by (simp add: dedup_def dedup_acc_distinct)

lemma sort_eq_of_set:
  fixes xs ys :: "'a::linorder list"
  assumes "distinct xs" and "distinct ys" and "set xs = set ys"
  shows "sort xs = sort ys"
  using assms
  by (metis distinct_sort set_sort sorted_distinct_set_unique sorted_sort)

lemma sort_dedup_cong:
  fixes xs ys :: "'a::linorder list"
  shows "set xs = set ys \<Longrightarrow> sort (dedup xs) = sort (dedup ys)"
  by (rule sort_eq_of_set) auto

lemma sort_dedup_idem:
  fixes xs :: "'a::linorder list"
  shows "sort (dedup (sort (dedup xs))) = sort (dedup xs)"
  by (rule sort_dedup_cong) simp

section \<open>Table lookups\<close>

text \<open>Rows are lists; \<open>SELECT\<close> by key is \<open>find\<close>, \<open>UPDATE\<close> is \<open>map\<close>.\<close>

lemma find_append: "find P (xs @ ys) = (case find P xs of None \<Rightarrow> find P ys | Some x \<Rightarrow> Some x)"
  by (induction xs) auto

lemma find_distinct_key: "distinct (map f xs) \<Longrightarrow> x \<in> set xs \<Longrightarrow> find (\<lambda>y. f y = f x) xs = Some x"
  by (induction xs) force+

lemma find_SomeD: "find P xs = Some x \<Longrightarrow> x \<in> set xs \<and> P x"
  by (induction xs) (auto split: if_splits)

lemma find_map_pred: "(\<And>x. P (f x) = P x) \<Longrightarrow> find P (map f xs) = map_option f (find P xs)"
  by (induction xs) auto

section \<open>Status machines\<close>

text \<open>
  The interface every lifecycle of the program is read through: the adjacency table and its
  terminal states. \<open>legal\<^sup>*\<^sup>*\<close> is a run of the machine.
\<close>

locale status_machine =
  fixes legal :: "'s \<Rightarrow> 's \<Rightarrow> bool"
    and terminal :: "'s \<Rightarrow> bool"
  assumes terminal_stuck: "terminal s \<Longrightarrow> \<not> legal s t"
begin

lemma terminal_absorbing: "terminal s \<Longrightarrow> legal\<^sup>*\<^sup>* s t \<Longrightarrow> t = s"
  by (erule converse_rtranclpE) (auto dest: terminal_stuck)

lemma nonterminal_source: "legal s t \<Longrightarrow> \<not> terminal s"
  using terminal_stuck by blast

end

text \<open>
  A machine driven by operations: each operation that changes the status takes a legal step,
  so a sequence of operations is a run.
\<close>

locale driven_machine = status_machine legal terminal
  for legal :: "'s \<Rightarrow> 's \<Rightarrow> bool" and terminal :: "'s \<Rightarrow> bool" +
  fixes apply_op :: "'op \<Rightarrow> 'm \<Rightarrow> 'm"
    and status_of :: "'m \<Rightarrow> 's"
  assumes op_legal: "apply_op a m = m \<or> legal (status_of m) (status_of (apply_op a m))"
begin

lemma fold_run: "legal\<^sup>*\<^sup>* (status_of m) (status_of (fold apply_op as m))"
proof (induction as arbitrary: m)
  case (Cons a as)
  have "legal\<^sup>*\<^sup>* (status_of m) (status_of (apply_op a m))"
    using op_legal [of a m] by auto
  with Cons [of "apply_op a m"] show ?case by simp
qed simp

lemma fold_terminal: "terminal (status_of m) \<Longrightarrow> status_of (fold apply_op as m) = status_of m"
  using fold_run terminal_absorbing by blast

lemma fold_terminal_object: "terminal (status_of m) \<Longrightarrow> fold apply_op as m = m"
proof (induction as)
  case (Cons a as)
  then have "apply_op a m = m" using op_legal terminal_stuck by blast
  with Cons show ?case by simp
qed simp

end

section \<open>Append-only ledgers\<close>

text \<open>
  The interface of a table no operation updates or deletes: \<open>ledger\<close> reads it from the state,
  and every operation extends it at the end. Whatever was recorded stays recorded, at its place.
\<close>

locale append_only =
  fixes ledger :: "'db \<Rightarrow> 'row list"
    and step :: "'op \<Rightarrow> 'db \<Rightarrow> 'db"
  assumes step_extends: "prefix (ledger db) (ledger (step a db))"
begin

lemma fold_extends: "prefix (ledger db) (ledger (fold step as db))"
proof (induction as arbitrary: db)
  case (Cons a as)
  then show ?case using step_extends [of db a] by (auto intro: prefix_order.trans)
qed simp

lemma fold_keeps_row: "i < length (ledger db) \<Longrightarrow> ledger (fold step as db) ! i = ledger db ! i"
  using fold_extends [of db as] by (auto simp: prefix_def nth_append)

lemma fold_keeps_member: "r \<in> set (ledger db) \<Longrightarrow> r \<in> set (ledger (fold step as db))"
  using fold_extends [of db as] set_mono_prefix by blast

end

end
