(* ===== verification/Gotime.thy ===== *)
theory Gotime
  imports Prelude
begin

text \<open>
  The layouts of \<^verbatim>\<open>time.Parse\<close> the program uses (ParseDateTime in internal/core/types.go):
  RFC 3339 with or without a fraction, \<^verbatim>\<open>2006-01-02 15:04:05\<close> and \<^verbatim>\<open>2006-01-02\<close>. A parsed
  time is its instant, in nanoseconds since 1970-01-01T00:00:00Z. As in Go, the hour may have
  one digit, a fraction may follow the seconds in every layout with a time of day (after a
  point or a comma, digits beyond the ninth ignored), zone offsets up to 24:60 are accepted,
  and the day must exist in its month.
\<close>

definition digit_at :: "nat \<Rightarrow> string \<Rightarrow> bool" where
  "digit_at i s \<longleftrightarrow> i < length s \<and> is_digit (s ! i)"

text \<open>\<open>num_fixed k\<close> reads exactly \<open>k\<close> digits.\<close>

definition num_fixed :: "nat \<Rightarrow> string \<Rightarrow> (int \<times> string) option" where
  "num_fixed k s =
     (if k \<le> length s \<and> list_all is_digit (take k s)
      then Some (int (dec_value (take k s)), drop k s) else None)"

text \<open>\<open>num_loose\<close> reads two digits, or one when no second follows.\<close>

definition num_loose :: "string \<Rightarrow> (int \<times> string) option" where
  "num_loose s = (if digit_at 0 s then (if digit_at 1 s then num_fixed 2 s else num_fixed 1 s) else None)"

definition lit :: "char \<Rightarrow> string \<Rightarrow> string option" where
  "lit c s = (case s of a # r \<Rightarrow> if a = c then Some r else None | [] \<Rightarrow> None)"

definition leap :: "int \<Rightarrow> bool" where
  "leap y \<longleftrightarrow> y mod 4 = 0 \<and> (y mod 100 \<noteq> 0 \<or> y mod 400 = 0)"

definition days_in :: "int \<Rightarrow> int \<Rightarrow> int" where
  "days_in m y =
     (if m = 2 then (if leap y then 29 else 28)
      else if m = 4 \<or> m = 6 \<or> m = 9 \<or> m = 11 then 30 else 31)"

definition days_from_civil :: "int \<Rightarrow> int \<Rightarrow> int \<Rightarrow> int" where
  "days_from_civil y m d =
     (let y' = (if m \<le> 2 then y - 1 else y);
          era = y' div 400;
          yoe = y' - era * 400;
          doy = (153 * (if m > 2 then m - 3 else m + 9) + 2) div 5 + d - 1;
          doe = yoe * 365 + yoe div 4 - yoe div 100 + doy
      in era * 146097 + doe - 719468)"

definition parse_date :: "string \<Rightarrow> ((int \<times> int \<times> int) \<times> string) option" where
  "parse_date s =
     Option.bind (num_fixed 4 s) (\<lambda>(y, s).
     Option.bind (lit (CHR ''-'') s) (\<lambda>s.
     Option.bind (num_fixed 2 s) (\<lambda>(m, s).
     Option.bind (lit (CHR ''-'') s) (\<lambda>s.
     Option.bind (num_fixed 2 s) (\<lambda>(d, s).
       if 1 \<le> m \<and> m \<le> 12 \<and> 1 \<le> d \<and> d \<le> days_in m y then Some ((y, m, d), s) else None)))))"

definition parse_frac :: "string \<Rightarrow> int \<times> string" where
  "parse_frac s =
     (case s of
        c # r \<Rightarrow>
          if (c = CHR ''.'' \<or> c = CHR '','') \<and> digit_at 0 r then
            let ds = takeWhile is_digit r; k = min 9 (length ds)
            in (int (dec_value (take k ds)) * 10 ^ (9 - k), dropWhile is_digit r)
          else (0, s)
      | [] \<Rightarrow> (0, s))"

definition parse_clock :: "string \<Rightarrow> (int \<times> string) option" where
  "parse_clock s =
     Option.bind (num_loose s) (\<lambda>(h, s).
     Option.bind (lit (CHR '':'') s) (\<lambda>s.
     Option.bind (num_fixed 2 s) (\<lambda>(mi, s).
     Option.bind (lit (CHR '':'') s) (\<lambda>s.
     Option.bind (num_fixed 2 s) (\<lambda>(se, s).
       if h < 24 \<and> mi < 60 \<and> se < 60 then
         (let (ns, s) = parse_frac s
          in Some (((h * 60 + mi) * 60 + se) * 1000000000 + ns, s))
       else None)))))"

definition parse_zone :: "string \<Rightarrow> (int \<times> string) option" where
  "parse_zone s =
     (case s of
        [] \<Rightarrow> None
      | c # r \<Rightarrow>
          if c = CHR ''Z'' then Some (0, r)
          else if c = CHR ''+'' \<or> c = CHR ''-'' then
            Option.bind (num_fixed 2 r) (\<lambda>(h, s).
            Option.bind (lit (CHR '':'') s) (\<lambda>s.
            Option.bind (num_fixed 2 s) (\<lambda>(m, s).
              if h \<le> 24 \<and> m \<le> 60
              then Some ((if c = CHR ''+'' then 1 else - 1) * (h * 60 + m) * 60 * 1000000000, s)
              else None)))
          else None)"

definition day_ns :: "int \<times> int \<times> int \<Rightarrow> int" where
  "day_ns ymd = (case ymd of (y, m, d) \<Rightarrow> days_from_civil y m d * 86400 * 1000000000)"

definition parse_rfc3339 :: "string \<Rightarrow> int option" where
  "parse_rfc3339 s =
     Option.bind (parse_date s) (\<lambda>(ymd, s).
     Option.bind (lit (CHR ''T'') s) (\<lambda>s.
     Option.bind (parse_clock s) (\<lambda>(ns, s).
     Option.bind (parse_zone s) (\<lambda>(off, s).
       if s = [] then Some (day_ns ymd + ns - off) else None))))"

definition parse_datetime_space :: "string \<Rightarrow> int option" where
  "parse_datetime_space s =
     Option.bind (parse_date s) (\<lambda>(ymd, s).
       if s \<noteq> [] \<and> hd s \<noteq> CHR '' '' then None else
       Option.bind (parse_clock (dropWhile (\<lambda>c. c = CHR '' '') s)) (\<lambda>(ns, s).
         if s = [] then Some (day_ns ymd + ns) else None))"

definition parse_date_only :: "string \<Rightarrow> int option" where
  "parse_date_only s =
     Option.bind (parse_date s) (\<lambda>(ymd, s). if s = [] then Some (day_ns ymd) else None)"

text \<open>ParseDateTime: the first layout that parses.\<close>

definition ParseDateTime :: "string \<Rightarrow> int option" where
  "ParseDateTime s =
     (case parse_rfc3339 s of Some t \<Rightarrow> Some t
      | None \<Rightarrow> (case parse_datetime_space s of Some t \<Rightarrow> Some t | None \<Rightarrow> parse_date_only s))"

lemma ParseDateTime_example:
  "ParseDateTime ''2026-01-31T23:59:59Z'' = Some 1769903999000000000"
  by (simp add: ParseDateTime_def parse_rfc3339_def parse_date_def parse_clock_def parse_zone_def
      parse_frac_def num_fixed_def num_loose_def digit_at_def lit_def is_digit_def digit_val_def
      dec_value_def day_ns_def days_from_civil_def days_in_def numeral_eq_Suc)

end
