(* ===== verification/Sha256.thy ===== *)
theory Sha256
  imports Prelude "HOL-Library.Word"
begin

text \<open>
  The digest every canonical hash of the program uses: \<^verbatim>\<open>crypto/sha256\<close> followed by
  \<^verbatim>\<open>hex.EncodeToString\<close> (FIPS 180-4, on 32-bit words with wrap-around addition), and the
  syntax checks the program performs on digests. The definitions
  compute; the round constants are written in decimal.
\<close>

unbundle bit_operations_syntax

type_synonym w32 = "32 word"

definition sha_k :: "w32 list" where
  "sha_k =
    [1116352408, 1899447441, 3049323471, 3921009573, 961987163, 1508970993, 2453635748, 2870763221,
     3624381080, 310598401, 607225278, 1426881987, 1925078388, 2162078206, 2614888103, 3248222580,
     3835390401, 4022224774, 264347078, 604807628, 770255983, 1249150122, 1555081692, 1996064986,
     2554220882, 2821834349, 2952996808, 3210313671, 3336571891, 3584528711, 113926993, 338241895,
     666307205, 773529912, 1294757372, 1396182291, 1695183700, 1986661051, 2177026350, 2456956037,
     2730485921, 2820302411, 3259730800, 3345764771, 3516065817, 3600352804, 4094571909, 275423344,
     430227734, 506948616, 659060556, 883997877, 958139571, 1322822218, 1537002063, 1747873779,
     1955562222, 2024104815, 2227730452, 2361852424, 2428436474, 2756734187, 3204031479, 3329325298]"

definition sha_h0 :: "w32 list" where
  "sha_h0 = [1779033703, 3144134277, 1013904242, 2773480762, 1359893119, 2600822924, 528734635, 1541459225]"

definition rotr :: "nat \<Rightarrow> w32 \<Rightarrow> w32" where
  "rotr n x = drop_bit n x OR push_bit (32 - n) x"

definition ssig0 :: "w32 \<Rightarrow> w32" where
  "ssig0 x = rotr 7 x XOR rotr 18 x XOR drop_bit 3 x"

definition ssig1 :: "w32 \<Rightarrow> w32" where
  "ssig1 x = rotr 17 x XOR rotr 19 x XOR drop_bit 10 x"

definition bsig0 :: "w32 \<Rightarrow> w32" where
  "bsig0 x = rotr 2 x XOR rotr 13 x XOR rotr 22 x"

definition bsig1 :: "w32 \<Rightarrow> w32" where
  "bsig1 x = rotr 6 x XOR rotr 11 x XOR rotr 25 x"

definition ch :: "w32 \<Rightarrow> w32 \<Rightarrow> w32 \<Rightarrow> w32" where
  "ch x y z = (x AND y) XOR (NOT x AND z)"

definition maj :: "w32 \<Rightarrow> w32 \<Rightarrow> w32 \<Rightarrow> w32" where
  "maj x y z = (x AND y) XOR (x AND z) XOR (y AND z)"

text \<open>Padding: a one bit, zeros, the bit length as 64 bits big-endian.\<close>

fun be_bytes :: "nat \<Rightarrow> int \<Rightarrow> int list" where
  "be_bytes 0 n = []"
| "be_bytes (Suc k) n = be_bytes k (n div 256) @ [n mod 256]"

definition sha_pad :: "int list \<Rightarrow> int list" where
  "sha_pad m = m @ [128] @ replicate ((119 - length m mod 64) mod 64) 0 @ be_bytes 8 (8 * int (length m))"

fun words32 :: "int list \<Rightarrow> w32 list" where
  "words32 (a # b # c # d # r) = word_of_int (((a * 256 + b) * 256 + c) * 256 + d) # words32 r"
| "words32 _ = []"

text \<open>The message schedule, kept newest first: the last sixteen words give the next one.\<close>

fun sched :: "nat \<Rightarrow> w32 list \<Rightarrow> w32 list" where
  "sched 0 ws = ws"
| "sched (Suc n) ws = sched n ((ssig1 (ws ! 1) + ws ! 6 + ssig0 (ws ! 14) + ws ! 15) # ws)"

type_synonym regs = "w32 \<times> w32 \<times> w32 \<times> w32 \<times> w32 \<times> w32 \<times> w32 \<times> w32"

fun round256 :: "regs \<Rightarrow> w32 \<Rightarrow> w32 \<Rightarrow> regs" where
  "round256 (a, b, c, d, e, f, g, h) k w =
     (let t1 = h + bsig1 e + ch e f g + k + w; t2 = bsig0 a + maj a b c
      in (t1 + t2, a, b, c, d + t1, e, f, g))"

fun rounds :: "w32 list \<Rightarrow> w32 list \<Rightarrow> regs \<Rightarrow> regs" where
  "rounds (k # ks) (w # ws) r = rounds ks ws (round256 r k w)"
| "rounds _ _ r = r"

fun add_regs :: "regs \<Rightarrow> regs \<Rightarrow> regs" where
  "add_regs (a, b, c, d, e, f, g, h) (a', b', c', d', e', f', g', h') =
     (a + a', b + b', c + c', d + d', e + e', f + f', g + g', h + h')"

definition compress_block :: "regs \<Rightarrow> int list \<Rightarrow> regs" where
  "compress_block r blk =
     add_regs r (rounds sha_k (rev (sched 48 (rev (words32 blk)))) r)"

fun blocks :: "nat \<Rightarrow> int list \<Rightarrow> regs \<Rightarrow> regs" where
  "blocks 0 m r = r"
| "blocks (Suc n) m r = blocks n (drop 64 m) (compress_block r (take 64 m))"

definition sha_init :: regs where
  "sha_init = (sha_h0 ! 0, sha_h0 ! 1, sha_h0 ! 2, sha_h0 ! 3, sha_h0 ! 4, sha_h0 ! 5, sha_h0 ! 6, sha_h0 ! 7)"

fun regs_list :: "regs \<Rightarrow> w32 list" where
  "regs_list (a, b, c, d, e, f, g, h) = [a, b, c, d, e, f, g, h]"

definition hex_char :: "nat \<Rightarrow> char" where
  "hex_char n = (if n < 10 then char_of (48 + n) else char_of (87 + n))"

definition hex_word :: "w32 \<Rightarrow> string" where
  "hex_word w = map (\<lambda>i. hex_char (unat (drop_bit (4 * (7 - i)) w AND 15))) [0..<8]"

definition sha256_hex :: "string \<Rightarrow> string" where
  "sha256_hex s =
     (let m = sha_pad (map of_char s)
      in concat (map hex_word (regs_list (blocks (length m div 64) m sha_init))))"

section \<open>Digest syntax\<close>

text \<open>The pattern \<^verbatim>\<open>^[0-9a-f]{64}$\<close> (objectIDPattern, hash64Pattern).\<close>

definition hash64_ok :: "string \<Rightarrow> bool" where
  "hash64_ok s \<longleftrightarrow> length s = 64 \<and> list_all is_lower_hex s"

lemma is_lower_hex_hex_char: "n < 16 \<Longrightarrow> is_lower_hex (hex_char n)"
  by (auto simp: is_lower_hex_def hex_char_def Let_def)

lemma unat_and_15: "unat (w AND 15 :: w32) < 16"
proof -
  have "w AND 15 \<le> (15 :: w32)" by (rule word_and_le1)
  then have "unat (w AND 15) \<le> unat (15 :: w32)" by (simp only: word_le_nat_alt)
  then show ?thesis by simp
qed

lemma length_hex_word [simp]: "length (hex_word w) = 8"
  by (simp add: hex_word_def)

lemma list_all_hex_word: "list_all is_lower_hex (hex_word w)"
  by (auto simp: hex_word_def list_all_iff unat_and_15 intro: is_lower_hex_hex_char)

lemma hash64_ok_regs: "hash64_ok (concat (map hex_word (regs_list r)))"
  by (cases r rule: regs_list.cases) (simp add: hash64_ok_def list_all_hex_word)

text \<open>A digest always has the accepted syntax: 64 lowercase hexadecimal digits.\<close>

lemma hash64_ok_sha256_hex [simp]: "hash64_ok (sha256_hex s)"
  by (simp add: sha256_hex_def Let_def hash64_ok_regs)

lemma sha256_hex_nonempty [simp]: "sha256_hex s \<noteq> []"
  using hash64_ok_sha256_hex [of s] by (auto simp: hash64_ok_def)

end
