(* ===== verification/Json.thy ===== *)
theory Json
  imports Sha256
begin

text \<open>
  The part of \<^verbatim>\<open>encoding/json\<close> the canonical byte contracts rest on: compact encoding of
  strings, integers, booleans, arrays and structs (an object with its properties in
  declaration order). Strings are escaped as the Go encoder does it, on their UTF-8 bytes;
  the flag \<open>html\<close> is \<^verbatim>\<open>SetEscapeHTML\<close> (true for \<^verbatim>\<open>json.Marshal\<close>, false for every canonical
  encoder of the program). \<open>omit_empty\<close> models the \<^verbatim>\<open>omitempty\<close> tag.
\<close>

datatype json =
    JStr string
  | JInt int
  | JBool bool
  | JNull
  | JArr "json list"
  | JObj "(string \<times> json) list"

section \<open>UTF-8\<close>

definition cont_byte :: "nat \<Rightarrow> bool" where
  "cont_byte b \<longleftrightarrow> 128 \<le> b \<and> b \<le> 191"

text \<open>
  The size of the well-formed UTF-8 sequence at the head of a byte list, 0 when it is
  malformed (\<^verbatim>\<open>utf8.DecodeRune\<close> then returns RuneError with size 1).
\<close>

fun utf8_len :: "nat list \<Rightarrow> nat" where
  "utf8_len [] = 0"
| "utf8_len (a # r) =
     (if a < 128 then 1
      else if 194 \<le> a \<and> a \<le> 223 then
        (case r of b # _ \<Rightarrow> if cont_byte b then 2 else 0 | [] \<Rightarrow> 0)
      else if 224 \<le> a \<and> a \<le> 239 then
        (case r of b # c # _ \<Rightarrow>
           if (if a = 224 then 160 else 128) \<le> b \<and> b \<le> (if a = 237 then 159 else 191) \<and> cont_byte c
           then 3 else 0
         | _ \<Rightarrow> 0)
      else if 240 \<le> a \<and> a \<le> 244 then
        (case r of b # c # d # _ \<Rightarrow>
           if (if a = 240 then 144 else 128) \<le> b \<and> b \<le> (if a = 244 then 143 else 191)
              \<and> cont_byte c \<and> cont_byte d
           then 4 else 0
         | _ \<Rightarrow> 0)
      else 0)"

abbreviation byte_vals :: "string \<Rightarrow> nat list" where
  "byte_vals s \<equiv> map of_char s"

function utf8_valid :: "string \<Rightarrow> bool" where
  "utf8_valid s =
     (if s = [] then True
      else let k = utf8_len (byte_vals s) in
        if k = 0 then False else utf8_valid (drop k s))"
  by pat_completeness auto
termination by (relation "measure length") auto

declare utf8_valid.simps [simp del]

section \<open>String escaping\<close>

definition hex_byte :: "nat \<Rightarrow> string" where
  "hex_byte n = [hex_char (n div 16), hex_char (n mod 16)]"

definition bslash :: char where "bslash = CHR 0x5C"
definition dquote :: char where "dquote = CHR 0x22"

definition esc_ascii :: "bool \<Rightarrow> char \<Rightarrow> string" where
  "esc_ascii html c = (let n = (of_char c :: nat) in
     if n = 34 \<or> n = 92 then [bslash, c]
     else if n = 8 then [bslash, CHR ''b'']
     else if n = 12 then [bslash, CHR ''f'']
     else if n = 10 then [bslash, CHR ''n'']
     else if n = 13 then [bslash, CHR ''r'']
     else if n = 9 then [bslash, CHR ''t'']
     else if n < 32 \<or> (html \<and> (n = 60 \<or> n = 62 \<or> n = 38))
       then bslash # ''u00'' @ hex_byte n
     else [c])"

function json_esc :: "bool \<Rightarrow> string \<Rightarrow> string" where
  "json_esc html [] = []"
| "json_esc html (a # r) =
     (if (of_char a :: nat) < 128 then esc_ascii html a @ json_esc html r
      else let k = utf8_len (byte_vals (a # r)) in
        if k = 0 then bslash # ''ufffd'' @ json_esc html r
        else (if byte_vals (take k (a # r)) = [226, 128, 168] then bslash # ''u2028''
              else if byte_vals (take k (a # r)) = [226, 128, 169] then bslash # ''u2029''
              else take k (a # r)) @ json_esc html (drop (k - 1) r))"
  by pat_completeness auto
termination by (relation "measure (length \<circ> snd)") auto

definition enc_str :: "bool \<Rightarrow> string \<Rightarrow> string" where
  "enc_str html s = dquote # json_esc html s @ [dquote]"

fun enc :: "bool \<Rightarrow> json \<Rightarrow> string" where
  "enc html (JStr s) = enc_str html s"
| "enc html (JInt i) = dec_int i"
| "enc html (JBool b) = (if b then ''true'' else ''false'')"
| "enc html JNull = ''null''"
| "enc html (JArr xs) = ''['' @ join '','' (map (enc html) xs) @ '']''"
| "enc html (JObj ps) =
     ''{'' @ join '','' (map (\<lambda>(k, v). enc_str html k @ '':'' @ enc html v) ps) @ ''}''"

text \<open>\<^verbatim>\<open>omitempty\<close>: an empty string, a zero integer or an empty slice drops the property.\<close>

fun json_empty :: "json \<Rightarrow> bool" where
  "json_empty (JStr s) = (s = [])"
| "json_empty (JInt i) = (i = 0)"
| "json_empty (JBool b) = (\<not> b)"
| "json_empty JNull = True"
| "json_empty (JArr xs) = (xs = [])"
| "json_empty (JObj ps) = False"

definition fld :: "string \<Rightarrow> json \<Rightarrow> (string \<times> json) list" where
  "fld k v = [(k, v)]"

definition fld_omit :: "string \<Rightarrow> json \<Rightarrow> (string \<times> json) list" where
  "fld_omit k v = (if json_empty v then [] else [(k, v)])"

definition str_arr :: "string list \<Rightarrow> json" where
  "str_arr xs = JArr (map JStr xs)"

text \<open>Printable ASCII without quote and backslash is copied verbatim.\<close>

definition plain_char :: "char \<Rightarrow> bool" where
  "plain_char c \<longleftrightarrow> (let n = (of_char c :: nat) in 32 \<le> n \<and> n < 128 \<and> n \<noteq> 34 \<and> n \<noteq> 92)"

lemma json_esc_plain: "list_all plain_char s \<Longrightarrow> json_esc False s = s"
  by (induction s) (auto simp: plain_char_def esc_ascii_def Let_def)

lemma plain_lower_hex: "is_lower_hex c \<Longrightarrow> plain_char c"
  by (auto simp: is_lower_hex_def plain_char_def Let_def)

section \<open>Encoded JSON carries no NUL byte\<close>

lemma join_nul_free: "nul_free sep \<Longrightarrow> list_all nul_free xs \<Longrightarrow> nul_free (join sep xs)"
  by (induction sep xs rule: join.induct) auto

lemma digits_nul_free: "list_all is_digit s \<Longrightarrow> nul_free s"
  by (induction s) (auto simp: is_digit_def)

lemma dec_nat_nul_free: "nul_free (dec_nat n)"
  using dec_nat_digits by (simp add: digits_nul_free list_all_iff)

lemma dec_int_nul_free: "nul_free (dec_int i)"
  by (simp add: dec_int_def dec_nat_nul_free)

lemma is_lower_hex_not_NUL: "is_lower_hex c \<Longrightarrow> c \<noteq> CHR 0x00"
  by (auto simp: is_lower_hex_def)

lemma hex_char_not_NUL: "n < 16 \<Longrightarrow> hex_char n \<noteq> CHR 0x00"
  using is_lower_hex_hex_char is_lower_hex_not_NUL by blast

lemma esc_ascii_nul_free: "(of_char c :: nat) < 128 \<Longrightarrow> nul_free (esc_ascii html c)"
  by (auto simp: esc_ascii_def Let_def bslash_def hex_byte_def hex_char_not_NUL)

text \<open>Every byte of a multi-byte sequence is at least 128.\<close>

lemma utf8_len_high:
  assumes "\<not> a < 128"
  shows "list_all (\<lambda>b. 128 \<le> b) (take (utf8_len (a # r)) (a # r))"
proof -
  consider "r = []" | b where "r = [b]" | b c where "r = [b, c]" | b c d r' where "r = b # c # d # r'"
    by (metis list.exhaust)
  then show ?thesis
    using assms by cases (simp_all add: cont_byte_def)
qed

lemma high_not_NUL: "128 \<le> (of_char c :: nat) \<Longrightarrow> c \<noteq> CHR 0x00"
  by auto

lemma take_high_nul_free:
  assumes "\<not> (of_char a :: nat) < 128"
  shows "nul_free (take (utf8_len (byte_vals (a # r))) (a # r))"
proof -
  have "list_all (\<lambda>b. 128 \<le> b) (byte_vals (take (utf8_len (byte_vals (a # r))) (a # r)))"
    using utf8_len_high [OF assms, of "byte_vals r"] by (simp add: take_map [symmetric] del: utf8_len.simps list.map flip: list.map(2))
  then show ?thesis
    by (auto simp: nul_free_def list_all_iff simp del: utf8_len.simps)
qed

lemma json_esc_nul_free: "nul_free (json_esc html s)"
proof (induction html s rule: json_esc.induct)
  case (2 html a r)
  show ?case
  proof (cases "(of_char a :: nat) < 128")
    case True
    with 2 show ?thesis by (simp add: esc_ascii_nul_free)
  next
    case False
    then have "nul_free (take (utf8_len (byte_vals (a # r))) (a # r))"
      by (rule take_high_nul_free)
    with False 2 show ?thesis
      by (subst json_esc.simps) (auto simp: Let_def bslash_def simp del: json_esc.simps list.map utf8_len.simps)
  qed
qed simp

lemma enc_str_nul_free: "nul_free (enc_str html s)"
  by (simp add: enc_str_def dquote_def json_esc_nul_free)

lemma enc_nul_free: "nul_free (enc html j)"
proof (induction html j rule: enc.induct)
  case (5 html xs)
  have "nul_free (join '','' (map (enc html) xs))"
    by (rule join_nul_free) (use 5 in \<open>auto simp: list_all_iff\<close>)
  then show ?case by simp
next
  case (6 html ps)
  have "nul_free (join '','' (map (\<lambda>(k, v). enc_str html k @ '':'' @ enc html v) ps))"
    by (rule join_nul_free) (use 6 in \<open>force simp: list_all_iff enc_str_nul_free\<close>)+
  then show ?case by simp
qed (auto simp: enc_str_nul_free dec_int_nul_free)

end
