(* ===== verification/Scope_Model.thy ===== *)
theory Scope_Model
  imports Gotime Json
begin

text \<open>
  The structural tenant scope and the provenance source of internal/core/types.go with their
  validators, the RUC check of internal/core/ruc.go and the object-scope check of
  internal/core/evidence_object.go. A Go string type with named constants is a datatype with
  one constructor per constant and an \<open>Other\<close> constructor for any other string value.
\<close>

section \<open>Scope\<close>

datatype ScopeKind = ScopeKindCompany | ScopeKindInstitutional | ScopeKindOther string

record Scope =
  sc_Kind :: ScopeKind
  sc_OrganizationID :: string
  sc_CompanyID :: string
  sc_RUC :: string
  sc_Period :: string

definition company_scope :: "string \<Rightarrow> string \<Rightarrow> string \<Rightarrow> string \<Rightarrow> Scope" where
  "company_scope org cmp ruc per =
     \<lparr>sc_Kind = ScopeKindCompany, sc_OrganizationID = org, sc_CompanyID = cmp, sc_RUC = ruc, sc_Period = per\<rparr>"

lemma company_scope_sel [simp]:
  "sc_Kind (company_scope a b c d) = ScopeKindCompany"
  "sc_OrganizationID (company_scope a b c d) = a"
  "sc_CompanyID (company_scope a b c d) = b"
  "sc_RUC (company_scope a b c d) = c"
  "sc_Period (company_scope a b c d) = d"
  by (simp_all add: company_scope_def)

definition ScopeEquals :: "Scope \<Rightarrow> Scope \<Rightarrow> bool" where
  "ScopeEquals a b =
     (if sc_Kind a = ScopeKindInstitutional \<and> sc_Kind b = ScopeKindInstitutional then True
      else if sc_Kind a \<noteq> ScopeKindCompany \<or> sc_Kind b \<noteq> ScopeKindCompany then False
      else sc_OrganizationID a = sc_OrganizationID b \<and> sc_CompanyID a = sc_CompanyID b
         \<and> sc_RUC a = sc_RUC b \<and> sc_Period a = sc_Period b)"

definition ScopeKey :: "Scope \<Rightarrow> string" where
  "ScopeKey s =
     (if sc_Kind s = ScopeKindInstitutional then ''institutional''
      else ''company'' @ NUL @ sc_OrganizationID s @ NUL @ sc_CompanyID s @ NUL @ sc_RUC s @ NUL @ sc_Period s)"

definition IsValidRUC :: "string \<Rightarrow> bool" where
  "IsValidRUC ruc \<longleftrightarrow> (if length ruc \<noteq> 11 then False else list_all is_digit ruc)"

definition IsValidPeriod :: "string \<Rightarrow> bool" where
  "IsValidPeriod p =
     (if length p \<noteq> 6 then False
      else if \<not> list_all is_digit p then False
      else (let month = digit_val (p ! 4) * 10 + digit_val (p ! 5) in 1 \<le> month \<and> month \<le> 12))"

definition AssertValidScope :: "Scope \<Rightarrow> unit result" where
  "AssertValidScope s =
     (if sc_Kind s = ScopeKindInstitutional then Inr ()
      else if sc_Kind s \<noteq> ScopeKindCompany then Inl (PlainErr ''INVALID_SCOPE'')
      else if sc_OrganizationID s = '''' then Inl (PlainErr ''INVALID_SCOPE'')
      else if sc_CompanyID s = '''' then Inl (PlainErr ''INVALID_SCOPE'')
      else if \<not> IsValidRUC (sc_RUC s) then Inl (PlainErr ''INVALID_RUC'')
      else if sc_Period s \<noteq> '''' \<and> \<not> IsValidPeriod (sc_Period s) then Inl (PlainErr ''INVALID_PERIOD'')
      else Inr ())"

definition AssertValidObjectScope :: "Scope \<Rightarrow> unit result" where
  "AssertValidObjectScope s =
     (if sc_Kind s \<noteq> ScopeKindCompany then Inl (PlainErr ''INVALID_OBJECT_SCOPE'')
      else AssertValidScope s)"

section \<open>The SUNAT modulo-11 validator\<close>

datatype RUCClassification = RUCValid | RUCInvalidShape | RUCInvalidChecksum

definition rucWeights :: "nat list" where
  "rucWeights = [5, 4, 3, 2, 7, 6, 5, 4, 3, 2]"

text \<open>The weighted sum over the first ten digits, \<open>None\<close> at the first byte that is no digit.\<close>

fun ruc_sum :: "nat list \<Rightarrow> string \<Rightarrow> nat \<Rightarrow> nat option" where
  "ruc_sum (w # ws) (c # s) acc =
     (if \<not> is_digit c then None else ruc_sum ws s (acc + digit_val c * w))"
| "ruc_sum _ _ acc = Some acc"

definition ClassifyRUC :: "string \<Rightarrow> RUCClassification" where
  "ClassifyRUC ruc =
     (if length ruc \<noteq> 11 then RUCInvalidShape
      else case ruc_sum rucWeights ruc 0 of
        None \<Rightarrow> RUCInvalidShape
      | Some sm \<Rightarrow>
          if \<not> is_digit (ruc ! 10) then RUCInvalidShape
          else let e = 11 - sm mod 11; expected = (if e = 10 \<or> e = 11 then e - 10 else e)
               in if expected \<noteq> digit_val (ruc ! 10) then RUCInvalidChecksum else RUCValid)"

definition IsValidFiscalRUC :: "string \<Rightarrow> bool" where
  "IsValidFiscalRUC ruc \<longleftrightarrow> ClassifyRUC ruc = RUCValid"

section \<open>Source\<close>

datatype ActorKind = ActorKindHuman | ActorKindAgent | ActorKindSystem | ActorKindOther string

fun ActorKind_str :: "ActorKind \<Rightarrow> string" where
  "ActorKind_str ActorKindHuman = ''human''"
| "ActorKind_str ActorKindAgent = ''agent''"
| "ActorKind_str ActorKindSystem = ''system''"
| "ActorKind_str (ActorKindOther s) = s"

fun IsValidActorKind :: "ActorKind \<Rightarrow> bool" where
  "IsValidActorKind (ActorKindOther s) = False"
| "IsValidActorKind _ = True"

record Source =
  src_System :: string
  src_Reference :: string
  src_ActorID :: string
  src_ActorKind :: ActorKind
  src_Model :: string
  src_Session :: string

definition AssertValidSource :: "Source \<Rightarrow> unit result" where
  "AssertValidSource s =
     (if blank (src_System s) then Inl (PlainErr ''INVALID_SOURCE'')
      else if \<not> IsValidActorKind (src_ActorKind s) then Inl (PlainErr ''INVALID_SOURCE'')
      else if src_ActorKind s = ActorKindHuman \<and> blank (src_ActorID s) then Inl (PlainErr ''INVALID_SOURCE'')
      else Inr ())"

section \<open>Lemmas\<close>

lemma IsValidRUC_chars: "IsValidRUC r \<Longrightarrow> length r = 11 \<and> list_all is_digit r"
  by (simp add: IsValidRUC_def split: if_splits)

lemma IsValidPeriod_chars: "IsValidPeriod p \<Longrightarrow> length p = 6 \<and> list_all is_digit p"
  by (simp add: IsValidPeriod_def split: if_splits)

lemma digit_not_NUL: "is_digit c \<Longrightarrow> c \<noteq> CHR 0x00"
  by (auto simp: is_digit_def)

text \<open>Splitting at a separator both prefixes avoid.\<close>

lemma append_sep_inject:
  assumes "x \<notin> set a" and "x \<notin> set b"
  shows "a @ x # s = b @ x # t \<longleftrightarrow> a = b \<and> s = t"
  using assms
proof (induction a arbitrary: b)
  case Nil
  then show ?case by (cases b) auto
next
  case (Cons y a)
  then show ?case by (cases b) auto
qed

lemma ruc_sum_Some_digits:
  "ruc_sum ws s acc = Some n \<Longrightarrow> list_all is_digit (take (length ws) s)"
  by (induction ws s acc rule: ruc_sum.induct) (auto split: if_splits)

lemma AssertValidScope_company:
  assumes "AssertValidScope s = Inr ()" and "sc_Kind s = ScopeKindCompany"
  shows "IsValidRUC (sc_RUC s)" and "sc_Period s = '''' \<or> IsValidPeriod (sc_Period s)"
    and "sc_OrganizationID s \<noteq> ''''" and "sc_CompanyID s \<noteq> ''''"
  using assms by (auto simp: AssertValidScope_def split: if_splits)

lemma AssertValidScope_kinds:
  "AssertValidScope s = Inr () \<Longrightarrow> sc_Kind s = ScopeKindCompany \<or> sc_Kind s = ScopeKindInstitutional"
  by (auto simp: AssertValidScope_def split: if_splits)

text \<open>ScopeEquals is an equivalence on the scopes the validator accepts.\<close>

lemma ScopeEquals_sym: "ScopeEquals a b \<longleftrightarrow> ScopeEquals b a"
  by (auto simp: ScopeEquals_def)

lemma ScopeEquals_trans: "ScopeEquals a b \<Longrightarrow> ScopeEquals b c \<Longrightarrow> ScopeEquals a c"
  by (auto simp: ScopeEquals_def split: if_splits)

lemma ScopeEquals_refl: "AssertValidScope s = Inr () \<Longrightarrow> ScopeEquals s s"
  by (auto simp: ScopeEquals_def dest: AssertValidScope_kinds)

lemma digits_no_NUL: "list_all is_digit s \<Longrightarrow> CHR 0x00 \<notin> set s"
  by (auto simp: list_all_iff is_digit_def)

section \<open>Properties\<close>

lemma ScopeKey_company:
  "sc_Kind s = ScopeKindCompany \<Longrightarrow> ScopeKey s =
     join NUL [''company'', sc_OrganizationID s, sc_CompanyID s, sc_RUC s, sc_Period s]"
  by (simp add: ScopeKey_def)

lemma IsValidPeriod_nul_free: "s = '''' \<or> IsValidPeriod s \<Longrightarrow> nul_free s"
  using IsValidPeriod_chars digits_nul_free by fastforce

lemma IsValidRUC_nul_free: "IsValidRUC s \<Longrightarrow> nul_free s"
  using IsValidRUC_chars digits_nul_free by fastforce

lemma valid_scope_eqI:
  assumes "AssertValidScope a = Inr ()" and "AssertValidScope b = Inr ()"
    and "nul_free (sc_OrganizationID a)" and "nul_free (sc_CompanyID a)"
    and "nul_free (sc_OrganizationID b)" and "nul_free (sc_CompanyID b)"
    and "sc_Kind a = ScopeKindCompany" and "sc_Kind b = ScopeKindCompany"
    and "ScopeKey a = ScopeKey b"
  shows "ScopeEquals a b"
proof -
  have ok: "list_all nul_free [''company'', sc_OrganizationID a, sc_CompanyID a, sc_RUC a, sc_Period a]"
    "list_all nul_free [''company'', sc_OrganizationID b, sc_CompanyID b, sc_RUC b, sc_Period b]"
    using assms AssertValidScope_company
    by (simp_all add: IsValidRUC_nul_free IsValidPeriod_nul_free)
  show ?thesis
    using join_nul_inject [OF ok] assms by (simp add: ScopeKey_company ScopeEquals_def)
qed

lemma ScopeKey_institutional_company:
  "sc_Kind a = ScopeKindInstitutional \<Longrightarrow> sc_Kind b = ScopeKindCompany \<Longrightarrow> ScopeKey a \<noteq> ScopeKey b"
  by (simp add: ScopeKey_def)

text \<open>
  C39: ScopeKey, the key of every upsert chain, identifies a scope exactly: on scopes the write
  validator accepts and whose organization and company ids carry no NUL byte, two scopes have
  the same key if and only if ScopeEquals relates them.
\<close>

theorem ScopeKey_iff_ScopeEquals:
  assumes "AssertValidScope a = Inr ()" and "AssertValidScope b = Inr ()"
    and "nul_free (sc_OrganizationID a)" and "nul_free (sc_CompanyID a)"
    and "nul_free (sc_OrganizationID b)" and "nul_free (sc_CompanyID b)"
  shows "ScopeKey a = ScopeKey b \<longleftrightarrow> ScopeEquals a b"
proof
  assume k: "ScopeKey a = ScopeKey b"
  show "ScopeEquals a b"
    using AssertValidScope_kinds [OF assms(1)] AssertValidScope_kinds [OF assms(2)]
      ScopeKey_institutional_company [of a b] ScopeKey_institutional_company [of b a] k
      valid_scope_eqI [OF assms]
    by (auto simp: ScopeEquals_def)
next
  assume "ScopeEquals a b"
  then show "ScopeKey a = ScopeKey b"
    by (auto simp: ScopeEquals_def ScopeKey_def split: if_splits)
qed

theorem ScopeKey_iff_ScopeEquals_witness:
  "(ScopeKey (company_scope ''o'' ''c'' ''20100070970'' ''202601'') =
     ScopeKey (company_scope ''o'' ''c'' ''20100070970'' '''')) =
   ScopeEquals (company_scope ''o'' ''c'' ''20100070970'' ''202601'')
     (company_scope ''o'' ''c'' ''20100070970'' '''')"
  by (rule ScopeKey_iff_ScopeEquals)
     (simp_all add: AssertValidScope_def IsValidRUC_def IsValidPeriod_def is_digit_def digit_val_def)

text \<open>
  The validator does not exclude NUL bytes, so ScopeKey is not injective on accepted
  scopes: two different tenants can share one upsert key.
\<close>

theorem ScopeKey_collision:
  "\<exists>a b. AssertValidScope a = Inr () \<and> AssertValidScope b = Inr ()
       \<and> \<not> ScopeEquals a b \<and> ScopeKey a = ScopeKey b"
proof (intro exI conjI)
  let ?a = "company_scope (''a'' @ NUL @ ''b'') ''c'' ''20100070970'' ''''"
  let ?b = "company_scope ''a'' (''b'' @ NUL @ ''c'') ''20100070970'' ''''"
  show "AssertValidScope ?a = Inr ()" and "AssertValidScope ?b = Inr ()"
    by (simp_all add: AssertValidScope_def IsValidRUC_def is_digit_def)
  show "\<not> ScopeEquals ?a ?b" by (simp add: ScopeEquals_def)
  show "ScopeKey ?a = ScopeKey ?b" by (simp add: ScopeKey_def)
qed

lemma ruc_sum_digits:
  "length ws \<le> length s \<Longrightarrow> list_all is_digit (take (length ws) s) \<Longrightarrow>
   ruc_sum ws s acc = Some (acc + sum_list (map2 (\<lambda>w c. digit_val c * w) ws s))"
  by (induction ws s acc rule: ruc_sum.induct) auto

lemma ruc_sum_prefix: "length ws \<le> length p \<Longrightarrow> ruc_sum ws (p @ s) acc = ruc_sum ws p acc"
  by (induction ws p acc rule: ruc_sum.induct) auto

definition ruc_check_digit :: "nat \<Rightarrow> nat" where
  "ruc_check_digit sm = (let e = 11 - sm mod 11 in if e = 10 \<or> e = 11 then e - 10 else e)"

lemma ruc_check_digit_less: "ruc_check_digit sm < 10"
  by (simp add: ruc_check_digit_def Let_def) presburger

lemma digit_char_of: "is_digit c \<Longrightarrow> char_of (48 + digit_val c) = c"
  by (simp add: is_digit_def digit_val_def Let_def)

lemma digit_val_inject: "is_digit c \<Longrightarrow> is_digit d \<Longrightarrow> digit_val c = digit_val d \<Longrightarrow> c = d"
  by (metis digit_char_of)

lemma digit_of_val: "n < 10 \<Longrightarrow> is_digit (char_of (48 + n)) \<and> digit_val (char_of (48 + n)) = n"
  by (simp add: is_digit_def digit_val_def Let_def)

lemma IsValidFiscalRUC_snoc:
  assumes "length p = 10" and "list_all is_digit p"
  shows "IsValidFiscalRUC (p @ [d]) \<longleftrightarrow>
     is_digit d \<and> digit_val d = ruc_check_digit (sum_list (map2 (\<lambda>w c. digit_val c * w) rucWeights p))"
proof -
  have "ruc_sum rucWeights (p @ [d]) 0 = Some (sum_list (map2 (\<lambda>w c. digit_val c * w) rucWeights p))"
    using assms ruc_sum_prefix [of rucWeights p "[d]" 0] ruc_sum_digits [of rucWeights p 0]
    by (simp add: rucWeights_def)
  then show ?thesis
    using assms by (auto simp: IsValidFiscalRUC_def ClassifyRUC_def ruc_check_digit_def nth_append Let_def)
qed

text \<open>
  The SUNAT check digit is a function of the first ten digits: every ten-digit prefix
  has exactly one eleventh byte that makes it a valid fiscal RUC.
\<close>

theorem fiscal_ruc_unique_check_digit:
  assumes "length p = 10" and "list_all is_digit p"
  shows "\<exists>!d. IsValidFiscalRUC (p @ [d])"
proof -
  let ?n = "ruc_check_digit (sum_list (map2 (\<lambda>w c. digit_val c * w) rucWeights p))"
  show ?thesis
    unfolding IsValidFiscalRUC_snoc [OF assms]
    using digit_of_val [OF ruc_check_digit_less] digit_val_inject by metis
qed

theorem fiscal_ruc_unique_check_digit_witness: "\<exists>!d. IsValidFiscalRUC (''2010007097'' @ [d])"
  by (rule fiscal_ruc_unique_check_digit) (simp_all add: is_digit_def)

end
