(* ===== verification/Memory_Model.thy ===== *)
theory Memory_Model
  imports Complex_Main Scope_Model
begin

text \<open>
  The accounting memory of internal/core/types.go: its vocabularies, the policy-rule metadata
  and rule links, the close snapshot (internal/core/closing.go), the fiscal link contribution
  (internal/core/fiscal_act_evidence.go), the three canonical hashes with their contributions
  and the write-time validators. A nilable Go slice is a \<open>list option\<close> where the encoder
  tells nil from empty, and a plain list elsewhere.
\<close>

section \<open>Vocabularies\<close>

datatype MemoryKind = KindFact | KindEvidence | KindDecision | KindRule | KindException
  | KindControl | KindObligation | KindSummary | KindOther string

fun MemoryKind_str :: "MemoryKind \<Rightarrow> string" where
  "MemoryKind_str KindFact = ''fact''"
| "MemoryKind_str KindEvidence = ''evidence''"
| "MemoryKind_str KindDecision = ''decision''"
| "MemoryKind_str KindRule = ''rule''"
| "MemoryKind_str KindException = ''exception''"
| "MemoryKind_str KindControl = ''control''"
| "MemoryKind_str KindObligation = ''obligation''"
| "MemoryKind_str KindSummary = ''summary''"
| "MemoryKind_str (KindOther s) = s"

fun IsValidMemoryKind :: "MemoryKind \<Rightarrow> bool" where
  "IsValidMemoryKind (KindOther s) = False"
| "IsValidMemoryKind _ = True"

datatype MemoryStatus = StatusActive | StatusPendingReview | StatusApproved | StatusRejected
  | StatusReturned | StatusSuperseded | StatusVoided | StatusOther string

fun MemoryStatus_str :: "MemoryStatus \<Rightarrow> string" where
  "MemoryStatus_str StatusActive = ''active''"
| "MemoryStatus_str StatusPendingReview = ''pending_review''"
| "MemoryStatus_str StatusApproved = ''approved''"
| "MemoryStatus_str StatusRejected = ''rejected''"
| "MemoryStatus_str StatusReturned = ''returned''"
| "MemoryStatus_str StatusSuperseded = ''superseded''"
| "MemoryStatus_str StatusVoided = ''voided''"
| "MemoryStatus_str (StatusOther s) = s"

fun IsValidMemoryStatus :: "MemoryStatus \<Rightarrow> bool" where
  "IsValidMemoryStatus (StatusOther s) = False"
| "IsValidMemoryStatus _ = True"

datatype FiscalEffect = FiscalEffectNone | FiscalEffectJournalEntry | FiscalEffectDeclaration
  | FiscalEffectClosing | FiscalEffectAdjustment | FiscalEffectReclassification
  | FiscalEffectApproval | FiscalEffectSunatFiling | FiscalEffectOther string

fun FiscalEffect_str :: "FiscalEffect \<Rightarrow> string" where
  "FiscalEffect_str FiscalEffectNone = ''none''"
| "FiscalEffect_str FiscalEffectJournalEntry = ''journal_entry''"
| "FiscalEffect_str FiscalEffectDeclaration = ''declaration''"
| "FiscalEffect_str FiscalEffectClosing = ''closing''"
| "FiscalEffect_str FiscalEffectAdjustment = ''adjustment''"
| "FiscalEffect_str FiscalEffectReclassification = ''reclassification''"
| "FiscalEffect_str FiscalEffectApproval = ''approval''"
| "FiscalEffect_str FiscalEffectSunatFiling = ''sunat_filing''"
| "FiscalEffect_str (FiscalEffectOther s) = s"

fun IsValidFiscalEffect :: "FiscalEffect \<Rightarrow> bool" where
  "IsValidFiscalEffect (FiscalEffectOther s) = False"
| "IsValidFiscalEffect _ = True"

datatype MaterialityLevel = MaterialityNormal | MaterialityMaterial | MaterialityCritical
  | MaterialityOther string

fun IsValidMaterialityLevel :: "MaterialityLevel \<Rightarrow> bool" where
  "IsValidMaterialityLevel (MaterialityOther s) = False"
| "IsValidMaterialityLevel _ = True"

datatype Relation = RelationRelated | RelationCompatible | RelationScoped | RelationConflictsWith
  | RelationSupersedes | RelationNotConflict | RelationSupports | RelationContradicts
  | RelationExplains | RelationDerivedFrom | RelationPostedAs | RelationReconciles
  | RelationReverses | RelationRequires | RelationViolates | RelationApprovedBy
  | RelationRejectedBy | RelationOther string

fun IsValidRelation :: "Relation \<Rightarrow> bool" where
  "IsValidRelation (RelationOther s) = False"
| "IsValidRelation _ = True"

text \<open>The v1 to v2 migration mappings.\<close>

definition LegacyTypeToKind :: "string \<Rightarrow> MemoryKind" where
  "LegacyTypeToKind t =
     (if t \<in> {''decision'', ''judgment''} then KindDecision
      else if t \<in> {''policy'', ''pattern'', ''config'', ''preference''} then KindRule
      else if t \<in> {''discovery'', ''bugfix''} then KindFact
      else if t = ''architecture'' then KindSummary
      else KindFact)"

definition LegacyStatusToStatus :: "string \<Rightarrow> MemoryStatus" where
  "LegacyStatusToStatus s =
     (if s = ''promoted'' then StatusApproved
      else if s = ''superseded'' then StatusSuperseded
      else StatusActive)"

section \<open>Policy-rule metadata and rule links\<close>

record PolicyRule =
  pr_Jurisdiction :: string
  pr_Legislation :: string
  pr_Authority :: string
  pr_Tags :: "string list"

text \<open>The pattern \<^verbatim>\<open>^[A-Z][A-Z0-9-]{1,15}$\<close>.\<close>

definition jurisdiction_ok :: "string \<Rightarrow> bool" where
  "jurisdiction_ok s =
     (case s of [] \<Rightarrow> False
      | c # r \<Rightarrow> is_upper c \<and> 1 \<le> length r \<and> length r \<le> 15
               \<and> list_all (\<lambda>d. is_upper d \<or> is_digit d \<or> d = CHR ''-'') r)"

definition AssertValidPolicyRule :: "MemoryKind \<Rightarrow> PolicyRule option \<Rightarrow> unit result" where
  "AssertValidPolicyRule kind rule =
     (case rule of None \<Rightarrow> Inr ()
      | Some p \<Rightarrow>
          if kind \<noteq> KindRule then Inl (PlainErr ''INVALID_POLICY_RULE'')
          else if \<not> jurisdiction_ok (pr_Jurisdiction p) then Inl (PlainErr ''INVALID_POLICY_RULE'')
          else if blank (pr_Legislation p) then Inl (PlainErr ''INVALID_POLICY_RULE'')
          else if blank (pr_Authority p) then Inl (PlainErr ''INVALID_POLICY_RULE'')
          else if list_ex blank (pr_Tags p) then Inl (PlainErr ''INVALID_POLICY_RULE'')
          else Inr ())"

definition sortedUniqueTags :: "string list \<Rightarrow> string list" where
  "sortedUniqueTags tags = sort (dedup tags)"

definition CanonicalPolicyRuleJSON :: "PolicyRule \<Rightarrow> string" where
  "CanonicalPolicyRuleJSON p =
     enc False (JObj
       [(''jurisdiction'', JStr (pr_Jurisdiction p)), (''legislation'', JStr (pr_Legislation p)),
        (''authority'', JStr (pr_Authority p)), (''tags'', str_arr (sortedUniqueTags (pr_Tags p)))])"

record RuleLink =
  rl_Ref :: string
  rl_Version :: string
  rl_EffectiveAt :: string

definition AssertValidRuleLink :: "RuleLink \<Rightarrow> unit result" where
  "AssertValidRuleLink l =
     (if blank (rl_Ref l) then Inl (PlainErr ''INVALID_RULE_LINK'')
      else if blank (rl_Version l) then Inl (PlainErr ''INVALID_RULE_LINK'')
      else if parse_rfc3339 (rl_EffectiveAt l) = None then Inl (PlainErr ''INVALID_RULE_LINK'')
      else Inr ())"

text \<open>The loop of AssertValidRuleLinks; \<open>seen\<close> maps a ref to its first link.\<close>

fun rule_links_loop :: "(string \<rightharpoonup> RuleLink) \<Rightarrow> RuleLink list \<Rightarrow> RuleLink list result" where
  "rule_links_loop seen [] = Inr []"
| "rule_links_loop seen (l # ls) =
     and_then (AssertValidRuleLink l) (\<lambda>_.
       case seen (rl_Ref l) of
         Some prev \<Rightarrow>
           if rl_Version prev \<noteq> rl_Version l \<or> rl_EffectiveAt prev \<noteq> rl_EffectiveAt l
           then Inl (PlainErr ''RULE_LINK_VERSION_CONFLICT'')
           else rule_links_loop seen ls
       | None \<Rightarrow> and_then (rule_links_loop (seen(rl_Ref l \<mapsto> l)) ls) (\<lambda>out. Inr (l # out)))"

definition AssertValidRuleLinks :: "RuleLink list \<Rightarrow> RuleLink list result" where
  "AssertValidRuleLinks links = rule_links_loop Map.empty links"

definition DeriveRuleRefs :: "string list \<Rightarrow> RuleLink list \<Rightarrow> string list" where
  "DeriveRuleRefs existing links =
     dedup (filter (\<lambda>r. r \<noteq> '''') existing @ map rl_Ref links)"

section \<open>The close snapshot\<close>

record CloseCounts =
  cc_Total :: int
  cc_ByKind :: "(string \<times> int) list option"
  cc_ByStatus :: "(string \<times> int) list option"

record CloseTotal =
  ct_Code :: string
  ct_Currency :: string
  ct_AmountCents :: int
  ct_SourceMemoryIDs :: "string list option"

record ClosePendingItem =
  cp_MemoryID :: string
  cp_TopicKey :: string
  cp_Kind :: string
  cp_Status :: string
  cp_Title :: string
  cp_EffectiveAt :: string

record CloseSnapshot =
  cs_Period :: string
  cs_GeneratedAt :: string
  cs_SummaryHash :: string
  cs_Counts :: CloseCounts
  cs_Totals :: "CloseTotal list option"
  cs_PendingItems :: "ClosePendingItem list option"
  cs_Proposed :: int
  cs_Confirmed :: int
  cs_Rejected :: int
  cs_NarrativeMemoryIDs :: "string list option"

text \<open>A nil slice or map encodes as \<^verbatim>\<open>null\<close>, a map with its keys sorted.\<close>

definition slice_json :: "('a \<Rightarrow> json) \<Rightarrow> 'a list option \<Rightarrow> json" where
  "slice_json f xs = (case xs of None \<Rightarrow> JNull | Some l \<Rightarrow> JArr (map f l))"

definition count_map_json :: "(string \<times> int) list option \<Rightarrow> json" where
  "count_map_json m =
     (case m of None \<Rightarrow> JNull
      | Some kvs \<Rightarrow> JObj (map (\<lambda>(k, v). (k, JInt v)) (sort_key fst kvs)))"

definition close_total_json :: "CloseTotal \<Rightarrow> json" where
  "close_total_json t = JObj
     [(''code'', JStr (ct_Code t)), (''currency'', JStr (ct_Currency t)),
      (''amountCents'', JInt (ct_AmountCents t)),
      (''sourceMemoryIds'', slice_json JStr (ct_SourceMemoryIDs t))]"

definition close_pending_json :: "ClosePendingItem \<Rightarrow> json" where
  "close_pending_json p = JObj
     [(''memoryId'', JStr (cp_MemoryID p)), (''topicKey'', JStr (cp_TopicKey p)),
      (''kind'', JStr (cp_Kind p)), (''status'', JStr (cp_Status p)),
      (''title'', JStr (cp_Title p)), (''effectiveAt'', JStr (cp_EffectiveAt p))]"

definition CanonicalCloseSnapshotJSON :: "CloseSnapshot \<Rightarrow> string" where
  "CanonicalCloseSnapshotJSON s = enc False (JObj
     [(''period'', JStr (cs_Period s)), (''generatedAt'', JStr (cs_GeneratedAt s)),
      (''summaryHash'', JStr (cs_SummaryHash s)),
      (''counts'', JObj
         [(''total'', JInt (cc_Total (cs_Counts s))),
          (''byKind'', count_map_json (cc_ByKind (cs_Counts s))),
          (''byStatus'', count_map_json (cc_ByStatus (cs_Counts s)))]),
      (''totals'', slice_json close_total_json (cs_Totals s)),
      (''pendingItems'', slice_json close_pending_json (cs_PendingItems s)),
      (''reconciliation'', JObj
         [(''proposed'', JInt (cs_Proposed s)), (''confirmed'', JInt (cs_Confirmed s)),
          (''rejected'', JInt (cs_Rejected s))]),
      (''narrativeMemoryIds'', slice_json JStr (cs_NarrativeMemoryIDs s))])"

definition CloseSnapshotSummaryHash :: "CloseSnapshot \<Rightarrow> string" where
  "CloseSnapshotSummaryHash s = sha256_hex (CanonicalCloseSnapshotJSON s)"

definition closeSnapshotCanonicalContribution :: "CloseSnapshot option \<Rightarrow> string" where
  "closeSnapshotCanonicalContribution s =
     (case s of None \<Rightarrow> '''' | Some c \<Rightarrow> ''close_snapshot'' @ NUL @ CanonicalCloseSnapshotJSON c)"

text \<open>\<^verbatim>\<open>append([]T(nil), xs...)\<close>: an empty slice, nil or not, becomes nil.\<close>

definition clone_slice :: "'a list option \<Rightarrow> 'a list option" where
  "clone_slice xs = (case xs of Some (y # ys) \<Rightarrow> Some (y # ys) | _ \<Rightarrow> None)"

definition CloneCloseSnapshot :: "CloseSnapshot \<Rightarrow> CloseSnapshot" where
  "CloneCloseSnapshot s = s\<lparr>
     cs_Totals := map_option (map (\<lambda>t. t\<lparr>ct_SourceMemoryIDs := clone_slice (ct_SourceMemoryIDs t)\<rparr>))
                    (clone_slice (cs_Totals s)),
     cs_PendingItems := clone_slice (cs_PendingItems s),
     cs_NarrativeMemoryIDs := clone_slice (cs_NarrativeMemoryIDs s)\<rparr>"

section \<open>Fiscal link contribution\<close>

record FiscalBindingLinkContribution =
  fl_Sequence :: int
  fl_BindingHash :: string
  fl_ActEvidenceHash :: string

definition fiscalEnvelopeLinksFrame :: string where
  "fiscalEnvelopeLinksFrame = ''drenyra:fiscal-envelope-links:v1'' @ NUL"

definition fiscal_link_bytes :: "FiscalBindingLinkContribution \<Rightarrow> string" where
  "fiscal_link_bytes l =
     dec_int (fl_Sequence l) @ '':'' @ fl_BindingHash l @ '':'' @ fl_ActEvidenceHash l @ NUL"

definition fiscalLinksEnvelopeContribution :: "FiscalBindingLinkContribution list \<Rightarrow> string" where
  "fiscalLinksEnvelopeContribution links =
     (if links = [] then '''' else fiscalEnvelopeLinksFrame @ concat (map fiscal_link_bytes links))"

end
