(* ===== verification/Memory_Hash.thy ===== *)
theory Memory_Hash
  imports Memory_Model
begin

text \<open>
  AccountingMemory of internal/core/types.go, its three canonical hashes and its validators.
  Confidence is a float64: a finite value is the rational it denotes.
\<close>

section \<open>The memory\<close>

datatype go_float = Fin rat | PosInf | NegInf | NaN

text \<open>IEEE comparison with a finite constant; every comparison with NaN is false.\<close>

fun float_less :: "go_float \<Rightarrow> rat \<Rightarrow> bool" where
  "float_less (Fin x) c = (x < c)"
| "float_less PosInf c = False"
| "float_less NegInf c = True"
| "float_less NaN c = False"

fun float_greater :: "go_float \<Rightarrow> rat \<Rightarrow> bool" where
  "float_greater (Fin x) c = (c < x)"
| "float_greater PosInf c = True"
| "float_greater NegInf c = False"
| "float_greater NaN c = False"

record Content =
  co_What :: string
  co_Why :: string
  co_Where :: string
  co_Learned :: string

record Validity =
  va_EffectiveAt :: string
  va_ExpiresAt :: string
  va_Source :: string

record AccountingMemory =
  m_ID :: string
  m_TopicKey :: string
  m_Title :: string
  m_Kind :: MemoryKind
  m_Scope :: Scope
  m_Content :: Content
  m_Status :: MemoryStatus
  m_FiscalEffect :: FiscalEffect
  m_EffectiveAt :: string
  m_RecordedAt :: string
  m_ObservedAt :: string
  m_Source :: Source
  m_Validity :: "Validity option"
  m_EvidenceRefs :: "string list"
  m_RuleRefs :: "string list"
  m_Confidence :: go_float
  m_Materiality :: "int option"
  m_MaterialityLevel :: "MaterialityLevel option"
  m_CloseSnapshot :: "CloseSnapshot option"
  m_PolicyRule :: "PolicyRule option"
  m_RuleLinks :: "RuleLink list"
  m_ContentHash :: string
  m_IdentityHash :: string
  m_EnvelopeHash :: string
  m_ReceiptID :: string
  m_SupersedesID :: string
  m_Revision :: int
  m_FiscalLinks :: "FiscalBindingLinkContribution list"

section \<open>Canonical hashes\<close>

definition policyRuleCanonicalContribution :: "AccountingMemory \<Rightarrow> string" where
  "policyRuleCanonicalContribution m =
     (case m_PolicyRule m of None \<Rightarrow> ''''
      | Some p \<Rightarrow>
          (let (effectiveAt, expiresAt, source) =
             (case m_Validity m of None \<Rightarrow> ('''', '''', '''')
              | Some v \<Rightarrow> (va_EffectiveAt v, va_ExpiresAt v, va_Source v))
           in ''policyRule/v0.6'' @ NUL @ CanonicalPolicyRuleJSON p @ NUL @ effectiveAt @ NUL @ expiresAt
                @ NUL @ source))"

definition append_nonempty :: "string \<Rightarrow> string list" where
  "append_nonempty contribution = (if contribution \<noteq> '''' then [contribution] else [])"

definition content_canonical :: "AccountingMemory \<Rightarrow> string" where
  "content_canonical m = join NUL
     ([ScopeKey (m_Scope m), MemoryKind_str (m_Kind m), m_Title m, FiscalEffect_str (m_FiscalEffect m),
       m_EffectiveAt m, co_What (m_Content m), co_Why (m_Content m), co_Where (m_Content m),
       co_Learned (m_Content m), src_System (m_Source m), ActorKind_str (src_ActorKind (m_Source m))]
      @ append_nonempty (closeSnapshotCanonicalContribution (m_CloseSnapshot m))
      @ append_nonempty (policyRuleCanonicalContribution m))"

definition ComputeContentHash :: "AccountingMemory \<Rightarrow> string" where
  "ComputeContentHash m = sha256_hex (content_canonical m)"

definition identity_canonical :: "AccountingMemory \<Rightarrow> string" where
  "identity_canonical m =
     join NUL [ScopeKey (m_Scope m), m_TopicKey m, m_EffectiveAt m, src_Reference (m_Source m)]"

definition ComputeIdentityHash :: "AccountingMemory \<Rightarrow> string" where
  "ComputeIdentityHash m = sha256_hex (identity_canonical m)"

definition canonicalRefs :: "string list \<Rightarrow> string" where
  "canonicalRefs refs = join NUL (sort (dedup (filter (\<lambda>r. r \<noteq> '''') refs)))"

definition envelope_canonical :: "AccountingMemory \<Rightarrow> string" where
  "envelope_canonical m = join NUL
     ([ComputeIdentityHash m, m_ContentHash m, FiscalEffect_str (m_FiscalEffect m),
       MemoryStatus_str (m_Status m), src_System (m_Source m), src_ActorID (m_Source m),
       ActorKind_str (src_ActorKind (m_Source m)), src_Model (m_Source m), src_Session (m_Source m),
       m_RecordedAt m, m_ObservedAt m, m_SupersedesID m, m_ReceiptID m,
       canonicalRefs (m_EvidenceRefs m), canonicalRefs (m_RuleRefs m)]
      @ append_nonempty (closeSnapshotCanonicalContribution (m_CloseSnapshot m))
      @ append_nonempty (policyRuleCanonicalContribution m)
      @ append_nonempty (fiscalLinksEnvelopeContribution (m_FiscalLinks m)))"

definition ComputeEnvelopeHash :: "AccountingMemory \<Rightarrow> string" where
  "ComputeEnvelopeHash m = sha256_hex (envelope_canonical m)"

section \<open>Validators\<close>

definition AssertValidContent :: "Content \<Rightarrow> unit result" where
  "AssertValidContent c =
     (if blank (co_What c) \<or> blank (co_Why c) \<or> blank (co_Where c) \<or> blank (co_Learned c)
      then Inl (PlainErr ''INVALID_CONTENT'') else Inr ())"

definition AssertValidValidity :: "Validity option \<Rightarrow> unit result" where
  "AssertValidValidity v =
     (case v of None \<Rightarrow> Inr ()
      | Some w \<Rightarrow>
          if va_EffectiveAt w \<noteq> '''' \<and> ParseDateTime (va_EffectiveAt w) = None
          then Inl (PlainErr ''INVALID_VALIDITY'')
          else if va_ExpiresAt w \<noteq> '''' \<and> ParseDateTime (va_ExpiresAt w) = None
          then Inl (PlainErr ''INVALID_VALIDITY'')
          else Inr ())"

definition AssertValidMemory :: "AccountingMemory \<Rightarrow> unit result" where
  "AssertValidMemory m =
     and_then (AssertValidScope (m_Scope m)) (\<lambda>_.
     and_then (AssertValidContent (m_Content m)) (\<lambda>_.
     and_then (AssertValidSource (m_Source m)) (\<lambda>_.
     and_then (ensure (IsValidMemoryKind (m_Kind m)) (PlainErr ''INVALID_KIND'')) (\<lambda>_.
     and_then (AssertValidPolicyRule (m_Kind m) (m_PolicyRule m)) (\<lambda>_.
     and_then (ensure (IsValidMemoryStatus (m_Status m)) (PlainErr ''INVALID_STATUS'')) (\<lambda>_.
     and_then (ensure (IsValidFiscalEffect (m_FiscalEffect m)) (PlainErr ''INVALID_FISCAL_EFFECT'')) (\<lambda>_.
     and_then (ensure (m_EffectiveAt m \<noteq> '''') (PlainErr ''INVALID_EFFECTIVE_AT'')) (\<lambda>_.
     and_then (ensure (ParseDateTime (m_EffectiveAt m) \<noteq> None) (PlainErr ''INVALID_EFFECTIVE_AT'')) (\<lambda>_.
     and_then (ensure (m_ObservedAt m = '''' \<or> ParseDateTime (m_ObservedAt m) \<noteq> None)
                (PlainErr ''INVALID_OBSERVED_AT'')) (\<lambda>_.
     and_then (ensure (\<not> (float_less (m_Confidence m) 0 \<or> float_greater (m_Confidence m) 1))
                (PlainErr ''INVALID_CONFIDENCE'')) (\<lambda>_.
     and_then (ensure (case m_Materiality m of None \<Rightarrow> True | Some c \<Rightarrow> \<not> c < 0)
                (PlainErr ''INVALID_MATERIALITY'')) (\<lambda>_.
     ensure (case m_MaterialityLevel m of None \<Rightarrow> True | Some l \<Rightarrow> IsValidMaterialityLevel l)
       (PlainErr ''INVALID_MATERIALITY_LEVEL'')))))))))))))"

definition IsCloseMemory :: "AccountingMemory \<Rightarrow> bool" where
  "IsCloseMemory m =
     (if m_Kind m \<noteq> KindSummary \<or> m_FiscalEffect m \<noteq> FiscalEffectClosing then False
      else if sc_Kind (m_Scope m) \<noteq> ScopeKindCompany \<or> sc_Period (m_Scope m) = '''' then False
      else m_TopicKey m = ''closing/CIERRE-'' @ sc_Period (m_Scope m))"

section \<open>The canonical strings as token lists\<close>

definition scope_tokens :: "Scope \<Rightarrow> string list" where
  "scope_tokens s =
     (if sc_Kind s = ScopeKindInstitutional then [''institutional'']
      else [''company'', sc_OrganizationID s, sc_CompanyID s, sc_RUC s, sc_Period s])"

definition snapshot_tokens :: "CloseSnapshot option \<Rightarrow> string list" where
  "snapshot_tokens s = (case s of None \<Rightarrow> [] | Some c \<Rightarrow> [''close_snapshot'', CanonicalCloseSnapshotJSON c])"

definition validity_tokens :: "Validity option \<Rightarrow> string list" where
  "validity_tokens v = (case v of None \<Rightarrow> ['''', '''', '''']
     | Some w \<Rightarrow> [va_EffectiveAt w, va_ExpiresAt w, va_Source w])"

definition policy_tokens :: "AccountingMemory \<Rightarrow> string list" where
  "policy_tokens m =
     (case m_PolicyRule m of None \<Rightarrow> []
      | Some p \<Rightarrow> [''policyRule/v0.6'', CanonicalPolicyRuleJSON p] @ validity_tokens (m_Validity m))"

text \<open>The free-text fields of the content hash, in order.\<close>

definition content_fields :: "AccountingMemory \<Rightarrow> string list" where
  "content_fields m =
     [MemoryKind_str (m_Kind m), m_Title m, FiscalEffect_str (m_FiscalEffect m), m_EffectiveAt m,
      co_What (m_Content m), co_Why (m_Content m), co_Where (m_Content m), co_Learned (m_Content m),
      src_System (m_Source m), ActorKind_str (src_ActorKind (m_Source m))]"

definition content_tokens :: "AccountingMemory \<Rightarrow> string list" where
  "content_tokens m =
     scope_tokens (m_Scope m) @ content_fields m @ snapshot_tokens (m_CloseSnapshot m) @ policy_tokens m"

text \<open>Every caller-supplied field that enters the content hash is free of the separator.\<close>

definition content_nul_free :: "AccountingMemory \<Rightarrow> bool" where
  "content_nul_free m \<longleftrightarrow> list_all nul_free
     (scope_tokens (m_Scope m) @ content_fields m @ validity_tokens (m_Validity m))"

lemma ScopeKey_tokens: "ScopeKey s = join NUL (scope_tokens s)"
  by (simp add: ScopeKey_def scope_tokens_def)

lemma closeSnapshotCanonicalContribution_tokens:
  "append_nonempty (closeSnapshotCanonicalContribution s) = (if s = None then [] else [join NUL (snapshot_tokens s)])"
  by (auto simp: closeSnapshotCanonicalContribution_def append_nonempty_def snapshot_tokens_def split: option.splits)

lemma policyRuleCanonicalContribution_tokens:
  "append_nonempty (policyRuleCanonicalContribution m) =
     (if m_PolicyRule m = None then [] else [join NUL (policy_tokens m)])"
  by (auto simp: policyRuleCanonicalContribution_def append_nonempty_def policy_tokens_def validity_tokens_def
      split: option.splits)

text \<open>A join of joins is a join, empty groups dropped.\<close>

lemma join_concat:
  "list_all (\<lambda>g. g \<noteq> []) gs \<Longrightarrow> join sep (map (join sep) gs) = join sep (concat gs)"
proof (induction gs)
  case (Cons g gs)
  then show ?case
  proof (cases gs)
    case (Cons g' gs')
    with Cons.prems have "concat gs \<noteq> []" "g \<noteq> []" by auto
    with Cons Cons.IH Cons.prems show ?thesis by (simp add: join_append)
  qed simp
qed simp

lemma content_canonical_tokens: "content_canonical m = join NUL (content_tokens m)"
proof -
  let ?gs = "[scope_tokens (m_Scope m), content_fields m] @ (if m_CloseSnapshot m = None then [] else [snapshot_tokens (m_CloseSnapshot m)])
     @ (if m_PolicyRule m = None then [] else [policy_tokens m])"
  have ne: "list_all (\<lambda>g. g \<noteq> []) ?gs"
    by (auto simp: scope_tokens_def content_fields_def snapshot_tokens_def policy_tokens_def)
  have cc: "concat ?gs = content_tokens m"
    by (auto simp: content_tokens_def snapshot_tokens_def policy_tokens_def)
  have "content_canonical m = join NUL (map (join NUL) ?gs)"
    by (simp add: content_canonical_def ScopeKey_tokens closeSnapshotCanonicalContribution_tokens
        policyRuleCanonicalContribution_tokens content_fields_def)
  then show ?thesis using join_concat [OF ne] cc by simp
qed

lemma content_tokens_nul_free: "content_nul_free m \<Longrightarrow> list_all nul_free (content_tokens m)"
  by (auto simp: content_nul_free_def content_tokens_def snapshot_tokens_def policy_tokens_def
      CanonicalCloseSnapshotJSON_def CanonicalPolicyRuleJSON_def enc_nul_free
      simp del: enc.simps split: option.splits)

lemma content_tokens_inject:
  assumes "content_tokens m = content_tokens m'"
  shows "scope_tokens (m_Scope m) = scope_tokens (m_Scope m') \<and> content_fields m = content_fields m'
       \<and> snapshot_tokens (m_CloseSnapshot m) = snapshot_tokens (m_CloseSnapshot m') \<and> policy_tokens m = policy_tokens m'"
proof -
  have lens: "length (scope_tokens s) \<in> {1, 5}" "length (content_fields n) = 10"
    "length (snapshot_tokens c) \<in> {0, 2}" "length (policy_tokens n) \<in> {0, 5}" for s n c
    by (auto simp: scope_tokens_def content_fields_def snapshot_tokens_def policy_tokens_def validity_tokens_def
        split: option.splits)
  have hds: "hd (scope_tokens s) = ''company'' \<longleftrightarrow> length (scope_tokens s) = 5"
    and ne: "scope_tokens s \<noteq> []" for s
    by (auto simp: scope_tokens_def)
  have "hd (content_tokens n) = hd (scope_tokens (m_Scope n))" for n
    using ne by (simp add: content_tokens_def)
  with assms hds have sl: "length (scope_tokens (m_Scope m)) = 5 \<longleftrightarrow> length (scope_tokens (m_Scope m')) = 5"
    by metis
  with lens(1) have sl: "length (scope_tokens (m_Scope m)) = length (scope_tokens (m_Scope m'))"
    by (metis empty_iff insert_iff)
  with assms have 1: "scope_tokens (m_Scope m) = scope_tokens (m_Scope m')"
    and r: "content_fields m @ snapshot_tokens (m_CloseSnapshot m) @ policy_tokens m
          = content_fields m' @ snapshot_tokens (m_CloseSnapshot m') @ policy_tokens m'"
    by (auto simp: content_tokens_def)
  from r lens(2) have 2: "content_fields m = content_fields m'"
    and r: "snapshot_tokens (m_CloseSnapshot m) @ policy_tokens m = snapshot_tokens (m_CloseSnapshot m') @ policy_tokens m'"
    by (auto simp: append_eq_append_conv)
  have "length (snapshot_tokens (m_CloseSnapshot m)) = length (snapshot_tokens (m_CloseSnapshot m'))"
    using arg_cong [OF r, of length] lens(3) [of "m_CloseSnapshot m"] lens(3) [of "m_CloseSnapshot m'"]
      lens(4) [of m] lens(4) [of m'] by auto
  with r 1 2 show ?thesis by auto
qed

section \<open>The envelope string around its two reference lists\<close>

definition envelope_pre :: "AccountingMemory \<Rightarrow> string list" where
  "envelope_pre m =
     [ComputeIdentityHash m, m_ContentHash m, FiscalEffect_str (m_FiscalEffect m),
      MemoryStatus_str (m_Status m), src_System (m_Source m), src_ActorID (m_Source m),
      ActorKind_str (src_ActorKind (m_Source m)), src_Model (m_Source m), src_Session (m_Source m),
      m_RecordedAt m, m_ObservedAt m, m_SupersedesID m, m_ReceiptID m]"

definition envelope_post :: "AccountingMemory \<Rightarrow> string list" where
  "envelope_post m =
     append_nonempty (closeSnapshotCanonicalContribution (m_CloseSnapshot m))
      @ append_nonempty (policyRuleCanonicalContribution m)
      @ append_nonempty (fiscalLinksEnvelopeContribution (m_FiscalLinks m))"

lemma policyRuleCanonicalContribution_refs:
  "policyRuleCanonicalContribution (m\<lparr>m_EvidenceRefs := ev, m_RuleRefs := ru\<rparr>) = policyRuleCanonicalContribution m"
  by (simp add: policyRuleCanonicalContribution_def split: option.split)

lemma envelope_canonical_refs:
  "envelope_canonical (m\<lparr>m_EvidenceRefs := ev, m_RuleRefs := ru\<rparr>) =
   join NUL (envelope_pre m @ [canonicalRefs ev, canonicalRefs ru] @ envelope_post m)"
  by (simp add: envelope_canonical_def envelope_pre_def envelope_post_def ComputeIdentityHash_def
      identity_canonical_def policyRuleCanonicalContribution_refs del: join.simps)

lemma envelope_canonical_self:
  "envelope_canonical m =
   join NUL (envelope_pre m @ [canonicalRefs (m_EvidenceRefs m), canonicalRefs (m_RuleRefs m)] @ envelope_post m)"
  using envelope_canonical_refs [where m = m and ev = "m_EvidenceRefs m" and ru = "m_RuleRefs m"] by simp

lemma join_two: "join sep (xs @ [a, b] @ ys) = join sep (xs @ [a @ sep @ b] @ ys)"
proof (induction xs)
  case Nil
  then show ?case by (cases ys) simp_all
next
  case (Cons x xs)
  then show ?case by (simp add: join_Cons)
qed

section \<open>Properties\<close>

definition sample_memory :: AccountingMemory where
  "sample_memory = \<lparr>m_ID = ''m1'', m_TopicKey = ''t'', m_Title = ''Invoice'', m_Kind = KindFact,
     m_Scope = company_scope ''o'' ''c'' ''20100070970'' ''202601'',
     m_Content = \<lparr>co_What = ''a'', co_Why = ''b'', co_Where = ''c'', co_Learned = ''d''\<rparr>,
     m_Status = StatusPendingReview, m_FiscalEffect = FiscalEffectJournalEntry,
     m_EffectiveAt = ''2026-01-31T23:59:59Z'', m_RecordedAt = ''2026-02-01T00:00:00Z'', m_ObservedAt = '''',
     m_Source = \<lparr>src_System = ''sire'', src_Reference = '''', src_ActorID = ''u1'',
       src_ActorKind = ActorKindAgent, src_Model = '''', src_Session = ''''\<rparr>,
     m_Validity = None, m_EvidenceRefs = [], m_RuleRefs = [], m_Confidence = Fin (9/10),
     m_Materiality = None, m_MaterialityLevel = None, m_CloseSnapshot = None, m_PolicyRule = None,
     m_RuleLinks = [], m_ContentHash = '''', m_IdentityHash = '''', m_EnvelopeHash = '''',
     m_ReceiptID = '''', m_SupersedesID = '''', m_Revision = 1, m_FiscalLinks = []\<rparr>"

text \<open>
  C38: The preimage of the content hash determines every immutable field it covers: when no
  caller-supplied field carries a NUL byte, equal canonical strings imply equal scope key, kind,
  title, fiscal effect, effective date, content, source system and actor kind, equal close
  snapshot bytes and equal policy-rule bytes with their validity window.
\<close>

theorem content_canonical_determines_fields:
  assumes "content_nul_free m" and "content_nul_free m'"
    and "content_canonical m = content_canonical m'"
  shows "ScopeKey (m_Scope m) = ScopeKey (m_Scope m') \<and> content_fields m = content_fields m'
       \<and> closeSnapshotCanonicalContribution (m_CloseSnapshot m) = closeSnapshotCanonicalContribution (m_CloseSnapshot m')
       \<and> policyRuleCanonicalContribution m = policyRuleCanonicalContribution m'"
proof -
  have "content_tokens m \<noteq> []" "content_tokens m' \<noteq> []"
    by (auto simp: content_tokens_def content_fields_def)
  with assms have "content_tokens m = content_tokens m'"
    by (simp add: content_canonical_tokens join_nul_inject content_tokens_nul_free)
  note t = content_tokens_inject [OF this]
  have cs: "closeSnapshotCanonicalContribution s = join NUL (snapshot_tokens s)" for s
    by (simp add: closeSnapshotCanonicalContribution_def snapshot_tokens_def split: option.split)
  have pr: "policyRuleCanonicalContribution n = join NUL (policy_tokens n)" for n
    by (simp add: policyRuleCanonicalContribution_def policy_tokens_def validity_tokens_def split: option.split)
  show ?thesis using t by (simp add: ScopeKey_tokens cs pr)
qed

theorem content_canonical_determines_fields_witness:
  "closeSnapshotCanonicalContribution (m_CloseSnapshot sample_memory) =
     closeSnapshotCanonicalContribution (m_CloseSnapshot (sample_memory\<lparr>m_Revision := 2\<rparr>))"
proof -
  have "content_nul_free sample_memory" "content_nul_free (sample_memory\<lparr>m_Revision := 2\<rparr>)"
    by (simp_all add: content_nul_free_def content_fields_def scope_tokens_def validity_tokens_def
        sample_memory_def company_scope_def)
  moreover have "content_canonical sample_memory = content_canonical (sample_memory\<lparr>m_Revision := 2\<rparr>)"
    by (simp add: content_canonical_def policyRuleCanonicalContribution_def sample_memory_def)
  ultimately show ?thesis
    using content_canonical_determines_fields by blast
qed

text \<open>
  The envelope hash does not separate the evidence references from the rule references:
  moving the last evidence reference of a memory to the front of its rule references leaves the
  envelope hash unchanged, although both lists are said to be covered by it.
\<close>

theorem envelope_hash_ref_boundary:
  "ComputeEnvelopeHash (m\<lparr>m_EvidenceRefs := [''a'', ''b''], m_RuleRefs := [''c'']\<rparr>) =
   ComputeEnvelopeHash (m\<lparr>m_EvidenceRefs := [''a''], m_RuleRefs := [''b'', ''c'']\<rparr>)"
  unfolding ComputeEnvelopeHash_def envelope_canonical_refs join_two
  by (simp add: canonicalRefs_def dedup_def)

text \<open>
  Evidence and rule references are sets for the envelope hash: order, repetition and empty
  entries do not change it.
\<close>

theorem envelope_hash_refs_as_sets:
  assumes "set (m_EvidenceRefs m) - {''''} = set ev - {''''}" and "set (m_RuleRefs m) - {''''} = set ru - {''''}"
  shows "ComputeEnvelopeHash (m\<lparr>m_EvidenceRefs := ev, m_RuleRefs := ru\<rparr>) = ComputeEnvelopeHash m"
proof -
  have "canonicalRefs xs = canonicalRefs ys" if "set xs - {''''} = set ys - {''''}" for xs ys
  proof -
    have "set (filter (\<lambda>r. r \<noteq> '''') xs) = set (filter (\<lambda>r. r \<noteq> '''') ys)" using that by auto
    from sort_dedup_cong [OF this] show ?thesis by (simp only: canonicalRefs_def)
  qed
  from this [OF assms(1)] this [OF assms(2)]
  have "envelope_canonical (m\<lparr>m_EvidenceRefs := ev, m_RuleRefs := ru\<rparr>) = envelope_canonical m"
    by (simp only: envelope_canonical_refs envelope_canonical_self [of m])
  then show ?thesis by (simp only: ComputeEnvelopeHash_def)
qed

theorem envelope_hash_refs_as_sets_witness:
  "ComputeEnvelopeHash ((sample_memory\<lparr>m_EvidenceRefs := [''b'', ''a'', ''b'']\<rparr>)
      \<lparr>m_EvidenceRefs := [''a'', '''', ''b''], m_RuleRefs := []\<rparr>) =
   ComputeEnvelopeHash (sample_memory\<lparr>m_EvidenceRefs := [''b'', ''a'', ''b'']\<rparr>)"
  by (rule envelope_hash_refs_as_sets) (auto simp: sample_memory_def)

text \<open>
  The clone the save path stores is not byte-faithful: a close snapshot with an empty,
  non-nil list of pending items and no totals is cloned to one whose canonical bytes differ
  from those its summary hash was computed over.
\<close>

theorem clone_close_snapshot_changes_bytes:
  "CanonicalCloseSnapshotJSON (CloneCloseSnapshot (s\<lparr>cs_Totals := None, cs_PendingItems := Some []\<rparr>)) \<noteq>
   CanonicalCloseSnapshotJSON (s\<lparr>cs_Totals := None, cs_PendingItems := Some []\<rparr>)"
  by (simp add: CanonicalCloseSnapshotJSON_def CloneCloseSnapshot_def clone_slice_def slice_json_def)

lemma rule_links_loop_Inr:
  assumes "\<And>k v. seen k = Some v \<Longrightarrow> rl_Ref v = k" and "rule_links_loop seen ls = Inr out"
  shows "distinct (map rl_Ref out) \<and> rl_Ref ` set out \<inter> dom seen = {} \<and> set out \<subseteq> set ls
   \<and> (\<forall>l \<in> set ls. AssertValidRuleLink l = Inr () \<and> (l \<in> set out \<or> seen (rl_Ref l) = Some l))"
  using assms
proof (induction seen ls arbitrary: out rule: rule_links_loop.induct)
  case (2 seen l ls)
  from "2.prems"(2) have v: "AssertValidRuleLink l = Inr ()" by (auto simp: guard_simps)
  show ?case
  proof (cases "seen (rl_Ref l)")
    case None
    with "2.prems"(2) v obtain out' where o: "rule_links_loop (seen(rl_Ref l \<mapsto> l)) ls = Inr out'" "out = l # out'"
      by (auto simp: guard_simps)
    have "distinct (map rl_Ref out') \<and> rl_Ref ` set out' \<inter> dom (seen(rl_Ref l \<mapsto> l)) = {} \<and> set out' \<subseteq> set ls
       \<and> (\<forall>x \<in> set ls. AssertValidRuleLink x = Inr () \<and> (x \<in> set out' \<or> (seen(rl_Ref l \<mapsto> l)) (rl_Ref x) = Some x))"
      by (rule "2.IH"(1) [OF None _ o(1)]) (use "2.prems"(1) in \<open>auto split: if_splits\<close>)
    with o v None show ?thesis by (auto split: if_splits)
  next
    case (Some prev)
    with "2.prems" v have p: "prev = l" and o: "rule_links_loop seen ls = Inr out"
      by (auto split: if_splits)
    have "distinct (map rl_Ref out) \<and> rl_Ref ` set out \<inter> dom seen = {} \<and> set out \<subseteq> set ls
       \<and> (\<forall>x \<in> set ls. AssertValidRuleLink x = Inr () \<and> (x \<in> set out \<or> seen (rl_Ref x) = Some x))"
      by (rule "2.IH"(2) [OF Some]) (use "2.prems"(1) o p in auto)
    with Some p v show ?thesis by auto
  qed
qed auto

text \<open>
  AssertValidRuleLinks deduplicates and never re-pins: when it accepts, every link is well
  formed, the result holds exactly the given links and no ref occurs twice, so no two accepted
  links pin the same ref to different versions or dates.
\<close>

theorem AssertValidRuleLinks_sound:
  assumes "AssertValidRuleLinks links = Inr out"
  shows "set out = set links \<and> distinct (map rl_Ref out) \<and> (\<forall>l \<in> set links. AssertValidRuleLink l = Inr ())
     \<and> (\<forall>k \<in> set links. \<forall>l \<in> set links. rl_Ref k = rl_Ref l \<longrightarrow> k = l)"
  using rule_links_loop_Inr [of Map.empty links out] assms
  by (auto simp: AssertValidRuleLinks_def distinct_map dest: inj_onD)

theorem AssertValidRuleLinks_sound_witness:
  "distinct (map rl_Ref [\<lparr>rl_Ref = ''p'', rl_Version = ''v'', rl_EffectiveAt = ''2026-01-31T23:59:59Z''\<rparr>])"
proof -
  let ?l = "\<lparr>rl_Ref = ''p'', rl_Version = ''v'', rl_EffectiveAt = ''2026-01-31T23:59:59Z''\<rparr>"
  have "AssertValidRuleLinks [?l, ?l] = Inr [?l]"
    by (simp add: AssertValidRuleLinks_def AssertValidRuleLink_def ascii_space_def space2_def space3_def
        parse_rfc3339_def parse_date_def parse_clock_def parse_zone_def parse_frac_def num_fixed_def
        num_loose_def digit_at_def lit_def is_digit_def digit_val_def dec_value_def days_in_def numeral_eq_Suc)
  from AssertValidRuleLinks_sound [OF this] show ?thesis by blast
qed

end
