(* ===== verification/Auth_Model.thy ===== *)
theory Auth_Model
  imports Scope_Model
begin

text \<open>
  The verified principal of internal/auth/types.go (the value every authorization decision is
  made on), its canonical snapshot, and the review acknowledgement of internal/core/approval.go.
\<close>

datatype AccountingRole = RoleAccountant | RoleSeniorAccountant | RoleController | RoleTaxReviewer
  | RoleAuthorizedTaxProfessional | RoleRecordsComplianceOfficer | RoleTenantRecordsOwner
  | RoleTaxResponsible | RoleOperationalAccountant | RoleOther string

fun Role_str :: "AccountingRole \<Rightarrow> string" where
  "Role_str RoleAccountant = ''accountant''"
| "Role_str RoleSeniorAccountant = ''senior_accountant''"
| "Role_str RoleController = ''controller''"
| "Role_str RoleTaxReviewer = ''tax_reviewer''"
| "Role_str RoleAuthorizedTaxProfessional = ''authorized_tax_professional''"
| "Role_str RoleRecordsComplianceOfficer = ''records_compliance_officer''"
| "Role_str RoleTenantRecordsOwner = ''tenant_records_owner''"
| "Role_str RoleTaxResponsible = ''tax_responsible''"
| "Role_str RoleOperationalAccountant = ''operational_accountant''"
| "Role_str (RoleOther s) = s"

datatype AssuranceLevel = AssuranceLow | AssuranceStandard | AssuranceStrong | AssuranceOther string

fun Assurance_str :: "AssuranceLevel \<Rightarrow> string" where
  "Assurance_str AssuranceLow = ''low''"
| "Assurance_str AssuranceStandard = ''standard''"
| "Assurance_str AssuranceStrong = ''strong''"
| "Assurance_str (AssuranceOther s) = s"

datatype AuthenticationMethod = AuthMethodOIDC | AuthMethodSession | AuthMethodServiceAssertion
  | AuthMethodLocalDev | AuthMethodOther string

fun AuthMethod_str :: "AuthenticationMethod \<Rightarrow> string" where
  "AuthMethod_str AuthMethodOIDC = ''oidc''"
| "AuthMethod_str AuthMethodSession = ''session''"
| "AuthMethod_str AuthMethodServiceAssertion = ''service_assertion''"
| "AuthMethod_str AuthMethodLocalDev = ''local_dev''"
| "AuthMethod_str (AuthMethodOther s) = s"

record Principal =
  p_SubjectID :: string
  p_TenantID :: string
  p_MembershipID :: string
  p_CompanyScopes :: "string list"
  p_Roles :: "AccountingRole list"
  p_Method :: AuthenticationMethod
  p_Assurance :: AssuranceLevel
  p_AuthenticatedAt :: string
  p_SessionID :: string

text \<open>The snapshot keeps the role strings, which is what it serializes and sorts.\<close>

record PrincipalSnapshot =
  ps_SubjectID :: string
  ps_MembershipID :: string
  ps_Roles :: "string list"
  ps_Method :: AuthenticationMethod
  ps_Assurance :: AssuranceLevel
  ps_AuthenticatedAt :: string

definition canonicalRoles :: "string list \<Rightarrow> string list" where
  "canonicalRoles roles = sort (dedup roles)"

definition PrincipalSnapshot_of :: "Principal \<Rightarrow> PrincipalSnapshot" where
  "PrincipalSnapshot_of p =
     \<lparr>ps_SubjectID = p_SubjectID p, ps_MembershipID = p_MembershipID p,
      ps_Roles = canonicalRoles (map Role_str (p_Roles p)), ps_Method = p_Method p,
      ps_Assurance = p_Assurance p, ps_AuthenticatedAt = p_AuthenticatedAt p\<rparr>"

definition snapshot_json :: "PrincipalSnapshot \<Rightarrow> json" where
  "snapshot_json s = JObj
     [(''subjectId'', JStr (ps_SubjectID s)), (''membershipId'', JStr (ps_MembershipID s)),
      (''roles'', str_arr (ps_Roles s)), (''authenticationMethod'', JStr (AuthMethod_str (ps_Method s))),
      (''assuranceLevel'', JStr (Assurance_str (ps_Assurance s))),
      (''authenticatedAt'', JStr (ps_AuthenticatedAt s))]"

lemma canonicalRoles_set [simp]: "set (canonicalRoles rs) = set rs"
  by (simp add: canonicalRoles_def)

lemma canonicalRoles_cong: "set rs = set rs' \<Longrightarrow> canonicalRoles rs = canonicalRoles rs'"
  unfolding canonicalRoles_def by (rule sort_dedup_cong)

lemma canonicalRoles_idem: "canonicalRoles (canonicalRoles rs) = canonicalRoles rs"
  by (rule canonicalRoles_cong) simp

section \<open>Review acknowledgements\<close>

record ReviewAcknowledgement =
  ra_Present :: bool
  ra_Value :: bool

datatype AckState = AckOmitted | AckFalse | AckTrue

fun AckState_str :: "AckState \<Rightarrow> string" where
  "AckState_str AckOmitted = ''omitted''"
| "AckState_str AckFalse = ''false''"
| "AckState_str AckTrue = ''true''"

definition AckState_of :: "ReviewAcknowledgement \<Rightarrow> AckState" where
  "AckState_of a = (if \<not> ra_Present a then AckOmitted else if ra_Value a then AckTrue else AckFalse)"

record ReviewChecksV1 =
  rc_EvidenceInspected :: ReviewAcknowledgement
  rc_RuleInspected :: ReviewAcknowledgement

end
