(* ===== verification/Fiscal_Scope.thy ===== *)
theory Fiscal_Scope
  imports Memory_Hash Auth_Model
begin

text \<open>
  The v1 fiscal scope binding of internal/core/fiscal_scope.go and the act evidence of
  internal/core/fiscal_act_evidence.go: the binding, its validation, the framed canonical bytes and
  their hashes, the strict decoder on the members of a JSON object in order of appearance, and the
  store-independent guards of internal/store/fiscal_scope_store.go.
\<close>

section \<open>The binding\<close>

datatype AuthorityLevel = AuthorityLevelAsk | AuthorityLevelAnalyze | AuthorityLevelPrepare
  | AuthorityLevelExecute | AuthorityLevelOther string

fun AuthorityLevel_str :: "AuthorityLevel \<Rightarrow> string" where
  "AuthorityLevel_str AuthorityLevelAsk = ''ASK''"
| "AuthorityLevel_str AuthorityLevelAnalyze = ''ANALYZE''"
| "AuthorityLevel_str AuthorityLevelPrepare = ''PREPARE''"
| "AuthorityLevel_str AuthorityLevelExecute = ''EXECUTE''"
| "AuthorityLevel_str (AuthorityLevelOther s) = s"

definition AuthorityLevel_of :: "string \<Rightarrow> AuthorityLevel" where
  "AuthorityLevel_of s =
     (if s = ''ASK'' then AuthorityLevelAsk else if s = ''ANALYZE'' then AuthorityLevelAnalyze
      else if s = ''PREPARE'' then AuthorityLevelPrepare else if s = ''EXECUTE'' then AuthorityLevelExecute
      else AuthorityLevelOther s)"

record FiscalScopeBinding =
  fs_Version :: string
  fs_Tenant :: string
  fs_Organization :: string
  fs_Company :: string
  fs_FiscalPeriod :: string
  fs_LedgerBook :: string
  fs_OperationType :: string
  fs_SourceSnapshot :: string
  fs_PolicyVersion :: string
  fs_Actor :: string
  fs_AuthorityLevel :: AuthorityLevel

definition fiscalScopeKeys :: "string list" where
  "fiscalScopeKeys =
     [''version'', ''tenant'', ''organization'', ''company'', ''fiscalPeriod'', ''ledgerBook'', ''operationType'',
      ''sourceSnapshot'', ''policyVersion'', ''actor'', ''authorityLevel'']"

definition fiscalOperations :: "string \<Rightarrow> AuthorityLevel option" where
  "fiscalOperations = map_of
     [(''memory.save'', AuthorityLevelPrepare), (''memory.supersede'', AuthorityLevelPrepare),
      (''evidence.store'', AuthorityLevelPrepare), (''evidence.link'', AuthorityLevelPrepare),
      (''rule.link'', AuthorityLevelPrepare), (''close.create'', AuthorityLevelPrepare),
      (''context.read'', AuthorityLevelAsk), (''review.queue'', AuthorityLevelAsk),
      (''review.detail'', AuthorityLevelAsk), (''timeline.read'', AuthorityLevelAsk), (''evidence.get'', AuthorityLevelAsk),
      (''reconstruct.read'', AuthorityLevelAnalyze), (''verify.read'', AuthorityLevelAnalyze),
      (''memory.approve'', AuthorityLevelExecute), (''close.approve'', AuthorityLevelExecute),
      (''period.reopen'', AuthorityLevelExecute), (''period.write-check'', AuthorityLevelExecute)]"

text \<open>The values after the version, in canonical order.\<close>

definition binding_values :: "FiscalScopeBinding \<Rightarrow> string list" where
  "binding_values b =
     [fs_Tenant b, fs_Organization b, fs_Company b, fs_FiscalPeriod b, fs_LedgerBook b, fs_OperationType b,
      fs_SourceSnapshot b, fs_PolicyVersion b, fs_Actor b, AuthorityLevel_str (fs_AuthorityLevel b)]"

definition ValidateFiscalScopeBinding :: "FiscalScopeBinding \<Rightarrow> unit result" where
  "ValidateFiscalScopeBinding b =
     (if fs_Version b = '''' then Inl (PlainErr ''SCOPE_BINDING_REQUIRED'')
      else if fs_Version b \<noteq> ''v1'' then Inl (PlainErr ''UNSUPPORTED_SCOPE_VERSION'')
      else if list_ex (\<lambda>v. \<not> utf8_valid v \<or> blank v \<or> \<not> nul_free v) (binding_values b)
      then Inl (PlainErr ''SCOPE_BINDING_INVALID'')
      else if \<not> IsValidFiscalRUC (fs_Company b) then Inl (PlainErr ''SCOPE_BINDING_INVALID'')
      else if \<not> IsValidPeriod (fs_FiscalPeriod b) then Inl (PlainErr ''SCOPE_BINDING_INVALID'')
      else if \<not> hash64_ok (fs_SourceSnapshot b) then Inl (PlainErr ''SCOPE_BINDING_INVALID'')
      else if fiscalOperations (fs_OperationType b) \<noteq> Some (fs_AuthorityLevel b)
      then Inl (PlainErr ''SCOPE_BINDING_INVALID'')
      else Inr ())"

section \<open>Canonical bytes\<close>

definition scope_frame :: "string \<Rightarrow> string \<Rightarrow> string" where
  "scope_frame key value = key @ ''='' @ dec_nat (length value) @ '':'' @ value @ NUL"

definition CanonicalFiscalScopeBytes :: "FiscalScopeBinding \<Rightarrow> string" where
  "CanonicalFiscalScopeBytes b =
     ''drenyra:fiscal-scope:v1'' @ NUL @ concat (map2 scope_frame (tl fiscalScopeKeys) (binding_values b))"

definition FiscalScopeHash :: "FiscalScopeBinding \<Rightarrow> string" where
  "FiscalScopeHash b = sha256_hex (CanonicalFiscalScopeBytes b)"

definition act_frame :: "string \<Rightarrow> string" where
  "act_frame part = dec_nat (length part) @ '':'' @ part @ NUL"

definition act_evidence_bytes :: "string \<Rightarrow> string \<Rightarrow> ReviewAcknowledgement \<Rightarrow> ReviewAcknowledgement \<Rightarrow> string" where
  "act_evidence_bytes bindingHash reviewedEnvelopeHash evidenceInspected ruleInspected =
     ''drenyra:fiscal-act-evidence:v1'' @ NUL @ concat (map act_frame
       [bindingHash, reviewedEnvelopeHash, AckState_str (AckState_of evidenceInspected), AckState_str (AckState_of ruleInspected)])"

definition ComputeActEvidenceHash :: "string \<Rightarrow> string \<Rightarrow> ReviewAcknowledgement \<Rightarrow> ReviewAcknowledgement \<Rightarrow> string" where
  "ComputeActEvidenceHash bindingHash reviewedEnvelopeHash evidenceInspected ruleInspected =
     sha256_hex (act_evidence_bytes bindingHash reviewedEnvelopeHash evidenceInspected ruleInspected)"

section \<open>The strict decoder\<close>

text \<open>
  The members of the object in order of appearance. A null member leaves the value empty, as
  decoding null into a string does.
\<close>

fun string_member :: "json \<Rightarrow> string option" where
  "string_member (JStr s) = Some s"
| "string_member JNull = Some ''''"
| "string_member _ = None"

fun decode_members :: "string list \<Rightarrow> (string \<times> json) list \<Rightarrow> string list result" where
  "decode_members [] [] = Inr []"
| "decode_members [] (_ # _) = Inl (PlainErr ''SCOPE_BINDING_INVALID'')"
| "decode_members (_ # _) [] = Inl (PlainErr ''SCOPE_BINDING_REQUIRED'')"
| "decode_members (expected # keys) ((key, v) # members) =
     (if key \<noteq> expected then Inl (PlainErr ''SCOPE_BINDING_INVALID'')
      else case string_member v of
        None \<Rightarrow> Inl (PlainErr ''SCOPE_BINDING_INVALID'')
      | Some s \<Rightarrow>
          if expected = ''version'' \<and> s \<noteq> ''v1'' then Inl (PlainErr ''UNSUPPORTED_SCOPE_VERSION'')
          else and_then (decode_members keys members) (\<lambda>ss. Inr (s # ss)))"

fun binding_of_values :: "string list \<Rightarrow> FiscalScopeBinding result" where
  "binding_of_values [ver, ten, org, cmp, per, bk, opn, snap, pol, act, lvl] =
     Inr \<lparr>fs_Version = ver, fs_Tenant = ten, fs_Organization = org, fs_Company = cmp, fs_FiscalPeriod = per,
          fs_LedgerBook = bk, fs_OperationType = opn, fs_SourceSnapshot = snap, fs_PolicyVersion = pol, fs_Actor = act,
          fs_AuthorityLevel = AuthorityLevel_of lvl\<rparr>"
| "binding_of_values _ = Inl (PlainErr ''SCOPE_BINDING_INVALID'')"

definition DecodeFiscalScopeV1 :: "(string \<times> json) list \<Rightarrow> FiscalScopeBinding result" where
  "DecodeFiscalScopeV1 members =
     and_then (decode_members fiscalScopeKeys members) (\<lambda>values.
     and_then (binding_of_values values) (\<lambda>b.
     and_then (ValidateFiscalScopeBinding b) (\<lambda>_. Inr b)))"

definition fiscal_scope_members :: "FiscalScopeBinding \<Rightarrow> (string \<times> json) list" where
  "fiscal_scope_members b = zip fiscalScopeKeys (map JStr (fs_Version b # binding_values b))"

section \<open>Guards on an intent\<close>

type_synonym FiscalWriteIntent = FiscalScopeBinding

definition verifyFiscalIntentAxes :: "FiscalWriteIntent option \<Rightarrow> string \<Rightarrow> Scope \<Rightarrow> string \<Rightarrow> unit result" where
  "verifyFiscalIntentAxes intent expectedOperation scope expectedActor =
     (case intent of None \<Rightarrow> Inr ()
      | Some b \<Rightarrow>
          and_then (ValidateFiscalScopeBinding b) (\<lambda>_.
          if fs_OperationType b \<noteq> expectedOperation then Inl (PlainErr ''SCOPE_BINDING_INVALID'')
          else if fs_Tenant b \<noteq> sc_OrganizationID scope \<or> fs_Organization b \<noteq> sc_CompanyID scope
            \<or> fs_Company b \<noteq> sc_RUC scope \<or> (sc_Period scope \<noteq> '''' \<and> fs_FiscalPeriod b \<noteq> sc_Period scope)
          then Inl (PlainErr ''SCOPE_MISMATCH'')
          else if fs_Actor b \<noteq> expectedActor then Inl (PlainErr ''SCOPE_MISMATCH'')
          else Inr ()))"

definition requireFiscalIntentForBoundSubject :: "FiscalBindingLinkContribution list \<Rightarrow> FiscalWriteIntent option \<Rightarrow> unit result" where
  "requireFiscalIntentForBoundSubject existing intent =
     (if existing \<noteq> [] \<and> intent = None then Inl (PlainErr ''SCOPE_BINDING_REQUIRED'') else Inr ())"

section \<open>The frames determine what they carry\<close>

lemma digits_no_colon: "CHR '':'' \<notin> set (dec_nat n)"
  using dec_nat_digits [of n] by (auto simp: is_digit_def)

text \<open>A length-prefixed value can be cut off the front, whatever bytes it holds.\<close>

lemma length_frame_inject:
  assumes "dec_nat (length v) @ '':'' @ v @ s = dec_nat (length w) @ '':'' @ w @ t"
  shows "v = w \<and> s = t"
proof -
  have "dec_nat (length v) = dec_nat (length w) \<and> v @ s = w @ t"
    using assms append_sep_inject [OF digits_no_colon digits_no_colon, of "length v" "v @ s" "length w" "w @ t"] by simp
  then show ?thesis using append_eq_append_conv [of v w s t] by simp
qed

lemma act_frames_inject:
  "length xs = length ys \<Longrightarrow> concat (map act_frame xs) = concat (map act_frame ys) \<Longrightarrow> xs = ys"
proof (induction xs ys rule: list_induct2)
  case (Cons x xs y ys)
  have "act_frame x @ concat (map act_frame xs) = act_frame y @ concat (map act_frame ys)"
    using Cons.prems by simp
  then have "x = y \<and> NUL @ concat (map act_frame xs) = NUL @ concat (map act_frame ys)"
    unfolding act_frame_def [of x] act_frame_def [of y] by (intro length_frame_inject) (simp only: append_assoc)
  with Cons.IH show ?case by simp
qed simp

lemma scope_frames_inject:
  "length xs = length ks \<Longrightarrow> length ys = length ks
     \<Longrightarrow> concat (map2 scope_frame ks xs) = concat (map2 scope_frame ks ys) \<Longrightarrow> xs = ys"
proof (induction ks arbitrary: xs ys)
  case (Cons k ks)
  from Cons.prems(1,2) obtain x xs' y ys' where xy: "xs = x # xs'" "ys = y # ys'" by (cases xs; cases ys) auto
  have "scope_frame k x @ concat (map2 scope_frame ks xs') = scope_frame k y @ concat (map2 scope_frame ks ys')"
    using Cons.prems(3) by (simp add: xy)
  then have "x = y \<and> NUL @ concat (map2 scope_frame ks xs') = NUL @ concat (map2 scope_frame ks ys')"
    unfolding scope_frame_def by (intro length_frame_inject) (simp only: append_assoc same_append_eq)
  with Cons.IH [of xs' ys'] Cons.prems(1,2) show ?case by (simp add: xy)
qed simp

lemma AuthorityLevel_of_str: "fiscalOperations op = Some l \<Longrightarrow> AuthorityLevel_of (AuthorityLevel_str l) = l"
  by (auto simp: fiscalOperations_def AuthorityLevel_of_def split: if_splits)

lemma AuthorityLevel_str_inject:
  "fiscalOperations op = Some l \<Longrightarrow> fiscalOperations op' = Some l' \<Longrightarrow> AuthorityLevel_str l = AuthorityLevel_str l' \<Longrightarrow> l = l'"
  using AuthorityLevel_of_str by metis

lemma valid_binding:
  "ValidateFiscalScopeBinding b = Inr () \<Longrightarrow> fs_Version b = ''v1'' \<and> fiscalOperations (fs_OperationType b) = Some (fs_AuthorityLevel b)
     \<and> IsValidFiscalRUC (fs_Company b) \<and> IsValidPeriod (fs_FiscalPeriod b) \<and> hash64_ok (fs_SourceSnapshot b)"
  by (auto simp: ValidateFiscalScopeBinding_def split: if_splits)

lemma binding_values_inject:
  assumes "ValidateFiscalScopeBinding a = Inr ()" and "ValidateFiscalScopeBinding b = Inr ()"
    and "binding_values a = binding_values b"
  shows "a = b"
proof -
  have "fs_AuthorityLevel a = fs_AuthorityLevel b"
    by (rule AuthorityLevel_str_inject [of "fs_OperationType a" _ "fs_OperationType b"])
       (use assms(3) valid_binding [OF assms(1)] valid_binding [OF assms(2)] in \<open>simp_all add: binding_values_def\<close>)
  moreover have "fs_Version a = fs_Version b" using valid_binding [OF assms(1)] valid_binding [OF assms(2)] by simp
  ultimately show ?thesis using assms(3) by (cases a; cases b) (simp add: binding_values_def)
qed

lemma decode_members_zip:
  "length ks = length vs
     \<Longrightarrow> (\<And>v. (''version'', v) \<in> set (zip ks vs) \<Longrightarrow> v = ''v1'') \<Longrightarrow> decode_members ks (zip ks (map JStr vs)) = Inr vs"
  by (induction ks vs rule: list_induct2) auto

lemma decode_encode_members:
  assumes "ValidateFiscalScopeBinding b = Inr ()"
  shows "DecodeFiscalScopeV1 (fiscal_scope_members b) = Inr b"
proof -
  have "decode_members fiscalScopeKeys (fiscal_scope_members b) = Inr (fs_Version b # binding_values b)"
    unfolding fiscal_scope_members_def
    by (rule decode_members_zip) (use valid_binding [OF assms] in \<open>auto simp: fiscalScopeKeys_def binding_values_def\<close>)
  moreover have "binding_of_values (fs_Version b # binding_values b) = Inr b"
    using AuthorityLevel_of_str [of "fs_OperationType b" "fs_AuthorityLevel b"] valid_binding [OF assms]
    by (simp add: binding_values_def)
  ultimately show ?thesis using assms by (simp add: DecodeFiscalScopeV1_def)
qed

end
