(* ===== verification/Lifecycle.thy ===== *)
theory Lifecycle
  imports Memory_Hash
begin

text \<open>
  The v2 memory lifecycle of internal/core/lifecycle.go: the status predicates, the adjacency
  table and the in-place transitions with their actor gates. A transition is a function from
  the memory to the mutated memory or the error.
\<close>

section \<open>Predicates\<close>

definition InitialStatus :: "FiscalEffect \<Rightarrow> MemoryStatus" where
  "InitialStatus fe = (if fe = FiscalEffectNone then StatusActive else StatusPendingReview)"

definition IsGated :: "FiscalEffect \<Rightarrow> bool" where
  "IsGated fe \<longleftrightarrow> fe \<noteq> FiscalEffectNone"

definition CanApprove :: "MemoryStatus \<Rightarrow> bool" where
  "CanApprove status \<longleftrightarrow> status = StatusPendingReview"

definition CanReject :: "MemoryStatus \<Rightarrow> bool" where
  "CanReject status \<longleftrightarrow> status = StatusPendingReview"

definition CanReturn :: "MemoryStatus \<Rightarrow> bool" where
  "CanReturn status \<longleftrightarrow> status = StatusPendingReview"

definition CanVoid :: "MemoryStatus \<Rightarrow> bool" where
  "CanVoid status \<longleftrightarrow> status \<in> {StatusActive, StatusPendingReview, StatusApproved}"

fun IsLegalV2Transition :: "MemoryStatus \<Rightarrow> MemoryStatus \<Rightarrow> bool" where
  "IsLegalV2Transition StatusPendingReview to =
     (to = StatusApproved \<or> to = StatusRejected \<or> to = StatusReturned \<or> to = StatusVoided \<or> to = StatusSuperseded)"
| "IsLegalV2Transition StatusReturned to = (to = StatusSuperseded)"
| "IsLegalV2Transition StatusActive to = (to = StatusVoided \<or> to = StatusSuperseded)"
| "IsLegalV2Transition StatusApproved to = (to = StatusVoided \<or> to = StatusSuperseded)"
| "IsLegalV2Transition _ to = False"

section \<open>Transitions\<close>

definition AssertHumanApproval :: "Source \<Rightarrow> unit result" where
  "AssertHumanApproval actor =
     (if src_ActorKind actor \<noteq> ActorKindHuman then Inl (PlainErr ''GATE_REQUIRES_HUMAN'') else Inr ())"

definition Approve :: "AccountingMemory \<Rightarrow> Source \<Rightarrow> AccountingMemory result" where
  "Approve m actor =
     (if \<not> CanApprove (m_Status m) then Inl (PlainErr ''INVALID_TRANSITION'')
      else and_then (AssertHumanApproval actor) (\<lambda>_. Inr (m\<lparr>m_Status := StatusApproved\<rparr>)))"

definition Reject :: "AccountingMemory \<Rightarrow> Source \<Rightarrow> AccountingMemory result" where
  "Reject m actor =
     (if \<not> CanReject (m_Status m) then Inl (PlainErr ''INVALID_TRANSITION'')
      else and_then (AssertHumanApproval actor) (\<lambda>_. Inr (m\<lparr>m_Status := StatusRejected\<rparr>)))"

definition Return :: "AccountingMemory \<Rightarrow> Source \<Rightarrow> AccountingMemory result" where
  "Return m actor =
     (if \<not> CanReturn (m_Status m) then Inl (PlainErr ''INVALID_TRANSITION'')
      else and_then (AssertHumanApproval actor) (\<lambda>_. Inr (m\<lparr>m_Status := StatusReturned\<rparr>)))"

definition Void :: "AccountingMemory \<Rightarrow> Source \<Rightarrow> AccountingMemory result" where
  "Void m actor =
     (if \<not> CanVoid (m_Status m) then Inl (PlainErr ''INVALID_TRANSITION'')
      else if src_ActorKind actor = ActorKindAgent then Inl (PlainErr ''GATE_AGENT_CANNOT_VOID'')
      else Inr (m\<lparr>m_Status := StatusVoided\<rparr>))"

definition SupersedePrev :: "AccountingMemory \<Rightarrow> string \<Rightarrow> AccountingMemory result" where
  "SupersedePrev prev successorID =
     (if m_Status prev \<in> {StatusActive, StatusPendingReview, StatusApproved, StatusReturned}
      then Inr (prev\<lparr>m_Status := StatusSuperseded, m_SupersedesID := successorID\<rparr>)
      else Inl (PlainErr ''INVALID_TRANSITION''))"

section \<open>Runs\<close>

text \<open>An attempted transition; a failed one leaves the memory as it was.\<close>

datatype lifecycle_act = ActApprove Source | ActReject Source | ActReturn Source | ActVoid Source
  | ActSupersede string

fun lifecycle_try :: "lifecycle_act \<Rightarrow> AccountingMemory \<Rightarrow> AccountingMemory result" where
  "lifecycle_try (ActApprove a) m = Approve m a"
| "lifecycle_try (ActReject a) m = Reject m a"
| "lifecycle_try (ActReturn a) m = Return m a"
| "lifecycle_try (ActVoid a) m = Void m a"
| "lifecycle_try (ActSupersede s) m = SupersedePrev m s"

definition lifecycle_apply :: "lifecycle_act \<Rightarrow> AccountingMemory \<Rightarrow> AccountingMemory" where
  "lifecycle_apply a m = (case lifecycle_try a m of Inl e \<Rightarrow> m | Inr m' \<Rightarrow> m')"

definition memory_terminal :: "MemoryStatus \<Rightarrow> bool" where
  "memory_terminal s \<longleftrightarrow> s \<in> {StatusRejected, StatusSuperseded, StatusVoided}"

lemmas lifecycle_defs = Approve_def Reject_def Return_def Void_def SupersedePrev_def
  CanApprove_def CanReject_def CanReturn_def CanVoid_def AssertHumanApproval_def

text \<open>What a successful transition did.\<close>

lemma lifecycle_try_legal:
  "lifecycle_try a m = Inr m' \<Longrightarrow> IsLegalV2Transition (m_Status m) (m_Status m')"
  by (cases a; cases "m_Status m") (auto simp: lifecycle_defs split: if_splits)

lemma lifecycle_try_approved:
  "lifecycle_try a m = Inr m' \<Longrightarrow> m_Status m' = StatusApproved \<Longrightarrow>
   \<exists>s. a = ActApprove s \<and> src_ActorKind s = ActorKindHuman"
  by (cases a) (auto simp: lifecycle_defs split: if_splits)

lemma lifecycle_apply_cases:
  "lifecycle_apply a m = m \<or> lifecycle_try a m = Inr (lifecycle_apply a m)"
  by (simp add: lifecycle_apply_def split: sum.split)

interpretation memory_lifecycle: driven_machine IsLegalV2Transition memory_terminal lifecycle_apply m_Status
proof unfold_locales
  show "memory_terminal s \<Longrightarrow> \<not> IsLegalV2Transition s t" for s t
    by (auto simp: memory_terminal_def)
  show "lifecycle_apply a m = m \<or> IsLegalV2Transition (m_Status m) (m_Status (lifecycle_apply a m))" for a m
    using lifecycle_apply_cases lifecycle_try_legal by blast
qed

section \<open>Properties\<close>

text \<open>
  C33: No memory becomes approved without a human: if a sequence of attempted transitions leads
  from a status other than approved to approved, one of them is an approval by a human actor.
\<close>

theorem approved_only_by_human:
  assumes "m_Status (fold lifecycle_apply acts m) = StatusApproved" and "m_Status m \<noteq> StatusApproved"
  shows "\<exists>s. ActApprove s \<in> set acts \<and> src_ActorKind s = ActorKindHuman"
  using assms
proof (induction acts arbitrary: m)
  case (Cons a acts)
  show ?case
  proof (cases "m_Status (lifecycle_apply a m) = StatusApproved")
    case True
    then have "lifecycle_try a m = Inr (lifecycle_apply a m)"
      using lifecycle_apply_cases [of a m] Cons.prems(2) by auto
    with lifecycle_try_approved True show ?thesis by (metis list.set_intros(1))
  next
    case False
    with Cons show ?thesis by auto
  qed
qed simp

theorem approved_only_by_human_witness:
  "\<exists>s. ActApprove s \<in> set [ActVoid ((m_Source sample_memory)), ActApprove ((m_Source sample_memory)\<lparr>src_ActorKind := ActorKindHuman\<rparr>)]
     \<and> src_ActorKind s = ActorKindHuman"
  by (rule approved_only_by_human [of _ sample_memory])
     (simp_all add: lifecycle_apply_def lifecycle_defs sample_memory_def)

text \<open>
  Rejected, superseded and voided are final: from such a status no sequence of attempted
  transitions changes any field of the memory.
\<close>

theorem terminal_memory_frozen:
  assumes "m_Status m \<in> {StatusRejected, StatusSuperseded, StatusVoided}"
  shows "fold lifecycle_apply acts m = m"
  using assms by (intro memory_lifecycle.fold_terminal_object) (simp add: memory_terminal_def)

theorem terminal_memory_frozen_witness:
  "fold lifecycle_apply [ActSupersede ''x''] (sample_memory\<lparr>m_Status := StatusVoided\<rparr>) =
   sample_memory\<lparr>m_Status := StatusVoided\<rparr>"
  by (rule terminal_memory_frozen) simp

text \<open>
  The adjacency table used to check imported audit trails is exactly the relation the
  transitions realise: a pair is legal if and only if some attempted transition takes a memory
  from the first status to the second.
\<close>

theorem legal_iff_realisable:
  "IsLegalV2Transition src dst \<longleftrightarrow>
     (\<exists>a m m'. lifecycle_try a m = Inr m' \<and> m_Status m = src \<and> m_Status m' = dst)"
proof
  assume l: "IsLegalV2Transition src dst"
  let ?m = "sample_memory\<lparr>m_Status := src\<rparr>"
  let ?h = "(m_Source sample_memory)\<lparr>src_ActorKind := ActorKindHuman\<rparr>"
  have "\<exists>a \<in> {ActApprove ?h, ActReject ?h, ActReturn ?h, ActVoid ?h, ActSupersede ''x''}.
     \<exists>m'. lifecycle_try a ?m = Inr m' \<and> m_Status m' = dst"
    using l by (cases src) (auto simp: lifecycle_defs)
  then show "\<exists>a m m'. lifecycle_try a m = Inr m' \<and> m_Status m = src \<and> m_Status m' = dst"
    by (metis (no_types, lifting) AccountingMemory.select_convs(7) AccountingMemory.surjective AccountingMemory.update_convs(7))
qed (auto dest: lifecycle_try_legal)

end
