(* ===== verification/Retention.thy ===== *)
theory Retention
  imports Memory_Model Auth_Model
begin

text \<open>
  Retention policies and object-level holds: internal/core/retention_policy.go and
  internal/core/hold.go. Validation, the exact policy resolution, the eligibility evaluation,
  the blocking-hold test and the canonical bytes.
\<close>

section \<open>Retention policies\<close>

text \<open>
  \<open>Unmanaged\<close> is the virtual state the purge store gives an object without a lifecycle row,
  \<open>EligibilityUnset\<close> the zero value of the Go type.
\<close>

datatype RetentionEligibility = Eligible | NotDue | EligibilityUnknown | Unmanaged | EligibilityUnset

fun RetentionEligibility_str :: "RetentionEligibility \<Rightarrow> string" where
  "RetentionEligibility_str Eligible = ''eligible''"
| "RetentionEligibility_str NotDue = ''not_due''"
| "RetentionEligibility_str EligibilityUnknown = ''unknown''"
| "RetentionEligibility_str Unmanaged = ''unmanaged''"
| "RetentionEligibility_str EligibilityUnset = ''''"

fun IsValidRetentionEligibility :: "RetentionEligibility \<Rightarrow> bool" where
  "IsValidRetentionEligibility Unmanaged = False"
| "IsValidRetentionEligibility EligibilityUnset = False"
| "IsValidRetentionEligibility _ = True"

record RetentionPolicy =
  rp_PolicyID :: string
  rp_TenantID :: string
  rp_CompanyID :: string
  rp_RUC :: string
  rp_Period :: string
  rp_Jurisdiction :: string
  rp_Legislation :: string
  rp_Authority :: string
  rp_Source :: string
  rp_Category :: string
  rp_MinPeriod :: string
  rp_Version :: int
  rp_SupersedesPolicyID :: string
  rp_DualApprovalRequired :: bool
  rp_DualApproverRoles :: "string list"
  rp_BlockingHoldKinds :: "string list"
  rp_Enabled :: bool
  rp_CreatedAt :: string
  rp_CreatedBy :: string

definition DefaultDualApproverRoles :: "string list" where
  "DefaultDualApproverRoles = [''controller'', ''tax_responsible'']"

definition DefaultBlockingHoldKinds :: "string list" where
  "DefaultBlockingHoldKinds = [''legal'', ''audit'', ''dispute'', ''fiscalization'']"

definition IsValidRetentionDualApprovalRole :: "string \<Rightarrow> bool" where
  "IsValidRetentionDualApprovalRole r \<longleftrightarrow> r = ''controller'' \<or> r = ''tax_responsible''"

definition IsValidRetentionHoldKind :: "string \<Rightarrow> bool" where
  "IsValidRetentionHoldKind k \<longleftrightarrow> k \<in> {''legal'', ''audit'', ''dispute'', ''fiscalization'', ''other''}"

definition AssertValidRetentionScope :: "Scope \<Rightarrow> unit result" where
  "AssertValidRetentionScope s =
     (if sc_Kind s \<noteq> ScopeKindCompany then Inl (PlainErr ''INVALID_RETENTION_SCOPE'')
      else if sc_OrganizationID s = '''' then Inl (PlainErr ''INVALID_RETENTION_SCOPE'')
      else if sc_CompanyID s = '''' \<and> sc_RUC s = '''' \<and> sc_Period s = '''' then Inr ()
      else AssertValidScope s)"

definition policyIDPattern :: "string \<Rightarrow> bool" where
  "policyIDPattern i =
     (if length i \<noteq> 36 then False
      else list_all (\<lambda>(k, r). (r = CHR ''-'' \<and> k \<in> {8, 13, 18, 23}) \<or> is_lower_hex r) (zip [0..<36::nat] i))"

definition canonicalRoleList :: "string list \<Rightarrow> string list \<Rightarrow> (string \<Rightarrow> bool) \<Rightarrow> string \<Rightarrow> string list result" where
  "canonicalRoleList tokens defaults valid err =
     (if tokens = [] then Inr (sort defaults)
      else if list_all valid tokens then Inr (sort (dedup tokens))
      else Inl (PlainErr err))"

definition AssertValidRetentionPolicy :: "RetentionPolicy \<Rightarrow> RetentionPolicy result" where
  "AssertValidRetentionPolicy p =
     and_then (AssertValidRetentionScope (company_scope (rp_TenantID p) (rp_CompanyID p) (rp_RUC p) (rp_Period p))) (\<lambda>_.
     and_then (ensure (jurisdiction_ok (rp_Jurisdiction p)) (PlainErr ''INVALID_RETENTION_JURISDICTION'')) (\<lambda>_.
     and_then (ensure (\<not> blank (rp_Legislation p)) (PlainErr ''POLICY_EVIDENCE_REQUIRED'')) (\<lambda>_.
     and_then (ensure (\<not> blank (rp_Authority p)) (PlainErr ''POLICY_EVIDENCE_REQUIRED'')) (\<lambda>_.
     and_then (ensure (\<not> blank (rp_Source p)) (PlainErr ''POLICY_EVIDENCE_REQUIRED'')) (\<lambda>_.
     and_then (ensure (\<not> blank (rp_Category p)) (PlainErr ''INVALID_RETENTION_CATEGORY'')) (\<lambda>_.
     and_then (ensure (IsValidPeriod (rp_MinPeriod p)) (PlainErr ''INVALID_RETENTION_MIN_PERIOD'')) (\<lambda>_.
     and_then (ensure (\<not> rp_Version p < 1) (PlainErr ''INVALID_RETENTION_VERSION'')) (\<lambda>_.
     and_then (ensure (rp_PolicyID p = '''' \<or> policyIDPattern (rp_PolicyID p)) (PlainErr ''INVALID_RETENTION_POLICY_ID'')) (\<lambda>_.
     and_then (canonicalRoleList (rp_DualApproverRoles p) DefaultDualApproverRoles IsValidRetentionDualApprovalRole
                ''INVALID_RETENTION_DUALAPPROVERROLES'') (\<lambda>roles.
     and_then (canonicalRoleList (rp_BlockingHoldKinds p) DefaultBlockingHoldKinds IsValidRetentionHoldKind
                ''INVALID_RETENTION_BLOCKINGHOLDKINDS'') (\<lambda>kinds.
     Inr (p\<lparr>rp_DualApproverRoles := roles, rp_BlockingHoldKinds := kinds\<rparr>))))))))))))"

definition EvaluateRetentionEligibility :: "RetentionPolicy \<Rightarrow> string \<Rightarrow> RetentionEligibility" where
  "EvaluateRetentionEligibility p objectPeriod =
     (if \<not> IsValidPeriod (rp_MinPeriod p) \<or> \<not> IsValidPeriod objectPeriod then EligibilityUnknown
      else if rp_MinPeriod p \<le> objectPeriod then Eligible
      else NotDue)"

text \<open>The filter of the resolution loop and its accumulator: best policy, its version, matches.\<close>

definition policy_candidate :: "Scope \<Rightarrow> string \<Rightarrow> string \<Rightarrow> string \<Rightarrow> RetentionPolicy \<Rightarrow> bool" where
  "policy_candidate scope jurisdiction legislation category p \<longleftrightarrow>
     rp_Enabled p
     \<and> rp_TenantID p = sc_OrganizationID scope \<and> rp_CompanyID p = sc_CompanyID scope
     \<and> rp_RUC p = sc_RUC scope \<and> rp_Period p = sc_Period scope
     \<and> rp_Jurisdiction p = jurisdiction \<and> rp_Legislation p = legislation \<and> rp_Category p = category
     \<and> \<not> rp_Version p < 1"

fun resolve_loop :: "(RetentionPolicy \<Rightarrow> bool) \<Rightarrow> RetentionPolicy option \<Rightarrow> int \<Rightarrow> nat \<Rightarrow> RetentionPolicy list
    \<Rightarrow> RetentionPolicy option \<times> int \<times> nat" where
  "resolve_loop cand best bestVersion matches [] = (best, bestVersion, matches)"
| "resolve_loop cand best bestVersion matches (p # ps) =
     (if \<not> cand p then resolve_loop cand best bestVersion matches ps
      else if rp_Version p > bestVersion then resolve_loop cand (Some p) (rp_Version p) 1 ps
      else if rp_Version p = bestVersion then resolve_loop cand best bestVersion (matches + 1) ps
      else resolve_loop cand best bestVersion matches ps)"

definition ResolveRetentionPolicy :: "RetentionPolicy list \<Rightarrow> Scope \<Rightarrow> string \<Rightarrow> string \<Rightarrow> string
    \<Rightarrow> RetentionPolicy option" where
  "ResolveRetentionPolicy policies scope jurisdiction legislation category =
     (case resolve_loop (policy_candidate scope jurisdiction legislation category) None 0 0 policies of
        (best, bestVersion, matches) \<Rightarrow> if matches \<noteq> 1 then None else best)"

section \<open>Holds\<close>

record EvidenceHold =
  h_HoldID :: string
  h_ObjectID :: string
  h_TenantID :: string
  h_CompanyID :: string
  h_RUC :: string
  h_Period :: string
  h_Kind :: string
  h_Reason :: string
  h_OwnerSubjectID :: string
  h_PlacedAt :: string
  h_PlacedBy :: string
  h_LiftedAt :: string
  h_LiftedBy :: string
  h_LiftReason :: string

definition AssertValidEvidenceHold :: "EvidenceHold \<Rightarrow> unit result" where
  "AssertValidEvidenceHold h =
     and_then (ensure (h_HoldID h = '''' \<or> policyIDPattern (h_HoldID h)) (PlainErr ''INVALID_HOLD_ID'')) (\<lambda>_.
     and_then (ensure (hash64_ok (h_ObjectID h)) (PlainErr ''INVALID_HOLD_OBJECT_ID'')) (\<lambda>_.
     and_then (AssertValidObjectScope (company_scope (h_TenantID h) (h_CompanyID h) (h_RUC h) (h_Period h))) (\<lambda>_.
     and_then (ensure (IsValidRetentionHoldKind (h_Kind h)) (PlainErr ''INVALID_HOLD_KIND'')) (\<lambda>_.
     and_then (ensure (\<not> blank (h_Reason h)) (PlainErr ''REASON_REQUIRED'')) (\<lambda>_.
     and_then (ensure (\<not> blank (h_OwnerSubjectID h)) (PlainErr ''INVALID_HOLD_OWNER'')) (\<lambda>_.
     and_then (ensure (\<not> blank (h_PlacedBy h)) (PlainErr ''INVALID_HOLD_PLACED_BY'')) (\<lambda>_.
     and_then (ensure (h_PlacedAt h = '''' \<or> ParseDateTime (h_PlacedAt h) \<noteq> None) (PlainErr ''INVALID_HOLD_PLACED_AT'')) (\<lambda>_.
     and_then (ensure ((h_LiftedAt h \<noteq> '''') = (h_LiftedBy h \<noteq> '''') \<and> (h_LiftedAt h \<noteq> '''') = (h_LiftReason h \<noteq> ''''))
                (PlainErr ''INVALID_HOLD_LIFT'')) (\<lambda>_.
     if h_LiftedAt h \<noteq> '''' then
       and_then (ensure (ParseDateTime (h_LiftedAt h) \<noteq> None) (PlainErr ''INVALID_HOLD_LIFTED_AT'')) (\<lambda>_.
       ensure (\<not> blank (h_LiftReason h)) (PlainErr ''REASON_REQUIRED''))
     else Inr ())))))))))"

definition HasActiveBlockingHold :: "EvidenceHold \<Rightarrow> string list \<Rightarrow> bool" where
  "HasActiveBlockingHold h blockingKinds =
     (if h_LiftedAt h \<noteq> '''' then False else list_ex (\<lambda>k. k = h_Kind h) blockingKinds)"

section \<open>Lemmas\<close>

lemma policy_candidate_version: "policy_candidate s j l c p \<Longrightarrow> 1 \<le> rp_Version p"
  by (simp add: policy_candidate_def)

lemma resolve_loop_filter:
  "resolve_loop cand b v n ps = resolve_loop (\<lambda>_. True) b v n (filter cand ps)"
  by (induction cand b v n ps rule: resolve_loop.induct) auto

text \<open>The loop ends with the maximum version, the number of its bearers and the first bearer.\<close>

lemma resolve_loop_spec:
  assumes "resolve_loop (\<lambda>_. True) b v n ps = (b', v', n')"
  shows "v' = fold max (map rp_Version ps) v
     \<and> n' = (if v' = v then n else 0) + length (filter (\<lambda>p. rp_Version p = v') ps)
     \<and> (v' = v \<longrightarrow> b' = b) \<and> (v' \<noteq> v \<longrightarrow> (\<exists>p. b' = Some p \<and> p \<in> set ps \<and> rp_Version p = v'))
     \<and> v \<le> v' \<and> (\<forall>p \<in> set ps. rp_Version p \<le> v')"
  using assms
proof (induction "\<lambda>_::RetentionPolicy. True" b v n ps arbitrary: b' v' n' rule: resolve_loop.induct)
  case (2 best bv n p ps)
  consider "rp_Version p > bv" | "rp_Version p = bv" | "rp_Version p < bv" by linarith
  then show ?case
  proof cases
    case 1
    with 2 have "resolve_loop (\<lambda>_. True) (Some p) (rp_Version p) 1 ps = (b', v', n')" by simp
    note ih = "2.hyps"(2) [OF _ 1 this, simplified]
    with 1 show ?thesis by (auto simp: max_def)
  next
    case 2
    then show ?thesis using "2.hyps" "2.prems" by (auto simp: max_def)
  next
    case 3
    then show ?thesis using "2.hyps" "2.prems" by (auto simp: max_def)
  qed
qed auto

text \<open>On digit strings of one length the byte order is the numeric order.\<close>

lemma foldl_dec: "foldl (\<lambda>a c. 10 * a + digit_val c) a s = a * 10 ^ length s + dec_value s"
proof (induction s rule: rev_induct)
  case (snoc c s)
  then show ?case by (simp add: dec_value_snoc algebra_simps)
qed (simp add: dec_value_def)

lemma dec_value_Cons: "dec_value (c # s) = digit_val c * 10 ^ length s + dec_value s"
proof -
  have "dec_value (c # s) = foldl (\<lambda>a c. 10 * a + digit_val c) (digit_val c) s"
    by (simp add: dec_value_def)
  then show ?thesis by (simp only: foldl_dec)
qed

lemma dec_value_bound: "list_all is_digit s \<Longrightarrow> dec_value s < 10 ^ length s"
proof (induction s)
  case (Cons c s)
  then have "digit_val c \<le> 9" by (auto simp: is_digit_def digit_val_def Let_def)
  then have "digit_val c * 10 ^ length s \<le> 9 * 10 ^ length s" by simp
  moreover have "dec_value s < 10 ^ length s" using Cons by simp
  ultimately have "dec_value (c # s) < 10 * 10 ^ length s" unfolding dec_value_Cons by linarith
  then show ?case by simp
qed (simp add: dec_value_def)

lemma digit_less_iff: "is_digit c \<Longrightarrow> is_digit d \<Longrightarrow> c < d \<longleftrightarrow> digit_val c < digit_val d"
  by (auto simp: less_char_def is_digit_def digit_val_def Let_def)

lemma lex_dec_value:
  assumes "length s = length t" and "list_all is_digit s" and "list_all is_digit t"
  shows "s < t \<longleftrightarrow> dec_value s < dec_value t"
  using assms
proof (induction s t rule: list_induct2)
  case (Cons c s d t)
  have b: "dec_value s < 10 ^ length t" "dec_value t < 10 ^ length t"
    using Cons dec_value_bound [of s] dec_value_bound [of t] by simp_all
  consider "digit_val c < digit_val d" | "c = d" | "digit_val d < digit_val c"
    using Cons.prems digit_val_inject [of c d] by (fastforce intro: linorder_neqE_nat)
  then show ?case
  proof cases
    case 1
    then have "digit_val c * 10 ^ length t + 10 ^ length t \<le> digit_val d * 10 ^ length t"
      by (metis Suc_leI add.commute mult_Suc mult_le_mono1)
    with b have "dec_value (c # s) < dec_value (d # t)"
      using Cons.hyps by (simp add: dec_value_Cons)
    with 1 Cons.prems show ?thesis by (simp add: digit_less_iff)
  next
    case 2
    with Cons show ?thesis by (simp add: dec_value_Cons)
  next
    case 3
    then have "digit_val d * 10 ^ length t + 10 ^ length t \<le> digit_val c * 10 ^ length t"
      by (metis Suc_leI add.commute mult_Suc mult_le_mono1)
    with b have "\<not> dec_value (c # s) < dec_value (d # t)"
      using Cons.hyps by (simp add: dec_value_Cons)
    moreover have "\<not> c < d" "c \<noteq> d" using 3 Cons.prems by (auto simp: digit_less_iff)
    ultimately show ?thesis by simp
  qed
qed (simp add: dec_value_def)

lemma valid_period_le:
  "IsValidPeriod p \<Longrightarrow> IsValidPeriod q \<Longrightarrow> p \<le> q \<longleftrightarrow> dec_value p \<le> dec_value q"
  using lex_dec_value [of q p] IsValidPeriod_chars [of p] IsValidPeriod_chars [of q]
  by (metis linorder_not_less)

lemma filter_true_count:
  "length (filter (\<lambda>q. rp_Version q = v) (filter c ps)) = length (filter (\<lambda>q. c q \<and> rp_Version q = v) ps)"
  by (simp add: conj_commute)

text \<open>The shape the validator gives a policy: closed, sorted, duplicate-free, non-empty lists.\<close>

lemma canonicalRoleList_Inr:
  assumes "canonicalRoleList ts ds valid e = Inr out" and "list_all valid ds" and "distinct ds" and "ds \<noteq> []"
  shows "sorted out \<and> distinct out \<and> out \<noteq> [] \<and> list_all valid out"
proof (cases "ts = []")
  case True
  with assms show ?thesis
    by (auto simp: canonicalRoleList_def list_all_iff) (metis set_empty set_sort)
next
  case False
  with assms show ?thesis
    by (auto simp: canonicalRoleList_def list_all_iff split: if_splits) (metis set_dedup set_empty set_sort)
qed

lemma canonicalRoleList_fixed:
  assumes "sorted out" and "distinct out" and "out \<noteq> []" and "list_all valid out"
  shows "canonicalRoleList out ds valid e = Inr out"
  using assms by (simp add: canonicalRoleList_def dedup_distinct sorted_sort_id)

section \<open>Properties\<close>

text \<open>
  C37: The resolution returns a policy exactly when one row matches the full scope tuple,
  jurisdiction, legislation and category, is enabled, carries the highest version among those
  rows, and no second row carries that version; ambiguity and absence both resolve to nothing.
\<close>

theorem ResolveRetentionPolicy_exact:
  "ResolveRetentionPolicy ps s j l c = Some p \<longleftrightarrow>
     p \<in> set ps \<and> policy_candidate s j l c p
     \<and> (\<forall>q \<in> set ps. policy_candidate s j l c q \<longrightarrow> rp_Version q \<le> rp_Version p)
     \<and> length (filter (\<lambda>q. policy_candidate s j l c q \<and> rp_Version q = rp_Version p) ps) = 1"
proof -
  let ?cs = "filter (policy_candidate s j l c) ps"
  obtain b v n where r: "resolve_loop (\<lambda>_. True) None 0 0 ?cs = (b, v, n)"
    by (metis prod_cases3)
  note spec = resolve_loop_spec [OF r]
  have res: "ResolveRetentionPolicy ps s j l c = (if n \<noteq> 1 then None else b)"
    using r by (simp add: ResolveRetentionPolicy_def resolve_loop_filter [of "policy_candidate s j l c"])
  have pos: "1 \<le> rp_Version q" if "q \<in> set ?cs" for q
    using that policy_candidate_version by auto
  have n: "n = length (filter (\<lambda>q. rp_Version q = v) ?cs)"
    using spec by (auto split: if_splits)
  show ?thesis
  proof (cases "?cs = []")
    case True
    with n res show ?thesis by (auto simp: filter_empty_conv)
  next
    case False
    then obtain q0 where "q0 \<in> set ?cs" by (meson list.set_sel(1))
    with pos spec have "v \<noteq> 0" by force
    with spec obtain q where q: "b = Some q" "q \<in> set ?cs" "rp_Version q = v" by blast
    have top: "rp_Version x \<le> v" if "x \<in> set ?cs" for x using spec that by blast
    show ?thesis
    proof
      assume "ResolveRetentionPolicy ps s j l c = Some p"
      with res q have "p = q" "n = 1" by (auto split: if_splits)
      with q n top show "p \<in> set ps \<and> policy_candidate s j l c p
         \<and> (\<forall>q \<in> set ps. policy_candidate s j l c q \<longrightarrow> rp_Version q \<le> rp_Version p)
         \<and> length (filter (\<lambda>q. policy_candidate s j l c q \<and> rp_Version q = rp_Version p) ps) = 1"
        by (simp add: conj_commute)
    next
      assume a: "p \<in> set ps \<and> policy_candidate s j l c p
         \<and> (\<forall>q \<in> set ps. policy_candidate s j l c q \<longrightarrow> rp_Version q \<le> rp_Version p)
         \<and> length (filter (\<lambda>q. policy_candidate s j l c q \<and> rp_Version q = rp_Version p) ps) = 1"
      with q top have v: "rp_Version p = v" by (auto intro: antisym)
      then have len: "length (filter (\<lambda>q. rp_Version q = v) ?cs) = 1" using a by (simp add: conj_commute)
      then obtain z where "filter (\<lambda>q. rp_Version q = v) ?cs = [z]" by (auto simp: length_Suc_conv)
      then have "set (filter (\<lambda>q. rp_Version q = v) ?cs) = {z}" by simp
      moreover have "p \<in> set (filter (\<lambda>q. rp_Version q = v) ?cs)" using a v by simp
      moreover have "q \<in> set (filter (\<lambda>q. rp_Version q = v) ?cs)" using q by simp
      ultimately have "p = q" by (metis singletonD)
      with res q n len show "ResolveRetentionPolicy ps s j l c = Some p" by simp
    qed
  qed
qed

definition sample_policy :: RetentionPolicy where
  "sample_policy = \<lparr>rp_PolicyID = '''', rp_TenantID = ''o'', rp_CompanyID = ''c'', rp_RUC = ''20100070970'',
     rp_Period = ''202601'', rp_Jurisdiction = ''PE'', rp_Legislation = ''NATIONAL-TAX'', rp_Authority = ''SUNAT'',
     rp_Source = ''board'', rp_Category = ''invoice'', rp_MinPeriod = ''202001'', rp_Version = 1,
     rp_SupersedesPolicyID = '''', rp_DualApprovalRequired = False, rp_DualApproverRoles = [],
     rp_BlockingHoldKinds = [], rp_Enabled = True, rp_CreatedAt = '''', rp_CreatedBy = ''u''\<rparr>"

text \<open>Two versions of one policy resolve to the later one; two rows of the same version to nothing.\<close>

theorem ResolveRetentionPolicy_exact_witness:
  "(let p2 = sample_policy\<lparr>rp_Version := 2\<rparr>; s = company_scope ''o'' ''c'' ''20100070970'' ''202601'' in
      ResolveRetentionPolicy [p2, sample_policy] s ''PE'' ''NATIONAL-TAX'' ''invoice'' = Some p2
      \<and> (\<forall>p. ResolveRetentionPolicy [p2, sample_policy, p2\<lparr>rp_PolicyID := ''x''\<rparr>] s ''PE'' ''NATIONAL-TAX'' ''invoice'' \<noteq> Some p))"
  unfolding Let_def ResolveRetentionPolicy_exact
  by (auto simp: policy_candidate_def sample_policy_def company_scope_def)

text \<open>
  Eligibility compares byte strings, and that is the chronological comparison: an object is
  eligible exactly when both periods are well formed and, read as numbers, the policy's minimum
  period is not after the object's.
\<close>

theorem eligibility_chronological:
  "EvaluateRetentionEligibility p period = Eligible \<longleftrightarrow>
     IsValidPeriod (rp_MinPeriod p) \<and> IsValidPeriod period \<and> dec_value (rp_MinPeriod p) \<le> dec_value period"
  using valid_period_le by (auto simp: EvaluateRetentionEligibility_def)

text \<open>
  C40: A validated policy is in normal form: both closed lists are sorted, duplicate-free, inside
  the closed sets and never empty, the evidence fields are present, and validating it again
  changes nothing.
\<close>

theorem AssertValidRetentionPolicy_normal_form:
  assumes "AssertValidRetentionPolicy p = Inr q"
  shows "sorted (rp_DualApproverRoles q) \<and> distinct (rp_DualApproverRoles q) \<and> rp_DualApproverRoles q \<noteq> []
     \<and> list_all IsValidRetentionDualApprovalRole (rp_DualApproverRoles q)
     \<and> sorted (rp_BlockingHoldKinds q) \<and> distinct (rp_BlockingHoldKinds q) \<and> rp_BlockingHoldKinds q \<noteq> []
     \<and> list_all IsValidRetentionHoldKind (rp_BlockingHoldKinds q)
     \<and> \<not> blank (rp_Legislation q) \<and> \<not> blank (rp_Authority q) \<and> \<not> blank (rp_Source q) \<and> 1 \<le> rp_Version q
     \<and> AssertValidRetentionPolicy q = Inr q"
proof -
  obtain roles kinds where g:
    "canonicalRoleList (rp_DualApproverRoles p) DefaultDualApproverRoles IsValidRetentionDualApprovalRole
       ''INVALID_RETENTION_DUALAPPROVERROLES'' = Inr roles"
    "canonicalRoleList (rp_BlockingHoldKinds p) DefaultBlockingHoldKinds IsValidRetentionHoldKind
       ''INVALID_RETENTION_BLOCKINGHOLDKINDS'' = Inr kinds"
    "q = p\<lparr>rp_DualApproverRoles := roles, rp_BlockingHoldKinds := kinds\<rparr>"
    using assms by (auto simp: AssertValidRetentionPolicy_def guard_simps)
  have r: "sorted roles \<and> distinct roles \<and> roles \<noteq> [] \<and> list_all IsValidRetentionDualApprovalRole roles"
    by (rule canonicalRoleList_Inr [OF g(1)])
       (simp_all add: DefaultDualApproverRoles_def IsValidRetentionDualApprovalRole_def)
  have k: "sorted kinds \<and> distinct kinds \<and> kinds \<noteq> [] \<and> list_all IsValidRetentionHoldKind kinds"
    by (rule canonicalRoleList_Inr [OF g(2)])
       (simp_all add: DefaultBlockingHoldKinds_def IsValidRetentionHoldKind_def)
  have "AssertValidRetentionPolicy q = Inr q"
    using assms r k g(3) by (auto simp: AssertValidRetentionPolicy_def guard_simps canonicalRoleList_fixed)
  then show ?thesis
    using r k g(3) assms by (auto simp: AssertValidRetentionPolicy_def guard_simps)
qed

lemma sample_policy_valid: "\<exists>q. AssertValidRetentionPolicy sample_policy = Inr q"
  by (simp add: AssertValidRetentionPolicy_def sample_policy_def AssertValidRetentionScope_def AssertValidScope_def
      IsValidRUC_def IsValidPeriod_def is_digit_def digit_val_def jurisdiction_ok_def is_upper_def canonicalRoleList_def
      ascii_space_def space2_def space3_def)

theorem AssertValidRetentionPolicy_normal_form_witness:
  "\<exists>q. AssertValidRetentionPolicy sample_policy = Inr q \<and> AssertValidRetentionPolicy q = Inr q"
  using sample_policy_valid AssertValidRetentionPolicy_normal_form by blast

text \<open>The check of store-minted ids does not insist on the hyphens of a UUID.\<close>

lemma policyIDPattern_no_hyphen: "policyIDPattern (replicate 36 (CHR ''0''))"
  by (simp add: policyIDPattern_def is_lower_hex_def numeral_eq_Suc upt_rec)

end
