(* ===== verification/Authz.thy ===== *)
theory Authz
  imports Memory_Hash Auth_Model
begin

text \<open>
  The four pure authorization policies of internal/authz: approval (approval_policy.go),
  judgment, reconciliation and evidence lifecycle. A decision is its reason code, \<open>None\<close> being
  AUTHORIZED; the policy version is a constant of each policy. The judgment and reconciliation
  policies read only the tenant and company of the entity, so they take these.
\<close>

section \<open>Shared predicates\<close>

definition ladderRank :: "AccountingRole \<Rightarrow> nat" where
  "ladderRank r = (case r of RoleAccountant \<Rightarrow> 1 | RoleSeniorAccountant \<Rightarrow> 2 | RoleController \<Rightarrow> 3 | _ \<Rightarrow> 0)"

definition satisfies :: "AccountingRole list \<Rightarrow> AccountingRole \<Rightarrow> bool" where
  "satisfies roles required =
     (if required = RoleTaxReviewer \<or> required = RoleAuthorizedTaxProfessional
      then list_ex (\<lambda>r. r = required) roles
      else list_ex (\<lambda>r. ladderRank required \<le> ladderRank r) roles)"

definition assuranceRank :: "AssuranceLevel \<Rightarrow> int" where
  "assuranceRank l = (case l of AssuranceLow \<Rightarrow> 0 | AssuranceStandard \<Rightarrow> 1 | AssuranceStrong \<Rightarrow> 2 | _ \<Rightarrow> -1)"

definition contains_scope :: "string list \<Rightarrow> string \<Rightarrow> bool" where
  "contains_scope scopes target = list_ex (\<lambda>s. s = target) scopes"

definition hasAnyRole :: "AccountingRole list \<Rightarrow> AccountingRole list \<Rightarrow> bool" where
  "hasAnyRole roles required = list_ex (\<lambda>r. list_ex (\<lambda>want. r = want) required) roles"

type_synonym denial = "string option"

section \<open>Approval policy\<close>

definition baseRole :: "FiscalEffect \<Rightarrow> AccountingRole option" where
  "baseRole e = (case e of
     FiscalEffectJournalEntry \<Rightarrow> Some RoleAccountant
   | FiscalEffectAdjustment \<Rightarrow> Some RoleAccountant
   | FiscalEffectReclassification \<Rightarrow> Some RoleAccountant
   | FiscalEffectApproval \<Rightarrow> Some RoleSeniorAccountant
   | FiscalEffectClosing \<Rightarrow> Some RoleController
   | FiscalEffectDeclaration \<Rightarrow> Some RoleTaxReviewer
   | FiscalEffectSunatFiling \<Rightarrow> Some RoleAuthorizedTaxProfessional
   | _ \<Rightarrow> None)"

definition requiredRole :: "AccountingRole \<Rightarrow> MaterialityLevel option \<Rightarrow> AccountingRole" where
  "requiredRole base level =
     (case level of
        Some MaterialityCritical \<Rightarrow>
          if base = RoleAccountant \<or> base = RoleSeniorAccountant then RoleController else base
      | Some MaterialityMaterial \<Rightarrow> if base = RoleAccountant then RoleSeniorAccountant else base
      | _ \<Rightarrow> base)"

definition approval_Authorize :: "Principal \<Rightarrow> AccountingMemory \<Rightarrow> denial" where
  "approval_Authorize p m =
     (if p_TenantID p \<noteq> sc_OrganizationID (m_Scope m) then Some ''TENANT_SCOPE_MISMATCH''
      else if sc_Kind (m_Scope m) \<noteq> ScopeKindCompany \<or> \<not> contains_scope (p_CompanyScopes p) (sc_CompanyID (m_Scope m))
        then Some ''COMPANY_SCOPE_DENIED''
      else if p_MembershipID p = '''' then Some ''MEMBERSHIP_INACTIVE''
      else case baseRole (m_FiscalEffect m) of
        None \<Rightarrow> Some ''ROLE_NOT_AUTHORIZED''
      | Some base \<Rightarrow>
          if \<not> satisfies (p_Roles p) base then Some ''ROLE_NOT_AUTHORIZED''
          else let minAssurance = (if m_FiscalEffect m = FiscalEffectSunatFiling then AssuranceStrong else AssuranceStandard)
          in if assuranceRank (p_Assurance p) < assuranceRank minAssurance then Some ''ASSURANCE_TOO_LOW''
          else let raised = requiredRole base (m_MaterialityLevel m)
          in if raised \<noteq> base \<and> \<not> satisfies (p_Roles p) raised then Some ''MATERIALITY_LIMIT_EXCEEDED''
          else None)"

definition SODViolation :: "string \<Rightarrow> string \<Rightarrow> bool" where
  "SODViolation proposer reviewer \<longleftrightarrow> proposer \<noteq> '''' \<and> proposer = reviewer"

definition ReviewChecksRequired :: "MaterialityLevel option \<Rightarrow> bool" where
  "ReviewChecksRequired level = (case level of
     Some MaterialityMaterial \<Rightarrow> True | Some MaterialityCritical \<Rightarrow> True | _ \<Rightarrow> False)"

definition ValidateReviewChecksV1 :: "MaterialityLevel option \<Rightarrow> ReviewChecksV1 \<Rightarrow> unit result" where
  "ValidateReviewChecksV1 level checks =
     (let evidenceOK = ra_Present (rc_EvidenceInspected checks) \<and> ra_Value (rc_EvidenceInspected checks);
          ruleOK = ra_Present (rc_RuleInspected checks) \<and> ra_Value (rc_RuleInspected checks)
      in if ReviewChecksRequired level \<and> \<not> (evidenceOK \<and> ruleOK) then Inl (AuthErr ''REVIEW_CHECKS_REQUIRED'')
         else Inr ())"

section \<open>Judgment and reconciliation policies\<close>

definition adjudication_Authorize :: "AccountingRole \<Rightarrow> Principal \<Rightarrow> string \<Rightarrow> string \<Rightarrow> denial" where
  "adjudication_Authorize minRole p tenant company =
     (if p_TenantID p \<noteq> tenant then Some ''TENANT_SCOPE_MISMATCH''
      else if company = '''' \<or> \<not> contains_scope (p_CompanyScopes p) company then Some ''COMPANY_SCOPE_DENIED''
      else if p_MembershipID p = '''' then Some ''MEMBERSHIP_INACTIVE''
      else if \<not> satisfies (p_Roles p) minRole then Some ''ROLE_NOT_AUTHORIZED''
      else if assuranceRank (p_Assurance p) < assuranceRank AssuranceStandard then Some ''ASSURANCE_TOO_LOW''
      else None)"

definition judgment_Authorize :: "Principal \<Rightarrow> string \<Rightarrow> string \<Rightarrow> denial" where
  "judgment_Authorize = adjudication_Authorize RoleSeniorAccountant"

definition reconciliation_Authorize :: "Principal \<Rightarrow> string \<Rightarrow> string \<Rightarrow> denial" where
  "reconciliation_Authorize = adjudication_Authorize RoleController"

section \<open>Evidence lifecycle policy\<close>

datatype LifecycleAction = ActionRequestPurge | ActionApprovePurge | ActionSecondApprove
  | ActionRejectPurge | ActionWithdrawApproval | ActionExecutePurge | ActionPlaceHold | ActionLiftHold
  | ActionOther string

record LifecycleAuthorizationRequest =
  lq_Action :: LifecycleAction
  lq_Principal :: Principal
  lq_ActorKind :: ActorKind
  lq_TenantID :: string
  lq_CompanyID :: string
  lq_Category :: string
  lq_DualApprovalRequired :: bool
  lq_Requester :: "Principal option"
  lq_FirstApprover :: "Principal option"

definition lifecycleRoleAllowed :: "LifecycleAction \<Rightarrow> AccountingRole list \<Rightarrow> bool" where
  "lifecycleRoleAllowed action roles = (case action of
     ActionRequestPurge \<Rightarrow> satisfies roles RoleAccountant
   | ActionApprovePurge \<Rightarrow> hasAnyRole roles [RoleRecordsComplianceOfficer, RoleTenantRecordsOwner]
   | ActionRejectPurge \<Rightarrow> hasAnyRole roles [RoleRecordsComplianceOfficer, RoleTenantRecordsOwner]
   | ActionSecondApprove \<Rightarrow> hasAnyRole roles [RoleController, RoleTaxResponsible]
   | ActionWithdrawApproval \<Rightarrow> hasAnyRole roles
       [RoleRecordsComplianceOfficer, RoleTenantRecordsOwner, RoleController, RoleTaxResponsible]
   | ActionExecutePurge \<Rightarrow> hasAnyRole roles
       [RoleRecordsComplianceOfficer, RoleTenantRecordsOwner, RoleController, RoleTaxResponsible]
   | ActionPlaceHold \<Rightarrow> hasAnyRole roles [RoleRecordsComplianceOfficer, RoleTenantRecordsOwner]
   | ActionLiftHold \<Rightarrow> hasAnyRole roles [RoleRecordsComplianceOfficer, RoleTenantRecordsOwner]
   | ActionOther s \<Rightarrow> False)"

definition roleDenied :: "AccountingRole list \<Rightarrow> bool" where
  "roleDenied roles =
     list_ex (\<lambda>r. r = RoleOperationalAccountant \<or> contains_sub ''admin'' (Role_str r)) roles"

definition samePrincipal :: "Principal \<Rightarrow> Principal \<Rightarrow> bool" where
  "samePrincipal a b \<longleftrightarrow> p_SubjectID a \<noteq> '''' \<and> p_SubjectID a = p_SubjectID b"

definition lifecycle_Authorize :: "LifecycleAuthorizationRequest \<Rightarrow> denial" where
  "lifecycle_Authorize q =
     (let p = lq_Principal q in
      if p_TenantID p \<noteq> lq_TenantID q then Some ''TENANT_SCOPE_MISMATCH''
      else if \<not> contains_scope (p_CompanyScopes p) (lq_CompanyID q) then Some ''COMPANY_SCOPE_DENIED''
      else if p_MembershipID p = '''' then Some ''MEMBERSHIP_INACTIVE''
      else if lq_ActorKind q \<noteq> ActorKindHuman then Some ''ROLE_DENIED''
      else if roleDenied (p_Roles p) then Some ''ROLE_DENIED''
      else if \<not> lifecycleRoleAllowed (lq_Action q) (p_Roles p) then Some ''ROLE_NOT_AUTHORIZED''
      else if assuranceRank (p_Assurance p) < assuranceRank AssuranceStandard then Some ''ASSURANCE_TOO_LOW''
      else if (case lq_Requester q of None \<Rightarrow> False | Some r \<Rightarrow> samePrincipal p r) then Some ''APPROVER_IS_REQUESTER''
      else if lq_Action q = ActionSecondApprove \<and> \<not> lq_DualApprovalRequired q then Some ''DUAL_APPROVAL_REQUIRED''
      else if lq_Action q = ActionSecondApprove
              \<and> (case lq_FirstApprover q of None \<Rightarrow> False | Some f \<Rightarrow> samePrincipal p f)
        then Some ''SAME_PRINCIPAL_SECOND_APPROVAL''
      else None)"

section \<open>The contract every policy keeps\<close>

text \<open>
  A policy is fail-closed when an allowed principal always matches the tenant of the object,
  has its company in scope, an active membership and at least standard assurance.
\<close>

locale fail_closed_policy =
  fixes decide :: "Principal \<Rightarrow> 'obj \<Rightarrow> denial"
    and tenant_of :: "'obj \<Rightarrow> string"
    and company_of :: "'obj \<Rightarrow> string"
  assumes allowed_scope: "decide p x = None \<Longrightarrow>
     p_TenantID p = tenant_of x \<and> company_of x \<in> set (p_CompanyScopes p)
       \<and> p_MembershipID p \<noteq> '''' \<and> 1 \<le> assuranceRank (p_Assurance p)"
begin

lemma no_membership_denied: "p_MembershipID p = '''' \<Longrightarrow> decide p x \<noteq> None"
  using allowed_scope by blast

lemma no_company_denied: "p_CompanyScopes p = [] \<Longrightarrow> decide p x \<noteq> None"
  using allowed_scope by fastforce

lemma tenant_confined: "decide p x = None \<Longrightarrow> decide p y = None \<Longrightarrow> tenant_of x = tenant_of y"
  using allowed_scope by metis

lemma other_tenant_denied: "decide p x = None \<Longrightarrow> tenant_of y \<noteq> tenant_of x \<Longrightarrow> decide p y \<noteq> None"
  using tenant_confined by metis

end

lemma contains_scope_set [simp]: "contains_scope xs x \<longleftrightarrow> x \<in> set xs"
  by (auto simp: contains_scope_def list_ex_iff)

lemma assuranceRank_standard [simp]: "assuranceRank AssuranceStandard = 1"
  by (simp add: assuranceRank_def)

lemma assuranceRank_strong [simp]: "assuranceRank AssuranceStrong = 2"
  by (simp add: assuranceRank_def)

lemma satisfies_mono: "set rs \<subseteq> set rs' \<Longrightarrow> satisfies rs r \<Longrightarrow> satisfies rs' r"
  by (auto simp: satisfies_def list_ex_iff split: if_splits)

lemma satisfies_requiredRole:
  "satisfies rs (requiredRole base level) \<Longrightarrow> baseRole e = Some base \<Longrightarrow> satisfies rs base"
  by (auto simp: satisfies_def requiredRole_def baseRole_def list_ex_iff ladderRank_def
      split: option.splits MaterialityLevel.splits FiscalEffect.splits if_splits)
     (force split: AccountingRole.splits)+

text \<open>The minimum assurance of an effect, and the approval policy as one conjunction.\<close>

definition min_assurance :: "FiscalEffect \<Rightarrow> int" where
  "min_assurance e = (if e = FiscalEffectSunatFiling then 2 else 1)"

lemma approval_Authorize_None:
  "approval_Authorize p m = None \<longleftrightarrow>
     p_TenantID p = sc_OrganizationID (m_Scope m) \<and> sc_Kind (m_Scope m) = ScopeKindCompany
     \<and> sc_CompanyID (m_Scope m) \<in> set (p_CompanyScopes p) \<and> p_MembershipID p \<noteq> ''''
     \<and> min_assurance (m_FiscalEffect m) \<le> assuranceRank (p_Assurance p)
     \<and> (\<exists>base. baseRole (m_FiscalEffect m) = Some base
          \<and> satisfies (p_Roles p) (requiredRole base (m_MaterialityLevel m)))"
proof (cases "baseRole (m_FiscalEffect m)")
  case (Some base)
  then show ?thesis
    using satisfies_requiredRole [of "p_Roles p" base "m_MaterialityLevel m" "m_FiscalEffect m"]
    by (auto simp: approval_Authorize_def min_assurance_def Let_def split: if_splits)
qed (auto simp: approval_Authorize_def)

lemma adjudication_Authorize_None:
  "adjudication_Authorize r p t c = None \<longleftrightarrow>
     p_TenantID p = t \<and> c \<noteq> '''' \<and> c \<in> set (p_CompanyScopes p) \<and> p_MembershipID p \<noteq> ''''
     \<and> satisfies (p_Roles p) r \<and> 1 \<le> assuranceRank (p_Assurance p)"
  by (auto simp: adjudication_Authorize_def)

lemma lifecycle_Authorize_None:
  "lifecycle_Authorize q = None \<longleftrightarrow>
     p_TenantID (lq_Principal q) = lq_TenantID q \<and> lq_CompanyID q \<in> set (p_CompanyScopes (lq_Principal q))
     \<and> p_MembershipID (lq_Principal q) \<noteq> '''' \<and> lq_ActorKind q = ActorKindHuman
     \<and> \<not> roleDenied (p_Roles (lq_Principal q)) \<and> lifecycleRoleAllowed (lq_Action q) (p_Roles (lq_Principal q))
     \<and> 1 \<le> assuranceRank (p_Assurance (lq_Principal q))
     \<and> (\<forall>r. lq_Requester q = Some r \<longrightarrow> \<not> samePrincipal (lq_Principal q) r)
     \<and> (lq_Action q = ActionSecondApprove \<longrightarrow> lq_DualApprovalRequired q
          \<and> (\<forall>f. lq_FirstApprover q = Some f \<longrightarrow> \<not> samePrincipal (lq_Principal q) f))"
  by (auto simp: lifecycle_Authorize_def Let_def split: option.splits)

lemma assurance_at_least_standard: "1 \<le> assuranceRank l \<longleftrightarrow> l = AssuranceStandard \<or> l = AssuranceStrong"
  by (cases l) (simp_all add: assuranceRank_def)

text \<open>The role matrix of the lifecycle as sets: holding any role of the act's row is enough.\<close>

lemma satisfies_accountant:
  "satisfies rs RoleAccountant \<longleftrightarrow> (\<exists>r \<in> set rs. r \<in> {RoleAccountant, RoleSeniorAccountant, RoleController})"
proof -
  have "1 \<le> ladderRank r \<longleftrightarrow> r \<in> {RoleAccountant, RoleSeniorAccountant, RoleController}" for r
    by (cases r) (simp_all add: ladderRank_def)
  then show ?thesis by (simp add: satisfies_def list_ex_iff ladderRank_def)
qed

lemma lifecycle_role_matrix:
  "lifecycleRoleAllowed a rs \<longleftrightarrow> (\<exists>r \<in> set rs. r \<in> (case a of
       ActionRequestPurge \<Rightarrow> {RoleAccountant, RoleSeniorAccountant, RoleController}
     | ActionApprovePurge \<Rightarrow> {RoleRecordsComplianceOfficer, RoleTenantRecordsOwner}
     | ActionSecondApprove \<Rightarrow> {RoleController, RoleTaxResponsible}
     | ActionRejectPurge \<Rightarrow> {RoleRecordsComplianceOfficer, RoleTenantRecordsOwner}
     | ActionWithdrawApproval \<Rightarrow> {RoleRecordsComplianceOfficer, RoleTenantRecordsOwner, RoleController, RoleTaxResponsible}
     | ActionExecutePurge \<Rightarrow> {RoleRecordsComplianceOfficer, RoleTenantRecordsOwner, RoleController, RoleTaxResponsible}
     | ActionPlaceHold \<Rightarrow> {RoleRecordsComplianceOfficer, RoleTenantRecordsOwner}
     | ActionLiftHold \<Rightarrow> {RoleRecordsComplianceOfficer, RoleTenantRecordsOwner}
     | ActionOther s \<Rightarrow> {}))"
  by (cases a) (auto simp: lifecycleRoleAllowed_def satisfies_accountant hasAnyRole_def list_ex_iff)

interpretation approval_policy: fail_closed_policy approval_Authorize
  "\<lambda>m. sc_OrganizationID (m_Scope m)" "\<lambda>m. sc_CompanyID (m_Scope m)"
  by unfold_locales (auto simp: approval_Authorize_None min_assurance_def split: if_splits)

interpretation judgment_policy: fail_closed_policy "\<lambda>p tc. judgment_Authorize p (fst tc) (snd tc)" fst snd
  by unfold_locales (simp add: judgment_Authorize_def adjudication_Authorize_None)

interpretation reconciliation_policy: fail_closed_policy "\<lambda>p tc. reconciliation_Authorize p (fst tc) (snd tc)" fst snd
  by unfold_locales (simp add: reconciliation_Authorize_def adjudication_Authorize_None)

interpretation lifecycle_policy: fail_closed_policy "\<lambda>p q. lifecycle_Authorize (q\<lparr>lq_Principal := p\<rparr>)"
  lq_TenantID lq_CompanyID
  by unfold_locales (simp add: lifecycle_Authorize_None)

section \<open>Properties\<close>

definition sample_principal :: "string \<Rightarrow> AccountingRole list \<Rightarrow> Principal" where
  "sample_principal subj roles = \<lparr>p_SubjectID = subj, p_TenantID = ''o'', p_MembershipID = ''mb'',
     p_CompanyScopes = [''c''], p_Roles = roles, p_Method = AuthMethodSession, p_Assurance = AssuranceStandard,
     p_AuthenticatedAt = ''2026-02-01T00:00:00Z'', p_SessionID = ''''\<rparr>"

text \<open>
  C30: The approval policy authorizes exactly when the principal belongs to the memory's tenant,
  has its company in scope and an active membership, reaches the assurance the effect demands
  (strong for a SUNAT filing) and holds a role that meets the base role of the effect raised by
  the declared materiality; every other case is denied.
\<close>

theorem approval_policy_exact:
  "approval_Authorize p m = None \<longleftrightarrow>
     p_TenantID p = sc_OrganizationID (m_Scope m) \<and> sc_Kind (m_Scope m) = ScopeKindCompany
     \<and> sc_CompanyID (m_Scope m) \<in> set (p_CompanyScopes p) \<and> p_MembershipID p \<noteq> ''''
     \<and> (if m_FiscalEffect m = FiscalEffectSunatFiling then 2 else 1) \<le> assuranceRank (p_Assurance p)
     \<and> (\<exists>base. baseRole (m_FiscalEffect m) = Some base
          \<and> satisfies (p_Roles p) (requiredRole base (m_MaterialityLevel m)))"
  using approval_Authorize_None by (simp add: min_assurance_def)

text \<open>
  C36: Fail-closed tenancy: a principal that one of the four policies allows on some object is
  denied by that policy on every object of another tenant, and a principal without membership
  is denied everywhere.
\<close>

theorem policies_confine_tenants:
  "(approval_Authorize p m = None \<longrightarrow> sc_OrganizationID (m_Scope m') \<noteq> sc_OrganizationID (m_Scope m)
       \<longrightarrow> approval_Authorize p m' \<noteq> None)
   \<and> (judgment_Authorize p t c = None \<longrightarrow> t' \<noteq> t \<longrightarrow> judgment_Authorize p t' c' \<noteq> None)
   \<and> (reconciliation_Authorize p t c = None \<longrightarrow> t' \<noteq> t \<longrightarrow> reconciliation_Authorize p t' c' \<noteq> None)
   \<and> (lifecycle_Authorize (q\<lparr>lq_Principal := p\<rparr>) = None \<longrightarrow> lq_TenantID q' \<noteq> lq_TenantID q
       \<longrightarrow> lifecycle_Authorize (q'\<lparr>lq_Principal := p\<rparr>) \<noteq> None)
   \<and> (p_MembershipID p = '''' \<longrightarrow> approval_Authorize p m \<noteq> None \<and> judgment_Authorize p t c \<noteq> None
       \<and> reconciliation_Authorize p t c \<noteq> None \<and> lifecycle_Authorize (q\<lparr>lq_Principal := p\<rparr>) \<noteq> None)"
  using approval_policy.other_tenant_denied [of p m m'] judgment_policy.other_tenant_denied [of p "(t, c)" "(t', c')"]
    reconciliation_policy.other_tenant_denied [of p "(t, c)" "(t', c')"] lifecycle_policy.other_tenant_denied [of p q q']
    approval_policy.no_membership_denied [of p m] judgment_policy.no_membership_denied [of p "(t, c)"]
    reconciliation_policy.no_membership_denied [of p "(t, c)"] lifecycle_policy.no_membership_denied [of p q]
  by auto

theorem policies_confine_tenants_witness:
  "judgment_Authorize (sample_principal ''s'' [RoleController]) ''other'' ''c'' \<noteq> None"
proof -
  have "judgment_Authorize (sample_principal ''s'' [RoleController]) ''o'' ''c'' = None"
    by (simp add: judgment_Authorize_def adjudication_Authorize_None sample_principal_def satisfies_def ladderRank_def)
  then show ?thesis
    using policies_confine_tenants [where p = "sample_principal ''s'' [RoleController]" and t = "''o''"
        and c = "''c''" and t' = "''other''" and c' = "''c''"]
    by simp
qed




text \<open>
  C34: The evidence-lifecycle policy allows an act exactly when the actor is a human of the object's
  tenant with its company in scope, an active membership and at least standard assurance, holds no
  denied role (operational accountant, or a name containing admin) and a role of the act's row of
  the role matrix, and is neither the named requester nor, for a second approval, which also needs
  the dual flag, the named first approver. Two principals count as the same only when the acting
  subject id is not empty: with an empty subject id the separation of duties does not apply.
\<close>

theorem lifecycle_policy_exact:
  "lifecycle_Authorize q = None \<longleftrightarrow>
     p_TenantID (lq_Principal q) = lq_TenantID q \<and> lq_CompanyID q \<in> set (p_CompanyScopes (lq_Principal q))
     \<and> p_MembershipID (lq_Principal q) \<noteq> '''' \<and> lq_ActorKind q = ActorKindHuman
     \<and> (p_Assurance (lq_Principal q) = AssuranceStandard \<or> p_Assurance (lq_Principal q) = AssuranceStrong)
     \<and> \<not> (\<exists>r \<in> set (p_Roles (lq_Principal q)). r = RoleOperationalAccountant \<or> contains_sub ''admin'' (Role_str r))
     \<and> (\<exists>r \<in> set (p_Roles (lq_Principal q)). r \<in> (case lq_Action q of
            ActionRequestPurge \<Rightarrow> {RoleAccountant, RoleSeniorAccountant, RoleController}
          | ActionApprovePurge \<Rightarrow> {RoleRecordsComplianceOfficer, RoleTenantRecordsOwner}
          | ActionSecondApprove \<Rightarrow> {RoleController, RoleTaxResponsible}
          | ActionRejectPurge \<Rightarrow> {RoleRecordsComplianceOfficer, RoleTenantRecordsOwner}
          | ActionWithdrawApproval \<Rightarrow> {RoleRecordsComplianceOfficer, RoleTenantRecordsOwner, RoleController, RoleTaxResponsible}
          | ActionExecutePurge \<Rightarrow> {RoleRecordsComplianceOfficer, RoleTenantRecordsOwner, RoleController, RoleTaxResponsible}
          | ActionPlaceHold \<Rightarrow> {RoleRecordsComplianceOfficer, RoleTenantRecordsOwner}
          | ActionLiftHold \<Rightarrow> {RoleRecordsComplianceOfficer, RoleTenantRecordsOwner}
          | ActionOther s \<Rightarrow> {}))
     \<and> \<not> (\<exists>r. lq_Requester q = Some r \<and> p_SubjectID (lq_Principal q) \<noteq> '''' \<and> p_SubjectID r = p_SubjectID (lq_Principal q))
     \<and> (if lq_Action q = ActionSecondApprove
        then lq_DualApprovalRequired q
          \<and> \<not> (\<exists>f. lq_FirstApprover q = Some f \<and> p_SubjectID (lq_Principal q) \<noteq> '''' \<and> p_SubjectID f = p_SubjectID (lq_Principal q))
        else True)"
proof -
  have deny: "roleDenied rs \<longleftrightarrow> (\<exists>r \<in> set rs. r = RoleOperationalAccountant \<or> contains_sub ''admin'' (Role_str r))" for rs
    by (simp add: roleDenied_def list_ex_iff)
  have same: "samePrincipal a b \<longleftrightarrow> p_SubjectID a \<noteq> '''' \<and> p_SubjectID b = p_SubjectID a" for a b
    by (auto simp: samePrincipal_def)
  show ?thesis
    unfolding lifecycle_Authorize_None lifecycle_role_matrix deny assurance_at_least_standard same
    by (cases "lq_Action q = ActionSecondApprove"; simp; blast)
qed

end
