(* ===== verification/Evidence_Object.thy ===== *)
theory Evidence_Object
  imports Scope_Model Gotime Sha256 Json
begin

text \<open>
  Immutable evidence objects: internal/core/evidence_object.go. The metadata row, the content
  address, the sharded layout derived from it, the validation of a stored row and its canonical
  bytes.
\<close>

record EvidenceObject =
  eo_ObjectID :: string
  eo_SHA256 :: string
  eo_Size :: int
  eo_ContentType :: string
  eo_TenantID :: string
  eo_CompanyID :: string
  eo_RUC :: string
  eo_Period :: string
  eo_SourceSystem :: string
  eo_SourceReference :: string
  eo_SourceActorID :: string
  eo_SourceActorKind :: ActorKind
  eo_StoredBy :: string
  eo_StoredAt :: string
  eo_RelPath :: string

definition IsObjectID :: "string \<Rightarrow> bool" where
  "IsObjectID s = hash64_ok s"

definition ComputeObjectID :: "string \<Rightarrow> string" where
  "ComputeObjectID bytes = sha256_hex bytes"

definition ObjectRelPath :: "string \<Rightarrow> string" where
  "ObjectRelPath objectID =
     (if length objectID < 4 then ''objects/'' @ objectID
      else ''objects/'' @ take 2 objectID @ ''/'' @ take 2 (drop 2 objectID) @ ''/'' @ objectID)"

definition AssertValidEvidenceObject :: "EvidenceObject \<Rightarrow> unit result" where
  "AssertValidEvidenceObject obj =
     and_then (ensure (hash64_ok (eo_ObjectID obj)) (PlainErr ''INVALID_OBJECT_ID'')) (\<lambda>_.
     and_then (ensure (eo_SHA256 obj = eo_ObjectID obj) (PlainErr ''INVALID_OBJECT_SHA256'')) (\<lambda>_.
     and_then (ensure (\<not> eo_Size obj < 0) (PlainErr ''INVALID_OBJECT_SIZE'')) (\<lambda>_.
     and_then (AssertValidObjectScope (company_scope (eo_TenantID obj) (eo_CompanyID obj) (eo_RUC obj) (eo_Period obj))) (\<lambda>_.
     and_then (AssertValidSource \<lparr>src_System = eo_SourceSystem obj, src_Reference = eo_SourceReference obj,
                 src_ActorID = eo_SourceActorID obj, src_ActorKind = eo_SourceActorKind obj, src_Model = '''', src_Session = ''''\<rparr>) (\<lambda>_.
     and_then (ensure (\<not> blank (eo_StoredBy obj)) (PlainErr ''INVALID_OBJECT_STORED_BY'')) (\<lambda>_.
     and_then (ensure (eo_StoredAt obj = '''' \<or> ParseDateTime (eo_StoredAt obj) \<noteq> None) (PlainErr ''INVALID_OBJECT_STORED_AT'')) (\<lambda>_.
     ensure (eo_RelPath obj = ObjectRelPath (eo_ObjectID obj)) (PlainErr ''INVALID_OBJECT_REL_PATH''))))))))"

definition CanonicalEvidenceObjectJSON :: "EvidenceObject \<Rightarrow> string" where
  "CanonicalEvidenceObjectJSON obj = enc False (JObj (
     fld ''objectId'' (JStr (eo_ObjectID obj)) @ fld ''sha256'' (JStr (eo_SHA256 obj)) @ fld ''size'' (JInt (eo_Size obj))
     @ fld_omit ''contentType'' (JStr (eo_ContentType obj)) @ fld ''tenantId'' (JStr (eo_TenantID obj))
     @ fld ''companyId'' (JStr (eo_CompanyID obj)) @ fld ''ruc'' (JStr (eo_RUC obj)) @ fld_omit ''period'' (JStr (eo_Period obj))
     @ fld ''sourceSystem'' (JStr (eo_SourceSystem obj)) @ fld_omit ''sourceReference'' (JStr (eo_SourceReference obj))
     @ fld_omit ''sourceActorId'' (JStr (eo_SourceActorID obj))
     @ fld ''sourceActorKind'' (JStr (ActorKind_str (eo_SourceActorKind obj)))
     @ fld ''storedBy'' (JStr (eo_StoredBy obj)) @ fld ''storedAt'' (JStr (eo_StoredAt obj))
     @ fld ''relPath'' (JStr (eo_RelPath obj))))"

section \<open>The layout\<close>

lemma ObjectRelPath_hash64:
  "hash64_ok i \<Longrightarrow> ObjectRelPath i = ''objects/'' @ take 2 i @ ''/'' @ take 2 (drop 2 i) @ ''/'' @ i"
  by (simp add: ObjectRelPath_def hash64_ok_def)

text \<open>Two content addresses never share a path.\<close>

lemma ObjectRelPath_inject:
  assumes "hash64_ok i" and "hash64_ok k" and "ObjectRelPath i = ObjectRelPath k"
  shows "i = k"
proof -
  have "drop 14 (ObjectRelPath x) = x" if "hash64_ok x" for x
    using that by (simp add: ObjectRelPath_hash64 hash64_ok_def min_def)
  then show ?thesis using assms by metis
qed

lemma AssertValidEvidenceObject_Inr:
  "AssertValidEvidenceObject obj = Inr () \<Longrightarrow>
     hash64_ok (eo_ObjectID obj) \<and> eo_SHA256 obj = eo_ObjectID obj \<and> 0 \<le> eo_Size obj
     \<and> eo_RelPath obj = ObjectRelPath (eo_ObjectID obj)"
  unfolding AssertValidEvidenceObject_def guard_simps by auto

definition valid_object :: "EvidenceObject \<Rightarrow> bool" where
  "valid_object obj \<longleftrightarrow> AssertValidEvidenceObject obj = Inr ()"

lemma valid_object_same_path:
  "valid_object a \<Longrightarrow> valid_object b \<Longrightarrow> eo_RelPath a = eo_RelPath b \<Longrightarrow> eo_ObjectID a = eo_ObjectID b"
  unfolding valid_object_def
  using AssertValidEvidenceObject_Inr [of a] AssertValidEvidenceObject_Inr [of b] ObjectRelPath_inject by metis

lemma ComputeObjectID_shape [simp]: "IsObjectID (ComputeObjectID bytes)"
  by (simp add: IsObjectID_def ComputeObjectID_def)

end
