(* ===== verification/Purge_Model.thy ===== *)
theory Purge_Model
  imports Retention Authz Evidence_Object
begin

text \<open>
  The data of the purge pipeline: internal/core/purge_lifecycle.go. States, requests, decisions,
  events, the derived projection, the canonical lifecycle snapshot with its hash, the commands
  with their validation, and the execution attempt.
\<close>

section \<open>Vocabulary\<close>

datatype PurgeLifecycleState = PurgeLifecycleStored | PurgeLifecycleRequested | PurgeLifecycleApproved
  | PurgeLifecycleRejected | PurgeLifecyclePurged

fun PurgeLifecycleState_str :: "PurgeLifecycleState \<Rightarrow> string" where
  "PurgeLifecycleState_str PurgeLifecycleStored = ''stored''"
| "PurgeLifecycleState_str PurgeLifecycleRequested = ''purge_requested''"
| "PurgeLifecycleState_str PurgeLifecycleApproved = ''purge_approved''"
| "PurgeLifecycleState_str PurgeLifecycleRejected = ''purge_rejected''"
| "PurgeLifecycleState_str PurgeLifecyclePurged = ''purged''"

text \<open>
  The database admits only the named values; the \<open>Unset\<close> constructors are the empty string, the zero
  value of these Go types, which appears when a stored result of another command is decoded.
\<close>

datatype PurgeRequestStatus = PurgeRequestStatusRequested | PurgeRequestStatusApproved
  | PurgeRequestStatusRejected | PurgeRequestStatusWithdrawn | PurgeRequestStatusCancelled
  | PurgeRequestStatusExecuted | PurgeRequestStatusUnset

fun IsValidPurgeRequestStatus :: "PurgeRequestStatus \<Rightarrow> bool" where
  "IsValidPurgeRequestStatus PurgeRequestStatusUnset = False"
| "IsValidPurgeRequestStatus _ = True"

datatype PurgeApprovalDecision = PurgeApprovalDecisionApproved | PurgeApprovalDecisionRejected
  | PurgeApprovalDecisionWithdrawn | PurgeApprovalDecisionUnset

fun IsValidPurgeApprovalDecision :: "PurgeApprovalDecision \<Rightarrow> bool" where
  "IsValidPurgeApprovalDecision PurgeApprovalDecisionUnset = False"
| "IsValidPurgeApprovalDecision _ = True"

datatype PurgeLifecycleEventAction = PurgeEventRetentionBound | PurgeEventRequested | PurgeEventApproved
  | PurgeEventRejected | PurgeEventCancelled | PurgeEventWithdrawn | PurgeEventIntent | PurgeEventExecuted

section \<open>Rows\<close>

record EvidencePurgeRequest =
  pq_RequestID :: string
  pq_ObjectID :: string
  pq_TenantID :: string
  pq_CompanyID :: string
  pq_RUC :: string
  pq_Period :: string
  pq_Category :: string
  pq_PolicyID :: string
  pq_RetentionStateSnapshot :: RetentionEligibility
  pq_ReviewedLifecycleHash :: string
  pq_Status :: PurgeRequestStatus
  pq_RequestedAt :: string
  pq_RequestedBy :: string
  pq_ApprovedAt :: string
  pq_ExecutionID :: string

record EvidencePurgeApproval =
  pa_ApprovalID :: string
  pa_RequestID :: string
  pa_ApprovalOrder :: int
  pa_Decision :: PurgeApprovalDecision
  pa_ReviewedHash :: string
  pa_ResultingHash :: string
  pa_PrincipalSnapshot :: PrincipalSnapshot
  pa_Reason :: string
  pa_PolicyVersion :: string
  pa_CreatedAt :: string

record EvidenceLifecycleEvent =
  le_EventID :: string
  le_ObjectID :: string
  le_RequestID :: string
  le_Action :: PurgeLifecycleEventAction
  le_FromState :: PurgeLifecycleState
  le_ToState :: PurgeLifecycleState
  le_ReviewedHash :: string
  le_ResultingHash :: string
  le_PrincipalSnapshot :: PrincipalSnapshot
  le_Reason :: string
  le_PolicyVersion :: string
  le_CreatedAt :: string

record EvidenceRetentionState =
  rt_ObjectID :: string
  rt_LifecycleState :: PurgeLifecycleState
  rt_RetentionState :: RetentionEligibility
  rt_PolicyID :: string
  rt_Category :: string
  rt_HasActiveBlockingHold :: bool
  rt_CurrentHash :: string
  rt_UpdatedAt :: string

section \<open>The canonical lifecycle snapshot\<close>

record LifecycleHoldRef =
  hr_HoldID :: string
  hr_Kind :: string
  hr_PlacedAt :: string

record LifecycleSnapshot =
  ls_ObjectID :: string
  ls_TenantID :: string
  ls_CompanyID :: string
  ls_RUC :: string
  ls_Period :: string
  ls_LifecycleState :: PurgeLifecycleState
  ls_RetentionState :: RetentionEligibility
  ls_PolicyID :: string
  ls_PolicyVersion :: int
  ls_Category :: string
  ls_BlockingHolds :: "LifecycleHoldRef list"
  ls_RequestID :: string
  ls_ApprovalIDs :: "string list"

definition sortedLifecycleHolds :: "LifecycleHoldRef list \<Rightarrow> LifecycleHoldRef list" where
  "sortedLifecycleHolds holds = sort_key hr_HoldID holds"

definition sortedApprovalIDs :: "string list \<Rightarrow> string list" where
  "sortedApprovalIDs ids = (if ids = [] then [] else sort ids)"

definition hold_ref_json :: "LifecycleHoldRef \<Rightarrow> json" where
  "hold_ref_json h = JObj [(''id'', JStr (hr_HoldID h)), (''kind'', JStr (hr_Kind h)), (''placedAt'', JStr (hr_PlacedAt h))]"

definition CanonicalLifecycleSnapshotJSON :: "LifecycleSnapshot \<Rightarrow> string" where
  "CanonicalLifecycleSnapshotJSON s = enc False (JObj (
     fld ''objectId'' (JStr (ls_ObjectID s)) @ fld ''tenantId'' (JStr (ls_TenantID s))
     @ fld ''companyId'' (JStr (ls_CompanyID s)) @ fld ''ruc'' (JStr (ls_RUC s)) @ fld_omit ''period'' (JStr (ls_Period s))
     @ fld ''lifecycleState'' (JStr (PurgeLifecycleState_str (ls_LifecycleState s)))
     @ fld ''retentionState'' (JStr (RetentionEligibility_str (ls_RetentionState s)))
     @ fld_omit ''policyId'' (JStr (ls_PolicyID s)) @ fld_omit ''policyVersion'' (JInt (ls_PolicyVersion s))
     @ fld_omit ''category'' (JStr (ls_Category s))
     @ fld ''blockingHolds'' (JArr (map hold_ref_json (sortedLifecycleHolds (ls_BlockingHolds s))))
     @ fld_omit ''requestId'' (JStr (ls_RequestID s))
     @ fld_omit ''approvalIds'' (str_arr (sortedApprovalIDs (ls_ApprovalIDs s)))))"

definition ComputeLifecycleSnapshotHash :: "LifecycleSnapshot \<Rightarrow> string" where
  "ComputeLifecycleSnapshotHash s = sha256_hex (CanonicalLifecycleSnapshotJSON s)"

section \<open>Commands\<close>

record RequestPurgeCommand =
  rc_ObjectID :: string
  rc_Jurisdiction :: string
  rc_Legislation :: string
  rc_Category :: string
  rc_ExpectedLifecycleHash :: string
  rc_Reason :: string
  rc_RequestID :: string

record ApprovePurgeCommand =
  ac_RequestID :: string
  ac_ExpectedLifecycleHash :: string
  ac_Reason :: string
  ac_RequestIDKey :: string

text \<open>RejectPurgeCommand and WithdrawPurgeCommand have the same three fields; cancel has no reason.\<close>

record ClosePurgeCommand =
  xc_RequestID :: string
  xc_Reason :: string
  xc_RequestIDKey :: string

record CancelPurgeCommand =
  cn_RequestID :: string
  cn_RequestIDKey :: string

record ExecutePurgeCommand =
  ec_RequestID :: string
  ec_ExpectedLifecycleHash :: string
  ec_Reason :: string
  ec_ExecutionID :: string

definition idempotency_required :: err where
  "idempotency_required = AuthErr ''IDEMPOTENCY_CONFLICT''"

definition AssertValidRequestPurgeCommand :: "RequestPurgeCommand \<Rightarrow> unit result" where
  "AssertValidRequestPurgeCommand cmd =
     (if \<not> hash64_ok (rc_ObjectID cmd) then Inl (PlainErr ''INVALID_PURGE_OBJECT_ID'')
      else if \<not> jurisdiction_ok (rc_Jurisdiction cmd) then Inl (PlainErr ''INVALID_PURGE_JURISDICTION'')
      else if blank (rc_Legislation cmd) then Inl (PlainErr ''INVALID_PURGE_LEGISLATION'')
      else if blank (rc_Category cmd) then Inl (PlainErr ''INVALID_PURGE_CATEGORY'')
      else if \<not> hash64_ok (rc_ExpectedLifecycleHash cmd) then Inl (PlainErr ''INVALID_PURGE_EXPECTED_HASH'')
      else if blank (rc_Reason cmd) then Inl (PlainErr ''REASON_REQUIRED'')
      else if blank (rc_RequestID cmd) then Inl idempotency_required
      else Inr ())"

definition AssertValidApprovePurgeCommand :: "ApprovePurgeCommand \<Rightarrow> unit result" where
  "AssertValidApprovePurgeCommand cmd =
     (if \<not> policyIDPattern (ac_RequestID cmd) then Inl (PlainErr ''INVALID_PURGE_REQUEST_ID'')
      else if \<not> hash64_ok (ac_ExpectedLifecycleHash cmd) then Inl (PlainErr ''INVALID_PURGE_EXPECTED_HASH'')
      else if blank (ac_Reason cmd) then Inl (PlainErr ''REASON_REQUIRED'')
      else if blank (ac_RequestIDKey cmd) then Inl idempotency_required
      else Inr ())"

definition AssertValidRejectPurgeCommand :: "ClosePurgeCommand \<Rightarrow> unit result" where
  "AssertValidRejectPurgeCommand cmd =
     (if \<not> policyIDPattern (xc_RequestID cmd) then Inl (PlainErr ''INVALID_PURGE_REQUEST_ID'')
      else if blank (xc_Reason cmd) then Inl (PlainErr ''REASON_REQUIRED'')
      else if blank (xc_RequestIDKey cmd) then Inl idempotency_required
      else Inr ())"

definition AssertValidWithdrawPurgeCommand :: "ClosePurgeCommand \<Rightarrow> unit result" where
  "AssertValidWithdrawPurgeCommand cmd =
     (if \<not> policyIDPattern (xc_RequestID cmd) then Inl (PlainErr ''INVALID_PURGE_REQUEST_ID'')
      else if blank (xc_Reason cmd) then Inl (PlainErr ''REASON_REQUIRED'')
      else if blank (xc_RequestIDKey cmd) then Inl idempotency_required
      else Inr ())"

definition AssertValidCancelPurgeCommand :: "CancelPurgeCommand \<Rightarrow> unit result" where
  "AssertValidCancelPurgeCommand cmd =
     (if \<not> policyIDPattern (cn_RequestID cmd) then Inl (PlainErr ''INVALID_PURGE_REQUEST_ID'')
      else if blank (cn_RequestIDKey cmd) then Inl idempotency_required
      else Inr ())"

definition AssertValidExecutePurgeCommand :: "ExecutePurgeCommand \<Rightarrow> unit result" where
  "AssertValidExecutePurgeCommand cmd =
     (if \<not> policyIDPattern (ec_RequestID cmd) then Inl (PlainErr ''INVALID_PURGE_REQUEST_ID'')
      else if \<not> hash64_ok (ec_ExpectedLifecycleHash cmd) then Inl (PlainErr ''INVALID_PURGE_EXPECTED_HASH'')
      else if \<not> policyIDPattern (ec_ExecutionID cmd) then Inl (PlainErr ''INVALID_PURGE_EXECUTION_ID'')
      else Inr ())"

definition AssertValidPurgeRequest :: "EvidencePurgeRequest \<Rightarrow> unit result" where
  "AssertValidPurgeRequest r =
     and_then (ensure (pq_RequestID r = '''' \<or> policyIDPattern (pq_RequestID r)) (PlainErr ''INVALID_PURGE_REQUEST_ID'')) (\<lambda>_.
     and_then (ensure (hash64_ok (pq_ObjectID r)) (PlainErr ''INVALID_PURGE_OBJECT_ID'')) (\<lambda>_.
     and_then (AssertValidObjectScope (company_scope (pq_TenantID r) (pq_CompanyID r) (pq_RUC r) (pq_Period r))) (\<lambda>_.
     and_then (ensure (\<not> blank (pq_Category r)) (PlainErr ''INVALID_PURGE_CATEGORY'')) (\<lambda>_.
     and_then (ensure (policyIDPattern (pq_PolicyID r)) (PlainErr ''INVALID_PURGE_POLICY_ID'')) (\<lambda>_.
     and_then (ensure (IsValidRetentionEligibility (pq_RetentionStateSnapshot r)) (PlainErr ''INVALID_PURGE_RETENTION_SNAPSHOT'')) (\<lambda>_.
     and_then (ensure (hash64_ok (pq_ReviewedLifecycleHash r)) (PlainErr ''INVALID_PURGE_REVIEWED_HASH'')) (\<lambda>_.
     and_then (ensure (IsValidPurgeRequestStatus (pq_Status r)) (PlainErr ''INVALID_PURGE_STATUS'')) (\<lambda>_.
     and_then (ensure (\<not> blank (pq_RequestedBy r)) (PlainErr ''INVALID_PURGE_REQUESTED_BY'')) (\<lambda>_.
     and_then (ensure (pq_RequestedAt r = '''' \<or> ParseDateTime (pq_RequestedAt r) \<noteq> None) (PlainErr ''INVALID_PURGE_REQUESTED_AT'')) (\<lambda>_.
     and_then (ensure (pq_ApprovedAt r = '''' \<or> ParseDateTime (pq_ApprovedAt r) \<noteq> None) (PlainErr ''INVALID_PURGE_APPROVED_AT'')) (\<lambda>_.
     ensure (\<not> (pq_Status r \<noteq> PurgeRequestStatusRequested \<and> pq_ApprovedAt r = '''' \<and> pq_Status r \<noteq> PurgeRequestStatusCancelled))
       (PlainErr ''INVALID_PURGE_COMPLETION''))))))))))))"

section \<open>Execution attempts\<close>

datatype PurgeExecutionState = PurgeExecutionIntent | PurgeExecutionCompleted | PurgeExecutionInterrupted
  | PurgeExecutionUnset

record EvidencePurgeExecution =
  px_ExecutionID :: string
  px_RequestID :: string
  px_ObjectID :: string
  px_RelPath :: string
  px_Size :: int
  px_PreRemovalHash :: string
  px_IntentReviewedHash :: string
  px_State :: PurgeExecutionState
  px_IntentAt :: string
  px_IntentBy :: string
  px_CompletedAt :: string
  px_CompletedBy :: string
  px_CompletionReceiptID :: string

section \<open>Zero values\<close>

definition zero_snapshot :: PrincipalSnapshot where
  "zero_snapshot = \<lparr>ps_SubjectID = '''', ps_MembershipID = '''', ps_Roles = [], ps_Method = AuthMethodOther '''',
     ps_Assurance = AssuranceOther '''', ps_AuthenticatedAt = ''''\<rparr>"

definition zero_request :: EvidencePurgeRequest where
  "zero_request = \<lparr>pq_RequestID = '''', pq_ObjectID = '''', pq_TenantID = '''', pq_CompanyID = '''', pq_RUC = '''',
     pq_Period = '''', pq_Category = '''', pq_PolicyID = '''', pq_RetentionStateSnapshot = EligibilityUnset,
     pq_ReviewedLifecycleHash = '''', pq_Status = PurgeRequestStatusUnset, pq_RequestedAt = '''', pq_RequestedBy = '''',
     pq_ApprovedAt = '''', pq_ExecutionID = ''''\<rparr>"

definition zero_approval :: EvidencePurgeApproval where
  "zero_approval = \<lparr>pa_ApprovalID = '''', pa_RequestID = '''', pa_ApprovalOrder = 0,
     pa_Decision = PurgeApprovalDecisionUnset, pa_ReviewedHash = '''', pa_ResultingHash = '''',
     pa_PrincipalSnapshot = zero_snapshot, pa_Reason = '''', pa_PolicyVersion = '''', pa_CreatedAt = ''''\<rparr>"

definition zero_execution :: EvidencePurgeExecution where
  "zero_execution = \<lparr>px_ExecutionID = '''', px_RequestID = '''', px_ObjectID = '''', px_RelPath = '''', px_Size = 0,
     px_PreRemovalHash = '''', px_IntentReviewedHash = '''', px_State = PurgeExecutionUnset, px_IntentAt = '''',
     px_IntentBy = '''', px_CompletedAt = '''', px_CompletedBy = '''', px_CompletionReceiptID = ''''\<rparr>"

lemma hash64_ok_snapshot_hash [simp]: "hash64_ok (ComputeLifecycleSnapshotHash s)"
  by (simp add: ComputeLifecycleSnapshotHash_def)

text \<open>The hash does not depend on the order in which holds (with distinct ids) and approvals are read.\<close>

lemma snapshot_hash_order:
  assumes "sort_key hr_HoldID (ls_BlockingHolds s) = sort_key hr_HoldID hs" and "sort (ls_ApprovalIDs s) = sort ids"
  shows "ComputeLifecycleSnapshotHash (s\<lparr>ls_BlockingHolds := hs, ls_ApprovalIDs := ids\<rparr>) = ComputeLifecycleSnapshotHash s"
proof -
  have "sortedApprovalIDs xs = sort xs" for xs by (simp add: sortedApprovalIDs_def)
  then show ?thesis
    using assms by (simp add: ComputeLifecycleSnapshotHash_def CanonicalLifecycleSnapshotJSON_def sortedLifecycleHolds_def)
qed

end
