(* ===== verification/Receipt.thy ===== *)
theory Receipt
  imports Json Auth_Model
begin

text \<open>
  Signed receipts: the payload, the envelope and their canonical bytes with the minimal
  verification of internal/core/receipt.go, the keyring of internal/receipts/keyring.go, the
  signer of internal/receipts/signer.go and the receipt tables of internal/store/store.go with
  their constraints. Ed25519 is a parameter (a record of its three functions); what a proof
  relies on is stated as a hypothesis.
\<close>

section \<open>Padded base64\<close>

definition b64_char :: "nat \<Rightarrow> char" where
  "b64_char n =
     (if n < 26 then char_of (65 + n) else if n < 52 then char_of (71 + n)
      else if n < 62 then char_of (n - 4) else if n = 62 then CHR ''+'' else CHR ''/'')"

definition b64_val :: "char \<Rightarrow> nat option" where
  "b64_val c = (let n = (of_char c :: nat) in
     if 65 \<le> n \<and> n \<le> 90 then Some (n - 65) else if 97 \<le> n \<and> n \<le> 122 then Some (n - 71)
     else if 48 \<le> n \<and> n \<le> 57 then Some (n + 4) else if n = 43 then Some 62
     else if n = 47 then Some 63 else None)"

definition byte_of :: "char \<Rightarrow> nat" where
  "byte_of c = of_char c"

fun b64_encode :: "string \<Rightarrow> string" where
  "b64_encode (a # b # c # s) =
     b64_char (byte_of a div 4) # b64_char (byte_of a mod 4 * 16 + byte_of b div 16)
     # b64_char (byte_of b mod 16 * 4 + byte_of c div 64) # b64_char (byte_of c mod 64) # b64_encode s"
| "b64_encode [a, b] =
     [b64_char (byte_of a div 4), b64_char (byte_of a mod 4 * 16 + byte_of b div 16),
      b64_char (byte_of b mod 16 * 4), CHR ''='']"
| "b64_encode [a] = [b64_char (byte_of a div 4), b64_char (byte_of a mod 4 * 16), CHR ''='', CHR ''='']"
| "b64_encode [] = []"

text \<open>
  \<^verbatim>\<open>StdEncoding.DecodeString\<close>: line breaks are skipped, padding is only accepted at the end, and
  the trailing bits of a padded group are not checked.
\<close>

fun b64_groups :: "string \<Rightarrow> string option" where
  "b64_groups [] = Some []"
| "b64_groups (w # x # y # z # s) =
     (case (b64_val w, b64_val x) of
        (Some p, Some q) \<Rightarrow>
          (case b64_val y of
             Some r \<Rightarrow>
               (case b64_val z of
                  Some t \<Rightarrow> map_option (\<lambda>rest. char_of (p * 4 + q div 16) # char_of (q mod 16 * 16 + r div 4)
                              # char_of (r mod 4 * 64 + t) # rest) (b64_groups s)
                | None \<Rightarrow> if z = CHR ''='' \<and> s = []
                          then Some [char_of (p * 4 + q div 16), char_of (q mod 16 * 16 + r div 4)] else None)
           | None \<Rightarrow> if y = CHR ''='' \<and> z = CHR ''='' \<and> s = [] then Some [char_of (p * 4 + q div 16)] else None)
      | _ \<Rightarrow> None)"
| "b64_groups _ = None"

definition b64_decode :: "string \<Rightarrow> string option" where
  "b64_decode s = b64_groups (filter (\<lambda>c. c \<noteq> CHR 0x0A \<and> c \<noteq> CHR 0x0D) s)"

section \<open>Vocabulary\<close>

datatype SubjectType = SubjectMemory | SubjectJudgment | SubjectReconciliation | SubjectEvidenceObject
  | SubjectOther string

fun SubjectType_str :: "SubjectType \<Rightarrow> string" where
  "SubjectType_str SubjectMemory = ''memory''"
| "SubjectType_str SubjectJudgment = ''judgment''"
| "SubjectType_str SubjectReconciliation = ''reconciliation''"
| "SubjectType_str SubjectEvidenceObject = ''evidence_object''"
| "SubjectType_str (SubjectOther s) = s"

fun IsValidSubjectType :: "SubjectType \<Rightarrow> bool" where
  "IsValidSubjectType (SubjectOther s) = False"
| "IsValidSubjectType _ = True"

datatype ReceiptAction = MemoryRecorded | MemoryApproved | MemoryRejected | MemoryReturned | MemoryVoided
  | RelationConfirmed | RelationRejected | EvidenceLinked | MemorySuperseded | MemoryClosed | MemoryReopened
  | ReconciliationConfirmedAct | ReconciliationRejectedAct | ObjectStored | RetentionBound | PurgeRequested
  | PurgeApproved | PurgeRejected | PurgeCancelled | PurgeWithdrawn | PurgeIntent | PurgeExecuted
  | HoldPlaced | HoldLifted | ReceiptActionOther string

fun ReceiptAction_str :: "ReceiptAction \<Rightarrow> string" where
  "ReceiptAction_str MemoryRecorded = ''memory_recorded''"
| "ReceiptAction_str MemoryApproved = ''memory_approved''"
| "ReceiptAction_str MemoryRejected = ''memory_rejected''"
| "ReceiptAction_str MemoryReturned = ''memory_returned''"
| "ReceiptAction_str MemoryVoided = ''memory_voided''"
| "ReceiptAction_str RelationConfirmed = ''relation_confirmed''"
| "ReceiptAction_str RelationRejected = ''relation_rejected''"
| "ReceiptAction_str EvidenceLinked = ''evidence_linked''"
| "ReceiptAction_str MemorySuperseded = ''memory_superseded''"
| "ReceiptAction_str MemoryClosed = ''memory_closed''"
| "ReceiptAction_str MemoryReopened = ''memory_reopened''"
| "ReceiptAction_str ReconciliationConfirmedAct = ''reconciliation_confirmed''"
| "ReceiptAction_str ReconciliationRejectedAct = ''reconciliation_rejected''"
| "ReceiptAction_str ObjectStored = ''object_stored''"
| "ReceiptAction_str RetentionBound = ''retention_bound''"
| "ReceiptAction_str PurgeRequested = ''purge_requested''"
| "ReceiptAction_str PurgeApproved = ''purge_approved''"
| "ReceiptAction_str PurgeRejected = ''purge_rejected''"
| "ReceiptAction_str PurgeCancelled = ''purge_cancelled''"
| "ReceiptAction_str PurgeWithdrawn = ''purge_withdrawn''"
| "ReceiptAction_str PurgeIntent = ''purge_intent''"
| "ReceiptAction_str PurgeExecuted = ''purge_executed''"
| "ReceiptAction_str HoldPlaced = ''hold_placed''"
| "ReceiptAction_str HoldLifted = ''hold_lifted''"
| "ReceiptAction_str (ReceiptActionOther s) = s"

fun IsValidReceiptAction :: "ReceiptAction \<Rightarrow> bool" where
  "IsValidReceiptAction (ReceiptActionOther s) = False"
| "IsValidReceiptAction _ = True"

definition ReceiptPayloadVersion :: string where
  "ReceiptPayloadVersion = ''receipt-payload/v0.4.0''"

definition ReceiptPayloadVersionV09 :: string where
  "ReceiptPayloadVersionV09 = ''receipt-payload/v0.9.0''"

definition ReceiptAlgorithm :: string where
  "ReceiptAlgorithm = ''Ed25519''"

section \<open>Payload and envelope\<close>

record ReceiptPayload =
  py_Version :: string
  py_SubjectType :: SubjectType
  py_SubjectID :: string
  py_Action :: ReceiptAction
  py_TenantID :: string
  py_CompanyID :: string
  py_FiscalPeriodID :: string
  py_ReviewedEnvelopeHash :: string
  py_ResultingEnvelopeHash :: string
  py_ReviewedJudgmentHash :: string
  py_ResultingJudgmentHash :: string
  py_FromMemoryID :: string
  py_FromEnvelopeHash :: string
  py_ToMemoryID :: string
  py_ToEnvelopeHash :: string
  py_SuccessorID :: string
  py_EvidenceRef :: string
  py_Reason :: string
  py_PrincipalID :: string
  py_MembershipID :: string
  py_PrincipalRoles :: "string list"
  py_AuthenticationMethod :: string
  py_AssuranceLevel :: string
  py_PrincipalAuthenticatedAt :: string
  py_PolicyVersion :: string
  py_IssuedAt :: string
  py_ReviewedLifecycleHash :: string
  py_ResultingLifecycleHash :: string
  py_ExecutionAttemptID :: string

record SignedReceipt =
  rr_SubjectType :: SubjectType
  rr_SubjectID :: string
  rr_Action :: ReceiptAction
  rr_TenantID :: string
  rr_CompanyID :: string
  rr_FiscalPeriodID :: string
  rr_PayloadHash :: string
  rr_PreviousReceiptHash :: string
  rr_PrincipalID :: string
  rr_MembershipID :: string
  rr_PolicyVersion :: string
  rr_Algorithm :: string
  rr_KeyID :: string
  rr_Signature :: string
  rr_IssuedAt :: string

definition receipt_canonicalRoles :: "string list \<Rightarrow> string list" where
  "receipt_canonicalRoles roles = sort (dedup (filter (\<lambda>r. r \<noteq> '''') roles))"

definition legacyCanonicalPayload :: "ReceiptPayload \<Rightarrow> string list \<Rightarrow> (string \<times> json) list" where
  "legacyCanonicalPayload p roles =
     [(''version'', JStr (py_Version p)), (''subjectType'', JStr (SubjectType_str (py_SubjectType p))),
      (''subjectId'', JStr (py_SubjectID p)), (''action'', JStr (ReceiptAction_str (py_Action p))),
      (''tenantId'', JStr (py_TenantID p)), (''companyId'', JStr (py_CompanyID p)),
      (''fiscalPeriodId'', JStr (py_FiscalPeriodID p)),
      (''reviewedEnvelopeHash'', JStr (py_ReviewedEnvelopeHash p)),
      (''resultingEnvelopeHash'', JStr (py_ResultingEnvelopeHash p)),
      (''reviewedJudgmentHash'', JStr (py_ReviewedJudgmentHash p)),
      (''resultingJudgmentHash'', JStr (py_ResultingJudgmentHash p)),
      (''fromMemoryId'', JStr (py_FromMemoryID p)), (''fromEnvelopeHash'', JStr (py_FromEnvelopeHash p)),
      (''toMemoryId'', JStr (py_ToMemoryID p)), (''toEnvelopeHash'', JStr (py_ToEnvelopeHash p)),
      (''successorId'', JStr (py_SuccessorID p)), (''evidenceRef'', JStr (py_EvidenceRef p)),
      (''reason'', JStr (py_Reason p)), (''principalId'', JStr (py_PrincipalID p)),
      (''membershipId'', JStr (py_MembershipID p)), (''principalRoles'', str_arr roles),
      (''authenticationMethod'', JStr (py_AuthenticationMethod p)),
      (''assuranceLevel'', JStr (py_AssuranceLevel p)),
      (''principalAuthenticatedAt'', JStr (py_PrincipalAuthenticatedAt p)),
      (''policyVersion'', JStr (py_PolicyVersion p)), (''issuedAt'', JStr (py_IssuedAt p))]"

definition CanonicalReceiptPayload :: "ReceiptPayload \<Rightarrow> string" where
  "CanonicalReceiptPayload p =
     (let roles = receipt_canonicalRoles (py_PrincipalRoles p); legacy = legacyCanonicalPayload p roles in
      if py_Version p = ReceiptPayloadVersionV09 then
        enc False (JObj (legacy @
          [(''reviewedLifecycleHash'', JStr (py_ReviewedLifecycleHash p)),
           (''resultingLifecycleHash'', JStr (py_ResultingLifecycleHash p)),
           (''executionAttemptId'', JStr (py_ExecutionAttemptID p))]))
      else enc False (JObj legacy))"

definition envelope_fields :: "SignedReceipt \<Rightarrow> (string \<times> json) list" where
  "envelope_fields r =
     [(''subjectType'', JStr (SubjectType_str (rr_SubjectType r))), (''subjectId'', JStr (rr_SubjectID r)),
      (''action'', JStr (ReceiptAction_str (rr_Action r))), (''tenantId'', JStr (rr_TenantID r)),
      (''companyId'', JStr (rr_CompanyID r)), (''fiscalPeriodId'', JStr (rr_FiscalPeriodID r)),
      (''payloadHash'', JStr (rr_PayloadHash r)), (''previousReceiptHash'', JStr (rr_PreviousReceiptHash r)),
      (''principalId'', JStr (rr_PrincipalID r)), (''membershipId'', JStr (rr_MembershipID r)),
      (''policyVersion'', JStr (rr_PolicyVersion r)), (''algorithm'', JStr (rr_Algorithm r)),
      (''keyId'', JStr (rr_KeyID r))]"

definition CanonicalUnsignedEnvelope :: "SignedReceipt \<Rightarrow> string" where
  "CanonicalUnsignedEnvelope r = enc False (JObj (envelope_fields r @ [(''issuedAt'', JStr (rr_IssuedAt r))]))"

definition CompleteReceiptBytes :: "SignedReceipt \<Rightarrow> string" where
  "CompleteReceiptBytes r = enc False (JObj (envelope_fields r @
     [(''signature'', JStr (rr_Signature r)), (''issuedAt'', JStr (rr_IssuedAt r))]))"

definition ReceiptPayloadHash :: "ReceiptPayload \<Rightarrow> string" where
  "ReceiptPayloadHash p = sha256_hex (CanonicalReceiptPayload p)"

definition ReceiptHash :: "SignedReceipt \<Rightarrow> string" where
  "ReceiptHash r = sha256_hex (CompleteReceiptBytes r)"

definition ReceiptKeyID :: "string \<Rightarrow> string" where
  "ReceiptKeyID publicKey = ''ed25519:'' @ sha256_hex publicKey"

section \<open>Verification\<close>

text \<open>\<^verbatim>\<open>crypto/ed25519\<close>: public key of a seed, signature, verification.\<close>

record Ed25519 =
  ed_Public :: "string \<Rightarrow> string"
  ed_Sign :: "string \<Rightarrow> string \<Rightarrow> string"
  ed_Verify :: "string \<Rightarrow> string \<Rightarrow> string \<Rightarrow> bool"

definition verifyPayloadEnvelopeEquality :: "SignedReceipt \<Rightarrow> ReceiptPayload \<Rightarrow> unit result" where
  "verifyPayloadEnvelopeEquality r p =
     ensure (py_SubjectType p = rr_SubjectType r \<and> py_SubjectID p = rr_SubjectID r \<and> py_Action p = rr_Action r
       \<and> py_TenantID p = rr_TenantID r \<and> py_CompanyID p = rr_CompanyID r \<and> py_FiscalPeriodID p = rr_FiscalPeriodID r
       \<and> py_PrincipalID p = rr_PrincipalID r \<and> py_MembershipID p = rr_MembershipID r
       \<and> py_PolicyVersion p = rr_PolicyVersion r \<and> py_IssuedAt p = rr_IssuedAt r)
       (PlainErr ''RECEIPT_INVALID'')"

definition VerifyReceipt :: "Ed25519 \<Rightarrow> SignedReceipt \<Rightarrow> ReceiptPayload \<Rightarrow> string \<Rightarrow> unit result" where
  "VerifyReceipt ed r p publicKey =
     (if \<not> IsValidSubjectType (rr_SubjectType r) then Inl (PlainErr ''RECEIPT_INVALID'')
      else if \<not> IsValidReceiptAction (rr_Action r) then Inl (PlainErr ''RECEIPT_INVALID'')
      else if rr_Algorithm r \<noteq> ReceiptAlgorithm then Inl (PlainErr ''RECEIPT_INVALID'')
      else and_then (verifyPayloadEnvelopeEquality r p) (\<lambda>_.
        if rr_PayloadHash r \<noteq> ReceiptPayloadHash p then Inl (PlainErr ''RECEIPT_PAYLOAD_HASH_MISMATCH'')
        else if rr_KeyID r \<noteq> ReceiptKeyID publicKey then Inl (PlainErr ''RECEIPT_KEY_MISMATCH'')
        else case b64_decode (rr_Signature r) of
          None \<Rightarrow> Inl (PlainErr ''RECEIPT_INVALID'')
        | Some sig \<Rightarrow>
            if length sig \<noteq> 64 then Inl (PlainErr ''RECEIPT_SIGNATURE_INVALID'')
            else if \<not> ed_Verify ed publicKey (CanonicalUnsignedEnvelope r) sig
            then Inl (PlainErr ''RECEIPT_SIGNATURE_INVALID'')
            else Inr ()))"

section \<open>Base64 round trip\<close>

lemma b64_char_code:
  "n < 64 \<Longrightarrow> (of_char (b64_char n) :: nat) =
     (if n < 26 then 65 + n else if n < 52 then 71 + n else if n < 62 then n - 4 else if n = 62 then 43 else 47)"
  by (auto simp: b64_char_def)

lemma b64_val_char: "n < 64 \<Longrightarrow> b64_val (b64_char n) = Some n"
  unfolding b64_val_def by (simp only: b64_char_code Let_def) auto

lemma b64_char_kept: "n < 64 \<Longrightarrow> b64_char n \<noteq> CHR 0x0A \<and> b64_char n \<noteq> CHR 0x0D \<and> b64_char n \<noteq> CHR ''=''"
  using b64_char_code [of n] by (auto split: if_splits)

lemma byte_of_less: "byte_of c < 256"
  unfolding byte_of_def by (metis of_char_of mod_less_divisor nat_of_char_less_256 zero_less_numeral)

lemma char_of_byte_of: "char_of (byte_of c) = c"
  by (simp add: byte_of_def)

lemma sextets_less:
  "byte_of a div 4 < 64" "byte_of a mod 4 * 16 + byte_of b div 16 < 64" "byte_of b mod 16 * 4 + byte_of c div 64 < 64"
  "byte_of c mod 64 < 64" "byte_of a mod 4 * 16 < 64" "byte_of b mod 16 * 4 < 64"
  using byte_of_less [of a] byte_of_less [of b] byte_of_less [of c] by auto

lemma sextet_bytes:
  "byte_of b div 16 div 16 = 0" "byte_of c div 64 div 4 = 0"
  "byte_of b div 16 mod 16 * 16 + byte_of b mod 16 = byte_of b"
  "byte_of c div 64 mod 4 * 64 + byte_of c mod 64 = byte_of c"
  using byte_of_less [of b] byte_of_less [of c] by auto

lemma b64_groups_encode: "b64_groups (b64_encode s) = Some s"
proof (induction s rule: b64_encode.induct)
  case (1 a b c s)
  then show ?case
    by (simp add: b64_val_char sextets_less sextet_bytes char_of_byte_of)
next
  case (2 a b)
  have "b64_val (CHR ''='') = None" by (simp add: b64_val_def)
  then show ?case
    by (simp add: b64_val_char sextets_less sextet_bytes char_of_byte_of)
next
  case (3 a)
  have "b64_val (CHR ''='') = None" by (simp add: b64_val_def)
  then show ?case
    by (simp add: b64_val_char sextets_less sextet_bytes char_of_byte_of)
qed simp

lemma b64_encode_kept: "c \<in> set (b64_encode s) \<Longrightarrow> c \<noteq> CHR 0x0A \<and> c \<noteq> CHR 0x0D"
  by (induction s rule: b64_encode.induct) (auto simp: b64_char_kept sextets_less)

lemma b64_decode_encode: "b64_decode (b64_encode s) = Some s"
proof -
  have "filter (\<lambda>c. c \<noteq> CHR 0x0A \<and> c \<noteq> CHR 0x0D) (b64_encode s) = b64_encode s"
    using b64_encode_kept by (simp add: filter_id_conv)
  then show ?thesis by (simp add: b64_decode_def b64_groups_encode)
qed

end
