(* ===== verification/Receipt_Store.thy ===== *)
theory Receipt_Store
  imports Receipt
begin

text \<open>
  Signing and persisting receipts: the validated keyring (internal/receipts/keyring.go), Sign
  (internal/receipts/signer.go), emitReceipt and the signing_keys and receipts tables of
  internal/store/store.go with the constraints of the schema (receiptsV13DDL of review_store.go,
  the singleton index of purge_execution_store.go).
\<close>

section \<open>Keyring\<close>

text \<open>A keyring entry with its decoded seed.\<close>

record KeyEntry =
  ke_Seed :: string
  ke_CreatedAt :: string
  ke_RevokedAt :: string

record Keyring =
  kr_ActiveKeyID :: string
  kr_Keys :: "(string \<times> KeyEntry) list"

definition validateKeyring :: "Ed25519 \<Rightarrow> Keyring \<Rightarrow> Keyring result" where
  "validateKeyring ed kf =
     (if kr_ActiveKeyID kf = '''' then Inl (PlainErr ''keyring'')
      else if kr_Keys kf = [] then Inl (PlainErr ''keyring'')
      else if map_of (kr_Keys kf) (kr_ActiveKeyID kf) = None then Inl (PlainErr ''keyring'')
      else if list_all (\<lambda>(keyID, e). length (ke_Seed e) = 32 \<and> ReceiptKeyID (ed_Public ed (ke_Seed e)) = keyID) (kr_Keys kf)
      then Inr kf else Inl (PlainErr ''keyring''))"

definition RevokedAt :: "Keyring \<Rightarrow> string \<Rightarrow> string" where
  "RevokedAt k keyID = (case map_of (kr_Keys k) keyID of None \<Rightarrow> '''' | Some e \<Rightarrow> ke_RevokedAt e)"

definition CreatedAt :: "Keyring \<Rightarrow> string \<Rightarrow> string" where
  "CreatedAt k keyID = (case map_of (kr_Keys k) keyID of None \<Rightarrow> '''' | Some e \<Rightarrow> ke_CreatedAt e)"

definition SeedFor :: "Keyring \<Rightarrow> string \<Rightarrow> string result" where
  "SeedFor k keyID = (case map_of (kr_Keys k) keyID of None \<Rightarrow> Inl (PlainErr ''keyring'') | Some e \<Rightarrow> Inr (ke_Seed e))"

section \<open>Tables\<close>

record SigningKeyRow =
  sk_KeyID :: string
  sk_Algorithm :: string
  sk_PublicKey :: string
  sk_CreatedAt :: string
  sk_RevokedAt :: string

record ReceiptRow =
  rw_Receipt :: SignedReceipt
  rw_Signature :: string
  rw_PayloadJSON :: string
  rw_ReceiptHash :: string

record ReceiptStore =
  rs_SigningKeys :: "SigningKeyRow list"
  rs_Receipts :: "ReceiptRow list"

definition LookupSigningKey :: "ReceiptStore \<Rightarrow> string \<Rightarrow> SigningKeyRow option" where
  "LookupSigningKey st keyID = find (\<lambda>k. sk_KeyID k = keyID) (rs_SigningKeys st)"

definition RegisterPublicKey :: "ReceiptStore \<Rightarrow> string \<Rightarrow> string \<Rightarrow> string \<Rightarrow> string \<Rightarrow> ReceiptStore" where
  "RegisterPublicKey st keyID alg pub createdAt =
     (if LookupSigningKey st keyID \<noteq> None then st
      else st\<lparr>rs_SigningKeys := rs_SigningKeys st @
        [\<lparr>sk_KeyID = keyID, sk_Algorithm = alg, sk_PublicKey = pub, sk_CreatedAt = createdAt, sk_RevokedAt = ''''\<rparr>]\<rparr>)"

text \<open>The rows of one subject, in insertion order.\<close>

definition subject_rows :: "ReceiptStore \<Rightarrow> SubjectType \<Rightarrow> string \<Rightarrow> ReceiptRow list" where
  "subject_rows st t i =
     filter (\<lambda>w. rr_SubjectType (rw_Receipt w) = t \<and> rr_SubjectID (rw_Receipt w) = i) (rs_Receipts st)"

text \<open>\<^verbatim>\<open>ORDER BY issued_at DESC, rowid DESC LIMIT 1\<close>: the last row whose timestamp no row exceeds.\<close>

fun latest_row :: "ReceiptRow list \<Rightarrow> ReceiptRow option" where
  "latest_row [] = None"
| "latest_row (w # ws) =
     (case latest_row ws of
        None \<Rightarrow> Some w
      | Some v \<Rightarrow> if rr_IssuedAt (rw_Receipt w) \<le> rr_IssuedAt (rw_Receipt v) then Some v else Some w)"

definition LatestReceiptChainHead :: "ReceiptStore \<Rightarrow> SubjectType \<Rightarrow> string \<Rightarrow> string" where
  "LatestReceiptChainHead st t i =
     (case latest_row (subject_rows st t i) of None \<Rightarrow> '''' | Some w \<Rightarrow> rw_ReceiptHash w)"

definition grows_per_subject :: "ReceiptAction \<Rightarrow> bool" where
  "grows_per_subject a \<longleftrightarrow> a \<in> {EvidenceLinked, HoldPlaced, HoldLifted, RetentionBound, PurgeRequested, PurgeApproved,
     PurgeRejected, PurgeCancelled, PurgeWithdrawn, PurgeIntent, PurgeExecuted}"

definition same_act :: "SignedReceipt \<Rightarrow> SignedReceipt \<Rightarrow> bool" where
  "same_act a b \<longleftrightarrow> rr_SubjectType a = rr_SubjectType b \<and> rr_SubjectID a = rr_SubjectID b \<and> rr_Action a = rr_Action b"

definition InsertReceipt :: "ReceiptStore \<Rightarrow> ReceiptRow \<Rightarrow> ReceiptStore result" where
  "InsertReceipt st row =
     (let r = rw_Receipt row in
      if \<not> IsValidSubjectType (rr_SubjectType r) \<or> \<not> IsValidReceiptAction (rr_Action r)
         \<or> rr_Algorithm r \<noteq> ReceiptAlgorithm \<or> LookupSigningKey st (rr_KeyID r) = None
      then Inl (StoreErr ''CHECK'')
      else if list_ex (\<lambda>w. rw_ReceiptHash w = rw_ReceiptHash row
              \<or> (same_act (rw_Receipt w) r \<and> (rr_PayloadHash (rw_Receipt w) = rr_PayloadHash r \<or> \<not> grows_per_subject (rr_Action r))))
            (rs_Receipts st)
      then Inl (StoreErr ''UNIQUE'')
      else Inr (st\<lparr>rs_Receipts := rs_Receipts st @ [row]\<rparr>))"

section \<open>Signing\<close>

record Signer =
  sg_Ed :: Ed25519
  sg_Keyring :: Keyring

definition signed_envelope :: "ReceiptStore \<Rightarrow> string \<Rightarrow> ReceiptPayload \<Rightarrow> string \<Rightarrow> SignedReceipt" where
  "signed_envelope st keyID p issuedAt =
     \<lparr>rr_SubjectType = py_SubjectType p, rr_SubjectID = py_SubjectID p, rr_Action = py_Action p,
      rr_TenantID = py_TenantID p, rr_CompanyID = py_CompanyID p, rr_FiscalPeriodID = py_FiscalPeriodID p,
      rr_PayloadHash = ReceiptPayloadHash p,
      rr_PreviousReceiptHash = LatestReceiptChainHead st (py_SubjectType p) (py_SubjectID p),
      rr_PrincipalID = py_PrincipalID p, rr_MembershipID = py_MembershipID p, rr_PolicyVersion = py_PolicyVersion p,
      rr_Algorithm = ReceiptAlgorithm, rr_KeyID = keyID, rr_Signature = '''', rr_IssuedAt = issuedAt\<rparr>"

definition Sign :: "Signer \<Rightarrow> ReceiptStore \<Rightarrow> ReceiptPayload \<Rightarrow> string \<Rightarrow> (ReceiptStore \<times> SignedReceipt) result" where
  "Sign s st p issuedAt =
     and_then (validateKeyring (sg_Ed s) (sg_Keyring s)) (\<lambda>kr.
     let keyID = kr_ActiveKeyID kr in
     and_then (ensure (RevokedAt kr keyID = '''') (PlainErr ''sign'')) (\<lambda>_.
     and_then (SeedFor kr keyID) (\<lambda>seed.
     let pub = ed_Public (sg_Ed s) seed; pubB64 = b64_encode pub in
     and_then (case LookupSigningKey st keyID of None \<Rightarrow> Inr ()
               | Some rec \<Rightarrow> ensure (sk_PublicKey rec = pubB64 \<and> sk_RevokedAt rec = '''') (PlainErr ''sign'')) (\<lambda>_.
     and_then (ensure (py_IssuedAt p = issuedAt) (PlainErr ''sign'')) (\<lambda>_.
     let r0 = signed_envelope st keyID p issuedAt;
         sig = ed_Sign (sg_Ed s) seed (CanonicalUnsignedEnvelope r0);
         r = r0\<lparr>rr_Signature := b64_encode sig\<rparr>;
         st' = RegisterPublicKey st keyID ReceiptAlgorithm pubB64 (CreatedAt kr keyID)
     in and_then (InsertReceipt st' \<lparr>rw_Receipt = r, rw_Signature = sig,
                   rw_PayloadJSON = CanonicalReceiptPayload p, rw_ReceiptHash = ReceiptHash r\<rparr>) (\<lambda>st''.
        Inr (st'', r)))))))"

text \<open>emitReceipt: with no signer attached nothing is emitted; the zero receipt is None.\<close>

definition emitReceipt :: "Signer option \<Rightarrow> ReceiptStore \<Rightarrow> SubjectType \<Rightarrow> string \<Rightarrow> ReceiptAction \<Rightarrow> ReceiptPayload
    \<Rightarrow> string \<Rightarrow> (ReceiptStore \<times> SignedReceipt option) result" where
  "emitReceipt signer st subjectType subjectID action p issuedAt =
     (case signer of None \<Rightarrow> Inr (st, None)
      | Some s \<Rightarrow>
          and_then (Sign s st (p\<lparr>py_Version := (if py_Version p = '''' then ReceiptPayloadVersion else py_Version p),
                 py_SubjectType := subjectType, py_SubjectID := subjectID, py_Action := action, py_IssuedAt := issuedAt\<rparr>) issuedAt)
            (\<lambda>(st', r). Inr (st', Some r)))"

section \<open>Lemmas\<close>

lemma RegisterPublicKey_receipts [simp]: "rs_Receipts (RegisterPublicKey st k a p c) = rs_Receipts st"
  by (simp add: RegisterPublicKey_def)

lemma LatestReceiptChainHead_register [simp]:
  "LatestReceiptChainHead (RegisterPublicKey st k a p c) = LatestReceiptChainHead st"
  by (simp add: LatestReceiptChainHead_def subject_rows_def fun_eq_iff)

lemma InsertReceipt_Inr:
  "InsertReceipt st row = Inr st' \<Longrightarrow> rs_Receipts st' = rs_Receipts st @ [row]
     \<and> (\<forall>w \<in> set (rs_Receipts st). rw_ReceiptHash w \<noteq> rw_ReceiptHash row)
     \<and> (\<forall>w \<in> set (rs_Receipts st). same_act (rw_Receipt w) (rw_Receipt row) \<longrightarrow>
          rr_PayloadHash (rw_Receipt w) \<noteq> rr_PayloadHash (rw_Receipt row))
     \<and> IsValidSubjectType (rr_SubjectType (rw_Receipt row)) \<and> IsValidReceiptAction (rr_Action (rw_Receipt row))"
  by (auto simp: InsertReceipt_def Let_def list_ex_iff split: if_splits)

lemma InsertReceipt_keys: "InsertReceipt st row = Inr st' \<Longrightarrow> rs_SigningKeys st' = rs_SigningKeys st"
  by (auto simp: InsertReceipt_def Let_def split: if_splits)

lemma LookupSigningKey_register:
  "\<exists>k. LookupSigningKey (RegisterPublicKey st i a p c) i = Some k
     \<and> (LookupSigningKey st i = Some k \<or> sk_PublicKey k = p)"
proof (cases "LookupSigningKey st i")
  case None
  then show ?thesis by (simp add: RegisterPublicKey_def LookupSigningKey_def find_append)
qed (simp add: RegisterPublicKey_def)

text \<open>What a successful Sign did: one new row, chained on the head, for the given payload.\<close>

lemma Sign_Inr:
  assumes "Sign s st p t = Inr (st', r)"
  obtains seed sig row where
    "map_of (kr_Keys (sg_Keyring s)) (kr_ActiveKeyID (sg_Keyring s)) \<noteq> None"
    "ReceiptKeyID (ed_Public (sg_Ed s) seed) = kr_ActiveKeyID (sg_Keyring s)"
    "sig = ed_Sign (sg_Ed s) seed (CanonicalUnsignedEnvelope (signed_envelope st (kr_ActiveKeyID (sg_Keyring s)) p t))"
    "r = (signed_envelope st (kr_ActiveKeyID (sg_Keyring s)) p t)\<lparr>rr_Signature := b64_encode sig\<rparr>"
    "row = \<lparr>rw_Receipt = r, rw_Signature = sig, rw_PayloadJSON = CanonicalReceiptPayload p, rw_ReceiptHash = ReceiptHash r\<rparr>"
    "rs_Receipts st' = rs_Receipts st @ [row]" "py_IssuedAt p = t"
    "IsValidSubjectType (rr_SubjectType r)" "IsValidReceiptAction (rr_Action r)"
    "RevokedAt (sg_Keyring s) (kr_ActiveKeyID (sg_Keyring s)) = ''''"
    "\<forall>k. LookupSigningKey st (kr_ActiveKeyID (sg_Keyring s)) = Some k \<longrightarrow> sk_RevokedAt k = ''''"
    "length seed = 32"
    "\<exists>k. LookupSigningKey st' (kr_ActiveKeyID (sg_Keyring s)) = Some k \<and> sk_PublicKey k = b64_encode (ed_Public (sg_Ed s) seed)"
proof -
  let ?id = "kr_ActiveKeyID (sg_Keyring s)"
  from assms obtain kr where kr: "validateKeyring (sg_Ed s) (sg_Keyring s) = Inr kr"
    unfolding Sign_def and_then_eq_Inr by blast
  then have "kr = sg_Keyring s" by (simp add: validateKeyring_def split: if_splits)
  with kr have kr: "validateKeyring (sg_Ed s) (sg_Keyring s) = Inr (sg_Keyring s)" by simp
  then obtain e where e: "map_of (kr_Keys (sg_Keyring s)) ?id = Some e"
    by (auto simp: validateKeyring_def split: if_splits)
  with kr have id: "ReceiptKeyID (ed_Public (sg_Ed s) (ke_Seed e)) = ?id" and len: "length (ke_Seed e) = 32"
    by (auto simp: validateKeyring_def list_all_iff split: if_splits dest!: map_of_SomeD)
  let ?r0 = "signed_envelope st ?id p t"
  let ?sig = "ed_Sign (sg_Ed s) (ke_Seed e) (CanonicalUnsignedEnvelope ?r0)"
  let ?pub = "b64_encode (ed_Public (sg_Ed s) (ke_Seed e))"
  have rev: "RevokedAt (sg_Keyring s) ?id = ''''"
    using assms kr by (cases "RevokedAt (sg_Keyring s) ?id = ''''") (simp_all add: Sign_def Let_def)
  have seed: "SeedFor (sg_Keyring s) ?id = Inr (ke_Seed e)" by (simp add: SeedFor_def e)
  let ?chk = "case LookupSigningKey st ?id of None \<Rightarrow> Inr ()
     | Some rec \<Rightarrow> ensure (sk_PublicKey rec = ?pub \<and> sk_RevokedAt rec = '''') (PlainErr ''sign'')"
  have chk: "?chk = Inr ()"
    using assms kr rev seed by (cases ?chk) (simp_all add: Sign_def Let_def)
  then have lk: "\<forall>k. LookupSigningKey st ?id = Some k \<longrightarrow> sk_RevokedAt k = '''' \<and> sk_PublicKey k = ?pub"
    by (auto simp: ensure_eq_Inr)
  have t: "py_IssuedAt p = t"
    using assms kr rev seed chk by (cases "py_IssuedAt p = t") (simp_all add: Sign_def Let_def)
  have ins: "InsertReceipt (RegisterPublicKey st ?id ReceiptAlgorithm ?pub (CreatedAt (sg_Keyring s) ?id))
        \<lparr>rw_Receipt = r, rw_Signature = ?sig, rw_PayloadJSON = CanonicalReceiptPayload p, rw_ReceiptHash = ReceiptHash r\<rparr> = Inr st'"
    and r: "r = ?r0\<lparr>rr_Signature := b64_encode ?sig\<rparr>"
    using assms kr rev seed chk t by (auto simp: Sign_def Let_def and_then_eq_Inr)
  note row = InsertReceipt_Inr [OF ins]
  have "LookupSigningKey st' ?id = LookupSigningKey (RegisterPublicKey st ?id ReceiptAlgorithm ?pub (CreatedAt (sg_Keyring s) ?id)) ?id"
    using InsertReceipt_keys [OF ins] by (simp add: LookupSigningKey_def)
  then have key: "\<exists>k. LookupSigningKey st' ?id = Some k \<and> sk_PublicKey k = ?pub"
    using lk LookupSigningKey_register [of st ?id ReceiptAlgorithm ?pub "CreatedAt (sg_Keyring s) ?id"] by auto
  show thesis
    by (rule that [of "ke_Seed e" ?sig, OF _ id refl r refl])
       (use row t rev lk e len key in auto)
qed

section \<open>Chains\<close>

text \<open>
  The rows of a subject form a hash chain: every row's previous hash is the receipt hash of the
  row before it, the first row's is empty.
\<close>

fun chain_from :: "string \<Rightarrow> ReceiptRow list \<Rightarrow> bool" where
  "chain_from prev [] = True"
| "chain_from prev (w # ws) =
     (rr_PreviousReceiptHash (rw_Receipt w) = prev \<and> rw_ReceiptHash w = ReceiptHash (rw_Receipt w)
      \<and> chain_from (rw_ReceiptHash w) ws)"

definition chained :: "ReceiptStore \<Rightarrow> bool" where
  "chained st \<longleftrightarrow> (\<forall>t i. chain_from '''' (subject_rows st t i))"

text \<open>No stored receipt was issued after \<open>now\<close>, and the rows are in order of issue.\<close>

definition issued_by :: "string \<Rightarrow> ReceiptStore \<Rightarrow> bool" where
  "issued_by now st \<longleftrightarrow> sorted (map (\<lambda>w. rr_IssuedAt (rw_Receipt w)) (rs_Receipts st))
     \<and> (\<forall>w \<in> set (rs_Receipts st). rr_IssuedAt (rw_Receipt w) \<le> now)"

lemma latest_row_sorted:
  "sorted (map (\<lambda>w. rr_IssuedAt (rw_Receipt w)) ws) \<Longrightarrow> latest_row ws = (if ws = [] then None else Some (last ws))"
  by (induction ws) auto

lemma chain_from_snoc:
  "chain_from prev (ws @ [w]) \<longleftrightarrow> chain_from prev ws
     \<and> rr_PreviousReceiptHash (rw_Receipt w) = (if ws = [] then prev else rw_ReceiptHash (last ws))
     \<and> rw_ReceiptHash w = ReceiptHash (rw_Receipt w)"
  by (induction ws arbitrary: prev) auto

lemma subject_rows_snoc:
  assumes "rs_Receipts st' = rs_Receipts st @ [w]"
  shows "subject_rows st' t i = subject_rows st t i @
    (if rr_SubjectType (rw_Receipt w) = t \<and> rr_SubjectID (rw_Receipt w) = i then [w] else [])"
  using assms by (simp add: subject_rows_def)

lemma LatestReceiptChainHead_sorted:
  assumes "issued_by now st"
  shows "LatestReceiptChainHead st t i =
    (if subject_rows st t i = [] then '''' else rw_ReceiptHash (last (subject_rows st t i)))"
proof -
  have "sorted (map (\<lambda>w. rr_IssuedAt (rw_Receipt w)) (subject_rows st t i))"
    using assms unfolding issued_by_def subject_rows_def by (simp add: sorted_filter)
  then show ?thesis by (simp add: LatestReceiptChainHead_def latest_row_sorted)
qed

lemma Sign_inr_cases:
  assumes "Sign s st p t = Inr (st', r)"
  obtains row where "rs_Receipts st' = rs_Receipts st @ [row]" "rw_Receipt row = r"
      "rw_ReceiptHash row = ReceiptHash r" "rr_IssuedAt r = t"
      "rr_PreviousReceiptHash r = LatestReceiptChainHead st (rr_SubjectType r) (rr_SubjectID r)"
proof -
  from assms show thesis
  proof (rule Sign_Inr)
    fix seed sig row
    assume r: "r = (signed_envelope st (kr_ActiveKeyID (sg_Keyring s)) p t)\<lparr>rr_Signature := b64_encode sig\<rparr>"
      and row: "row = \<lparr>rw_Receipt = r, rw_Signature = sig, rw_PayloadJSON = CanonicalReceiptPayload p, rw_ReceiptHash = ReceiptHash r\<rparr>"
      and st: "rs_Receipts st' = rs_Receipts st @ [row]"
    have "rw_Receipt row = r" "rw_ReceiptHash row = ReceiptHash r" by (simp_all add: row)
    moreover have "rr_IssuedAt r = t"
      "rr_PreviousReceiptHash r = LatestReceiptChainHead st (rr_SubjectType r) (rr_SubjectID r)"
      by (simp_all add: r signed_envelope_def)
    ultimately show thesis using that st by blast
  qed
qed

lemma Sign_chained:
  assumes "Sign s st p t = Inr (st', r)" and "chained st" and "issued_by t st"
  shows "chained st' \<and> issued_by t st'"
proof -
  obtain row where row: "rs_Receipts st' = rs_Receipts st @ [row]" "rw_Receipt row = r"
      "rw_ReceiptHash row = ReceiptHash r" "rr_IssuedAt r = t"
      "rr_PreviousReceiptHash r = LatestReceiptChainHead st (rr_SubjectType r) (rr_SubjectID r)"
    by (rule Sign_inr_cases [OF assms(1)])
  show ?thesis
  proof
    show "chained st'"
      using assms(2) row LatestReceiptChainHead_sorted [OF assms(3)]
      by (auto simp: chained_def subject_rows_snoc [OF row(1)] chain_from_snoc)
    show "issued_by t st'"
      using assms(3) row by (auto simp: issued_by_def sorted_append)
  qed
qed

section \<open>Signed receipts verify\<close>

lemma VerifyReceipt_Inr:
  "VerifyReceipt ed r p pub = Inr () \<longleftrightarrow>
     IsValidSubjectType (rr_SubjectType r) \<and> IsValidReceiptAction (rr_Action r)
     \<and> rr_Algorithm r = ReceiptAlgorithm \<and> verifyPayloadEnvelopeEquality r p = Inr ()
     \<and> rr_PayloadHash r = ReceiptPayloadHash p \<and> rr_KeyID r = ReceiptKeyID pub
     \<and> (\<exists>sig. b64_decode (rr_Signature r) = Some sig \<and> length sig = 64
            \<and> ed_Verify ed pub (CanonicalUnsignedEnvelope r) sig)"
  unfolding VerifyReceipt_def
  by (cases "verifyPayloadEnvelopeEquality r p") (auto split: option.splits)

lemma CanonicalUnsignedEnvelope_signature [simp]:
  "CanonicalUnsignedEnvelope (r\<lparr>rr_Signature := x\<rparr>) = CanonicalUnsignedEnvelope r"
  by (simp add: CanonicalUnsignedEnvelope_def envelope_fields_def)

text \<open>
  C31: A receipt that Sign produced is accepted by VerifyReceipt against the payload that was
  signed and the public key the database registered under the receipt's key id, for any
  Ed25519 whose verification accepts what its signing function produced and whose signatures
  have 64 bytes.
\<close>

theorem signed_receipt_verifies:
  assumes "Sign s st p t = Inr (st', r)"
    and "\<And>seed msg. length seed = 32 \<Longrightarrow>
           ed_Verify (sg_Ed s) (ed_Public (sg_Ed s) seed) msg (ed_Sign (sg_Ed s) seed msg)"
    and "\<And>seed msg. length seed = 32 \<Longrightarrow> length (ed_Sign (sg_Ed s) seed msg) = 64"
  shows "\<exists>k pub. LookupSigningKey st' (rr_KeyID r) = Some k \<and> b64_decode (sk_PublicKey k) = Some pub
           \<and> VerifyReceipt (sg_Ed s) r p pub = Inr ()"
proof -
  let ?id = "kr_ActiveKeyID (sg_Keyring s)"
  obtain seed sig where id: "ReceiptKeyID (ed_Public (sg_Ed s) seed) = ?id"
    and sig: "sig = ed_Sign (sg_Ed s) seed (CanonicalUnsignedEnvelope (signed_envelope st ?id p t))"
    and r: "r = (signed_envelope st ?id p t)\<lparr>rr_Signature := b64_encode sig\<rparr>"
    and t: "py_IssuedAt p = t" and ok: "IsValidSubjectType (rr_SubjectType r)" "IsValidReceiptAction (rr_Action r)"
    and len: "length seed = 32"
    and key: "\<exists>k. LookupSigningKey st' ?id = Some k \<and> sk_PublicKey k = b64_encode (ed_Public (sg_Ed s) seed)"
    by (rule Sign_Inr [OF assms(1)]) blast
  from key obtain k where k: "LookupSigningKey st' ?id = Some k" "sk_PublicKey k = b64_encode (ed_Public (sg_Ed s) seed)"
    by blast
  have "VerifyReceipt (sg_Ed s) r p (ed_Public (sg_Ed s) seed) = Inr ()"
    using ok id assms(2,3) [OF len] t
    by (simp add: VerifyReceipt_Inr r sig b64_decode_encode verifyPayloadEnvelopeEquality_def)
       (simp add: signed_envelope_def ensure_def)
  then show ?thesis using k b64_decode_encode [of "ed_Public (sg_Ed s) seed"]
    by (intro exI [of _ k] exI [of _ "ed_Public (sg_Ed s) seed"]) (simp add: r signed_envelope_def)
qed

text \<open>A concrete signer: constant seed and signature, a verification that accepts that signature.\<close>

definition toy_ed :: Ed25519 where
  "toy_ed = \<lparr>ed_Public = (\<lambda>seed. ''pub''), ed_Sign = (\<lambda>seed msg. replicate 64 CHR ''s''),
     ed_Verify = (\<lambda>pub msg sig. pub = ''pub'' \<and> sig = replicate 64 CHR ''s'')\<rparr>"

definition toy_signer :: Signer where
  "toy_signer = \<lparr>sg_Ed = toy_ed, sg_Keyring = \<lparr>kr_ActiveKeyID = ReceiptKeyID ''pub'',
     kr_Keys = [(ReceiptKeyID ''pub'', \<lparr>ke_Seed = replicate 32 CHR ''k'', ke_CreatedAt = ''2026-01-01T00:00:00Z'', ke_RevokedAt = ''''\<rparr>)]\<rparr>\<rparr>"

definition empty_receipts :: ReceiptStore where
  "empty_receipts = \<lparr>rs_SigningKeys = [], rs_Receipts = []\<rparr>"

definition toy_payload :: ReceiptPayload where
  "toy_payload = \<lparr>py_Version = ReceiptPayloadVersion, py_SubjectType = SubjectMemory, py_SubjectID = ''m-1'',
     py_Action = MemoryApproved, py_TenantID = ''t'', py_CompanyID = ''c'', py_FiscalPeriodID = '''',
     py_ReviewedEnvelopeHash = '''', py_ResultingEnvelopeHash = '''', py_ReviewedJudgmentHash = '''',
     py_ResultingJudgmentHash = '''', py_FromMemoryID = '''', py_FromEnvelopeHash = '''', py_ToMemoryID = '''',
     py_ToEnvelopeHash = '''', py_SuccessorID = '''', py_EvidenceRef = '''', py_Reason = '''', py_PrincipalID = ''p'',
     py_MembershipID = ''m'', py_PrincipalRoles = [], py_AuthenticationMethod = '''', py_AssuranceLevel = '''',
     py_PrincipalAuthenticatedAt = '''', py_PolicyVersion = '''', py_IssuedAt = ''2026-01-02T00:00:00Z'',
     py_ReviewedLifecycleHash = '''', py_ResultingLifecycleHash = '''', py_ExecutionAttemptID = ''''\<rparr>"

lemma toy_Sign: "\<exists>st' r. Sign toy_signer empty_receipts toy_payload ''2026-01-02T00:00:00Z'' = Inr (st', r)"
proof -
  have ring: "validateKeyring (sg_Ed toy_signer) (sg_Keyring toy_signer) = Inr (sg_Keyring toy_signer)"
    by (simp add: validateKeyring_def toy_signer_def toy_ed_def) (simp add: ReceiptKeyID_def)
  have ins: "InsertReceipt (RegisterPublicKey empty_receipts (kr_ActiveKeyID (sg_Keyring toy_signer)) ReceiptAlgorithm pb c)
        \<lparr>rw_Receipt = (signed_envelope empty_receipts (kr_ActiveKeyID (sg_Keyring toy_signer)) toy_payload x)\<lparr>rr_Signature := y\<rparr>,
         rw_Signature = a, rw_PayloadJSON = b, rw_ReceiptHash = d\<rparr>
      = Inr ((RegisterPublicKey empty_receipts (kr_ActiveKeyID (sg_Keyring toy_signer)) ReceiptAlgorithm pb c)\<lparr>rs_Receipts :=
         [\<lparr>rw_Receipt = (signed_envelope empty_receipts (kr_ActiveKeyID (sg_Keyring toy_signer)) toy_payload x)\<lparr>rr_Signature := y\<rparr>,
         rw_Signature = a, rw_PayloadJSON = b, rw_ReceiptHash = d\<rparr>]\<rparr>)" for pb c x y a b d
    by (simp add: InsertReceipt_def signed_envelope_def toy_payload_def empty_receipts_def RegisterPublicKey_def LookupSigningKey_def)
  show ?thesis
    unfolding Sign_def Let_def ring and_then_Inr
    by (simp add: ins RevokedAt_def SeedFor_def toy_payload_def [THEN arg_cong, of py_IssuedAt])
       (simp add: toy_signer_def LookupSigningKey_def empty_receipts_def)
qed

lemma signed_receipt_verifies_witness:
  "\<exists>st' r k pub. Sign toy_signer empty_receipts toy_payload ''2026-01-02T00:00:00Z'' = Inr (st', r)
     \<and> LookupSigningKey st' (rr_KeyID r) = Some k \<and> b64_decode (sk_PublicKey k) = Some pub
     \<and> VerifyReceipt toy_ed r toy_payload pub = Inr ()"
proof -
  obtain st' r where s: "Sign toy_signer empty_receipts toy_payload ''2026-01-02T00:00:00Z'' = Inr (st', r)"
    using toy_Sign by blast
  have ed: "sg_Ed toy_signer = toy_ed" by (simp add: toy_signer_def)
  have "\<exists>k pub. LookupSigningKey st' (rr_KeyID r) = Some k \<and> b64_decode (sk_PublicKey k) = Some pub
      \<and> VerifyReceipt (sg_Ed toy_signer) r toy_payload pub = Inr ()"
    by (rule signed_receipt_verifies [OF s]) (simp_all add: toy_signer_def toy_ed_def)
  then show ?thesis using s unfolding ed by blast
qed

section \<open>The chain of a subject\<close>

text \<open>A sequence of emissions with their issue times, as the handlers perform them.\<close>

fun sign_all :: "Signer \<Rightarrow> (ReceiptPayload \<times> string) list \<Rightarrow> ReceiptStore \<Rightarrow> ReceiptStore result" where
  "sign_all s [] st = Inr st"
| "sign_all s ((p, t) # acts) st = and_then (Sign s st p t) (\<lambda>(st', r). sign_all s acts st')"

lemma issued_by_mono: "issued_by t st \<Longrightarrow> t \<le> t' \<Longrightarrow> issued_by t' st"
  by (auto simp: issued_by_def)

lemma sign_all_chained:
  assumes "sign_all s acts st = Inr st'" and "sorted (map snd acts)" and "chained st"
    and "\<forall>t \<in> set (map snd acts). issued_by t st"
  shows "chained st'"
  using assms
proof (induction acts arbitrary: st)
  case (Cons a acts)
  obtain p t where a: "a = (p, t)" by (cases a)
  from Cons.prems(1) obtain st1 r where s: "Sign s st p t = Inr (st1, r)" and rest: "sign_all s acts st1 = Inr st'"
    by (auto simp: a and_then_eq_Inr)
  have "chained st1 \<and> issued_by t st1"
    using Sign_chained [OF s] Cons.prems(3,4) by (simp add: a)
  moreover from this have "\<forall>u \<in> set (map snd acts). issued_by u st1"
    using Cons.prems(2) issued_by_mono by (auto simp: a)
  ultimately show ?case using Cons.IH [OF rest] Cons.prems(2) by simp
qed simp

text \<open>
  C32: When receipts are issued at non-decreasing times into an empty store, the receipts of every
  subject form one hash chain: the first has no predecessor and each later one carries the
  receipt hash of the one before it.
\<close>

theorem receipt_chain_linear:
  assumes "sign_all s acts empty_receipts = Inr st" and "sorted (map snd acts)"
  shows "chain_from '''' (subject_rows st t i)"
proof -
  have "chained empty_receipts" "\<And>u. issued_by u empty_receipts"
    by (simp_all add: chained_def subject_rows_def issued_by_def empty_receipts_def)
  then show ?thesis
    using sign_all_chained [OF assms] by (simp add: chained_def)
qed

lemma receipt_chain_linear_witness:
  "\<exists>st. sign_all toy_signer [(toy_payload, ''2026-01-02T00:00:00Z'')] empty_receipts = Inr st
     \<and> chain_from '''' (subject_rows st SubjectMemory ''m-1'')"
proof -
  obtain st r where "Sign toy_signer empty_receipts toy_payload ''2026-01-02T00:00:00Z'' = Inr (st, r)"
    using toy_Sign by blast
  then have "sign_all toy_signer [(toy_payload, ''2026-01-02T00:00:00Z'')] empty_receipts = Inr st" by simp
  moreover from this have "chain_from '''' (subject_rows st SubjectMemory ''m-1'')"
    by (rule receipt_chain_linear) simp
  ultimately show ?thesis by blast
qed

text \<open>
  The head of a chain is chosen by the issue time, not by insertion: a receipt issued with an
  earlier clock than a stored one of its subject never becomes the head.
\<close>

lemma latest_row_in: "latest_row ws = Some w \<Longrightarrow> w \<in> set ws"
  by (induction ws arbitrary: w) (auto split: option.splits if_splits)

lemma latest_row_None: "latest_row ws = None \<longleftrightarrow> ws = []"
  by (cases ws) (auto split: option.splits)

lemma latest_row_max: "latest_row ws = Some w \<Longrightarrow> v \<in> set ws \<Longrightarrow> rr_IssuedAt (rw_Receipt v) \<le> rr_IssuedAt (rw_Receipt w)"
proof (induction ws arbitrary: w v)
  case (Cons x ws)
  show ?case
  proof (cases "latest_row ws")
    case None
    then show ?thesis using Cons.prems by (simp add: latest_row_None)
  next
    case (Some u)
    have u: "\<And>y. y \<in> set ws \<Longrightarrow> rr_IssuedAt (rw_Receipt y) \<le> rr_IssuedAt (rw_Receipt u)"
      using Cons.IH Some by blast
    show ?thesis
    proof (cases "rr_IssuedAt (rw_Receipt x) \<le> rr_IssuedAt (rw_Receipt u)")
      case True
      then show ?thesis using Cons.prems Some u by auto
    next
      case False
      then have "w = x" "rr_IssuedAt (rw_Receipt u) \<le> rr_IssuedAt (rw_Receipt x)" using Cons.prems Some by auto
      then show ?thesis using Cons.prems(2) u [of v] order_trans by auto
    qed
  qed
qed simp

lemma latest_row_snoc:
  "latest_row (ws @ [v]) = (case latest_row ws of None \<Rightarrow> Some v
     | Some w \<Rightarrow> if rr_IssuedAt (rw_Receipt w) \<le> rr_IssuedAt (rw_Receipt v) then Some v else Some w)"
  by (induction ws) (auto split: option.splits)

text \<open>
  A receipt inserted with an issue time before that of some stored receipt of its subject
  leaves the chain head where it was, so the next receipt of the subject will name the same
  predecessor as this one: the chain forks.
\<close>

theorem backward_clock_forks_chain:
  assumes "InsertReceipt st row = Inr st'"
    and "v \<in> set (subject_rows st (rr_SubjectType (rw_Receipt row)) (rr_SubjectID (rw_Receipt row)))"
    and "rr_IssuedAt (rw_Receipt row) < rr_IssuedAt (rw_Receipt v)"
  shows "LatestReceiptChainHead st' (rr_SubjectType (rw_Receipt row)) (rr_SubjectID (rw_Receipt row))
       = LatestReceiptChainHead st (rr_SubjectType (rw_Receipt row)) (rr_SubjectID (rw_Receipt row))"
proof -
  let ?t = "rr_SubjectType (rw_Receipt row)" and ?i = "rr_SubjectID (rw_Receipt row)"
  obtain w where w: "latest_row (subject_rows st ?t ?i) = Some w"
    using assms(2) latest_row_None [of "subject_rows st ?t ?i"] by (cases "latest_row (subject_rows st ?t ?i)") auto
  have "\<not> rr_IssuedAt (rw_Receipt w) \<le> rr_IssuedAt (rw_Receipt row)"
    using latest_row_max [OF w assms(2)] assms(3) by auto
  moreover have "subject_rows st' ?t ?i = subject_rows st ?t ?i @ [row]"
    using InsertReceipt_Inr [OF assms(1)] by (simp add: subject_rows_snoc)
  ultimately show ?thesis by (simp add: LatestReceiptChainHead_def latest_row_snoc w leD)
qed

definition fork_row :: "ReceiptAction \<Rightarrow> string \<Rightarrow> string \<Rightarrow> ReceiptRow" where
  "fork_row a hash issuedAt =
     \<lparr>rw_Receipt = \<lparr>rr_SubjectType = SubjectMemory, rr_SubjectID = ''m-1'', rr_Action = a, rr_TenantID = ''t'',
        rr_CompanyID = ''c'', rr_FiscalPeriodID = '''', rr_PayloadHash = hash, rr_PreviousReceiptHash = '''',
        rr_PrincipalID = ''p'', rr_MembershipID = ''m'', rr_PolicyVersion = '''', rr_Algorithm = ReceiptAlgorithm,
        rr_KeyID = ''k'', rr_Signature = '''', rr_IssuedAt = issuedAt\<rparr>,
      rw_Signature = '''', rw_PayloadJSON = '''', rw_ReceiptHash = hash\<rparr>"

definition fork_store :: ReceiptStore where
  "fork_store = \<lparr>rs_SigningKeys = [\<lparr>sk_KeyID = ''k'', sk_Algorithm = ReceiptAlgorithm, sk_PublicKey = '''',
       sk_CreatedAt = '''', sk_RevokedAt = ''''\<rparr>],
     rs_Receipts = [fork_row MemoryRecorded ''h1'' ''2026-02-01'']\<rparr>"

lemma backward_clock_forks_chain_witness:
  "\<exists>st'. InsertReceipt fork_store (fork_row MemoryApproved ''h2'' ''2026-01-01'') = Inr st'
     \<and> LatestReceiptChainHead st' SubjectMemory ''m-1'' = ''h1''"
proof -
  let ?row = "fork_row MemoryApproved ''h2'' ''2026-01-01''"
  have "InsertReceipt fork_store ?row = Inr (fork_store\<lparr>rs_Receipts := rs_Receipts fork_store @ [?row]\<rparr>)"
    by (simp add: InsertReceipt_def fork_store_def fork_row_def LookupSigningKey_def same_act_def)
  then obtain st' where st': "InsertReceipt fork_store ?row = Inr st'" by blast
  have mem: "fork_row MemoryRecorded ''h1'' ''2026-02-01''
      \<in> set (subject_rows fork_store (rr_SubjectType (rw_Receipt ?row)) (rr_SubjectID (rw_Receipt ?row)))"
    by (simp add: subject_rows_def fork_store_def fork_row_def)
  have lt: "rr_IssuedAt (rw_Receipt ?row) < rr_IssuedAt (rw_Receipt (fork_row MemoryRecorded ''h1'' ''2026-02-01''))"
    by (simp add: fork_row_def less_char_def)
  have "LatestReceiptChainHead st' SubjectMemory ''m-1'' = LatestReceiptChainHead fork_store SubjectMemory ''m-1''"
    using backward_clock_forks_chain [OF st' mem lt] by (simp add: fork_row_def)
  then show ?thesis
    using st' by (simp add: LatestReceiptChainHead_def subject_rows_def fork_store_def fork_row_def)
qed

text \<open>
  VerifyReceipt does not pin the text of the signature: a line break inserted in front of the
  stored signature changes the envelope, and with it the receipt hash the chain is built on, but
  the receipt is still accepted.
\<close>

theorem signature_text_malleable:
  assumes "VerifyReceipt ed r p pub = Inr ()"
  shows "VerifyReceipt ed (r\<lparr>rr_Signature := CHR 0x0A # rr_Signature r\<rparr>) p pub = Inr ()"
  using assms
  by (simp add: VerifyReceipt_Inr b64_decode_def verifyPayloadEnvelopeEquality_def)

definition toy_receipt :: SignedReceipt where
  "toy_receipt = (signed_envelope empty_receipts (ReceiptKeyID ''pub'') toy_payload ''2026-01-02T00:00:00Z'')
     \<lparr>rr_Signature := b64_encode (replicate 64 CHR ''s'')\<rparr>"

lemma signature_text_malleable_witness:
  "VerifyReceipt toy_ed (toy_receipt\<lparr>rr_Signature := CHR 0x0A # rr_Signature toy_receipt\<rparr>) toy_payload ''pub'' = Inr ()"
  by (rule signature_text_malleable)
     (simp add: VerifyReceipt_Inr toy_receipt_def b64_decode_encode toy_ed_def verifyPayloadEnvelopeEquality_def
        signed_envelope_def toy_payload_def ensure_def)

section \<open>The ledger of receipts\<close>

text \<open>Emission is the only operation on the receipts table; a failed one changes nothing.\<close>

fun emit_step :: "Signer option \<times> SubjectType \<times> string \<times> ReceiptAction \<times> ReceiptPayload \<times> string \<Rightarrow> ReceiptStore \<Rightarrow> ReceiptStore" where
  "emit_step (s, t, i, a, p, now) st = (case emitReceipt s st t i a p now of Inl e \<Rightarrow> st | Inr (st', r) \<Rightarrow> st')"

lemma emitReceipt_prefix: "emitReceipt s st t i a p now = Inr (st', r) \<Longrightarrow> prefix (rs_Receipts st) (rs_Receipts st')"
  by (cases s) (auto simp: emitReceipt_def and_then_eq_Inr elim!: Sign_inr_cases)

interpretation receipt_ledger: append_only rs_Receipts emit_step
  by unfold_locales (auto split: sum.split prod.split dest: emitReceipt_prefix)

text \<open>
  A stored receipt stays stored, at its place and unchanged, whatever sequence of emissions
  follows.
\<close>

theorem receipts_are_permanent:
  assumes "i < length (rs_Receipts st)"
  shows "rs_Receipts (fold emit_step acts st) ! i = rs_Receipts st ! i"
  by (rule receipt_ledger.fold_keeps_row [OF assms])

lemma receipts_are_permanent_witness:
  "rs_Receipts (fold emit_step [(Some toy_signer, SubjectMemory, ''m-1'', MemoryApproved, toy_payload, ''2026-03-01'')] fork_store) ! 0
     = fork_row MemoryRecorded ''h1'' ''2026-02-01''"
  by (subst receipts_are_permanent) (simp_all add: fork_store_def)

end
