(* ===== verification/Purge_Db.thy ===== *)
theory Purge_Db
  imports Purge_Model Receipt_Store "HOL-Library.Product_Lexorder"
begin

text \<open>
  The tables of the purge pipeline and the reads and guarded writes of
  internal/store/purge_store.go. Tables are lists of rows in insertion order; the triggers and
  uniqueness constraints of the schema are checks of the writes. Foreign keys hold by
  construction: every handler reads the parent row in the transaction that writes the child.
\<close>

section \<open>Tables\<close>

record PeriodClosure =
  pc_TenantID :: string
  pc_CompanyID :: string
  pc_FiscalPeriodID :: string
  pc_CloseMemoryID :: string
  pc_Status :: string
  pc_CloseApprovalEventID :: string
  pc_ClosedAt :: string
  pc_ReopenedAt :: string
  pc_ReopenedBySubjectID :: string
  pc_ReopenReason :: string

text \<open>A stored result is the JSON object of the original outcome: its top-level properties.\<close>

record StoredResult =
  sj_Flat :: "EvidencePurgeRequest option"
  sj_Request :: "EvidencePurgeRequest option"
  sj_Approval :: "EvidencePurgeApproval option"
  sj_ApprovalOrder :: "int option"
  sj_Execution :: "EvidencePurgeExecution option"
  sj_IdempotentReplay :: "bool option"
  sj_Recovered :: "bool option"

record IdempotencyRow =
  ik_TenantID :: string
  ik_RequestID :: string
  ik_CommandHash :: string
  ik_ActorBinding :: string
  ik_EntityID :: string
  ik_Result :: "StoredResult option"
  ik_CreatedAt :: string
  ik_CompletedAt :: string

record PurgeDB =
  pd_Objects :: "EvidenceObject list"
  pd_Closures :: "PeriodClosure list"
  pd_Policies :: "RetentionPolicy list"
  pd_Holds :: "EvidenceHold list"
  pd_Requests :: "EvidencePurgeRequest list"
  pd_Approvals :: "EvidencePurgeApproval list"
  pd_Events :: "EvidenceLifecycleEvent list"
  pd_States :: "EvidenceRetentionState list"
  pd_Keys :: "IdempotencyRow list"
  pd_Executions :: "EvidencePurgeExecution list"
  pd_Receipts :: ReceiptStore

section \<open>Reads\<close>

definition evidenceObjectByIDOn :: "PurgeDB \<Rightarrow> string \<Rightarrow> EvidenceObject option" where
  "evidenceObjectByIDOn db i = find (\<lambda>r. eo_ObjectID r = i) (pd_Objects db)"

definition assertPeriodWritable :: "PurgeDB \<Rightarrow> Scope \<Rightarrow> unit result" where
  "assertPeriodWritable db scope =
     (if sc_Kind scope \<noteq> ScopeKindCompany \<or> sc_Period scope = '''' then Inr ()
      else case find (\<lambda>c. pc_TenantID c = sc_OrganizationID scope \<and> pc_CompanyID c = sc_CompanyID scope
                        \<and> pc_FiscalPeriodID c = sc_Period scope) (pd_Closures db) of
        None \<Rightarrow> Inr ()
      | Some c \<Rightarrow> if pc_Status c = ''closed'' then Inl (AuthErr ''PERIOD_CLOSED'') else Inr ())"

definition retentionPolicyByIDOn :: "PurgeDB \<Rightarrow> string \<Rightarrow> RetentionPolicy option" where
  "retentionPolicyByIDOn db i = find (\<lambda>p. rp_PolicyID p = i) (pd_Policies db)"

text \<open>The enabled candidates in descending version order, resolved by the core function.\<close>

definition resolveRetentionPolicyOn :: "PurgeDB \<Rightarrow> Scope \<Rightarrow> string \<Rightarrow> string \<Rightarrow> string \<Rightarrow> RetentionPolicy option result" where
  "resolveRetentionPolicyOn db scope jurisdiction legislation category =
     (if sc_Kind scope = ScopeKindInstitutional then Inl (AuthErr ''NOT_PURGEABLE'')
      else and_then (AssertValidRetentionScope scope) (\<lambda>_.
        if \<not> jurisdiction_ok jurisdiction \<or> blank legislation \<or> blank category
        then Inl (AuthErr ''UNKNOWN_RETENTION_STATE'')
        else
          let enabled = sort_key (\<lambda>p. - rp_Version p) (filter (\<lambda>p.
                rp_TenantID p = sc_OrganizationID scope \<and> rp_CompanyID p = sc_CompanyID scope
                \<and> rp_RUC p = sc_RUC scope \<and> rp_Period p = sc_Period scope
                \<and> rp_Jurisdiction p = jurisdiction \<and> rp_Legislation p = legislation \<and> rp_Category p = category
                \<and> rp_Enabled p) (pd_Policies db))
          in case ResolveRetentionPolicy enabled scope jurisdiction legislation category of
               Some p \<Rightarrow> Inr (Some p)
             | None \<Rightarrow> if length enabled > 0 then Inl (AuthErr ''RETENTION_POLICY_AMBIGUOUS'') else Inr None))"

definition activeBlockingHoldRefsOn :: "PurgeDB \<Rightarrow> string \<Rightarrow> string list \<Rightarrow> LifecycleHoldRef list" where
  "activeBlockingHoldRefsOn db objectID blockingKinds =
     (if blockingKinds = [] then []
      else map (\<lambda>h. \<lparr>hr_HoldID = h_HoldID h, hr_Kind = h_Kind h, hr_PlacedAt = h_PlacedAt h\<rparr>)
        (sort_key h_HoldID (filter (\<lambda>h. h_ObjectID h = objectID \<and> h_LiftedAt h = '''' \<and> h_Kind h \<in> set blockingKinds)
          (pd_Holds db))))"

definition approvalIDsOn :: "PurgeDB \<Rightarrow> string \<Rightarrow> string list" where
  "approvalIDsOn db requestID =
     map pa_ApprovalID (sort_key (\<lambda>a. (pa_ApprovalOrder a, pa_ApprovalID a))
       (filter (\<lambda>a. pa_RequestID a = requestID) (pd_Approvals db)))"

definition purgeApprovalByIDOn :: "PurgeDB \<Rightarrow> string \<Rightarrow> EvidencePurgeApproval option" where
  "purgeApprovalByIDOn db i = find (\<lambda>a. pa_ApprovalID a = i) (pd_Approvals db)"

definition retentionStateOn :: "PurgeDB \<Rightarrow> string \<Rightarrow> EvidenceRetentionState option" where
  "retentionStateOn db objectID = find (\<lambda>s. rt_ObjectID s = objectID) (pd_States db)"

definition purgeRequestByIDOn :: "PurgeDB \<Rightarrow> string \<Rightarrow> EvidencePurgeRequest result" where
  "purgeRequestByIDOn db requestID =
     from_option (PlainErr ''PURGE_REQUEST_NOT_FOUND'') (find (\<lambda>r. pq_RequestID r = requestID) (pd_Requests db))"

definition purgeRequestByObjectOn :: "PurgeDB \<Rightarrow> string \<Rightarrow> EvidencePurgeRequest option" where
  "purgeRequestByObjectOn db objectID = find (\<lambda>r. pq_ObjectID r = objectID) (pd_Requests db)"

definition purgeRequestScope :: "EvidencePurgeRequest \<Rightarrow> Scope" where
  "purgeRequestScope r = company_scope (pq_TenantID r) (pq_CompanyID r) (pq_RUC r) (pq_Period r)"

definition assembleSnapshot :: "string \<Rightarrow> Scope \<Rightarrow> PurgeLifecycleState \<Rightarrow> RetentionEligibility \<Rightarrow> string \<Rightarrow> string
    \<Rightarrow> int \<Rightarrow> LifecycleHoldRef list \<Rightarrow> string \<Rightarrow> string list \<Rightarrow> LifecycleSnapshot" where
  "assembleSnapshot objectID scope lifecycle retention policyID category policyVersion holds requestID approvalIDs =
     \<lparr>ls_ObjectID = objectID, ls_TenantID = sc_OrganizationID scope, ls_CompanyID = sc_CompanyID scope,
      ls_RUC = sc_RUC scope, ls_Period = sc_Period scope, ls_LifecycleState = lifecycle,
      ls_RetentionState = retention, ls_PolicyID = policyID, ls_PolicyVersion = policyVersion,
      ls_Category = category, ls_BlockingHolds = holds, ls_RequestID = requestID, ls_ApprovalIDs = approvalIDs\<rparr>"

definition currentPurgeSnapshotOn :: "PurgeDB \<Rightarrow> string \<Rightarrow> Scope \<Rightarrow> string list \<Rightarrow> (LifecycleSnapshot \<times> string) result" where
  "currentPurgeSnapshotOn db objectID scope blockingKinds =
     (let (lifecycle, retention, policyID, category) =
            (case retentionStateOn db objectID of
               None \<Rightarrow> (PurgeLifecycleStored, Unmanaged, '''', '''')
             | Some s \<Rightarrow> (rt_LifecycleState s, rt_RetentionState s, rt_PolicyID s, rt_Category s))
      in and_then (if policyID = '''' then Inr 0
           else from_option (StoreErr ''POLICY_MISSING'') (map_option rp_Version (retentionPolicyByIDOn db policyID))) (\<lambda>version.
      let requestID = (case purgeRequestByObjectOn db objectID of None \<Rightarrow> '''' | Some r \<Rightarrow> pq_RequestID r);
          snapshot = assembleSnapshot objectID scope lifecycle retention policyID category version
            (activeBlockingHoldRefsOn db objectID blockingKinds) requestID (approvalIDsOn db requestID)
      in Inr (snapshot, ComputeLifecycleSnapshotHash snapshot)))"

section \<open>Idempotency\<close>

definition purgeCommandHash :: "(string \<times> json) list \<Rightarrow> string" where
  "purgeCommandHash shape = sha256_hex (enc True (JObj shape))"

definition requestPurgeCommandShape :: "RequestPurgeCommand \<Rightarrow> (string \<times> json) list" where
  "requestPurgeCommandShape cmd =
     [(''objectId'', JStr (rc_ObjectID cmd)), (''jurisdiction'', JStr (rc_Jurisdiction cmd)),
      (''legislation'', JStr (rc_Legislation cmd)), (''category'', JStr (rc_Category cmd)),
      (''expectedLifecycleHash'', JStr (rc_ExpectedLifecycleHash cmd)), (''reason'', JStr (rc_Reason cmd))]"

definition approvePurgeCommandShape :: "ApprovePurgeCommand \<Rightarrow> (string \<times> json) list" where
  "approvePurgeCommandShape cmd =
     [(''requestId'', JStr (ac_RequestID cmd)), (''expectedLifecycleHash'', JStr (ac_ExpectedLifecycleHash cmd)),
      (''reason'', JStr (ac_Reason cmd))]"

definition rejectPurgeCommandShape :: "ClosePurgeCommand \<Rightarrow> (string \<times> json) list" where
  "rejectPurgeCommandShape cmd = [(''requestId'', JStr (xc_RequestID cmd)), (''reason'', JStr (xc_Reason cmd))]"

definition cancelPurgeCommandShape :: "CancelPurgeCommand \<Rightarrow> (string \<times> json) list" where
  "cancelPurgeCommandShape cmd = [(''requestId'', JStr (cn_RequestID cmd))]"

definition withdrawPurgeCommandShape :: "ClosePurgeCommand \<Rightarrow> (string \<times> json) list" where
  "withdrawPurgeCommandShape cmd = [(''requestId'', JStr (xc_RequestID cmd)), (''reason'', JStr (xc_Reason cmd))]"

definition executePurgeCommandShape :: "ExecutePurgeCommand \<Rightarrow> (string \<times> json) list" where
  "executePurgeCommandShape cmd =
     [(''requestId'', JStr (ec_RequestID cmd)), (''expectedLifecycleHash'', JStr (ec_ExpectedLifecycleHash cmd)),
      (''reason'', JStr (ec_Reason cmd))]"

definition idempotencyRowOn :: "PurgeDB \<Rightarrow> string \<Rightarrow> string \<Rightarrow> IdempotencyRow option" where
  "idempotencyRowOn db tenantID key = find (\<lambda>k. ik_TenantID k = tenantID \<and> ik_RequestID k = key) (pd_Keys db)"

definition replayPurgeIdempotencyOn :: "PurgeDB \<Rightarrow> string \<Rightarrow> string \<Rightarrow> string \<Rightarrow> string \<Rightarrow> StoredResult option result" where
  "replayPurgeIdempotencyOn db tenantID key commandHash actorBinding =
     (case idempotencyRowOn db tenantID key of
        None \<Rightarrow> Inr None
      | Some row \<Rightarrow>
          if ik_CommandHash row \<noteq> commandHash \<or> ik_ActorBinding row \<noteq> actorBinding
          then Inl (AuthErr ''IDEMPOTENCY_CONFLICT'')
          else if ik_EntityID row = '''' \<or> ik_Result row = None then Inl (AuthErr ''IDEMPOTENCY_CONFLICT'')
          else Inr (ik_Result row))"

definition reserveIdempotencyKey :: "PurgeDB \<Rightarrow> string \<Rightarrow> string \<Rightarrow> string \<Rightarrow> string \<Rightarrow> string \<Rightarrow> PurgeDB result" where
  "reserveIdempotencyKey db tenantID key commandHash actorBinding now =
     (if idempotencyRowOn db tenantID key \<noteq> None then Inl (StoreErr ''UNIQUE'')
      else Inr (db\<lparr>pd_Keys := pd_Keys db @
        [\<lparr>ik_TenantID = tenantID, ik_RequestID = key, ik_CommandHash = commandHash, ik_ActorBinding = actorBinding,
          ik_EntityID = '''', ik_Result = None, ik_CreatedAt = now, ik_CompletedAt = ''''\<rparr>]\<rparr>))"

definition completePurgeIdempotencyOn :: "PurgeDB \<Rightarrow> string \<Rightarrow> string \<Rightarrow> string \<Rightarrow> StoredResult \<Rightarrow> string \<Rightarrow> PurgeDB" where
  "completePurgeIdempotencyOn db tenantID key entityID outcome now =
     db\<lparr>pd_Keys := map (\<lambda>k. if ik_TenantID k = tenantID \<and> ik_RequestID k = key
          then k\<lparr>ik_EntityID := entityID, ik_Result := Some outcome, ik_CompletedAt := now\<rparr> else k) (pd_Keys db)\<rparr>"

section \<open>Guarded writes\<close>

definition insertLifecycleEventOn :: "PurgeDB \<Rightarrow> EvidenceLifecycleEvent \<Rightarrow> PurgeDB result" where
  "insertLifecycleEventOn db e =
     (if list_ex (\<lambda>x. le_EventID x = le_EventID e) (pd_Events db) then Inl (StoreErr ''UNIQUE'')
      else Inr (db\<lparr>pd_Events := pd_Events db @ [e]\<rparr>))"

definition insertPurgeApprovalOn :: "PurgeDB \<Rightarrow> EvidencePurgeApproval \<Rightarrow> PurgeDB result" where
  "insertPurgeApprovalOn db a =
     (if list_ex (\<lambda>x. pa_ApprovalID x = pa_ApprovalID a) (pd_Approvals db) then Inl (StoreErr ''UNIQUE'')
      else if \<not> (pa_ApprovalOrder a = 1 \<or> pa_ApprovalOrder a = 2) \<or> \<not> IsValidPurgeApprovalDecision (pa_Decision a)
      then Inl (StoreErr ''CHECK'')
      else Inr (db\<lparr>pd_Approvals := pd_Approvals db @ [a]\<rparr>))"

definition insertPurgeRequestOn :: "PurgeDB \<Rightarrow> EvidencePurgeRequest \<Rightarrow> PurgeDB result" where
  "insertPurgeRequestOn db r =
     (if list_ex (\<lambda>x. pq_RequestID x = pq_RequestID r \<or> pq_ObjectID x = pq_ObjectID r) (pd_Requests db)
      then Inl (StoreErr ''UNIQUE'')
      else if \<not> IsValidPurgeRequestStatus (pq_Status r) \<or> \<not> IsValidRetentionEligibility (pq_RetentionStateSnapshot r)
      then Inl (StoreErr ''CHECK'')
      else Inr (db\<lparr>pd_Requests := pd_Requests db @ [r]\<rparr>))"

text \<open>The trigger \<^verbatim>\<open>evidence_purge_requests_status_guard\<close>.\<close>

definition status_guard :: "PurgeRequestStatus \<Rightarrow> PurgeRequestStatus \<Rightarrow> bool" where
  "status_guard old new \<longleftrightarrow>
     (old = PurgeRequestStatusRequested \<and> new \<in> {PurgeRequestStatusApproved, PurgeRequestStatusRejected,
        PurgeRequestStatusWithdrawn, PurgeRequestStatusCancelled, PurgeRequestStatusExecuted})
     \<or> (old = PurgeRequestStatusApproved \<and> new \<in> {PurgeRequestStatusWithdrawn, PurgeRequestStatusExecuted})
     \<or> (old \<in> {PurgeRequestStatusCancelled, PurgeRequestStatusWithdrawn} \<and> new = PurgeRequestStatusRequested)"

text \<open>The columns \<^verbatim>\<open>evidence_purge_requests_immutable\<close> protects, and its exception.\<close>

definition evidence_columns :: "EvidencePurgeRequest \<Rightarrow> string list \<times> RetentionEligibility" where
  "evidence_columns r =
     ([pq_RequestID r, pq_ObjectID r, pq_TenantID r, pq_CompanyID r, pq_RUC r, pq_Period r, pq_Category r,
       pq_PolicyID r, pq_ReviewedLifecycleHash r, pq_RequestedAt r, pq_RequestedBy r], pq_RetentionStateSnapshot r)"

definition immutable_guard :: "PurgeRequestStatus \<Rightarrow> PurgeRequestStatus \<Rightarrow> bool" where
  "immutable_guard old new \<longleftrightarrow>
     old \<in> {PurgeRequestStatusCancelled, PurgeRequestStatusWithdrawn} \<and> new = PurgeRequestStatusRequested"

text \<open>
  \<^verbatim>\<open>UPDATE evidence_purge_requests SET ... WHERE id = ?\<close>: \<open>evidence\<close> tells whether the statement
  names evidence columns, which fires the immutability trigger too.
\<close>

definition updatePurgeRequest :: "PurgeDB \<Rightarrow> string \<Rightarrow> bool \<Rightarrow> (EvidencePurgeRequest \<Rightarrow> EvidencePurgeRequest) \<Rightarrow> PurgeDB result" where
  "updatePurgeRequest db i evidence f =
     (if list_all (\<lambda>r. pq_RequestID r = i \<longrightarrow> status_guard (pq_Status r) (pq_Status (f r))
            \<and> (evidence \<longrightarrow> immutable_guard (pq_Status r) (pq_Status (f r)))) (pd_Requests db)
      then Inr (db\<lparr>pd_Requests := map (\<lambda>r. if pq_RequestID r = i then f r else r) (pd_Requests db)\<rparr>)
      else Inl (StoreErr ''INVALID_PURGE_STATUS_TRANSITION''))"

definition upsertRetentionStateOn :: "PurgeDB \<Rightarrow> EvidenceRetentionState \<Rightarrow> PurgeDB" where
  "upsertRetentionStateOn db s =
     db\<lparr>pd_States := (if list_ex (\<lambda>x. rt_ObjectID x = rt_ObjectID s) (pd_States db)
        then map (\<lambda>x. if rt_ObjectID x = rt_ObjectID s then s else x) (pd_States db)
        else pd_States db @ [s])\<rparr>"

section \<open>Receipts and authorization\<close>

definition LifecyclePolicyVersion :: string where
  "LifecyclePolicyVersion = ''evidence-lifecycle-policy/v0.8.0''"

definition purgeReceiptPayload :: "Scope \<Rightarrow> string \<Rightarrow> string \<Rightarrow> string \<Rightarrow> string \<Rightarrow> string \<Rightarrow> Principal \<Rightarrow> ReceiptPayload" where
  "purgeReceiptPayload scope objectID reviewedHash resultingHash reason executionAttemptID who =
     (let s = PrincipalSnapshot_of who in
     \<lparr>py_Version = ReceiptPayloadVersionV09, py_SubjectType = SubjectOther '''', py_SubjectID = '''',
      py_Action = ReceiptActionOther '''', py_TenantID = sc_OrganizationID scope, py_CompanyID = sc_CompanyID scope,
      py_FiscalPeriodID = sc_Period scope, py_ReviewedEnvelopeHash = '''', py_ResultingEnvelopeHash = '''',
      py_ReviewedJudgmentHash = '''', py_ResultingJudgmentHash = '''', py_FromMemoryID = '''', py_FromEnvelopeHash = '''',
      py_ToMemoryID = '''', py_ToEnvelopeHash = '''', py_SuccessorID = '''', py_EvidenceRef = objectID, py_Reason = reason,
      py_PrincipalID = ps_SubjectID s, py_MembershipID = ps_MembershipID s, py_PrincipalRoles = ps_Roles s,
      py_AuthenticationMethod = AuthMethod_str (ps_Method s), py_AssuranceLevel = Assurance_str (ps_Assurance s),
      py_PrincipalAuthenticatedAt = ps_AuthenticatedAt s, py_PolicyVersion = LifecyclePolicyVersion, py_IssuedAt = '''',
      py_ReviewedLifecycleHash = reviewedHash, py_ResultingLifecycleHash = resultingHash,
      py_ExecutionAttemptID = executionAttemptID\<rparr>)"

definition emitObjectReceipt :: "Signer option \<Rightarrow> PurgeDB \<Rightarrow> string \<Rightarrow> ReceiptAction \<Rightarrow> ReceiptPayload \<Rightarrow> string
    \<Rightarrow> (PurgeDB \<times> SignedReceipt option) result" where
  "emitObjectReceipt signer db objectID action payload now =
     and_then (emitReceipt signer (pd_Receipts db) SubjectEvidenceObject objectID action payload now)
       (\<lambda>(rs, r). Inr (db\<lparr>pd_Receipts := rs\<rparr>, r))"

definition authorizePurgeAct :: "Principal \<Rightarrow> Scope \<Rightarrow> LifecycleAction \<Rightarrow> string \<Rightarrow> bool \<Rightarrow> string \<Rightarrow> string \<Rightarrow> unit result" where
  "authorizePurgeAct who scope action category dualApprovalRequired requesterSubject firstApproverSubject =
     (case lifecycle_Authorize \<lparr>lq_Action = action, lq_Principal = who, lq_ActorKind = ActorKindHuman,
             lq_TenantID = sc_OrganizationID scope, lq_CompanyID = sc_CompanyID scope, lq_Category = category,
             lq_DualApprovalRequired = dualApprovalRequired, lq_Requester = None, lq_FirstApprover = None\<rparr> of
        Some code \<Rightarrow> Inl (AuthErr code)
      | None \<Rightarrow>
          if requesterSubject \<noteq> '''' \<and> p_SubjectID who = requesterSubject
          then Inl (AuthErr ''APPROVER_IS_REQUESTER'')
          else if firstApproverSubject \<noteq> '''' \<and> p_SubjectID who = firstApproverSubject
          then Inl (AuthErr ''SAME_PRINCIPAL_SECOND_APPROVAL'')
          else Inr ())"

end
