(* ===== verification/Object_Store.thy ===== *)
theory Object_Store
  imports Purge_Db
begin

text \<open>
  Write-once object storage: internal/store/object_store.go with the fiscal runtime gate of
  internal/store/fiscal_scope_store.go. The world is the database and the disk, a map from the
  relative path of an object to its bytes; directories exist and are never removed, and no path is
  a symbolic link. StoreObject is the call without a fiscal intent.
\<close>

type_synonym disk = "string \<Rightarrow> string option"

record PurgeWorld =
  w_DB :: PurgeDB
  w_Disk :: disk

section \<open>Object bytes\<close>

definition objectBytesExist :: "disk \<Rightarrow> string \<Rightarrow> bool" where
  "objectBytesExist disk relPath \<longleftrightarrow> disk relPath \<noteq> None"

definition removeObjectBytes :: "disk \<Rightarrow> string \<Rightarrow> string \<Rightarrow> int \<Rightarrow> disk result" where
  "removeObjectBytes disk relPath objectID expectedSize =
     (case disk relPath of
        None \<Rightarrow> Inl (PlainErr ''OBJECT_BYTES_MISSING'')
      | Some data \<Rightarrow>
          if ComputeObjectID data \<noteq> objectID then Inl (PlainErr ''OBJECT_HASH_MISMATCH'')
          else if int (length data) \<noteq> expectedSize then Inl (PlainErr ''OBJECT_HASH_MISMATCH'')
          else Inr (disk(relPath := None)))"

definition authorizedPurgeAbsenceOn :: "PurgeDB \<Rightarrow> string \<Rightarrow> int \<Rightarrow> bool" where
  "authorizedPurgeAbsenceOn db objectID sz =
     list_ex (\<lambda>e. px_ObjectID e = objectID \<and> px_PreRemovalHash e = objectID \<and> px_Size e = sz
        \<and> (px_State e = PurgeExecutionIntent \<or> px_State e = PurgeExecutionCompleted)) (pd_Executions db)"

definition VerifyObjectBytes :: "PurgeWorld \<Rightarrow> string \<Rightarrow> unit result" where
  "VerifyObjectBytes w objectID =
     (case evidenceObjectByIDOn (w_DB w) objectID of
        None \<Rightarrow> Inl (PlainErr ''OBJECT_NOT_FOUND'')
      | Some obj \<Rightarrow>
          (case w_Disk w (eo_RelPath obj) of
             None \<Rightarrow> if authorizedPurgeAbsenceOn (w_DB w) objectID (eo_Size obj)
                     then Inl (PlainErr ''OBJECT_PURGED_EXPECTED_ABSENCE'')
                     else Inl (PlainErr ''OBJECT_BYTES_MISSING'')
           | Some bytes \<Rightarrow>
               if ComputeObjectID bytes \<noteq> eo_ObjectID obj then Inl (PlainErr ''OBJECT_HASH_MISMATCH'') else Inr ()))"

definition objectScopeMatches :: "EvidenceObject \<Rightarrow> Scope \<Rightarrow> bool" where
  "objectScopeMatches obj scope \<longleftrightarrow>
     sc_Kind scope = ScopeKindCompany \<and> eo_TenantID obj = sc_OrganizationID scope \<and> eo_CompanyID obj = sc_CompanyID scope
     \<and> eo_RUC obj = sc_RUC scope \<and> eo_Period obj = sc_Period scope"

definition GetObject :: "PurgeWorld \<Rightarrow> string \<Rightarrow> Scope \<Rightarrow> (EvidenceObject \<times> string) result" where
  "GetObject w objectID scope =
     (case evidenceObjectByIDOn (w_DB w) objectID of
        None \<Rightarrow> Inl (PlainErr ''OBJECT_NOT_FOUND'')
      | Some obj \<Rightarrow>
          if \<not> objectScopeMatches obj scope then Inl (PlainErr ''OBJECT_NOT_FOUND'')
          else (case w_Disk w (eo_RelPath obj) of
             None \<Rightarrow> Inl (PlainErr ''OBJECT_BYTES_MISSING'')
           | Some bytes \<Rightarrow>
               if ComputeObjectID bytes \<noteq> eo_ObjectID obj then Inl (PlainErr ''OBJECT_HASH_MISMATCH'')
               else Inr (obj, bytes)))"

section \<open>The fiscal runtime gate\<close>

datatype FiscalRuntimeMode = FiscalRuntimeShadow | FiscalRuntimeEnforce | FiscalRuntimeLegacyCompat | FiscalRuntimeReadOnly

datatype FiscalScopeClass = FiscalScopeLegacy | FiscalScopeV1

definition ParseFiscalRuntimeMode :: "string \<Rightarrow> FiscalRuntimeMode result" where
  "ParseFiscalRuntimeMode raw =
     (if raw = '''' then Inr FiscalRuntimeShadow
      else if raw = ''shadow'' then Inr FiscalRuntimeShadow
      else if raw = ''enforce'' then Inr FiscalRuntimeEnforce
      else if raw = ''legacy_compat'' then Inr FiscalRuntimeLegacyCompat
      else if raw = ''read_only'' then Inr FiscalRuntimeReadOnly
      else Inl (PlainErr ''invalid DRENYRA_FISCAL_RUNTIME_MODE''))"

definition CheckProtectedWrite :: "FiscalRuntimeMode \<Rightarrow> FiscalScopeClass \<Rightarrow> unit result" where
  "CheckProtectedWrite mode cl =
     (if (mode = FiscalRuntimeEnforce \<and> cl = FiscalScopeV1) \<or> (mode = FiscalRuntimeLegacyCompat \<and> cl = FiscalScopeLegacy)
      then Inr ()
      else if mode = FiscalRuntimeEnforce \<and> cl = FiscalScopeLegacy then Inl (PlainErr ''SCOPE_BINDING_REQUIRED'')
      else Inl (AuthErr ''FISCAL_WRITE_GATE_CLOSED''))"

text \<open>\<open>bound\<close>: the subject has fiscal links or the call carries an intent.\<close>

definition checkFiscalRuntimeGate :: "bool \<Rightarrow> FiscalRuntimeMode \<Rightarrow> bool \<Rightarrow> unit result" where
  "checkFiscalRuntimeGate writeFrozen mode bound =
     (if writeFrozen then Inl (PlainErr ''STORE_WRITE_FROZEN'')
      else CheckProtectedWrite mode (if bound then FiscalScopeV1 else FiscalScopeLegacy))"

section \<open>StoreObject\<close>

record ObjectStoreInput =
  oi_Bytes :: string
  oi_ContentType :: string
  oi_Scope :: Scope
  oi_Source :: Source

record ObjectStoreResult =
  or_Object :: EvidenceObject
  or_Created :: bool

definition ReceiptPayloadVersionV07 :: string where
  "ReceiptPayloadVersionV07 = ''receipt-payload/v0.7.0''"

definition kernelPolicyVersion :: string where
  "kernelPolicyVersion = ''kernel/v0.4.0''"

definition object_row :: "ObjectStoreInput \<Rightarrow> string \<Rightarrow> EvidenceObject" where
  "object_row i now =
     (let objectID = ComputeObjectID (oi_Bytes i) in
     \<lparr>eo_ObjectID = objectID, eo_SHA256 = objectID, eo_Size = int (length (oi_Bytes i)),
      eo_ContentType = oi_ContentType i, eo_TenantID = sc_OrganizationID (oi_Scope i),
      eo_CompanyID = sc_CompanyID (oi_Scope i), eo_RUC = sc_RUC (oi_Scope i), eo_Period = sc_Period (oi_Scope i),
      eo_SourceSystem = src_System (oi_Source i), eo_SourceReference = src_Reference (oi_Source i),
      eo_SourceActorID = src_ActorID (oi_Source i), eo_SourceActorKind = src_ActorKind (oi_Source i),
      eo_StoredBy = src_ActorID (oi_Source i), eo_StoredAt = now, eo_RelPath = ObjectRelPath objectID\<rparr>)"

definition object_payload :: "ObjectStoreInput \<Rightarrow> ReceiptPayload" where
  "object_payload i =
     \<lparr>py_Version = ReceiptPayloadVersionV07, py_SubjectType = SubjectOther '''', py_SubjectID = '''',
      py_Action = ReceiptActionOther '''', py_TenantID = sc_OrganizationID (oi_Scope i),
      py_CompanyID = sc_CompanyID (oi_Scope i), py_FiscalPeriodID = sc_Period (oi_Scope i),
      py_ReviewedEnvelopeHash = '''', py_ResultingEnvelopeHash = '''', py_ReviewedJudgmentHash = '''',
      py_ResultingJudgmentHash = '''', py_FromMemoryID = '''', py_FromEnvelopeHash = '''', py_ToMemoryID = '''',
      py_ToEnvelopeHash = '''', py_SuccessorID = '''', py_EvidenceRef = ComputeObjectID (oi_Bytes i), py_Reason = '''',
      py_PrincipalID = src_ActorID (oi_Source i), py_MembershipID = '''', py_PrincipalRoles = [],
      py_AuthenticationMethod = '''', py_AssuranceLevel = '''', py_PrincipalAuthenticatedAt = '''',
      py_PolicyVersion = kernelPolicyVersion, py_IssuedAt = '''', py_ReviewedLifecycleHash = '''',
      py_ResultingLifecycleHash = '''', py_ExecutionAttemptID = ''''\<rparr>"

text \<open>The constraints of the evidence_objects table: primary key, unique path, digits of RUC and period.\<close>

definition insertEvidenceObject :: "PurgeDB \<Rightarrow> EvidenceObject \<Rightarrow> PurgeDB result" where
  "insertEvidenceObject db obj =
     (if list_ex (\<lambda>x. eo_ObjectID x = eo_ObjectID obj \<or> eo_RelPath x = eo_RelPath obj) (pd_Objects db)
      then Inl (StoreErr ''UNIQUE'')
      else if eo_Size obj < 0 \<or> eo_SHA256 obj \<noteq> eo_ObjectID obj \<or> \<not> IsValidRUC (eo_RUC obj)
        \<or> \<not> (eo_Period obj = '''' \<or> (length (eo_Period obj) = 6 \<and> list_all is_digit (eo_Period obj)))
      then Inl (StoreErr ''CHECK'')
      else Inr (db\<lparr>pd_Objects := pd_Objects db @ [obj]\<rparr>))"

definition StoreObject :: "Signer option \<Rightarrow> bool \<Rightarrow> FiscalRuntimeMode \<Rightarrow> PurgeWorld \<Rightarrow> ObjectStoreInput \<Rightarrow> string
    \<Rightarrow> PurgeWorld \<times> ObjectStoreResult result" where
  "StoreObject signer writeFrozen mode w i now =
     (let objectID = ComputeObjectID (oi_Bytes i); relPath = ObjectRelPath objectID; db = w_DB w in
      case and_then (AssertValidObjectScope (oi_Scope i)) (\<lambda>_.
           and_then (AssertValidSource (oi_Source i)) (\<lambda>_.
           assertPeriodWritable db (oi_Scope i))) of
        Inl e \<Rightarrow> (w, Inl e)
      | Inr _ \<Rightarrow>
          (case evidenceObjectByIDOn db objectID of
             Some existing \<Rightarrow>
               if \<not> (eo_TenantID existing = sc_OrganizationID (oi_Scope i) \<and> eo_CompanyID existing = sc_CompanyID (oi_Scope i)
                      \<and> eo_RUC existing = sc_RUC (oi_Scope i) \<and> eo_Period existing = sc_Period (oi_Scope i))
               then (w, Inl (PlainErr ''OBJECT_SCOPE_CONFLICT''))
               else if \<not> objectBytesExist (w_Disk w) (eo_RelPath existing)
               then (w, Inl (PlainErr ''OBJECT_BYTES_MISSING''))
               else (w, Inr \<lparr>or_Object = existing, or_Created = False\<rparr>)
           | None \<Rightarrow>
               (case checkFiscalRuntimeGate writeFrozen mode False of
                  Inl e \<Rightarrow> (w, Inl e)
                | Inr _ \<Rightarrow>
                    let disk = (w_Disk w)(relPath := Some (oi_Bytes i)) in
                    (case and_then (insertEvidenceObject db (object_row i now)) (\<lambda>db.
                          emitObjectReceipt signer db objectID ObjectStored (object_payload i) now) of
                       Inl e \<Rightarrow> (w\<lparr>w_Disk := disk\<rparr>, Inl e)
                     | Inr (db', r) \<Rightarrow> (\<lparr>w_DB = db', w_Disk = disk\<rparr>, Inr \<lparr>or_Object = object_row i now, or_Created = True\<rparr>)))))"

end
