(* ===== verification/Hold_Store.thy ===== *)
theory Hold_Store
  imports Object_Store
begin

text \<open>
  Object-level legal holds: internal/store/hold_store.go. Holds and retention policies have
  idempotency ledgers of their own, of one shape; the objects, holds, policies and receipts are the
  tables of the purge pipeline.
\<close>

section \<open>Commands\<close>

record PlaceHoldCommand =
  hc_ObjectID :: string
  hc_Kind :: string
  hc_Reason :: string
  hc_OwnerSubjectID :: string
  hc_RequestID :: string

record LiftHoldCommand =
  lc_HoldID :: string
  lc_Reason :: string
  lc_RequestID :: string

record PlaceHoldResult =
  hv_Hold :: EvidenceHold
  hv_Created :: bool
  hv_IdempotentReplay :: bool

record LiftHoldResult =
  lv_Hold :: EvidenceHold
  lv_Lifted :: bool
  lv_IdempotentReplay :: bool

definition AssertValidPlaceHoldCommand :: "PlaceHoldCommand \<Rightarrow> unit result" where
  "AssertValidPlaceHoldCommand cmd =
     (if \<not> hash64_ok (hc_ObjectID cmd) then Inl (PlainErr ''INVALID_HOLD_OBJECT_ID'')
      else if \<not> IsValidRetentionHoldKind (hc_Kind cmd) then Inl (PlainErr ''INVALID_HOLD_KIND'')
      else if blank (hc_Reason cmd) then Inl (PlainErr ''REASON_REQUIRED'')
      else if blank (hc_OwnerSubjectID cmd) then Inl (PlainErr ''INVALID_HOLD_OWNER'')
      else if blank (hc_RequestID cmd) then Inl (AuthErr ''IDEMPOTENCY_CONFLICT'')
      else Inr ())"

definition AssertValidLiftHoldCommand :: "LiftHoldCommand \<Rightarrow> unit result" where
  "AssertValidLiftHoldCommand cmd =
     (if blank (lc_HoldID cmd) then Inl (PlainErr ''INVALID_HOLD_ID'')
      else if blank (lc_Reason cmd) then Inl (PlainErr ''REASON_REQUIRED'')
      else if blank (lc_RequestID cmd) then Inl (AuthErr ''IDEMPOTENCY_CONFLICT'')
      else Inr ())"

section \<open>Idempotency ledgers\<close>

text \<open>
  A row of \<^verbatim>\<open>evidence_hold_idempotency_keys\<close> or \<^verbatim>\<open>retention_policy_idempotency_keys\<close>: NULL is the
  empty entity id and the absent result.
\<close>

record 'a KeyRow =
  ky_TenantID :: string
  ky_RequestID :: string
  ky_CommandHash :: string
  ky_ActorBinding :: string
  ky_EntityID :: string
  ky_Result :: "'a option"
  ky_CreatedAt :: string
  ky_CompletedAt :: string

definition replay_key :: "'a KeyRow list \<Rightarrow> string \<Rightarrow> string \<Rightarrow> string \<Rightarrow> string \<Rightarrow> 'a option result" where
  "replay_key keys tenantID key commandHash actorBinding =
     (case find (\<lambda>k. ky_TenantID k = tenantID \<and> ky_RequestID k = key) keys of
        None \<Rightarrow> Inr None
      | Some row \<Rightarrow>
          if ky_CommandHash row \<noteq> commandHash \<or> ky_ActorBinding row \<noteq> actorBinding
          then Inl (AuthErr ''IDEMPOTENCY_CONFLICT'')
          else if ky_EntityID row = '''' \<or> ky_Result row = None then Inl (AuthErr ''IDEMPOTENCY_CONFLICT'')
          else Inr (ky_Result row))"

text \<open>Reservation and completion happen in one transaction: the row is written completed.\<close>

definition reserve_key :: "'a KeyRow list \<Rightarrow> string \<Rightarrow> string \<Rightarrow> string \<Rightarrow> string \<Rightarrow> string \<Rightarrow> 'a KeyRow list" where
  "reserve_key keys tenantID key commandHash actorBinding now =
     keys @ [\<lparr>ky_TenantID = tenantID, ky_RequestID = key, ky_CommandHash = commandHash, ky_ActorBinding = actorBinding,
              ky_EntityID = '''', ky_Result = None, ky_CreatedAt = now, ky_CompletedAt = ''''\<rparr>]"

definition complete_key :: "'a KeyRow list \<Rightarrow> string \<Rightarrow> string \<Rightarrow> string \<Rightarrow> 'a \<Rightarrow> string \<Rightarrow> 'a KeyRow list" where
  "complete_key keys tenantID key entityID outcome now =
     map (\<lambda>k. if ky_TenantID k = tenantID \<and> ky_RequestID k = key
        then k\<lparr>ky_EntityID := entityID, ky_Result := Some outcome, ky_CompletedAt := now\<rparr> else k) keys"

record LifecycleDB =
  ld_Purge :: PurgeDB
  ld_HoldKeys :: "EvidenceHold KeyRow list"
  ld_PolicyKeys :: "RetentionPolicy KeyRow list"

section \<open>Authorization, receipts and shapes\<close>

definition authorizeHoldAct :: "Principal \<Rightarrow> Scope \<Rightarrow> LifecycleAction \<Rightarrow> unit result" where
  "authorizeHoldAct who scope action =
     (case lifecycle_Authorize \<lparr>lq_Action = action, lq_Principal = who, lq_ActorKind = ActorKindHuman,
             lq_TenantID = sc_OrganizationID scope, lq_CompanyID = sc_CompanyID scope, lq_Category = '''',
             lq_DualApprovalRequired = False, lq_Requester = None, lq_FirstApprover = None\<rparr> of
        Some code \<Rightarrow> Inl (AuthErr code)
      | None \<Rightarrow> Inr ())"

definition ReceiptPayloadVersionV08 :: string where
  "ReceiptPayloadVersionV08 = ''receipt-payload/v0.8.0''"

definition hold_payload :: "EvidenceHold \<Rightarrow> string \<Rightarrow> Principal \<Rightarrow> ReceiptPayload" where
  "hold_payload h reason who =
     (let s = PrincipalSnapshot_of who in
     \<lparr>py_Version = ReceiptPayloadVersionV08, py_SubjectType = SubjectOther '''', py_SubjectID = '''',
      py_Action = ReceiptActionOther '''', py_TenantID = h_TenantID h, py_CompanyID = h_CompanyID h,
      py_FiscalPeriodID = h_Period h, py_ReviewedEnvelopeHash = '''', py_ResultingEnvelopeHash = '''',
      py_ReviewedJudgmentHash = '''', py_ResultingJudgmentHash = '''', py_FromMemoryID = '''', py_FromEnvelopeHash = '''',
      py_ToMemoryID = '''', py_ToEnvelopeHash = '''', py_SuccessorID = '''', py_EvidenceRef = h_ObjectID h, py_Reason = reason,
      py_PrincipalID = ps_SubjectID s, py_MembershipID = ps_MembershipID s, py_PrincipalRoles = ps_Roles s,
      py_AuthenticationMethod = AuthMethod_str (ps_Method s), py_AssuranceLevel = Assurance_str (ps_Assurance s),
      py_PrincipalAuthenticatedAt = ps_AuthenticatedAt s, py_PolicyVersion = LifecyclePolicyVersion, py_IssuedAt = '''',
      py_ReviewedLifecycleHash = '''', py_ResultingLifecycleHash = '''', py_ExecutionAttemptID = ''''\<rparr>)"

definition holdCommandHash :: "(string \<times> json) list \<Rightarrow> string" where
  "holdCommandHash shape = sha256_hex (enc True (JObj shape))"

definition placeHoldCommandShape :: "PlaceHoldCommand \<Rightarrow> (string \<times> json) list" where
  "placeHoldCommandShape cmd =
     [(''objectId'', JStr (hc_ObjectID cmd)), (''kind'', JStr (hc_Kind cmd)), (''reason'', JStr (hc_Reason cmd)),
      (''ownerSubjectId'', JStr (hc_OwnerSubjectID cmd))]"

definition liftHoldCommandShape :: "LiftHoldCommand \<Rightarrow> (string \<times> json) list" where
  "liftHoldCommandShape cmd = [(''holdId'', JStr (lc_HoldID cmd)), (''reason'', JStr (lc_Reason cmd))]"

section \<open>Guarded writes\<close>

definition insertHoldOn :: "PurgeDB \<Rightarrow> EvidenceHold \<Rightarrow> PurgeDB result" where
  "insertHoldOn db h =
     (if list_ex (\<lambda>x. h_HoldID x = h_HoldID h) (pd_Holds db) then Inl (StoreErr ''UNIQUE'')
      else if \<not> IsValidRetentionHoldKind (h_Kind h) then Inl (StoreErr ''CHECK'')
      else Inr (db\<lparr>pd_Holds := pd_Holds db @ [h]\<rparr>))"

text \<open>\<^verbatim>\<open>UPDATE evidence_holds SET lifted_at, lifted_by, lift_reason WHERE id = ? AND lifted_at IS NULL\<close>.\<close>

definition liftHoldOn :: "PurgeDB \<Rightarrow> string \<Rightarrow> string \<Rightarrow> string \<Rightarrow> string \<Rightarrow> PurgeDB" where
  "liftHoldOn db holdID now actor reason =
     db\<lparr>pd_Holds := map (\<lambda>h. if h_HoldID h = holdID \<and> h_LiftedAt h = ''''
          then h\<lparr>h_LiftedAt := now, h_LiftedBy := actor, h_LiftReason := reason\<rparr> else h) (pd_Holds db)\<rparr>"

section \<open>The operations\<close>

text \<open>Authorization, the immutable row and its receipt.\<close>

definition place_act :: "Signer option \<Rightarrow> PurgeDB \<Rightarrow> PlaceHoldCommand \<Rightarrow> Scope \<Rightarrow> Principal \<Rightarrow> string \<Rightarrow> string
    \<Rightarrow> (PurgeDB \<times> EvidenceHold) result" where
  "place_act signer db cmd scope who now holdID =
     (let hold = \<lparr>h_HoldID = holdID, h_ObjectID = hc_ObjectID cmd, h_TenantID = sc_OrganizationID scope,
            h_CompanyID = sc_CompanyID scope, h_RUC = sc_RUC scope, h_Period = sc_Period scope, h_Kind = hc_Kind cmd,
            h_Reason = hc_Reason cmd, h_OwnerSubjectID = hc_OwnerSubjectID cmd, h_PlacedAt = now,
            h_PlacedBy = p_SubjectID who, h_LiftedAt = '''', h_LiftedBy = '''', h_LiftReason = ''''\<rparr>
      in and_then (authorizeHoldAct who scope ActionPlaceHold) (\<lambda>_.
         and_then (AssertValidEvidenceHold hold) (\<lambda>_.
         and_then (insertHoldOn db hold) (\<lambda>db.
         and_then (emitObjectReceipt signer db (hc_ObjectID cmd) HoldPlaced (hold_payload hold (hc_Reason cmd) who) now) (\<lambda>(db, r).
         Inr (db, hold))))))"

definition PlaceHold :: "Signer option \<Rightarrow> LifecycleDB \<Rightarrow> PlaceHoldCommand \<Rightarrow> Principal \<Rightarrow> string \<Rightarrow> string
    \<Rightarrow> (LifecycleDB \<times> PlaceHoldResult) result" where
  "PlaceHold signer db cmd who now holdID =
     and_then (AssertValidPlaceHoldCommand cmd) (\<lambda>_.
     and_then (from_option (PlainErr ''OBJECT_NOT_FOUND'') (evidenceObjectByIDOn (ld_Purge db) (hc_ObjectID cmd))) (\<lambda>obj.
     let scope = company_scope (eo_TenantID obj) (eo_CompanyID obj) (eo_RUC obj) (eo_Period obj);
         commandHash = holdCommandHash (placeHoldCommandShape cmd);
         tenant = sc_OrganizationID scope
     in and_then (replay_key (ld_HoldKeys db) tenant (hc_RequestID cmd) commandHash (p_SubjectID who)) (\<lambda>replay.
        case replay of
          Some h \<Rightarrow> Inr (db, \<lparr>hv_Hold = h, hv_Created = False, hv_IdempotentReplay = True\<rparr>)
        | None \<Rightarrow>
            let keys = reserve_key (ld_HoldKeys db) tenant (hc_RequestID cmd) commandHash (p_SubjectID who) now
            in and_then (place_act signer (ld_Purge db) cmd scope who now holdID) (\<lambda>(purge, h).
               Inr (db\<lparr>ld_Purge := purge, ld_HoldKeys := complete_key keys tenant (hc_RequestID cmd) (h_HoldID h) h now\<rparr>,
                    \<lparr>hv_Hold = h, hv_Created = True, hv_IdempotentReplay = False\<rparr>)))))"

text \<open>Authorization, the one-way closure and its receipt.\<close>

definition lift_act :: "Signer option \<Rightarrow> PurgeDB \<Rightarrow> LiftHoldCommand \<Rightarrow> EvidenceHold \<Rightarrow> Principal \<Rightarrow> string
    \<Rightarrow> (PurgeDB \<times> EvidenceHold) result" where
  "lift_act signer db cmd hold who now =
     (let scope = company_scope (h_TenantID hold) (h_CompanyID hold) (h_RUC hold) (h_Period hold);
          lifted = hold\<lparr>h_LiftedAt := now, h_LiftedBy := p_SubjectID who, h_LiftReason := lc_Reason cmd\<rparr>
      in and_then (authorizeHoldAct who scope ActionLiftHold) (\<lambda>_.
         and_then (ensure (h_LiftedAt hold = '''') (AuthErr ''ALREADY_DECIDED'')) (\<lambda>_.
         and_then (emitObjectReceipt signer (liftHoldOn db (lc_HoldID cmd) now (p_SubjectID who) (lc_Reason cmd))
            (h_ObjectID hold) HoldLifted (hold_payload hold (lc_Reason cmd) who) now) (\<lambda>(db, r).
         Inr (db, lifted)))))"

definition LiftHold :: "Signer option \<Rightarrow> LifecycleDB \<Rightarrow> LiftHoldCommand \<Rightarrow> Principal \<Rightarrow> string
    \<Rightarrow> (LifecycleDB \<times> LiftHoldResult) result" where
  "LiftHold signer db cmd who now =
     and_then (AssertValidLiftHoldCommand cmd) (\<lambda>_.
     and_then (from_option (PlainErr ''HOLD_NOT_FOUND'') (find (\<lambda>h. h_HoldID h = lc_HoldID cmd) (pd_Holds (ld_Purge db)))) (\<lambda>hold.
     let commandHash = holdCommandHash (liftHoldCommandShape cmd); tenant = h_TenantID hold
     in and_then (replay_key (ld_HoldKeys db) tenant (lc_RequestID cmd) commandHash (p_SubjectID who)) (\<lambda>replay.
        case replay of
          Some h \<Rightarrow> Inr (db, \<lparr>lv_Hold = h, lv_Lifted = True, lv_IdempotentReplay = True\<rparr>)
        | None \<Rightarrow>
            let keys = reserve_key (ld_HoldKeys db) tenant (lc_RequestID cmd) commandHash (p_SubjectID who) now
            in and_then (lift_act signer (ld_Purge db) cmd hold who now) (\<lambda>(purge, h).
               Inr (db\<lparr>ld_Purge := purge, ld_HoldKeys := complete_key keys tenant (lc_RequestID cmd) (h_HoldID h) h now\<rparr>,
                    \<lparr>lv_Hold = h, lv_Lifted = True, lv_IdempotentReplay = False\<rparr>)))))"

definition HoldsForObject :: "PurgeDB \<Rightarrow> string \<Rightarrow> Scope \<Rightarrow> EvidenceHold list result" where
  "HoldsForObject db objectID scope =
     and_then (from_option (PlainErr ''OBJECT_NOT_FOUND'') (evidenceObjectByIDOn db objectID)) (\<lambda>obj.
     if \<not> objectScopeMatches obj scope then Inl (PlainErr ''OBJECT_NOT_FOUND'')
     else Inr (sort_key (\<lambda>h. (h_PlacedAt h, h_HoldID h)) (filter (\<lambda>h. h_ObjectID h = objectID) (pd_Holds db))))"

definition ActiveBlockingHolds :: "PurgeDB \<Rightarrow> string \<Rightarrow> Scope \<Rightarrow> string list \<Rightarrow> EvidenceHold list result" where
  "ActiveBlockingHolds db objectID scope blockingKinds =
     and_then (from_option (PlainErr ''OBJECT_NOT_FOUND'') (evidenceObjectByIDOn db objectID)) (\<lambda>obj.
     if \<not> objectScopeMatches obj scope then Inl (PlainErr ''OBJECT_NOT_FOUND'')
     else if blockingKinds = [] then Inr []
     else Inr (sort_key (\<lambda>h. (h_PlacedAt h, h_HoldID h))
       (filter (\<lambda>h. h_ObjectID h = objectID \<and> h_LiftedAt h = '''' \<and> h_Kind h \<in> set blockingKinds) (pd_Holds db))))"

end
