(* ===== verification/Judgment.thy ===== *)
theory Judgment
  imports Memory_Model Auth_Model
begin

text \<open>
  Adjudications of internal/core/judgment.go and internal/core/reconciliation.go: the two
  entities, their pure transitions with the typed errors, the adjacency tables, and the
  canonical hashes over the reviewed and the confirmed state. The two machines have the same
  shape; both are interpretations of the prelude's driven machine.
\<close>

section \<open>Judgments\<close>

datatype JudgmentStatus = JudgmentProposed | JudgmentConfirmed | JudgmentRejected | JudgmentWithdrawn
  | JudgmentSuperseded | JudgmentStatusOther string

fun JudgmentStatus_str :: "JudgmentStatus \<Rightarrow> string" where
  "JudgmentStatus_str JudgmentProposed = ''proposed''"
| "JudgmentStatus_str JudgmentConfirmed = ''confirmed''"
| "JudgmentStatus_str JudgmentRejected = ''rejected''"
| "JudgmentStatus_str JudgmentWithdrawn = ''withdrawn''"
| "JudgmentStatus_str JudgmentSuperseded = ''superseded''"
| "JudgmentStatus_str (JudgmentStatusOther s) = s"

fun Relation_str :: "Relation \<Rightarrow> string" where
  "Relation_str RelationRelated = ''related''"
| "Relation_str RelationCompatible = ''compatible''"
| "Relation_str RelationScoped = ''scoped''"
| "Relation_str RelationConflictsWith = ''conflicts_with''"
| "Relation_str RelationSupersedes = ''supersedes''"
| "Relation_str RelationNotConflict = ''not_conflict''"
| "Relation_str RelationSupports = ''supports''"
| "Relation_str RelationContradicts = ''contradicts''"
| "Relation_str RelationExplains = ''explains''"
| "Relation_str RelationDerivedFrom = ''derived_from''"
| "Relation_str RelationPostedAs = ''posted_as''"
| "Relation_str RelationReconciles = ''reconciles''"
| "Relation_str RelationReverses = ''reverses''"
| "Relation_str RelationRequires = ''requires''"
| "Relation_str RelationViolates = ''violates''"
| "Relation_str RelationApprovedBy = ''approved_by''"
| "Relation_str RelationRejectedBy = ''rejected_by''"
| "Relation_str (RelationOther s) = s"

record AccountingJudgment =
  j_ID :: string
  j_TenantID :: string
  j_CompanyID :: string
  j_FiscalPeriodID :: string
  j_FromID :: string
  j_ToID :: string
  j_Relation :: Relation
  j_Status :: JudgmentStatus
  j_Proposer :: Source
  j_ProposalReason :: string
  j_Resolution :: string
  j_Adjudicator :: "PrincipalSnapshot option"
  j_PolicyVersion :: string
  j_PredecessorID :: string
  j_SupersedesID :: string
  j_ProposedAt :: string
  j_UpdatedAt :: string
  j_DecidedAt :: string

definition ProposableRelations :: "Relation list" where
  "ProposableRelations = [RelationSupports, RelationContradicts, RelationExplains, RelationReconciles,
     RelationReverses, RelationSupersedes]"

definition IsProposableRelation :: "Relation \<Rightarrow> bool" where
  "IsProposableRelation r = (case r of
     RelationSupports \<Rightarrow> True | RelationContradicts \<Rightarrow> True | RelationExplains \<Rightarrow> True
   | RelationReconciles \<Rightarrow> True | RelationReverses \<Rightarrow> True | RelationSupersedes \<Rightarrow> True | _ \<Rightarrow> False)"

definition CanPropose :: "Source \<Rightarrow> bool" where
  "CanPropose source \<longleftrightarrow> src_ActorKind source = ActorKindAgent \<or> src_ActorKind source = ActorKindSystem"

fun IsLegalJudgmentTransition :: "JudgmentStatus \<Rightarrow> JudgmentStatus \<Rightarrow> bool" where
  "IsLegalJudgmentTransition JudgmentProposed to =
     (to = JudgmentConfirmed \<or> to = JudgmentRejected \<or> to = JudgmentWithdrawn \<or> to = JudgmentSuperseded)"
| "IsLegalJudgmentTransition JudgmentConfirmed to = (to = JudgmentSuperseded)"
| "IsLegalJudgmentTransition _ to = False"

definition ConfirmJudgment :: "AccountingJudgment \<Rightarrow> string \<Rightarrow> PrincipalSnapshot option \<Rightarrow> string \<Rightarrow> string
    \<Rightarrow> AccountingJudgment result" where
  "ConfirmJudgment j resolution adjudicator policyVersion decidedAt =
     (if j_Status j \<noteq> JudgmentProposed then Inl (AuthErr ''INVALID_JUDGMENT_TRANSITION'')
      else if blank resolution then Inl (AuthErr ''RESOLUTION_REQUIRED'')
      else if adjudicator = None then Inl (AuthErr ''AUTHENTICATION_REQUIRED'')
      else Inr (j\<lparr>j_Status := JudgmentConfirmed, j_Resolution := resolution, j_Adjudicator := adjudicator,
                  j_PolicyVersion := policyVersion, j_DecidedAt := decidedAt, j_UpdatedAt := decidedAt\<rparr>))"

definition RejectJudgment :: "AccountingJudgment \<Rightarrow> string \<Rightarrow> PrincipalSnapshot option \<Rightarrow> string \<Rightarrow> string
    \<Rightarrow> AccountingJudgment result" where
  "RejectJudgment j reason adjudicator policyVersion decidedAt =
     (if j_Status j \<noteq> JudgmentProposed then Inl (AuthErr ''INVALID_JUDGMENT_TRANSITION'')
      else if blank reason then Inl (AuthErr ''RESOLUTION_REQUIRED'')
      else if adjudicator = None then Inl (AuthErr ''AUTHENTICATION_REQUIRED'')
      else Inr (j\<lparr>j_Status := JudgmentRejected, j_Resolution := reason, j_Adjudicator := adjudicator,
                  j_PolicyVersion := policyVersion, j_DecidedAt := decidedAt, j_UpdatedAt := decidedAt\<rparr>))"

definition WithdrawJudgment :: "AccountingJudgment \<Rightarrow> string \<Rightarrow> AccountingJudgment result" where
  "WithdrawJudgment j ts =
     (if j_Status j \<noteq> JudgmentProposed then Inl (AuthErr ''INVALID_JUDGMENT_TRANSITION'')
      else Inr (j\<lparr>j_Status := JudgmentWithdrawn, j_UpdatedAt := ts\<rparr>))"

definition SupersedeJudgment :: "AccountingJudgment \<Rightarrow> string \<Rightarrow> string \<Rightarrow> AccountingJudgment result" where
  "SupersedeJudgment j successorID ts =
     (if j_Status j \<noteq> JudgmentConfirmed then Inl (AuthErr ''INVALID_JUDGMENT_TRANSITION'')
      else Inr (j\<lparr>j_Status := JudgmentSuperseded, j_SupersedesID := successorID, j_UpdatedAt := ts\<rparr>))"

section \<open>Canonical judgment hash\<close>

definition source_json :: "Source \<Rightarrow> json" where
  "source_json s = JObj
     (fld_omit ''actorId'' (JStr (src_ActorID s)) @ fld ''actorKind'' (JStr (ActorKind_str (src_ActorKind s)))
      @ fld_omit ''model'' (JStr (src_Model s)) @ fld_omit ''reference'' (JStr (src_Reference s))
      @ fld_omit ''session'' (JStr (src_Session s)) @ fld ''system'' (JStr (src_System s)))"

definition canonicalSnapshot :: "PrincipalSnapshot \<Rightarrow> PrincipalSnapshot" where
  "canonicalSnapshot s = s\<lparr>ps_Roles := sort (dedup (ps_Roles s))\<rparr>"

definition decided_fields :: "bool \<Rightarrow> string \<Rightarrow> PrincipalSnapshot option \<Rightarrow> string \<Rightarrow> string \<Rightarrow> (string \<times> json) list" where
  "decided_fields confirmed resolution adjudicator policyVersion decidedAt =
     (if confirmed then
        fld_omit ''resolution'' (JStr resolution)
        @ (case adjudicator of None \<Rightarrow> [] | Some s \<Rightarrow> fld ''adjudicator'' (snapshot_json (canonicalSnapshot s)))
        @ fld_omit ''policyVersion'' (JStr policyVersion) @ fld_omit ''decidedAt'' (JStr decidedAt)
      else [])"

definition judgment_payload :: "AccountingJudgment \<Rightarrow> json" where
  "judgment_payload j = JObj
     ([(''id'', JStr (j_ID j)), (''tenantId'', JStr (j_TenantID j)), (''companyId'', JStr (j_CompanyID j)),
       (''fiscalPeriodId'', JStr (j_FiscalPeriodID j)), (''fromId'', JStr (j_FromID j)), (''toId'', JStr (j_ToID j)),
       (''relation'', JStr (Relation_str (j_Relation j))), (''status'', JStr (JudgmentStatus_str (j_Status j))),
       (''proposer'', source_json (j_Proposer j)), (''proposalReason'', JStr (j_ProposalReason j)),
       (''predecessorId'', JStr (j_PredecessorID j)), (''proposedAt'', JStr (j_ProposedAt j))]
      @ decided_fields (j_Status j = JudgmentConfirmed) (j_Resolution j) (j_Adjudicator j) (j_PolicyVersion j) (j_DecidedAt j))"

definition ComputeJudgmentHash :: "AccountingJudgment \<Rightarrow> string" where
  "ComputeJudgmentHash j = sha256_hex (enc False (judgment_payload j))"

section \<open>Reconciliations\<close>

datatype ReconciliationStatus = ReconciliationProposed | ReconciliationConfirmed | ReconciliationRejected
  | ReconciliationWithdrawn | ReconciliationSuperseded | ReconciliationStatusOther string

fun ReconciliationStatus_str :: "ReconciliationStatus \<Rightarrow> string" where
  "ReconciliationStatus_str ReconciliationProposed = ''proposed''"
| "ReconciliationStatus_str ReconciliationConfirmed = ''confirmed''"
| "ReconciliationStatus_str ReconciliationRejected = ''rejected''"
| "ReconciliationStatus_str ReconciliationWithdrawn = ''withdrawn''"
| "ReconciliationStatus_str ReconciliationSuperseded = ''superseded''"
| "ReconciliationStatus_str (ReconciliationStatusOther s) = s"

record Reconciliation =
  r_ID :: string
  r_TenantID :: string
  r_CompanyID :: string
  r_FiscalPeriodID :: string
  r_LeftMemoryID :: string
  r_RightMemoryID :: string
  r_Method :: string
  r_Currency :: string
  r_LeftAmountCents :: int
  r_RightAmountCents :: int
  r_VarianceCents :: int
  r_ToleranceCents :: int
  r_Status :: ReconciliationStatus
  r_Proposer :: Source
  r_ProposalReason :: string
  r_Resolution :: string
  r_Adjudicator :: "PrincipalSnapshot option"
  r_PolicyVersion :: string
  r_PredecessorID :: string
  r_SupersedesID :: string
  r_ProposedAt :: string
  r_DecidedAt :: string

fun IsLegalReconciliationTransition :: "ReconciliationStatus \<Rightarrow> ReconciliationStatus \<Rightarrow> bool" where
  "IsLegalReconciliationTransition ReconciliationProposed to =
     (to = ReconciliationConfirmed \<or> to = ReconciliationRejected \<or> to = ReconciliationWithdrawn
      \<or> to = ReconciliationSuperseded)"
| "IsLegalReconciliationTransition ReconciliationConfirmed to = (to = ReconciliationSuperseded)"
| "IsLegalReconciliationTransition _ to = False"

definition ConfirmReconciliation :: "Reconciliation \<Rightarrow> string \<Rightarrow> PrincipalSnapshot option \<Rightarrow> string \<Rightarrow> string
    \<Rightarrow> Reconciliation result" where
  "ConfirmReconciliation r resolution adjudicator policyVersion decidedAt =
     (if r_Status r \<noteq> ReconciliationProposed then Inl (AuthErr ''INVALID_RECONCILIATION_TRANSITION'')
      else if blank resolution then Inl (AuthErr ''RESOLUTION_REQUIRED'')
      else if adjudicator = None then Inl (AuthErr ''AUTHENTICATION_REQUIRED'')
      else Inr (r\<lparr>r_Status := ReconciliationConfirmed, r_Resolution := resolution, r_Adjudicator := adjudicator,
                  r_PolicyVersion := policyVersion, r_DecidedAt := decidedAt\<rparr>))"

definition RejectReconciliation :: "Reconciliation \<Rightarrow> string \<Rightarrow> PrincipalSnapshot option \<Rightarrow> string \<Rightarrow> string
    \<Rightarrow> Reconciliation result" where
  "RejectReconciliation r reason adjudicator policyVersion decidedAt =
     (if r_Status r \<noteq> ReconciliationProposed then Inl (AuthErr ''INVALID_RECONCILIATION_TRANSITION'')
      else if blank reason then Inl (AuthErr ''RESOLUTION_REQUIRED'')
      else if adjudicator = None then Inl (AuthErr ''AUTHENTICATION_REQUIRED'')
      else Inr (r\<lparr>r_Status := ReconciliationRejected, r_Resolution := reason, r_Adjudicator := adjudicator,
                  r_PolicyVersion := policyVersion, r_DecidedAt := decidedAt\<rparr>))"

definition WithdrawReconciliation :: "Reconciliation \<Rightarrow> string \<Rightarrow> Reconciliation result" where
  "WithdrawReconciliation r ts =
     (if r_Status r \<noteq> ReconciliationProposed then Inl (AuthErr ''INVALID_RECONCILIATION_TRANSITION'')
      else Inr (r\<lparr>r_Status := ReconciliationWithdrawn, r_DecidedAt := ts\<rparr>))"

definition SupersedeReconciliation :: "Reconciliation \<Rightarrow> string \<Rightarrow> Reconciliation result" where
  "SupersedeReconciliation r successorID =
     (if r_Status r \<noteq> ReconciliationConfirmed then Inl (AuthErr ''INVALID_RECONCILIATION_TRANSITION'')
      else Inr (r\<lparr>r_Status := ReconciliationSuperseded, r_SupersedesID := successorID\<rparr>))"

definition reconciliation_payload :: "Reconciliation \<Rightarrow> json" where
  "reconciliation_payload r = JObj
     ([(''id'', JStr (r_ID r)), (''tenantId'', JStr (r_TenantID r)), (''companyId'', JStr (r_CompanyID r)),
       (''fiscalPeriodId'', JStr (r_FiscalPeriodID r)), (''leftMemoryId'', JStr (r_LeftMemoryID r)),
       (''rightMemoryId'', JStr (r_RightMemoryID r)), (''method'', JStr (r_Method r)), (''currency'', JStr (r_Currency r)),
       (''leftAmountCents'', JInt (r_LeftAmountCents r)), (''rightAmountCents'', JInt (r_RightAmountCents r)),
       (''varianceCents'', JInt (r_VarianceCents r)), (''toleranceCents'', JInt (r_ToleranceCents r)),
       (''status'', JStr (ReconciliationStatus_str (r_Status r))), (''proposer'', source_json (r_Proposer r)),
       (''proposalReason'', JStr (r_ProposalReason r)), (''predecessorId'', JStr (r_PredecessorID r)),
       (''proposedAt'', JStr (r_ProposedAt r))]
      @ decided_fields (r_Status r = ReconciliationConfirmed) (r_Resolution r) (r_Adjudicator r) (r_PolicyVersion r)
          (r_DecidedAt r))"

definition ComputeReconciliationHash :: "Reconciliation \<Rightarrow> string" where
  "ComputeReconciliationHash r = sha256_hex (enc False (reconciliation_payload r))"

section \<open>Runs\<close>

datatype adjudication_act = ActConfirm string "PrincipalSnapshot option" string string
  | ActRejectAdj string "PrincipalSnapshot option" string string | ActWithdraw string | ActSupersedeAdj string string

fun judgment_try :: "adjudication_act \<Rightarrow> AccountingJudgment \<Rightarrow> AccountingJudgment result" where
  "judgment_try (ActConfirm res adj pol ts) j = ConfirmJudgment j res adj pol ts"
| "judgment_try (ActRejectAdj res adj pol ts) j = RejectJudgment j res adj pol ts"
| "judgment_try (ActWithdraw ts) j = WithdrawJudgment j ts"
| "judgment_try (ActSupersedeAdj succ ts) j = SupersedeJudgment j succ ts"

fun reconciliation_try :: "adjudication_act \<Rightarrow> Reconciliation \<Rightarrow> Reconciliation result" where
  "reconciliation_try (ActConfirm res adj pol ts) r = ConfirmReconciliation r res adj pol ts"
| "reconciliation_try (ActRejectAdj res adj pol ts) r = RejectReconciliation r res adj pol ts"
| "reconciliation_try (ActWithdraw ts) r = WithdrawReconciliation r ts"
| "reconciliation_try (ActSupersedeAdj succ ts) r = SupersedeReconciliation r succ"

text \<open>A failed act leaves the entity as it was.\<close>

definition or_keep :: "'a \<Rightarrow> 'a result \<Rightarrow> 'a" where
  "or_keep x r = (case r of Inl e \<Rightarrow> x | Inr y \<Rightarrow> y)"

definition judgment_apply :: "adjudication_act \<Rightarrow> AccountingJudgment \<Rightarrow> AccountingJudgment" where
  "judgment_apply a j = or_keep j (judgment_try a j)"

definition reconciliation_apply :: "adjudication_act \<Rightarrow> Reconciliation \<Rightarrow> Reconciliation" where
  "reconciliation_apply a r = or_keep r (reconciliation_try a r)"

lemmas judgment_defs = ConfirmJudgment_def RejectJudgment_def WithdrawJudgment_def SupersedeJudgment_def
lemmas reconciliation_defs = ConfirmReconciliation_def RejectReconciliation_def WithdrawReconciliation_def
  SupersedeReconciliation_def

lemma or_keep_cases: "or_keep x r = x \<or> r = Inr (or_keep x r)"
  by (simp add: or_keep_def split: sum.split)

lemma judgment_try_legal:
  "judgment_try a j = Inr j' \<Longrightarrow> IsLegalJudgmentTransition (j_Status j) (j_Status j')"
  by (cases a) (auto simp: judgment_defs split: if_splits)

lemma reconciliation_try_legal:
  "reconciliation_try a r = Inr r' \<Longrightarrow> IsLegalReconciliationTransition (r_Status r) (r_Status r')"
  by (cases a) (auto simp: reconciliation_defs split: if_splits)

definition judgment_terminal :: "JudgmentStatus \<Rightarrow> bool" where
  "judgment_terminal s \<longleftrightarrow> s \<in> {JudgmentRejected, JudgmentWithdrawn, JudgmentSuperseded}"

definition reconciliation_terminal :: "ReconciliationStatus \<Rightarrow> bool" where
  "reconciliation_terminal s \<longleftrightarrow> s \<in> {ReconciliationRejected, ReconciliationWithdrawn, ReconciliationSuperseded}"

interpretation judgment_machine: driven_machine IsLegalJudgmentTransition judgment_terminal judgment_apply j_Status
proof unfold_locales
  show "judgment_terminal s \<Longrightarrow> \<not> IsLegalJudgmentTransition s t" for s t
    by (auto simp: judgment_terminal_def)
  show "judgment_apply a j = j \<or> IsLegalJudgmentTransition (j_Status j) (j_Status (judgment_apply a j))" for a j
    using or_keep_cases [of j "judgment_try a j"] judgment_try_legal [of a j] unfolding judgment_apply_def by auto
qed

interpretation reconciliation_machine: driven_machine IsLegalReconciliationTransition reconciliation_terminal
  reconciliation_apply r_Status
proof unfold_locales
  show "reconciliation_terminal s \<Longrightarrow> \<not> IsLegalReconciliationTransition s t" for s t
    by (auto simp: reconciliation_terminal_def)
  show "reconciliation_apply a r = r \<or> IsLegalReconciliationTransition (r_Status r) (r_Status (reconciliation_apply a r))" for a r
    using or_keep_cases [of r "reconciliation_try a r"] reconciliation_try_legal [of a r] unfolding reconciliation_apply_def by auto
qed

section \<open>Properties\<close>

text \<open>The part of a judgment a decision commits to.\<close>

definition judgment_decision :: "AccountingJudgment \<Rightarrow> string \<times> PrincipalSnapshot option \<times> string \<times> string" where
  "judgment_decision j = (j_Resolution j, j_Adjudicator j, j_PolicyVersion j, j_DecidedAt j)"

lemma judgment_apply_decided:
  "j_Status j \<noteq> JudgmentProposed \<Longrightarrow> judgment_decision (judgment_apply a j) = judgment_decision j
     \<and> j_Status (judgment_apply a j) \<noteq> JudgmentProposed"
  by (cases a) (auto simp: judgment_apply_def or_keep_def judgment_defs judgment_decision_def)

text \<open>
  A professional decision is final: once a judgment has left the proposed state, no sequence
  of attempted acts changes its resolution, adjudicator, policy version or decision time, and it
  never becomes proposed again.
\<close>

theorem judgment_decision_immutable:
  assumes "j_Status j \<noteq> JudgmentProposed"
  shows "judgment_decision (fold judgment_apply acts j) = judgment_decision j
     \<and> j_Status (fold judgment_apply acts j) \<noteq> JudgmentProposed"
  using assms by (induction acts arbitrary: j) (simp_all add: judgment_apply_decided)

definition sample_judgment :: AccountingJudgment where
  "sample_judgment = \<lparr>j_ID = ''j1'', j_TenantID = ''o'', j_CompanyID = ''c'', j_FiscalPeriodID = '''', j_FromID = ''a'',
     j_ToID = ''b'', j_Relation = RelationSupports, j_Status = JudgmentProposed,
     j_Proposer = \<lparr>src_System = ''sire'', src_Reference = '''', src_ActorID = ''ag'', src_ActorKind = ActorKindAgent,
        src_Model = '''', src_Session = ''''\<rparr>,
     j_ProposalReason = ''r'', j_Resolution = '''', j_Adjudicator = None, j_PolicyVersion = '''', j_PredecessorID = '''',
     j_SupersedesID = '''', j_ProposedAt = ''t'', j_UpdatedAt = ''t'', j_DecidedAt = ''''\<rparr>"

theorem judgment_decision_immutable_witness:
  "judgment_decision (fold judgment_apply [ActConfirm ''late'' None ''p'' ''t2'', ActSupersedeAdj ''j2'' ''t3'']
     (sample_judgment\<lparr>j_Status := JudgmentConfirmed, j_Resolution := ''ok''\<rparr>)) = (''ok'', None, '''', '''')"
proof -
  let ?j = "sample_judgment\<lparr>j_Status := JudgmentConfirmed, j_Resolution := ''ok''\<rparr>"
  have "j_Status ?j \<noteq> JudgmentProposed" by simp
  note judgment_decision_immutable [OF this, of "[ActConfirm ''late'' None ''p'' ''t2'', ActSupersedeAdj ''j2'' ''t3'']"]
  moreover have "judgment_decision ?j = (''ok'', None, '''', '''')"
    by (simp add: judgment_decision_def sample_judgment_def)
  ultimately show ?thesis by (simp only:)
qed

definition judgment_adjudicated :: "AccountingJudgment \<Rightarrow> bool" where
  "judgment_adjudicated j \<longleftrightarrow> (j_Status j \<in> {JudgmentConfirmed, JudgmentRejected} \<longrightarrow>
     j_Adjudicator j \<noteq> None \<and> \<not> blank (j_Resolution j))"

definition reconciliation_adjudicated :: "Reconciliation \<Rightarrow> bool" where
  "reconciliation_adjudicated r \<longleftrightarrow> (r_Status r \<in> {ReconciliationConfirmed, ReconciliationRejected} \<longrightarrow>
     r_Adjudicator r \<noteq> None \<and> \<not> blank (r_Resolution r))"

lemma judgment_try_adjudicated: "judgment_try a j = Inr j' \<Longrightarrow> judgment_adjudicated j'"
  by (cases a) (simp_all add: judgment_defs judgment_adjudicated_def split: if_splits, auto)

lemma reconciliation_try_adjudicated: "reconciliation_try a r = Inr r' \<Longrightarrow> reconciliation_adjudicated r'"
  by (cases a) (simp_all add: reconciliation_defs reconciliation_adjudicated_def split: if_splits, auto)

lemma judgment_fold_adjudicated: "judgment_adjudicated j \<Longrightarrow> judgment_adjudicated (fold judgment_apply acts j)"
proof (induction acts arbitrary: j)
  case (Cons a acts)
  have "judgment_adjudicated (judgment_apply a j)"
    using or_keep_cases [of j "judgment_try a j"] judgment_try_adjudicated Cons.prems
    unfolding judgment_apply_def by metis
  with Cons.IH show ?case by simp
qed simp

lemma reconciliation_fold_adjudicated:
  "reconciliation_adjudicated r \<Longrightarrow> reconciliation_adjudicated (fold reconciliation_apply acts r)"
proof (induction acts arbitrary: r)
  case (Cons a acts)
  have "reconciliation_adjudicated (reconciliation_apply a r)"
    using or_keep_cases [of r "reconciliation_try a r"] reconciliation_try_adjudicated Cons.prems
    unfolding reconciliation_apply_def by metis
  with Cons.IH show ?case by simp
qed simp

text \<open>
  Both adjudication machines only decide with a verified adjudicator and a reason: whenever a
  sequence of attempted acts confirms or rejects a proposed judgment, the result carries an
  adjudicator snapshot and a non-blank resolution; the same holds for reconciliations.
\<close>

theorem adjudication_needs_principal:
  "(j_Status j = JudgmentProposed \<longrightarrow> j_Status (fold judgment_apply acts j) \<in> {JudgmentConfirmed, JudgmentRejected}
       \<longrightarrow> j_Adjudicator (fold judgment_apply acts j) \<noteq> None \<and> \<not> blank (j_Resolution (fold judgment_apply acts j)))
   \<and> (r_Status r = ReconciliationProposed
       \<longrightarrow> r_Status (fold reconciliation_apply acts r) \<in> {ReconciliationConfirmed, ReconciliationRejected}
       \<longrightarrow> r_Adjudicator (fold reconciliation_apply acts r) \<noteq> None
           \<and> \<not> blank (r_Resolution (fold reconciliation_apply acts r)))"
  using judgment_fold_adjudicated [of j acts] reconciliation_fold_adjudicated [of r acts]
  by (auto simp: judgment_adjudicated_def reconciliation_adjudicated_def)

definition sample_snapshot :: PrincipalSnapshot where
  "sample_snapshot = \<lparr>ps_SubjectID = ''s'', ps_MembershipID = ''mb'', ps_Roles = [''controller''],
     ps_Method = AuthMethodSession, ps_Assurance = AssuranceStandard, ps_AuthenticatedAt = ''t''\<rparr>"

theorem adjudication_needs_principal_witness:
  "j_Adjudicator (fold judgment_apply [ActConfirm ''ok'' (Some sample_snapshot) ''p'' ''t''] sample_judgment) \<noteq> None"
proof -
  have "j_Status sample_judgment = JudgmentProposed"
    "j_Status (fold judgment_apply [ActConfirm ''ok'' (Some sample_snapshot) ''p'' ''t''] sample_judgment)
       \<in> {JudgmentConfirmed, JudgmentRejected}"
    by (simp_all add: sample_judgment_def judgment_apply_def or_keep_def judgment_defs ascii_space_def space2_def)
  then show ?thesis using adjudication_needs_principal by blast
qed

text \<open>
  The adjacency table of judgments lists one pair no act performs: exactly the pairs some act
  realises plus proposed to superseded are legal.
\<close>

theorem judgment_table_vs_acts:
  "IsLegalJudgmentTransition s t \<longleftrightarrow>
     (\<exists>a j j'. judgment_try a j = Inr j' \<and> j_Status j = s \<and> j_Status j' = t)
     \<or> (s = JudgmentProposed \<and> t = JudgmentSuperseded)"
proof
  assume l: "IsLegalJudgmentTransition s t"
  let ?j = "sample_judgment\<lparr>j_Status := s\<rparr>"
  have "(\<exists>a \<in> {ActConfirm ''ok'' (Some sample_snapshot) ''p'' ''t'', ActRejectAdj ''ok'' (Some sample_snapshot) ''p'' ''t'',
       ActWithdraw ''t'', ActSupersedeAdj ''x'' ''t''}. \<exists>j'. judgment_try a ?j = Inr j' \<and> j_Status j' = t)
     \<or> (s = JudgmentProposed \<and> t = JudgmentSuperseded)"
    using l by (cases s) (auto simp: judgment_defs ascii_space_def space2_def)
  moreover have "j_Status ?j = s" by simp
  ultimately show "(\<exists>a j j'. judgment_try a j = Inr j' \<and> j_Status j = s \<and> j_Status j' = t)
     \<or> (s = JudgmentProposed \<and> t = JudgmentSuperseded)"
    by blast
next
  assume "(\<exists>a j j'. judgment_try a j = Inr j' \<and> j_Status j = s \<and> j_Status j' = t)
     \<or> (s = JudgmentProposed \<and> t = JudgmentSuperseded)"
  then show "IsLegalJudgmentTransition s t" using judgment_try_legal by auto
qed

text \<open>
  The reviewed hash of a judgment commits to the proposal only: updating routing, the update
  time or any decision field of a judgment that is not confirmed leaves the hash unchanged, and
  the order and repetition of the adjudicator's roles never matter.
\<close>

theorem judgment_hash_coverage:
  "(j_Status j \<noteq> JudgmentConfirmed \<longrightarrow>
     ComputeJudgmentHash (j\<lparr>j_Resolution := res, j_Adjudicator := adj, j_PolicyVersion := pol, j_SupersedesID := su,
        j_UpdatedAt := up, j_DecidedAt := de\<rparr>) = ComputeJudgmentHash j)
   \<and> (set roles = set (ps_Roles sn) \<longrightarrow>
     ComputeJudgmentHash (j\<lparr>j_Adjudicator := Some (sn\<lparr>ps_Roles := roles\<rparr>)\<rparr>) =
     ComputeJudgmentHash (j\<lparr>j_Adjudicator := Some sn\<rparr>))"
proof -
  have "canonicalSnapshot (sn\<lparr>ps_Roles := roles\<rparr>) = canonicalSnapshot sn" if "set roles = set (ps_Roles sn)"
    using sort_dedup_cong [OF that] by (simp add: canonicalSnapshot_def)
  then show ?thesis
    by (simp add: ComputeJudgmentHash_def judgment_payload_def decided_fields_def del: enc.simps)
qed

theorem judgment_hash_coverage_witness:
  "ComputeJudgmentHash (sample_judgment\<lparr>j_UpdatedAt := ''later''\<rparr>) = ComputeJudgmentHash sample_judgment"
  using judgment_hash_coverage [where j = sample_judgment and res = "[]" and adj = None and pol = "[]" and su = "[]"
      and up = "''later''" and de = "[]"]
  by (simp add: sample_judgment_def)

end
