(* ===== verification/Memory_Store.thy ===== *)
theory Memory_Store
  imports Fiscal_Scope Lifecycle Hold_Store Judgment
begin

text \<open>
  The memory tables of internal/store/store.go and the write paths that are not review decisions:
  Save, the links, supersession, status transitions, relations and the sync imports. A row of
  observations keeps one field per column; a column that holds JSON text keeps the value the text
  decodes to (the text is written by the encoder from valid UTF-8, which the decoder returns). The
  store is opened without a master key, so contents are plaintext columns.
\<close>

section \<open>Tables\<close>

record Observation =
  ob_ID :: string
  ob_TopicKey :: string
  ob_Title :: string
  ob_Type :: string
  ob_Kind :: MemoryKind
  ob_Scope :: Scope
  ob_Content :: Content
  ob_AuthorityStatus :: string
  ob_Status :: MemoryStatus
  ob_FiscalEffect :: FiscalEffect
  ob_EffectiveAt :: string
  ob_RecordedAt :: string
  ob_ObservedAt :: string
  ob_ExpiresAt :: string
  ob_ValidityEffectiveAt :: string
  ob_ValiditySource :: string
  ob_Actor :: string
  ob_Timestamp :: string
  ob_Source :: string
  ob_Session :: string
  ob_SourceJSON :: "Source option"
  ob_ContentHash :: string
  ob_IdentityHash :: string
  ob_EnvelopeHash :: string
  ob_EvidenceRefs :: "string list"
  ob_RuleRefs :: "string list"
  ob_Confidence :: "go_float option"
  ob_Materiality :: "int option"
  ob_MaterialityLevel :: "MaterialityLevel option"
  ob_CloseSnapshot :: "CloseSnapshot option"
  ob_PolicyRule :: "PolicyRule option"
  ob_ReceiptID :: string
  ob_SupersedesID :: string
  ob_Revision :: int

record RelationRow =
  re_FromID :: string
  re_ToID :: string
  re_Relation :: Relation
  re_Actor :: string
  re_Timestamp :: string

record TransitionRow =
  tr_ObservationID :: string
  tr_From :: MemoryStatus
  tr_To :: MemoryStatus
  tr_Actor :: string
  tr_ActorKind :: ActorKind
  tr_Timestamp :: string

text \<open>A row of evidence_links or rule_links; only structured rule links have a version.\<close>

record LinkRow =
  lk_MemoryID :: string
  lk_Ref :: string
  lk_Version :: "string option"
  lk_EffectiveAt :: "string option"
  lk_Actor :: string
  lk_Timestamp :: string

record FiscalBindingRow =
  fb_Hash :: string
  fb_Binding :: FiscalScopeBinding
  fb_CanonicalBytes :: string
  fb_CreatedAt :: string

record FiscalLinkRow =
  fk_ID :: string
  fk_SubjectType :: string
  fk_SubjectID :: string
  fk_Sequence :: int
  fk_BindingHash :: string
  fk_ActEvidenceHash :: string
  fk_ReviewedEnvelopeHash :: string
  fk_ResultingEnvelopeHash :: string
  fk_EvidenceInspected :: "bool option"
  fk_RulesInspected :: "bool option"
  fk_AuditRefType :: string
  fk_AuditRefID :: string
  fk_CreatedAt :: string

text \<open>A decision event, of approval_events or of memory_decision_events: the columns are the same.\<close>

record DecisionEvent =
  de_ID :: string
  de_RequestID :: string
  de_MemoryID :: string
  de_TenantID :: string
  de_CompanyID :: string
  de_FiscalPeriodID :: string
  de_Action :: string
  de_FromStatus :: MemoryStatus
  de_ToStatus :: MemoryStatus
  de_ReviewedEnvelopeHash :: string
  de_ResultingEnvelopeHash :: string
  de_Reason :: string
  de_Principal :: PrincipalSnapshot
  de_PolicyVersion :: string
  de_AuthorizationReasonCode :: string
  de_CreatedAt :: string

text \<open>The outcome of an approval and of a reject or return (the three structs carry the same facts).\<close>

record ApprovalResult =
  ap_MemoryID :: string
  ap_ApprovalEventID :: string
  ap_PreviousStatus :: string
  ap_CurrentStatus :: string
  ap_ReviewedEnvelopeHash :: string
  ap_ResultingEnvelopeHash :: string
  ap_PrincipalSubjectID :: string
  ap_MembershipID :: string
  ap_PolicyVersion :: string
  ap_ApprovedAt :: string
  ap_IdempotentReplay :: bool

record ReviewDecisionResult =
  dv_MemoryID :: string
  dv_DecisionEventID :: string
  dv_PreviousStatus :: string
  dv_CurrentStatus :: string
  dv_ReviewedEnvelopeHash :: string
  dv_ResultingEnvelopeHash :: string
  dv_Reason :: string
  dv_PrincipalSubjectID :: string
  dv_MembershipID :: string
  dv_PolicyVersion :: string
  dv_DecidedAt :: string
  dv_IdempotentReplay :: bool

record ApprovalKeyRow =
  ak_TenantID :: string
  ak_RequestID :: string
  ak_CommandHash :: string
  ak_SubjectID :: string
  ak_MembershipID :: string
  ak_ApprovalEventID :: "string option"
  ak_Result :: "ApprovalResult option"
  ak_CreatedAt :: string
  ak_CompletedAt :: "string option"

datatype VelocityAlertType = ReviewVelocityAlertApproval | ReviewVelocityAlertConsecutive

record ReviewVelocityAlert =
  vl_ID :: string
  vl_TenantID :: string
  vl_PrincipalSubjectID :: string
  vl_AlertType :: VelocityAlertType
  vl_WindowStartedAt :: string
  vl_WindowEndedAt :: string
  vl_ObservedCount :: int
  vl_ConsecutiveCount :: int
  vl_RecordedAt :: string

record ClosureEvent =
  ce_ID :: string
  ce_TenantID :: string
  ce_CompanyID :: string
  ce_FiscalPeriodID :: string
  ce_Action :: string
  ce_CloseMemoryID :: string
  ce_SubjectID :: string
  ce_Reason :: string
  ce_RequestID :: string
  ce_CreatedAt :: string

text \<open>
  The four tables of an adjudication machine (judgments, reconciliations): the rows, their immutable
  transition log, the idempotency keys and the supersession routing. A completed decision stores its
  result and its event id together.
\<close>

record AdjudicationEvent =
  ae_ID :: string
  ae_EntityID :: string
  ae_RequestID :: string
  ae_Action :: string
  ae_From :: string
  ae_To :: string
  ae_Hash :: string
  ae_Principal :: "PrincipalSnapshot option"
  ae_PolicyVersion :: "string option"
  ae_Reason :: string
  ae_CreatedAt :: string

record 'a AdjudicationKey =
  jk_TenantID :: string
  jk_RequestID :: string
  jk_CommandHash :: string
  jk_ActorBinding :: string
  jk_EntityID :: "string option"
  jk_Result :: "('a \<times> string) option"
  jk_CreatedAt :: string
  jk_CompletedAt :: "string option"

record RoutingRow =
  ro_FromID :: string
  ro_ToID :: string
  ro_Actor :: string
  ro_Timestamp :: string

record 'a AdjudicationTables =
  ad_Rows :: "'a list"
  ad_Events :: "AdjudicationEvent list"
  ad_Keys :: "'a AdjudicationKey list"
  ad_Routes :: "RoutingRow list"

text \<open>
  The memory part of the database beside the evidence part it shares period closures and receipts
  with. md_Memberships holds the ids of the memberships rows, which decision events reference.
\<close>

record MemoryDB =
  md_Life :: LifecycleDB
  md_Observations :: "Observation list"
  md_Relations :: "RelationRow list"
  md_Transitions :: "TransitionRow list"
  md_EvidenceLinks :: "LinkRow list"
  md_RuleLinks :: "LinkRow list"
  md_Bindings :: "FiscalBindingRow list"
  md_FiscalLinks :: "FiscalLinkRow list"
  md_Approvals :: "DecisionEvent list"
  md_ApprovalKeys :: "ApprovalKeyRow list"
  md_Decisions :: "DecisionEvent list"
  md_ReviewKeys :: "ReviewDecisionResult KeyRow list"
  md_Velocity :: "ReviewVelocityAlert list"
  md_ClosureEvents :: "ClosureEvent list"
  md_Judgments :: "AccountingJudgment AdjudicationTables"
  md_Reconciliations :: "Reconciliation AdjudicationTables"
  md_Memberships :: "string list"

definition md_Purge :: "MemoryDB \<Rightarrow> PurgeDB" where
  "md_Purge db = ld_Purge (md_Life db)"

definition set_purge :: "PurgeDB \<Rightarrow> MemoryDB \<Rightarrow> MemoryDB" where
  "set_purge p db = db\<lparr>md_Life := (md_Life db)\<lparr>ld_Purge := p\<rparr>\<rparr>"

text \<open>What Open fixes for the lifetime of the store: signer, freeze latch and fiscal runtime mode.\<close>

record StoreConfig =
  cf_Signer :: "Signer option"
  cf_Frozen :: bool
  cf_Mode :: FiscalRuntimeMode

definition beginWriteTx :: "StoreConfig \<Rightarrow> unit result" where
  "beginWriteTx cfg = ensure (\<not> cf_Frozen cfg) (PlainErr ''STORE_WRITE_FROZEN'')"

section \<open>Rows and memories\<close>

definition legacyStatusFor :: "MemoryStatus \<Rightarrow> string" where
  "legacyStatusFor s = (case s of StatusActive \<Rightarrow> ''promoted'' | StatusPendingReview \<Rightarrow> ''reviewed''
     | StatusApproved \<Rightarrow> ''promoted'' | StatusRejected \<Rightarrow> ''reviewed'' | StatusSuperseded \<Rightarrow> ''superseded''
     | StatusVoided \<Rightarrow> ''reviewed'' | _ \<Rightarrow> ''reviewed'')"

definition validitySource :: "Validity option \<Rightarrow> string" where
  "validitySource v = (case v of None \<Rightarrow> ''''
     | Some w \<Rightarrow> if va_EffectiveAt w = '''' \<and> va_ExpiresAt w = '''' then ''''
               else if va_Source w \<noteq> '''' then va_Source w else ''declared'')"

definition validityEffectiveAt :: "Validity option \<Rightarrow> string" where
  "validityEffectiveAt v = (case v of None \<Rightarrow> '''' | Some w \<Rightarrow> va_EffectiveAt w)"

definition validityExpiresAt :: "Validity option \<Rightarrow> string" where
  "validityExpiresAt v = (case v of None \<Rightarrow> '''' | Some w \<Rightarrow> va_ExpiresAt w)"

text \<open>A REAL column stores NaN as NULL.\<close>

definition nullableFloat :: "go_float \<Rightarrow> go_float option" where
  "nullableFloat c = (if c = NaN then None else Some c)"

text \<open>The canonical JSON of a policy rule carries its tags sorted and deduplicated.\<close>

definition stored_rule :: "PolicyRule \<Rightarrow> PolicyRule" where
  "stored_rule p = p\<lparr>pr_Tags := sortedUniqueTags (pr_Tags p)\<rparr>"

text \<open>The VALUES of the INSERT INTO observations shared by Save and ImportObservation.\<close>

definition observation_row :: "AccountingMemory \<Rightarrow> Observation" where
  "observation_row m =
     \<lparr>ob_ID = m_ID m, ob_TopicKey = m_TopicKey m, ob_Title = m_Title m, ob_Type = MemoryKind_str (m_Kind m),
      ob_Kind = m_Kind m, ob_Scope = m_Scope m, ob_Content = m_Content m,
      ob_AuthorityStatus = legacyStatusFor (m_Status m), ob_Status = m_Status m, ob_FiscalEffect = m_FiscalEffect m,
      ob_EffectiveAt = m_EffectiveAt m, ob_RecordedAt = m_RecordedAt m, ob_ObservedAt = m_ObservedAt m,
      ob_ExpiresAt = validityExpiresAt (m_Validity m), ob_ValidityEffectiveAt = validityEffectiveAt (m_Validity m),
      ob_ValiditySource = validitySource (m_Validity m), ob_Actor = src_ActorID (m_Source m),
      ob_Timestamp = m_RecordedAt m, ob_Source = src_System (m_Source m), ob_Session = src_Session (m_Source m),
      ob_SourceJSON = Some (m_Source m), ob_ContentHash = m_ContentHash m, ob_IdentityHash = m_IdentityHash m,
      ob_EnvelopeHash = m_EnvelopeHash m, ob_EvidenceRefs = m_EvidenceRefs m, ob_RuleRefs = m_RuleRefs m,
      ob_Confidence = nullableFloat (m_Confidence m), ob_Materiality = m_Materiality m,
      ob_MaterialityLevel = m_MaterialityLevel m, ob_CloseSnapshot = m_CloseSnapshot m,
      ob_PolicyRule = map_option stored_rule (m_PolicyRule m), ob_ReceiptID = m_ReceiptID m,
      ob_SupersedesID = m_SupersedesID m, ob_Revision = m_Revision m\<rparr>"

definition sourceFromJSON :: "Source option \<Rightarrow> string \<Rightarrow> string \<Rightarrow> string \<Rightarrow> Source" where
  "sourceFromJSON json act system session = (case json of Some s \<Rightarrow> s
     | None \<Rightarrow> \<lparr>src_System = system, src_Reference = '''', src_ActorID = act, src_ActorKind = ActorKindHuman,
                src_Model = '''', src_Session = session\<rparr>)"

definition scanMemory :: "Observation \<Rightarrow> AccountingMemory" where
  "scanMemory o' =
     \<lparr>m_ID = ob_ID o', m_TopicKey = ob_TopicKey o', m_Title = ob_Title o',
      m_Kind = (if IsValidMemoryKind (ob_Kind o') then ob_Kind o' else LegacyTypeToKind (ob_Type o')),
      m_Scope = ob_Scope o', m_Content = ob_Content o',
      m_Status = (if IsValidMemoryStatus (ob_Status o') then ob_Status o' else LegacyStatusToStatus (ob_AuthorityStatus o')),
      m_FiscalEffect = (if IsValidFiscalEffect (ob_FiscalEffect o') then ob_FiscalEffect o' else FiscalEffectNone),
      m_EffectiveAt = ob_EffectiveAt o', m_RecordedAt = ob_RecordedAt o', m_ObservedAt = ob_ObservedAt o',
      m_Source = sourceFromJSON (ob_SourceJSON o') (ob_Actor o') (ob_Source o') (ob_Session o'),
      m_Validity = (if ob_ExpiresAt o' \<noteq> '''' \<or> ob_ValidityEffectiveAt o' \<noteq> ''''
        then Some \<lparr>va_EffectiveAt = ob_ValidityEffectiveAt o', va_ExpiresAt = ob_ExpiresAt o', va_Source = ob_ValiditySource o'\<rparr>
        else None),
      m_EvidenceRefs = ob_EvidenceRefs o', m_RuleRefs = ob_RuleRefs o',
      m_Confidence = (case ob_Confidence o' of Some c \<Rightarrow> c | None \<Rightarrow> Fin 0),
      m_Materiality = ob_Materiality o',
      m_MaterialityLevel = (case ob_MaterialityLevel o' of Some (MaterialityOther []) \<Rightarrow> None | l \<Rightarrow> l),
      m_CloseSnapshot = ob_CloseSnapshot o', m_PolicyRule = ob_PolicyRule o', m_RuleLinks = [],
      m_ContentHash = ob_ContentHash o', m_IdentityHash = ob_IdentityHash o', m_EnvelopeHash = ob_EnvelopeHash o',
      m_ReceiptID = ob_ReceiptID o', m_SupersedesID = ob_SupersedesID o', m_Revision = ob_Revision o', m_FiscalLinks = []\<rparr>"

section \<open>Reads\<close>

definition mergeRefs :: "string list \<Rightarrow> string list \<Rightarrow> string list" where
  "mergeRefs stored linked = dedup (filter (\<lambda>r. r \<noteq> '''') (stored @ linked))"

definition linkRefs :: "LinkRow list \<Rightarrow> string \<Rightarrow> string list" where
  "linkRefs table memoryID = map lk_Ref (filter (\<lambda>l. lk_MemoryID l = memoryID) table)"

definition ruleLinksQuery :: "MemoryDB \<Rightarrow> string \<Rightarrow> RuleLink list" where
  "ruleLinksQuery db memoryID =
     map (\<lambda>l. \<lparr>rl_Ref = lk_Ref l, rl_Version = the (lk_Version l), rl_EffectiveAt = the (lk_EffectiveAt l)\<rparr>)
       (filter (\<lambda>l. lk_MemoryID l = memoryID \<and> lk_Version l \<noteq> None \<and> lk_EffectiveAt l \<noteq> None) (md_RuleLinks db))"

definition fiscalBindingLinkContributions :: "MemoryDB \<Rightarrow> string \<Rightarrow> string \<Rightarrow> FiscalBindingLinkContribution list" where
  "fiscalBindingLinkContributions db subjectType subjectID =
     map (\<lambda>k. \<lparr>fl_Sequence = fk_Sequence k, fl_BindingHash = fk_BindingHash k, fl_ActEvidenceHash = fk_ActEvidenceHash k\<rparr>)
       (sort_key fk_Sequence (filter (\<lambda>k. fk_SubjectType k = subjectType \<and> fk_SubjectID k = subjectID) (md_FiscalLinks db)))"

definition withLinks :: "MemoryDB \<Rightarrow> AccountingMemory \<Rightarrow> AccountingMemory" where
  "withLinks db m = m\<lparr>m_EvidenceRefs := mergeRefs (m_EvidenceRefs m) (linkRefs (md_EvidenceLinks db) (m_ID m)),
     m_RuleRefs := mergeRefs (m_RuleRefs m) (linkRefs (md_RuleLinks db) (m_ID m)),
     m_RuleLinks := ruleLinksQuery db (m_ID m),
     m_FiscalLinks := fiscalBindingLinkContributions db ''memory'' (m_ID m)\<rparr>"

definition observationByID :: "MemoryDB \<Rightarrow> string \<Rightarrow> Observation option" where
  "observationByID db i = find (\<lambda>o'. ob_ID o' = i) (md_Observations db)"

text \<open>readMemoryWithLinks, the same view FindByID and refreshEnvelopeCache assemble.\<close>

definition readMemoryWithLinks :: "MemoryDB \<Rightarrow> string \<Rightarrow> AccountingMemory option" where
  "readMemoryWithLinks db i = map_option (\<lambda>o'. withLinks db (scanMemory o')) (observationByID db i)"

definition FindByID :: "MemoryDB \<Rightarrow> string \<Rightarrow> AccountingMemory option" where
  "FindByID db i = readMemoryWithLinks db i"

text \<open>scopeWhere and chainWhere: all institutional rows are one scope for a read.\<close>

definition scopeWhere :: "Scope \<Rightarrow> Observation \<Rightarrow> bool" where
  "scopeWhere scope o' =
     (let s = ob_Scope o' in
      if sc_Kind scope = ScopeKindInstitutional then sc_Kind s = ScopeKindInstitutional
      else sc_Kind s = ScopeKindCompany \<and> sc_OrganizationID s = sc_OrganizationID scope \<and> sc_CompanyID s = sc_CompanyID scope
         \<and> sc_RUC s = sc_RUC scope \<and> sc_Period s = sc_Period scope)"

definition chainWhere :: "string \<Rightarrow> Scope \<Rightarrow> Observation \<Rightarrow> bool" where
  "chainWhere topicKey scope o' \<longleftrightarrow> ob_TopicKey o' = topicKey \<and> scopeWhere scope o'"

definition FindByTopicKey :: "MemoryDB \<Rightarrow> string \<Rightarrow> Scope \<Rightarrow> AccountingMemory option" where
  "FindByTopicKey db topicKey scope =
     (case sort_key (\<lambda>o'. - ob_Revision o') (filter (chainWhere topicKey scope) (md_Observations db)) of
        [] \<Rightarrow> None | o' # _ \<Rightarrow> Some (withLinks db (scanMemory o')))"

definition FindByScope :: "MemoryDB \<Rightarrow> Scope \<Rightarrow> AccountingMemory list" where
  "FindByScope db scope = map (\<lambda>o'. withLinks db (scanMemory o')) (filter (scopeWhere scope) (md_Observations db))"

definition ListByStatus :: "MemoryDB \<Rightarrow> MemoryStatus \<Rightarrow> AccountingMemory list result" where
  "ListByStatus db status =
     (if \<not> IsValidMemoryStatus status then Inl (PlainErr ''INVALID_STATUS'')
      else Inr (map (\<lambda>o'. withLinks db (scanMemory o')) (filter (\<lambda>o'. ob_Status o' = status) (md_Observations db))))"

definition FindChain :: "MemoryDB \<Rightarrow> string \<Rightarrow> Scope \<Rightarrow> AccountingMemory list" where
  "FindChain db topicKey scope =
     map (\<lambda>o'. withLinks db (scanMemory o'))
       (sort_key ob_Revision (filter (chainWhere topicKey scope) (md_Observations db)))"

definition RelationBetween :: "MemoryDB \<Rightarrow> string \<Rightarrow> string \<Rightarrow> Relation option" where
  "RelationBetween db src dst =
     map_option re_Relation (find (\<lambda>r. re_FromID r = src \<and> re_ToID r = dst) (md_Relations db))"

definition SuccessorOf :: "MemoryDB \<Rightarrow> string \<Rightarrow> AccountingMemory option" where
  "SuccessorOf db memoryID =
     (case find (\<lambda>r. re_FromID r = memoryID \<and> re_Relation r = RelationSupersedes) (md_Relations db) of
        None \<Rightarrow> None | Some r \<Rightarrow> FindByID db (re_ToID r))"

definition EvidenceRefs :: "MemoryDB \<Rightarrow> string \<Rightarrow> string list result" where
  "EvidenceRefs db memoryID =
     map_sum (\<lambda>e. e) m_EvidenceRefs (from_option (PlainErr ''OBSERVATION_NOT_FOUND'') (FindByID db memoryID))"

definition RuleRefs :: "MemoryDB \<Rightarrow> string \<Rightarrow> string list result" where
  "RuleRefs db memoryID =
     map_sum (\<lambda>e. e) m_RuleRefs (from_option (PlainErr ''OBSERVATION_NOT_FOUND'') (FindByID db memoryID))"

section \<open>Guarded writes\<close>

definition insertObservation :: "MemoryDB \<Rightarrow> Observation \<Rightarrow> MemoryDB result" where
  "insertObservation db o' =
     (if observationByID db (ob_ID o') \<noteq> None then Inl (StoreErr ''UNIQUE'')
      else Inr (db\<lparr>md_Observations := md_Observations db @ [o']\<rparr>))"

definition updateObservation :: "MemoryDB \<Rightarrow> string \<Rightarrow> (Observation \<Rightarrow> Observation) \<Rightarrow> MemoryDB" where
  "updateObservation db i f =
     db\<lparr>md_Observations := map (\<lambda>o'. if ob_ID o' = i then f o' else o') (md_Observations db)\<rparr>"

definition insertRelation :: "MemoryDB \<Rightarrow> RelationRow \<Rightarrow> MemoryDB result" where
  "insertRelation db r =
     (if observationByID db (re_FromID r) = None \<or> observationByID db (re_ToID r) = None then Inl (StoreErr ''FOREIGN KEY'')
      else Inr (db\<lparr>md_Relations := md_Relations db @ [r]\<rparr>))"

definition insertTransition :: "MemoryDB \<Rightarrow> TransitionRow \<Rightarrow> MemoryDB result" where
  "insertTransition db t =
     (if observationByID db (tr_ObservationID t) = None then Inl (StoreErr ''FOREIGN KEY'')
      else Inr (db\<lparr>md_Transitions := md_Transitions db @ [t]\<rparr>))"

datatype LinkTable = EvidenceTable | RuleTable

fun link_table :: "LinkTable \<Rightarrow> MemoryDB \<Rightarrow> LinkRow list" where
  "link_table EvidenceTable db = md_EvidenceLinks db"
| "link_table RuleTable db = md_RuleLinks db"

fun set_link_table :: "LinkTable \<Rightarrow> LinkRow list \<Rightarrow> MemoryDB \<Rightarrow> MemoryDB" where
  "set_link_table EvidenceTable rows db = db\<lparr>md_EvidenceLinks := rows\<rparr>"
| "set_link_table RuleTable rows db = db\<lparr>md_RuleLinks := rows\<rparr>"

text \<open>\<^verbatim>\<open>INSERT OR IGNORE\<close> on the primary key (memory_id, ref); the flag tells whether a row was added.\<close>

definition insertLink :: "LinkTable \<Rightarrow> MemoryDB \<Rightarrow> LinkRow \<Rightarrow> MemoryDB \<times> bool" where
  "insertLink t db l =
     (if list_ex (\<lambda>x. lk_MemoryID x = lk_MemoryID l \<and> lk_Ref x = lk_Ref l) (link_table t db) then (db, False)
      else (set_link_table t (link_table t db @ [l]) db, True))"

definition storeFiscalScopeBindingTx :: "MemoryDB \<Rightarrow> FiscalScopeBinding \<Rightarrow> string \<Rightarrow> (MemoryDB \<times> string) result" where
  "storeFiscalScopeBindingTx db b createdAt =
     and_then (ValidateFiscalScopeBinding b) (\<lambda>_.
     let hash = FiscalScopeHash b in
     if list_ex (\<lambda>x. fb_Hash x = hash) (md_Bindings db) then Inr (db, hash)
     else if createdAt = '''' then Inl (StoreErr ''CHECK'')
     else Inr (db\<lparr>md_Bindings := md_Bindings db @ [\<lparr>fb_Hash = hash, fb_Binding = b,
                 fb_CanonicalBytes = CanonicalFiscalScopeBytes b, fb_CreatedAt = createdAt\<rparr>]\<rparr>, hash))"

text \<open>The constraints of fiscal_binding_links; the second unique index is told apart by its column.\<close>

definition insertFiscalLink :: "MemoryDB \<Rightarrow> FiscalLinkRow \<Rightarrow> MemoryDB result" where
  "insertFiscalLink db k =
     (if fk_ID k = '''' \<or> fk_SubjectType k = '''' \<or> fk_SubjectID k = '''' \<or> fk_Sequence k \<le> 0 \<or> fk_AuditRefType k = ''''
         \<or> fk_AuditRefID k = '''' \<or> fk_CreatedAt k = '''' then Inl (StoreErr ''CHECK'')
      else if list_ex (\<lambda>x. fk_ID x = fk_ID k) (md_FiscalLinks db) then Inl (StoreErr ''UNIQUE'')
      else if list_ex (\<lambda>x. fk_SubjectType x = fk_SubjectType k \<and> fk_SubjectID x = fk_SubjectID k
              \<and> fk_Sequence x = fk_Sequence k) (md_FiscalLinks db) then Inl (StoreErr ''UNIQUE'')
      else if list_ex (\<lambda>x. fk_SubjectType x = fk_SubjectType k \<and> fk_SubjectID x = fk_SubjectID k
              \<and> fk_BindingHash x = fk_BindingHash k \<and> fk_ActEvidenceHash x = fk_ActEvidenceHash k) (md_FiscalLinks db)
      then Inl (StoreErr ''act_evidence_hash'')
      else if \<not> list_ex (\<lambda>b. fb_Hash b = fk_BindingHash k) (md_Bindings db) then Inl (StoreErr ''FOREIGN KEY'')
      else Inr (db\<lparr>md_FiscalLinks := md_FiscalLinks db @ [k]\<rparr>))"

definition no_ack :: ReviewAcknowledgement where
  "no_ack = \<lparr>ra_Present = False, ra_Value = False\<rparr>"

definition memory_fiscal_link :: "string \<Rightarrow> string \<Rightarrow> int \<Rightarrow> string \<Rightarrow> string \<Rightarrow> string \<Rightarrow> string \<Rightarrow> FiscalLinkRow" where
  "memory_fiscal_link linkID memoryID sequence bindingHash actEvidenceHash resultingEnvelope now =
     \<lparr>fk_ID = linkID, fk_SubjectType = ''memory'', fk_SubjectID = memoryID, fk_Sequence = sequence,
      fk_BindingHash = bindingHash, fk_ActEvidenceHash = actEvidenceHash, fk_ReviewedEnvelopeHash = '''',
      fk_ResultingEnvelopeHash = resultingEnvelope, fk_EvidenceInspected = None, fk_RulesInspected = None,
      fk_AuditRefType = ''observation'', fk_AuditRefID = memoryID, fk_CreatedAt = now\<rparr>"

definition refreshEnvelopeCache :: "MemoryDB \<Rightarrow> string \<Rightarrow> MemoryDB result" where
  "refreshEnvelopeCache db memoryID =
     and_then (from_option (StoreErr ''NO ROWS'') (readMemoryWithLinks db memoryID)) (\<lambda>m.
     Inr (updateObservation db memoryID (\<lambda>o'. o'\<lparr>ob_EnvelopeHash := ComputeEnvelopeHash m\<rparr>)))"

definition blank_payload :: ReceiptPayload where
  "blank_payload =
     \<lparr>py_Version = '''', py_SubjectType = SubjectOther '''', py_SubjectID = '''', py_Action = ReceiptActionOther '''',
      py_TenantID = '''', py_CompanyID = '''', py_FiscalPeriodID = '''', py_ReviewedEnvelopeHash = '''',
      py_ResultingEnvelopeHash = '''', py_ReviewedJudgmentHash = '''', py_ResultingJudgmentHash = '''',
      py_FromMemoryID = '''', py_FromEnvelopeHash = '''', py_ToMemoryID = '''', py_ToEnvelopeHash = '''',
      py_SuccessorID = '''', py_EvidenceRef = '''', py_Reason = '''', py_PrincipalID = '''', py_MembershipID = '''',
      py_PrincipalRoles = [], py_AuthenticationMethod = '''', py_AssuranceLevel = '''', py_PrincipalAuthenticatedAt = '''',
      py_PolicyVersion = '''', py_IssuedAt = '''', py_ReviewedLifecycleHash = '''', py_ResultingLifecycleHash = '''',
      py_ExecutionAttemptID = ''''\<rparr>"

text \<open>The fields every memory receipt carries.\<close>

definition memory_payload :: "Scope \<Rightarrow> string \<Rightarrow> string \<Rightarrow> ReceiptPayload" where
  "memory_payload scope principalID policyVersion =
     blank_payload\<lparr>py_TenantID := sc_OrganizationID scope, py_CompanyID := sc_CompanyID scope,
       py_FiscalPeriodID := sc_Period scope, py_PrincipalID := principalID, py_PolicyVersion := policyVersion\<rparr>"

definition emitMemoryReceipt :: "StoreConfig \<Rightarrow> MemoryDB \<Rightarrow> string \<Rightarrow> ReceiptAction \<Rightarrow> ReceiptPayload \<Rightarrow> string \<Rightarrow> MemoryDB result" where
  "emitMemoryReceipt cfg db memoryID action p now =
     and_then (emitReceipt (cf_Signer cfg) (pd_Receipts (md_Purge db)) SubjectMemory memoryID action p now)
       (\<lambda>(rs, r). Inr (set_purge ((md_Purge db)\<lparr>pd_Receipts := rs\<rparr>) db))"

end
