(* ===== verification/Memory_Save.thy ===== *)
theory Memory_Save
  imports Memory_Store
begin

text \<open>
  The write paths of internal/store/store.go on memories that need no principal: Save with its
  auto-supersession, the evidence and rule links with and without a fiscal intent, explicit
  supersession, status transitions, relations and the sync imports. Each is a transaction: an error
  leaves the database as it was. The clock and the minted ids are arguments.
\<close>

section \<open>Save\<close>

record SaveInput =
  si_TopicKey :: string
  si_Title :: string
  si_Kind :: MemoryKind
  si_Scope :: Scope
  si_Content :: Content
  si_FiscalEffect :: FiscalEffect
  si_EffectiveAt :: string
  si_ObservedAt :: string
  si_Source :: Source
  si_Validity :: "Validity option"
  si_RuleRefs :: "string list"
  si_Confidence :: go_float
  si_Materiality :: "int option"
  si_MaterialityLevel :: "MaterialityLevel option"
  si_CloseSnapshot :: "CloseSnapshot option"
  si_PolicyRule :: "PolicyRule option"
  si_RuleLinks :: "RuleLink list"
  si_ReceiptID :: string
  si_FiscalIntent :: "FiscalWriteIntent option"

datatype WriteOutcome = WriteCreated | WriteUpdated

text \<open>The checks before the transaction; they return the input with links and refs normalised.\<close>

definition save_checks :: "StoreConfig \<Rightarrow> SaveInput \<Rightarrow> SaveInput result" where
  "save_checks cfg input =
     and_then (ensure (\<not> blank (si_TopicKey input)) (PlainErr ''INVALID_TOPIC_KEY'')) (\<lambda>_.
     and_then (ensure (\<not> blank (si_Title input)) (PlainErr ''INVALID_TITLE'')) (\<lambda>_.
     and_then (AssertValidScope (si_Scope input)) (\<lambda>_.
     and_then (AssertValidContent (si_Content input)) (\<lambda>_.
     and_then (AssertValidSource (si_Source input)) (\<lambda>_.
     and_then (ensure (IsValidMemoryKind (si_Kind input)) (PlainErr ''INVALID_KIND'')) (\<lambda>_.
     and_then (ensure (IsValidFiscalEffect (si_FiscalEffect input)) (PlainErr ''INVALID_FISCAL_EFFECT'')) (\<lambda>_.
     and_then (AssertValidValidity (si_Validity input)) (\<lambda>_.
     and_then (AssertValidPolicyRule (si_Kind input) (si_PolicyRule input)) (\<lambda>_.
     and_then (AssertValidRuleLinks (si_RuleLinks input)) (\<lambda>links.
     let input = input\<lparr>si_RuleLinks := links,
           si_RuleRefs := (if links \<noteq> [] then DeriveRuleRefs (si_RuleRefs input) links else si_RuleRefs input)\<rparr>
     in and_then (verifyFiscalIntentAxes (si_FiscalIntent input)
          (if si_CloseSnapshot input \<noteq> None then ''close.create'' else ''memory.save'') (si_Scope input) (src_ActorID (si_Source input))) (\<lambda>_.
     and_then (if sc_Kind (si_Scope input) = ScopeKindCompany
               then checkFiscalRuntimeGate (cf_Frozen cfg) (cf_Mode cfg) (si_FiscalIntent input \<noteq> None) else Inr ()) (\<lambda>_.
     Inr input))))))))))))"

definition buildMemory :: "SaveInput \<Rightarrow> string \<Rightarrow> int \<Rightarrow> MemoryStatus \<Rightarrow> string \<Rightarrow> AccountingMemory" where
  "buildMemory input i revision status recordedAt =
     (let m = \<lparr>m_ID = i, m_TopicKey = si_TopicKey input, m_Title = si_Title input, m_Kind = si_Kind input,
        m_Scope = si_Scope input, m_Content = si_Content input, m_Status = status, m_FiscalEffect = si_FiscalEffect input,
        m_EffectiveAt = si_EffectiveAt input, m_RecordedAt = recordedAt, m_ObservedAt = si_ObservedAt input,
        m_Source = si_Source input, m_Validity = si_Validity input, m_EvidenceRefs = [], m_RuleRefs = si_RuleRefs input,
        m_Confidence = si_Confidence input, m_Materiality = si_Materiality input,
        m_MaterialityLevel = si_MaterialityLevel input,
        m_CloseSnapshot = map_option CloneCloseSnapshot (si_CloseSnapshot input), m_PolicyRule = si_PolicyRule input,
        m_RuleLinks = [], m_ContentHash = '''', m_IdentityHash = '''', m_EnvelopeHash = '''',
        m_ReceiptID = si_ReceiptID input, m_SupersedesID = '''', m_Revision = revision, m_FiscalLinks = []\<rparr>
      in m\<lparr>m_ContentHash := ComputeContentHash m\<rparr>)"

text \<open>The chain of a save compares all scope columns, and its newest revision comes first.\<close>

definition chainRows :: "MemoryDB \<Rightarrow> string \<Rightarrow> Scope \<Rightarrow> Observation list" where
  "chainRows db topicKey scope =
     sort_key (\<lambda>o'. - ob_Revision o') (filter (\<lambda>o'. ob_TopicKey o' = topicKey \<and> ob_Scope o' = scope) (md_Observations db))"

text \<open>
  Auto-supersession of the previous revision: the two envelope hashes for the receipt, or nothing
  when the previous revision is terminal.
\<close>

definition supersedePrevious :: "MemoryDB \<Rightarrow> Observation \<Rightarrow> string \<Rightarrow> Source \<Rightarrow> string \<Rightarrow> (MemoryDB \<times> (string \<times> string) option) result" where
  "supersedePrevious db head successorID source recordedAt =
     and_then (from_option (StoreErr ''NO ROWS'') (readMemoryWithLinks db (ob_ID head))) (\<lambda>prev.
     case SupersedePrev prev successorID of
       Inl e \<Rightarrow> Inr (db, None)
     | Inr prev' \<Rightarrow>
         and_then (insertTransition (updateObservation db (ob_ID head)
             (\<lambda>o'. o'\<lparr>ob_Status := m_Status prev', ob_SupersedesID := m_SupersedesID prev'\<rparr>))
           \<lparr>tr_ObservationID = ob_ID head, tr_From = ob_Status head, tr_To = StatusSuperseded,
            tr_Actor = src_ActorID source, tr_ActorKind = src_ActorKind source, tr_Timestamp = recordedAt\<rparr>) (\<lambda>db.
         Inr (db, Some (ComputeEnvelopeHash prev, ComputeEnvelopeHash prev'))))"

definition recordSupersedes :: "MemoryDB \<Rightarrow> Observation option \<Rightarrow> string \<Rightarrow> Source \<Rightarrow> string \<Rightarrow> MemoryDB result" where
  "recordSupersedes db head i source recordedAt =
     (case head of None \<Rightarrow> Inr db
      | Some h \<Rightarrow>
          if ob_Status h \<in> {StatusSuperseded, StatusVoided, StatusRejected} then Inr db
          else insertRelation db \<lparr>re_FromID = ob_ID h, re_ToID = i, re_Relation = RelationSupersedes,
                 re_Actor = src_ActorID source, re_Timestamp = recordedAt\<rparr>)"

definition assertRuleLinkTarget :: "MemoryDB \<Rightarrow> AccountingMemory \<Rightarrow> RuleLink \<Rightarrow> unit result" where
  "assertRuleLinkTarget db consuming link =
     (case observationByID db (rl_Version link) of
        None \<Rightarrow> Inl (PlainErr ''RULE_LINK_TARGET_NOT_FOUND'')
      | Some o' \<Rightarrow>
          if ob_Kind o' \<noteq> KindRule then Inl (PlainErr ''RULE_LINK_TARGET_NOT_A_RULE'')
          else if ob_TopicKey o' \<noteq> rl_Ref link then Inl (PlainErr ''RULE_LINK_TARGET_TOPIC_MISMATCH'')
          else if sc_OrganizationID (ob_Scope o') \<noteq> sc_OrganizationID (m_Scope consuming)
          then Inl (PlainErr ''RULE_LINK_TARGET_TENANT_MISMATCH'')
          else Inr ())"

definition structured_link :: "string \<Rightarrow> RuleLink \<Rightarrow> string \<Rightarrow> string \<Rightarrow> LinkRow" where
  "structured_link memoryID link act now =
     \<lparr>lk_MemoryID = memoryID, lk_Ref = rl_Ref link, lk_Version = Some (rl_Version link),
      lk_EffectiveAt = Some (rl_EffectiveAt link), lk_Actor = act, lk_Timestamp = now\<rparr>"

fun insertRuleLinks :: "MemoryDB \<Rightarrow> AccountingMemory \<Rightarrow> RuleLink list \<Rightarrow> string \<Rightarrow> string \<Rightarrow> MemoryDB result" where
  "insertRuleLinks db m [] act now = Inr db"
| "insertRuleLinks db m (l # ls) act now =
     (if rl_EffectiveAt l \<noteq> m_EffectiveAt m then Inl (PlainErr ''RULE_LINK_EFFECTIVE_AT_MISMATCH'')
      else and_then (assertRuleLinkTarget db m l) (\<lambda>_.
        insertRuleLinks (fst (insertLink RuleTable db (structured_link (m_ID m) l act now))) m ls act now))"

text \<open>The first fiscal link of a new subject; the memory carries it into its receipt.\<close>

definition bindSaved :: "MemoryDB \<Rightarrow> AccountingMemory \<Rightarrow> FiscalWriteIntent option \<Rightarrow> string \<Rightarrow> string \<Rightarrow> (MemoryDB \<times> AccountingMemory) result" where
  "bindSaved db m intent linkID now =
     (case intent of None \<Rightarrow> Inr (db, m)
      | Some b \<Rightarrow>
          and_then (storeFiscalScopeBindingTx db b now) (\<lambda>(db, bindingHash).
          let act = ComputeActEvidenceHash bindingHash '''' no_ack no_ack;
              m = m\<lparr>m_FiscalLinks := [\<lparr>fl_Sequence = 1, fl_BindingHash = bindingHash, fl_ActEvidenceHash = act\<rparr>]\<rparr>
          in and_then (insertFiscalLink db (memory_fiscal_link linkID (m_ID m) 1 bindingHash act (ComputeEnvelopeHash m) now)) (\<lambda>db.
             Inr (db, m))))"

definition save_receipts :: "StoreConfig \<Rightarrow> MemoryDB \<Rightarrow> AccountingMemory \<Rightarrow> Observation option \<Rightarrow> (string \<times> string) option \<Rightarrow> string \<Rightarrow> MemoryDB result" where
  "save_receipts cfg db m head superseded now =
     and_then (case (head, superseded) of
         (Some h, Some (src, dst)) \<Rightarrow>
           emitMemoryReceipt cfg db (ob_ID h) MemorySuperseded
             ((memory_payload (m_Scope m) (src_ActorID (m_Source m)) kernelPolicyVersion)
                \<lparr>py_FromEnvelopeHash := src, py_ToEnvelopeHash := dst, py_SuccessorID := m_ID m\<rparr>) now
       | _ \<Rightarrow> Inr db) (\<lambda>db.
     emitMemoryReceipt cfg db (m_ID m) MemoryRecorded
       ((memory_payload (m_Scope m) (src_ActorID (m_Source m)) kernelPolicyVersion)
          \<lparr>py_ResultingEnvelopeHash := ComputeEnvelopeHash m\<rparr>) now)"

definition head_revision :: "Observation option \<Rightarrow> int" where
  "head_revision head = (case head of None \<Rightarrow> 0 | Some h \<Rightarrow> ob_Revision h)"

text \<open>The transaction: \<open>head\<close> is the newest revision of the chain, if any.\<close>

definition save_tx :: "StoreConfig \<Rightarrow> MemoryDB \<Rightarrow> SaveInput \<Rightarrow> AccountingMemory \<Rightarrow> Observation option \<Rightarrow> string \<Rightarrow> (MemoryDB \<times> AccountingMemory) result" where
  "save_tx cfg db input m head linkID =
     and_then (case head of None \<Rightarrow> Inr (db, None)
               | Some h \<Rightarrow> supersedePrevious db h (m_ID m) (si_Source input) (m_RecordedAt m)) (\<lambda>(db, superseded).
     and_then (insertObservation db (observation_row m)) (\<lambda>db.
     and_then (recordSupersedes db head (m_ID m) (si_Source input) (m_RecordedAt m)) (\<lambda>db.
     and_then (insertRuleLinks db m (si_RuleLinks input) (src_ActorID (si_Source input)) (m_RecordedAt m)) (\<lambda>db.
     and_then (bindSaved db m (si_FiscalIntent input) linkID (m_RecordedAt m)) (\<lambda>(db, m).
     and_then (save_receipts cfg db m head superseded (m_RecordedAt m)) (\<lambda>db.
     and_then (refreshEnvelopeCache db (m_ID m)) (\<lambda>db.
     Inr (db, m))))))))"

definition Save :: "StoreConfig \<Rightarrow> MemoryDB \<Rightarrow> SaveInput \<Rightarrow> string \<Rightarrow> (nat \<Rightarrow> string) \<Rightarrow> (MemoryDB \<times> AccountingMemory \<times> WriteOutcome) result" where
  "Save cfg db input now ids =
     and_then (save_checks cfg input) (\<lambda>input.
     let input = input\<lparr>si_EffectiveAt := (if si_EffectiveAt input = '''' then now else si_EffectiveAt input)\<rparr>;
         status = InitialStatus (si_FiscalEffect input)
     in and_then (AssertValidMemory (buildMemory input (ids 0) 1 status now)) (\<lambda>_.
        and_then (beginWriteTx cfg) (\<lambda>_.
        and_then (assertPeriodWritable (md_Purge db) (si_Scope input)) (\<lambda>_.
        let head = (case chainRows db (si_TopicKey input) (si_Scope input) of [] \<Rightarrow> None | h # _ \<Rightarrow> Some h);
            m = (buildMemory input (ids 0) 1 status now)\<lparr>m_Revision := head_revision head + 1\<rparr>
        in and_then (save_tx cfg db input m head (ids 1)) (\<lambda>(db, m).
           Inr (db, m, if m_Revision m > 1 then WriteUpdated else WriteCreated))))))"

section \<open>Relations and supersession\<close>

definition Relate :: "StoreConfig \<Rightarrow> MemoryDB \<Rightarrow> string \<Rightarrow> string \<Rightarrow> Relation \<Rightarrow> string \<Rightarrow> string \<Rightarrow> MemoryDB result" where
  "Relate cfg db fromID toID relation act timestamp =
     and_then (ensure (fromID \<noteq> toID) (PlainErr ''INVALID_RELATION'')) (\<lambda>_.
     and_then (ensure (IsValidRelation relation) (PlainErr ''INVALID_RELATION'')) (\<lambda>_.
     and_then (beginWriteTx cfg) (\<lambda>_.
     and_then (ensure (observationByID db fromID \<noteq> None \<and> observationByID db toID \<noteq> None)
       (PlainErr ''OBSERVATION_NOT_FOUND'')) (\<lambda>_.
     if list_ex (\<lambda>r. re_FromID r = fromID \<and> re_ToID r = toID \<and> re_Relation r = relation) (md_Relations db) then Inr db
     else insertRelation db \<lparr>re_FromID = fromID, re_ToID = toID, re_Relation = relation, re_Actor = act, re_Timestamp = timestamp\<rparr>))))"

record TransitionMeta =
  tm_Actor :: string
  tm_ActorKind :: ActorKind
  tm_Timestamp :: string
  tm_FiscalIntent :: "FiscalWriteIntent option"

text \<open>
  The fiscal guards of a mutation of an existing memory: the intent's shape and axes, the bypass
  guard and, for company scopes, the runtime gate.
\<close>

definition fiscal_guard :: "StoreConfig \<Rightarrow> AccountingMemory \<Rightarrow> FiscalWriteIntent option \<Rightarrow> string \<Rightarrow> string \<Rightarrow> unit result" where
  "fiscal_guard cfg m intent operation act =
     and_then (verifyFiscalIntentAxes intent operation (m_Scope m) act) (\<lambda>_.
     and_then (requireFiscalIntentForBoundSubject (m_FiscalLinks m) intent) (\<lambda>_.
     if sc_Kind (m_Scope m) = ScopeKindCompany
     then checkFiscalRuntimeGate (cf_Frozen cfg) (cf_Mode cfg) (m_FiscalLinks m \<noteq> [] \<or> intent \<noteq> None) else Inr ()))"

text \<open>The next link of a bound mutation: the memory is extended before its envelope is computed.\<close>

definition extend_links :: "AccountingMemory \<Rightarrow> string \<Rightarrow> string \<Rightarrow> AccountingMemory" where
  "extend_links m bindingHash act = m\<lparr>m_FiscalLinks := m_FiscalLinks m @
     [\<lparr>fl_Sequence = int (length (m_FiscalLinks m)) + 1, fl_BindingHash = bindingHash, fl_ActEvidenceHash = act\<rparr>]\<rparr>"

definition bindSuperseded :: "MemoryDB \<Rightarrow> AccountingMemory \<Rightarrow> FiscalWriteIntent option \<Rightarrow> string \<Rightarrow> string \<Rightarrow> (MemoryDB \<times> AccountingMemory) result" where
  "bindSuperseded db superseded intent linkID now =
     (case intent of None \<Rightarrow> Inr (db, superseded)
      | Some b \<Rightarrow>
          and_then (storeFiscalScopeBindingTx db b now) (\<lambda>(db, bindingHash).
          let act = ComputeActEvidenceHash bindingHash '''' no_ack no_ack; m = extend_links superseded bindingHash act
          in and_then (insertFiscalLink db (memory_fiscal_link linkID (m_ID m) (int (length (m_FiscalLinks superseded)) + 1)
               bindingHash act (ComputeEnvelopeHash m) now)) (\<lambda>db. Inr (db, m))))"

definition SupersedeExplicit :: "StoreConfig \<Rightarrow> MemoryDB \<Rightarrow> string \<Rightarrow> string \<Rightarrow> TransitionMeta \<Rightarrow> string \<Rightarrow> (MemoryDB \<times> AccountingMemory) result" where
  "SupersedeExplicit cfg db memoryID successorID meta linkID =
     and_then (beginWriteTx cfg) (\<lambda>_.
     and_then (from_option (PlainErr ''MEMORY_NOT_FOUND'') (readMemoryWithLinks db memoryID)) (\<lambda>m.
     and_then (fiscal_guard cfg m (tm_FiscalIntent meta) ''memory.supersede'' (tm_Actor meta)) (\<lambda>_.
     and_then (assertPeriodWritable (md_Purge db) (m_Scope m)) (\<lambda>_.
     and_then (bindSuperseded db (m\<lparr>m_Status := StatusSuperseded, m_SupersedesID := successorID\<rparr>) (tm_FiscalIntent meta)
        linkID (tm_Timestamp meta)) (\<lambda>(db, superseded).
     and_then (insertTransition (updateObservation db memoryID (\<lambda>o'. o'\<lparr>ob_Status := StatusSuperseded,
          ob_AuthorityStatus := legacyStatusFor StatusSuperseded, ob_SupersedesID := successorID\<rparr>))
        \<lparr>tr_ObservationID = memoryID, tr_From = m_Status m, tr_To = StatusSuperseded, tr_Actor = tm_Actor meta,
         tr_ActorKind = tm_ActorKind meta, tr_Timestamp = tm_Timestamp meta\<rparr>) (\<lambda>db.
     and_then (insertRelation db \<lparr>re_FromID = memoryID, re_ToID = successorID, re_Relation = RelationSupersedes,
         re_Actor = tm_Actor meta, re_Timestamp = tm_Timestamp meta\<rparr>) (\<lambda>db.
     and_then (emitMemoryReceipt cfg db memoryID MemorySuperseded
        ((memory_payload (m_Scope m) (tm_Actor meta) kernelPolicyVersion)\<lparr>py_FromEnvelopeHash := ComputeEnvelopeHash m,
           py_ToEnvelopeHash := ComputeEnvelopeHash superseded, py_SuccessorID := successorID\<rparr>) (tm_Timestamp meta)) (\<lambda>db.
     Inr (db, superseded)))))))))"

section \<open>Status transitions\<close>

definition ApplyStatusTransition :: "StoreConfig \<Rightarrow> MemoryDB \<Rightarrow> string \<Rightarrow> MemoryStatus \<Rightarrow> TransitionMeta \<Rightarrow> (MemoryDB \<times> AccountingMemory) result" where
  "ApplyStatusTransition cfg db memoryID to meta =
     and_then (ensure (IsValidMemoryStatus to) (PlainErr ''INVALID_TRANSITION'')) (\<lambda>_.
     and_then (beginWriteTx cfg) (\<lambda>_.
     and_then (from_option (PlainErr ''OBSERVATION_NOT_FOUND'') (readMemoryWithLinks db memoryID)) (\<lambda>m.
     let resulting = m\<lparr>m_Status := to\<rparr>;
         p = (memory_payload (m_Scope m) (tm_Actor meta) kernelPolicyVersion)
               \<lparr>py_ReviewedEnvelopeHash := ComputeEnvelopeHash m, py_ResultingEnvelopeHash := ComputeEnvelopeHash resulting\<rparr>
     in and_then (assertPeriodWritable (md_Purge db) (m_Scope m)) (\<lambda>_.
     and_then (insertTransition (updateObservation db memoryID
          (\<lambda>o'. o'\<lparr>ob_Status := to, ob_AuthorityStatus := legacyStatusFor to\<rparr>))
        \<lparr>tr_ObservationID = memoryID, tr_From = m_Status m, tr_To = to, tr_Actor = tm_Actor meta,
         tr_ActorKind = tm_ActorKind meta, tr_Timestamp = tm_Timestamp meta\<rparr>) (\<lambda>db.
     and_then (if to = StatusRejected then emitMemoryReceipt cfg db memoryID MemoryRejected p (tm_Timestamp meta)
               else if to = StatusVoided then emitMemoryReceipt cfg db memoryID MemoryVoided p (tm_Timestamp meta)
               else Inr db) (\<lambda>db.
     Inr (db, resulting)))))))"

section \<open>Links\<close>

fun link_action :: "LinkTable \<Rightarrow> bool" where
  "link_action EvidenceTable = True"
| "link_action RuleTable = False"

definition bare_link :: "string \<Rightarrow> string \<Rightarrow> string \<Rightarrow> string \<Rightarrow> LinkRow" where
  "bare_link memoryID ref act now =
     \<lparr>lk_MemoryID = memoryID, lk_Ref = ref, lk_Version = None, lk_EffectiveAt = None, lk_Actor = act, lk_Timestamp = now\<rparr>"

text \<open>The receipt of a new evidence row; a rule link has none.\<close>

definition link_receipt :: "StoreConfig \<Rightarrow> MemoryDB \<Rightarrow> LinkTable \<Rightarrow> bool \<Rightarrow> AccountingMemory \<Rightarrow> string \<Rightarrow> string \<Rightarrow> string \<Rightarrow> MemoryDB result" where
  "link_receipt cfg db t inserted m ref act now =
     (if link_action t \<and> inserted then
        and_then (from_option (PlainErr ''OBSERVATION_NOT_FOUND'') (readMemoryWithLinks db (m_ID m))) (\<lambda>linked.
        emitMemoryReceipt cfg db (m_ID m) EvidenceLinked
          ((memory_payload (m_Scope m) act kernelPolicyVersion)\<lparr>py_FromEnvelopeHash := ComputeEnvelopeHash m,
             py_ToEnvelopeHash := ComputeEnvelopeHash linked, py_EvidenceRef := ref\<rparr>) now)
      else Inr db)"

definition addLink :: "StoreConfig \<Rightarrow> MemoryDB \<Rightarrow> LinkTable \<Rightarrow> string \<Rightarrow> string \<Rightarrow> string \<Rightarrow> string \<Rightarrow> MemoryDB result" where
  "addLink cfg db t memoryID ref act now =
     and_then (ensure (\<not> blank ref) (PlainErr ''INVALID_REF'')) (\<lambda>_.
     and_then (from_option (PlainErr ''OBSERVATION_NOT_FOUND'') (readMemoryWithLinks db memoryID)) (\<lambda>m.
     and_then (assertPeriodWritable (md_Purge db) (m_Scope m)) (\<lambda>_.
     let (db, inserted) = insertLink t db (bare_link memoryID ref act now)
     in and_then (refreshEnvelopeCache db memoryID) (\<lambda>db. link_receipt cfg db t inserted m ref act now))))"

definition AddEvidenceLink :: "StoreConfig \<Rightarrow> MemoryDB \<Rightarrow> string \<Rightarrow> string \<Rightarrow> string \<Rightarrow> string \<Rightarrow> MemoryDB result" where
  "AddEvidenceLink cfg db memoryID ref act now = addLink cfg db EvidenceTable memoryID ref act now"

definition AddRuleLink :: "StoreConfig \<Rightarrow> MemoryDB \<Rightarrow> string \<Rightarrow> string \<Rightarrow> string \<Rightarrow> string \<Rightarrow> MemoryDB result" where
  "AddRuleLink cfg db memoryID ref act now = addLink cfg db RuleTable memoryID ref act now"

fun insertBareLinks :: "LinkTable \<Rightarrow> MemoryDB \<Rightarrow> string \<Rightarrow> string list \<Rightarrow> string \<Rightarrow> string \<Rightarrow> MemoryDB \<times> bool" where
  "insertBareLinks t db memoryID [] act now = (db, False)"
| "insertBareLinks t db memoryID (ref # refs) act now =
     (let (db, inserted) = insertLink t db (bare_link memoryID ref act now);
          (db, any) = insertBareLinks t db memoryID refs act now
      in (db, inserted \<or> any))"

text \<open>
  The fiscal link of a batch that inserted something: a conflict on the act-evidence index means the
  commitment is on record already and is skipped.
\<close>

definition bindLinked :: "MemoryDB \<Rightarrow> AccountingMemory \<Rightarrow> FiscalWriteIntent option \<Rightarrow> bool \<Rightarrow> string \<Rightarrow> string \<Rightarrow> MemoryDB result" where
  "bindLinked db m intent anyInserted linkID now =
     (case intent of None \<Rightarrow> Inr db
      | Some b \<Rightarrow>
          if \<not> anyInserted then Inr db
          else
            and_then (from_option (PlainErr ''OBSERVATION_NOT_FOUND'') (readMemoryWithLinks db (m_ID m))) (\<lambda>linked.
            let bindingHash = FiscalScopeHash b;
                act = ComputeActEvidenceHash bindingHash '''' no_ack no_ack;
                resulting = ComputeEnvelopeHash (extend_links (linked\<lparr>m_FiscalLinks := m_FiscalLinks m\<rparr>) bindingHash act)
            in and_then (storeFiscalScopeBindingTx db b now) (\<lambda>(db, hash).
               case insertFiscalLink db (memory_fiscal_link linkID (m_ID m) (int (length (m_FiscalLinks m)) + 1) hash act resulting now) of
                 Inr db \<Rightarrow> Inr db
               | Inl e \<Rightarrow> if e = StoreErr ''act_evidence_hash'' then Inr db else Inl e)))"

definition addLinksBound :: "StoreConfig \<Rightarrow> MemoryDB \<Rightarrow> LinkTable \<Rightarrow> string \<Rightarrow> string list \<Rightarrow> string \<Rightarrow> FiscalWriteIntent option \<Rightarrow> string \<Rightarrow> string \<Rightarrow> MemoryDB result" where
  "addLinksBound cfg db t memoryID refs act intent linkID now =
     and_then (ensure (\<not> list_ex blank refs) (PlainErr ''INVALID_REF'')) (\<lambda>_.
     and_then (from_option (PlainErr ''OBSERVATION_NOT_FOUND'') (readMemoryWithLinks db memoryID)) (\<lambda>m.
     and_then (fiscal_guard cfg m intent (if link_action t then ''evidence.link'' else ''rule.link'') act) (\<lambda>_.
     and_then (assertPeriodWritable (md_Purge db) (m_Scope m)) (\<lambda>_.
     let (db, anyInserted) = insertBareLinks t db memoryID refs act now
     in and_then (bindLinked db m intent anyInserted linkID now) (\<lambda>db.
        and_then (refreshEnvelopeCache db memoryID) (\<lambda>db. link_receipt cfg db t anyInserted m '''' act now))))))"

definition AddRuleLinkVersion :: "StoreConfig \<Rightarrow> MemoryDB \<Rightarrow> string \<Rightarrow> RuleLink \<Rightarrow> string \<Rightarrow> string \<Rightarrow> MemoryDB result" where
  "AddRuleLinkVersion cfg db memoryID link act now =
     and_then (AssertValidRuleLink link) (\<lambda>_.
     and_then (from_option (PlainErr ''OBSERVATION_NOT_FOUND'') (readMemoryWithLinks db memoryID)) (\<lambda>m.
     and_then (assertPeriodWritable (md_Purge db) (m_Scope m)) (\<lambda>_.
     and_then (ensure (rl_EffectiveAt link = m_EffectiveAt m) (PlainErr ''RULE_LINK_EFFECTIVE_AT_MISMATCH'')) (\<lambda>_.
     and_then (assertRuleLinkTarget db m link) (\<lambda>_.
     case find (\<lambda>l. lk_MemoryID l = memoryID \<and> lk_Ref l = rl_Ref link) (md_RuleLinks db) of
       Some l \<Rightarrow>
         if lk_Version l = Some (rl_Version link) \<and> lk_EffectiveAt l = Some (rl_EffectiveAt link) then Inr db
         else Inl (PlainErr ''RULE_LINK_VERSION_CONFLICT'')
     | None \<Rightarrow>
         let db = fst (insertLink RuleTable db (structured_link memoryID link act now))
         in if rl_Ref link \<in> set (m_RuleRefs m) then Inr db else refreshEnvelopeCache db memoryID)))))"

section \<open>Sync imports\<close>

definition CloneMemory :: "AccountingMemory \<Rightarrow> AccountingMemory" where
  "CloneMemory m = m\<lparr>m_CloseSnapshot := map_option CloneCloseSnapshot (m_CloseSnapshot m)\<rparr>"

definition ImportObservation :: "MemoryDB \<Rightarrow> AccountingMemory \<Rightarrow> (MemoryDB \<times> bool) result" where
  "ImportObservation db m =
     and_then (AssertValidMemory m) (\<lambda>_.
     and_then (ensure (m_ID m \<noteq> '''') (PlainErr ''INVALID_ID'')) (\<lambda>_.
     and_then (ensure (0 < m_Revision m) (PlainErr ''INVALID_REVISION'')) (\<lambda>_.
     case observationByID db (m_ID m) of
       Some o' \<Rightarrow>
         if ob_EnvelopeHash o' \<noteq> '''' then
           (if ob_EnvelopeHash o' = m_EnvelopeHash m then Inr (db, False) else Inl (PlainErr ''IMPORT_CONFLICT''))
         else if ob_ContentHash o' = m_ContentHash m then Inr (db, False)
         else Inl (PlainErr ''IMPORT_CONFLICT'')
     | None \<Rightarrow> and_then (insertObservation db (observation_row (CloneMemory m))) (\<lambda>db. Inr (db, True)))))"

definition ApplyImportedStatus :: "MemoryDB \<Rightarrow> string \<Rightarrow> MemoryStatus \<Rightarrow> (MemoryDB \<times> AccountingMemory) result" where
  "ApplyImportedStatus db memoryID to =
     and_then (ensure (IsValidMemoryStatus to) (PlainErr ''INVALID_TRANSITION'')) (\<lambda>_.
     let db = updateObservation db memoryID (\<lambda>o'. o'\<lparr>ob_Status := to, ob_AuthorityStatus := legacyStatusFor to\<rparr>)
     in and_then (from_option (PlainErr ''MEMORY_NOT_FOUND'') (FindByID db memoryID)) (\<lambda>m. Inr (db, m)))"

definition ImportTransition :: "MemoryDB \<Rightarrow> TransitionRow \<Rightarrow> (MemoryDB \<times> bool) result" where
  "ImportTransition db t =
     and_then (ensure (\<not> blank (tr_ObservationID t)) (PlainErr ''INVALID_TRANSITION'')) (\<lambda>_.
     and_then (ensure (IsValidMemoryStatus (tr_From t) \<and> IsValidMemoryStatus (tr_To t)) (PlainErr ''INVALID_TRANSITION'')) (\<lambda>_.
     and_then (ensure (IsLegalV2Transition (tr_From t) (tr_To t)) (PlainErr ''INVALID_TRANSITION'')) (\<lambda>_.
     if t \<in> set (md_Transitions db) then Inr (db, False)
     else and_then (insertTransition db t) (\<lambda>db. Inr (db, True)))))"

lemma buildMemory_simps [simp]:
  "m_ID (buildMemory i id' n s t) = id'" "m_TopicKey (buildMemory i id' n s t) = si_TopicKey i" "m_Scope (buildMemory i id' n s t) = si_Scope i"
  "m_Revision (buildMemory i id' n s t) = n" "m_Status (buildMemory i id' n s t) = s" "m_Kind (buildMemory i id' n s t) = si_Kind i"
  "m_FiscalEffect (buildMemory i id' n s t) = si_FiscalEffect i" "m_RecordedAt (buildMemory i id' n s t) = t"
  "m_Source (buildMemory i id' n s t) = si_Source i"
  by (simp_all add: buildMemory_def Let_def)

end
