(* ===== verification/Memory_Review.thy ===== *)
theory Memory_Review
  imports Memory_Save "HOL-Library.Product_Lexorder"
begin

text \<open>
  The authenticated decisions on memories: ApproveMemory and ReopenPeriod of
  internal/store/store.go, and the review workspace of internal/store/review_store.go (queue, detail,
  reject and return, velocity alerts). A principal is verified before the call; clock, window start
  and minted ids are arguments.
\<close>

section \<open>Strings\<close>

text \<open>\<^verbatim>\<open>strings.TrimSpace\<close>: the leading and trailing white space that \<open>blank\<close> recognises.\<close>

fun trim_left :: "string \<Rightarrow> string" where
  "trim_left [] = []"
| "trim_left [a] = (if ascii_space a then [] else [a])"
| "trim_left [a, b] =
     (if ascii_space a then trim_left [b] else if space2 (of_char a) (of_char b) then [] else [a, b])"
| "trim_left (a # b # c # s) =
     (if ascii_space a then trim_left (b # c # s)
      else if space2 (of_char a) (of_char b) then trim_left (c # s)
      else if space3 (of_char a) (of_char b) (of_char c) then trim_left s else a # b # c # s)"

text \<open>The argument is reversed.\<close>

fun trim_rev :: "string \<Rightarrow> string" where
  "trim_rev [] = []"
| "trim_rev [c] = (if ascii_space c then [] else [c])"
| "trim_rev [c, b] =
     (if ascii_space c then trim_rev [b] else if space2 (of_char b) (of_char c) then [] else [c, b])"
| "trim_rev (c # b # a # s) =
     (if ascii_space c then trim_rev (b # a # s)
      else if space2 (of_char b) (of_char c) then trim_rev (a # s)
      else if space3 (of_char a) (of_char b) (of_char c) then trim_rev s else c # b # a # s)"

definition TrimSpace :: "string \<Rightarrow> string" where
  "TrimSpace s = rev (trim_rev (rev (trim_left s)))"

text \<open>
  \<^verbatim>\<open>strings.EqualFold\<close> against a hexadecimal digest: no letter of a digest folds with a character
  outside ASCII. For the same reason the command hashes lower the ASCII letters only.
\<close>

definition EqualFold :: "string \<Rightarrow> string \<Rightarrow> bool" where
  "EqualFold s t \<longleftrightarrow> map ascii_lower s = map ascii_lower t"

section \<open>Commands\<close>

record ApproveMemoryCommand =
  mc_MemoryID :: string
  mc_ExpectedEnvelopeHash :: string
  mc_Reason :: string
  mc_RequestID :: string
  mc_ReviewChecks :: ReviewChecksV1
  mc_FiscalIntent :: "FiscalWriteIntent option"

definition approveCommandHash :: "string \<Rightarrow> string \<Rightarrow> string \<Rightarrow> string" where
  "approveCommandHash memoryID expectedEnvelopeHash reason =
     sha256_hex (memoryID @ NUL @ map ascii_lower expectedEnvelopeHash @ NUL @ reason)"

definition approveFiscalCommandHash :: "string \<Rightarrow> string \<Rightarrow> string \<Rightarrow> string \<Rightarrow> ReviewChecksV1 \<Rightarrow> string" where
  "approveFiscalCommandHash memoryID expectedEnvelopeHash reason bindingHash checks =
     sha256_hex (memoryID @ NUL @ map ascii_lower expectedEnvelopeHash @ NUL @ reason @ NUL @ bindingHash @ NUL
       @ AckState_str (AckState_of (rc_EvidenceInspected checks)) @ NUL @ AckState_str (AckState_of (rc_RuleInspected checks)))"

definition approve_command_hash :: "ApproveMemoryCommand \<Rightarrow> string" where
  "approve_command_hash cmd = (case mc_FiscalIntent cmd of
       None \<Rightarrow> approveCommandHash (mc_MemoryID cmd) (mc_ExpectedEnvelopeHash cmd) (mc_Reason cmd)
     | Some b \<Rightarrow> approveFiscalCommandHash (mc_MemoryID cmd) (mc_ExpectedEnvelopeHash cmd) (mc_Reason cmd)
                  (FiscalScopeHash b) (mc_ReviewChecks cmd))"

definition decisionCommandHash :: "string \<Rightarrow> string \<Rightarrow> string \<Rightarrow> string" where
  "decisionCommandHash memoryID expectedEnvelopeHash reason =
     sha256_hex (memoryID @ NUL @ map ascii_lower expectedEnvelopeHash @ NUL @ reason)"

definition principalHasCompanyScope :: "Principal \<Rightarrow> string \<Rightarrow> bool" where
  "principalHasCompanyScope who companyID = list_ex (\<lambda>c. c = companyID) (p_CompanyScopes who)"

text \<open>PolicyVersion of internal/authz/approval_policy.go.\<close>

definition PolicyVersion :: string where
  "PolicyVersion = ''approval-policy/v0.4.0''"

definition principal_payload :: "Scope \<Rightarrow> Principal \<Rightarrow> string \<Rightarrow> ReceiptPayload" where
  "principal_payload scope who policyVersion =
     (let s = PrincipalSnapshot_of who in
     (memory_payload scope (ps_SubjectID s) policyVersion)
       \<lparr>py_MembershipID := ps_MembershipID s, py_PrincipalRoles := ps_Roles s,
        py_AuthenticationMethod := AuthMethod_str (ps_Method s), py_AssuranceLevel := Assurance_str (ps_Assurance s),
        py_PrincipalAuthenticatedAt := ps_AuthenticatedAt s\<rparr>)"

section \<open>Decision ledgers\<close>

text \<open>The unique constraints and the foreign key of approval_events and memory_decision_events.\<close>

definition decision_conflict :: "DecisionEvent list \<Rightarrow> DecisionEvent \<Rightarrow> bool" where
  "decision_conflict es e \<longleftrightarrow>
     list_ex (\<lambda>x. de_ID x = de_ID e \<or> (de_TenantID x = de_TenantID e \<and> de_RequestID x = de_RequestID e)
       \<or> de_MemoryID x = de_MemoryID e) es"

definition insertApprovalEvent :: "MemoryDB \<Rightarrow> DecisionEvent \<Rightarrow> MemoryDB result" where
  "insertApprovalEvent db e =
     (if decision_conflict (md_Approvals db) e then Inl (StoreErr ''UNIQUE'')
      else if ps_MembershipID (de_Principal e) \<notin> set (md_Memberships db) then Inl (StoreErr ''FOREIGN KEY'')
      else Inr (db\<lparr>md_Approvals := md_Approvals db @ [e]\<rparr>))"

definition insertDecisionEvent :: "MemoryDB \<Rightarrow> DecisionEvent \<Rightarrow> MemoryDB result" where
  "insertDecisionEvent db e =
     (if decision_conflict (md_Decisions db) e then Inl (StoreErr ''UNIQUE'')
      else if ps_MembershipID (de_Principal e) \<notin> set (md_Memberships db) then Inl (StoreErr ''FOREIGN KEY'')
      else Inr (db\<lparr>md_Decisions := md_Decisions db @ [e]\<rparr>))"

definition decision_event :: "AccountingMemory \<Rightarrow> string \<Rightarrow> string \<Rightarrow> string \<Rightarrow> MemoryStatus \<Rightarrow> string \<Rightarrow> string \<Rightarrow> string
    \<Rightarrow> Principal \<Rightarrow> string \<Rightarrow> string \<Rightarrow> string \<Rightarrow> DecisionEvent" where
  "decision_event m eventID requestID action to h1 h2 reason who policyVersion reasonCode now =
     \<lparr>de_ID = eventID, de_RequestID = requestID, de_MemoryID = m_ID m, de_TenantID = sc_OrganizationID (m_Scope m),
      de_CompanyID = sc_CompanyID (m_Scope m), de_FiscalPeriodID = sc_Period (m_Scope m), de_Action = action,
      de_FromStatus = StatusPendingReview, de_ToStatus = to, de_ReviewedEnvelopeHash = h1, de_ResultingEnvelopeHash = h2,
      de_Reason = reason, de_Principal = PrincipalSnapshot_of who, de_PolicyVersion = policyVersion,
      de_AuthorizationReasonCode = reasonCode, de_CreatedAt = now\<rparr>"

text \<open>
  The guarded \<^verbatim>\<open>UPDATE observations ... WHERE id = ? AND status = 'pending_review'\<close>: exactly one row
  must match.
\<close>

definition decideObservation :: "MemoryDB \<Rightarrow> string \<Rightarrow> MemoryStatus \<Rightarrow> string \<Rightarrow> MemoryDB result" where
  "decideObservation db memoryID to h2 =
     (if length (filter (\<lambda>o'. ob_ID o' = memoryID \<and> ob_Status o' = StatusPendingReview) (md_Observations db)) \<noteq> 1
      then Inl (AuthErr ''INVALID_TRANSITION'')
      else Inr (db\<lparr>md_Observations := map (\<lambda>o'. if ob_ID o' = memoryID \<and> ob_Status o' = StatusPendingReview
        then o'\<lparr>ob_Status := to, ob_AuthorityStatus := legacyStatusFor to, ob_EnvelopeHash := h2\<rparr> else o') (md_Observations db)\<rparr>))"

definition decision_transition :: "string \<Rightarrow> MemoryStatus \<Rightarrow> Principal \<Rightarrow> string \<Rightarrow> TransitionRow" where
  "decision_transition memoryID to who now =
     \<lparr>tr_ObservationID = memoryID, tr_From = StatusPendingReview, tr_To = to, tr_Actor = p_SubjectID who,
      tr_ActorKind = ActorKindHuman, tr_Timestamp = now\<rparr>"

section \<open>Velocity alerts\<close>

definition ApprovalVelocityThreshold :: nat where
  "ApprovalVelocityThreshold = 30"

definition ConsecutiveDecisionThreshold :: nat where
  "ConsecutiveDecisionThreshold = 3"

text \<open>The newest decisions of a subject in one ledger: creation time, rowid and action.\<close>

definition newest_decisions :: "DecisionEvent list \<Rightarrow> string \<Rightarrow> ((string \<times> nat) \<times> string) list" where
  "newest_decisions es subjectID =
     take ConsecutiveDecisionThreshold (rev (sort_key fst
       (map (\<lambda>(i, e). ((de_CreatedAt e, Suc i), de_Action e))
         (filter (\<lambda>(i, e). ps_SubjectID (de_Principal e) = subjectID) (enumerate 0 es)))))"

text \<open>Both ledgers merged newest first (ties as the insertion sort of sort.Slice leaves them).\<close>

definition trailingRejectReturnStreak :: "MemoryDB \<Rightarrow> string \<Rightarrow> nat" where
  "trailingRejectReturnStreak db subjectID =
     min ConsecutiveDecisionThreshold (length (takeWhile (\<lambda>d. snd d \<noteq> ''approved'')
       (rev (sort_key fst (rev (newest_decisions (md_Approvals db) subjectID @ newest_decisions (md_Decisions db) subjectID))))))"

definition approvals_since :: "MemoryDB \<Rightarrow> string \<Rightarrow> string \<Rightarrow> nat" where
  "approvals_since db subjectID windowStart =
     length (filter (\<lambda>e. ps_SubjectID (de_Principal e) = subjectID \<and> de_Action e = ''approved'' \<and> windowStart \<le> de_CreatedAt e)
       (md_Approvals db))"

definition insertVelocityAlert :: "MemoryDB \<Rightarrow> ReviewVelocityAlert \<Rightarrow> MemoryDB result" where
  "insertVelocityAlert db a =
     (if list_ex (\<lambda>x. vl_ID x = vl_ID a) (md_Velocity db) then Inl (StoreErr ''UNIQUE'')
      else Inr (db\<lparr>md_Velocity := md_Velocity db @ [a]\<rparr>))"

definition maybeRecordReviewVelocityAlerts :: "MemoryDB \<Rightarrow> string \<Rightarrow> string \<Rightarrow> string \<Rightarrow> string \<Rightarrow> string \<Rightarrow> string \<Rightarrow> string \<Rightarrow> MemoryDB result" where
  "maybeRecordReviewVelocityAlerts db tenantID subjectID action now windowStart alertA alertB =
     (let approvals = approvals_since db subjectID windowStart;
          approvalsBefore = (if action = ''approved'' then approvals - 1 else approvals);
          streak = trailingRejectReturnStreak db subjectID
      in and_then (if approvals > ApprovalVelocityThreshold \<and> approvalsBefore \<le> ApprovalVelocityThreshold
           then insertVelocityAlert db \<lparr>vl_ID = alertA, vl_TenantID = tenantID, vl_PrincipalSubjectID = subjectID,
             vl_AlertType = ReviewVelocityAlertApproval, vl_WindowStartedAt = windowStart, vl_WindowEndedAt = now,
             vl_ObservedCount = int approvals, vl_ConsecutiveCount = 0, vl_RecordedAt = now\<rparr>
           else Inr db) (\<lambda>db.
         if action = ''approved'' then Inr db
         else if streak + 1 = ConsecutiveDecisionThreshold
         then insertVelocityAlert db \<lparr>vl_ID = alertB, vl_TenantID = tenantID, vl_PrincipalSubjectID = subjectID,
             vl_AlertType = ReviewVelocityAlertConsecutive, vl_WindowStartedAt = windowStart, vl_WindowEndedAt = now,
             vl_ObservedCount = 0, vl_ConsecutiveCount = int (streak + 1), vl_RecordedAt = now\<rparr>
         else Inr db))"

section \<open>Approval\<close>

text \<open>Steps 3 to 7b: the locked read, the scope and status gates, the fresh envelope and the policies.\<close>

definition approval_gates :: "StoreConfig \<Rightarrow> MemoryDB \<Rightarrow> ApproveMemoryCommand \<Rightarrow> Principal \<Rightarrow> AccountingMemory result" where
  "approval_gates cfg db cmd who =
     and_then (from_option (AuthErr ''MEMORY_NOT_FOUND'') (readMemoryWithLinks db (mc_MemoryID cmd))) (\<lambda>m.
     and_then (requireFiscalIntentForBoundSubject (m_FiscalLinks m) (mc_FiscalIntent cmd)) (\<lambda>_.
     and_then (verifyFiscalIntentAxes (mc_FiscalIntent cmd) (if IsCloseMemory m then ''close.approve'' else ''memory.approve'')
        (m_Scope m) (p_SubjectID who)) (\<lambda>_.
     and_then (ensure (sc_Kind (m_Scope m) = ScopeKindCompany) (AuthErr ''COMPANY_SCOPE_DENIED'')) (\<lambda>_.
     and_then (checkFiscalRuntimeGate (cf_Frozen cfg) (cf_Mode cfg) (m_FiscalLinks m \<noteq> [] \<or> mc_FiscalIntent cmd \<noteq> None)) (\<lambda>_.
     and_then (ensure (p_TenantID who = sc_OrganizationID (m_Scope m)) (AuthErr ''TENANT_SCOPE_MISMATCH'')) (\<lambda>_.
     and_then (ensure (principalHasCompanyScope who (sc_CompanyID (m_Scope m))) (AuthErr ''COMPANY_SCOPE_DENIED'')) (\<lambda>_.
     and_then (if m_Status m = StatusPendingReview then Inr ()
               else if m_Status m = StatusApproved \<or> m_Status m = StatusRejected then Inl (AuthErr ''ALREADY_DECIDED'')
               else Inl (AuthErr ''INVALID_TRANSITION'')) (\<lambda>_.
     and_then (ensure (EqualFold (TrimSpace (mc_ExpectedEnvelopeHash cmd)) (ComputeEnvelopeHash m)) (AuthErr ''ENVELOPE_MISMATCH'')) (\<lambda>_.
     and_then (case approval_Authorize who m of Some code \<Rightarrow> Inl (AuthErr code) | None \<Rightarrow> Inr ()) (\<lambda>_.
     and_then (ensure (\<not> SODViolation (src_ActorID (m_Source m)) (p_SubjectID who)) (AuthErr ''SOD_VIOLATION'')) (\<lambda>_.
     and_then (ValidateReviewChecksV1 (m_MaterialityLevel m) (mc_ReviewChecks cmd)) (\<lambda>_.
     Inr m))))))))))))"

definition nullableFiscalAck :: "ReviewAcknowledgement \<Rightarrow> bool option" where
  "nullableFiscalAck a = (if \<not> ra_Present a then None else Some (ra_Value a))"

text \<open>The binding of the approval act: the approved memory with its new link, before the link row is written.\<close>

definition approve_binding :: "MemoryDB \<Rightarrow> ApproveMemoryCommand \<Rightarrow> AccountingMemory \<Rightarrow> string \<Rightarrow> (MemoryDB \<times> AccountingMemory) result" where
  "approve_binding db cmd m now =
     (let approved = m\<lparr>m_Status := StatusApproved\<rparr> in
      case mc_FiscalIntent cmd of None \<Rightarrow> Inr (db, approved)
      | Some b \<Rightarrow>
          and_then (storeFiscalScopeBindingTx db b now) (\<lambda>(db, bindingHash).
          Inr (db, extend_links approved bindingHash (ComputeActEvidenceHash bindingHash (ComputeEnvelopeHash m)
            (rc_EvidenceInspected (mc_ReviewChecks cmd)) (rc_RuleInspected (mc_ReviewChecks cmd))))))"

definition approve_link :: "MemoryDB \<Rightarrow> ApproveMemoryCommand \<Rightarrow> AccountingMemory \<Rightarrow> AccountingMemory \<Rightarrow> string \<Rightarrow> string \<Rightarrow> MemoryDB result" where
  "approve_link db cmd m approved linkID now =
     (case mc_FiscalIntent cmd of None \<Rightarrow> Inr db
      | Some b \<Rightarrow>
          (let k = last (m_FiscalLinks approved) in
           insertFiscalLink db ((memory_fiscal_link linkID (m_ID m) (fl_Sequence k) (fl_BindingHash k) (fl_ActEvidenceHash k)
             (ComputeEnvelopeHash approved) now)\<lparr>fk_ReviewedEnvelopeHash := ComputeEnvelopeHash m,
               fk_EvidenceInspected := nullableFiscalAck (rc_EvidenceInspected (mc_ReviewChecks cmd)),
               fk_RulesInspected := nullableFiscalAck (rc_RuleInspected (mc_ReviewChecks cmd))\<rparr>)))"

definition closure_key :: "Scope \<Rightarrow> PeriodClosure \<Rightarrow> bool" where
  "closure_key scope c \<longleftrightarrow> pc_TenantID c = sc_OrganizationID scope \<and> pc_CompanyID c = sc_CompanyID scope
     \<and> pc_FiscalPeriodID c = sc_Period scope"

definition FindPeriodClosure :: "PurgeDB \<Rightarrow> Scope \<Rightarrow> PeriodClosure option" where
  "FindPeriodClosure p scope =
     (if sc_Kind scope \<noteq> ScopeKindCompany \<or> sc_Period scope = '''' then None else find (closure_key scope) (pd_Closures p))"

text \<open>Step 9b: approving a close memory closes its period; \<open>close_memory_id\<close> is unique.\<close>

definition project_closure :: "PurgeDB \<Rightarrow> AccountingMemory \<Rightarrow> string \<Rightarrow> string \<Rightarrow> PurgeDB result" where
  "project_closure p m eventID now =
     (if \<not> IsCloseMemory m then Inr p
      else let s = m_Scope m;
               row = \<lparr>pc_TenantID = sc_OrganizationID s, pc_CompanyID = sc_CompanyID s, pc_FiscalPeriodID = sc_Period s,
                      pc_CloseMemoryID = m_ID m, pc_Status = ''closed'', pc_CloseApprovalEventID = eventID, pc_ClosedAt = now,
                      pc_ReopenedAt = '''', pc_ReopenedBySubjectID = '''', pc_ReopenReason = ''''\<rparr>
      in case find (closure_key s) (pd_Closures p) of
           Some c \<Rightarrow>
             if pc_Status c = ''closed'' then Inl (AuthErr ''PERIOD_ALREADY_CLOSED'')
             else if list_ex (\<lambda>x. \<not> closure_key s x \<and> pc_CloseMemoryID x = m_ID m) (pd_Closures p) then Inl (StoreErr ''UNIQUE'')
             else Inr (p\<lparr>pd_Closures := map (\<lambda>x. if closure_key s x then row else x) (pd_Closures p)\<rparr>)
         | None \<Rightarrow>
             if list_ex (\<lambda>x. pc_CloseMemoryID x = m_ID m) (pd_Closures p) then Inl (StoreErr ''UNIQUE'')
             else Inr (p\<lparr>pd_Closures := pd_Closures p @ [row]\<rparr>))"

definition ReceiptPayloadVersionV05 :: string where
  "ReceiptPayloadVersionV05 = ''receipt-payload/v0.5.0''"

definition approve_receipts :: "StoreConfig \<Rightarrow> MemoryDB \<Rightarrow> ApproveMemoryCommand \<Rightarrow> AccountingMemory \<Rightarrow> string \<Rightarrow> Principal \<Rightarrow> string \<Rightarrow> MemoryDB result" where
  "approve_receipts cfg db cmd m h2 who now =
     (let p = (principal_payload (m_Scope m) who PolicyVersion)\<lparr>py_ReviewedEnvelopeHash := ComputeEnvelopeHash m,
            py_ResultingEnvelopeHash := h2, py_Reason := mc_Reason cmd\<rparr>
      in and_then (emitMemoryReceipt cfg db (m_ID m) MemoryApproved p now) (\<lambda>db.
         if IsCloseMemory m then emitMemoryReceipt cfg db (m_ID m) MemoryClosed (p\<lparr>py_Version := ReceiptPayloadVersionV05\<rparr>) now
         else Inr db))"

text \<open>
  Steps 8 to 9c. The minted ids in order: the approval event, the fiscal link, the two alerts.
\<close>

definition approve_writes :: "StoreConfig \<Rightarrow> MemoryDB \<Rightarrow> ApproveMemoryCommand \<Rightarrow> AccountingMemory \<Rightarrow> Principal \<Rightarrow> string \<Rightarrow> string \<Rightarrow> (nat \<Rightarrow> string)
    \<Rightarrow> (MemoryDB \<times> string) result" where
  "approve_writes cfg db cmd m who now windowStart ids =
     and_then (approve_binding db cmd m now) (\<lambda>(db, approved).
     let h1 = ComputeEnvelopeHash m; h2 = ComputeEnvelopeHash approved in
     and_then (ensure (h2 \<noteq> h1) (PlainErr ''persistence error'')) (\<lambda>_.
     and_then (decideObservation db (m_ID m) StatusApproved h2) (\<lambda>db.
     and_then (insertApprovalEvent db (decision_event m (ids 0) (mc_RequestID cmd) ''approved'' StatusApproved h1 h2
        (mc_Reason cmd) who PolicyVersion ''AUTHORIZED'' now)) (\<lambda>db.
     and_then (insertTransition db (decision_transition (m_ID m) StatusApproved who now)) (\<lambda>db.
     and_then (approve_link db cmd m approved (ids 1) now) (\<lambda>db.
     and_then (maybeRecordReviewVelocityAlerts db (sc_OrganizationID (m_Scope m)) (p_SubjectID who) ''approved'' now windowStart (ids 2) (ids 3)) (\<lambda>db.
     and_then (project_closure (md_Purge db) m (ids 0) now) (\<lambda>p.
     and_then (approve_receipts cfg (set_purge p db) cmd m h2 who now) (\<lambda>db.
     Inr (db, h2))))))))))"

definition approval_result :: "AccountingMemory \<Rightarrow> string \<Rightarrow> string \<Rightarrow> Principal \<Rightarrow> string \<Rightarrow> ApprovalResult" where
  "approval_result m eventID h2 who now =
     \<lparr>ap_MemoryID = m_ID m, ap_ApprovalEventID = eventID, ap_PreviousStatus = ''pending_review'', ap_CurrentStatus = ''approved'',
      ap_ReviewedEnvelopeHash = ComputeEnvelopeHash m, ap_ResultingEnvelopeHash = h2, ap_PrincipalSubjectID = p_SubjectID who,
      ap_MembershipID = p_MembershipID who, ap_PolicyVersion = PolicyVersion, ap_ApprovedAt = now, ap_IdempotentReplay = False\<rparr>"

definition complete_approval :: "MemoryDB \<Rightarrow> string \<Rightarrow> string \<Rightarrow> ApprovalResult \<Rightarrow> string \<Rightarrow> MemoryDB" where
  "complete_approval db tenant requestID v now =
     db\<lparr>md_ApprovalKeys := map (\<lambda>k. if ak_TenantID k = tenant \<and> ak_RequestID k = requestID
       then k\<lparr>ak_Result := Some v, ak_CompletedAt := Some now, ak_ApprovalEventID := Some (ap_ApprovalEventID v)\<rparr> else k)
       (md_ApprovalKeys db)\<rparr>"

definition approval_act :: "StoreConfig \<Rightarrow> MemoryDB \<Rightarrow> ApproveMemoryCommand \<Rightarrow> Principal \<Rightarrow> string \<Rightarrow> string \<Rightarrow> (nat \<Rightarrow> string)
    \<Rightarrow> (MemoryDB \<times> ApprovalResult) result" where
  "approval_act cfg db cmd who now windowStart ids =
     and_then (approval_gates cfg db cmd who) (\<lambda>m.
     and_then (approve_writes cfg db cmd m who now windowStart ids) (\<lambda>(db, h2).
     let v = approval_result m (ids 0) h2 who now
     in Inr (complete_approval db (p_TenantID who) (mc_RequestID cmd) v now, v)))"

definition reserve_approval :: "MemoryDB \<Rightarrow> ApproveMemoryCommand \<Rightarrow> Principal \<Rightarrow> string \<Rightarrow> MemoryDB" where
  "reserve_approval db cmd who now = db\<lparr>md_ApprovalKeys := md_ApprovalKeys db @
     [\<lparr>ak_TenantID = p_TenantID who, ak_RequestID = mc_RequestID cmd, ak_CommandHash = approve_command_hash cmd,
       ak_SubjectID = p_SubjectID who, ak_MembershipID = p_MembershipID who, ak_ApprovalEventID = None, ak_Result = None,
       ak_CreatedAt = now, ak_CompletedAt = None\<rparr>]\<rparr>"

definition ApproveMemory :: "StoreConfig \<Rightarrow> MemoryDB \<Rightarrow> ApproveMemoryCommand \<Rightarrow> Principal \<Rightarrow> string \<Rightarrow> string \<Rightarrow> (nat \<Rightarrow> string)
    \<Rightarrow> (MemoryDB \<times> ApprovalResult) result" where
  "ApproveMemory cfg db cmd who now windowStart ids =
     and_then (ensure (\<not> blank (mc_Reason cmd)) (AuthErr ''REASON_REQUIRED'')) (\<lambda>_.
     and_then (ensure (\<not> blank (mc_MemoryID cmd) \<and> \<not> blank (mc_ExpectedEnvelopeHash cmd) \<and> \<not> blank (mc_RequestID cmd))
       (AuthErr ''MEMORY_NOT_FOUND'')) (\<lambda>_.
     and_then (case mc_FiscalIntent cmd of None \<Rightarrow> Inr () | Some b \<Rightarrow> ValidateFiscalScopeBinding b) (\<lambda>_.
     case find (\<lambda>k. ak_TenantID k = p_TenantID who \<and> ak_RequestID k = mc_RequestID cmd) (md_ApprovalKeys db) of
       None \<Rightarrow> approval_act cfg (reserve_approval db cmd who now) cmd who now windowStart ids
     | Some k \<Rightarrow>
         if ak_CommandHash k \<noteq> approve_command_hash cmd \<or> ak_SubjectID k \<noteq> p_SubjectID who \<or> ak_MembershipID k \<noteq> p_MembershipID who
         then Inl (AuthErr ''IDEMPOTENCY_CONFLICT'')
         else if ak_CompletedAt k \<noteq> None then
           (case ak_Result k of None \<Rightarrow> Inl (PlainErr ''persistence error'')
            | Some v \<Rightarrow> Inr (db, v\<lparr>ap_IdempotentReplay := True\<rparr>))
         else approval_act cfg db cmd who now windowStart ids)))"

section \<open>Reopening a period\<close>

record ReopenPeriodCommand =
  oc_Scope :: Scope
  oc_ExpectedCloseMemoryID :: string
  oc_Reason :: string
  oc_RequestID :: string

record ReopenPeriodResult =
  ov_TenantID :: string
  ov_CompanyID :: string
  ov_FiscalPeriodID :: string
  ov_CloseMemoryID :: string
  ov_EventID :: string
  ov_Status :: string
  ov_ReopenedAt :: string
  ov_PrincipalSubjectID :: string
  ov_PolicyVersion :: string
  ov_IdempotentReplay :: bool

definition reopen_result :: "ReopenPeriodCommand \<Rightarrow> string \<Rightarrow> string \<Rightarrow> string \<Rightarrow> string \<Rightarrow> bool \<Rightarrow> ReopenPeriodResult" where
  "reopen_result cmd closeID eventID reopenedAt subject replay =
     \<lparr>ov_TenantID = sc_OrganizationID (oc_Scope cmd), ov_CompanyID = sc_CompanyID (oc_Scope cmd),
      ov_FiscalPeriodID = sc_Period (oc_Scope cmd), ov_CloseMemoryID = closeID, ov_EventID = eventID, ov_Status = ''reopened'',
      ov_ReopenedAt = reopenedAt, ov_PrincipalSubjectID = subject, ov_PolicyVersion = PolicyVersion, ov_IdempotentReplay = replay\<rparr>"

text \<open>The synthetic closing memory the policy decides on: only scope and effect are set.\<close>

definition closing_probe :: "Scope \<Rightarrow> AccountingMemory" where
  "closing_probe s =
     \<lparr>m_ID = '''', m_TopicKey = '''', m_Title = '''', m_Kind = KindOther '''',
      m_Scope = company_scope (sc_OrganizationID s) (sc_CompanyID s) (sc_RUC s) (sc_Period s),
      m_Content = \<lparr>co_What = '''', co_Why = '''', co_Where = '''', co_Learned = ''''\<rparr>, m_Status = StatusOther '''',
      m_FiscalEffect = FiscalEffectClosing, m_EffectiveAt = '''', m_RecordedAt = '''', m_ObservedAt = '''',
      m_Source = \<lparr>src_System = '''', src_Reference = '''', src_ActorID = '''', src_ActorKind = ActorKindOther '''', src_Model = '''', src_Session = ''''\<rparr>,
      m_Validity = None, m_EvidenceRefs = [], m_RuleRefs = [], m_Confidence = Fin 0, m_Materiality = None,
      m_MaterialityLevel = None, m_CloseSnapshot = None, m_PolicyRule = None, m_RuleLinks = [], m_ContentHash = '''',
      m_IdentityHash = '''', m_EnvelopeHash = '''', m_ReceiptID = '''', m_SupersedesID = '''', m_Revision = 0, m_FiscalLinks = []\<rparr>"

definition reopen_update :: "Scope \<Rightarrow> string \<Rightarrow> string \<Rightarrow> string \<Rightarrow> PeriodClosure \<Rightarrow> PeriodClosure" where
  "reopen_update s now subject reason c =
     (if closure_key s c \<and> pc_Status c = ''closed''
      then c\<lparr>pc_Status := ''reopened'', pc_ReopenedAt := now, pc_ReopenedBySubjectID := subject, pc_ReopenReason := reason\<rparr> else c)"

definition reopen_act :: "StoreConfig \<Rightarrow> MemoryDB \<Rightarrow> ReopenPeriodCommand \<Rightarrow> Principal \<Rightarrow> string \<Rightarrow> string \<Rightarrow> (MemoryDB \<times> ReopenPeriodResult) result" where
  "reopen_act cfg db cmd who now eventID =
     (let s = oc_Scope cmd; p = md_Purge db in
      and_then (from_option (AuthErr ''INVALID_TRANSITION'') (find (closure_key s) (pd_Closures p))) (\<lambda>c.
      and_then (ensure (pc_CloseMemoryID c = oc_ExpectedCloseMemoryID cmd) (AuthErr ''INVALID_TRANSITION'')) (\<lambda>_.
      and_then (ensure (pc_Status c = ''closed'') (AuthErr ''INVALID_TRANSITION'')) (\<lambda>_.
      and_then (case approval_Authorize who (closing_probe s) of Some code \<Rightarrow> Inl (AuthErr code) | None \<Rightarrow> Inr ()) (\<lambda>_.
      and_then (ensure (\<not> list_ex (\<lambda>e. ce_ID e = eventID) (md_ClosureEvents db)) (StoreErr ''UNIQUE'')) (\<lambda>_.
      let event = \<lparr>ce_ID = eventID, ce_TenantID = sc_OrganizationID s, ce_CompanyID = sc_CompanyID s, ce_FiscalPeriodID = sc_Period s,
            ce_Action = ''reopened'', ce_CloseMemoryID = oc_ExpectedCloseMemoryID cmd, ce_SubjectID = p_SubjectID who,
            ce_Reason = oc_Reason cmd, ce_RequestID = oc_RequestID cmd, ce_CreatedAt = now\<rparr>;
          db = set_purge (p\<lparr>pd_Closures := map (reopen_update s now (p_SubjectID who) (oc_Reason cmd)) (pd_Closures p)\<rparr>) db;
          db = db\<lparr>md_ClosureEvents := md_ClosureEvents db @ [event]\<rparr>
      in and_then (emitMemoryReceipt cfg db (oc_ExpectedCloseMemoryID cmd) MemoryReopened
           ((principal_payload s who PolicyVersion)\<lparr>py_Version := ReceiptPayloadVersionV05, py_Reason := oc_Reason cmd\<rparr>) now) (\<lambda>db.
         Inr (db, reopen_result cmd (oc_ExpectedCloseMemoryID cmd) eventID now (p_SubjectID who) False))))))))"

definition ReopenPeriod :: "StoreConfig \<Rightarrow> MemoryDB \<Rightarrow> ReopenPeriodCommand \<Rightarrow> Principal \<Rightarrow> string \<Rightarrow> string \<Rightarrow> (MemoryDB \<times> ReopenPeriodResult) result" where
  "ReopenPeriod cfg db cmd who now eventID =
     (let s = oc_Scope cmd in
      and_then (AssertValidScope s) (\<lambda>_.
      and_then (ensure (sc_Kind s = ScopeKindCompany \<and> sc_Period s \<noteq> '''') (AuthErr ''INVALID_TRANSITION'')) (\<lambda>_.
      and_then (ensure (\<not> blank (oc_ExpectedCloseMemoryID cmd)) (AuthErr ''MEMORY_NOT_FOUND'')) (\<lambda>_.
      and_then (ensure (\<not> blank (oc_Reason cmd)) (AuthErr ''REASON_REQUIRED'')) (\<lambda>_.
      and_then (ensure (\<not> blank (oc_RequestID cmd)) (AuthErr ''MEMORY_NOT_FOUND'')) (\<lambda>_.
      case find (\<lambda>e. ce_TenantID e = sc_OrganizationID s \<and> ce_RequestID e = oc_RequestID cmd) (md_ClosureEvents db) of
        Some e \<Rightarrow>
          if ce_CloseMemoryID e \<noteq> oc_ExpectedCloseMemoryID cmd \<or> ce_SubjectID e \<noteq> p_SubjectID who \<or> ce_Reason e \<noteq> oc_Reason cmd
          then Inl (AuthErr ''IDEMPOTENCY_CONFLICT'')
          else if ce_Action e \<noteq> ''reopened'' then Inl (AuthErr ''IDEMPOTENCY_CONFLICT'')
          else Inr (db, reopen_result cmd (ce_CloseMemoryID e) (ce_ID e) (ce_CreatedAt e) (ce_SubjectID e) True)
      | None \<Rightarrow> reopen_act cfg db cmd who now eventID))))))"

end
