(* ===== verification/Review_Workspace.thy ===== *)
theory Review_Workspace
  imports Memory_Review
begin

text \<open>
  The review workspace of internal/store/review_store.go and internal/server/review_service.go: the
  pending queue, the detail of one pending revision and the authenticated reject and return.
\<close>

section \<open>Reject and return\<close>

definition RejectReasonRequired :: "AccountingMemory \<Rightarrow> bool" where
  "RejectReasonRequired m \<longleftrightarrow>
     m_MaterialityLevel m = Some MaterialityMaterial \<or> m_MaterialityLevel m = Some MaterialityCritical
     \<or> m_FiscalEffect m = FiscalEffectClosing \<or> m_FiscalEffect m = FiscalEffectDeclaration
     \<or> m_FiscalEffect m = FiscalEffectSunatFiling"

text \<open>The fields of RejectMemoryCommand and ReturnMemoryCommand.\<close>

record ReviewDecisionCommand =
  dc_MemoryID :: string
  dc_ExpectedEnvelopeHash :: string
  dc_Reason :: string
  dc_RequestID :: string

record DecisionKind =
  dk_Action :: string
  dk_To :: MemoryStatus
  dk_ReasonCode :: string
  dk_ReceiptAction :: ReceiptAction

definition rejectDecision :: DecisionKind where
  "rejectDecision = \<lparr>dk_Action = ''rejected'', dk_To = StatusRejected, dk_ReasonCode = ''REJECTED'', dk_ReceiptAction = MemoryRejected\<rparr>"

definition returnDecision :: DecisionKind where
  "returnDecision = \<lparr>dk_Action = ''returned'', dk_To = StatusReturned, dk_ReasonCode = ''RETURNED'', dk_ReceiptAction = MemoryReturned\<rparr>"

definition ReceiptPayloadVersionV10 :: string where
  "ReceiptPayloadVersionV10 = ''receipt-payload/v0.10.0''"

text \<open>Steps 3 to 8: the locked read and every gate of the decision.\<close>

definition decide_gates :: "MemoryDB \<Rightarrow> ReviewDecisionCommand \<Rightarrow> Principal \<Rightarrow> DecisionKind \<Rightarrow> AccountingMemory result" where
  "decide_gates db cmd who kind =
     and_then (from_option (AuthErr ''MEMORY_NOT_FOUND'') (readMemoryWithLinks db (dc_MemoryID cmd))) (\<lambda>m.
     and_then (ensure (sc_Kind (m_Scope m) = ScopeKindCompany) (AuthErr ''COMPANY_SCOPE_DENIED'')) (\<lambda>_.
     and_then (ensure (p_TenantID who = sc_OrganizationID (m_Scope m)) (AuthErr ''TENANT_SCOPE_MISMATCH'')) (\<lambda>_.
     and_then (ensure (principalHasCompanyScope who (sc_CompanyID (m_Scope m))) (AuthErr ''COMPANY_SCOPE_DENIED'')) (\<lambda>_.
     and_then (case m_Status m of
         StatusPendingReview \<Rightarrow> Inr ()
       | StatusApproved \<Rightarrow> Inl (AuthErr ''ALREADY_DECIDED'')
       | StatusRejected \<Rightarrow> Inl (AuthErr ''ALREADY_DECIDED'')
       | StatusReturned \<Rightarrow> Inl (AuthErr ''ALREADY_DECIDED'')
       | _ \<Rightarrow> Inl (AuthErr ''INVALID_TRANSITION'')) (\<lambda>_.
     and_then (ensure (EqualFold (TrimSpace (dc_ExpectedEnvelopeHash cmd)) (ComputeEnvelopeHash m)) (AuthErr ''ENVELOPE_MISMATCH'')) (\<lambda>_.
     and_then (ensure (\<not> SODViolation (src_ActorID (m_Source m)) (p_SubjectID who)) (AuthErr ''SOD_VIOLATION'')) (\<lambda>_.
     and_then (ensure (\<not> ((dk_Action kind = ''returned'' \<or> RejectReasonRequired m) \<and> blank (dc_Reason cmd)))
        (AuthErr ''REASON_REQUIRED'')) (\<lambda>_.
     Inr m))))))))"

text \<open>Steps 9 to 12. The minted ids in order: the decision event and the two alerts.\<close>

definition decide_writes :: "StoreConfig \<Rightarrow> MemoryDB \<Rightarrow> ReviewDecisionCommand \<Rightarrow> AccountingMemory \<Rightarrow> Principal \<Rightarrow> DecisionKind \<Rightarrow> string \<Rightarrow> string
    \<Rightarrow> (nat \<Rightarrow> string) \<Rightarrow> MemoryDB result" where
  "decide_writes cfg db cmd m who kind now windowStart ids =
     (let h1 = ComputeEnvelopeHash m; h2 = ComputeEnvelopeHash (m\<lparr>m_Status := dk_To kind\<rparr>) in
      and_then (ensure (h2 \<noteq> h1) (PlainErr ''persistence error'')) (\<lambda>_.
      and_then (decideObservation db (m_ID m) (dk_To kind) h2) (\<lambda>db.
      and_then (insertDecisionEvent db (decision_event m (ids 0) (dc_RequestID cmd) (dk_Action kind) (dk_To kind) h1 h2
         (dc_Reason cmd) who kernelPolicyVersion (dk_ReasonCode kind) now)) (\<lambda>db.
      and_then (insertTransition db (decision_transition (m_ID m) (dk_To kind) who now)) (\<lambda>db.
      and_then (emitMemoryReceipt cfg db (m_ID m) (dk_ReceiptAction kind)
         ((principal_payload (m_Scope m) who kernelPolicyVersion)\<lparr>py_Version := ReceiptPayloadVersionV10,
            py_ReviewedEnvelopeHash := h1, py_ResultingEnvelopeHash := h2, py_Reason := dc_Reason cmd\<rparr>) now) (\<lambda>db.
      maybeRecordReviewVelocityAlerts db (sc_OrganizationID (m_Scope m)) (p_SubjectID who) (dk_Action kind) now windowStart (ids 1) (ids 2)))))))"

definition decision_result :: "AccountingMemory \<Rightarrow> ReviewDecisionCommand \<Rightarrow> DecisionKind \<Rightarrow> string \<Rightarrow> Principal \<Rightarrow> string \<Rightarrow> ReviewDecisionResult" where
  "decision_result m cmd kind eventID who now =
     \<lparr>dv_MemoryID = dc_MemoryID cmd, dv_DecisionEventID = eventID, dv_PreviousStatus = ''pending_review'',
      dv_CurrentStatus = MemoryStatus_str (dk_To kind), dv_ReviewedEnvelopeHash = ComputeEnvelopeHash m,
      dv_ResultingEnvelopeHash = ComputeEnvelopeHash (m\<lparr>m_Status := dk_To kind\<rparr>), dv_Reason = dc_Reason cmd,
      dv_PrincipalSubjectID = p_SubjectID who, dv_MembershipID = p_MembershipID who, dv_PolicyVersion = kernelPolicyVersion,
      dv_DecidedAt = now, dv_IdempotentReplay = False\<rparr>"

definition decidePendingMemory :: "StoreConfig \<Rightarrow> MemoryDB \<Rightarrow> ReviewDecisionCommand \<Rightarrow> Principal \<Rightarrow> DecisionKind \<Rightarrow> string \<Rightarrow> string
    \<Rightarrow> (nat \<Rightarrow> string) \<Rightarrow> (MemoryDB \<times> ReviewDecisionResult) result" where
  "decidePendingMemory cfg db cmd who kind now windowStart ids =
     (let commandHash = decisionCommandHash (dc_MemoryID cmd) (dc_ExpectedEnvelopeHash cmd) (dc_Reason cmd);
          actorBinding = p_SubjectID who @ NUL @ p_MembershipID who
      in and_then (ensure (\<not> blank (dc_MemoryID cmd) \<and> \<not> blank (dc_ExpectedEnvelopeHash cmd) \<and> \<not> blank (dc_RequestID cmd))
           (AuthErr ''MEMORY_NOT_FOUND'')) (\<lambda>_.
         and_then (replay_key (md_ReviewKeys db) (p_TenantID who) (dc_RequestID cmd) commandHash actorBinding) (\<lambda>replay.
         case replay of Some v \<Rightarrow> Inr (db, v\<lparr>dv_IdempotentReplay := True\<rparr>)
         | None \<Rightarrow>
             let keys = reserve_key (md_ReviewKeys db) (p_TenantID who) (dc_RequestID cmd) commandHash actorBinding now;
                 db = db\<lparr>md_ReviewKeys := keys\<rparr>
             in and_then (decide_gates db cmd who kind) (\<lambda>m.
                and_then (decide_writes cfg db cmd m who kind now windowStart ids) (\<lambda>db.
                let v = decision_result m cmd kind (ids 0) who now
                in Inr (db\<lparr>md_ReviewKeys := complete_key (md_ReviewKeys db) (p_TenantID who) (dc_RequestID cmd) (ids 0) v now\<rparr>, v))))))"

definition RejectMemory :: "StoreConfig \<Rightarrow> MemoryDB \<Rightarrow> ReviewDecisionCommand \<Rightarrow> Principal \<Rightarrow> string \<Rightarrow> string \<Rightarrow> (nat \<Rightarrow> string)
    \<Rightarrow> (MemoryDB \<times> ReviewDecisionResult) result" where
  "RejectMemory cfg db cmd who now windowStart ids = decidePendingMemory cfg db cmd who rejectDecision now windowStart ids"

definition ReturnMemory :: "StoreConfig \<Rightarrow> MemoryDB \<Rightarrow> ReviewDecisionCommand \<Rightarrow> Principal \<Rightarrow> string \<Rightarrow> string \<Rightarrow> (nat \<Rightarrow> string)
    \<Rightarrow> (MemoryDB \<times> ReviewDecisionResult) result" where
  "ReturnMemory cfg db cmd who now windowStart ids = decidePendingMemory cfg db cmd who returnDecision now windowStart ids"

text \<open>The service layer; a principal it receives has been verified, but may be the zero value.\<close>

definition zero_principal :: "Principal \<Rightarrow> bool" where
  "zero_principal who \<longleftrightarrow> blank (p_SubjectID who) \<and> AuthMethod_str (p_Method who) = ''''"

definition service_RejectMemory :: "StoreConfig \<Rightarrow> MemoryDB \<Rightarrow> ReviewDecisionCommand \<Rightarrow> Principal \<Rightarrow> string \<Rightarrow> string \<Rightarrow> (nat \<Rightarrow> string)
    \<Rightarrow> (MemoryDB \<times> ReviewDecisionResult) result" where
  "service_RejectMemory cfg db cmd who now windowStart ids =
     and_then (ensure (\<not> zero_principal who) (AuthErr ''PRINCIPAL_INVALID'')) (\<lambda>_.
     and_then (ensure (\<not> blank (dc_MemoryID cmd)) (AuthErr ''MEMORY_NOT_FOUND'')) (\<lambda>_.
     and_then (ensure (\<not> blank (dc_ExpectedEnvelopeHash cmd)) (AuthErr ''MEMORY_NOT_FOUND'')) (\<lambda>_.
     and_then (ensure (\<not> blank (dc_RequestID cmd)) (AuthErr ''MEMORY_NOT_FOUND'')) (\<lambda>_.
     RejectMemory cfg db cmd who now windowStart ids))))"

definition service_ReturnMemory :: "StoreConfig \<Rightarrow> MemoryDB \<Rightarrow> ReviewDecisionCommand \<Rightarrow> Principal \<Rightarrow> string \<Rightarrow> string \<Rightarrow> (nat \<Rightarrow> string)
    \<Rightarrow> (MemoryDB \<times> ReviewDecisionResult) result" where
  "service_ReturnMemory cfg db cmd who now windowStart ids =
     and_then (ensure (\<not> zero_principal who) (AuthErr ''PRINCIPAL_INVALID'')) (\<lambda>_.
     and_then (ensure (\<not> blank (dc_MemoryID cmd)) (AuthErr ''MEMORY_NOT_FOUND'')) (\<lambda>_.
     and_then (ensure (\<not> blank (dc_ExpectedEnvelopeHash cmd)) (AuthErr ''MEMORY_NOT_FOUND'')) (\<lambda>_.
     and_then (ensure (\<not> blank (dc_RequestID cmd)) (AuthErr ''MEMORY_NOT_FOUND'')) (\<lambda>_.
     and_then (ensure (\<not> blank (dc_Reason cmd)) (AuthErr ''REASON_REQUIRED'')) (\<lambda>_.
     ReturnMemory cfg db cmd who now windowStart ids)))))"

section \<open>The queue\<close>

definition DefaultReviewQueueLimit :: int where
  "DefaultReviewQueueLimit = 50"

definition MaxReviewQueueLimit :: int where
  "MaxReviewQueueLimit = 200"

record ReviewQueueQuery =
  qq_Scope :: Scope
  qq_Limit :: int
  qq_Offset :: int

record ReviewQueueItem =
  qi_MemoryID :: string
  qi_Kind :: MemoryKind
  qi_FiscalEffect :: FiscalEffect
  qi_MaterialityLevel :: "MaterialityLevel option"
  qi_MaterialityCents :: int
  qi_Status :: MemoryStatus
  qi_EnvelopeHash :: string
  qi_RecordedBy :: string
  qi_RecordedAt :: string
  qi_EvidenceRefCount :: nat
  qi_RuleRefCount :: nat
  qi_OpenJudgmentCount :: nat

record ReviewQueuePage =
  qp_Items :: "ReviewQueueItem list"
  qp_Limit :: int
  qp_Offset :: int

definition dedupe :: "string list \<Rightarrow> string list" where
  "dedupe refs = dedup (filter (\<lambda>r. r \<noteq> '''') refs)"

text \<open>The ORDER BY rank of a level column.\<close>

definition level_rank :: "MaterialityLevel option \<Rightarrow> int" where
  "level_rank l = (case l of Some MaterialityCritical \<Rightarrow> 3 | Some MaterialityMaterial \<Rightarrow> 2 | _ \<Rightarrow> 1)"

definition touches :: "AccountingJudgment \<Rightarrow> string \<Rightarrow> bool" where
  "touches j memoryID \<longleftrightarrow> j_Status j = JudgmentProposed \<and> (j_FromID j = memoryID \<or> j_ToID j = memoryID)"

definition queue_item :: "MemoryDB \<Rightarrow> Observation \<Rightarrow> ReviewQueueItem" where
  "queue_item db o' =
     \<lparr>qi_MemoryID = ob_ID o', qi_Kind = ob_Kind o', qi_FiscalEffect = ob_FiscalEffect o',
      qi_MaterialityLevel = (case ob_MaterialityLevel o' of Some (MaterialityOther []) \<Rightarrow> None | l \<Rightarrow> l),
      qi_MaterialityCents = (case ob_Materiality o' of None \<Rightarrow> 0 | Some c \<Rightarrow> c),
      qi_Status = ob_Status o', qi_EnvelopeHash = ob_EnvelopeHash o', qi_RecordedBy = ob_Actor o',
      qi_RecordedAt = ob_RecordedAt o',
      qi_EvidenceRefCount = length (dedupe (ob_EvidenceRefs o')) + length (linkRefs (md_EvidenceLinks db) (ob_ID o')),
      qi_RuleRefCount = length (dedupe (ob_RuleRefs o')) + length (linkRefs (md_RuleLinks db) (ob_ID o')),
      qi_OpenJudgmentCount = length (filter (\<lambda>j. touches j (ob_ID o')) (ad_Rows (md_Judgments db)))\<rparr>"

text \<open>The rows of the queue before LIMIT and OFFSET.\<close>

definition pending_rows :: "MemoryDB \<Rightarrow> Scope \<Rightarrow> Observation list" where
  "pending_rows db scope =
     sort_key (\<lambda>o'. (- level_rank (ob_MaterialityLevel o'), ob_RecordedAt o'))
       (filter (\<lambda>o'. ob_Status o' = StatusPendingReview \<and> ob_Scope o' = scope) (md_Observations db))"

definition ListReviewQueue :: "MemoryDB \<Rightarrow> ReviewQueueQuery \<Rightarrow> ReviewQueuePage result" where
  "ListReviewQueue db q =
     (let limit = (if qq_Limit q = 0 then DefaultReviewQueueLimit else qq_Limit q) in
      and_then (AssertValidScope (qq_Scope q)) (\<lambda>_.
      and_then (ensure (sc_Kind (qq_Scope q) = ScopeKindCompany) (AuthErr ''INVALID_TRANSITION'')) (\<lambda>_.
      and_then (ensure (\<not> (limit < 1 \<or> limit > MaxReviewQueueLimit)) (PlainErr ''INVALID_PAGINATION'')) (\<lambda>_.
      and_then (ensure (\<not> qq_Offset q < 0) (PlainErr ''INVALID_PAGINATION'')) (\<lambda>_.
      Inr \<lparr>qp_Items = map (queue_item db) (take (nat limit) (drop (nat (qq_Offset q)) (pending_rows db (qq_Scope q)))),
           qp_Limit = limit, qp_Offset = qq_Offset q\<rparr>)))))"

definition ReviewQueue :: "MemoryDB \<Rightarrow> ReviewQueueQuery \<Rightarrow> ReviewQueuePage result" where
  "ReviewQueue db q = and_then (AssertValidScope (qq_Scope q)) (\<lambda>_. ListReviewQueue db q)"

section \<open>The detail\<close>

record FieldChange =
  fc_Field :: string
  fc_Before :: string
  fc_After :: string

definition canonicalRefsString :: "string list \<Rightarrow> string" where
  "canonicalRefsString refs = join '','' (sort (dedupe refs))"

fun MaterialityLevel_str :: "MaterialityLevel \<Rightarrow> string" where
  "MaterialityLevel_str MaterialityNormal = ''normal''"
| "MaterialityLevel_str MaterialityMaterial = ''material''"
| "MaterialityLevel_str MaterialityCritical = ''critical''"
| "MaterialityLevel_str (MaterialityOther s) = s"

definition levelString :: "MaterialityLevel option \<Rightarrow> string" where
  "levelString l = (case l of None \<Rightarrow> '''' | Some x \<Rightarrow> MaterialityLevel_str x)"

definition centsString :: "int option \<Rightarrow> string" where
  "centsString c = (case c of None \<Rightarrow> '''' | Some n \<Rightarrow> dec_int n)"

definition add_change :: "string \<Rightarrow> string \<Rightarrow> string \<Rightarrow> FieldChange list" where
  "add_change field before after =
     (if before \<noteq> after then [\<lparr>fc_Field = field, fc_Before = before, fc_After = after\<rparr>] else [])"

definition contentDiff :: "AccountingMemory \<Rightarrow> AccountingMemory \<Rightarrow> FieldChange list" where
  "contentDiff prev head =
     add_change ''title'' (m_Title prev) (m_Title head)
     @ add_change ''kind'' (MemoryKind_str (m_Kind prev)) (MemoryKind_str (m_Kind head))
     @ add_change ''scope'' (ScopeKey (m_Scope prev)) (ScopeKey (m_Scope head))
     @ add_change ''fiscalEffect'' (FiscalEffect_str (m_FiscalEffect prev)) (FiscalEffect_str (m_FiscalEffect head))
     @ add_change ''effectiveAt'' (m_EffectiveAt prev) (m_EffectiveAt head)
     @ add_change ''content.what'' (co_What (m_Content prev)) (co_What (m_Content head))
     @ add_change ''content.why'' (co_Why (m_Content prev)) (co_Why (m_Content head))
     @ add_change ''content.where'' (co_Where (m_Content prev)) (co_Where (m_Content head))
     @ add_change ''content.learned'' (co_Learned (m_Content prev)) (co_Learned (m_Content head))
     @ add_change ''evidenceRefs'' (canonicalRefsString (m_EvidenceRefs prev)) (canonicalRefsString (m_EvidenceRefs head))
     @ add_change ''ruleRefs'' (canonicalRefsString (m_RuleRefs prev)) (canonicalRefsString (m_RuleRefs head))
     @ (if m_MaterialityLevel prev \<noteq> None \<or> m_MaterialityLevel head \<noteq> None
        then add_change ''materialityLevel'' (levelString (m_MaterialityLevel prev)) (levelString (m_MaterialityLevel head)) else [])
     @ (if m_Materiality prev \<noteq> None \<or> m_Materiality head \<noteq> None
        then add_change ''materialityCents'' (centsString (m_Materiality prev)) (centsString (m_Materiality head)) else [])"

text \<open>The newest older revision of the chain, restricted by the extra condition; no links are merged.\<close>

definition chainRevisionWhere :: "MemoryDB \<Rightarrow> AccountingMemory \<Rightarrow> (Observation \<Rightarrow> bool) \<Rightarrow> AccountingMemory option" where
  "chainRevisionWhere db m extra =
     (case sort_key (\<lambda>o'. - ob_Revision o') (filter (\<lambda>o'. ob_TopicKey o' = m_TopicKey m \<and> ob_Scope o' = m_Scope m
        \<and> ob_Revision o' < m_Revision m \<and> extra o') (md_Observations db)) of
        [] \<Rightarrow> None | o' # _ \<Rightarrow> Some (scanMemory o'))"

definition previousChainRevision :: "MemoryDB \<Rightarrow> AccountingMemory \<Rightarrow> AccountingMemory option" where
  "previousChainRevision db m = chainRevisionWhere db m (\<lambda>_. True)"

definition priorApprovedChainRevision :: "MemoryDB \<Rightarrow> AccountingMemory \<Rightarrow> AccountingMemory option" where
  "priorApprovedChainRevision db m = chainRevisionWhere db m (\<lambda>o'. ob_Status o' = StatusApproved)"

datatype EvidenceAvailability = EvidencePresent | EvidenceAbsent | EvidenceNotARef

record EvidenceRefState =
  es_Ref :: string
  es_Availability :: EvidenceAvailability
  es_ObjectID :: string
  es_SizeBytes :: int
  es_ContentType :: string

record RuleRefState =
  us_Ref :: string
  us_Resolved :: bool
  us_MemoryID :: string
  us_Status :: MemoryStatus
  us_EffectiveAt :: string
  us_ExpiresAt :: string

record OpenJudgmentRef =
  oj_JudgmentID :: string
  oj_Relation :: Relation
  oj_FromID :: string
  oj_ToID :: string
  oj_ProposerID :: string
  oj_ProposedAt :: string

record ReviewMetadata =
  rm_EnvelopeHashToSign :: string
  rm_RecordedBy :: string
  rm_RecordedAt :: string
  rm_ObservedAt :: string
  rm_FiscalEffect :: FiscalEffect
  rm_MaterialityLevel :: "MaterialityLevel option"
  rm_MaterialityCents :: int
  rm_PriorApprovedRevision :: string

record ReviewDetail =
  rd_Memory :: AccountingMemory
  rd_Diff :: "FieldChange list"
  rd_Evidence :: "EvidenceRefState list"
  rd_Rules :: "RuleRefState list"
  rd_OpenJudgments :: "OpenJudgmentRef list"
  rd_Metadata :: ReviewMetadata
  rd_BoundaryNotice :: string

text \<open>
  The refs sorted and deduplicated, looked up one after the other: the first object whose bytes do
  not verify stops the walk.
\<close>

fun objects_available :: "PurgeWorld \<Rightarrow> string list \<Rightarrow> EvidenceObject list result" where
  "objects_available w [] = Inr []"
| "objects_available w (ref # refs) =
     (case evidenceObjectByIDOn (w_DB w) ref of
        None \<Rightarrow> objects_available w refs
      | Some obj \<Rightarrow>
          and_then (VerifyObjectBytes w ref) (\<lambda>_.
          and_then (objects_available w refs) (\<lambda>objs. Inr (obj # objs))))"

definition ObjectAvailability :: "PurgeWorld \<Rightarrow> string list \<Rightarrow> EvidenceObject list result" where
  "ObjectAvailability w refs = objects_available w (sort (dedupe refs))"

definition evidence_state :: "EvidenceObject list \<Rightarrow> string \<Rightarrow> EvidenceRefState" where
  "evidence_state objs ref =
     (case find (\<lambda>x. eo_ObjectID x = ref) objs of
        Some x \<Rightarrow> \<lparr>es_Ref = ref, es_Availability = EvidencePresent, es_ObjectID = eo_ObjectID x, es_SizeBytes = eo_Size x,
                    es_ContentType = eo_ContentType x\<rparr>
      | None \<Rightarrow> \<lparr>es_Ref = ref, es_Availability = (if IsObjectID ref then EvidenceAbsent else EvidenceNotARef),
                 es_ObjectID = '''', es_SizeBytes = 0, es_ContentType = ''''\<rparr>)"

definition rule_state :: "MemoryDB \<Rightarrow> Scope \<Rightarrow> string \<Rightarrow> RuleRefState" where
  "rule_state db scope ref =
     (let none = \<lparr>us_Ref = ref, us_Resolved = False, us_MemoryID = '''', us_Status = StatusOther '''', us_EffectiveAt = '''', us_ExpiresAt = ''''\<rparr>
      in case FindByTopicKey db ref scope of
           None \<Rightarrow> none
         | Some rule \<Rightarrow>
             if m_Kind rule \<noteq> KindRule then none
             else \<lparr>us_Ref = ref, us_Resolved = True, us_MemoryID = m_ID rule, us_Status = m_Status rule,
                   us_EffectiveAt = validityEffectiveAt (m_Validity rule), us_ExpiresAt = validityExpiresAt (m_Validity rule)\<rparr>)"

definition openJudgmentsTouching :: "MemoryDB \<Rightarrow> AccountingMemory \<Rightarrow> OpenJudgmentRef list" where
  "openJudgmentsTouching db m =
     map (\<lambda>j. \<lparr>oj_JudgmentID = j_ID j, oj_Relation = j_Relation j, oj_FromID = j_FromID j, oj_ToID = j_ToID j,
           oj_ProposerID = src_ActorID (j_Proposer j), oj_ProposedAt = j_ProposedAt j\<rparr>)
       (sort_key j_ProposedAt (filter (\<lambda>j. touches j (m_ID m) \<and> j_TenantID j = sc_OrganizationID (m_Scope m)
          \<and> j_CompanyID j = sc_CompanyID (m_Scope m)) (ad_Rows (md_Judgments db))))"

definition review_metadata :: "MemoryDB \<Rightarrow> AccountingMemory \<Rightarrow> ReviewMetadata" where
  "review_metadata db m =
     \<lparr>rm_EnvelopeHashToSign = ComputeEnvelopeHash m, rm_RecordedBy = src_ActorID (m_Source m), rm_RecordedAt = m_RecordedAt m,
      rm_ObservedAt = m_ObservedAt m, rm_FiscalEffect = m_FiscalEffect m, rm_MaterialityLevel = m_MaterialityLevel m,
      rm_MaterialityCents = (case m_Materiality m of None \<Rightarrow> 0 | Some c \<Rightarrow> c),
      rm_PriorApprovedRevision = (case priorApprovedChainRevision db m of None \<Rightarrow> '''' | Some p \<Rightarrow> m_ID p)\<rparr>"

definition store_ReviewDetail :: "MemoryDB \<Rightarrow> disk \<Rightarrow> string \<Rightarrow> Scope \<Rightarrow> ReviewDetail result" where
  "store_ReviewDetail db files memoryID scope =
     and_then (ensure (\<not> blank memoryID) (AuthErr ''MEMORY_NOT_FOUND'')) (\<lambda>_.
     and_then (AssertValidScope scope) (\<lambda>_.
     and_then (from_option (AuthErr ''MEMORY_NOT_FOUND'') (readMemoryWithLinks db memoryID)) (\<lambda>m.
     and_then (ensure (ScopeEquals (m_Scope m) scope) (AuthErr ''MEMORY_NOT_FOUND'')) (\<lambda>_.
     and_then (ensure (m_Status m = StatusPendingReview) (AuthErr ''INVALID_TRANSITION'')) (\<lambda>_.
     and_then (case ObjectAvailability \<lparr>w_DB = md_Purge db, w_Disk = files\<rparr> (m_EvidenceRefs m) of Inl e \<Rightarrow> Inl (PlainErr ''persistence error'') | Inr objs \<Rightarrow> Inr objs) (\<lambda>objs.
     Inr \<lparr>rd_Memory = CloneMemory m,
          rd_Diff = (case previousChainRevision db m of None \<Rightarrow> [] | Some p \<Rightarrow> contentDiff p m),
          rd_Evidence = map (evidence_state objs) (m_EvidenceRefs m),
          rd_Rules = map (rule_state db (m_Scope m)) (m_RuleRefs m),
          rd_OpenJudgments = openJudgmentsTouching db m,
          rd_Metadata = review_metadata db m,
          rd_BoundaryNotice = ''signature integrity is not accounting correctness''\<rparr>))))))"

definition service_ReviewDetail :: "MemoryDB \<Rightarrow> disk \<Rightarrow> string \<Rightarrow> Scope \<Rightarrow> ReviewDetail result" where
  "service_ReviewDetail db files memoryID scope =
     and_then (ensure (\<not> blank memoryID) (AuthErr ''MEMORY_NOT_FOUND'')) (\<lambda>_.
     and_then (AssertValidScope scope) (\<lambda>_. store_ReviewDetail db files memoryID scope))"

end
