(* ===== verification/Memory_Ledger.thy ===== *)
theory Memory_Ledger
  imports Review_Workspace
begin

text \<open>
  What the memory store promises, as an abstract machine: revision chains, decisions and period
  closures. The handlers of Memory_Save, Memory_Review and Review_Workspace implement it
  (Memory_System).
\<close>

section \<open>The abstract machine\<close>

record MemoryRow =
  mr_ID :: string
  mr_Topic :: string
  mr_Scope :: Scope
  mr_Revision :: int
  mr_Status :: MemoryStatus
  mr_Actor :: string
  mr_Close :: bool

record MemoryLedger =
  ml_Rows :: "MemoryRow list"
  ml_Approvals :: "DecisionEvent list"
  ml_Decisions :: "DecisionEvent list"
  ml_Closures :: "PeriodClosure list"

definition live_status :: "MemoryStatus \<Rightarrow> bool" where
  "live_status s \<longleftrightarrow> s = StatusActive \<or> s = StatusPendingReview \<or> s = StatusApproved \<or> s = StatusReturned"

definition same_chain :: "MemoryRow \<Rightarrow> MemoryRow \<Rightarrow> bool" where
  "same_chain r x \<longleftrightarrow> mr_Topic x = mr_Topic r \<and> mr_Scope x = mr_Scope r"

definition closable :: "Scope \<Rightarrow> bool" where
  "closable scope \<longleftrightarrow> sc_Kind scope = ScopeKindCompany \<and> sc_Period scope \<noteq> ''''"

definition period_closed :: "PeriodClosure list \<Rightarrow> Scope \<Rightarrow> bool" where
  "period_closed cs scope \<longleftrightarrow> (\<exists>c \<in> set cs. closure_key scope c \<and> pc_Status c = ''closed'')"

definition closure_id :: "PeriodClosure \<Rightarrow> string \<times> string \<times> string" where
  "closure_id c = (pc_TenantID c, pc_CompanyID c, pc_FiscalPeriodID c)"

text \<open>The closure row written for an approved close memory, replacing a reopened one.\<close>

definition close_rows :: "PeriodClosure \<Rightarrow> PeriodClosure list \<Rightarrow> PeriodClosure list" where
  "close_rows row cs =
     (if closure_id row \<in> closure_id ` set cs then map (\<lambda>c. if closure_id c = closure_id row then row else c) cs else cs @ [row])"

definition closes :: "MemoryRow \<Rightarrow> DecisionEvent \<Rightarrow> PeriodClosure \<Rightarrow> bool" where
  "closes r e row \<longleftrightarrow> closure_key (mr_Scope r) row \<and> pc_CloseMemoryID row = mr_ID r \<and> pc_Status row = ''closed''
     \<and> pc_CloseApprovalEventID row = de_ID e"

definition decides :: "MemoryRow \<Rightarrow> DecisionEvent \<Rightarrow> bool" where
  "decides r e \<longleftrightarrow> de_MemoryID e = mr_ID r \<and> de_TenantID e = sc_OrganizationID (mr_Scope r)
     \<and> de_CompanyID e = sc_CompanyID (mr_Scope r) \<and> \<not> SODViolation (mr_Actor r) (ps_SubjectID (de_Principal e))"

definition retire :: "string \<Rightarrow> MemoryStatus \<Rightarrow> MemoryRow \<Rightarrow> MemoryRow" where
  "retire i s x = (if mr_ID x = i then x\<lparr>mr_Status := s\<rparr> else x)"

definition supersede_chain :: "MemoryRow \<Rightarrow> MemoryRow \<Rightarrow> MemoryRow" where
  "supersede_chain r x = (if same_chain r x \<and> live_status (mr_Status x) then x\<lparr>mr_Status := StatusSuperseded\<rparr> else x)"

text \<open>
  A step records a revision, retires a memory, decides a pending one (approving a close memory
  closes its period), reopens a period, or is invisible.
\<close>

inductive ledger_step :: "MemoryLedger \<Rightarrow> MemoryLedger \<Rightarrow> bool" where
  lg_quiet: "ledger_step l l"
| lg_record: "mr_ID r \<notin> mr_ID ` set (ml_Rows l) \<Longrightarrow> mr_Revision r = int (length (filter (same_chain r) (ml_Rows l))) + 1
    \<Longrightarrow> AssertValidScope (mr_Scope r) = Inr () \<Longrightarrow> mr_Status r = StatusActive \<or> mr_Status r = StatusPendingReview
    \<Longrightarrow> closable (mr_Scope r) \<longrightarrow> \<not> period_closed (ml_Closures l) (mr_Scope r)
    \<Longrightarrow> ledger_step l (l\<lparr>ml_Rows := map (supersede_chain r) (ml_Rows l) @ [r]\<rparr>)"
| lg_retire: "r \<in> set (ml_Rows l) \<Longrightarrow> \<not> live_status s
    \<Longrightarrow> closable (mr_Scope r) \<longrightarrow> \<not> period_closed (ml_Closures l) (mr_Scope r)
    \<Longrightarrow> ledger_step l (l\<lparr>ml_Rows := map (retire (mr_ID r) s) (ml_Rows l)\<rparr>)"
| lg_decline: "r \<in> set (ml_Rows l) \<Longrightarrow> mr_Status r = StatusPendingReview \<Longrightarrow> decides r e
    \<Longrightarrow> de_ToStatus e = StatusRejected \<or> de_ToStatus e = StatusReturned
    \<Longrightarrow> ledger_step l (l\<lparr>ml_Rows := map (retire (mr_ID r) (de_ToStatus e)) (ml_Rows l), ml_Decisions := ml_Decisions l @ [e]\<rparr>)"
| lg_approve: "r \<in> set (ml_Rows l) \<Longrightarrow> mr_Status r = StatusPendingReview \<Longrightarrow> decides r e
    \<Longrightarrow> de_ToStatus e = StatusApproved \<Longrightarrow> \<not> mr_Close r
    \<Longrightarrow> ledger_step l (l\<lparr>ml_Rows := map (retire (mr_ID r) StatusApproved) (ml_Rows l), ml_Approvals := ml_Approvals l @ [e]\<rparr>)"
| lg_close: "r \<in> set (ml_Rows l) \<Longrightarrow> mr_Status r = StatusPendingReview \<Longrightarrow> decides r e
    \<Longrightarrow> de_ToStatus e = StatusApproved \<Longrightarrow> mr_Close r \<Longrightarrow> closable (mr_Scope r)
    \<Longrightarrow> \<not> period_closed (ml_Closures l) (mr_Scope r) \<Longrightarrow> closes r e row
    \<Longrightarrow> ledger_step l (l\<lparr>ml_Rows := map (retire (mr_ID r) StatusApproved) (ml_Rows l), ml_Approvals := ml_Approvals l @ [e],
          ml_Closures := close_rows row (ml_Closures l)\<rparr>)"
| lg_reopen: "period_closed (ml_Closures l) scope
    \<Longrightarrow> ledger_step l (l\<lparr>ml_Closures := map (reopen_update scope now who reason) (ml_Closures l)\<rparr>)"

inductive_cases ledger_stepE: "ledger_step l l'"

lemmas ledger_step_cases = ledger_stepE [consumes 1, case_names lg_quiet lg_record lg_retire lg_decline lg_approve lg_close lg_reopen]

section \<open>The invariant\<close>

text \<open>The revisions of a chain are numbered in order and only its newest may be live.\<close>

definition revisions_ok :: "MemoryRow list \<Rightarrow> bool" where
  "revisions_ok c \<longleftrightarrow> map mr_Revision c = map int [1..<Suc (length c)] \<and> (\<forall>x \<in> set (butlast c). \<not> live_status (mr_Status x))"

definition chains_inv :: "MemoryLedger \<Rightarrow> bool" where
  "chains_inv l \<longleftrightarrow> distinct (map mr_ID (ml_Rows l)) \<and> (\<forall>t s. revisions_ok (filter (\<lambda>x. mr_Topic x = t \<and> mr_Scope x = s) (ml_Rows l)))
     \<and> (\<forall>r \<in> set (ml_Rows l). AssertValidScope (mr_Scope r) = Inr ())"

definition decided_ids :: "MemoryLedger \<Rightarrow> string list" where
  "decided_ids l = map de_MemoryID (ml_Approvals l @ ml_Decisions l)"

definition settled_ids :: "MemoryRow list \<Rightarrow> string set" where
  "settled_ids rows = mr_ID ` {r \<in> set rows. mr_Status r \<noteq> StatusPendingReview}"

definition decisions_inv :: "MemoryLedger \<Rightarrow> bool" where
  "decisions_inv l \<longleftrightarrow> distinct (decided_ids l)
     \<and> set (decided_ids l) \<subseteq> settled_ids (ml_Rows l)
     \<and> (\<forall>r \<in> set (ml_Rows l). mr_Status r = StatusApproved \<longrightarrow> (\<exists>e \<in> set (ml_Approvals l). decides r e))
     \<and> (\<forall>e \<in> set (ml_Approvals l). de_ToStatus e = StatusApproved)"

definition closures_inv :: "MemoryLedger \<Rightarrow> bool" where
  "closures_inv l \<longleftrightarrow> distinct (map closure_id (ml_Closures l))
     \<and> (\<forall>c \<in> set (ml_Closures l). pc_Status c = ''closed'' \<longrightarrow>
          (\<exists>r \<in> set (ml_Rows l). \<exists>e \<in> set (ml_Approvals l). mr_Status r = StatusApproved \<and> mr_Close r
             \<and> closable (mr_Scope r) \<and> closes r e c \<and> decides r e))"

definition ledger_inv :: "MemoryLedger \<Rightarrow> bool" where
  "ledger_inv l \<longleftrightarrow> chains_inv l \<and> decisions_inv l \<and> closures_inv l"

definition ledger_empty :: MemoryLedger where
  "ledger_empty = \<lparr>ml_Rows = [], ml_Approvals = [], ml_Decisions = [], ml_Closures = []\<rparr>"

lemma live_simps [simp]:
  "live_status StatusActive" "live_status StatusPendingReview" "live_status StatusApproved" "live_status StatusReturned"
  "\<not> live_status StatusSuperseded" "\<not> live_status StatusRejected" "\<not> live_status StatusVoided"
  by (simp_all add: live_status_def)

lemma retire_simps [simp]:
  "mr_ID (retire i s x) = mr_ID x" "mr_Topic (retire i s x) = mr_Topic x" "mr_Scope (retire i s x) = mr_Scope x"
  "mr_Revision (retire i s x) = mr_Revision x" "mr_Actor (retire i s x) = mr_Actor x" "mr_Close (retire i s x) = mr_Close x"
  "mr_Status (retire i s x) = (if mr_ID x = i then s else mr_Status x)"
  by (simp_all add: retire_def)

lemma supersede_chain_simps [simp]:
  "mr_ID (supersede_chain r x) = mr_ID x" "mr_Topic (supersede_chain r x) = mr_Topic x"
  "mr_Scope (supersede_chain r x) = mr_Scope x" "mr_Revision (supersede_chain r x) = mr_Revision x"
  "mr_Actor (supersede_chain r x) = mr_Actor x" "mr_Close (supersede_chain r x) = mr_Close x"
  "mr_Status (supersede_chain r x) = (if same_chain r x \<and> live_status (mr_Status x) then StatusSuperseded else mr_Status x)"
  by (simp_all add: supersede_chain_def)

lemma ledger_empty_inv: "ledger_inv ledger_empty"
  by (simp add: ledger_inv_def chains_inv_def revisions_ok_def decisions_inv_def decided_ids_def closures_inv_def ledger_empty_def)

lemma decides_retire [simp]: "decides (retire i s r) e = decides r e" "closes (retire i s r) e c = closes r e c"
  by (simp_all add: decides_def closes_def)

lemma decides_supersede [simp]: "decides (supersede_chain q r) e = decides r e" "closes (supersede_chain q r) e c = closes r e c"
  by (simp_all add: decides_def closes_def)


section \<open>Preservation\<close>

lemma filter_map_keep: "(\<And>x. P (f x) = P x) \<Longrightarrow> filter P (map f xs) = map f (filter P xs)"
  by (induction xs) simp_all

lemma distinct_key_eq: "distinct (map f xs) \<Longrightarrow> x \<in> set xs \<Longrightarrow> y \<in> set xs \<Longrightarrow> f x = f y \<Longrightarrow> x = y"
  by (auto simp: distinct_map dest: inj_onD)

lemma revisions_ok_map:
  assumes "revisions_ok c" and "\<And>x. mr_Revision (f x) = mr_Revision x"
    and "\<And>x. x \<in> set c \<Longrightarrow> \<not> live_status (mr_Status x) \<Longrightarrow> \<not> live_status (mr_Status (f x))"
  shows "revisions_ok (map f c)"
  using assms by (auto simp: revisions_ok_def comp_def map_butlast [symmetric] dest: in_set_butlastD)

lemma revisions_ok_snoc:
  assumes "revisions_ok c" and "mr_Revision r = int (length c) + 1"
  shows "revisions_ok (map (supersede_chain q) c @ [r]) \<longleftrightarrow> (\<forall>x \<in> set c. \<not> live_status (mr_Status (supersede_chain q x)))"
  using assms by (auto simp: revisions_ok_def comp_def butlast_append)

lemma chains_inv_map:
  assumes "chains_inv l" and "\<And>x. mr_ID (f x) = mr_ID x" and "\<And>x. mr_Topic (f x) = mr_Topic x"
    and "\<And>x. mr_Scope (f x) = mr_Scope x" and "\<And>x. mr_Revision (f x) = mr_Revision x"
    and "\<And>x. x \<in> set (ml_Rows l) \<Longrightarrow> \<not> live_status (mr_Status x) \<Longrightarrow> \<not> live_status (mr_Status (f x))"
    and "ml_Rows l' = map f (ml_Rows l)"
  shows "chains_inv l'"
proof -
  have "revisions_ok (filter (\<lambda>x. mr_Topic x = t \<and> mr_Scope x = s) (map f (ml_Rows l)))" for t s
    using assms(1,6) by (subst filter_map_keep) (auto simp: assms(3,4,5) chains_inv_def intro: revisions_ok_map)
  then show ?thesis using assms(1) by (auto simp: chains_inv_def assms(2,4,7) comp_def)
qed

lemma chains_inv_record:
  assumes "chains_inv l" and "mr_ID r \<notin> mr_ID ` set (ml_Rows l)"
    and "mr_Revision r = int (length (filter (same_chain r) (ml_Rows l))) + 1" and "AssertValidScope (mr_Scope r) = Inr ()"
  shows "chains_inv (l\<lparr>ml_Rows := map (supersede_chain r) (ml_Rows l) @ [r]\<rparr>)"
proof -
  have "revisions_ok (filter (\<lambda>x. mr_Topic x = t \<and> mr_Scope x = s) (map (supersede_chain r) (ml_Rows l) @ [r]))" (is "revisions_ok ?c") for t s
  proof (cases "mr_Topic r = t \<and> mr_Scope r = s")
    case True
    let ?old = "filter (same_chain r) (ml_Rows l)"
    have "?c = map (supersede_chain r) ?old @ [r]"
      using True by (simp add: filter_map_keep same_chain_def [abs_def])
    moreover have "revisions_ok ?old" using assms(1) by (simp add: chains_inv_def same_chain_def [abs_def])
    ultimately show ?thesis using revisions_ok_snoc [OF \<open>revisions_ok ?old\<close> assms(3)] by auto
  next
    case False
    have "?c = map (supersede_chain r) (filter (\<lambda>x. mr_Topic x = t \<and> mr_Scope x = s) (ml_Rows l))"
      using False by (auto simp: filter_map_keep)
    then show ?thesis using assms(1) by (auto simp: chains_inv_def intro!: revisions_ok_map)
  qed
  then show ?thesis using assms by (auto simp: chains_inv_def comp_def)
qed

lemma settled_ids_mono:
  assumes "\<And>x. mr_ID (f x) = mr_ID x"
    and "\<And>x. x \<in> set xs \<Longrightarrow> mr_Status x \<noteq> StatusPendingReview \<Longrightarrow> mr_Status (f x) \<noteq> StatusPendingReview"
  shows "settled_ids xs \<subseteq> settled_ids (map f xs @ new)"
proof
  fix i assume "i \<in> settled_ids xs"
  then obtain x where "x \<in> set xs" "mr_Status x \<noteq> StatusPendingReview" "i = mr_ID x" by (auto simp: settled_ids_def)
  then have "f x \<in> {r \<in> set (map f xs @ new). mr_Status r \<noteq> StatusPendingReview}" "i = mr_ID (f x)"
    using assms by auto
  then show "i \<in> settled_ids (map f xs @ new)" unfolding settled_ids_def by blast
qed

lemma decisions_inv_map:
  assumes "decisions_inv l" and "\<And>x. mr_ID (f x) = mr_ID x" and "\<And>x e. decides (f x) e = decides x e"
    and "\<And>x. x \<in> set (ml_Rows l) \<Longrightarrow> mr_Status (f x) = mr_Status x \<or> (mr_Status (f x) \<noteq> StatusApproved \<and> mr_Status (f x) \<noteq> StatusPendingReview)"
    and "ml_Rows l' = map f (ml_Rows l) @ new" and "\<And>x. x \<in> set new \<Longrightarrow> mr_Status x \<noteq> StatusApproved"
    and "ml_Approvals l' = ml_Approvals l" and "ml_Decisions l' = ml_Decisions l"
  shows "decisions_inv l'"
proof -
  have "settled_ids (ml_Rows l) \<subseteq> settled_ids (ml_Rows l')"
    unfolding assms(5) using assms(4) by (intro settled_ids_mono) (simp add: assms(2), metis)
  moreover have "decided_ids l' = decided_ids l" by (simp add: decided_ids_def assms(7,8))
  moreover have "\<exists>e \<in> set (ml_Approvals l'). decides r e" if "r \<in> set (ml_Rows l')" "mr_Status r = StatusApproved" for r
  proof -
    from that assms(6) obtain x where x: "x \<in> set (ml_Rows l)" "r = f x" by (auto simp: assms(5))
    with that assms(4) [of x] have "mr_Status x = StatusApproved" by auto
    then show ?thesis using assms(1) x by (auto simp: decisions_inv_def assms(3,7))
  qed
  ultimately show ?thesis using assms(1) by (simp add: decisions_inv_def assms(7)) blast
qed

lemma decisions_inv_decide:
  assumes inv: "decisions_inv l" and ids: "distinct (map mr_ID (ml_Rows l))" and r: "r \<in> set (ml_Rows l)" "mr_Status r = StatusPendingReview"
    and e: "decides r e" "de_ToStatus e = s" "s \<noteq> StatusPendingReview"
    and l': "ml_Rows l' = map (retire (mr_ID r) s) (ml_Rows l)"
      "(s \<noteq> StatusApproved \<and> ml_Approvals l' = ml_Approvals l \<and> ml_Decisions l' = ml_Decisions l @ [e])
        \<or> (s = StatusApproved \<and> ml_Approvals l' = ml_Approvals l @ [e] \<and> ml_Decisions l' = ml_Decisions l)"
  shows "decisions_inv l'"
proof -
  have "mr_ID r \<notin> settled_ids (ml_Rows l)"
    unfolding settled_ids_def using r distinct_key_eq [OF ids r(1)] by auto
  then have new: "mr_ID r \<notin> set (decided_ids l)"
    using inv unfolding decisions_inv_def by blast
  have ids': "set (decided_ids l') = insert (mr_ID r) (set (decided_ids l))"
    using l'(2) e(1) by (auto simp: decided_ids_def decides_def)
  have m: "de_MemoryID e = mr_ID r" using e(1) by (simp add: decides_def)
  have "distinct (decided_ids l)" using inv by (simp add: decisions_inv_def)
  then have "distinct (decided_ids l')"
    using l'(2) new by (elim disjE conjE) (simp_all add: decided_ids_def m)
  moreover have "settled_ids (ml_Rows l) \<subseteq> settled_ids (ml_Rows l')"
    using settled_ids_mono [where f = "retire (mr_ID r) s" and new = "[]" and xs = "ml_Rows l"] e(3) by (simp add: l'(1))
  moreover have "mr_ID (retire (mr_ID r) s r) \<in> settled_ids (ml_Rows l')"
    unfolding settled_ids_def using r(1) e(3) by (intro imageI) (simp add: l'(1))
  then have "mr_ID r \<in> settled_ids (ml_Rows l')" by simp
  moreover have "\<exists>e \<in> set (ml_Approvals l'). decides q e" if q: "q \<in> set (ml_Rows l')" "mr_Status q = StatusApproved" for q
  proof -
    from q obtain x where x: "x \<in> set (ml_Rows l)" "q = retire (mr_ID r) s x" by (auto simp: l'(1))
    show ?thesis
    proof (cases "mr_ID x = mr_ID r")
      case True
      then have "x = r" using distinct_key_eq [OF ids x(1) r(1)] by simp
      then show ?thesis using x q(2) e l'(2) by auto
    next
      case False
      then show ?thesis using inv x q(2) l'(2) by (auto simp: decisions_inv_def)
    qed
  qed
  moreover have "\<forall>e \<in> set (ml_Approvals l'). de_ToStatus e = StatusApproved"
    using inv l'(2) e by (auto simp: decisions_inv_def)
  ultimately show ?thesis using inv ids' by (simp add: decisions_inv_def) blast
qed

text \<open>A closed period's close memory stays approved as long as no step touches it.\<close>

lemma closures_inv_map:
  assumes "closures_inv l" and "ml_Rows l' = map f (ml_Rows l) @ new" and "ml_Closures l' = ml_Closures l"
    and "set (ml_Approvals l) \<subseteq> set (ml_Approvals l')"
    and "\<And>x. mr_Scope (f x) = mr_Scope x \<and> mr_Close (f x) = mr_Close x \<and> mr_ID (f x) = mr_ID x \<and> mr_Actor (f x) = mr_Actor x"
    and "\<And>x. x \<in> set (ml_Rows l) \<Longrightarrow> mr_Status x = StatusApproved \<Longrightarrow> closable (mr_Scope x)
       \<Longrightarrow> period_closed (ml_Closures l) (mr_Scope x) \<Longrightarrow> mr_Status (f x) = StatusApproved"
  shows "closures_inv l'"
proof -
  have "\<exists>r \<in> set (ml_Rows l'). \<exists>e \<in> set (ml_Approvals l'). mr_Status r = StatusApproved \<and> mr_Close r
      \<and> closable (mr_Scope r) \<and> closes r e c \<and> decides r e"
    if c: "c \<in> set (ml_Closures l)" "pc_Status c = ''closed''" for c
  proof -
    from assms(1) c obtain r e where r: "r \<in> set (ml_Rows l)" "e \<in> set (ml_Approvals l)" "mr_Status r = StatusApproved" "mr_Close r"
      "closable (mr_Scope r)" "closes r e c" "decides r e" unfolding closures_inv_def by blast
    moreover have "period_closed (ml_Closures l) (mr_Scope r)"
      using c r(6) by (auto simp: period_closed_def closes_def)
    ultimately have "mr_Status (f r) = StatusApproved" using assms(6) by blast
    moreover have "closes (f r) e c" "decides (f r) e" using r(6,7) assms(5) by (simp_all add: closes_def decides_def)
    moreover have "f r \<in> set (ml_Rows l')" using r(1) by (simp add: assms(2))
    ultimately show ?thesis using r assms(4,5) by (metis subsetD)
  qed
  then show ?thesis using assms(1) by (simp add: closures_inv_def assms(3))
qed

lemma close_rows_distinct: "distinct (map closure_id cs) \<Longrightarrow> distinct (map closure_id (close_rows row cs))"
  by (auto simp: close_rows_def comp_def if_distrib [of closure_id] intro: arg_cong cong: if_cong)

lemma close_rows_set: "set (close_rows row cs) \<subseteq> insert row (set cs)"
  by (auto simp: close_rows_def)

lemma closures_inv_close:
  assumes "closures_inv l1" and "r \<in> set (ml_Rows l1)" "mr_Status r = StatusApproved" "mr_Close r"
    "closable (mr_Scope r)" "e \<in> set (ml_Approvals l1)" "closes r e row" "decides r e"
    and "l' = l1\<lparr>ml_Closures := close_rows row (ml_Closures l1)\<rparr>"
  shows "closures_inv l'"
proof -
  have "\<exists>r \<in> set (ml_Rows l1). \<exists>e \<in> set (ml_Approvals l1). mr_Status r = StatusApproved \<and> mr_Close r
      \<and> closable (mr_Scope r) \<and> closes r e c \<and> decides r e"
    if c: "c \<in> set (close_rows row (ml_Closures l1))" "pc_Status c = ''closed''" for c
    using c close_rows_set [of row "ml_Closures l1"] assms(1-8) unfolding closures_inv_def by blast
  then show ?thesis using close_rows_distinct assms(1) by (simp add: closures_inv_def assms(9))
qed

lemma closures_inv_reopen:
  assumes "closures_inv l" and "ml_Closures l' = map f (ml_Closures l)" and "\<And>c. closure_id (f c) = closure_id c"
    and "\<And>c. pc_Status (f c) = ''closed'' \<Longrightarrow> f c = c" and "ml_Rows l' = ml_Rows l" and "ml_Approvals l' = ml_Approvals l"
  shows "closures_inv l'"
  using assms(1) unfolding closures_inv_def assms(2,5,6) by (auto simp: comp_def assms(3)) (use assms(4) in fastforce)

lemma ledger_step_inv:
  assumes "ledger_step l l'" and "ledger_inv l"
  shows "ledger_inv l'"
proof -
  have inv: "chains_inv l" "decisions_inv l" "closures_inv l" using assms(2) by (simp_all add: ledger_inv_def)
  then have ids: "distinct (map mr_ID (ml_Rows l))" by (simp add: chains_inv_def)
  note same = distinct_key_eq [OF ids]
  from assms(1) show ?thesis
  proof (cases rule: ledger_step_cases)
    case lg_quiet
    then show ?thesis using assms(2) by simp
  next
    case (lg_record r)
    have "chains_inv l'" using chains_inv_record [OF inv(1) lg_record(2-4)] lg_record(1) by simp
    moreover have "decisions_inv l'"
      using lg_record(5) by (intro decisions_inv_map [OF inv(2), where f = "supersede_chain r" and new = "[r]"]) (auto simp: lg_record(1))
    moreover have "closures_inv l'"
      using lg_record(6) by (intro closures_inv_map [OF inv(3), where f = "supersede_chain r" and new = "[r]"])
        (auto simp: lg_record(1) same_chain_def)
    ultimately show ?thesis by (simp add: ledger_inv_def)
  next
    case (lg_retire r s)
    have "chains_inv l'" using lg_retire(3) by (intro chains_inv_map [OF inv(1), where f = "retire (mr_ID r) s"]) (auto simp: lg_retire(1))
    moreover have "decisions_inv l'"
      using lg_retire(3) by (intro decisions_inv_map [OF inv(2), where f = "retire (mr_ID r) s" and new = "[]"]) (auto simp: lg_retire(1))
    moreover have "closures_inv l'"
      using lg_retire(2,4) same by (intro closures_inv_map [OF inv(3), where f = "retire (mr_ID r) s" and new = "[]"])
        (auto simp: lg_retire(1))
    ultimately show ?thesis by (simp add: ledger_inv_def)
  next
    case (lg_decline r e)
    have pend: "mr_Status x = StatusPendingReview" if "x \<in> set (ml_Rows l)" "mr_ID x = mr_ID r" for x
      using same [OF that(1) lg_decline(2) that(2)] lg_decline(3) by simp
    have "chains_inv l'" using lg_decline(2,3) pend
      by (intro chains_inv_map [OF inv(1), where f = "retire (mr_ID r) (de_ToStatus e)"]) (auto simp: lg_decline(1))
    moreover have "decisions_inv l'"
      using lg_decline by (intro decisions_inv_decide [OF inv(2) ids lg_decline(2,3,4) refl]) auto
    moreover have "closures_inv l'"
      using lg_decline(2,3) pend by (intro closures_inv_map [OF inv(3), where f = "retire (mr_ID r) (de_ToStatus e)" and new = "[]"])
        (auto simp: lg_decline(1))
    ultimately show ?thesis by (simp add: ledger_inv_def)
  next
    case (lg_approve r e)
    have pend: "mr_Status x = StatusPendingReview" if "x \<in> set (ml_Rows l)" "mr_ID x = mr_ID r" for x
      using same [OF that(1) lg_approve(2) that(2)] lg_approve(3) by simp
    have "chains_inv l'" using lg_approve(2,3) pend
      by (intro chains_inv_map [OF inv(1), where f = "retire (mr_ID r) StatusApproved"]) (auto simp: lg_approve(1))
    moreover have "decisions_inv l'"
      using lg_approve by (intro decisions_inv_decide [OF inv(2) ids lg_approve(2,3,4,5)]) auto
    moreover have "closures_inv l'"
      using lg_approve(2,3) pend by (intro closures_inv_map [OF inv(3), where f = "retire (mr_ID r) StatusApproved" and new = "[]"])
        (auto simp: lg_approve(1))
    ultimately show ?thesis by (simp add: ledger_inv_def)
  next
    case (lg_close r e row)
    have pend: "mr_Status x = StatusPendingReview" if "x \<in> set (ml_Rows l)" "mr_ID x = mr_ID r" for x
      using same [OF that(1) lg_close(2) that(2)] lg_close(3) by simp
    let ?l = "l\<lparr>ml_Rows := map (retire (mr_ID r) StatusApproved) (ml_Rows l), ml_Approvals := ml_Approvals l @ [e]\<rparr>"
    have "closures_inv ?l"
      using lg_close(2,3) pend by (intro closures_inv_map [OF inv(3), where f = "retire (mr_ID r) StatusApproved" and new = "[]"]) auto
    then have "closures_inv (?l\<lparr>ml_Closures := close_rows row (ml_Closures ?l)\<rparr>)"
      by (rule closures_inv_close [where r = "retire (mr_ID r) StatusApproved r" and e = e and row = row])
        (simp_all add: lg_close(2,4,6,7,9))
    then have "closures_inv l'" by (simp add: lg_close(1))
    moreover have "chains_inv l'" using lg_close(2,3) pend
      by (intro chains_inv_map [OF inv(1), where f = "retire (mr_ID r) StatusApproved"]) (auto simp: lg_close(1))
    moreover have "decisions_inv l'"
      using lg_close(1) by (intro decisions_inv_decide [OF inv(2) ids lg_close(2,3,4,5)]) auto
    ultimately show ?thesis by (simp add: ledger_inv_def)
  next
    case (lg_reopen scope now who reason)
    have "chains_inv l'" using inv(1) by (simp add: chains_inv_def lg_reopen(1))
    moreover have "decisions_inv l'" using inv(2) by (simp add: decisions_inv_def decided_ids_def lg_reopen(1))
    moreover have "closures_inv l'"
      by (rule closures_inv_reopen [OF inv(3), where f = "reopen_update scope now who reason"]) (auto simp: lg_reopen(1) closure_id_def reopen_update_def split: if_splits)
    ultimately show ?thesis by (simp add: ledger_inv_def)
  qed
qed

end
