(* ===== verification/Purge_Store.thy ===== *)
theory Purge_Store
  imports Purge_Db
begin

text \<open>
  The five pre-execution handlers of internal/store/purge_store.go. A handler maps the database
  to an error (the transaction is rolled back: nothing changes) or to the committed database and
  its result. The clock \<open>now\<close> and the fresh ids \<open>ids\<close> are arguments, and a handler reads
  \<open>ids\<close> at one fixed index per id it mints.
\<close>

section \<open>Results\<close>

record RequestPurgeResult =
  qr_Request :: EvidencePurgeRequest
  qr_Created :: bool
  qr_IdempotentReplay :: bool

record ApprovePurgeResult =
  av_Request :: EvidencePurgeRequest
  av_Approval :: EvidencePurgeApproval
  av_ApprovalOrder :: int
  av_IdempotentReplay :: bool

text \<open>RejectPurgeResult and WithdrawPurgeResult.\<close>

record ClosePurgeResult =
  xr_Request :: EvidencePurgeRequest
  xr_Approval :: EvidencePurgeApproval
  xr_IdempotentReplay :: bool

record CancelPurgeResult =
  cr_Request :: EvidencePurgeRequest
  cr_IdempotentReplay :: bool

text \<open>
  Encoding a result writes its properties; decoding reads the properties the target type has and
  leaves the rest at the zero value.
\<close>

definition or_zero :: "'a \<Rightarrow> 'a option \<Rightarrow> 'a" where
  "or_zero z m = (case m of None \<Rightarrow> z | Some x \<Rightarrow> x)"

definition empty_stored :: StoredResult where
  "empty_stored = \<lparr>sj_Flat = None, sj_Request = None, sj_Approval = None, sj_ApprovalOrder = None,
     sj_Execution = None, sj_IdempotentReplay = None, sj_Recovered = None\<rparr>"

definition stored_request :: "EvidencePurgeRequest \<Rightarrow> StoredResult" where
  "stored_request r = empty_stored\<lparr>sj_Flat := Some r\<rparr>"

definition stored_approve :: "ApprovePurgeResult \<Rightarrow> StoredResult" where
  "stored_approve v = empty_stored\<lparr>sj_Request := Some (av_Request v), sj_Approval := Some (av_Approval v),
     sj_ApprovalOrder := Some (av_ApprovalOrder v), sj_IdempotentReplay := Some (av_IdempotentReplay v)\<rparr>"

definition stored_close :: "ClosePurgeResult \<Rightarrow> StoredResult" where
  "stored_close v = empty_stored\<lparr>sj_Request := Some (xr_Request v), sj_Approval := Some (xr_Approval v),
     sj_IdempotentReplay := Some (xr_IdempotentReplay v)\<rparr>"

definition stored_cancel :: "CancelPurgeResult \<Rightarrow> StoredResult" where
  "stored_cancel v = empty_stored\<lparr>sj_Request := Some (cr_Request v), sj_IdempotentReplay := Some (cr_IdempotentReplay v)\<rparr>"

definition decode_request :: "StoredResult \<Rightarrow> EvidencePurgeRequest" where
  "decode_request j = or_zero zero_request (sj_Flat j)"

definition decode_approve :: "StoredResult \<Rightarrow> ApprovePurgeResult" where
  "decode_approve j = \<lparr>av_Request = or_zero zero_request (sj_Request j), av_Approval = or_zero zero_approval (sj_Approval j),
     av_ApprovalOrder = or_zero 0 (sj_ApprovalOrder j), av_IdempotentReplay = or_zero False (sj_IdempotentReplay j)\<rparr>"

definition decode_close :: "StoredResult \<Rightarrow> ClosePurgeResult" where
  "decode_close j = \<lparr>xr_Request = or_zero zero_request (sj_Request j), xr_Approval = or_zero zero_approval (sj_Approval j),
     xr_IdempotentReplay = or_zero False (sj_IdempotentReplay j)\<rparr>"

definition decode_cancel :: "StoredResult \<Rightarrow> CancelPurgeResult" where
  "decode_cancel j = \<lparr>cr_Request = or_zero zero_request (sj_Request j),
     cr_IdempotentReplay = or_zero False (sj_IdempotentReplay j)\<rparr>"

text \<open>
  The idempotent shape of every handler: a completed command replays its stored outcome and leaves
  the database alone, a fresh key runs the act.
\<close>

definition with_idempotency :: "PurgeDB \<Rightarrow> string \<Rightarrow> string \<Rightarrow> string \<Rightarrow> string \<Rightarrow> (StoredResult \<Rightarrow> 'r)
    \<Rightarrow> (PurgeDB \<times> 'r) result \<Rightarrow> (PurgeDB \<times> 'r) result" where
  "with_idempotency db tenantID key commandHash actor decode act =
     and_then (replayPurgeIdempotencyOn db tenantID key commandHash actor) (\<lambda>replay.
     case replay of Some stored \<Rightarrow> Inr (db, decode stored) | None \<Rightarrow> act)"

lemma with_idempotency_Inr:
  "with_idempotency db t k h a dec act = Inr x \<longleftrightarrow>
     (\<exists>stored. replayPurgeIdempotencyOn db t k h a = Inr (Some stored) \<and> x = (db, dec stored))
     \<or> (replayPurgeIdempotencyOn db t k h a = Inr None \<and> act = Inr x)"
  unfolding with_idempotency_def
  by (cases "replayPurgeIdempotencyOn db t k h a") (auto split: option.splits)

section \<open>Blockers\<close>

definition eligibility_gate :: "RetentionPolicy \<Rightarrow> string \<Rightarrow> RetentionEligibility result" where
  "eligibility_gate policy period = (case EvaluateRetentionEligibility policy period of
     Eligible \<Rightarrow> Inr Eligible
   | NotDue \<Rightarrow> Inl (AuthErr ''RETENTION_NOT_DUE'')
   | _ \<Rightarrow> Inl (AuthErr ''UNKNOWN_RETENTION_STATE''))"

text \<open>Active blocking holds, then the expected lifecycle hash.\<close>

definition snapshot_gate :: "PurgeDB \<Rightarrow> string \<Rightarrow> Scope \<Rightarrow> string list \<Rightarrow> string \<Rightarrow> (LifecycleSnapshot \<times> string) result" where
  "snapshot_gate db objectID scope kinds expected =
     and_then (currentPurgeSnapshotOn db objectID scope kinds) (\<lambda>(current, currentHash).
     if ls_BlockingHolds current \<noteq> [] then Inl (AuthErr ''HOLD_ACTIVE'')
     else if currentHash \<noteq> expected then Inl (AuthErr ''LIFECYCLE_VERSION_MISMATCH'')
     else Inr (current, currentHash))"

text \<open>
  Period gate, re-resolution against the bound policy, eligibility: the blockers approval and
  execution run on the stored request.
\<close>

definition bound_policy_gate :: "PurgeDB \<Rightarrow> EvidencePurgeRequest \<Rightarrow> Scope \<Rightarrow> (RetentionPolicy \<times> RetentionEligibility) result" where
  "bound_policy_gate db request scope =
     and_then (assertPeriodWritable db scope) (\<lambda>_.
     and_then (from_option (AuthErr ''UNKNOWN_RETENTION_STATE'') (retentionPolicyByIDOn db (pq_PolicyID request))) (\<lambda>bound.
     and_then (resolveRetentionPolicyOn db scope (rp_Jurisdiction bound) (rp_Legislation bound) (pq_Category request)) (\<lambda>m.
     and_then (from_option (AuthErr ''UNKNOWN_RETENTION_STATE'') m) (\<lambda>resolved.
     and_then (eligibility_gate resolved (sc_Period scope)) (\<lambda>eligibility.
     Inr (resolved, eligibility))))))"

section \<open>RequestPurge\<close>

definition request_gates :: "PurgeDB \<Rightarrow> RequestPurgeCommand \<Rightarrow> Scope \<Rightarrow> Principal
    \<Rightarrow> (RetentionPolicy \<times> RetentionEligibility \<times> LifecycleSnapshot \<times> string) result" where
  "request_gates db cmd scope who =
     and_then (assertPeriodWritable db scope) (\<lambda>_.
     and_then (resolveRetentionPolicyOn db scope (rc_Jurisdiction cmd) (rc_Legislation cmd) (rc_Category cmd)) (\<lambda>m.
     and_then (from_option (AuthErr ''UNKNOWN_RETENTION_STATE'') m) (\<lambda>policy.
     and_then (eligibility_gate policy (sc_Period scope)) (\<lambda>eligibility.
     and_then (snapshot_gate db (rc_ObjectID cmd) scope (rp_BlockingHoldKinds policy) (rc_ExpectedLifecycleHash cmd)) (\<lambda>(current, currentHash).
     and_then (ensure (ls_LifecycleState current = PurgeLifecycleStored) (AuthErr ''INVALID_TRANSITION'')) (\<lambda>_.
     and_then (authorizePurgeAct who scope ActionRequestPurge (rp_Category policy) (rp_DualApprovalRequired policy) '''' '''') (\<lambda>_.
     Inr (policy, eligibility, current, currentHash))))))))"

text \<open>The row of the object: a fresh one, or the refreshed row of a retracted pipeline.\<close>

definition request_row :: "PurgeDB \<Rightarrow> RequestPurgeCommand \<Rightarrow> Scope \<Rightarrow> Principal \<Rightarrow> RetentionPolicy \<Rightarrow> RetentionEligibility
    \<Rightarrow> string \<Rightarrow> string \<Rightarrow> (PurgeDB \<times> EvidencePurgeRequest) result" where
  "request_row db cmd scope who policy eligibility now newID =
     (case purgeRequestByObjectOn db (rc_ObjectID cmd) of
        Some existing \<Rightarrow>
          if pq_Status existing \<noteq> PurgeRequestStatusCancelled \<and> pq_Status existing \<noteq> PurgeRequestStatusWithdrawn
          then Inl (AuthErr ''INVALID_TRANSITION'')
          else let refresh = (\<lambda>r. r\<lparr>pq_Category := rp_Category policy, pq_PolicyID := rp_PolicyID policy,
                   pq_RetentionStateSnapshot := eligibility, pq_ReviewedLifecycleHash := rc_ExpectedLifecycleHash cmd,
                   pq_Status := PurgeRequestStatusRequested, pq_RequestedAt := now, pq_RequestedBy := p_SubjectID who,
                   pq_ApprovedAt := ''''\<rparr>)
               in and_then (updatePurgeRequest db (pq_RequestID existing) True refresh) (\<lambda>db'.
                  Inr (db', refresh existing))
      | None \<Rightarrow>
          let request = \<lparr>pq_RequestID = newID, pq_ObjectID = rc_ObjectID cmd, pq_TenantID = sc_OrganizationID scope,
                pq_CompanyID = sc_CompanyID scope, pq_RUC = sc_RUC scope, pq_Period = sc_Period scope,
                pq_Category = rp_Category policy, pq_PolicyID = rp_PolicyID policy,
                pq_RetentionStateSnapshot = eligibility, pq_ReviewedLifecycleHash = rc_ExpectedLifecycleHash cmd,
                pq_Status = PurgeRequestStatusRequested, pq_RequestedAt = now, pq_RequestedBy = p_SubjectID who,
                pq_ApprovedAt = '''', pq_ExecutionID = ''''\<rparr>
          in and_then (AssertValidPurgeRequest request) (\<lambda>_.
             and_then (insertPurgeRequestOn db request) (\<lambda>db'. Inr (db', request))))"

definition lifecycle_event :: "string \<Rightarrow> EvidencePurgeRequest \<Rightarrow> PurgeLifecycleEventAction \<Rightarrow> PurgeLifecycleState
    \<Rightarrow> PurgeLifecycleState \<Rightarrow> string \<Rightarrow> string \<Rightarrow> Principal \<Rightarrow> string \<Rightarrow> string \<Rightarrow> EvidenceLifecycleEvent" where
  "lifecycle_event eventID r action fromState toState h1 h2 who reason now =
     \<lparr>le_EventID = eventID, le_ObjectID = pq_ObjectID r, le_RequestID = pq_RequestID r, le_Action = action,
      le_FromState = fromState, le_ToState = toState, le_ReviewedHash = h1, le_ResultingHash = h2,
      le_PrincipalSnapshot = PrincipalSnapshot_of who, le_Reason = reason,
      le_PolicyVersion = LifecyclePolicyVersion, le_CreatedAt = now\<rparr>"

text \<open>The retention binding, recorded only when the object was not bound before.\<close>

definition request_binding :: "Signer option \<Rightarrow> PurgeDB \<Rightarrow> RequestPurgeCommand \<Rightarrow> Scope \<Rightarrow> Principal \<Rightarrow> RetentionPolicy
    \<Rightarrow> RetentionEligibility \<Rightarrow> LifecycleSnapshot \<Rightarrow> EvidencePurgeRequest \<Rightarrow> string \<Rightarrow> string \<Rightarrow> PurgeDB result" where
  "request_binding signer db cmd scope who policy eligibility current request now eventID =
     (if ls_PolicyID current \<noteq> '''' then Inr db
      else
        let i = rc_ObjectID cmd;
            h1 = ComputeLifecycleSnapshotHash (assembleSnapshot i scope PurgeLifecycleStored Unmanaged '''' '''' 0 [] '''' []);
            h2 = ComputeLifecycleSnapshotHash (assembleSnapshot i scope PurgeLifecycleStored eligibility
                   (rp_PolicyID policy) (rp_Category policy) (rp_Version policy) [] '''' [])
        in and_then (insertLifecycleEventOn db ((lifecycle_event eventID request PurgeEventRetentionBound
              PurgeLifecycleStored PurgeLifecycleStored h1 h2 who (rc_Reason cmd) now)\<lparr>le_ObjectID := i\<rparr>)) (\<lambda>db.
           and_then (emitObjectReceipt signer db i RetentionBound
              (purgeReceiptPayload scope i h1 h2 (rc_Reason cmd) '''' who) now) (\<lambda>(db, r). Inr db)))"

definition request_record :: "Signer option \<Rightarrow> PurgeDB \<Rightarrow> RequestPurgeCommand \<Rightarrow> Scope \<Rightarrow> Principal \<Rightarrow> RetentionPolicy
    \<Rightarrow> RetentionEligibility \<Rightarrow> LifecycleSnapshot \<Rightarrow> string \<Rightarrow> EvidencePurgeRequest \<Rightarrow> string \<Rightarrow> string \<Rightarrow> PurgeDB result" where
  "request_record signer db cmd scope who policy eligibility current currentHash request now eventID =
     (let i = rc_ObjectID cmd;
          resultingHash = ComputeLifecycleSnapshotHash (assembleSnapshot i scope PurgeLifecycleRequested eligibility
            (rp_PolicyID policy) (rp_Category policy) (rp_Version policy) (ls_BlockingHolds current) (pq_RequestID request) [])
      in and_then (insertLifecycleEventOn db ((lifecycle_event eventID request PurgeEventRequested
            PurgeLifecycleStored PurgeLifecycleRequested currentHash resultingHash who (rc_Reason cmd) now)\<lparr>le_ObjectID := i\<rparr>)) (\<lambda>db.
         and_then (emitObjectReceipt signer db i PurgeRequested
            (purgeReceiptPayload scope i currentHash resultingHash (rc_Reason cmd) '''' who) now) (\<lambda>(db, r).
         Inr (upsertRetentionStateOn db
           \<lparr>rt_ObjectID = i, rt_LifecycleState = PurgeLifecycleRequested, rt_RetentionState = eligibility,
            rt_PolicyID = rp_PolicyID policy, rt_Category = rp_Category policy,
            rt_HasActiveBlockingHold = (length (ls_BlockingHolds current) > 0), rt_CurrentHash = resultingHash,
            rt_UpdatedAt = now\<rparr>))))"

definition request_act :: "Signer option \<Rightarrow> PurgeDB \<Rightarrow> RequestPurgeCommand \<Rightarrow> Scope \<Rightarrow> Principal \<Rightarrow> string \<Rightarrow> (nat \<Rightarrow> string)
    \<Rightarrow> (PurgeDB \<times> RequestPurgeResult) result" where
  "request_act signer db cmd scope who now ids =
     and_then (reserveIdempotencyKey db (sc_OrganizationID scope) (rc_RequestID cmd)
        (purgeCommandHash (requestPurgeCommandShape cmd)) (p_SubjectID who) now) (\<lambda>db1.
     and_then (request_gates db1 cmd scope who) (\<lambda>(policy, eligibility, current, currentHash).
     and_then (request_row db1 cmd scope who policy eligibility now (ids 0)) (\<lambda>(db2, request).
     and_then (request_binding signer db2 cmd scope who policy eligibility current request now (ids 1)) (\<lambda>db3.
     and_then (request_record signer db3 cmd scope who policy eligibility current currentHash request now (ids 2)) (\<lambda>db4.
     Inr (completePurgeIdempotencyOn db4 (sc_OrganizationID scope) (rc_RequestID cmd) (pq_RequestID request)
            (stored_request request) now,
          \<lparr>qr_Request = request, qr_Created = True, qr_IdempotentReplay = False\<rparr>))))))"

definition RequestPurge :: "Signer option \<Rightarrow> PurgeDB \<Rightarrow> RequestPurgeCommand \<Rightarrow> Principal \<Rightarrow> string \<Rightarrow> (nat \<Rightarrow> string)
    \<Rightarrow> (PurgeDB \<times> RequestPurgeResult) result" where
  "RequestPurge signer db cmd who now ids =
     and_then (AssertValidRequestPurgeCommand cmd) (\<lambda>_.
     and_then (from_option (PlainErr ''OBJECT_NOT_FOUND'') (evidenceObjectByIDOn db (rc_ObjectID cmd))) (\<lambda>obj.
     let scope = company_scope (eo_TenantID obj) (eo_CompanyID obj) (eo_RUC obj) (eo_Period obj) in
     with_idempotency db (sc_OrganizationID scope) (rc_RequestID cmd) (purgeCommandHash (requestPurgeCommandShape cmd))
       (p_SubjectID who) (\<lambda>stored. \<lparr>qr_Request = decode_request stored, qr_Created = False, qr_IdempotentReplay = True\<rparr>)
       (request_act signer db cmd scope who now ids)))"

section \<open>ApprovePurge\<close>

text \<open>The order and the act derived from the decision ledger, with the subject of the first entry.\<close>

definition approval_position :: "PurgeDB \<Rightarrow> string list \<Rightarrow> (LifecycleAction \<times> int \<times> string) result" where
  "approval_position db approvalIDs =
     (case approvalIDs of
        [] \<Rightarrow> Inr (ActionApprovePurge, 1, '''')
      | [a] \<Rightarrow> and_then (from_option (StoreErr ''NO_ROWS'') (purgeApprovalByIDOn db a)) (\<lambda>first.
                Inr (ActionSecondApprove, 2, ps_SubjectID (pa_PrincipalSnapshot first)))
      | _ \<Rightarrow> Inl (AuthErr ''INVALID_TRANSITION''))"

definition approve_status_gate :: "PurgeRequestStatus \<Rightarrow> unit result" where
  "approve_status_gate s =
     (if s = PurgeRequestStatusRequested then Inr ()
      else if s = PurgeRequestStatusApproved then Inl (AuthErr ''ALREADY_DECIDED'')
      else Inl (AuthErr ''INVALID_TRANSITION''))"

definition approve_gates :: "PurgeDB \<Rightarrow> ApprovePurgeCommand \<Rightarrow> EvidencePurgeRequest \<Rightarrow> Scope \<Rightarrow> Principal
    \<Rightarrow> (RetentionPolicy \<times> RetentionEligibility \<times> LifecycleSnapshot \<times> string \<times> int) result" where
  "approve_gates db cmd request scope who =
     and_then (approve_status_gate (pq_Status request)) (\<lambda>_.
     and_then (bound_policy_gate db request scope) (\<lambda>(resolved, eligibility).
     and_then (snapshot_gate db (pq_ObjectID request) scope (rp_BlockingHoldKinds resolved) (ac_ExpectedLifecycleHash cmd)) (\<lambda>(current, currentHash).
     and_then (approval_position db (approvalIDsOn db (pq_RequestID request))) (\<lambda>(action, order, firstApprover).
     and_then (authorizePurgeAct who scope action (rp_Category resolved) (rp_DualApprovalRequired resolved)
                 (pq_RequestedBy request) firstApprover) (\<lambda>_.
     Inr (resolved, eligibility, current, currentHash, order))))))"

definition approve_record :: "Signer option \<Rightarrow> PurgeDB \<Rightarrow> ApprovePurgeCommand \<Rightarrow> EvidencePurgeRequest \<Rightarrow> Scope \<Rightarrow> Principal
    \<Rightarrow> RetentionPolicy \<Rightarrow> RetentionEligibility \<Rightarrow> LifecycleSnapshot \<Rightarrow> string \<Rightarrow> int \<Rightarrow> string \<Rightarrow> string \<Rightarrow> string
    \<Rightarrow> (PurgeDB \<times> EvidencePurgeRequest \<times> EvidencePurgeApproval) result" where
  "approve_record signer db cmd request scope who resolved eligibility current currentHash order now approvalID eventID =
     (let finished = (\<not> rp_DualApprovalRequired resolved \<or> order = 2);
          postLifecycle = (if finished then PurgeLifecycleApproved else PurgeLifecycleRequested);
          approvalIDs = approvalIDsOn db (pq_RequestID request) @ [approvalID];
          resultingHash = ComputeLifecycleSnapshotHash (assembleSnapshot (pq_ObjectID request) scope postLifecycle eligibility
            (rp_PolicyID resolved) (rp_Category resolved) (rp_Version resolved) (ls_BlockingHolds current)
            (pq_RequestID request) approvalIDs);
          approval = \<lparr>pa_ApprovalID = approvalID, pa_RequestID = pq_RequestID request, pa_ApprovalOrder = order,
            pa_Decision = PurgeApprovalDecisionApproved, pa_ReviewedHash = currentHash, pa_ResultingHash = resultingHash,
            pa_PrincipalSnapshot = PrincipalSnapshot_of who, pa_Reason = ac_Reason cmd,
            pa_PolicyVersion = LifecyclePolicyVersion, pa_CreatedAt = now\<rparr>;
          mark = (\<lambda>r. r\<lparr>pq_Status := PurgeRequestStatusApproved, pq_ApprovedAt := now\<rparr>)
      in and_then (insertPurgeApprovalOn db approval) (\<lambda>db.
         and_then (if finished then updatePurgeRequest db (pq_RequestID request) False mark else Inr db) (\<lambda>db.
         and_then (insertLifecycleEventOn db (lifecycle_event eventID request PurgeEventApproved PurgeLifecycleRequested
            postLifecycle currentHash resultingHash who (ac_Reason cmd) now)) (\<lambda>db.
         and_then (emitObjectReceipt signer db (pq_ObjectID request) PurgeApproved
            (purgeReceiptPayload scope (pq_ObjectID request) currentHash resultingHash (ac_Reason cmd) '''' who) now) (\<lambda>(db, r).
         Inr (upsertRetentionStateOn db
           \<lparr>rt_ObjectID = pq_ObjectID request, rt_LifecycleState = postLifecycle, rt_RetentionState = eligibility,
            rt_PolicyID = rp_PolicyID resolved, rt_Category = rp_Category resolved,
            rt_HasActiveBlockingHold = (length (ls_BlockingHolds current) > 0), rt_CurrentHash = resultingHash,
            rt_UpdatedAt = now\<rparr>,
           if finished then mark request else request, approval))))))"

definition approve_act :: "Signer option \<Rightarrow> PurgeDB \<Rightarrow> ApprovePurgeCommand \<Rightarrow> EvidencePurgeRequest \<Rightarrow> Principal \<Rightarrow> string
    \<Rightarrow> (nat \<Rightarrow> string) \<Rightarrow> (PurgeDB \<times> ApprovePurgeResult) result" where
  "approve_act signer db cmd request who now ids =
     (let scope = purgeRequestScope request in
     and_then (reserveIdempotencyKey db (pq_TenantID request) (ac_RequestIDKey cmd)
        (purgeCommandHash (approvePurgeCommandShape cmd)) (p_SubjectID who) now) (\<lambda>db1.
     and_then (approve_gates db1 cmd request scope who) (\<lambda>(resolved, eligibility, current, currentHash, order).
     and_then (approve_record signer db1 cmd request scope who resolved eligibility current currentHash order now
                 (ids 0) (ids 1)) (\<lambda>(db2, request', approval).
     let v = \<lparr>av_Request = request', av_Approval = approval, av_ApprovalOrder = order, av_IdempotentReplay = False\<rparr>
     in Inr (completePurgeIdempotencyOn db2 (pq_TenantID request) (ac_RequestIDKey cmd) (pq_RequestID request)
               (stored_approve v) now, v)))))"

definition ApprovePurge :: "Signer option \<Rightarrow> PurgeDB \<Rightarrow> ApprovePurgeCommand \<Rightarrow> Principal \<Rightarrow> string \<Rightarrow> (nat \<Rightarrow> string)
    \<Rightarrow> (PurgeDB \<times> ApprovePurgeResult) result" where
  "ApprovePurge signer db cmd who now ids =
     and_then (AssertValidApprovePurgeCommand cmd) (\<lambda>_.
     and_then (purgeRequestByIDOn db (ac_RequestID cmd)) (\<lambda>request.
     and_then (ensure (evidenceObjectByIDOn db (pq_ObjectID request) \<noteq> None) (PlainErr ''OBJECT_NOT_FOUND'')) (\<lambda>_.
     with_idempotency db (pq_TenantID request) (ac_RequestIDKey cmd) (purgeCommandHash (approvePurgeCommandShape cmd))
       (p_SubjectID who) (\<lambda>stored. (decode_approve stored)\<lparr>av_IdempotentReplay := True\<rparr>)
       (approve_act signer db cmd request who now ids))))"

section \<open>RejectPurge, CancelPurge, WithdrawPurge\<close>

text \<open>
  The shared body: reservation, authorization, state gate (\<open>Some code\<close> when decided), current
  snapshot, transition, guarded status flip, decision row, event with its receipt, projection.
\<close>

definition close_status :: "PurgeRequestStatus \<Rightarrow> PurgeLifecycleEventAction \<Rightarrow> PurgeRequestStatus" where
  "close_status s action =
     (if s = PurgeRequestStatusRequested
      then (if action = PurgeEventCancelled then PurgeRequestStatusCancelled else PurgeRequestStatusRejected)
      else if s = PurgeRequestStatusApproved then PurgeRequestStatusWithdrawn
      else s)"

definition close_flip :: "PurgeDB \<Rightarrow> EvidencePurgeRequest \<Rightarrow> PurgeLifecycleEventAction \<Rightarrow> (PurgeDB \<times> EvidencePurgeRequest) result" where
  "close_flip db request action =
     (let new = close_status (pq_Status request) action in
      if pq_Status request = PurgeRequestStatusRequested \<or> pq_Status request = PurgeRequestStatusApproved
      then and_then (updatePurgeRequest db (pq_RequestID request) False (\<lambda>r. r\<lparr>pq_Status := new\<rparr>)) (\<lambda>db'.
           Inr (db', request\<lparr>pq_Status := new\<rparr>))
      else Inr (db, request))"

type_synonym close_outcome =
  "PurgeLifecycleState \<times> string \<times> EvidencePurgeApproval option \<times> EvidenceLifecycleEvent \<times> ReceiptAction"

text \<open>Status flip, decision row, event with its receipt, projection.\<close>

definition close_record :: "Signer option \<Rightarrow> PurgeDB \<Rightarrow> EvidencePurgeRequest \<Rightarrow> Scope \<Rightarrow> string \<Rightarrow> Principal
    \<Rightarrow> LifecycleSnapshot \<Rightarrow> string \<Rightarrow> close_outcome \<Rightarrow> (PurgeDB \<times> EvidencePurgeRequest \<times> EvidencePurgeApproval option) result" where
  "close_record signer db request scope now who current currentHash =
     (\<lambda>(postState, resultingHash, decision, event, receiptAction).
     and_then (close_flip db request (le_Action event)) (\<lambda>(db, request').
     and_then (case decision of None \<Rightarrow> Inr db | Some d \<Rightarrow> insertPurgeApprovalOn db d) (\<lambda>db.
     and_then (insertLifecycleEventOn db event) (\<lambda>db.
     and_then (emitObjectReceipt signer db (pq_ObjectID request) receiptAction
        (purgeReceiptPayload scope (pq_ObjectID request) currentHash resultingHash (le_Reason event) '''' who) now) (\<lambda>(db, r).
     Inr (upsertRetentionStateOn db
        \<lparr>rt_ObjectID = pq_ObjectID request, rt_LifecycleState = postState, rt_RetentionState = ls_RetentionState current,
         rt_PolicyID = ls_PolicyID current, rt_Category = ls_Category current,
         rt_HasActiveBlockingHold = (length (ls_BlockingHolds current) > 0), rt_CurrentHash = resultingHash,
         rt_UpdatedAt = now\<rparr>, request', decision))))))"

definition closePurgeTransition :: "Signer option \<Rightarrow> PurgeDB \<Rightarrow> EvidencePurgeRequest \<Rightarrow> Scope \<Rightarrow> string \<Rightarrow> string \<Rightarrow> string
    \<Rightarrow> string \<Rightarrow> Principal \<Rightarrow> string list \<Rightarrow> unit result \<Rightarrow> (EvidencePurgeRequest \<Rightarrow> string option)
    \<Rightarrow> (EvidencePurgeRequest \<Rightarrow> LifecycleSnapshot \<Rightarrow> close_outcome)
    \<Rightarrow> (PurgeDB \<times> EvidencePurgeRequest \<times> EvidencePurgeApproval option) result" where
  "closePurgeTransition signer db request scope key commandHash actor now who blockingKinds authorize stateGate transition =
     and_then (reserveIdempotencyKey db (pq_TenantID request) key commandHash actor now) (\<lambda>db.
     and_then authorize (\<lambda>_.
     and_then (case stateGate request of Some code \<Rightarrow> Inl (AuthErr code) | None \<Rightarrow> Inr ()) (\<lambda>_.
     and_then (currentPurgeSnapshotOn db (pq_ObjectID request) scope blockingKinds) (\<lambda>(current, currentHash).
     close_record signer db request scope now who current currentHash (transition request current)))))"

definition nextDecisionOrder :: "string list \<Rightarrow> int" where
  "nextDecisionOrder approvalIDs = (if length approvalIDs = 0 then 1 else 2)"

text \<open>The resulting snapshot of a closing act: the current one in the state \<open>post\<close>.\<close>

definition close_hash :: "EvidencePurgeRequest \<Rightarrow> Scope \<Rightarrow> LifecycleSnapshot \<Rightarrow> PurgeLifecycleState \<Rightarrow> string list \<Rightarrow> string" where
  "close_hash r scope current post approvalIDs =
     ComputeLifecycleSnapshotHash (assembleSnapshot (pq_ObjectID r) scope post (ls_RetentionState current)
       (ls_PolicyID current) (ls_Category current) (ls_PolicyVersion current) (ls_BlockingHolds current)
       (pq_RequestID r) approvalIDs)"

definition decision_row :: "string \<Rightarrow> EvidencePurgeRequest \<Rightarrow> string list \<Rightarrow> PurgeApprovalDecision \<Rightarrow> string \<Rightarrow> string
    \<Rightarrow> Principal \<Rightarrow> string \<Rightarrow> string \<Rightarrow> EvidencePurgeApproval" where
  "decision_row approvalID r approvalIDs decision h1 h2 who reason now =
     \<lparr>pa_ApprovalID = approvalID, pa_RequestID = pq_RequestID r, pa_ApprovalOrder = nextDecisionOrder approvalIDs,
      pa_Decision = decision, pa_ReviewedHash = h1, pa_ResultingHash = h2,
      pa_PrincipalSnapshot = PrincipalSnapshot_of who, pa_Reason = reason,
      pa_PolicyVersion = LifecyclePolicyVersion, pa_CreatedAt = now\<rparr>"

definition reject_gate :: "EvidencePurgeRequest \<Rightarrow> string option" where
  "reject_gate r =
     (if pq_Status r \<noteq> PurgeRequestStatusRequested
      then (if pq_Status r = PurgeRequestStatusRejected then Some ''ALREADY_DECIDED'' else Some ''INVALID_TRANSITION'')
      else None)"

definition reject_transition :: "Scope \<Rightarrow> Principal \<Rightarrow> string list \<Rightarrow> string \<Rightarrow> string \<Rightarrow> (nat \<Rightarrow> string) 
    \<Rightarrow> EvidencePurgeRequest \<Rightarrow> LifecycleSnapshot \<Rightarrow> close_outcome" where
  "reject_transition scope who approvalIDs reason now ids r current =
     (let h1 = ComputeLifecycleSnapshotHash current; h2 = close_hash r scope current PurgeLifecycleRejected approvalIDs in
      (PurgeLifecycleRejected, h2,
       Some (decision_row (ids 0) r approvalIDs PurgeApprovalDecisionRejected h1 h2 who reason now),
       lifecycle_event (ids 1) r PurgeEventRejected PurgeLifecycleRequested PurgeLifecycleRejected h1 h2 who reason now,
       PurgeRejected))"

definition cancel_gate :: "EvidencePurgeRequest \<Rightarrow> string option" where
  "cancel_gate r =
     (if pq_Status r \<noteq> PurgeRequestStatusRequested
      then (if pq_Status r = PurgeRequestStatusCancelled then Some ''ALREADY_DECIDED'' else Some ''INVALID_TRANSITION'')
      else None)"

definition cancel_transition :: "Scope \<Rightarrow> Principal \<Rightarrow> string list \<Rightarrow> string \<Rightarrow> (nat \<Rightarrow> string) 
    \<Rightarrow> EvidencePurgeRequest \<Rightarrow> LifecycleSnapshot \<Rightarrow> close_outcome" where
  "cancel_transition scope who approvalIDs now ids r current =
     (let h1 = ComputeLifecycleSnapshotHash current; h2 = close_hash r scope current PurgeLifecycleStored approvalIDs in
      (PurgeLifecycleStored, h2, None,
       lifecycle_event (ids 1) r PurgeEventCancelled PurgeLifecycleRequested PurgeLifecycleStored h1 h2 who
         ''requester retraction'' now,
       PurgeCancelled))"

definition withdraw_gate :: "EvidencePurgeRequest \<Rightarrow> string option" where
  "withdraw_gate r =
     (if pq_Status r \<noteq> PurgeRequestStatusApproved
      then (if pq_Status r = PurgeRequestStatusWithdrawn then Some ''ALREADY_DECIDED'' else Some ''INVALID_TRANSITION'')
      else None)"

definition withdraw_transition :: "Scope \<Rightarrow> Principal \<Rightarrow> string list \<Rightarrow> string \<Rightarrow> string \<Rightarrow> (nat \<Rightarrow> string) 
    \<Rightarrow> EvidencePurgeRequest \<Rightarrow> LifecycleSnapshot \<Rightarrow> close_outcome" where
  "withdraw_transition scope who approvalIDs reason now ids r current =
     (let h1 = ComputeLifecycleSnapshotHash current; h2 = close_hash r scope current PurgeLifecycleStored approvalIDs in
      (PurgeLifecycleStored, h2,
       Some (decision_row (ids 0) r approvalIDs PurgeApprovalDecisionWithdrawn h1 h2 who reason now),
       lifecycle_event (ids 1) r PurgeEventWithdrawn PurgeLifecycleApproved PurgeLifecycleStored h1 h2 who reason now,
       PurgeWithdrawn))"

definition reject_act :: "Signer option \<Rightarrow> PurgeDB \<Rightarrow> ClosePurgeCommand \<Rightarrow> EvidencePurgeRequest \<Rightarrow> Principal \<Rightarrow> string
    \<Rightarrow> (nat \<Rightarrow> string) \<Rightarrow> (PurgeDB \<times> ClosePurgeResult) result" where
  "reject_act signer db cmd request who now ids =
     (let scope = purgeRequestScope request; approvalIDs = approvalIDsOn db (pq_RequestID request) in
     and_then (from_option (AuthErr ''UNKNOWN_RETENTION_STATE'') (retentionPolicyByIDOn db (pq_PolicyID request))) (\<lambda>policy.
     and_then (closePurgeTransition signer db request scope (xc_RequestIDKey cmd)
        (purgeCommandHash (rejectPurgeCommandShape cmd)) (p_SubjectID who) now who (rp_BlockingHoldKinds policy)
        (authorizePurgeAct who scope ActionRejectPurge (pq_Category request) False '''' '''')
        reject_gate (reject_transition scope who approvalIDs (xc_Reason cmd) now ids)) (\<lambda>(db', updated, decision).
     let v = \<lparr>xr_Request = updated, xr_Approval = or_zero zero_approval decision, xr_IdempotentReplay = False\<rparr>
     in Inr (completePurgeIdempotencyOn db' (pq_TenantID request) (xc_RequestIDKey cmd) (pq_RequestID request)
               (stored_close v) now, v))))"

definition RejectPurge :: "Signer option \<Rightarrow> PurgeDB \<Rightarrow> ClosePurgeCommand \<Rightarrow> Principal \<Rightarrow> string \<Rightarrow> (nat \<Rightarrow> string)
    \<Rightarrow> (PurgeDB \<times> ClosePurgeResult) result" where
  "RejectPurge signer db cmd who now ids =
     and_then (AssertValidRejectPurgeCommand cmd) (\<lambda>_.
     and_then (purgeRequestByIDOn db (xc_RequestID cmd)) (\<lambda>request.
     with_idempotency db (pq_TenantID request) (xc_RequestIDKey cmd) (purgeCommandHash (rejectPurgeCommandShape cmd))
       (p_SubjectID who) (\<lambda>stored. (decode_close stored)\<lparr>xr_IdempotentReplay := True\<rparr>)
       (reject_act signer db cmd request who now ids)))"

definition cancel_act :: "Signer option \<Rightarrow> PurgeDB \<Rightarrow> CancelPurgeCommand \<Rightarrow> EvidencePurgeRequest \<Rightarrow> Principal \<Rightarrow> string
    \<Rightarrow> (nat \<Rightarrow> string) \<Rightarrow> (PurgeDB \<times> CancelPurgeResult) result" where
  "cancel_act signer db cmd request who now ids =
     (let scope = purgeRequestScope request; approvalIDs = approvalIDsOn db (pq_RequestID request) in
     and_then (from_option (AuthErr ''UNKNOWN_RETENTION_STATE'') (retentionPolicyByIDOn db (pq_PolicyID request))) (\<lambda>policy.
     and_then (closePurgeTransition signer db request scope (cn_RequestIDKey cmd)
        (purgeCommandHash (cancelPurgeCommandShape cmd)) (p_SubjectID who) now who (rp_BlockingHoldKinds policy)
        (and_then (authorizePurgeAct who scope ActionRequestPurge (pq_Category request) False '''' '''') (\<lambda>_.
         ensure (p_SubjectID who = pq_RequestedBy request) (AuthErr ''ROLE_NOT_AUTHORIZED'')))
        cancel_gate (cancel_transition scope who approvalIDs now ids)) (\<lambda>(db', updated, decision).
     let v = \<lparr>cr_Request = updated, cr_IdempotentReplay = False\<rparr>
     in Inr (completePurgeIdempotencyOn db' (pq_TenantID request) (cn_RequestIDKey cmd) (pq_RequestID request)
               (stored_cancel v) now, v))))"

definition CancelPurge :: "Signer option \<Rightarrow> PurgeDB \<Rightarrow> CancelPurgeCommand \<Rightarrow> Principal \<Rightarrow> string \<Rightarrow> (nat \<Rightarrow> string)
    \<Rightarrow> (PurgeDB \<times> CancelPurgeResult) result" where
  "CancelPurge signer db cmd who now ids =
     and_then (AssertValidCancelPurgeCommand cmd) (\<lambda>_.
     and_then (purgeRequestByIDOn db (cn_RequestID cmd)) (\<lambda>request.
     with_idempotency db (pq_TenantID request) (cn_RequestIDKey cmd) (purgeCommandHash (cancelPurgeCommandShape cmd))
       (p_SubjectID who) (\<lambda>stored. (decode_cancel stored)\<lparr>cr_IdempotentReplay := True\<rparr>)
       (cancel_act signer db cmd request who now ids)))"

definition withdraw_act :: "Signer option \<Rightarrow> PurgeDB \<Rightarrow> ClosePurgeCommand \<Rightarrow> EvidencePurgeRequest \<Rightarrow> Principal \<Rightarrow> string
    \<Rightarrow> (nat \<Rightarrow> string) \<Rightarrow> (PurgeDB \<times> ClosePurgeResult) result" where
  "withdraw_act signer db cmd request who now ids =
     (let scope = purgeRequestScope request; approvalIDs = approvalIDsOn db (pq_RequestID request) in
     and_then (from_option (AuthErr ''UNKNOWN_RETENTION_STATE'') (retentionPolicyByIDOn db (pq_PolicyID request))) (\<lambda>policy.
     and_then (closePurgeTransition signer db request scope (xc_RequestIDKey cmd)
        (purgeCommandHash (withdrawPurgeCommandShape cmd)) (p_SubjectID who) now who (rp_BlockingHoldKinds policy)
        (authorizePurgeAct who scope ActionWithdrawApproval (pq_Category request) False '''' '''')
        withdraw_gate (withdraw_transition scope who approvalIDs (xc_Reason cmd) now ids)) (\<lambda>(db', updated, decision).
     let v = \<lparr>xr_Request = updated, xr_Approval = or_zero zero_approval decision, xr_IdempotentReplay = False\<rparr>
     in Inr (completePurgeIdempotencyOn db' (pq_TenantID request) (xc_RequestIDKey cmd) (pq_RequestID request)
               (stored_close v) now, v))))"

definition WithdrawPurge :: "Signer option \<Rightarrow> PurgeDB \<Rightarrow> ClosePurgeCommand \<Rightarrow> Principal \<Rightarrow> string \<Rightarrow> (nat \<Rightarrow> string)
    \<Rightarrow> (PurgeDB \<times> ClosePurgeResult) result" where
  "WithdrawPurge signer db cmd who now ids =
     and_then (AssertValidWithdrawPurgeCommand cmd) (\<lambda>_.
     and_then (purgeRequestByIDOn db (xc_RequestID cmd)) (\<lambda>request.
     with_idempotency db (pq_TenantID request) (xc_RequestIDKey cmd) (purgeCommandHash (withdrawPurgeCommandShape cmd))
       (p_SubjectID who) (\<lambda>stored. (decode_close stored)\<lparr>xr_IdempotentReplay := True\<rparr>)
       (withdraw_act signer db cmd request who now ids)))"

end
