(* ===== verification/Purge_Execution.thy ===== *)
theory Purge_Execution
  imports Purge_Store Object_Store
begin

text \<open>
  The execution protocol of internal/store/purge_execution_store.go. A failed transaction leaves
  the database as it was, but an unlink that already happened stays: the disk is returned beside
  every outcome.
\<close>

record ExecutePurgeResult =
  er_Request :: EvidencePurgeRequest
  er_Execution :: EvidencePurgeExecution
  er_IdempotentReplay :: bool
  er_Recovered :: bool

definition stored_execute :: "ExecutePurgeResult \<Rightarrow> StoredResult" where
  "stored_execute v = empty_stored\<lparr>sj_Request := Some (er_Request v), sj_Execution := Some (er_Execution v),
     sj_IdempotentReplay := Some (er_IdempotentReplay v), sj_Recovered := (if er_Recovered v then Some True else None)\<rparr>"

definition decode_execute :: "StoredResult \<Rightarrow> ExecutePurgeResult" where
  "decode_execute j = \<lparr>er_Request = or_zero zero_request (sj_Request j), er_Execution = or_zero zero_execution (sj_Execution j),
     er_IdempotentReplay = or_zero False (sj_IdempotentReplay j), er_Recovered = or_zero False (sj_Recovered j)\<rparr>"

section \<open>The executions ledger\<close>

definition insertPurgeExecutionOn :: "PurgeDB \<Rightarrow> EvidencePurgeExecution \<Rightarrow> PurgeDB result" where
  "insertPurgeExecutionOn db e =
     (if list_ex (\<lambda>x. px_ExecutionID x = px_ExecutionID e) (pd_Executions db) then Inl (StoreErr ''UNIQUE'')
      else if px_Size e < 0 \<or> px_IntentReviewedHash e = '''' then Inl (StoreErr ''CHECK'')
      else Inr (db\<lparr>pd_Executions := pd_Executions db @ [e]\<rparr>))"

definition markInterruptedPurgeExecutionsOn :: "PurgeDB \<Rightarrow> string \<Rightarrow> string \<Rightarrow> PurgeDB" where
  "markInterruptedPurgeExecutionsOn db requestID excludeID =
     db\<lparr>pd_Executions := map (\<lambda>e. if px_RequestID e = requestID \<and> px_State e = PurgeExecutionIntent
           \<and> px_ExecutionID e \<noteq> excludeID then e\<lparr>px_State := PurgeExecutionInterrupted\<rparr> else e) (pd_Executions db)\<rparr>"

definition purgeExecutionOn :: "PurgeDB \<Rightarrow> string \<Rightarrow> EvidencePurgeExecution option" where
  "purgeExecutionOn db executionID = find (\<lambda>e. px_ExecutionID e = executionID) (pd_Executions db)"

definition purgeIntentExecutionForRequestOn :: "PurgeDB \<Rightarrow> string \<Rightarrow> string \<Rightarrow> EvidencePurgeExecution option" where
  "purgeIntentExecutionForRequestOn db requestID excludeID =
     (case sort_key px_IntentAt (filter (\<lambda>e. px_RequestID e = requestID \<and> px_State e = PurgeExecutionIntent
              \<and> px_ExecutionID e \<noteq> excludeID) (pd_Executions db)) of
        [] \<Rightarrow> None | e # es \<Rightarrow> Some e)"

text \<open>The bound authorization of an intent: nil error as True.\<close>

definition validatePurgeIntentOn :: "PurgeDB \<Rightarrow> EvidencePurgeExecution \<Rightarrow> EvidencePurgeRequest \<Rightarrow> EvidenceObject \<Rightarrow> bool" where
  "validatePurgeIntentOn db exec request obj \<longleftrightarrow>
     px_RequestID exec = pq_RequestID request
     \<and> px_ObjectID exec = pq_ObjectID request \<and> px_ObjectID exec = eo_ObjectID obj
     \<and> px_RelPath exec = eo_RelPath obj \<and> px_Size exec = eo_Size obj
     \<and> px_PreRemovalHash exec = eo_ObjectID obj \<and> px_IntentReviewedHash exec \<noteq> ''''
     \<and> list_ex (\<lambda>e. le_ObjectID e = px_ObjectID exec \<and> le_Action e = PurgeEventIntent
          \<and> le_ReviewedHash e = px_IntentReviewedHash exec) (pd_Events db)"

text \<open>\<^verbatim>\<open>UPDATE ... WHERE execution_id = ? AND state = 'intent'\<close> with exactly one affected row.\<close>

definition completePurgeExecutionRow :: "PurgeDB \<Rightarrow> string \<Rightarrow> string \<Rightarrow> string \<Rightarrow> string \<Rightarrow> PurgeDB result" where
  "completePurgeExecutionRow db executionID now actor receiptID =
     (let hit = (\<lambda>e. px_ExecutionID e = executionID \<and> px_State e = PurgeExecutionIntent) in
      if length (filter hit (pd_Executions db)) \<noteq> 1 then Inl (PlainErr ''PURGE_EXECUTION_INTERRUPTED'')
      else Inr (db\<lparr>pd_Executions := map (\<lambda>e. if hit e then e\<lparr>px_State := PurgeExecutionCompleted, px_CompletedAt := now,
             px_CompletedBy := actor, px_CompletionReceiptID := receiptID\<rparr> else e) (pd_Executions db)\<rparr>))"

section \<open>Completion\<close>

definition completeExecutionOn :: "Signer option \<Rightarrow> PurgeDB \<Rightarrow> EvidencePurgeRequest \<Rightarrow> Scope \<Rightarrow> EvidencePurgeExecution
    \<Rightarrow> LifecycleSnapshot \<Rightarrow> Principal \<Rightarrow> string \<Rightarrow> string \<Rightarrow> string \<Rightarrow> string \<Rightarrow> bool \<Rightarrow> (PurgeDB \<times> ExecutePurgeResult) result" where
  "completeExecutionOn signer db request scope exec current who reason now actor eventID recovered =
     (let resultingHash = ComputeLifecycleSnapshotHash (assembleSnapshot (pq_ObjectID request) scope PurgeLifecyclePurged
            (ls_RetentionState current) (ls_PolicyID current) (ls_Category current) (ls_PolicyVersion current)
            (ls_BlockingHolds current) (pq_RequestID request) (ls_ApprovalIDs current));
          mark = (\<lambda>r. r\<lparr>pq_Status := PurgeRequestStatusExecuted, pq_ExecutionID := px_ExecutionID exec\<rparr>)
      in and_then (insertLifecycleEventOn db (lifecycle_event eventID request PurgeEventExecuted PurgeLifecycleApproved
            PurgeLifecyclePurged (px_IntentReviewedHash exec) resultingHash who reason now)) (\<lambda>db.
         and_then (emitObjectReceipt signer db (pq_ObjectID request) PurgeExecuted
            (purgeReceiptPayload scope (pq_ObjectID request) (px_IntentReviewedHash exec) resultingHash reason
               (px_ExecutionID exec) who) now) (\<lambda>(db, receipt).
         let receiptID = (case receipt of None \<Rightarrow> '''' | Some r \<Rightarrow> ReceiptHash r) in
         and_then (completePurgeExecutionRow db (px_ExecutionID exec) now actor receiptID) (\<lambda>db.
         and_then (updatePurgeRequest db (pq_RequestID request) False mark) (\<lambda>db.
         Inr (upsertRetentionStateOn db
           \<lparr>rt_ObjectID = pq_ObjectID request, rt_LifecycleState = PurgeLifecyclePurged,
            rt_RetentionState = ls_RetentionState current, rt_PolicyID = ls_PolicyID current,
            rt_Category = ls_Category current, rt_HasActiveBlockingHold = (length (ls_BlockingHolds current) > 0),
            rt_CurrentHash = resultingHash, rt_UpdatedAt = now\<rparr>,
           \<lparr>er_Request = mark request,
            er_Execution = exec\<lparr>px_State := PurgeExecutionCompleted, px_CompletedAt := now, px_CompletedBy := actor,
              px_CompletionReceiptID := receiptID\<rparr>,
            er_IdempotentReplay = False, er_Recovered = recovered\<rparr>))))))"

definition convergePurgeOn :: "Signer option \<Rightarrow> PurgeDB \<Rightarrow> ExecutePurgeCommand \<Rightarrow> EvidencePurgeRequest \<Rightarrow> Scope
    \<Rightarrow> EvidencePurgeExecution \<Rightarrow> Principal \<Rightarrow> string \<Rightarrow> string \<Rightarrow> (PurgeDB \<times> ExecutePurgeResult) result" where
  "convergePurgeOn signer db cmd request scope exec who now eventID =
     (if pq_Status request = PurgeRequestStatusExecuted then Inl (AuthErr ''ALREADY_DECIDED'')
      else and_then (from_option (AuthErr ''UNKNOWN_RETENTION_STATE'') (retentionPolicyByIDOn db (pq_PolicyID request))) (\<lambda>bound.
        and_then (currentPurgeSnapshotOn db (pq_ObjectID request) scope (rp_BlockingHoldKinds bound)) (\<lambda>(current, h).
        and_then (completeExecutionOn signer db request scope exec current who (ec_Reason cmd) now (p_SubjectID who) eventID True)
          (\<lambda>(db, v).
        Inr (completePurgeIdempotencyOn db (sc_OrganizationID scope) (ec_ExecutionID cmd) (pq_RequestID request)
               (stored_execute v) now, v)))))"

section \<open>The execution transaction\<close>

text \<open>The blockers re-run under the lock, before the bytes are touched.\<close>

definition execution_gates :: "PurgeDB \<Rightarrow> EvidencePurgeExecution
    \<Rightarrow> (EvidencePurgeRequest \<times> EvidenceObject \<times> LifecycleSnapshot) result" where
  "execution_gates db exec =
     and_then (purgeRequestByIDOn db (px_RequestID exec)) (\<lambda>request.
     and_then (ensure (pq_Status request = PurgeRequestStatusApproved) (AuthErr ''INVALID_TRANSITION'')) (\<lambda>_.
     let scope = purgeRequestScope request in
     and_then (from_option (PlainErr ''OBJECT_NOT_FOUND'') (evidenceObjectByIDOn db (px_ObjectID exec))) (\<lambda>obj.
     and_then (bound_policy_gate db request scope) (\<lambda>(resolved, eligibility).
     and_then (snapshot_gate db (pq_ObjectID request) scope (rp_BlockingHoldKinds resolved) (px_IntentReviewedHash exec))
       (\<lambda>(current, h).
     Inr (request, obj, current))))))"

definition executeAndCompleteOn :: "Signer option \<Rightarrow> PurgeDB \<Rightarrow> disk \<Rightarrow> ExecutePurgeCommand \<Rightarrow> EvidencePurgeExecution
    \<Rightarrow> Principal \<Rightarrow> string \<Rightarrow> string \<Rightarrow> disk \<times> (PurgeDB \<times> ExecutePurgeResult) result" where
  "executeAndCompleteOn signer db disk cmd exec who now eventID =
     (case execution_gates db exec of
        Inl e \<Rightarrow> (disk, Inl e)
      | Inr (request, obj, current) \<Rightarrow>
          (case removeObjectBytes disk (eo_RelPath obj) (pq_ObjectID request) (eo_Size obj) of
             Inl e \<Rightarrow> (disk, Inl e)
           | Inr disk' \<Rightarrow>
               (disk', completeExecutionOn signer db request (purgeRequestScope request) exec current who (ec_Reason cmd)
                         now (p_SubjectID who) eventID False)))"

definition recoverSameExecutionOn :: "Signer option \<Rightarrow> PurgeDB \<Rightarrow> disk \<Rightarrow> ExecutePurgeCommand \<Rightarrow> EvidencePurgeRequest
    \<Rightarrow> Scope \<Rightarrow> Principal \<Rightarrow> string \<Rightarrow> string \<Rightarrow> disk \<times> (PurgeDB \<times> ExecutePurgeResult) result" where
  "recoverSameExecutionOn signer db disk cmd request scope who now eventID =
     (case purgeExecutionOn db (ec_ExecutionID cmd) of
        None \<Rightarrow> (disk, Inl (PlainErr ''PURGE_EXECUTION_INTERRUPTED''))
      | Some exec \<Rightarrow>
          (case px_State exec of
             PurgeExecutionCompleted \<Rightarrow>
               let v = \<lparr>er_Request = request, er_Execution = exec, er_IdempotentReplay = True, er_Recovered = False\<rparr>
               in (disk, Inr (completePurgeIdempotencyOn db (sc_OrganizationID scope) (ec_ExecutionID cmd)
                                (pq_RequestID request) (stored_execute v) now, v))
           | PurgeExecutionIntent \<Rightarrow>
               (case evidenceObjectByIDOn db (px_ObjectID exec) of
                  None \<Rightarrow> (disk, Inl (PlainErr ''OBJECT_NOT_FOUND''))
                | Some obj \<Rightarrow>
                    if \<not> validatePurgeIntentOn db exec request obj then (disk, Inl (PlainErr ''PURGE_EXECUTION_INTERRUPTED''))
                    else if \<not> objectBytesExist disk (eo_RelPath obj)
                    then (disk, convergePurgeOn signer db cmd request scope exec who now eventID)
                    else (case executeAndCompleteOn signer db disk cmd exec who now eventID of
                            (disk', res) \<Rightarrow>
                              (disk', and_then res (\<lambda>(db', v). Inr (db', v\<lparr>er_Recovered := True\<rparr>)))))
           | _ \<Rightarrow> (disk, Inl (PlainErr ''PURGE_EXECUTION_INTERRUPTED''))))"

section \<open>ExecutePurge\<close>

definition execute_status_gate :: "PurgeRequestStatus \<Rightarrow> unit result" where
  "execute_status_gate s =
     (if s = PurgeRequestStatusApproved then Inr ()
      else if s = PurgeRequestStatusExecuted then Inl (AuthErr ''ALREADY_DECIDED'')
      else Inl (AuthErr ''INVALID_TRANSITION''))"

definition execute_gates :: "PurgeDB \<Rightarrow> ExecutePurgeCommand \<Rightarrow> EvidencePurgeRequest \<Rightarrow> Scope \<Rightarrow> Principal
    \<Rightarrow> (EvidenceObject \<times> string) result" where
  "execute_gates db cmd request scope who =
     and_then (execute_status_gate (pq_Status request)) (\<lambda>_.
     and_then (from_option (PlainErr ''OBJECT_NOT_FOUND'') (evidenceObjectByIDOn db (pq_ObjectID request))) (\<lambda>obj.
     and_then (bound_policy_gate db request scope) (\<lambda>(resolved, eligibility).
     and_then (snapshot_gate db (pq_ObjectID request) scope (rp_BlockingHoldKinds resolved) (ec_ExpectedLifecycleHash cmd))
       (\<lambda>(current, currentHash).
     and_then (authorizePurgeAct who scope ActionExecutePurge (rp_Category resolved) False '''' '''') (\<lambda>_.
     Inr (obj, currentHash))))))"

definition intent_row :: "ExecutePurgeCommand \<Rightarrow> EvidencePurgeRequest \<Rightarrow> EvidenceObject \<Rightarrow> string \<Rightarrow> string \<Rightarrow> Principal
    \<Rightarrow> EvidencePurgeExecution" where
  "intent_row cmd request obj currentHash now who =
     \<lparr>px_ExecutionID = ec_ExecutionID cmd, px_RequestID = pq_RequestID request, px_ObjectID = pq_ObjectID request,
      px_RelPath = eo_RelPath obj, px_Size = eo_Size obj, px_PreRemovalHash = eo_ObjectID obj,
      px_IntentReviewedHash = currentHash, px_State = PurgeExecutionIntent, px_IntentAt = now,
      px_IntentBy = p_SubjectID who, px_CompletedAt = '''', px_CompletedBy = '''', px_CompletionReceiptID = ''''\<rparr>"

definition execute_open :: "Signer option \<Rightarrow> PurgeDB \<Rightarrow> ExecutePurgeCommand \<Rightarrow> EvidencePurgeRequest \<Rightarrow> Scope
    \<Rightarrow> EvidenceObject \<Rightarrow> string \<Rightarrow> Principal \<Rightarrow> string \<Rightarrow> string \<Rightarrow> (PurgeDB \<times> EvidencePurgeExecution) result" where
  "execute_open signer db cmd request scope obj currentHash who now eventID =
     (let exec = intent_row cmd request obj currentHash now who in
      and_then (insertPurgeExecutionOn db exec) (\<lambda>db.
      and_then (insertLifecycleEventOn db (lifecycle_event eventID request PurgeEventIntent PurgeLifecycleApproved
         PurgeLifecycleApproved currentHash currentHash who (ec_Reason cmd) now)) (\<lambda>db.
      and_then (emitObjectReceipt signer db (pq_ObjectID request) PurgeIntent
         (purgeReceiptPayload scope (pq_ObjectID request) currentHash currentHash (ec_Reason cmd) (ec_ExecutionID cmd) who) now)
        (\<lambda>(db, r). Inr (db, exec)))))"

text \<open>
  The first transaction ends with a final outcome (replay, recovery, convergence) or with the
  durable intent of a fresh attempt. The fresh path has two parts: the gates with the stale
  attempt, and the intent.
\<close>

datatype intent_outcome = Finished PurgeDB ExecutePurgeResult | Opened PurgeDB EvidencePurgeRequest EvidencePurgeExecution

definition execute_fresh :: "Signer option \<Rightarrow> PurgeDB \<Rightarrow> disk \<Rightarrow> ExecutePurgeCommand \<Rightarrow> EvidencePurgeRequest \<Rightarrow> Scope
    \<Rightarrow> Principal \<Rightarrow> string \<Rightarrow> (nat \<Rightarrow> string) \<Rightarrow> intent_outcome result" where
  "execute_fresh signer db disk cmd request scope who now ids =
     and_then (execute_gates db cmd request scope who) (\<lambda>(obj, currentHash).
     let opened = (\<lambda>db. and_then (execute_open signer db cmd request scope obj currentHash who now (ids 0))
                     (\<lambda>(db, exec). Inr (Opened db request exec)))
     in case purgeIntentExecutionForRequestOn db (pq_RequestID request) (ec_ExecutionID cmd) of
          None \<Rightarrow> opened db
        | Some stale \<Rightarrow>
            if \<not> objectBytesExist disk (eo_RelPath obj)
            then (if \<not> validatePurgeIntentOn db stale request obj then Inl (PlainErr ''OBJECT_BYTES_MISSING'')
                  else and_then (convergePurgeOn signer db cmd request scope stale who now (ids 1)) (\<lambda>(db, v). Inr (Finished db v)))
            else opened (markInterruptedPurgeExecutionsOn db (pq_RequestID request) (ec_ExecutionID cmd)))"

definition executeIntent :: "Signer option \<Rightarrow> PurgeDB \<Rightarrow> disk \<Rightarrow> ExecutePurgeCommand \<Rightarrow> Principal \<Rightarrow> string
    \<Rightarrow> (nat \<Rightarrow> string) \<Rightarrow> disk \<times> intent_outcome result" where
  "executeIntent signer db disk cmd who now ids =
     (case purgeRequestByIDOn db (ec_RequestID cmd) of
        Inl e \<Rightarrow> (disk, Inl e)
      | Inr request \<Rightarrow>
          let scope = purgeRequestScope request;
              commandHash = purgeCommandHash (executePurgeCommandShape cmd);
              actor = p_SubjectID who
          in case idempotencyRowOn db (sc_OrganizationID scope) (ec_ExecutionID cmd) of
               Some row \<Rightarrow>
                 if ik_CommandHash row \<noteq> commandHash \<or> ik_ActorBinding row \<noteq> actor
                 then (disk, Inl (AuthErr ''IDEMPOTENCY_CONFLICT''))
                 else if ik_EntityID row = '''' \<or> ik_Result row = None
                 then (case recoverSameExecutionOn signer db disk cmd request scope who now (ids 1) of
                         (disk', res) \<Rightarrow> (disk', and_then res (\<lambda>(db, v). Inr (Finished db v))))
                 else (disk, Inr (Finished db ((decode_execute (the (ik_Result row)))\<lparr>er_IdempotentReplay := True\<rparr>)))
             | None \<Rightarrow>
                 (disk, and_then (reserveIdempotencyKey db (sc_OrganizationID scope) (ec_ExecutionID cmd) commandHash actor now)
                   (\<lambda>db. execute_fresh signer db disk cmd request scope who now ids)))"

text \<open>The second transaction of a fresh attempt, then the completion of its idempotency key.\<close>

definition ExecutePurge :: "Signer option \<Rightarrow> PurgeWorld \<Rightarrow> ExecutePurgeCommand \<Rightarrow> Principal \<Rightarrow> string \<Rightarrow> (nat \<Rightarrow> string)
    \<Rightarrow> PurgeWorld \<times> ExecutePurgeResult result" where
  "ExecutePurge signer w cmd who now ids =
     (case AssertValidExecutePurgeCommand cmd of
        Inl e \<Rightarrow> (w, Inl e)
      | Inr u \<Rightarrow>
          (case executeIntent signer (w_DB w) (w_Disk w) cmd who now ids of
             (disk, Inl e) \<Rightarrow> (w\<lparr>w_Disk := disk\<rparr>, Inl e)
           | (disk, Inr (Finished db v)) \<Rightarrow> (\<lparr>w_DB = db, w_Disk = disk\<rparr>, Inr v)
           | (disk, Inr (Opened db request exec)) \<Rightarrow>
               (case executeAndCompleteOn signer db disk cmd exec who now (ids 1) of
                  (disk', Inl e) \<Rightarrow> (\<lparr>w_DB = db, w_Disk = disk'\<rparr>, Inl e)
                | (disk', Inr (db', v)) \<Rightarrow>
                    (\<lparr>w_DB = completePurgeIdempotencyOn db' (pq_TenantID request) (ec_ExecutionID cmd)
                        (pq_RequestID request) (stored_execute v) now, w_Disk = disk'\<rparr>, Inr v))))"

end
