(* ===== verification/Purge_Ledger.thy ===== *)
theory Purge_Ledger
  imports Purge_Execution
begin

text \<open>
  What every operation of the purge pipeline keeps: rows are never removed, the append-only ledgers
  (decisions, events, receipts) only grow at the end, a request row keeps its identity and scope
  and moves along the status guard, an execution row is closed at most once. The relation is a
  preorder every guarded write satisfies, so it holds of every handler.
\<close>

section \<open>Evolving tables\<close>

definition rows_evolve :: "('a \<Rightarrow> 'a \<Rightarrow> bool) \<Rightarrow> 'a list \<Rightarrow> 'a list \<Rightarrow> bool" where
  "rows_evolve R xs ys \<longleftrightarrow> (\<exists>us vs. ys = us @ vs \<and> list_all2 R xs us)"

lemma rows_evolve_refl: "(\<And>x. R x x) \<Longrightarrow> rows_evolve R xs xs"
  unfolding rows_evolve_def by (intro exI [of _ xs] exI [of _ "[]"]) (simp add: list_all2_refl)

lemma rows_evolve_append: "(\<And>x. R x x) \<Longrightarrow> rows_evolve R xs (xs @ zs)"
  unfolding rows_evolve_def by (intro exI [of _ xs] exI [of _ zs]) (simp add: list_all2_refl)

lemma rows_evolve_map: "(\<And>x. x \<in> set xs \<Longrightarrow> R x (f x)) \<Longrightarrow> rows_evolve R xs (map f xs)"
  unfolding rows_evolve_def
  by (intro exI [of _ "map f xs"] exI [of _ "[]"]) (simp add: list_all2_map2 list.rel_refl_strong)

lemma rows_evolve_trans:
  assumes "\<And>x y z. R x y \<Longrightarrow> R y z \<Longrightarrow> R x z" and "rows_evolve R xs ys" and "rows_evolve R ys zs"
  shows "rows_evolve R xs zs"
proof -
  obtain us vs where ys: "ys = us @ vs" and u: "list_all2 R xs us" using assms(2) by (auto simp: rows_evolve_def)
  obtain ps qs where zs: "zs = ps @ qs" and p: "list_all2 R (us @ vs) ps" using assms(3) ys by (auto simp: rows_evolve_def)
  obtain p1 p2 where ps: "ps = p1 @ p2" and p1: "list_all2 R us p1" using p by (auto simp: list_all2_append1)
  have "list_all2 R xs p1" by (rule list_all2_trans [OF _ u p1]) (rule assms(1))
  then show ?thesis unfolding rows_evolve_def zs ps by (intro exI [of _ p1] exI [of _ "p2 @ qs"]) simp
qed

lemma rows_evolve_nth:
  "rows_evolve R xs ys \<Longrightarrow> i < length xs \<Longrightarrow> i < length ys \<and> R (xs ! i) (ys ! i)"
  by (auto simp: rows_evolve_def list_all2_conv_all_nth nth_append)

lemma rows_evolve_member: "rows_evolve R xs ys \<Longrightarrow> x \<in> set xs \<Longrightarrow> \<exists>y \<in> set ys. R x y"
  using rows_evolve_nth by (metis in_set_conv_nth)

section \<open>Rows\<close>

definition request_evolves :: "EvidencePurgeRequest \<Rightarrow> EvidencePurgeRequest \<Rightarrow> bool" where
  "request_evolves r r' \<longleftrightarrow>
     pq_RequestID r' = pq_RequestID r \<and> pq_ObjectID r' = pq_ObjectID r \<and> purgeRequestScope r' = purgeRequestScope r
     \<and> status_guard\<^sup>*\<^sup>* (pq_Status r) (pq_Status r')"

definition execution_evolves :: "EvidencePurgeExecution \<Rightarrow> EvidencePurgeExecution \<Rightarrow> bool" where
  "execution_evolves e e' \<longleftrightarrow>
     px_ExecutionID e' = px_ExecutionID e \<and> px_RequestID e' = px_RequestID e \<and> px_ObjectID e' = px_ObjectID e
     \<and> px_RelPath e' = px_RelPath e \<and> px_Size e' = px_Size e \<and> px_PreRemovalHash e' = px_PreRemovalHash e
     \<and> px_IntentReviewedHash e' = px_IntentReviewedHash e \<and> px_IntentAt e' = px_IntentAt e \<and> px_IntentBy e' = px_IntentBy e
     \<and> (e' = e \<or> (px_State e = PurgeExecutionIntent
          \<and> (px_State e' = PurgeExecutionCompleted \<or> px_State e' = PurgeExecutionInterrupted)))"

definition key_evolves :: "IdempotencyRow \<Rightarrow> IdempotencyRow \<Rightarrow> bool" where
  "key_evolves k k' \<longleftrightarrow> ik_TenantID k' = ik_TenantID k \<and> ik_RequestID k' = ik_RequestID k
     \<and> ik_CommandHash k' = ik_CommandHash k \<and> ik_ActorBinding k' = ik_ActorBinding k"

text \<open>The environment of the pipeline: the tables its handlers only read.\<close>

definition same_environment :: "PurgeDB \<Rightarrow> PurgeDB \<Rightarrow> bool" where
  "same_environment db db' \<longleftrightarrow> pd_Objects db' = pd_Objects db \<and> pd_Closures db' = pd_Closures db
     \<and> pd_Policies db' = pd_Policies db \<and> pd_Holds db' = pd_Holds db"

definition ledgers_evolve :: "PurgeDB \<Rightarrow> PurgeDB \<Rightarrow> bool" where
  "ledgers_evolve db db' \<longleftrightarrow>
     prefix (pd_Approvals db) (pd_Approvals db') \<and> prefix (pd_Events db) (pd_Events db')
     \<and> prefix (rs_Receipts (pd_Receipts db)) (rs_Receipts (pd_Receipts db'))
     \<and> rows_evolve request_evolves (pd_Requests db) (pd_Requests db')
     \<and> rows_evolve execution_evolves (pd_Executions db) (pd_Executions db')
     \<and> rows_evolve key_evolves (pd_Keys db) (pd_Keys db')"

definition db_evolves :: "PurgeDB \<Rightarrow> PurgeDB \<Rightarrow> bool" where
  "db_evolves db db' \<longleftrightarrow> same_environment db db' \<and> ledgers_evolve db db'"

lemma request_evolves_refl [simp]: "request_evolves r r"
  by (simp add: request_evolves_def)

lemma request_evolves_trans: "request_evolves a b \<Longrightarrow> request_evolves b c \<Longrightarrow> request_evolves a c"
  unfolding request_evolves_def by (metis rtranclp_trans)

lemma execution_evolves_refl [simp]: "execution_evolves e e"
  by (simp add: execution_evolves_def)

lemma execution_evolves_trans: "execution_evolves a b \<Longrightarrow> execution_evolves b c \<Longrightarrow> execution_evolves a c"
  unfolding execution_evolves_def by auto

lemma key_evolves_refl [simp]: "key_evolves k k"
  by (simp add: key_evolves_def)

lemma key_evolves_trans: "key_evolves a b \<Longrightarrow> key_evolves b c \<Longrightarrow> key_evolves a c"
  by (simp add: key_evolves_def)

lemma ledgers_evolve_refl [simp]: "ledgers_evolve db db"
  by (simp add: ledgers_evolve_def rows_evolve_refl)

lemma rows_request_trans:
  "rows_evolve request_evolves a b \<Longrightarrow> rows_evolve request_evolves b c \<Longrightarrow> rows_evolve request_evolves a c"
  by (rule rows_evolve_trans [of request_evolves]) (rule request_evolves_trans)

lemma rows_execution_trans:
  "rows_evolve execution_evolves a b \<Longrightarrow> rows_evolve execution_evolves b c \<Longrightarrow> rows_evolve execution_evolves a c"
  by (rule rows_evolve_trans [of execution_evolves]) (rule execution_evolves_trans)

lemma rows_key_trans: "rows_evolve key_evolves a b \<Longrightarrow> rows_evolve key_evolves b c \<Longrightarrow> rows_evolve key_evolves a c"
  by (rule rows_evolve_trans [of key_evolves]) (rule key_evolves_trans)

lemma ledgers_evolve_trans: "ledgers_evolve a b \<Longrightarrow> ledgers_evolve b c \<Longrightarrow> ledgers_evolve a c"
  unfolding ledgers_evolve_def
  by (auto intro: prefix_order.trans rows_request_trans rows_execution_trans rows_key_trans)

lemma db_evolves_refl [simp]: "db_evolves db db"
  by (simp add: db_evolves_def same_environment_def)

lemma db_evolves_trans: "db_evolves a b \<Longrightarrow> db_evolves b c \<Longrightarrow> db_evolves a c"
  unfolding db_evolves_def same_environment_def by (auto intro: ledgers_evolve_trans)

section \<open>The guarded writes\<close>

named_theorems writes_evolve \<open>a successful guarded write evolves the database\<close>

lemma reserve_evolves [writes_evolve]:
  "reserveIdempotencyKey db t k h a now = Inr db' \<Longrightarrow> db_evolves db db'"
  by (auto simp: reserveIdempotencyKey_def db_evolves_def same_environment_def ledgers_evolve_def
      rows_evolve_refl rows_evolve_append split: if_splits)

lemma complete_evolves [writes_evolve]: "db_evolves db (completePurgeIdempotencyOn db t k i v now)"
  by (auto simp: completePurgeIdempotencyOn_def db_evolves_def same_environment_def ledgers_evolve_def
      rows_evolve_refl key_evolves_def intro!: rows_evolve_map)

lemma event_evolves [writes_evolve]: "insertLifecycleEventOn db e = Inr db' \<Longrightarrow> db_evolves db db'"
  by (auto simp: insertLifecycleEventOn_def db_evolves_def same_environment_def ledgers_evolve_def
      rows_evolve_refl split: if_splits)

lemma approval_evolves [writes_evolve]: "insertPurgeApprovalOn db a = Inr db' \<Longrightarrow> db_evolves db db'"
  by (auto simp: insertPurgeApprovalOn_def db_evolves_def same_environment_def ledgers_evolve_def
      rows_evolve_refl split: if_splits)

lemma request_insert_evolves [writes_evolve]: "insertPurgeRequestOn db r = Inr db' \<Longrightarrow> db_evolves db db'"
  by (auto simp: insertPurgeRequestOn_def db_evolves_def same_environment_def ledgers_evolve_def
      rows_evolve_refl rows_evolve_append split: if_splits)

lemma request_update_evolves [writes_evolve]:
  assumes "updatePurgeRequest db i ev f = Inr db'"
    and "\<And>r. pq_RequestID (f r) = pq_RequestID r \<and> pq_ObjectID (f r) = pq_ObjectID r \<and> purgeRequestScope (f r) = purgeRequestScope r"
  shows "db_evolves db db'"
proof -
  have "rows_evolve request_evolves (pd_Requests db) (map (\<lambda>r. if pq_RequestID r = i then f r else r) (pd_Requests db))"
    using assms by (intro rows_evolve_map) (auto simp: updatePurgeRequest_def request_evolves_def list_all_iff split: if_splits)
  then show ?thesis
    using assms(1) by (auto simp: updatePurgeRequest_def db_evolves_def same_environment_def ledgers_evolve_def
        rows_evolve_refl split: if_splits)
qed

lemma upsert_evolves [writes_evolve]: "db_evolves db (upsertRetentionStateOn db s)"
  by (simp add: upsertRetentionStateOn_def db_evolves_def same_environment_def ledgers_evolve_def rows_evolve_refl)

lemma emit_evolves [writes_evolve]: "emitObjectReceipt s db i a p now = Inr (db', r) \<Longrightarrow> db_evolves db db'"
  by (auto simp: emitObjectReceipt_def and_then_eq_Inr db_evolves_def same_environment_def ledgers_evolve_def
      rows_evolve_refl dest: emitReceipt_prefix)

lemma execution_insert_evolves [writes_evolve]: "insertPurgeExecutionOn db e = Inr db' \<Longrightarrow> db_evolves db db'"
  by (auto simp: insertPurgeExecutionOn_def db_evolves_def same_environment_def ledgers_evolve_def
      rows_evolve_refl rows_evolve_append split: if_splits)

lemma mark_evolves [writes_evolve]: "db_evolves db (markInterruptedPurgeExecutionsOn db r x)"
  by (auto simp: markInterruptedPurgeExecutionsOn_def db_evolves_def same_environment_def ledgers_evolve_def
      rows_evolve_refl execution_evolves_def intro!: rows_evolve_map)

lemma execution_complete_evolves [writes_evolve]:
  "completePurgeExecutionRow db i now a rid = Inr db' \<Longrightarrow> db_evolves db db'"
  by (auto simp: completePurgeExecutionRow_def db_evolves_def same_environment_def ledgers_evolve_def Let_def
      rows_evolve_refl execution_evolves_def intro!: rows_evolve_map split: if_splits)

lemma evolves_complete: "db_evolves a b \<Longrightarrow> db_evolves a (completePurgeIdempotencyOn b t k i v now)"
  using complete_evolves db_evolves_trans by blast

lemma evolves_upsert: "db_evolves a b \<Longrightarrow> db_evolves a (upsertRetentionStateOn b r)"
  using upsert_evolves db_evolves_trans by blast

section \<open>The handlers\<close>

text \<open>Chains of writes are closed by transitivity.\<close>

lemma request_row_evolves:
  "request_row db cmd scope who policy el now i = Inr (db', r) \<Longrightarrow> db_evolves db db'"
  by (auto simp: request_row_def Let_def and_then_eq_Inr purgeRequestScope_def split: option.splits if_splits
      intro: writes_evolve)

lemma request_binding_evolves:
  "request_binding s db cmd scope who policy el current r now i = Inr db' \<Longrightarrow> db_evolves db db'"
  unfolding request_binding_def Let_def
  by (auto simp: and_then_eq_Inr split: if_splits dest!: event_evolves emit_evolves intro: db_evolves_trans)

lemma request_record_evolves:
  "request_record s db cmd scope who policy el current h r now i = Inr db' \<Longrightarrow> db_evolves db db'"
  unfolding request_record_def Let_def
  by (auto simp: and_then_eq_Inr dest!: event_evolves emit_evolves intro!: evolves_upsert intro: db_evolves_trans)

text \<open>A successful RequestPurge is a replay or a successful act, and so for the other handlers.\<close>

lemma request_act_Inr:
  "request_act s db cmd scope who now ids = Inr (db', v) \<longleftrightarrow>
     (\<exists>db1 policy el current h db2 r db3 db4.
        reserveIdempotencyKey db (sc_OrganizationID scope) (rc_RequestID cmd)
          (purgeCommandHash (requestPurgeCommandShape cmd)) (p_SubjectID who) now = Inr db1
        \<and> request_gates db1 cmd scope who = Inr (policy, el, current, h)
        \<and> request_row db1 cmd scope who policy el now (ids 0) = Inr (db2, r)
        \<and> request_binding s db2 cmd scope who policy el current r now (ids 1) = Inr db3
        \<and> request_record s db3 cmd scope who policy el current h r now (ids 2) = Inr db4
        \<and> db' = completePurgeIdempotencyOn db4 (sc_OrganizationID scope) (rc_RequestID cmd) (pq_RequestID r) (stored_request r) now
        \<and> v = \<lparr>qr_Request = r, qr_Created = True, qr_IdempotentReplay = False\<rparr>)"
  unfolding request_act_def guard_simps split_paired_Ex prod.case by blast

lemma request_act_evolves: "request_act s db cmd scope who now ids = Inr (db', v) \<Longrightarrow> db_evolves db db'"
  unfolding request_act_Inr
  by (auto dest!: reserve_evolves request_row_evolves request_binding_evolves request_record_evolves
      intro!: evolves_complete) (meson db_evolves_trans)

lemma RequestPurge_Inr:
  assumes "RequestPurge s db cmd who now ids = Inr (db', v)"
  shows "(db' = db \<and> qr_IdempotentReplay v) \<or>
    (\<exists>obj. evidenceObjectByIDOn db (rc_ObjectID cmd) = Some obj
       \<and> request_act s db cmd (company_scope (eo_TenantID obj) (eo_CompanyID obj) (eo_RUC obj) (eo_Period obj)) who now ids = Inr (db', v))"
  using assms unfolding RequestPurge_def Let_def guard_simps with_idempotency_Inr by auto

lemma RequestPurge_evolves: "RequestPurge s db cmd who now ids = Inr (db', v) \<Longrightarrow> db_evolves db db'"
  using RequestPurge_Inr request_act_evolves db_evolves_refl by metis

lemma approve_record_evolves:
  "approve_record s db cmd r scope who p el current h order now a e = Inr (db', r', ap) \<Longrightarrow> db_evolves db db'"
  unfolding approve_record_def Let_def
  by (auto simp: and_then_eq_Inr purgeRequestScope_def split: if_splits
      dest!: approval_evolves request_update_evolves event_evolves emit_evolves intro!: evolves_upsert)
     (meson db_evolves_trans)+

lemma approve_act_Inr:
  "approve_act s db cmd r who now ids = Inr (db', v) \<longleftrightarrow>
     (\<exists>db1 p el current h order db2 r' ap.
        reserveIdempotencyKey db (pq_TenantID r) (ac_RequestIDKey cmd)
          (purgeCommandHash (approvePurgeCommandShape cmd)) (p_SubjectID who) now = Inr db1
        \<and> approve_gates db1 cmd r (purgeRequestScope r) who = Inr (p, el, current, h, order)
        \<and> approve_record s db1 cmd r (purgeRequestScope r) who p el current h order now (ids 0) (ids 1) = Inr (db2, r', ap)
        \<and> v = \<lparr>av_Request = r', av_Approval = ap, av_ApprovalOrder = order, av_IdempotentReplay = False\<rparr>
        \<and> db' = completePurgeIdempotencyOn db2 (pq_TenantID r) (ac_RequestIDKey cmd) (pq_RequestID r) (stored_approve v) now)"
  unfolding approve_act_def Let_def guard_simps split_paired_Ex prod.case sum.inject prod.inject by (rule iffI; clarsimp)

lemma approve_act_evolves: "approve_act s db cmd r who now ids = Inr (db', v) \<Longrightarrow> db_evolves db db'"
  unfolding approve_act_Inr
  by (auto dest!: reserve_evolves approve_record_evolves intro!: evolves_complete) (meson db_evolves_trans)

lemma ApprovePurge_Inr:
  assumes "ApprovePurge s db cmd who now ids = Inr (db', v)"
  shows "(db' = db \<and> av_IdempotentReplay v) \<or>
    (\<exists>r. purgeRequestByIDOn db (ac_RequestID cmd) = Inr r \<and> approve_act s db cmd r who now ids = Inr (db', v))"
  using assms unfolding ApprovePurge_def guard_simps with_idempotency_Inr by auto

lemma ApprovePurge_evolves: "ApprovePurge s db cmd who now ids = Inr (db', v) \<Longrightarrow> db_evolves db db'"
  using ApprovePurge_Inr approve_act_evolves db_evolves_refl by metis

subsection \<open>Closing acts\<close>

lemma close_flip_evolves: "close_flip db r a = Inr (db', r') \<Longrightarrow> db_evolves db db'"
  unfolding close_flip_def Let_def
  by (auto simp: and_then_eq_Inr purgeRequestScope_def split: if_splits dest!: request_update_evolves)

lemma closePurgeTransition_Inr:
  "closePurgeTransition s db r scope key hash actor now who kinds authz gate tr = Inr x \<longleftrightarrow>
     (\<exists>db1 current h. reserveIdempotencyKey db (pq_TenantID r) key hash actor now = Inr db1 \<and> authz = Inr () \<and> gate r = None
        \<and> currentPurgeSnapshotOn db1 (pq_ObjectID r) scope kinds = Inr (current, h)
        \<and> close_record s db1 r scope now who current h (tr r current) = Inr x)"
proof -
  have "(case gate r of Some code \<Rightarrow> Inl (AuthErr code) | None \<Rightarrow> Inr ()) = Inr () \<longleftrightarrow> gate r = None"
    by (simp split: option.splits)
  then show ?thesis
    unfolding closePurgeTransition_def guard_simps split_paired_Ex prod.case by auto
qed

lemma close_record_Inr:
  "close_record s db r scope now who current h (post, h2, dec, ev, act) = Inr (db', r', dec') \<longleftrightarrow>
     (\<exists>db2 db3 db4 db5 rec.
        close_flip db r (le_Action ev) = Inr (db2, r')
        \<and> (case dec of None \<Rightarrow> Inr db2 | Some d \<Rightarrow> insertPurgeApprovalOn db2 d) = Inr db3
        \<and> insertLifecycleEventOn db3 ev = Inr db4
        \<and> emitObjectReceipt s db4 (pq_ObjectID r) act
            (purgeReceiptPayload scope (pq_ObjectID r) h h2 (le_Reason ev) '''' who) now = Inr (db5, rec)
        \<and> db' = upsertRetentionStateOn db5
            \<lparr>rt_ObjectID = pq_ObjectID r, rt_LifecycleState = post, rt_RetentionState = ls_RetentionState current,
             rt_PolicyID = ls_PolicyID current, rt_Category = ls_Category current,
             rt_HasActiveBlockingHold = (length (ls_BlockingHolds current) > 0), rt_CurrentHash = h2, rt_UpdatedAt = now\<rparr>
        \<and> dec' = dec)"
  unfolding close_record_def guard_simps split_paired_Ex prod.case by auto

lemma close_record_evolves:
  assumes "close_record s db r scope now who current h t = Inr (db', r', dec)"
  shows "db_evolves db db'"
proof -
  obtain post h2 d ev act where t: "t = (post, h2, d, ev, act)" by (cases t) auto
  obtain db2 db3 db4 db5 rec where w: "close_flip db r (le_Action ev) = Inr (db2, r')"
    "(case d of None \<Rightarrow> Inr db2 | Some d \<Rightarrow> insertPurgeApprovalOn db2 d) = Inr db3"
    "insertLifecycleEventOn db3 ev = Inr db4"
    "emitObjectReceipt s db4 (pq_ObjectID r) act
       (purgeReceiptPayload scope (pq_ObjectID r) h h2 (le_Reason ev) '''' who) now = Inr (db5, rec)"
    and db': "db_evolves db5 db'"
    using assms upsert_evolves unfolding t close_record_Inr by blast
  have "db_evolves db2 db3" using w(2) approval_evolves by (auto split: option.splits)
  then show ?thesis
    using close_flip_evolves [OF w(1)] event_evolves [OF w(3)] emit_evolves [OF w(4)] db'
    by (meson db_evolves_trans)
qed

lemma closePurgeTransition_evolves:
  assumes "closePurgeTransition s db r scope key hash actor now who kinds authz gate tr = Inr (db', r', dec)"
  shows "db_evolves db db'"
  using assms reserve_evolves close_record_evolves db_evolves_trans unfolding closePurgeTransition_Inr by meson

lemma reject_act_evolves: "reject_act s db cmd r who now ids = Inr (db', v) \<Longrightarrow> db_evolves db db'"
  unfolding reject_act_def Let_def
  by (auto simp: and_then_eq_Inr dest!: closePurgeTransition_evolves intro!: evolves_complete)

lemma cancel_act_evolves: "cancel_act s db cmd r who now ids = Inr (db', v) \<Longrightarrow> db_evolves db db'"
  unfolding cancel_act_def Let_def
  by (auto simp: and_then_eq_Inr dest!: closePurgeTransition_evolves intro!: evolves_complete)

lemma withdraw_act_evolves: "withdraw_act s db cmd r who now ids = Inr (db', v) \<Longrightarrow> db_evolves db db'"
  unfolding withdraw_act_def Let_def
  by (auto simp: and_then_eq_Inr dest!: closePurgeTransition_evolves intro!: evolves_complete)

lemma RejectPurge_Inr:
  assumes "RejectPurge s db cmd who now ids = Inr (db', v)"
  shows "(db' = db \<and> xr_IdempotentReplay v) \<or>
    (\<exists>r. purgeRequestByIDOn db (xc_RequestID cmd) = Inr r \<and> reject_act s db cmd r who now ids = Inr (db', v))"
  using assms unfolding RejectPurge_def guard_simps with_idempotency_Inr by auto

lemma CancelPurge_Inr:
  assumes "CancelPurge s db cmd who now ids = Inr (db', v)"
  shows "(db' = db \<and> cr_IdempotentReplay v) \<or>
    (\<exists>r. purgeRequestByIDOn db (cn_RequestID cmd) = Inr r \<and> cancel_act s db cmd r who now ids = Inr (db', v))"
  using assms unfolding CancelPurge_def guard_simps with_idempotency_Inr by auto

lemma WithdrawPurge_Inr:
  assumes "WithdrawPurge s db cmd who now ids = Inr (db', v)"
  shows "(db' = db \<and> xr_IdempotentReplay v) \<or>
    (\<exists>r. purgeRequestByIDOn db (xc_RequestID cmd) = Inr r \<and> withdraw_act s db cmd r who now ids = Inr (db', v))"
  using assms unfolding WithdrawPurge_def guard_simps with_idempotency_Inr by auto

lemma RejectPurge_evolves: "RejectPurge s db cmd who now ids = Inr (db', v) \<Longrightarrow> db_evolves db db'"
  using RejectPurge_Inr reject_act_evolves db_evolves_refl by metis

lemma CancelPurge_evolves: "CancelPurge s db cmd who now ids = Inr (db', v) \<Longrightarrow> db_evolves db db'"
  using CancelPurge_Inr cancel_act_evolves db_evolves_refl by metis

lemma WithdrawPurge_evolves: "WithdrawPurge s db cmd who now ids = Inr (db', v) \<Longrightarrow> db_evolves db db'"
  using WithdrawPurge_Inr withdraw_act_evolves db_evolves_refl by metis

section \<open>What the gates establish\<close>

lemma eligibility_gate_Inr: "eligibility_gate p period = Inr e \<longleftrightarrow> EvaluateRetentionEligibility p period = Eligible \<and> e = Eligible"
  by (cases "EvaluateRetentionEligibility p period") (auto simp: eligibility_gate_def)

lemma bound_policy_gate_Inr:
  "bound_policy_gate db r scope = Inr (p, e) \<longleftrightarrow>
     assertPeriodWritable db scope = Inr () \<and> e = Eligible \<and> EvaluateRetentionEligibility p (sc_Period scope) = Eligible
     \<and> (\<exists>bound. retentionPolicyByIDOn db (pq_PolicyID r) = Some bound
          \<and> resolveRetentionPolicyOn db scope (rp_Jurisdiction bound) (rp_Legislation bound) (pq_Category r) = Inr (Some p))"
  unfolding bound_policy_gate_def guard_simps by (auto simp: eligibility_gate_Inr)

lemma currentPurgeSnapshotOn_Inr:
  "currentPurgeSnapshotOn db i scope kinds = Inr (cur, h) \<Longrightarrow>
     h = ComputeLifecycleSnapshotHash cur \<and> ls_ObjectID cur = i \<and> ls_BlockingHolds cur = activeBlockingHoldRefsOn db i kinds
     \<and> ls_LifecycleState cur = (case retentionStateOn db i of None \<Rightarrow> PurgeLifecycleStored | Some s \<Rightarrow> rt_LifecycleState s)
     \<and> ls_RequestID cur = (case purgeRequestByObjectOn db i of None \<Rightarrow> '''' | Some r \<Rightarrow> pq_RequestID r)
     \<and> ls_ApprovalIDs cur = approvalIDsOn db (ls_RequestID cur)"
  by (cases "retentionStateOn db i") (auto simp: currentPurgeSnapshotOn_def Let_def guard_simps assembleSnapshot_def)

lemma snapshot_gate_Inr:
  "snapshot_gate db i scope kinds expected = Inr (cur, h) \<longleftrightarrow>
     currentPurgeSnapshotOn db i scope kinds = Inr (cur, h) \<and> ls_BlockingHolds cur = [] \<and> h = expected"
  unfolding snapshot_gate_def guard_simps by (auto split: if_splits)

lemma activeBlockingHoldRefsOn_empty:
  "activeBlockingHoldRefsOn db i kinds = [] \<longleftrightarrow>
     (\<forall>h \<in> set (pd_Holds db). h_ObjectID h = i \<longrightarrow> \<not> HasActiveBlockingHold h kinds)"
proof -
  have "HasActiveBlockingHold h kinds \<longleftrightarrow> h_LiftedAt h = '''' \<and> h_Kind h \<in> set kinds" for h
    by (auto simp: HasActiveBlockingHold_def list_ex_iff)
  moreover have "sort_key f xs = [] \<longleftrightarrow> xs = []" for f :: "EvidenceHold \<Rightarrow> string" and xs
    by (metis length_0_conv length_sort)
  ultimately show ?thesis
    by (auto simp: activeBlockingHoldRefsOn_def filter_empty_conv)
qed

text \<open>
  The object is unblocked: its period is writable, the bound policy re-resolves to an eligible one
  and no active hold of a kind that policy blocks on protects it.
\<close>

definition unblocked :: "PurgeDB \<Rightarrow> EvidencePurgeRequest \<Rightarrow> bool" where
  "unblocked db r \<longleftrightarrow>
     assertPeriodWritable db (purgeRequestScope r) = Inr ()
     \<and> (\<exists>bound p. retentionPolicyByIDOn db (pq_PolicyID r) = Some bound
          \<and> resolveRetentionPolicyOn db (purgeRequestScope r) (rp_Jurisdiction bound) (rp_Legislation bound) (pq_Category r) = Inr (Some p)
          \<and> EvaluateRetentionEligibility p (pq_Period r) = Eligible
          \<and> (\<forall>h \<in> set (pd_Holds db). h_ObjectID h = pq_ObjectID r \<longrightarrow> \<not> HasActiveBlockingHold h (rp_BlockingHoldKinds p)))"

lemma gates_unblocked:
  assumes "bound_policy_gate db r (purgeRequestScope r) = Inr (p, e)"
    and "snapshot_gate db (pq_ObjectID r) (purgeRequestScope r) (rp_BlockingHoldKinds p) expected = Inr (cur, h)"
  shows "unblocked db r"
proof -
  have "activeBlockingHoldRefsOn db (pq_ObjectID r) (rp_BlockingHoldKinds p) = []"
    using assms(2) currentPurgeSnapshotOn_Inr unfolding snapshot_gate_Inr by metis
  then show ?thesis
    using assms(1) unfolding unblocked_def bound_policy_gate_Inr activeBlockingHoldRefsOn_empty
    by (auto simp: purgeRequestScope_def)
qed

lemma unblocked_same_environment: "same_environment db db' \<Longrightarrow> unblocked db' r = unblocked db r"
  unfolding same_environment_def unblocked_def assertPeriodWritable_def retentionPolicyByIDOn_def resolveRetentionPolicyOn_def
  by auto

lemma authorizePurgeAct_Inr:
  "authorizePurgeAct who scope act cat dual requester first = Inr () \<Longrightarrow>
     p_TenantID who = sc_OrganizationID scope \<and> sc_CompanyID scope \<in> set (p_CompanyScopes who) \<and> p_MembershipID who \<noteq> ''''
     \<and> \<not> roleDenied (p_Roles who) \<and> lifecycleRoleAllowed act (p_Roles who) \<and> 1 \<le> assuranceRank (p_Assurance who)
     \<and> (act = ActionSecondApprove \<longrightarrow> dual)
     \<and> (requester \<noteq> '''' \<longrightarrow> p_SubjectID who \<noteq> requester) \<and> (first \<noteq> '''' \<longrightarrow> p_SubjectID who \<noteq> first)"
  unfolding authorizePurgeAct_def
  by (auto simp: lifecycle_Authorize_None split: option.splits if_splits)

section \<open>Execution\<close>

lemma completeExecutionOn_Inr:
  "completeExecutionOn s db r scope exec cur who reason now actor i rec = Inr (db', v) \<longleftrightarrow>
     (\<exists>db1 db2 rcpt db3 db4.
        insertLifecycleEventOn db (lifecycle_event i r PurgeEventExecuted PurgeLifecycleApproved PurgeLifecyclePurged
           (px_IntentReviewedHash exec) (close_hash r scope cur PurgeLifecyclePurged (ls_ApprovalIDs cur)) who reason now) = Inr db1
        \<and> emitObjectReceipt s db1 (pq_ObjectID r) PurgeExecuted (purgeReceiptPayload scope (pq_ObjectID r)
             (px_IntentReviewedHash exec) (close_hash r scope cur PurgeLifecyclePurged (ls_ApprovalIDs cur)) reason (px_ExecutionID exec) who) now
           = Inr (db2, rcpt)
        \<and> completePurgeExecutionRow db2 (px_ExecutionID exec) now actor (case rcpt of None \<Rightarrow> '''' | Some r \<Rightarrow> ReceiptHash r) = Inr db3
        \<and> updatePurgeRequest db3 (pq_RequestID r) False
            (\<lambda>r. r\<lparr>pq_Status := PurgeRequestStatusExecuted, pq_ExecutionID := px_ExecutionID exec\<rparr>) = Inr db4
        \<and> db' = upsertRetentionStateOn db4
           \<lparr>rt_ObjectID = pq_ObjectID r, rt_LifecycleState = PurgeLifecyclePurged, rt_RetentionState = ls_RetentionState cur,
            rt_PolicyID = ls_PolicyID cur, rt_Category = ls_Category cur,
            rt_HasActiveBlockingHold = (length (ls_BlockingHolds cur) > 0),
            rt_CurrentHash = close_hash r scope cur PurgeLifecyclePurged (ls_ApprovalIDs cur), rt_UpdatedAt = now\<rparr>
        \<and> v = \<lparr>er_Request = r\<lparr>pq_Status := PurgeRequestStatusExecuted, pq_ExecutionID := px_ExecutionID exec\<rparr>,
            er_Execution = exec\<lparr>px_State := PurgeExecutionCompleted, px_CompletedAt := now, px_CompletedBy := actor,
              px_CompletionReceiptID := (case rcpt of None \<Rightarrow> '''' | Some r \<Rightarrow> ReceiptHash r)\<rparr>,
            er_IdempotentReplay = False, er_Recovered = rec\<rparr>)"
  unfolding completeExecutionOn_def close_hash_def Let_def guard_simps split_paired_Ex prod.case by auto

lemma completeExecutionOn_evolves:
  "completeExecutionOn s db r scope exec cur who reason now actor i rec = Inr (db', v) \<Longrightarrow> db_evolves db db'"
  unfolding completeExecutionOn_Inr
  by (auto simp: purgeRequestScope_def dest!: event_evolves emit_evolves execution_complete_evolves request_update_evolves
      intro!: evolves_upsert) (meson db_evolves_trans)

lemma convergePurgeOn_evolves:
  "convergePurgeOn s db cmd r scope exec who now i = Inr (db', v) \<Longrightarrow> db_evolves db db'"
  unfolding convergePurgeOn_def
  by (auto simp: guard_simps split: if_splits dest!: completeExecutionOn_evolves intro!: evolves_complete)

lemma executeAndCompleteOn_evolves:
  "executeAndCompleteOn s db disk cmd exec who now i = (disk', Inr (db', v)) \<Longrightarrow> db_evolves db db'"
  unfolding executeAndCompleteOn_def
  by (auto split: sum.splits dest!: completeExecutionOn_evolves)

lemma recoverSameExecutionOn_evolves:
  "recoverSameExecutionOn s db disk cmd r scope who now i = (disk', Inr (db', v)) \<Longrightarrow> db_evolves db db'"
  unfolding recoverSameExecutionOn_def Let_def
  by (auto simp: guard_simps split: option.splits PurgeExecutionState.splits if_splits prod.splits
      dest!: convergePurgeOn_evolves executeAndCompleteOn_evolves intro!: evolves_complete)

lemma execute_open_evolves:
  "execute_open s db cmd r scope obj h who now i = Inr (db', exec) \<Longrightarrow> db_evolves db db'"
  unfolding execute_open_def Let_def
  by (auto simp: guard_simps dest!: execution_insert_evolves event_evolves emit_evolves) (meson db_evolves_trans)

end
