(* ===== verification/Purge_System.thy ===== *)
theory Purge_System
  imports Purge_Ledger
begin

text \<open>
  The purge pipeline as a whole: what ExecutePurge does to the disk, and a step relation in which
  handlers, the two transactions of an execution, crashes between them and writes of the
  environment interleave freely.
\<close>

section \<open>The first transaction\<close>

lemma execute_fresh_Inr:
  assumes "execute_fresh s db disk cmd r scope who now ids = Inr out"
  obtains (opened) obj h db0 db' exec where
      "execute_gates db cmd r scope who = Inr (obj, h)"
      "(db0 = db \<and> purgeIntentExecutionForRequestOn db (pq_RequestID r) (ec_ExecutionID cmd) = None)
         \<or> (db0 = markInterruptedPurgeExecutionsOn db (pq_RequestID r) (ec_ExecutionID cmd) \<and> objectBytesExist disk (eo_RelPath obj))"
      "execute_open s db0 cmd r scope obj h who now (ids 0) = Inr (db', exec)" "out = Opened db' r exec"
  | (converged) obj h stale db' v where
      "execute_gates db cmd r scope who = Inr (obj, h)"
      "purgeIntentExecutionForRequestOn db (pq_RequestID r) (ec_ExecutionID cmd) = Some stale"
      "\<not> objectBytesExist disk (eo_RelPath obj)" "validatePurgeIntentOn db stale r obj"
      "convergePurgeOn s db cmd r scope stale who now (ids 1) = Inr (db', v)" "out = Finished db' v"
proof -
  obtain obj h where g: "execute_gates db cmd r scope who = Inr (obj, h)"
    using assms unfolding execute_fresh_def guard_simps by auto
  let ?st = "purgeIntentExecutionForRequestOn db (pq_RequestID r) (ec_ExecutionID cmd)"
  show thesis
  proof (cases ?st)
    case None
    then show thesis using assms g opened [OF g, of db] unfolding execute_fresh_def Let_def by (auto simp: guard_simps)
  next
    case (Some stale)
    show thesis
    proof (cases "objectBytesExist disk (eo_RelPath obj)")
      case True
      then show thesis using assms g Some opened [OF g, of "markInterruptedPurgeExecutionsOn db (pq_RequestID r) (ec_ExecutionID cmd)"]
        unfolding execute_fresh_def Let_def by (auto simp: guard_simps)
    next
      case False
      then show thesis using assms g Some converged [OF g Some False]
        unfolding execute_fresh_def Let_def by (auto simp: guard_simps split: if_splits)
    qed
  qed
qed

text \<open>The database of an outcome.\<close>

fun outcome_db :: "intent_outcome \<Rightarrow> PurgeDB" where
  "outcome_db (Finished db v) = db"
| "outcome_db (Opened db r exec) = db"

lemma execute_fresh_evolves:
  assumes "execute_fresh s db disk cmd r scope who now ids = Inr out"
  shows "db_evolves db (outcome_db out)"
  using assms
proof (cases rule: execute_fresh_Inr)
  case (opened obj h db0 db' exec)
  have "db_evolves db db0" using opened(2) mark_evolves by auto
  then show ?thesis using execute_open_evolves [OF opened(3)] opened(4) by (auto intro: db_evolves_trans)
next
  case (converged obj h stale db' v)
  then show ?thesis using convergePurgeOn_evolves by auto
qed

text \<open>A transaction leaves the disk alone or removes one object's bytes under the execution gates.\<close>

definition bytes_removed :: "PurgeDB \<Rightarrow> EvidencePurgeExecution \<Rightarrow> disk \<Rightarrow> disk \<Rightarrow> bool" where
  "bytes_removed db exec disk disk' \<longleftrightarrow>
     (\<exists>r obj cur. execution_gates db exec = Inr (r, obj, cur)
        \<and> removeObjectBytes disk (eo_RelPath obj) (pq_ObjectID r) (eo_Size obj) = Inr disk')"

lemma executeAndCompleteOn_disk:
  "executeAndCompleteOn s db disk cmd exec who now i = (disk', res) \<Longrightarrow>
     (disk' = disk \<and> (\<exists>e. res = Inl e)) \<or> bytes_removed db exec disk disk'"
  unfolding executeAndCompleteOn_def bytes_removed_def by (auto split: sum.splits)

lemma recoverSameExecutionOn_cases:
  assumes "recoverSameExecutionOn s db disk cmd r scope who now i = (disk', res)"
  obtains (failed) e where "disk' = disk" "res = Inl e"
  | (closed) exec v where "disk' = disk" "purgeExecutionOn db (ec_ExecutionID cmd) = Some exec" "px_State exec = PurgeExecutionCompleted"
      "res = Inr (completePurgeIdempotencyOn db (sc_OrganizationID scope) (ec_ExecutionID cmd) (pq_RequestID r) (stored_execute v) now, v)"
  | (converged) exec obj where "disk' = disk" "purgeExecutionOn db (ec_ExecutionID cmd) = Some exec" "px_State exec = PurgeExecutionIntent"
      "evidenceObjectByIDOn db (px_ObjectID exec) = Some obj" "validatePurgeIntentOn db exec r obj"
      "\<not> objectBytesExist disk (eo_RelPath obj)" "res = convergePurgeOn s db cmd r scope exec who now i"
  | (executed) exec obj res' where "purgeExecutionOn db (ec_ExecutionID cmd) = Some exec" "px_State exec = PurgeExecutionIntent"
      "evidenceObjectByIDOn db (px_ObjectID exec) = Some obj" "validatePurgeIntentOn db exec r obj"
      "objectBytesExist disk (eo_RelPath obj)" "executeAndCompleteOn s db disk cmd exec who now i = (disk', res')"
      "res = and_then res' (\<lambda>(db', v). Inr (db', v\<lparr>er_Recovered := True\<rparr>))"
proof (cases "purgeExecutionOn db (ec_ExecutionID cmd)")
  case None
  then show thesis using assms failed by (auto simp: recoverSameExecutionOn_def)
next
  case (Some exec)
  show thesis
  proof (cases "px_State exec")
    case PurgeExecutionCompleted
    then show thesis using assms Some closed by (auto simp: recoverSameExecutionOn_def Let_def)
  next
    case PurgeExecutionIntent
    show thesis
    proof (cases "evidenceObjectByIDOn db (px_ObjectID exec)")
      case None
      then show thesis using assms Some PurgeExecutionIntent failed by (auto simp: recoverSameExecutionOn_def)
    next
      case obj: (Some obj)
      show thesis
      proof (cases "validatePurgeIntentOn db exec r obj")
        case False
        then show thesis using assms Some PurgeExecutionIntent obj failed by (auto simp: recoverSameExecutionOn_def)
      next
        case True
        then show thesis using assms Some PurgeExecutionIntent obj converged [OF _ Some PurgeExecutionIntent obj True]
            executed [OF Some PurgeExecutionIntent obj True]
          by (cases "objectBytesExist disk (eo_RelPath obj)") (auto simp: recoverSameExecutionOn_def split: prod.splits)
      qed
    qed
  next
    case PurgeExecutionInterrupted
    then show thesis using assms Some failed by (auto simp: recoverSameExecutionOn_def)
  next
    case PurgeExecutionUnset
    then show thesis using assms Some failed by (auto simp: recoverSameExecutionOn_def)
  qed
qed

lemma executeIntent_cases:
  assumes "executeIntent s db disk cmd who now ids = (disk', res)"
  obtains (failed) e where "disk' = disk" "res = Inl e"
  | (replay) v where "disk' = disk" "res = Inr (Finished db v)" "er_IdempotentReplay v"
  | (recovered) r res' where "purgeRequestByIDOn db (ec_RequestID cmd) = Inr r"
      "recoverSameExecutionOn s db disk cmd r (purgeRequestScope r) who now (ids 1) = (disk', res')"
      "res = and_then res' (\<lambda>(db', v). Inr (Finished db' v))"
  | (fresh) r db1 out where "disk' = disk" "purgeRequestByIDOn db (ec_RequestID cmd) = Inr r"
      "reserveIdempotencyKey db (pq_TenantID r) (ec_ExecutionID cmd)
         (purgeCommandHash (executePurgeCommandShape cmd)) (p_SubjectID who) now = Inr db1"
      "execute_fresh s db1 disk cmd r (purgeRequestScope r) who now ids = Inr out" "res = Inr out"
proof (cases "purgeRequestByIDOn db (ec_RequestID cmd)")
  case (Inl e)
  then show thesis using assms failed by (auto simp: executeIntent_def)
next
  case (Inr r)
  have sc: "sc_OrganizationID (purgeRequestScope r) = pq_TenantID r" by (simp add: purgeRequestScope_def)
  show thesis
  proof (cases "idempotencyRowOn db (pq_TenantID r) (ec_ExecutionID cmd)")
    case None
    define h where "h = purgeCommandHash (executePurgeCommandShape cmd)"
    have d: "disk' = disk" and res: "res = and_then (reserveIdempotencyKey db (pq_TenantID r) (ec_ExecutionID cmd) h (p_SubjectID who) now)
        (\<lambda>db. execute_fresh s db disk cmd r (purgeRequestScope r) who now ids)"
      using assms Inr None sc by (auto simp: executeIntent_def Let_def h_def)
    show thesis
    proof (cases res)
      case (Inl e)
      with d show thesis by (rule failed)
    next
      case out: (Inr out)
      have "and_then (reserveIdempotencyKey db (pq_TenantID r) (ec_ExecutionID cmd) h (p_SubjectID who) now)
        (\<lambda>db. execute_fresh s db disk cmd r (purgeRequestScope r) who now ids) = Inr out"
        using res out by simp
      then obtain db1 where k: "reserveIdempotencyKey db (pq_TenantID r) (ec_ExecutionID cmd) h (p_SubjectID who) now = Inr db1"
        and f: "execute_fresh s db1 disk cmd r (purgeRequestScope r) who now ids = Inr out"
        unfolding and_then_eq_Inr by blast
      show thesis by (rule fresh [OF d Inr k [unfolded h_def] f out])
    qed
  next
    case (Some row)
    show thesis
    proof (cases "ik_CommandHash row \<noteq> purgeCommandHash (executePurgeCommandShape cmd) \<or> ik_ActorBinding row \<noteq> p_SubjectID who")
      case True
      then show thesis using assms Inr Some sc failed by (auto simp: executeIntent_def Let_def)
    next
      case False
      show thesis
      proof (cases "ik_EntityID row = '''' \<or> ik_Result row = None")
        case True
        then show thesis using assms Inr Some sc False recovered [OF Inr]
          by (auto simp: executeIntent_def Let_def split: prod.splits)
      next
        case finished: False
        then show thesis using assms Inr Some sc False replay
          by (auto simp: executeIntent_def Let_def)
      qed
    qed
  qed
qed

lemma executeIntent_evolves:
  assumes "executeIntent s db disk cmd who now ids = (disk', Inr out)"
  shows "db_evolves db (outcome_db out)"
  using assms
proof (cases rule: executeIntent_cases)
  case (recovered r res')
  then obtain db' v where "res' = Inr (db', v)" "out = Finished db' v" by (cases res') auto
  then show ?thesis using recovered recoverSameExecutionOn_evolves by auto
next
  case (fresh r db1 out')
  then have "db_evolves db1 (outcome_db out)" using execute_fresh_evolves by auto
  moreover have "db_evolves db db1" using fresh reserve_evolves by blast
  ultimately show ?thesis by (rule db_evolves_trans [rotated])
qed simp_all

lemma executeIntent_disk:
  assumes "executeIntent s db disk cmd who now ids = (disk', res)"
  shows "disk' = disk \<or> (\<exists>exec. purgeExecutionOn db (ec_ExecutionID cmd) = Some exec
     \<and> px_State exec = PurgeExecutionIntent \<and> bytes_removed db exec disk disk')"
  using assms
proof (cases rule: executeIntent_cases)
  case (recovered r res')
  from recovered(2) show ?thesis
    by (cases rule: recoverSameExecutionOn_cases) (use executeAndCompleteOn_disk in blast)+
qed simp_all

section \<open>Frames\<close>

text \<open>The successful guarded writes as record updates; a stage of a handler is their composition.\<close>

lemma reserve_Inr: "reserveIdempotencyKey db t k h a now = Inr db' \<Longrightarrow> \<exists>ks. db' = db\<lparr>pd_Keys := ks\<rparr>"
  by (auto simp: reserveIdempotencyKey_def split: if_splits)

lemma complete_eq: "\<exists>ks. completePurgeIdempotencyOn db t k i v now = db\<lparr>pd_Keys := ks\<rparr>"
  by (auto simp: completePurgeIdempotencyOn_def)

lemma event_Inr: "insertLifecycleEventOn db e = Inr db' \<Longrightarrow> db' = db\<lparr>pd_Events := pd_Events db @ [e]\<rparr>"
  by (auto simp: insertLifecycleEventOn_def split: if_splits)

lemma approval_Inr: "insertPurgeApprovalOn db a = Inr db' \<Longrightarrow> db' = db\<lparr>pd_Approvals := pd_Approvals db @ [a]\<rparr>"
  by (auto simp: insertPurgeApprovalOn_def split: if_splits)

lemma request_insert_Inr:
  "insertPurgeRequestOn db r = Inr db' \<Longrightarrow> db' = db\<lparr>pd_Requests := pd_Requests db @ [r]\<rparr>
     \<and> (\<forall>x \<in> set (pd_Requests db). pq_RequestID x \<noteq> pq_RequestID r \<and> pq_ObjectID x \<noteq> pq_ObjectID r)"
  by (auto simp: insertPurgeRequestOn_def list_ex_iff split: if_splits)

lemma request_update_Inr:
  "updatePurgeRequest db i ev f = Inr db' \<Longrightarrow>
     db' = db\<lparr>pd_Requests := map (\<lambda>r. if pq_RequestID r = i then f r else r) (pd_Requests db)\<rparr>"
  by (auto simp: updatePurgeRequest_def split: if_splits)

lemma upsert_eq: "\<exists>ss. upsertRetentionStateOn db s = db\<lparr>pd_States := ss\<rparr>"
  by (auto simp: upsertRetentionStateOn_def)

lemma emit_Inr: "emitObjectReceipt s db i a p now = Inr (db', r) \<Longrightarrow> \<exists>rs. db' = db\<lparr>pd_Receipts := rs\<rparr>"
  by (auto simp: emitObjectReceipt_def and_then_eq_Inr)

lemma request_row_frame:
  "request_row db cmd scope who policy el now i = Inr (db', r) \<Longrightarrow>
     pd_Executions db' = pd_Executions db \<and> pd_Approvals db' = pd_Approvals db
     \<and> ((\<exists>f. db' = db\<lparr>pd_Requests := map f (pd_Requests db)\<rparr> \<and> (\<forall>x. pq_RequestID (f x) = pq_RequestID x
            \<and> pq_ObjectID (f x) = pq_ObjectID x \<and> (f x = x \<or> pq_Status (f x) = PurgeRequestStatusRequested)))
        \<or> (db' = db\<lparr>pd_Requests := pd_Requests db @ [r]\<rparr> \<and> pq_Status r = PurgeRequestStatusRequested
           \<and> (\<forall>x \<in> set (pd_Requests db). pq_RequestID x \<noteq> pq_RequestID r \<and> pq_ObjectID x \<noteq> pq_ObjectID r)))"
proof (cases "purgeRequestByObjectOn db (rc_ObjectID cmd)")
  case None
  moreover assume "request_row db cmd scope who policy el now i = Inr (db', r)"
  ultimately show ?thesis
    unfolding request_row_def Let_def
    by (auto simp: guard_simps dest!: request_insert_Inr)
next
  case (Some e)
  moreover assume a: "request_row db cmd scope who policy el now i = Inr (db', r)"
  define f where "f = (\<lambda>r :: EvidencePurgeRequest. r\<lparr>pq_Category := rp_Category policy, pq_PolicyID := rp_PolicyID policy,
                   pq_RetentionStateSnapshot := el, pq_ReviewedLifecycleHash := rc_ExpectedLifecycleHash cmd,
                   pq_Status := PurgeRequestStatusRequested, pq_RequestedAt := now, pq_RequestedBy := p_SubjectID who,
                   pq_ApprovedAt := ''''\<rparr>)"
  from a Some have "updatePurgeRequest db (pq_RequestID e) True f = Inr db'"
    unfolding request_row_def Let_def f_def by (auto simp: guard_simps split: if_splits)
  from request_update_Inr [OF this] show ?thesis
    by (intro conjI disjI1 exI [of _ "\<lambda>r. if pq_RequestID r = pq_RequestID e then f r else r"])
       (simp_all add: f_def)
qed

text \<open>The tables the execution protocol depends on are untouched.\<close>

definition core_frame :: "PurgeDB \<Rightarrow> PurgeDB \<Rightarrow> bool" where
  "core_frame db db' \<longleftrightarrow> pd_Objects db' = pd_Objects db \<and> pd_Executions db' = pd_Executions db
     \<and> pd_Approvals db' = pd_Approvals db \<and> pd_Requests db' = pd_Requests db"

lemma request_binding_frame:
  "request_binding s db cmd scope who policy el cur r now i = Inr db' \<Longrightarrow> core_frame db db'"
  unfolding request_binding_def Let_def core_frame_def
  by (cases "ls_PolicyID cur = ''''") (auto simp: guard_simps dest!: event_Inr emit_Inr)

lemma request_record_frame:
  "request_record s db cmd scope who policy el cur h r now i = Inr db' \<Longrightarrow> core_frame db db'"
  unfolding request_record_def Let_def core_frame_def
  by (auto simp: guard_simps upsertRetentionStateOn_def dest!: event_Inr emit_Inr)

text \<open>
  The effect of a handler on the tables the execution protocol depends on: nothing on the
  executions ledger, one decision at most, and the request rows refreshed in place or extended
  by a new requested one.
\<close>

definition pipeline_effect :: "PurgeDB \<Rightarrow> PurgeDB \<Rightarrow> bool" where
  "pipeline_effect db db' \<longleftrightarrow>
     pd_Objects db' = pd_Objects db \<and> pd_Executions db' = pd_Executions db
     \<and> prefix (pd_Approvals db) (pd_Approvals db')
     \<and> ((\<exists>f. pd_Requests db' = map f (pd_Requests db) \<and> (\<forall>x. pq_RequestID (f x) = pq_RequestID x
            \<and> pq_ObjectID (f x) = pq_ObjectID x
            \<and> (pq_Status (f x) = PurgeRequestStatusApproved \<longrightarrow> pq_Status x = PurgeRequestStatusApproved
                \<or> (\<exists>a \<in> set (pd_Approvals db'). pa_RequestID a = pq_RequestID x \<and> pa_Decision a = PurgeApprovalDecisionApproved))))
        \<or> (\<exists>r. pd_Requests db' = pd_Requests db @ [r] \<and> pq_Status r = PurgeRequestStatusRequested
           \<and> (\<forall>x \<in> set (pd_Requests db). pq_RequestID x \<noteq> pq_RequestID r \<and> pq_ObjectID x \<noteq> pq_ObjectID r)))"

lemma pipeline_effect_refl [simp]: "pipeline_effect db db"
  unfolding pipeline_effect_def by (intro conjI disjI1 exI [of _ id]) simp_all

lemma request_act_effect:
  assumes "request_act s db cmd scope who now ids = Inr (db', v)"
  shows "pipeline_effect db db'"
proof -
  obtain db1 policy el cur h db2 r db3 db4 where
    k: "reserveIdempotencyKey db (sc_OrganizationID scope) (rc_RequestID cmd)
          (purgeCommandHash (requestPurgeCommandShape cmd)) (p_SubjectID who) now = Inr db1"
    and row: "request_row db1 cmd scope who policy el now (ids 0) = Inr (db2, r)"
    and b: "request_binding s db2 cmd scope who policy el cur r now (ids 1) = Inr db3"
    and rec: "request_record s db3 cmd scope who policy el cur h r now (ids 2) = Inr db4"
    and db': "db' = completePurgeIdempotencyOn db4 (sc_OrganizationID scope) (rc_RequestID cmd) (pq_RequestID r) (stored_request r) now"
    using assms unfolding request_act_Inr by blast
  have same: "pd_Requests db' = pd_Requests db2" "pd_Executions db' = pd_Executions db2" "pd_Approvals db' = pd_Approvals db2"
      "pd_Objects db' = pd_Objects db2"
    using request_binding_frame [OF b] request_record_frame [OF rec]
    by (auto simp: db' completePurgeIdempotencyOn_def core_frame_def)
  have d1: "pd_Requests db1 = pd_Requests db" "pd_Executions db1 = pd_Executions db" "pd_Approvals db1 = pd_Approvals db"
      "pd_Objects db1 = pd_Objects db"
    using reserve_Inr [OF k] by auto
  from request_row_frame [OF row] show ?thesis
  proof (elim conjE disjE exE)
    fix f assume "db2 = db1\<lparr>pd_Requests := map f (pd_Requests db1)\<rparr>"
      and f: "\<forall>x. pq_RequestID (f x) = pq_RequestID x \<and> pq_ObjectID (f x) = pq_ObjectID x \<and> (f x = x \<or> pq_Status (f x) = PurgeRequestStatusRequested)"
    then show ?thesis unfolding pipeline_effect_def using d1 same
      by (intro conjI disjI1 exI [of _ f]) (auto, (metis PurgeRequestStatus.distinct(1))+)
  next
    assume "db2 = db1\<lparr>pd_Requests := pd_Requests db1 @ [r]\<rparr>" "pq_Status r = PurgeRequestStatusRequested"
      "\<forall>x \<in> set (pd_Requests db1). pq_RequestID x \<noteq> pq_RequestID r \<and> pq_ObjectID x \<noteq> pq_ObjectID r"
    then show ?thesis unfolding pipeline_effect_def using d1 same
      by (intro conjI disjI2 exI [of _ r]) auto
  qed
qed

definition approve_post :: "RetentionPolicy \<Rightarrow> int \<Rightarrow> PurgeLifecycleState" where
  "approve_post p order = (if \<not> rp_DualApprovalRequired p \<or> order = 2 then PurgeLifecycleApproved else PurgeLifecycleRequested)"

definition approve_hash :: "PurgeDB \<Rightarrow> EvidencePurgeRequest \<Rightarrow> Scope \<Rightarrow> RetentionPolicy \<Rightarrow> RetentionEligibility
    \<Rightarrow> LifecycleSnapshot \<Rightarrow> int \<Rightarrow> string \<Rightarrow> string" where
  "approve_hash db r scope p el cur order aid =
     ComputeLifecycleSnapshotHash (assembleSnapshot (pq_ObjectID r) scope (approve_post p order) el
       (rp_PolicyID p) (rp_Category p) (rp_Version p) (ls_BlockingHolds cur) (pq_RequestID r) (approvalIDsOn db (pq_RequestID r) @ [aid]))"

definition approve_row :: "string \<Rightarrow> EvidencePurgeRequest \<Rightarrow> int \<Rightarrow> string \<Rightarrow> string \<Rightarrow> Principal \<Rightarrow> string \<Rightarrow> string \<Rightarrow> EvidencePurgeApproval" where
  "approve_row aid r order h rh who reason now = \<lparr>pa_ApprovalID = aid, pa_RequestID = pq_RequestID r, pa_ApprovalOrder = order,
     pa_Decision = PurgeApprovalDecisionApproved, pa_ReviewedHash = h, pa_ResultingHash = rh,
     pa_PrincipalSnapshot = PrincipalSnapshot_of who, pa_Reason = reason, pa_PolicyVersion = LifecyclePolicyVersion, pa_CreatedAt = now\<rparr>"

lemma approve_record_Inr:
  "approve_record s db cmd r scope who p el cur h order now aid eid = Inr (db', r', ap) \<longleftrightarrow>
     ap = approve_row aid r order h (approve_hash db r scope p el cur order aid) who (ac_Reason cmd) now
     \<and> r' = (if \<not> rp_DualApprovalRequired p \<or> order = 2 then r\<lparr>pq_Status := PurgeRequestStatusApproved, pq_ApprovedAt := now\<rparr> else r)
     \<and> (\<exists>db1 db2 db3 db4 rec. insertPurgeApprovalOn db ap = Inr db1
        \<and> (if \<not> rp_DualApprovalRequired p \<or> order = 2
           then updatePurgeRequest db1 (pq_RequestID r) False (\<lambda>x. x\<lparr>pq_Status := PurgeRequestStatusApproved, pq_ApprovedAt := now\<rparr>)
           else Inr db1) = Inr db2
        \<and> insertLifecycleEventOn db2 (lifecycle_event eid r PurgeEventApproved PurgeLifecycleRequested (approve_post p order) h
             (approve_hash db r scope p el cur order aid) who (ac_Reason cmd) now) = Inr db3
        \<and> emitObjectReceipt s db3 (pq_ObjectID r) PurgeApproved (purgeReceiptPayload scope (pq_ObjectID r) h
             (approve_hash db r scope p el cur order aid) (ac_Reason cmd) '''' who) now = Inr (db4, rec)
        \<and> db' = upsertRetentionStateOn db4
           \<lparr>rt_ObjectID = pq_ObjectID r, rt_LifecycleState = approve_post p order, rt_RetentionState = el,
            rt_PolicyID = rp_PolicyID p, rt_Category = rp_Category p,
            rt_HasActiveBlockingHold = (length (ls_BlockingHolds cur) > 0),
            rt_CurrentHash = approve_hash db r scope p el cur order aid, rt_UpdatedAt = now\<rparr>)"
  unfolding approve_record_def Let_def approve_post_def [symmetric] approve_hash_def [symmetric]
  unfolding approve_row_def [symmetric]
  unfolding guard_simps split_paired_Ex prod.case sum.inject prod.inject
  by (rule iffI; elim exE conjE; hypsubst; blast)

lemma approve_record_effect:
  assumes "approve_record s db cmd r scope who p el cur h order now aid eid = Inr (db', r', ap)"
  shows "pipeline_effect db db' \<and> pd_Approvals db' = pd_Approvals db @ [ap]
     \<and> pa_ApprovalID ap = aid \<and> pa_RequestID ap = pq_RequestID r \<and> pa_Decision ap = PurgeApprovalDecisionApproved
     \<and> pa_PrincipalSnapshot ap = PrincipalSnapshot_of who \<and> pa_ApprovalOrder ap = order \<and> pa_ReviewedHash ap = h"
proof -
  define mark where "mark = (\<lambda>x :: EvidencePurgeRequest. x\<lparr>pq_Status := PurgeRequestStatusApproved, pq_ApprovedAt := now\<rparr>)"
  let ?f = "\<lambda>x. if pq_RequestID x = pq_RequestID r then mark x else x"
  note rec = assms [unfolded approve_record_Inr]
  have ap: "pa_ApprovalID ap = aid" "pa_RequestID ap = pq_RequestID r" "pa_Decision ap = PurgeApprovalDecisionApproved"
      "pa_PrincipalSnapshot ap = PrincipalSnapshot_of who" "pa_ApprovalOrder ap = order" "pa_ReviewedHash ap = h"
    using rec by (simp_all add: approve_row_def)
  obtain db1 db2 db3 db4 rc e1 pl row where a: "insertPurgeApprovalOn db ap = Inr db1"
    and u: "(if \<not> rp_DualApprovalRequired p \<or> order = 2 then updatePurgeRequest db1 (pq_RequestID r) False mark else Inr db1) = Inr db2"
    and e: "insertLifecycleEventOn db2 e1 = Inr db3"
    and m: "emitObjectReceipt s db3 (pq_ObjectID r) PurgeApproved pl now = Inr (db4, rc)"
    and db': "db' = upsertRetentionStateOn db4 row"
    using rec unfolding mark_def by blast
  have db1: "db1 = db\<lparr>pd_Approvals := pd_Approvals db @ [ap]\<rparr>" by (rule approval_Inr [OF a])
  have fr: "pd_Requests db' = pd_Requests db2" "pd_Objects db' = pd_Objects db2" "pd_Executions db' = pd_Executions db2"
      "pd_Approvals db' = pd_Approvals db2"
    using event_Inr [OF e] emit_Inr [OF m] db' by (auto simp: upsertRetentionStateOn_def)
  have "(db2 = db1\<lparr>pd_Requests := map ?f (pd_Requests db1)\<rparr>) \<or> db2 = db1"
    using u request_update_Inr by (auto split: if_splits)
  then have "pipeline_effect db db'"
  proof
    assume db2: "db2 = db1\<lparr>pd_Requests := map ?f (pd_Requests db1)\<rparr>"
    have "pd_Requests db' = map ?f (pd_Requests db)" by (simp add: fr db2 db1)
    moreover have "\<forall>x. pq_RequestID (?f x) = pq_RequestID x \<and> pq_ObjectID (?f x) = pq_ObjectID x
        \<and> (pq_Status (?f x) = PurgeRequestStatusApproved \<longrightarrow> pq_Status x = PurgeRequestStatusApproved
            \<or> (\<exists>a \<in> set (pd_Approvals db'). pa_RequestID a = pq_RequestID x \<and> pa_Decision a = PurgeApprovalDecisionApproved))"
      using ap by (auto simp: mark_def fr db2 db1)
    ultimately show ?thesis unfolding pipeline_effect_def
      by (intro conjI disjI1 exI [of _ ?f]) (simp_all add: fr db2 db1)
  next
    assume db2: "db2 = db1"
    show ?thesis unfolding pipeline_effect_def
      by (intro conjI disjI1 exI [of _ id]) (simp_all add: fr db2 db1)
  qed
  moreover have "pd_Approvals db2 = pd_Approvals db1"
    using u by (auto split: if_splits dest!: request_update_Inr)
  ultimately show ?thesis using ap by (simp add: fr db1)
qed

lemma pipeline_effect_keys: "pipeline_effect (db\<lparr>pd_Keys := ks\<rparr>) db' \<longleftrightarrow> pipeline_effect db db'"
  "pipeline_effect db (db'\<lparr>pd_Keys := ks\<rparr>) \<longleftrightarrow> pipeline_effect db db'"
  by (simp_all add: pipeline_effect_def)

lemma pipeline_effect_reserve:
  "reserveIdempotencyKey db t k h a now = Inr db1 \<Longrightarrow> pipeline_effect db1 db' \<Longrightarrow> pipeline_effect db db'"
  by (auto simp: pipeline_effect_keys dest!: reserve_Inr)

lemma pipeline_effect_complete: "pipeline_effect db db' \<Longrightarrow> pipeline_effect db (completePurgeIdempotencyOn db' t k i v now)"
  by (simp add: completePurgeIdempotencyOn_def pipeline_effect_keys)

lemma approve_act_effect: "approve_act s db cmd r who now ids = Inr (db', v) \<Longrightarrow> pipeline_effect db db'"
  unfolding approve_act_Inr
  by (auto dest!: approve_record_effect intro!: pipeline_effect_complete elim!: pipeline_effect_reserve)

lemma close_flip_frame:
  assumes "close_flip db r a = Inr (db', r')"
  shows "\<exists>f. db' = db\<lparr>pd_Requests := map f (pd_Requests db)\<rparr> \<and> (\<forall>x. pq_RequestID (f x) = pq_RequestID x
     \<and> pq_ObjectID (f x) = pq_ObjectID x \<and> (f x = x \<or> pq_Status (f x) \<noteq> PurgeRequestStatusApproved))"
proof (cases "pq_Status r = PurgeRequestStatusRequested \<or> pq_Status r = PurgeRequestStatusApproved")
  case True
  define f where "f = (\<lambda>x :: EvidencePurgeRequest. x\<lparr>pq_Status := close_status (pq_Status r) a\<rparr>)"
  have "close_status (pq_Status r) a \<noteq> PurgeRequestStatusApproved" using True by (auto simp: close_status_def)
  moreover have "updatePurgeRequest db (pq_RequestID r) False f = Inr db'"
    using assms True unfolding close_flip_def Let_def f_def by (auto simp: guard_simps)
  ultimately show ?thesis
    using request_update_Inr [of db "pq_RequestID r" False f db']
    by (intro exI [of _ "\<lambda>x. if pq_RequestID x = pq_RequestID r then f x else x"]) (auto simp: f_def)
next
  case False
  then have "db' = db" using assms unfolding close_flip_def Let_def by auto
  then show ?thesis by (intro exI [of _ id]) simp
qed

lemma close_record_effect:
  assumes "close_record s db r scope now who cur h t = Inr (db', r', dec)"
  shows "pipeline_effect db db'"
proof -
  obtain post h2 d ev act where t: "t = (post, h2, d, ev, act)" by (cases t) auto
  obtain db2 db3 db4 db5 rec row where w: "close_flip db r (le_Action ev) = Inr (db2, r')"
    "(case d of None \<Rightarrow> Inr db2 | Some d \<Rightarrow> insertPurgeApprovalOn db2 d) = Inr db3"
    "insertLifecycleEventOn db3 ev = Inr db4"
    "emitObjectReceipt s db4 (pq_ObjectID r) act
       (purgeReceiptPayload scope (pq_ObjectID r) h h2 (le_Reason ev) '''' who) now = Inr (db5, rec)"
    "db' = upsertRetentionStateOn db5 row"
    using assms unfolding t close_record_Inr by blast
  obtain f where f: "db2 = db\<lparr>pd_Requests := map f (pd_Requests db)\<rparr>" "\<And>x. pq_RequestID (f x) = pq_RequestID x
     \<and> pq_ObjectID (f x) = pq_ObjectID x \<and> (f x = x \<or> pq_Status (f x) \<noteq> PurgeRequestStatusApproved)"
    using close_flip_frame [OF w(1)] by blast
  have "pd_Requests db3 = pd_Requests db2 \<and> pd_Objects db3 = pd_Objects db2 \<and> pd_Executions db3 = pd_Executions db2
      \<and> prefix (pd_Approvals db2) (pd_Approvals db3)"
    using w(2) by (cases d) (auto dest!: approval_Inr)
  then have "pd_Requests db' = map f (pd_Requests db) \<and> pd_Objects db' = pd_Objects db \<and> pd_Executions db' = pd_Executions db
      \<and> prefix (pd_Approvals db) (pd_Approvals db')"
    using event_Inr [OF w(3)] emit_Inr [OF w(4)] f(1) by (auto simp: w(5) upsertRetentionStateOn_def)
  then show ?thesis unfolding pipeline_effect_def using f(2)
    by (intro conjI disjI1 exI [of _ f]) (simp, simp, simp, simp, metis)
qed

lemma closePurgeTransition_effect:
  assumes "closePurgeTransition s db r scope key hash actor now who kinds authz gate tr = Inr (db', r', dec)"
  shows "pipeline_effect db db'"
  using assms close_record_effect pipeline_effect_reserve unfolding closePurgeTransition_Inr by meson

lemma reject_act_effect: "reject_act s db cmd r who now ids = Inr (db', v) \<Longrightarrow> pipeline_effect db db'"
  unfolding reject_act_def Let_def
  by (auto simp: and_then_eq_Inr dest!: closePurgeTransition_effect intro!: pipeline_effect_complete)

lemma cancel_act_effect: "cancel_act s db cmd r who now ids = Inr (db', v) \<Longrightarrow> pipeline_effect db db'"
  unfolding cancel_act_def Let_def
  by (auto simp: and_then_eq_Inr dest!: closePurgeTransition_effect intro!: pipeline_effect_complete)

lemma withdraw_act_effect: "withdraw_act s db cmd r who now ids = Inr (db', v) \<Longrightarrow> pipeline_effect db db'"
  unfolding withdraw_act_def Let_def
  by (auto simp: and_then_eq_Inr dest!: closePurgeTransition_effect intro!: pipeline_effect_complete)

text \<open>The five handlers.\<close>

lemma handlers_effect:
  "RequestPurge s db rq who now ids = Inr (db', v1) \<Longrightarrow> pipeline_effect db db'"
  "ApprovePurge s db ap who now ids = Inr (db', v2) \<Longrightarrow> pipeline_effect db db'"
  "RejectPurge s db cl who now ids = Inr (db', v3) \<Longrightarrow> pipeline_effect db db'"
  "CancelPurge s db cn who now ids = Inr (db', v4) \<Longrightarrow> pipeline_effect db db'"
  "WithdrawPurge s db cl who now ids = Inr (db', v5) \<Longrightarrow> pipeline_effect db db'"
  using RequestPurge_Inr request_act_effect ApprovePurge_Inr approve_act_effect RejectPurge_Inr reject_act_effect
    CancelPurge_Inr cancel_act_effect WithdrawPurge_Inr withdraw_act_effect pipeline_effect_refl
  by metis+

end
