(* ===== verification/Purge_Safety.thy ===== *)
theory Purge_Safety
  imports Purge_System
begin

text \<open>
  The purge pipeline as a step relation over the database, the disk and the executions in flight,
  and the safety it keeps whatever the interleaving: no object ever loses its bytes without a
  recorded, approved purge. A crash is a step: it drops an execution in flight, or keeps what a
  transaction did to the disk while its database writes are rolled back.
\<close>

section \<open>The effect of a completion\<close>

definition completion_effect :: "PurgeDB \<Rightarrow> PurgeDB \<Rightarrow> bool" where
  "completion_effect db db' \<longleftrightarrow>
     pd_Objects db' = pd_Objects db \<and> pd_Approvals db' = pd_Approvals db
     \<and> (\<exists>f. pd_Executions db' = map f (pd_Executions db)
          \<and> (\<forall>e. px_ExecutionID (f e) = px_ExecutionID e \<and> px_RequestID (f e) = px_RequestID e
               \<and> px_ObjectID (f e) = px_ObjectID e \<and> px_PreRemovalHash (f e) = px_PreRemovalHash e \<and> px_Size (f e) = px_Size e
               \<and> (px_State (f e) = px_State e \<or> px_State (f e) = PurgeExecutionCompleted)))
     \<and> (\<exists>g. pd_Requests db' = map g (pd_Requests db)
          \<and> (\<forall>r. pq_RequestID (g r) = pq_RequestID r \<and> pq_ObjectID (g r) = pq_ObjectID r
               \<and> (g r = r \<or> pq_Status (g r) = PurgeRequestStatusExecuted)))"

lemma completion_effect_keys:
  "completion_effect db (completePurgeIdempotencyOn db' t k i v now) \<longleftrightarrow> completion_effect db db'"
  by (simp add: completion_effect_def completePurgeIdempotencyOn_def)

lemma completion_effect_refl [simp]: "completion_effect db db"
  unfolding completion_effect_def by (intro conjI exI [of _ id]) simp_all

lemma execution_complete_Inr:
  "completePurgeExecutionRow db i now a rid = Inr db' \<Longrightarrow>
     db' = db\<lparr>pd_Executions := map (\<lambda>e. if px_ExecutionID e = i \<and> px_State e = PurgeExecutionIntent
        then e\<lparr>px_State := PurgeExecutionCompleted, px_CompletedAt := now, px_CompletedBy := a, px_CompletionReceiptID := rid\<rparr>
        else e) (pd_Executions db)\<rparr>"
  by (auto simp: completePurgeExecutionRow_def Let_def split: if_splits)

lemma completeExecutionOn_effect:
  assumes "completeExecutionOn s db r scope exec cur who reason now actor i rec = Inr (db', v)"
  shows "completion_effect db db'"
proof -
  define rid where "rid rcpt = (case rcpt of None \<Rightarrow> '''' | Some r \<Rightarrow> ReceiptHash r)" for rcpt
  define f where "f rcpt = (\<lambda>e :: EvidencePurgeExecution. if px_ExecutionID e = px_ExecutionID exec \<and> px_State e = PurgeExecutionIntent
        then e\<lparr>px_State := PurgeExecutionCompleted, px_CompletedAt := now, px_CompletedBy := actor, px_CompletionReceiptID := rid rcpt\<rparr>
        else e)" for rcpt
  define g where "g = (\<lambda>x :: EvidencePurgeRequest. if pq_RequestID x = pq_RequestID r
        then x\<lparr>pq_Status := PurgeRequestStatusExecuted, pq_ExecutionID := px_ExecutionID exec\<rparr> else x)"
  obtain db1 db2 rcpt db3 db4 ev pl row where
      e: "insertLifecycleEventOn db ev = Inr db1" and m: "emitObjectReceipt s db1 (pq_ObjectID r) PurgeExecuted pl now = Inr (db2, rcpt)"
    and x: "completePurgeExecutionRow db2 (px_ExecutionID exec) now actor (rid rcpt) = Inr db3"
    and u: "updatePurgeRequest db3 (pq_RequestID r) False
            (\<lambda>r. r\<lparr>pq_Status := PurgeRequestStatusExecuted, pq_ExecutionID := px_ExecutionID exec\<rparr>) = Inr db4"
    and db': "db' = upsertRetentionStateOn db4 row"
    using assms unfolding completeExecutionOn_Inr rid_def by blast
  have 1: "pd_Executions db' = map (f rcpt) (pd_Executions db)" "pd_Requests db' = map g (pd_Requests db)"
      "pd_Objects db' = pd_Objects db" "pd_Approvals db' = pd_Approvals db"
    using event_Inr [OF e] emit_Inr [OF m] execution_complete_Inr [OF x] request_update_Inr [OF u]
    by (auto simp: db' upsertRetentionStateOn_def f_def g_def)
  show ?thesis unfolding completion_effect_def 1
    by (intro conjI exI [of _ "f rcpt"] exI [of _ g]) (simp_all add: f_def g_def)
qed

lemma convergePurgeOn_effect:
  "convergePurgeOn s db cmd r scope exec who now i = Inr (db', v) \<Longrightarrow> completion_effect db db'"
  unfolding convergePurgeOn_def
  by (auto simp: guard_simps completion_effect_keys split: if_splits dest!: completeExecutionOn_effect)

lemma executeAndCompleteOn_effect:
  "executeAndCompleteOn s db disk cmd exec who now i = (disk', Inr (db', v)) \<Longrightarrow> completion_effect db db'"
  unfolding executeAndCompleteOn_def by (auto split: sum.splits dest!: completeExecutionOn_effect)

lemma recoverSameExecutionOn_effect:
  assumes "recoverSameExecutionOn s db disk cmd r scope who now i = (disk', Inr (db', v))"
  shows "completion_effect db db'"
  using assms
proof (cases rule: recoverSameExecutionOn_cases)
  case (closed exec v')
  then show ?thesis by (simp add: completion_effect_keys)
next
  case (converged exec obj)
  then show ?thesis using convergePurgeOn_effect by metis
next
  case (executed exec obj res')
  then obtain v' where "res' = Inr (db', v')" by (cases res') auto
  with executed show ?thesis using executeAndCompleteOn_effect by blast
qed simp

text \<open>Opening an execution appends its intent row, after the stale ones were interrupted.\<close>

definition open_effect :: "PurgeDB \<Rightarrow> EvidencePurgeExecution \<Rightarrow> PurgeDB \<Rightarrow> bool" where
  "open_effect db exec db' \<longleftrightarrow>
     pd_Objects db' = pd_Objects db \<and> pd_Approvals db' = pd_Approvals db \<and> pd_Requests db' = pd_Requests db
     \<and> (\<exists>f. pd_Executions db' = map f (pd_Executions db) @ [exec]
          \<and> (\<forall>e. px_ExecutionID (f e) = px_ExecutionID e \<and> px_RequestID (f e) = px_RequestID e
               \<and> px_ObjectID (f e) = px_ObjectID e \<and> px_PreRemovalHash (f e) = px_PreRemovalHash e \<and> px_Size (f e) = px_Size e
               \<and> (f e = e \<or> px_RequestID e = px_RequestID exec)))"

lemma execute_open_effect:
  assumes "execute_open s db cmd r scope obj h who now i = Inr (db', exec)"
  shows "pd_Executions db' = pd_Executions db @ [exec] \<and> exec = intent_row cmd r obj h now who
     \<and> pd_Objects db' = pd_Objects db \<and> pd_Approvals db' = pd_Approvals db \<and> pd_Requests db' = pd_Requests db"
  using assms unfolding execute_open_def Let_def guard_simps split_paired_Ex prod.case
  by (auto simp: insertPurgeExecutionOn_def split: if_splits dest!: event_Inr emit_Inr)

lemma execute_fresh_effect:
  assumes "execute_fresh s db disk cmd r scope who now ids = Inr out"
  shows "(\<exists>db' v. out = Finished db' v \<and> completion_effect db db')
     \<or> (\<exists>db' exec obj h. out = Opened db' r exec \<and> open_effect db exec db' \<and> exec = intent_row cmd r obj h now who
          \<and> execute_gates db cmd r scope who = Inr (obj, h))"
  using assms
proof (cases rule: execute_fresh_Inr)
  case (opened obj h db0 db' exec)
  define f where "f = (\<lambda>e :: EvidencePurgeExecution. if px_RequestID e = pq_RequestID r \<and> px_State e = PurgeExecutionIntent
     \<and> px_ExecutionID e \<noteq> ec_ExecutionID cmd then e\<lparr>px_State := PurgeExecutionInterrupted\<rparr> else e)"
  have "(pd_Executions db0 = map id (pd_Executions db) \<or> pd_Executions db0 = map f (pd_Executions db))
      \<and> pd_Objects db0 = pd_Objects db \<and> pd_Approvals db0 = pd_Approvals db \<and> pd_Requests db0 = pd_Requests db"
    using opened(2) by (auto simp: markInterruptedPurgeExecutionsOn_def f_def)
  with execute_open_effect [OF opened(3)] have "open_effect db exec db'"
    unfolding open_effect_def
    by (elim conjE disjE) (intro conjI exI [of _ id], simp_all, intro exI [of _ f], auto simp: f_def intent_row_def)
  then show ?thesis using opened execute_open_effect [OF opened(3)] by blast
next
  case (converged obj h stale db' v)
  then show ?thesis using convergePurgeOn_effect by blast
qed

section \<open>The system and its steps\<close>

text \<open>
  An execution in flight is what the second transaction of ExecutePurge still holds after the
  first one committed: the command, the request and intent row it read, the acting principal, the
  time and the id of the completion event.
\<close>

record PurgeFlight =
  fl_Cmd :: ExecutePurgeCommand
  fl_Request :: EvidencePurgeRequest
  fl_Exec :: EvidencePurgeExecution
  fl_Who :: Principal
  fl_Now :: string
  fl_EventID :: string

definition finish_world :: "PurgeFlight \<Rightarrow> PurgeDB \<Rightarrow> ExecutePurgeResult \<Rightarrow> disk \<Rightarrow> PurgeWorld" where
  "finish_world x db v disk = \<lparr>w_DB = completePurgeIdempotencyOn db (pq_TenantID (fl_Request x)) (ec_ExecutionID (fl_Cmd x))
      (pq_RequestID (fl_Request x)) (stored_execute v) (fl_Now x), w_Disk = disk\<rparr>"

definition run_flight :: "Signer option \<Rightarrow> PurgeWorld \<Rightarrow> PurgeFlight \<Rightarrow> disk \<times> (PurgeDB \<times> ExecutePurgeResult) result" where
  "run_flight s w x = executeAndCompleteOn s (w_DB w) (w_Disk w) (fl_Cmd x) (fl_Exec x) (fl_Who x) (fl_Now x) (fl_EventID x)"

inductive purge_step :: "Signer option \<Rightarrow> PurgeWorld \<times> PurgeFlight list \<Rightarrow> PurgeWorld \<times> PurgeFlight list \<Rightarrow> bool" for s where
  step_request: "RequestPurge s (w_DB w) rq who now ids = Inr (db', v1) \<Longrightarrow> purge_step s (w, fs) (w\<lparr>w_DB := db'\<rparr>, fs)"
| step_approve: "ApprovePurge s (w_DB w) ap who now ids = Inr (db', v2) \<Longrightarrow> purge_step s (w, fs) (w\<lparr>w_DB := db'\<rparr>, fs)"
| step_reject: "RejectPurge s (w_DB w) cl who now ids = Inr (db', v3) \<Longrightarrow> purge_step s (w, fs) (w\<lparr>w_DB := db'\<rparr>, fs)"
| step_cancel: "CancelPurge s (w_DB w) cn who now ids = Inr (db', v4) \<Longrightarrow> purge_step s (w, fs) (w\<lparr>w_DB := db'\<rparr>, fs)"
| step_withdraw: "WithdrawPurge s (w_DB w) cl who now ids = Inr (db', v5) \<Longrightarrow> purge_step s (w, fs) (w\<lparr>w_DB := db'\<rparr>, fs)"
| step_store: "purge_step s (w, fs) (fst (StoreObject s frozen mode w i now), fs)"
| step_environment: "prefix (rs_Receipts (pd_Receipts (w_DB w))) (rs_Receipts rs)
    \<Longrightarrow> purge_step s (w, fs) (w\<lparr>w_DB := (w_DB w)\<lparr>pd_Closures := cs, pd_Policies := ps, pd_Holds := hs, pd_Receipts := rs\<rparr>\<rparr>, fs)"
| step_intent_failed: "executeIntent s (w_DB w) (w_Disk w) cmd who now ids = (disk', res)
    \<Longrightarrow> purge_step s (w, fs) (w\<lparr>w_Disk := disk'\<rparr>, fs)"
| step_intent_finished: "executeIntent s (w_DB w) (w_Disk w) cmd who now ids = (disk', Inr (Finished db' v))
    \<Longrightarrow> purge_step s (w, fs) (\<lparr>w_DB = db', w_Disk = disk'\<rparr>, fs)"
| step_intent_opened: "executeIntent s (w_DB w) (w_Disk w) cmd who now ids = (disk', Inr (Opened db' r exec))
    \<Longrightarrow> purge_step s (w, fs) (\<lparr>w_DB = db', w_Disk = disk'\<rparr>, \<lparr>fl_Cmd = cmd, fl_Request = r, fl_Exec = exec, fl_Who = who,
          fl_Now = now, fl_EventID = ids 1\<rparr> # fs)"
| step_flight_failed: "x \<in> set fs \<Longrightarrow> run_flight s w x = (disk', res) \<Longrightarrow> purge_step s (w, fs) (w\<lparr>w_Disk := disk'\<rparr>, remove1 x fs)"
| step_flight_finished: "x \<in> set fs \<Longrightarrow> run_flight s w x = (disk', Inr (db', v))
    \<Longrightarrow> purge_step s (w, fs) (finish_world x db' v disk', remove1 x fs)"
| step_crash: "set gs \<subseteq> set fs \<Longrightarrow> purge_step s (w, fs) (w, gs)"

inductive purge_reach :: "Signer option \<Rightarrow> PurgeWorld \<Rightarrow> PurgeFlight list \<Rightarrow> bool" for s where
  reach_start: "pd_Objects (w_DB w) = [] \<Longrightarrow> pd_Requests (w_DB w) = [] \<Longrightarrow> pd_Executions (w_DB w) = []
     \<Longrightarrow> w_Disk w = (\<lambda>_. None) \<Longrightarrow> purge_reach s w []"
| reach_step: "purge_reach s w fs \<Longrightarrow> purge_step s (w, fs) (w', fs') \<Longrightarrow> purge_reach s w' fs'"

inductive_cases purge_stepE: "purge_step s (w, fs) (w', fs')"

lemmas purge_step_cases = purge_stepE [consumes 1, case_names step_request step_approve step_reject step_cancel step_withdraw
  step_store step_environment step_intent_failed step_intent_finished step_intent_opened step_flight_failed step_flight_finished step_crash]

text \<open>ExecutePurge run to its end is a sequence of these steps.\<close>

lemma ExecutePurge_reach:
  assumes "purge_reach s w fs"
  shows "purge_reach s (fst (ExecutePurge s w cmd who now ids)) fs"
proof (cases "AssertValidExecutePurgeCommand cmd")
  case (Inl e)
  then show ?thesis using assms by (simp add: ExecutePurge_def)
next
  case ok: (Inr u)
  obtain disk res where i: "executeIntent s (w_DB w) (w_Disk w) cmd who now ids = (disk, res)" by fastforce
  note lost = reach_step [OF assms step_intent_failed [OF i]]
  show ?thesis
  proof (cases res)
    case (Inl e)
    then show ?thesis using lost ok i by (simp add: ExecutePurge_def)
  next
    case out: (Inr out)
    show ?thesis
    proof (cases out)
      case (Finished db v)
      then show ?thesis using reach_step [OF assms step_intent_finished] ok i out by (simp add: ExecutePurge_def)
    next
      case (Opened db r exec)
      let ?x = "\<lparr>fl_Cmd = cmd, fl_Request = r, fl_Exec = exec, fl_Who = who, fl_Now = now, fl_EventID = ids 1\<rparr>"
      let ?w = "\<lparr>w_DB = db, w_Disk = disk\<rparr>"
      have opened: "purge_reach s ?w (?x # fs)"
        using reach_step [OF assms step_intent_opened] i out Opened by simp
      obtain disk' res' where f: "run_flight s ?w ?x = (disk', res')" by fastforce
      then have f': "executeAndCompleteOn s db disk cmd exec who now (ids 1) = (disk', res')" by (simp add: run_flight_def)
      show ?thesis
      proof (cases res')
        case (Inl e)
        then show ?thesis using reach_step [OF opened step_flight_failed [OF _ f]] ok i out Opened f' by (simp add: ExecutePurge_def)
      next
        case (Inr p)
        obtain db' v where p: "p = (db', v)" by fastforce
        show ?thesis using reach_step [OF opened step_flight_finished [of ?x]] ok i out Opened f f' Inr p
          by (simp add: ExecutePurge_def finish_world_def)
      qed
    qed
  qed
qed

section \<open>The invariant\<close>

definition decided :: "PurgeDB \<Rightarrow> string \<Rightarrow> bool" where
  "decided db i \<longleftrightarrow> (\<exists>a \<in> set (pd_Approvals db). pa_RequestID a = i \<and> pa_Decision a = PurgeApprovalDecisionApproved)"

definition live :: "EvidencePurgeExecution \<Rightarrow> bool" where
  "live e \<longleftrightarrow> px_State e = PurgeExecutionIntent \<or> px_State e = PurgeExecutionCompleted"

text \<open>Objects have their content address as id, one path each, and a path never holds other bytes.\<close>

definition disk_inv :: "disk \<Rightarrow> bool" where
  "disk_inv disk \<longleftrightarrow> (\<forall>i bytes. hash64_ok i \<longrightarrow> disk (ObjectRelPath i) = Some bytes \<longrightarrow> ComputeObjectID bytes = i)"

definition objects_inv :: "PurgeDB \<Rightarrow> disk \<Rightarrow> bool" where
  "objects_inv db disk \<longleftrightarrow> distinct (map eo_ObjectID (pd_Objects db))
     \<and> (\<forall>b \<in> set (pd_Objects db). hash64_ok (eo_ObjectID b) \<and> eo_RelPath b = ObjectRelPath (eo_ObjectID b))
     \<and> disk_inv disk"

definition requests_inv :: "PurgeDB \<Rightarrow> bool" where
  "requests_inv db \<longleftrightarrow> distinct (map pq_RequestID (pd_Requests db))
     \<and> (\<forall>r \<in> set (pd_Requests db). pq_Status r = PurgeRequestStatusApproved \<longrightarrow> decided db (pq_RequestID r))"

text \<open>
  Every attempt records its object faithfully, belongs to an approved request for it, and some
  attempt on the same object is still an intent or completed.
\<close>

definition backed :: "PurgeDB \<Rightarrow> string \<Rightarrow> string \<Rightarrow> bool" where
  "backed db rid oid \<longleftrightarrow> (\<exists>r \<in> set (pd_Requests db). pq_RequestID r = rid \<and> pq_ObjectID r = oid) \<and> decided db rid"

definition covers :: "PurgeDB \<Rightarrow> EvidencePurgeExecution \<Rightarrow> bool" where
  "covers db e \<longleftrightarrow> px_PreRemovalHash e = px_ObjectID e
     \<and> (\<exists>b \<in> set (pd_Objects db). eo_ObjectID b = px_ObjectID e \<and> px_Size e = eo_Size b)"

definition executions_inv :: "PurgeDB \<Rightarrow> bool" where
  "executions_inv db \<longleftrightarrow> (\<forall>e \<in> set (pd_Executions db). covers db e \<and> backed db (px_RequestID e) (px_ObjectID e)
     \<and> (\<exists>l \<in> set (pd_Executions db). px_ObjectID l = px_ObjectID e \<and> live l))"

definition absence_inv :: "PurgeDB \<Rightarrow> disk \<Rightarrow> bool" where
  "absence_inv db disk \<longleftrightarrow> (\<forall>b \<in> set (pd_Objects db). disk (eo_RelPath b) = None
     \<longrightarrow> (\<exists>e \<in> set (pd_Executions db). px_ObjectID e = eo_ObjectID b))"

definition recorded :: "PurgeDB \<Rightarrow> EvidencePurgeExecution \<Rightarrow> bool" where
  "recorded db x \<longleftrightarrow> (\<exists>e \<in> set (pd_Executions db). px_RequestID e = px_RequestID x \<and> px_ObjectID e = px_ObjectID x)"

definition purge_inv :: "PurgeDB \<Rightarrow> disk \<Rightarrow> bool" where
  "purge_inv db disk \<longleftrightarrow> objects_inv db disk \<and> requests_inv db \<and> executions_inv db \<and> absence_inv db disk"

lemmas inv_defs = purge_inv_def objects_inv_def requests_inv_def executions_inv_def absence_inv_def

lemma object_by_id:
  assumes "objects_inv db disk" and "b \<in> set (pd_Objects db)"
  shows "evidenceObjectByIDOn db (eo_ObjectID b) = Some b"
  using assms find_distinct_key [of eo_ObjectID "pd_Objects db" b] by (simp add: evidenceObjectByIDOn_def objects_inv_def)

lemma object_by_id_D:
  "evidenceObjectByIDOn db i = Some b \<Longrightarrow> b \<in> set (pd_Objects db) \<and> eo_ObjectID b = i"
  unfolding evidenceObjectByIDOn_def by (rule find_SomeD)

text \<open>The handlers keep it.\<close>

lemma decided_mono: "set (pd_Approvals db) \<subseteq> set (pd_Approvals db') \<Longrightarrow> decided db i \<Longrightarrow> decided db' i"
  by (auto simp: decided_def)

lemma backed_mono:
  assumes "backed db rid oid" and "set (pd_Approvals db) \<subseteq> set (pd_Approvals db')"
    and "\<And>r. r \<in> set (pd_Requests db) \<Longrightarrow> \<exists>r' \<in> set (pd_Requests db'). pq_RequestID r' = pq_RequestID r \<and> pq_ObjectID r' = pq_ObjectID r"
  shows "backed db' rid oid"
  using assms unfolding backed_def by (metis decided_mono)

lemma pipeline_effect_inv:
  assumes "pipeline_effect db db'" and "purge_inv db disk"
  shows "purge_inv db' disk"
proof -
  have same: "pd_Objects db' = pd_Objects db" "pd_Executions db' = pd_Executions db" "set (pd_Approvals db) \<subseteq> set (pd_Approvals db')"
    using assms(1) by (auto simp: pipeline_effect_def dest: set_mono_prefix)
  note dec = decided_mono [OF same(3)]
  have inv: "objects_inv db disk" "requests_inv db" "executions_inv db" "absence_inv db disk"
    using assms(2) by (auto simp: purge_inv_def)
  from assms(1) consider (mapped) f where "pd_Requests db' = map f (pd_Requests db)"
      "\<And>x. pq_RequestID (f x) = pq_RequestID x \<and> pq_ObjectID (f x) = pq_ObjectID x
         \<and> (pq_Status (f x) = PurgeRequestStatusApproved \<longrightarrow> pq_Status x = PurgeRequestStatusApproved \<or> decided db' (pq_RequestID x))"
    | (added) r where "pd_Requests db' = pd_Requests db @ [r]" "pq_Status r = PurgeRequestStatusRequested"
      "\<forall>x \<in> set (pd_Requests db). pq_RequestID x \<noteq> pq_RequestID r"
    unfolding pipeline_effect_def decided_def by blast
  then have "requests_inv db' \<and> (\<forall>r \<in> set (pd_Requests db). \<exists>r' \<in> set (pd_Requests db'). pq_RequestID r' = pq_RequestID r \<and> pq_ObjectID r' = pq_ObjectID r)"
  proof cases
    case mapped
    have "map pq_RequestID (pd_Requests db') = map pq_RequestID (pd_Requests db)" by (simp add: mapped)
    then show ?thesis using inv(2) mapped dec by (auto simp: requests_inv_def simp del: map_map)
  next
    case added
    then show ?thesis using inv(2) dec by (auto simp: requests_inv_def)
  qed
  then have req: "requests_inv db'" and bk: "backed db rid oid \<Longrightarrow> backed db' rid oid" for rid oid
    using backed_mono same(3) by blast+
  have "executions_inv db'"
    using inv(3) bk by (auto simp: executions_inv_def covers_def same)
  then show ?thesis using inv req by (auto simp: purge_inv_def objects_inv_def absence_inv_def same)
qed

lemma completion_effect_inv:
  assumes "completion_effect db db'" and "purge_inv db disk"
  shows "purge_inv db' disk"
proof -
  have inv: "objects_inv db disk" "requests_inv db" "executions_inv db" "absence_inv db disk"
    using assms(2) by (auto simp: purge_inv_def)
  obtain f g where same: "pd_Objects db' = pd_Objects db" "pd_Approvals db' = pd_Approvals db"
    and f: "pd_Executions db' = map f (pd_Executions db)" "\<And>e. px_RequestID (f e) = px_RequestID e \<and> px_ObjectID (f e) = px_ObjectID e
        \<and> px_PreRemovalHash (f e) = px_PreRemovalHash e \<and> px_Size (f e) = px_Size e
        \<and> (px_State (f e) = px_State e \<or> px_State (f e) = PurgeExecutionCompleted)"
    and g: "pd_Requests db' = map g (pd_Requests db)" "\<And>r. pq_RequestID (g r) = pq_RequestID r \<and> pq_ObjectID (g r) = pq_ObjectID r
        \<and> (g r = r \<or> pq_Status (g r) = PurgeRequestStatusExecuted)"
    using assms(1) unfolding completion_effect_def by blast
  have dec: "decided db' i \<longleftrightarrow> decided db i" for i by (simp add: decided_def same)
  have "map pq_RequestID (pd_Requests db') = map pq_RequestID (pd_Requests db)" by (simp add: g)
  moreover have "pq_Status (g r) = PurgeRequestStatusApproved \<Longrightarrow> g r = r" for r using g(2) [of r] by auto
  ultimately have req: "requests_inv db'"
    using inv(2) unfolding requests_inv_def dec g(1) by (metis (no_types, lifting) imageE list.set_map)
  have bk: "backed db rid oid \<Longrightarrow> backed db' rid oid" for rid oid
    unfolding backed_def dec using g by auto
  have lv: "live e \<Longrightarrow> live (f e)" for e using f(2) [of e] by (auto simp: live_def)
  have "executions_inv db'"
    using inv(3) bk lv f(2) unfolding executions_inv_def by (auto simp: f(1) covers_def same) blast
  moreover have "absence_inv db' disk" using inv(4) f(2) by (auto simp: absence_inv_def same f(1))
  ultimately show ?thesis using inv req by (auto simp: purge_inv_def objects_inv_def same)
qed

lemma backed_functional:
  "requests_inv db \<Longrightarrow> backed db rid a \<Longrightarrow> backed db rid b \<Longrightarrow> a = b"
  unfolding requests_inv_def backed_def by (metis inj_on_def distinct_map)

lemma open_effect_inv:
  assumes "open_effect db exec db'" and "purge_inv db disk"
    and "covers db exec" and "backed db (px_RequestID exec) (px_ObjectID exec)" and "live exec"
  shows "purge_inv db' disk"
proof -
  have inv: "objects_inv db disk" "requests_inv db" "executions_inv db" "absence_inv db disk"
    using assms(2) by (auto simp: purge_inv_def)
  obtain f where same: "pd_Objects db' = pd_Objects db" "pd_Approvals db' = pd_Approvals db" "pd_Requests db' = pd_Requests db"
    and ex: "pd_Executions db' = map f (pd_Executions db) @ [exec]"
    and f: "\<And>e. px_RequestID (f e) = px_RequestID e \<and> px_ObjectID (f e) = px_ObjectID e
        \<and> px_PreRemovalHash (f e) = px_PreRemovalHash e \<and> px_Size (f e) = px_Size e \<and> (f e = e \<or> px_RequestID e = px_RequestID exec)"
    using assms(1) unfolding open_effect_def by blast
  have bk: "backed db' rid oid \<longleftrightarrow> backed db rid oid" for rid oid by (simp add: backed_def decided_def same)
  have cv: "covers db' e \<longleftrightarrow> covers db e" for e by (simp add: covers_def same)
  have sibling: "\<exists>l \<in> set (pd_Executions db'). px_ObjectID l = px_ObjectID e \<and> live l" if e: "e \<in> set (pd_Executions db)" for e
  proof -
    obtain l where l: "l \<in> set (pd_Executions db)" "px_ObjectID l = px_ObjectID e" "live l"
      using inv(3) e by (auto simp: executions_inv_def)
    show ?thesis
    proof (cases "f l = l")
      case True
      then have "l \<in> set (pd_Executions db')" using l(1) by (auto simp: ex intro: rev_image_eqI)
      then show ?thesis using l by blast
    next
      case False
      then have "px_RequestID l = px_RequestID exec" using f by blast
      moreover have "backed db (px_RequestID l) (px_ObjectID l)" using inv(3) l(1) by (auto simp: executions_inv_def)
      ultimately have "px_ObjectID exec = px_ObjectID e"
        using backed_functional [OF inv(2)] assms(4) l(2) by metis
      then show ?thesis using assms(5) by (auto simp: ex)
    qed
  qed
  have "executions_inv db'"
    unfolding executions_inv_def
  proof
    fix e assume "e \<in> set (pd_Executions db')"
    then consider x where "x \<in> set (pd_Executions db)" "e = f x" | "e = exec" by (auto simp: ex)
    then show "covers db' e \<and> backed db' (px_RequestID e) (px_ObjectID e) \<and> (\<exists>l \<in> set (pd_Executions db'). px_ObjectID l = px_ObjectID e \<and> live l)"
    proof cases
      case 1
      then show ?thesis using inv(3) f [of x] sibling [of x] by (auto simp: executions_inv_def bk covers_def same)
    next
      case 2
      then show ?thesis using assms by (auto simp: bk cv ex)
    qed
  qed
  moreover have "absence_inv db' disk" using inv(4) f by (fastforce simp: absence_inv_def same ex)
  moreover have "requests_inv db'" using inv(2) by (simp add: requests_inv_def decided_def same)
  ultimately show ?thesis using inv by (auto simp: purge_inv_def objects_inv_def same)
qed

text \<open>Removing the bytes of an attempt the ledger records keeps it.\<close>

lemma execution_gates_Inr:
  "execution_gates db exec = Inr (r, obj, cur) \<Longrightarrow>
     purgeRequestByIDOn db (px_RequestID exec) = Inr r \<and> pq_Status r = PurgeRequestStatusApproved
     \<and> evidenceObjectByIDOn db (px_ObjectID exec) = Some obj \<and> unblocked db r"
  unfolding execution_gates_def Let_def guard_simps split_paired_Ex prod.case by (auto dest: gates_unblocked)

lemma removeObjectBytes_Inr:
  "removeObjectBytes disk p i n = Inr disk' \<longleftrightarrow>
     (\<exists>bytes. disk p = Some bytes \<and> ComputeObjectID bytes = i \<and> int (length bytes) = n \<and> disk' = disk(p := None))"
  by (auto simp: removeObjectBytes_def split: option.splits)

lemma bytes_removed_inv:
  assumes "bytes_removed db exec disk disk'" and "purge_inv db disk" and "recorded db exec"
  shows "purge_inv db disk'"
proof -
  obtain r obj cur where g: "execution_gates db exec = Inr (r, obj, cur)"
    and d: "removeObjectBytes disk (eo_RelPath obj) (pq_ObjectID r) (eo_Size obj) = Inr disk'"
    using assms(1) by (auto simp: bytes_removed_def)
  have obj: "obj \<in> set (pd_Objects db)" "eo_ObjectID obj = px_ObjectID exec"
    using execution_gates_Inr [OF g] object_by_id_D by blast+
  have disk': "disk' = disk(eo_RelPath obj := None)" using d by (auto simp: removeObjectBytes_Inr)
  have inv: "objects_inv db disk" "requests_inv db" "executions_inv db" "absence_inv db disk"
    using assms(2) by (auto simp: purge_inv_def)
  have "\<exists>e \<in> set (pd_Executions db). px_ObjectID e = eo_ObjectID b" if b: "b \<in> set (pd_Objects db)" "disk' (eo_RelPath b) = None" for b
  proof (cases "eo_RelPath b = eo_RelPath obj")
    case True
    then have "eo_ObjectID b = eo_ObjectID obj"
      using ObjectRelPath_inject inv(1) b(1) obj(1) unfolding objects_inv_def by metis
    then show ?thesis using assms(3) obj(2) by (auto simp: recorded_def)
  next
    case False
    then show ?thesis using b inv(4) by (auto simp: absence_inv_def disk')
  qed
  moreover have "disk_inv disk'" using inv(1) by (auto simp: objects_inv_def disk_inv_def disk')
  ultimately show ?thesis using inv by (auto simp: purge_inv_def absence_inv_def objects_inv_def)
qed

text \<open>Storing an object keeps it.\<close>

lemma StoreObject_cases:
  assumes "StoreObject s frozen mode w i now = (w', res)"
  obtains (same) "w' = w"
  | (orphan) "w' = w\<lparr>w_Disk := (w_Disk w)(ObjectRelPath (ComputeObjectID (oi_Bytes i)) := Some (oi_Bytes i))\<rparr>"
  | (stored) rs where "insertEvidenceObject (w_DB w) (object_row i now) = Inr ((w_DB w)\<lparr>pd_Objects := pd_Objects (w_DB w) @ [object_row i now]\<rparr>)"
      "w' = \<lparr>w_DB = (w_DB w)\<lparr>pd_Objects := pd_Objects (w_DB w) @ [object_row i now], pd_Receipts := rs\<rparr>,
             w_Disk = (w_Disk w)(ObjectRelPath (ComputeObjectID (oi_Bytes i)) := Some (oi_Bytes i))\<rparr>"
      "res = Inr \<lparr>or_Object = object_row i now, or_Created = True\<rparr>"
      "prefix (rs_Receipts (pd_Receipts (w_DB w))) (rs_Receipts rs)"
proof -
  let ?id = "ComputeObjectID (oi_Bytes i)"
  let ?gate = "and_then (AssertValidObjectScope (oi_Scope i)) (\<lambda>_. and_then (AssertValidSource (oi_Source i)) (\<lambda>_.
     assertPeriodWritable (w_DB w) (oi_Scope i)))"
  note eq = assms [symmetric, unfolded StoreObject_def Let_def]
  show thesis
  proof (cases "(\<exists>e. ?gate = Inl e) \<or> evidenceObjectByIDOn (w_DB w) ?id \<noteq> None \<or> (\<exists>e. checkFiscalRuntimeGate frozen mode False = Inl e)")
    case True
    then have "w' = w" using eq by (auto split: sum.splits if_splits option.splits)
    then show thesis by (rule same)
  next
    case False
    then obtain u v where g: "?gate = Inr u" "checkFiscalRuntimeGate frozen mode False = Inr v" "evidenceObjectByIDOn (w_DB w) ?id = None"
      by (cases ?gate; cases "checkFiscalRuntimeGate frozen mode False") auto
    note eq' = eq [unfolded g sum.case option.case]
    show thesis
    proof (cases "insertEvidenceObject (w_DB w) (object_row i now)")
      case (Inl e)
      then show thesis using eq' orphan by (simp add: and_then_def)
    next
      case (Inr db1)
      then have db1: "db1 = (w_DB w)\<lparr>pd_Objects := pd_Objects (w_DB w) @ [object_row i now]\<rparr>"
        by (auto simp: insertEvidenceObject_def split: if_splits)
      show thesis
      proof (cases "emitObjectReceipt s db1 ?id ObjectStored (object_payload i) now")
        case (Inl e)
        then show thesis using eq' orphan Inr by (simp add: and_then_def)
      next
        case emitted: (Inr x)
        obtain db' r where x: "x = (db', r)" by fastforce
        obtain rs where rs: "db' = db1\<lparr>pd_Receipts := rs\<rparr>" using emit_Inr emitted x by blast
        moreover have "db_evolves db1 db'" using emit_evolves emitted x by blast
        then have "prefix (rs_Receipts (pd_Receipts (w_DB w))) (rs_Receipts rs)"
          by (simp add: rs db1 db_evolves_def ledgers_evolve_def)
        ultimately show thesis using eq' stored [of rs] Inr emitted x db1 by (simp add: and_then_def)
      qed
    qed
  qed
qed

lemma object_row_simps [simp]:
  "eo_ObjectID (object_row i now) = ComputeObjectID (oi_Bytes i)"
  "eo_RelPath (object_row i now) = ObjectRelPath (ComputeObjectID (oi_Bytes i))"
  "eo_Size (object_row i now) = int (length (oi_Bytes i))"
  by (simp_all add: object_row_def Let_def)

lemma hash64_ok_ComputeObjectID [simp]: "hash64_ok (ComputeObjectID b)"
  using ComputeObjectID_shape [of b] by (simp add: IsObjectID_def)

lemma disk_inv_write: "disk_inv disk \<Longrightarrow> disk_inv (disk(ObjectRelPath (ComputeObjectID b) := Some b))"
  using ObjectRelPath_inject hash64_ok_ComputeObjectID unfolding disk_inv_def fun_upd_apply
  by (metis option.inject)

lemma objects_inv_write: "objects_inv db disk \<Longrightarrow> objects_inv db (disk(ObjectRelPath (ComputeObjectID b) := Some b))"
  using disk_inv_write unfolding objects_inv_def by blast

lemma absence_inv_write: "absence_inv db disk \<Longrightarrow> absence_inv db (disk(p := Some b))"
  by (auto simp: absence_inv_def)

lemma StoreObject_inv:
  assumes "purge_inv (w_DB w) (w_Disk w)" and "StoreObject s frozen mode w i now = (w', res)"
  shows "purge_inv (w_DB w') (w_Disk w')"
proof -
  have inv: "objects_inv (w_DB w) (w_Disk w)" "requests_inv (w_DB w)" "executions_inv (w_DB w)" "absence_inv (w_DB w) (w_Disk w)"
    using assms(1) by (auto simp: purge_inv_def)
  note written = objects_inv_write [OF inv(1), of "oi_Bytes i"] absence_inv_write [OF inv(4)]
  from assms(2) show ?thesis
  proof (cases rule: StoreObject_cases)
    case orphan
    then show ?thesis using inv written by (simp add: purge_inv_def)
  next
    case (stored rs)
    let ?db = "w_DB w'"
    have fresh: "ComputeObjectID (oi_Bytes i) \<notin> eo_ObjectID ` set (pd_Objects (w_DB w))"
      using stored(1) by (auto simp: insertEvidenceObject_def list_ex_iff split: if_splits)
    have same: "pd_Objects ?db = pd_Objects (w_DB w) @ [object_row i now]" "pd_Requests ?db = pd_Requests (w_DB w)"
        "pd_Executions ?db = pd_Executions (w_DB w)" "pd_Approvals ?db = pd_Approvals (w_DB w)"
        "w_Disk w' = (w_Disk w)(ObjectRelPath (ComputeObjectID (oi_Bytes i)) := Some (oi_Bytes i))"
      by (simp_all add: stored(2))
    have "objects_inv ?db (w_Disk w')"
      unfolding objects_inv_def same using written(1) [unfolded objects_inv_def] fresh by simp
    moreover have "requests_inv ?db" using inv(2) by (simp add: requests_inv_def decided_def same)
    moreover have "executions_inv ?db"
      using inv(3) by (auto simp: executions_inv_def covers_def backed_def decided_def same)
    moreover have "absence_inv ?db (w_Disk w')"
      using written(2) by (auto simp: absence_inv_def same)
    ultimately show ?thesis by (simp add: purge_inv_def)
  qed (use assms(1) in simp)
qed

section \<open>Every step keeps the invariant\<close>

lemma purge_inv_cong:
  "pd_Objects db' = pd_Objects db \<Longrightarrow> pd_Requests db' = pd_Requests db \<Longrightarrow> pd_Executions db' = pd_Executions db
     \<Longrightarrow> pd_Approvals db' = pd_Approvals db \<Longrightarrow> purge_inv db' disk \<longleftrightarrow> purge_inv db disk"
  by (simp add: purge_inv_def objects_inv_def requests_inv_def executions_inv_def absence_inv_def covers_def backed_def decided_def)

lemma reserve_inv: "reserveIdempotencyKey db t k h a now = Inr db' \<Longrightarrow> purge_inv db' disk \<longleftrightarrow> purge_inv db disk"
  by (drule reserve_Inr, elim exE, rule purge_inv_cong) simp_all

lemma recorded_member: "e \<in> set (pd_Executions db) \<Longrightarrow> recorded db e"
  by (auto simp: recorded_def)

lemma recorded_same: "pd_Executions db' = pd_Executions db \<Longrightarrow> recorded db' x \<longleftrightarrow> recorded db x"
  by (simp add: recorded_def)

lemma recorded_completion: "completion_effect db db' \<Longrightarrow> recorded db x \<Longrightarrow> recorded db' x"
  by (auto simp: completion_effect_def recorded_def)

lemma recorded_open: "open_effect db exec db' \<Longrightarrow> recorded db x \<or> x = exec \<Longrightarrow> recorded db' x"
  by (fastforce simp: open_effect_def recorded_def)

lemma recorded_pipeline: "pipeline_effect db db' \<Longrightarrow> recorded db x \<Longrightarrow> recorded db' x"
  by (auto simp: pipeline_effect_def recorded_def)

lemma execute_gates_Inr:
  "execute_gates db cmd r scope who = Inr (obj, h) \<Longrightarrow>
     pq_Status r = PurgeRequestStatusApproved \<and> evidenceObjectByIDOn db (pq_ObjectID r) = Some obj \<and> h = ec_ExpectedLifecycleHash cmd"
  unfolding execute_gates_def execute_status_gate_def guard_simps split_paired_Ex prod.case
  by (auto simp: snapshot_gate_Inr split: if_splits)

lemma intent_row_covers:
  assumes "purge_inv db disk" and "execute_gates db cmd r scope who = Inr (obj, h)" and "r \<in> set (pd_Requests db)"
  shows "covers db (intent_row cmd r obj h now who) \<and> live (intent_row cmd r obj h now who)
     \<and> backed db (pq_RequestID r) (pq_ObjectID r)"
  using execute_gates_Inr [OF assms(2)] object_by_id_D [of db "pq_ObjectID r" obj] assms(1,3)
  by (auto simp: intent_row_def covers_def live_def backed_def purge_inv_def requests_inv_def)

lemma request_by_id_D: "purgeRequestByIDOn db i = Inr r \<Longrightarrow> r \<in> set (pd_Requests db) \<and> pq_RequestID r = i"
  unfolding purgeRequestByIDOn_def by (auto simp: guard_simps dest: find_SomeD)

definition outcome_ok :: "PurgeDB \<Rightarrow> disk \<Rightarrow> intent_outcome \<Rightarrow> bool" where
  "outcome_ok db disk out \<longleftrightarrow> purge_inv (outcome_db out) disk \<and> (\<forall>x. recorded db x \<longrightarrow> recorded (outcome_db out) x)
     \<and> (\<forall>db' r exec. out = Opened db' r exec \<longrightarrow> recorded db' exec)"

lemma executeIntent_inv:
  assumes inv: "purge_inv db disk" and run: "executeIntent s db disk cmd who now ids = (disk', res)"
  shows "purge_inv db disk' \<and> (\<forall>out. res = Inr out \<longrightarrow> outcome_ok db disk' out)"
proof -
  have d: "purge_inv db disk'"
    using executeIntent_disk [OF run] bytes_removed_inv inv recorded_member find_SomeD
    unfolding purgeExecutionOn_def by metis
  from run have "outcome_ok db disk' out" if o: "res = Inr out" for out
  proof (cases rule: executeIntent_cases)
    case (recovered r res')
    then obtain db' v where "res' = Inr (db', v)" "out = Finished db' v" using o by (cases res') auto
    moreover then have "completion_effect db db'" using recovered(2) recoverSameExecutionOn_effect by metis
    ultimately show ?thesis using completion_effect_inv d recorded_completion by (auto simp: outcome_ok_def)
  next
    case (fresh r db1 out')
    have r: "r \<in> set (pd_Requests db1)" and same: "recorded db1 x \<longleftrightarrow> recorded db x" for x
      using request_by_id_D [OF fresh(2)] reserve_Inr [OF fresh(3)] by (auto simp: recorded_def)
    have inv1: "purge_inv db1 disk'" using d reserve_inv [OF fresh(3)] by simp
    have "execute_fresh s db1 disk cmd r (purgeRequestScope r) who now ids = Inr out" using fresh o by simp
    from execute_fresh_effect [OF this] show ?thesis
    proof (elim disjE exE conjE)
      fix db' v assume "out = Finished db' v" "completion_effect db1 db'"
      then show ?thesis using completion_effect_inv inv1 recorded_completion same by (auto simp: outcome_ok_def)
    next
      fix db' exec obj h
      assume p: "out = Opened db' r exec" "open_effect db1 exec db'" "exec = intent_row cmd r obj h now who"
        "execute_gates db1 cmd r (purgeRequestScope r) who = Inr (obj, h)"
      have "px_RequestID exec = pq_RequestID r" "px_ObjectID exec = pq_ObjectID r" by (simp_all add: p(3) intent_row_def)
      then have "purge_inv db' disk'"
        using open_effect_inv [OF p(2) inv1] intent_row_covers [OF inv1 p(4) r] p(3) by metis
      then show ?thesis using recorded_open [OF p(2)] p(1) same by (auto simp: outcome_ok_def)
    qed
  qed (use o d in \<open>simp_all add: outcome_ok_def\<close>)
  with d show ?thesis by blast
qed

lemma run_flight_inv:
  assumes inv: "purge_inv (w_DB w) (w_Disk w)" and x: "recorded (w_DB w) (fl_Exec x)" and run: "run_flight s w x = (disk', res)"
  shows "purge_inv (w_DB w) disk' \<and> (\<forall>db' v. res = Inr (db', v) \<longrightarrow> completion_effect (w_DB w) db')"
  using run [unfolded run_flight_def] executeAndCompleteOn_effect executeAndCompleteOn_disk bytes_removed_inv inv x by metis

definition system_inv :: "PurgeWorld \<Rightarrow> PurgeFlight list \<Rightarrow> bool" where
  "system_inv w fs \<longleftrightarrow> purge_inv (w_DB w) (w_Disk w) \<and> (\<forall>x \<in> set fs. recorded (w_DB w) (fl_Exec x))"

lemma system_inv_db:
  "system_inv w fs \<Longrightarrow> pipeline_effect (w_DB w) db' \<Longrightarrow> system_inv (w\<lparr>w_DB := db'\<rparr>) fs"
  using pipeline_effect_inv recorded_pipeline by (auto simp: system_inv_def)

lemma purge_step_inv:
  assumes "purge_step s (w, fs) (w', fs')" and "system_inv w fs"
  shows "system_inv w' fs'"
  using assms
proof (cases rule: purge_step_cases)
  case (step_store frozen mode i now)
  obtain res where "StoreObject s frozen mode w i now = (w', res)" using step_store by (metis prod.collapse)
  moreover have "pd_Executions (w_DB w') = pd_Executions (w_DB w)"
    using calculation by (cases rule: StoreObject_cases) auto
  ultimately show ?thesis using assms(2) StoreObject_inv step_store(2) by (auto simp: system_inv_def recorded_def)
next
  case (step_environment rs cs ps hs)
  then show ?thesis using assms(2) purge_inv_cong [of "w_DB w'" "w_DB w"] by (simp add: system_inv_def recorded_def)
next
  case (step_intent_failed cmd who now ids disk' res)
  then show ?thesis using assms(2) executeIntent_inv by (simp add: system_inv_def) blast
next
  case (step_intent_finished cmd who now ids disk' db' v)
  then show ?thesis using assms(2) executeIntent_inv [OF _ step_intent_finished(1)]
    by (auto simp: system_inv_def outcome_ok_def)
next
  case (step_intent_opened cmd who now ids disk' db' r exec)
  then show ?thesis using assms(2) executeIntent_inv [OF _ step_intent_opened(1)]
    by (auto simp: system_inv_def outcome_ok_def)
next
  case (step_flight_failed x disk' res)
  then show ?thesis using assms(2) run_flight_inv by (auto simp: system_inv_def dest: notin_set_remove1 set_remove1_subset [THEN subsetD])
next
  case (step_flight_finished x disk' db' v)
  then have "completion_effect (w_DB w) (w_DB w')" "purge_inv (w_DB w) disk'"
    using assms(2) run_flight_inv by (auto simp: system_inv_def finish_world_def completion_effect_keys)
  then show ?thesis using assms(2) completion_effect_inv recorded_completion step_flight_finished
    by (auto simp: system_inv_def finish_world_def dest: notin_set_remove1 set_remove1_subset [THEN subsetD])
next
  case step_crash
  then show ?thesis using assms(2) by (auto simp: system_inv_def)
qed (simp_all add: system_inv_db handlers_effect)

lemma purge_reach_inv: "purge_reach s w fs \<Longrightarrow> system_inv w fs"
proof (induction rule: purge_reach.induct)
  case (reach_start w)
  then show ?case by (simp add: system_inv_def inv_defs disk_inv_def)
next
  case reach_step
  then show ?case using purge_step_inv by blast
qed

section \<open>No undocumented loss\<close>

lemma missing_bytes_recorded:
  assumes "system_inv w fs" and "b \<in> set (pd_Objects (w_DB w))" and "w_Disk w (eo_RelPath b) = None"
  shows "authorizedPurgeAbsenceOn (w_DB w) (eo_ObjectID b) (eo_Size b)
     \<and> (\<exists>r \<in> set (pd_Requests (w_DB w)). pq_ObjectID r = eo_ObjectID b \<and> decided (w_DB w) (pq_RequestID r))"
proof -
  let ?db = "w_DB w"
  have inv: "objects_inv ?db (w_Disk w)" "executions_inv ?db" "absence_inv ?db (w_Disk w)"
    using assms(1) by (auto simp: system_inv_def purge_inv_def)
  obtain e where "e \<in> set (pd_Executions ?db)" "px_ObjectID e = eo_ObjectID b"
    using inv(3) assms(2,3) by (auto simp: absence_inv_def)
  then obtain l where l: "l \<in> set (pd_Executions ?db)" "px_ObjectID l = eo_ObjectID b" "live l"
    using inv(2) by (auto simp: executions_inv_def)
  then have c: "covers ?db l" "backed ?db (px_RequestID l) (eo_ObjectID b)"
    using inv(2) by (auto simp: executions_inv_def)
  then obtain b' where b': "b' \<in> set (pd_Objects ?db)" "eo_ObjectID b' = eo_ObjectID b" "px_Size l = eo_Size b'"
    using l(2) by (auto simp: covers_def)
  then have "b' = b" using object_by_id [OF inv(1)] assms(2) by (metis option.inject)
  then have "authorizedPurgeAbsenceOn ?db (eo_ObjectID b) (eo_Size b)"
    using l c(1) b' unfolding authorizedPurgeAbsenceOn_def list_ex_iff covers_def live_def by metis
  with c(2) show ?thesis by (auto simp: backed_def)
qed

text \<open>
  C18: Whatever interleaving of stores, purge handlers, executions, crashes and policy, hold and
  closure changes leads to a state, the byte verifier never reports corruption or an unexplained
  absence there: an object is intact, unknown, or absent under a recorded purge intent.
\<close>

theorem no_undocumented_loss:
  assumes "purge_reach s w fs"
  shows "VerifyObjectBytes w i \<in> {Inr (), Inl (PlainErr ''OBJECT_NOT_FOUND''), Inl (PlainErr ''OBJECT_PURGED_EXPECTED_ABSENCE'')}"
proof (cases "evidenceObjectByIDOn (w_DB w) i")
  case None
  then show ?thesis by (simp add: VerifyObjectBytes_def)
next
  case (Some b)
  note inv = purge_reach_inv [OF assms]
  have b: "b \<in> set (pd_Objects (w_DB w))" "eo_ObjectID b = i" using object_by_id_D [OF Some] by auto
  show ?thesis
  proof (cases "w_Disk w (eo_RelPath b)")
    case None
    then show ?thesis using missing_bytes_recorded [OF inv b(1)] Some b(2) by (simp add: VerifyObjectBytes_def)
  next
    case bytes: (Some bytes)
    then have "ComputeObjectID bytes = eo_ObjectID b"
      using inv b(1) unfolding system_inv_def purge_inv_def objects_inv_def disk_inv_def by metis
    then show ?thesis using Some bytes by (simp add: VerifyObjectBytes_def)
  qed
qed

text \<open>
  C19: Bytes only disappear under a professional decision: in every reachable state, an object
  whose bytes are missing has a purge request with an approval recorded in the decision ledger.
\<close>

theorem missing_bytes_imply_approval:
  assumes "purge_reach s w fs" and "b \<in> set (pd_Objects (w_DB w))" and "w_Disk w (eo_RelPath b) = None"
  shows "\<exists>r \<in> set (pd_Requests (w_DB w)). pq_ObjectID r = eo_ObjectID b
     \<and> (\<exists>a \<in> set (pd_Approvals (w_DB w)). pa_RequestID a = pq_RequestID r \<and> pa_Decision a = PurgeApprovalDecisionApproved)"
  using missing_bytes_recorded [OF purge_reach_inv [OF assms(1)] assms(2,3)] by (auto simp: decided_def)

end
