(* ===== verification/Purge_Run.thy ===== *)
theory Purge_Run
  imports Purge_Safety
begin

text \<open>
  A concrete run of the pipeline: one object is stored, its purge requested by alice, approved by
  bob and executed by carol, until the process dies between the unlink and the second commit. The
  digests stay symbolic. The run shows that the hypotheses of the safety theorems are met by
  states the handlers really reach.
\<close>

section \<open>The actors and the object\<close>

definition demo_id :: string where "demo_id = replicate 36 (CHR ''a'')"
definition demo_bytes :: string where "demo_bytes = ''acta''"
definition demo_object :: string where "demo_object = ComputeObjectID demo_bytes"
definition demo_scope :: Scope where "demo_scope = company_scope ''o'' ''c'' ''20100070970'' ''202601''"
definition demo_time :: string where "demo_time = ''2026-02-01T00:00:00Z''"

definition demo_policy :: RetentionPolicy where
  "demo_policy = sample_policy\<lparr>rp_PolicyID := demo_id, rp_BlockingHoldKinds := [''legal'']\<rparr>"

definition actor :: "string \<Rightarrow> Principal" where
  "actor subj = sample_principal subj [RoleController, RoleRecordsComplianceOfficer]"

definition empty_db :: PurgeDB where
  "empty_db = \<lparr>pd_Objects = [], pd_Closures = [], pd_Policies = [demo_policy], pd_Holds = [], pd_Requests = [], pd_Approvals = [],
     pd_Events = [], pd_States = [], pd_Keys = [], pd_Executions = [], pd_Receipts = empty_receipts\<rparr>"

definition demo_input :: ObjectStoreInput where
  "demo_input = \<lparr>oi_Bytes = demo_bytes, oi_ContentType = ''text/plain'', oi_Scope = demo_scope,
     oi_Source = \<lparr>src_System = ''erp'', src_Reference = ''r'', src_ActorID = ''u1'', src_ActorKind = ActorKindHuman, src_Model = '''', src_Session = ''''\<rparr>\<rparr>"

definition stored_db :: PurgeDB where
  "stored_db = empty_db\<lparr>pd_Objects := [object_row demo_input demo_time]\<rparr>"

definition stored_world :: PurgeWorld where
  "stored_world = \<lparr>w_DB = stored_db, w_Disk = (\<lambda>_. None)(ObjectRelPath demo_object := Some demo_bytes)\<rparr>"

lemma demo_object_ok [simp]: "hash64_ok demo_object" "ComputeObjectID demo_bytes = demo_object"
  by (simp_all add: demo_object_def)

lemma demo_length [simp]: "length demo_bytes = 4"
  by (simp add: demo_bytes_def)

lemma demo_store:
  "StoreObject None False FiscalRuntimeLegacyCompat \<lparr>w_DB = empty_db, w_Disk = (\<lambda>_. None)\<rparr> demo_input demo_time
     = (stored_world, Inr \<lparr>or_Object = object_row demo_input demo_time, or_Created = True\<rparr>)"
  by (simp add: StoreObject_def demo_input_def demo_scope_def company_scope_def AssertValidObjectScope_def AssertValidSource_def Let_def
      AssertValidScope_def IsValidRUC_def IsValidPeriod_def is_digit_def digit_val_def assertPeriodWritable_def empty_db_def and_then_def
      evidenceObjectByIDOn_def checkFiscalRuntimeGate_def CheckProtectedWrite_def insertEvidenceObject_def emitObjectReceipt_def
      emitReceipt_def stored_world_def stored_db_def object_row_def ascii_space_def space2_def space3_def)

lemmas demo_defs = demo_scope_def company_scope_def demo_policy_def sample_policy_def
lemmas text_eval = ascii_space_def space2_def space3_def is_digit_def digit_val_def is_upper_def jurisdiction_ok_def

lemma demo_id_ok [simp]: "policyIDPattern demo_id" "demo_id \<noteq> ''''"
  by (simp_all add: policyIDPattern_def demo_id_def is_lower_hex_def numeral_eq_Suc upt_rec)

lemma demo_time_ok [simp]: "ParseDateTime demo_time \<noteq> None"
  by code_simp

lemma demo_time_given [simp]: "demo_time \<noteq> ''''"
  by (simp add: demo_time_def)

section \<open>Blockers and authorization in the demo environment\<close>

definition demo_env :: "PurgeDB \<Rightarrow> bool" where
  "demo_env db \<longleftrightarrow> pd_Policies db = [demo_policy] \<and> pd_Holds db = [] \<and> pd_Closures db = []"

definition demo_hash :: "PurgeDB \<Rightarrow> string" where
  "demo_hash db = snd (projr (currentPurgeSnapshotOn db demo_object demo_scope [''legal'']))"

definition demo_current :: "PurgeDB \<Rightarrow> LifecycleSnapshot" where
  "demo_current db = fst (projr (currentPurgeSnapshotOn db demo_object demo_scope [''legal'']))"

lemma demo_writable: "demo_env db \<Longrightarrow> assertPeriodWritable db demo_scope = Inr ()"
  by (simp add: assertPeriodWritable_def demo_env_def)

lemma demo_resolve: "demo_env db \<Longrightarrow> resolveRetentionPolicyOn db demo_scope ''PE'' ''NATIONAL-TAX'' ''invoice'' = Inr (Some demo_policy)"
  by (simp add: resolveRetentionPolicyOn_def demo_defs demo_env_def AssertValidRetentionScope_def AssertValidScope_def and_then_def
      IsValidRUC_def IsValidPeriod_def text_eval ResolveRetentionPolicy_def policy_candidate_def)

lemma demo_eligible: "eligibility_gate demo_policy (sc_Period demo_scope) = Inr Eligible"
  by (simp add: eligibility_gate_Inr EvaluateRetentionEligibility_def demo_defs IsValidPeriod_def text_eval)

lemma demo_bound_policy:
  "demo_env db \<Longrightarrow> pq_PolicyID r = demo_id \<Longrightarrow> pq_Category r = ''invoice'' \<Longrightarrow> bound_policy_gate db r demo_scope = Inr (demo_policy, Eligible)"
  using demo_resolve [of db] demo_writable [of db] demo_eligible
  by (simp add: bound_policy_gate_def retentionPolicyByIDOn_def demo_env_def demo_policy_def sample_policy_def)

lemma demo_snapshot:
  assumes "demo_env db" and "\<forall>s \<in> set (pd_States db). rt_PolicyID s \<in> {'''', demo_id}"
  shows "currentPurgeSnapshotOn db demo_object demo_scope [''legal''] = Inr (demo_current db, demo_hash db)
     \<and> hash64_ok (demo_hash db) \<and> ls_BlockingHolds (demo_current db) = []
     \<and> snapshot_gate db demo_object demo_scope (rp_BlockingHoldKinds demo_policy) (demo_hash db) = Inr (demo_current db, demo_hash db)"
proof -
  obtain x where x: "currentPurgeSnapshotOn db demo_object demo_scope [''legal''] = Inr x"
  proof (cases "retentionStateOn db demo_object")
    case None
    then show thesis using that by (simp add: currentPurgeSnapshotOn_def Let_def)
  next
    case (Some s)
    then have "rt_PolicyID s \<in> {'''', demo_id}" using assms(2) find_SomeD unfolding retentionStateOn_def by metis
    then show thesis using that Some assms(1)
      by (auto simp: currentPurgeSnapshotOn_def Let_def retentionPolicyByIDOn_def demo_env_def demo_policy_def)
  qed
  then have cur: "currentPurgeSnapshotOn db demo_object demo_scope [''legal''] = Inr (demo_current db, demo_hash db)"
    by (simp add: demo_current_def demo_hash_def)
  moreover have "ls_BlockingHolds (demo_current db) = []" "demo_hash db = ComputeLifecycleSnapshotHash (demo_current db)"
    using currentPurgeSnapshotOn_Inr [OF cur] assms(1) by (simp_all add: activeBlockingHoldRefsOn_def demo_env_def)
  ultimately show ?thesis by (simp add: snapshot_gate_Inr demo_policy_def)
qed

lemma demo_authorized:
  assumes "act \<in> {ActionRequestPurge, ActionApprovePurge, ActionExecutePurge}" and "req = '''' \<or> req \<noteq> subj"
  shows "authorizePurgeAct (actor subj) demo_scope act cat dual req '''' = Inr ()"
  using assms by (auto simp: authorizePurgeAct_def lifecycle_Authorize_def demo_defs contains_scope_def roleDenied_def lifecycleRoleAllowed_def
      hasAnyRole_def assuranceRank_def Let_def satisfies_def ladderRank_def actor_def sample_principal_def)

section \<open>The run\<close>

definition ids_of :: "string list \<Rightarrow> nat \<Rightarrow> string" where
  "ids_of xs n = xs ! n"

definition demo_request_cmd :: RequestPurgeCommand where
  "demo_request_cmd = \<lparr>rc_ObjectID = demo_object, rc_Jurisdiction = ''PE'', rc_Legislation = ''NATIONAL-TAX'', rc_Category = ''invoice'',
     rc_ExpectedLifecycleHash = demo_hash stored_db, rc_Reason = ''due'', rc_RequestID = ''k1''\<rparr>"

definition demo_row :: EvidencePurgeRequest where
  "demo_row = \<lparr>pq_RequestID = demo_id, pq_ObjectID = demo_object, pq_TenantID = ''o'', pq_CompanyID = ''c'',
     pq_RUC = ''20100070970'', pq_Period = ''202601'', pq_Category = ''invoice'', pq_PolicyID = demo_id,
     pq_RetentionStateSnapshot = Eligible, pq_ReviewedLifecycleHash = demo_hash stored_db, pq_Status = PurgeRequestStatusRequested,
     pq_RequestedAt = demo_time, pq_RequestedBy = ''alice'', pq_ApprovedAt = '''', pq_ExecutionID = ''''\<rparr>"

lemma demo_row_scope [simp]: "purgeRequestScope demo_row = demo_scope"
  by (simp add: purgeRequestScope_def demo_row_def demo_scope_def)

lemma stored_db_simps [simp]:
  "pd_Objects stored_db = [object_row demo_input demo_time]" "pd_Closures stored_db = []" "pd_Policies stored_db = [demo_policy]"
  "pd_Holds stored_db = []" "pd_Requests stored_db = []" "pd_Approvals stored_db = []" "pd_Events stored_db = []"
  "pd_States stored_db = []" "pd_Keys stored_db = []" "pd_Executions stored_db = []" "pd_Receipts stored_db = empty_receipts"
  by (simp_all add: stored_db_def empty_db_def)

lemma demo_row_simps [simp]:
  "pq_RequestID demo_row = demo_id" "pq_ObjectID demo_row = demo_object" "pq_Status demo_row = PurgeRequestStatusRequested"
  "pq_TenantID demo_row = ''o''" "pq_PolicyID demo_row = demo_id" "pq_Category demo_row = ''invoice''" "pq_RequestedBy demo_row = ''alice''"
  "pq_RetentionStateSnapshot demo_row = Eligible"
  by (simp_all add: demo_row_def)

lemma demo_policy_simps [simp]: "rp_PolicyID demo_policy = demo_id" "rp_DualApprovalRequired demo_policy = False"
  "rp_Category demo_policy = ''invoice''"
  by (simp_all add: demo_policy_def sample_policy_def)

lemma actor_simps [simp]: "p_SubjectID (actor x) = x"
  by (simp add: actor_def sample_principal_def)

lemma demo_find [simp]: "pd_Objects db = pd_Objects stored_db \<Longrightarrow> evidenceObjectByIDOn db demo_object = Some (object_row demo_input demo_time)"
  by (simp add: evidenceObjectByIDOn_def demo_input_def)

lemma demo_object_scope [simp]:
  "eo_TenantID (object_row demo_input t) = ''o''" "eo_CompanyID (object_row demo_input t) = ''c''"
  "eo_RUC (object_row demo_input t) = ''20100070970''" "eo_Period (object_row demo_input t) = ''202601''"
  by (simp_all add: object_row_def demo_input_def demo_scope_def company_scope_def Let_def)

lemma demo_scope_fold [simp]: "company_scope ''o'' ''c'' ''20100070970'' ''202601'' = demo_scope"
  by (simp add: demo_scope_def)

lemma demo_scope_simps [simp]: "sc_OrganizationID demo_scope = ''o''" "sc_CompanyID demo_scope = ''c''" "sc_RUC demo_scope = ''20100070970''"
  "sc_Period demo_scope = ''202601''"
  by (simp_all add: demo_scope_def company_scope_def)

lemma stored_env: "demo_env stored_db"
  by (simp add: demo_env_def)

lemma demo_request:
  "\<exists>es ks ss v. RequestPurge None stored_db demo_request_cmd (actor ''alice'') demo_time (ids_of [demo_id, ''e1'', ''e2'']) =
      Inr (stored_db\<lparr>pd_Requests := [demo_row], pd_Events := es, pd_States := ss, pd_Keys := ks\<rparr>, v)
     \<and> map le_EventID es = [''e1'', ''e2''] \<and> map ik_RequestID ks = [''k1''] \<and> map (\<lambda>s. (rt_ObjectID s, rt_PolicyID s)) ss = [(demo_object, demo_id)]"
proof -
  define k where "k = \<lparr>ik_TenantID = ''o'', ik_RequestID = ''k1'',
     ik_CommandHash = purgeCommandHash (requestPurgeCommandShape demo_request_cmd), ik_ActorBinding = ''alice'',
     ik_EntityID = '''', ik_Result = None, ik_CreatedAt = demo_time, ik_CompletedAt = ''''\<rparr>"
  let ?db = "stored_db\<lparr>pd_Keys := [k]\<rparr>"
  have env: "demo_env ?db" using stored_env by (simp add: demo_env_def)
  have cur: "currentPurgeSnapshotOn db demo_object demo_scope [''legal''] = Inr (c, h) \<Longrightarrow> pd_States db = [] \<Longrightarrow>
      ls_LifecycleState c = PurgeLifecycleStored \<and> ls_PolicyID c = ''''" for db c h
    by (simp add: currentPurgeSnapshotOn_def retentionStateOn_def Let_def assembleSnapshot_def) auto
  have h: "demo_hash ?db = demo_hash stored_db"
    by (simp add: demo_hash_def currentPurgeSnapshotOn_def retentionStateOn_def purgeRequestByObjectOn_def activeBlockingHoldRefsOn_def
        approvalIDsOn_def retentionPolicyByIDOn_def)
  define c where "c = demo_current ?db"
  have c: "ls_PolicyID c = ''''" "ls_LifecycleState c = PurgeLifecycleStored" "ls_BlockingHolds c = []"
    and sn: "snapshot_gate ?db demo_object demo_scope (rp_BlockingHoldKinds demo_policy) (demo_hash stored_db) = Inr (c, demo_hash stored_db)"
    using demo_snapshot [OF env] cur [of ?db] h by (simp_all add: c_def)
  have cmd: "rc_ObjectID demo_request_cmd = demo_object" "rc_RequestID demo_request_cmd = ''k1''"
      "rc_ExpectedLifecycleHash demo_request_cmd = demo_hash stored_db"
    by (simp_all add: demo_request_cmd_def)
  have g: "request_gates ?db demo_request_cmd demo_scope (actor ''alice'') = Inr (demo_policy, Eligible, c, demo_hash stored_db)"
    using sn demo_writable [OF env] demo_resolve [OF env] demo_eligible demo_authorized c
    by (simp add: request_gates_def demo_request_cmd_def)
  have hh: "hash64_ok (demo_hash stored_db)" using demo_snapshot [OF stored_env] by simp
  have v: "AssertValidRequestPurgeCommand demo_request_cmd = Inr ()"
    using hh by (simp add: AssertValidRequestPurgeCommand_def demo_request_cmd_def text_eval)
  have v2: "AssertValidPurgeRequest demo_row = Inr ()"
    using hh by (simp add: AssertValidPurgeRequest_def demo_row_def ensure_def AssertValidObjectScope_def company_scope_def
        AssertValidScope_def IsValidRUC_def IsValidPeriod_def text_eval IsValidPurgeRequestStatus.simps)
  have ks: "reserveIdempotencyKey stored_db ''o'' ''k1'' (purgeCommandHash (requestPurgeCommandShape demo_request_cmd))
      ''alice'' demo_time = Inr ?db"
    by (simp add: reserveIdempotencyKey_def idempotencyRowOn_def k_def)
  have r: "request_row ?db demo_request_cmd demo_scope (actor ''alice'') demo_policy Eligible demo_time demo_id
      = Inr (?db\<lparr>pd_Requests := [demo_row]\<rparr>, demo_row)"
    using v2 by (simp add: request_row_def purgeRequestByObjectOn_def insertPurgeRequestOn_def demo_row_def demo_request_cmd_def Let_def)
  have ik: "ik_RequestID k = ''k1''" "ik_TenantID k = ''o''" by (simp_all add: k_def)
  show ?thesis
    by (simp add: RequestPurge_def with_idempotency_def replayPurgeIdempotencyOn_def idempotencyRowOn_def request_act_def ids_of_def
      request_binding_def request_record_def insertLifecycleEventOn_def emitObjectReceipt_def emitReceipt_def Let_def
      upsertRetentionStateOn_def completePurgeIdempotencyOn_def lifecycle_event_def v g r c ks cmd ik) (intro exI conjI, rule refl, simp_all add: ik)
qed

text \<open>The snapshot does not read the keys, the events or the executions.\<close>

lemma snapshot_frame:
  assumes "pd_States db' = pd_States db" and "pd_Requests db' = pd_Requests db" and "pd_Holds db' = pd_Holds db"
    and "pd_Approvals db' = pd_Approvals db" and "pd_Policies db' = pd_Policies db"
  shows "currentPurgeSnapshotOn db' = currentPurgeSnapshotOn db"
proof -
  have "retentionStateOn db' = retentionStateOn db" "purgeRequestByObjectOn db' = purgeRequestByObjectOn db"
    "activeBlockingHoldRefsOn db' = activeBlockingHoldRefsOn db" "approvalIDsOn db' = approvalIDsOn db"
    "retentionPolicyByIDOn db' = retentionPolicyByIDOn db"
    by (intro ext, simp add: retentionStateOn_def purgeRequestByObjectOn_def activeBlockingHoldRefsOn_def approvalIDsOn_def
        retentionPolicyByIDOn_def assms)+
  then show ?thesis by (intro ext) (simp only: currentPurgeSnapshotOn_def)
qed

lemma demo_hash_frame [simp]: "demo_hash (db\<lparr>pd_Keys := ks\<rparr>) = demo_hash db" "demo_hash (db\<lparr>pd_Executions := xs\<rparr>) = demo_hash db"
    "demo_hash (db\<lparr>pd_Events := es\<rparr>) = demo_hash db"
  using snapshot_frame [of "db\<lparr>pd_Keys := ks\<rparr>" db] snapshot_frame [of "db\<lparr>pd_Executions := xs\<rparr>" db]
    snapshot_frame [of "db\<lparr>pd_Events := es\<rparr>" db] by (simp_all add: demo_hash_def)

definition demo_approve_cmd :: "PurgeDB \<Rightarrow> ApprovePurgeCommand" where
  "demo_approve_cmd db = \<lparr>ac_RequestID = demo_id, ac_ExpectedLifecycleHash = demo_hash db, ac_Reason = ''ok'', ac_RequestIDKey = ''k2''\<rparr>"

definition approved_row :: EvidencePurgeRequest where
  "approved_row = demo_row\<lparr>pq_Status := PurgeRequestStatusApproved, pq_ApprovedAt := demo_time\<rparr>"

lemma approved_row_simps [simp]:
  "pq_RequestID approved_row = demo_id" "pq_ObjectID approved_row = demo_object" "pq_Status approved_row = PurgeRequestStatusApproved"
  "pq_TenantID approved_row = ''o''" "pq_PolicyID approved_row = demo_id" "pq_Category approved_row = ''invoice''"
  "purgeRequestScope approved_row = demo_scope"
  by (simp_all add: approved_row_def purgeRequestScope_def, simp_all add: demo_row_def)

lemma demo_approve:
  fixes es ss ks
  defines "db \<equiv> stored_db\<lparr>pd_Requests := [demo_row], pd_Events := es, pd_States := ss, pd_Keys := ks\<rparr>"
  assumes es: "map le_EventID es = [''e1'', ''e2'']" and ks: "map ik_RequestID ks = [''k1'']" and ss: "map (\<lambda>s. (rt_ObjectID s, rt_PolicyID s)) ss = [(demo_object, demo_id)]"
  shows "\<exists>a es' ss' ks' v. ApprovePurge None db (demo_approve_cmd db) (actor ''bob'') demo_time (ids_of [''a1'', ''e3'']) =
      Inr (db\<lparr>pd_Approvals := [a], pd_Requests := [approved_row], pd_Events := es', pd_States := ss', pd_Keys := ks'\<rparr>, v)
     \<and> map le_EventID es' = [''e1'', ''e2'', ''e3''] \<and> map ik_RequestID ks' = [''k1'', ''k2''] \<and> list_all (\<lambda>s. rt_PolicyID s = demo_id) ss'"
proof -
  obtain x1 x2 where es': "es = [x1, x2]" "le_EventID x1 = ''e1''" "le_EventID x2 = ''e2''" using es by (auto simp: map_eq_Cons_conv)
  obtain s where ss': "ss = [s]" "rt_PolicyID s = demo_id" "rt_ObjectID s = demo_object" using ss by (auto simp: map_eq_Cons_conv)
  obtain k where ks': "ks = [k]" "ik_RequestID k = ''k1''" using ks by (auto simp: map_eq_Cons_conv)
  define k2 where "k2 = \<lparr>ik_TenantID = ''o'', ik_RequestID = ''k2'',
     ik_CommandHash = purgeCommandHash (approvePurgeCommandShape (demo_approve_cmd db)), ik_ActorBinding = ''bob'',
     ik_EntityID = '''', ik_Result = None, ik_CreatedAt = demo_time, ik_CompletedAt = ''''\<rparr>"
  let ?db = "db\<lparr>pd_Keys := [k, k2]\<rparr>"
  have env: "demo_env ?db" using stored_env by (simp add: demo_env_def db_def)
  define c where "c = demo_current ?db"
  have sn: "snapshot_gate ?db demo_object demo_scope (rp_BlockingHoldKinds demo_policy) (demo_hash db) = Inr (c, demo_hash db)"
    and hh: "hash64_ok (demo_hash db)"
    using demo_snapshot [OF env] ss' by (simp_all add: c_def db_def)
  have k2: "reserveIdempotencyKey db ''o'' ''k2'' (purgeCommandHash (approvePurgeCommandShape (demo_approve_cmd db))) ''bob'' demo_time = Inr ?db"
    by (simp add: reserveIdempotencyKey_def idempotencyRowOn_def k2_def ks' db_def)
  have v: "AssertValidApprovePurgeCommand (demo_approve_cmd db) = Inr ()"
    using hh by (simp add: AssertValidApprovePurgeCommand_def demo_approve_cmd_def text_eval)
  have cmd: "ac_RequestID (demo_approve_cmd db) = demo_id" "ac_RequestIDKey (demo_approve_cmd db) = ''k2''"
      "ac_ExpectedLifecycleHash (demo_approve_cmd db) = demo_hash db"
    by (simp_all add: demo_approve_cmd_def)
  have rows: "pd_Requests db = [demo_row]" "pd_Approvals db = []" "pd_Events db = [x1, x2]" "pd_States db = [s]" "pd_Keys db = [k]"
     "pd_Objects db = pd_Objects stored_db"
    by (simp_all add: db_def es' ss' ks')
  have g: "approve_gates ?db (demo_approve_cmd db) demo_row demo_scope (actor ''bob'') = Inr (demo_policy, Eligible, c, demo_hash db, 1)"
    using sn demo_bound_policy [OF env, of demo_row] demo_authorized [of ActionApprovePurge "''alice''" "''bob''"]
    by (simp add: approve_gates_def approve_status_gate_def cmd approval_position_def approvalIDsOn_def rows)
  have ik: "ik_RequestID k2 = ''k2''" "ik_TenantID k2 = ''o''" by (simp_all add: k2_def)
  show ?thesis
    by (simp add: ApprovePurge_def with_idempotency_def replayPurgeIdempotencyOn_def idempotencyRowOn_def approve_act_def ids_of_def
      purgeRequestByIDOn_def approve_record_def insertPurgeApprovalOn_def updatePurgeRequest_def status_guard_def
      insertLifecycleEventOn_def emitObjectReceipt_def emitReceipt_def Let_def approvalIDsOn_def
      upsertRetentionStateOn_def completePurgeIdempotencyOn_def lifecycle_event_def v g k2 cmd ik rows es' ss' ks' approved_row_def) (intro exI conjI, rule refl, simp_all add: ik es' ks')
qed

definition demo_execute_cmd :: "PurgeDB \<Rightarrow> ExecutePurgeCommand" where
  "demo_execute_cmd db = \<lparr>ec_RequestID = demo_id, ec_ExpectedLifecycleHash = demo_hash db, ec_Reason = ''run'', ec_ExecutionID = demo_id\<rparr>"

text \<open>The first transaction opens the execution.\<close>

lemma demo_intent:
  assumes env: "demo_env db" and reqs: "pd_Requests db = [approved_row]" and objs: "pd_Objects db = pd_Objects stored_db"
    and ss: "list_all (\<lambda>s. rt_PolicyID s = demo_id) (pd_States db)" and xs: "pd_Executions db = []"
    and es: "''e4'' \<notin> le_EventID ` set (pd_Events db)" and ks: "demo_id \<notin> ik_RequestID ` set (pd_Keys db)"
  shows "\<exists>db' exec. executeIntent None db disk (demo_execute_cmd db) (actor ''carol'') demo_time (ids_of [''e4'', ''e5'']) =
       (disk, Inr (Opened db' approved_row exec))
     \<and> execution_gates db' exec = Inr (approved_row, object_row demo_input demo_time, demo_current db)"
proof -
  let ?cmd = "demo_execute_cmd db" and ?obj = "object_row demo_input demo_time"
  define h where "h = purgeCommandHash (executePurgeCommandShape ?cmd)"
  define k where "k = \<lparr>ik_TenantID = ''o'', ik_RequestID = demo_id, ik_CommandHash = h, ik_ActorBinding = ''carol'',
     ik_EntityID = '''', ik_Result = None, ik_CreatedAt = demo_time, ik_CompletedAt = ''''\<rparr>"
  define db1 where "db1 = db\<lparr>pd_Keys := pd_Keys db @ [k]\<rparr>"
  have nokey: "find (\<lambda>k. ik_TenantID k = ''o'' \<and> ik_RequestID k = demo_id) (pd_Keys db) = None"
    using ks by (force simp: find_None_iff)
  have cmd: "ec_RequestID ?cmd = demo_id" "ec_ExecutionID ?cmd = demo_id" "ec_ExpectedLifecycleHash ?cmd = demo_hash db"
    by (simp_all add: demo_execute_cmd_def)
  have cur: "snapshot_gate x demo_object demo_scope (rp_BlockingHoldKinds demo_policy) (demo_hash db) = Inr (demo_current db, demo_hash db)"
    and bp: "bound_policy_gate x approved_row demo_scope = Inr (demo_policy, Eligible)"
    if x: "pd_States x = pd_States db" "pd_Requests x = pd_Requests db" "pd_Holds x = pd_Holds db" "pd_Approvals x = pd_Approvals db"
      "pd_Policies x = pd_Policies db" "pd_Closures x = pd_Closures db" for x
  proof -
    have e: "demo_env x" using env x by (simp add: demo_env_def)
    have "demo_hash x = demo_hash db" "demo_current x = demo_current db"
      using snapshot_frame [of x db] x by (simp_all add: demo_hash_def demo_current_def)
    then show "snapshot_gate x demo_object demo_scope (rp_BlockingHoldKinds demo_policy) (demo_hash db) = Inr (demo_current db, demo_hash db)"
      using demo_snapshot [OF e] ss x by (simp add: list_all_iff)
    show "bound_policy_gate x approved_row demo_scope = Inr (demo_policy, Eligible)"
      by (rule demo_bound_policy [OF e]) simp_all
  qed
  define exec where "exec = intent_row ?cmd approved_row ?obj (demo_hash db) demo_time (actor ''carol'')"
  have ex: "px_RequestID exec = demo_id" "px_ObjectID exec = demo_object" "px_IntentReviewedHash exec = demo_hash db"
      "px_Size exec = 4" "px_ExecutionID exec = demo_id"
    by (simp_all add: exec_def intent_row_def cmd demo_input_def)
  have hh: "demo_hash db \<noteq> ''''" using demo_snapshot [OF env] ss by (auto simp: list_all_iff hash64_ok_def)
  have gates: "execute_gates db1 ?cmd approved_row demo_scope (actor ''carol'') = Inr (?obj, demo_hash db)"
    using cur [of db1] bp [of db1] demo_authorized [of ActionExecutePurge "''''" "''carol''"] objs
    by (simp add: execute_gates_def execute_status_gate_def cmd db1_def)
  have opened: "\<exists>db' . execute_open None db1 ?cmd approved_row demo_scope ?obj (demo_hash db) (actor ''carol'') demo_time ''e4'' = Inr (db', exec)
     \<and> (pd_States db' = pd_States db \<and> pd_Requests db' = pd_Requests db \<and> pd_Holds db' = pd_Holds db \<and> pd_Approvals db' = pd_Approvals db
        \<and> pd_Policies db' = pd_Policies db \<and> pd_Closures db' = pd_Closures db \<and> pd_Objects db' = pd_Objects db)"
    using es xs hh by (force simp: execute_open_def Let_def exec_def [symmetric] insertPurgeExecutionOn_def db1_def ex insertLifecycleEventOn_def
      emitObjectReceipt_def emitReceipt_def lifecycle_event_def list_ex_iff)
  then obtain db' where db': "execute_open None db1 ?cmd approved_row demo_scope ?obj (demo_hash db) (actor ''carol'') demo_time ''e4'' = Inr (db', exec)"
    and fr: "pd_States db' = pd_States db" "pd_Requests db' = pd_Requests db" "pd_Holds db' = pd_Holds db" "pd_Approvals db' = pd_Approvals db"
      "pd_Policies db' = pd_Policies db" "pd_Closures db' = pd_Closures db" "pd_Objects db' = pd_Objects db" by blast
  have "executeIntent None db disk ?cmd (actor ''carol'') demo_time (ids_of [''e4'', ''e5'']) = (disk, Inr (Opened db' approved_row exec))"
    using gates db' xs
    by (simp add: executeIntent_def purgeRequestByIDOn_def reqs cmd Let_def idempotencyRowOn_def nokey reserveIdempotencyKey_def
        k_def [symmetric] h_def [symmetric] db1_def [symmetric] execute_fresh_def purgeIntentExecutionForRequestOn_def ids_of_def)
       (simp add: db1_def)
  moreover have "execution_gates db' exec = Inr (approved_row, ?obj, demo_current db)"
    using cur [OF fr(1-6)] bp [OF fr(1-6)] fr objs
    by (simp add: execution_gates_def ex purgeRequestByIDOn_def reqs)
  ultimately show ?thesis by blast
qed

section \<open>The reached states\<close>

lemma demo_stored_reach: "purge_reach None stored_world []"
proof -
  have "purge_reach None \<lparr>w_DB = empty_db, w_Disk = (\<lambda>_. None)\<rparr> []"
    by (rule reach_start) (simp_all add: empty_db_def)
  from reach_step [OF this step_store [of None _ _ False FiscalRuntimeLegacyCompat demo_input demo_time]]
  show ?thesis by (simp add: demo_store)
qed

lemma demo_requested:
  obtains es ks ss v where
    "RequestPurge None stored_db demo_request_cmd (actor ''alice'') demo_time (ids_of [demo_id, ''e1'', ''e2'']) =
      Inr (stored_db\<lparr>pd_Requests := [demo_row], pd_Events := es, pd_States := ss, pd_Keys := ks\<rparr>, v)"
    "map le_EventID es = [''e1'', ''e2'']" "map ik_RequestID ks = [''k1'']"
    "map (\<lambda>s. (rt_ObjectID s, rt_PolicyID s)) ss = [(demo_object, demo_id)]"
    "purge_reach None (stored_world\<lparr>w_DB := stored_db\<lparr>pd_Requests := [demo_row], pd_Events := es, pd_States := ss, pd_Keys := ks\<rparr>\<rparr>) []"
proof -
  obtain es ks ss v where rq: "RequestPurge None stored_db demo_request_cmd (actor ''alice'') demo_time (ids_of [demo_id, ''e1'', ''e2'']) =
      Inr (stored_db\<lparr>pd_Requests := [demo_row], pd_Events := es, pd_States := ss, pd_Keys := ks\<rparr>, v)"
    and i: "map le_EventID es = [''e1'', ''e2'']" "map ik_RequestID ks = [''k1'']"
      "map (\<lambda>s. (rt_ObjectID s, rt_PolicyID s)) ss = [(demo_object, demo_id)]"
    using demo_request by (elim exE conjE) (rule that)
  have "purge_reach None (stored_world\<lparr>w_DB := stored_db\<lparr>pd_Requests := [demo_row], pd_Events := es, pd_States := ss, pd_Keys := ks\<rparr>\<rparr>) []"
    using reach_step [OF demo_stored_reach step_request] rq by (simp add: stored_world_def)
  from that [OF rq i this] show thesis .
qed

lemma demo_approved:
  obtains es ks ss a es' ks' ss' v db where
    "db = stored_db\<lparr>pd_Requests := [demo_row], pd_Events := es, pd_States := ss, pd_Keys := ks\<rparr>"
    "map le_EventID es = [''e1'', ''e2'']" "purge_reach None (stored_world\<lparr>w_DB := db\<rparr>) []"
    "ApprovePurge None db (demo_approve_cmd db) (actor ''bob'') demo_time (ids_of [''a1'', ''e3'']) =
      Inr (db\<lparr>pd_Approvals := [a], pd_Requests := [approved_row], pd_Events := es', pd_States := ss', pd_Keys := ks'\<rparr>, v)"
    "map le_EventID es' = [''e1'', ''e2'', ''e3'']" "map ik_RequestID ks' = [''k1'', ''k2'']"
    "list_all (\<lambda>s. rt_PolicyID s = demo_id) ss'"
    "purge_reach None (stored_world\<lparr>w_DB := db\<lparr>pd_Approvals := [a], pd_Requests := [approved_row], pd_Events := es', pd_States := ss', pd_Keys := ks'\<rparr>\<rparr>) []"
proof -
  obtain es ks ss v0 where i: "map le_EventID es = [''e1'', ''e2'']" "map ik_RequestID ks = [''k1'']"
      "map (\<lambda>s. (rt_ObjectID s, rt_PolicyID s)) ss = [(demo_object, demo_id)]"
    and r: "purge_reach None (stored_world\<lparr>w_DB := stored_db\<lparr>pd_Requests := [demo_row], pd_Events := es, pd_States := ss, pd_Keys := ks\<rparr>\<rparr>) []"
    by (rule demo_requested)
  define db where "db = stored_db\<lparr>pd_Requests := [demo_row], pd_Events := es, pd_States := ss, pd_Keys := ks\<rparr>"
  obtain a es' ss' ks' v where ap: "ApprovePurge None db (demo_approve_cmd db) (actor ''bob'') demo_time (ids_of [''a1'', ''e3'']) =
      Inr (db\<lparr>pd_Approvals := [a], pd_Requests := [approved_row], pd_Events := es', pd_States := ss', pd_Keys := ks'\<rparr>, v)"
    and i2: "map le_EventID es' = [''e1'', ''e2'', ''e3'']" "map ik_RequestID ks' = [''k1'', ''k2'']"
      "list_all (\<lambda>s. rt_PolicyID s = demo_id) ss'"
    using demo_approve [OF i, folded db_def] by (elim exE conjE) (rule that)
  have "purge_reach None (stored_world\<lparr>w_DB := db\<lparr>pd_Approvals := [a], pd_Requests := [approved_row], pd_Events := es', pd_States := ss', pd_Keys := ks'\<rparr>\<rparr>) []"
    using reach_step [OF r [folded db_def] step_approve] ap by simp
  from that [OF db_def i(1) r [folded db_def] ap i2 this] show thesis .
qed

text \<open>The approved request is picked up by carol: the first transaction opens her execution.\<close>

lemma demo_opened:
  obtains db db' exec where
    "purge_reach None (stored_world\<lparr>w_DB := db\<rparr>) []" "purgeRequestByIDOn db demo_id = Inr approved_row"
    "executeIntent None db (w_Disk stored_world) (demo_execute_cmd db) (actor ''carol'') demo_time (ids_of [''e4'', ''e5'']) =
       (w_Disk stored_world, Inr (Opened db' approved_row exec))"
    "execution_gates db' exec = Inr (approved_row, object_row demo_input demo_time, demo_current db)"
    "pd_Objects db' = [object_row demo_input demo_time]" "hash64_ok (demo_hash db)"
proof -
  obtain db es ks ss a es' ks' ss' v where db: "db = stored_db\<lparr>pd_Requests := [demo_row], pd_Events := es, pd_States := ss, pd_Keys := ks\<rparr>"
    and i: "map le_EventID es' = [''e1'', ''e2'', ''e3'']" "map ik_RequestID ks' = [''k1'', ''k2'']" "list_all (\<lambda>s. rt_PolicyID s = demo_id) ss'"
    and r: "purge_reach None (stored_world\<lparr>w_DB := db\<lparr>pd_Approvals := [a], pd_Requests := [approved_row], pd_Events := es', pd_States := ss', pd_Keys := ks'\<rparr>\<rparr>) []"
    by (rule demo_approved)
  define db2 where "db2 = db\<lparr>pd_Approvals := [a], pd_Requests := [approved_row], pd_Events := es', pd_States := ss', pd_Keys := ks'\<rparr>"
  have "le_EventID ` set es' = {''e1'', ''e2'', ''e3''}" "ik_RequestID ` set ks' = {''k1'', ''k2''}"
    using i(1,2) by (metis list.set_map list.simps(15) empty_set)+
  moreover have "demo_id \<notin> {''k1'', ''k2''}" by (auto simp: demo_id_def numeral_eq_Suc)
  ultimately obtain db3 exec where it: "executeIntent None db2 (w_Disk stored_world) (demo_execute_cmd db2) (actor ''carol'') demo_time (ids_of [''e4'', ''e5'']) =
       (w_Disk stored_world, Inr (Opened db3 approved_row exec))"
    and g: "execution_gates db3 exec = Inr (approved_row, object_row demo_input demo_time, demo_current db2)"
    using demo_intent [of db2 "w_Disk stored_world"] i(3) by (auto simp: db2_def db demo_env_def)
  have o: "pd_Objects db3 = [object_row demo_input demo_time]"
    using executeIntent_evolves [OF it] by (simp add: db_evolves_def same_environment_def db2_def db)
  have "hash64_ok (demo_hash db2)"
    using demo_snapshot [of db2] i(3) stored_env by (simp add: db2_def db demo_env_def list_all_iff)
  from that [OF r [folded db2_def] _ it g o this] show thesis by (simp add: purgeRequestByIDOn_def db2_def)
qed

text \<open>The process dies after the unlink, before the second commit.\<close>

lemma demo_purge_reach:
  "\<exists>w. purge_reach None w [] \<and> pd_Objects (w_DB w) = [object_row demo_input demo_time]
     \<and> w_Disk w (ObjectRelPath demo_object) = None"
proof -
  obtain db db' exec where r: "purge_reach None (stored_world\<lparr>w_DB := db\<rparr>) []"
    and it: "executeIntent None db (w_Disk stored_world) (demo_execute_cmd db) (actor ''carol'') demo_time (ids_of [''e4'', ''e5'']) =
       (w_Disk stored_world, Inr (Opened db' approved_row exec))"
    and g: "execution_gates db' exec = Inr (approved_row, object_row demo_input demo_time, demo_current db)"
    and o: "pd_Objects db' = [object_row demo_input demo_time]"
    by (rule demo_opened)
  define x where "x = \<lparr>fl_Cmd = demo_execute_cmd db, fl_Request = approved_row, fl_Exec = exec, fl_Who = actor ''carol'',
     fl_Now = demo_time, fl_EventID = ids_of [''e4'', ''e5''] 1\<rparr>"
  let ?w = "\<lparr>w_DB = db', w_Disk = w_Disk stored_world\<rparr>"
  have r3: "purge_reach None ?w [x]"
    using reach_step [OF r step_intent_opened [of None _ _ "actor ''carol''" demo_time "ids_of [''e4'', ''e5'']"]] it
    by (simp add: x_def)
  have "removeObjectBytes (w_Disk stored_world) (ObjectRelPath demo_object) demo_object 4
     = Inr ((w_Disk stored_world)(ObjectRelPath demo_object := None))"
    by (simp add: removeObjectBytes_Inr stored_world_def)
  then obtain res where "run_flight None ?w x = ((w_Disk stored_world)(ObjectRelPath demo_object := None), res)"
    using g by (simp add: run_flight_def executeAndCompleteOn_def x_def demo_input_def)
  then have "purge_reach None (?w\<lparr>w_Disk := (w_Disk stored_world)(ObjectRelPath demo_object := None)\<rparr>) []"
    using reach_step [OF r3 step_flight_failed [of x]] by simp
  with o show ?thesis by force
qed

theorem no_undocumented_loss_witness:
  "\<exists>w. purge_reach None w [] \<and> w_Disk w (ObjectRelPath demo_object) = None
     \<and> VerifyObjectBytes w demo_object
         \<in> {Inr (), Inl (PlainErr ''OBJECT_NOT_FOUND''), Inl (PlainErr ''OBJECT_PURGED_EXPECTED_ABSENCE'')}"
  using demo_purge_reach no_undocumented_loss [of None _ "[]" demo_object] by blast

theorem missing_bytes_imply_approval_witness:
  "\<exists>w. purge_reach None w [] \<and> w_Disk w (ObjectRelPath demo_object) = None
     \<and> (\<exists>r \<in> set (pd_Requests (w_DB w)). pq_ObjectID r = demo_object
          \<and> (\<exists>a \<in> set (pd_Approvals (w_DB w)). pa_RequestID a = pq_RequestID r \<and> pa_Decision a = PurgeApprovalDecisionApproved))"
proof -
  obtain w where w: "purge_reach None w []" "pd_Objects (w_DB w) = [object_row demo_input demo_time]"
      "w_Disk w (ObjectRelPath demo_object) = None"
    using demo_purge_reach by blast
  have "eo_ObjectID (object_row demo_input demo_time) = demo_object" "eo_RelPath (object_row demo_input demo_time) = ObjectRelPath demo_object"
    by (simp_all add: demo_input_def)
  then show ?thesis
    using missing_bytes_imply_approval [of None w "[]" "object_row demo_input demo_time"] w by auto
qed

end
