(* ===== verification/Purge_Properties.thy ===== *)
theory Purge_Properties
  imports Purge_Run
begin

text \<open>
  What the purge handlers promise, one theorem per promise: permanence of the ledgers and of final
  decisions, separation of duties and blockers at every approval, the conditions under which bytes
  are removed, idempotent replay, and the two ways the idempotency and approval ledgers fall short
  of their comments.
\<close>

section \<open>Permanence\<close>

interpretation purge_status: status_machine status_guard "\<lambda>s. s = PurgeRequestStatusRejected \<or> s = PurgeRequestStatusExecuted"
  by unfold_locales (auto simp: status_guard_def)

lemma purge_step_ledgers:
  assumes "purge_step s (w, fs) (w', fs')"
  shows "ledgers_evolve (w_DB w) (w_DB w')"
  using assms
proof (cases rule: purge_step_cases)
  case (step_store frozen mode i now)
  obtain res where "StoreObject s frozen mode w i now = (w', res)" using step_store by (metis prod.collapse)
  then show ?thesis
  proof (cases rule: StoreObject_cases)
    case (stored rs)
    then show ?thesis by (simp add: ledgers_evolve_def rows_evolve_refl)
  qed simp_all
next
  case (step_environment rs cs ps hs)
  then show ?thesis by (simp add: ledgers_evolve_def rows_evolve_refl)
next
  case (step_intent_finished cmd who now ids disk' db' v)
  then show ?thesis using executeIntent_evolves by (fastforce simp: db_evolves_def)
next
  case (step_intent_opened cmd who now ids disk' db' r exec)
  then show ?thesis using executeIntent_evolves by (fastforce simp: db_evolves_def)
next
  case (step_flight_finished x disk' db' v)
  then have "db_evolves (w_DB w) db'" using executeAndCompleteOn_evolves by (simp add: run_flight_def)
  then show ?thesis using step_flight_finished evolves_complete by (simp add: finish_world_def db_evolves_def)
qed (use RequestPurge_evolves ApprovePurge_evolves RejectPurge_evolves CancelPurge_evolves WithdrawPurge_evolves in
     \<open>auto simp: db_evolves_def\<close>)

lemma purge_steps_ledgers:
  "(purge_step s)\<^sup>*\<^sup>* (w, fs) (w', fs') \<Longrightarrow> ledgers_evolve (w_DB w) (w_DB w')"
proof (induction "(w', fs')" arbitrary: w' fs' rule: rtranclp_induct)
  case base
  then show ?case by simp
next
  case (step y)
  then show ?case using purge_step_ledgers ledgers_evolve_trans by (cases y) blast
qed

lemma request_final:
  "request_evolves r r' \<Longrightarrow> pq_Status r \<in> {PurgeRequestStatusRejected, PurgeRequestStatusExecuted} \<Longrightarrow> pq_Status r' = pq_Status r"
  using purge_status.terminal_absorbing by (auto simp: request_evolves_def)

lemma execution_final: "execution_evolves e e' \<Longrightarrow> px_State e \<noteq> PurgeExecutionIntent \<Longrightarrow> e' = e"
  by (auto simp: execution_evolves_def)

text \<open>
  C23: Whatever happens next, history is permanent: decisions, lifecycle events and receipts are
  never removed or changed, a request keeps its id, object and scope at its place, a rejected or
  executed request keeps its status, and an attempt that is completed or interrupted never changes
  again.
\<close>

theorem purge_history_permanent:
  assumes "(purge_step s)\<^sup>*\<^sup>* (w, fs) (w', fs')"
  shows "prefix (pd_Approvals (w_DB w)) (pd_Approvals (w_DB w')) \<and> prefix (pd_Events (w_DB w)) (pd_Events (w_DB w'))
     \<and> prefix (rs_Receipts (pd_Receipts (w_DB w))) (rs_Receipts (pd_Receipts (w_DB w')))
     \<and> (\<forall>i < length (pd_Requests (w_DB w)). i < length (pd_Requests (w_DB w'))
          \<and> (let r = pd_Requests (w_DB w) ! i; r' = pd_Requests (w_DB w') ! i in
               pq_RequestID r' = pq_RequestID r \<and> pq_ObjectID r' = pq_ObjectID r \<and> purgeRequestScope r' = purgeRequestScope r
               \<and> (pq_Status r \<in> {PurgeRequestStatusRejected, PurgeRequestStatusExecuted} \<longrightarrow> pq_Status r' = pq_Status r)))
     \<and> (\<forall>i < length (pd_Executions (w_DB w)). i < length (pd_Executions (w_DB w'))
          \<and> (px_State (pd_Executions (w_DB w) ! i) \<noteq> PurgeExecutionIntent
               \<longrightarrow> pd_Executions (w_DB w') ! i = pd_Executions (w_DB w) ! i))"
proof -
  note ev = purge_steps_ledgers [OF assms, unfolded ledgers_evolve_def]
  have r: "i < length (pd_Requests (w_DB w')) \<and> request_evolves (pd_Requests (w_DB w) ! i) (pd_Requests (w_DB w') ! i)"
    if "i < length (pd_Requests (w_DB w))" for i
    using rows_evolve_nth that ev by blast
  have e: "i < length (pd_Executions (w_DB w')) \<and> execution_evolves (pd_Executions (w_DB w) ! i) (pd_Executions (w_DB w') ! i)"
    if "i < length (pd_Executions (w_DB w))" for i
    using rows_evolve_nth that ev by blast
  have "\<forall>i < length (pd_Requests (w_DB w)). i < length (pd_Requests (w_DB w'))
      \<and> (let r = pd_Requests (w_DB w) ! i; r' = pd_Requests (w_DB w') ! i in
           pq_RequestID r' = pq_RequestID r \<and> pq_ObjectID r' = pq_ObjectID r \<and> purgeRequestScope r' = purgeRequestScope r
           \<and> (pq_Status r \<in> {PurgeRequestStatusRejected, PurgeRequestStatusExecuted} \<longrightarrow> pq_Status r' = pq_Status r))"
    using r request_final unfolding Let_def request_evolves_def by meson
  moreover have "\<forall>i < length (pd_Executions (w_DB w)). i < length (pd_Executions (w_DB w'))
      \<and> (px_State (pd_Executions (w_DB w) ! i) \<noteq> PurgeExecutionIntent
           \<longrightarrow> pd_Executions (w_DB w') ! i = pd_Executions (w_DB w) ! i)"
    using e execution_final by blast
  moreover have "prefix (pd_Approvals (w_DB w)) (pd_Approvals (w_DB w'))" "prefix (pd_Events (w_DB w)) (pd_Events (w_DB w'))"
      "prefix (rs_Receipts (pd_Receipts (w_DB w))) (rs_Receipts (pd_Receipts (w_DB w')))"
    using ev by simp_all
  ultimately show ?thesis by (intro conjI)
qed

theorem purge_history_permanent_witness:
  "\<exists>w w'. purge_step None (w, []) (w', []) \<and> pd_Requests (w_DB w) = [demo_row]
     \<and> length (pd_Events (w_DB w)) = 2 \<and> prefix (pd_Events (w_DB w)) (pd_Events (w_DB w'))
     \<and> pd_Requests (w_DB w') = [approved_row] \<and> pq_RequestID (pd_Requests (w_DB w') ! 0) = pq_RequestID demo_row"
proof -
  obtain db es ks ss a es' ks' ss' v where db: "db = stored_db\<lparr>pd_Requests := [demo_row], pd_Events := es, pd_States := ss, pd_Keys := ks\<rparr>"
    and ap: "ApprovePurge None db (demo_approve_cmd db) (actor ''bob'') demo_time (ids_of [''a1'', ''e3'']) =
      Inr (db\<lparr>pd_Approvals := [a], pd_Requests := [approved_row], pd_Events := es', pd_States := ss', pd_Keys := ks'\<rparr>, v)"
    and es: "map le_EventID es = [''e1'', ''e2'']"
    by (rule demo_approved)
  have st: "purge_step None (stored_world\<lparr>w_DB := db\<rparr>, [])
     (stored_world\<lparr>w_DB := db\<rparr>\<lparr>w_DB := db\<lparr>pd_Approvals := [a], pd_Requests := [approved_row], pd_Events := es', pd_States := ss', pd_Keys := ks'\<rparr>\<rparr>, [])"
    by (rule step_approve) (simp, rule ap)
  have "length es = 2" using arg_cong [OF es, of length] by simp
  with purge_history_permanent [OF r_into_rtranclp [of "purge_step None", OF st]] st show ?thesis
    by (intro exI [of _ "stored_world\<lparr>w_DB := db\<rparr>"] exI) (auto simp: db)
qed

section \<open>When bytes are removed\<close>

lemma bytes_removed_facts:
  assumes "bytes_removed db exec disk disk'" and "px_ObjectID exec = pq_ObjectID r"
    and "purgeRequestByIDOn db (px_RequestID exec) = Inr r"
  shows "pq_Status r = PurgeRequestStatusApproved \<and> unblocked db r
     \<and> (\<exists>obj bytes. evidenceObjectByIDOn db (pq_ObjectID r) = Some obj \<and> disk (eo_RelPath obj) = Some bytes
          \<and> ComputeObjectID bytes = pq_ObjectID r \<and> int (length bytes) = eo_Size obj \<and> disk' = disk(eo_RelPath obj := None))"
  using assms execution_gates_Inr unfolding bytes_removed_def removeObjectBytes_Inr by fastforce

definition removed_under :: "PurgeDB \<Rightarrow> string \<Rightarrow> disk \<Rightarrow> disk \<Rightarrow> bool" where
  "removed_under db i disk disk' \<longleftrightarrow>
     (\<exists>r obj bytes. purgeRequestByIDOn db i = Inr r \<and> pq_Status r = PurgeRequestStatusApproved \<and> unblocked db r
        \<and> evidenceObjectByIDOn db (pq_ObjectID r) = Some obj \<and> disk (eo_RelPath obj) = Some bytes
        \<and> ComputeObjectID bytes = pq_ObjectID r \<and> int (length bytes) = eo_Size obj \<and> disk' = disk(eo_RelPath obj := None))"

lemma executeIntent_removal:
  assumes "executeIntent s db disk cmd who now ids = (disk', res)"
  shows "disk' = disk \<or> removed_under db (ec_RequestID cmd) disk disk'"
  using assms
proof (cases rule: executeIntent_cases)
  case (recovered r res')
  from recovered(2) show ?thesis
  proof (cases rule: recoverSameExecutionOn_cases)
    case (executed exec obj res'')
    then have v: "px_ObjectID exec = pq_ObjectID r" "px_RequestID exec = pq_RequestID r"
      by (auto simp: validatePurgeIntentOn_def)
    then have "purgeRequestByIDOn db (px_RequestID exec) = Inr r"
      using recovered(1) request_by_id_D by auto
    then show ?thesis
      using executeAndCompleteOn_disk [OF executed(6)] bytes_removed_facts [OF _ v(1)] recovered(1)
      unfolding removed_under_def by blast
  qed simp_all
qed simp_all

lemma opened_frame:
  assumes "executeIntent s db disk cmd who now ids = (disk', Inr (Opened db' r exec))"
  shows "disk' = disk \<and> purgeRequestByIDOn db (ec_RequestID cmd) = Inr r \<and> pd_Requests db' = pd_Requests db
     \<and> same_environment db db' \<and> px_RequestID exec = pq_RequestID r \<and> px_ObjectID exec = pq_ObjectID r"
  using assms
proof (cases rule: executeIntent_cases)
  case (recovered r' res')
  then show ?thesis by (cases res') auto
next
  case (fresh r' db1 out)
  have "same_environment db db'" using executeIntent_evolves [OF assms] by (simp add: db_evolves_def)
  moreover have "pd_Requests db1 = pd_Requests db" using reserve_Inr [OF fresh(3)] by auto
  moreover have "execute_fresh s db1 disk cmd r' (purgeRequestScope r') who now ids = Inr (Opened db' r exec)"
    using fresh by simp
  note execute_fresh_effect [OF this]
  ultimately show ?thesis using fresh by (auto simp: open_effect_def intent_row_def)
qed simp_all

lemma flight_removal:
  assumes "executeAndCompleteOn s db' disk cmd exec who now i = (disk', res)" and "disk' \<noteq> disk"
    and "purgeRequestByIDOn db (px_RequestID exec) = Inr r" and "px_ObjectID exec = pq_ObjectID r"
    and "pd_Requests db' = pd_Requests db" and "same_environment db db'"
  shows "removed_under db (px_RequestID exec) disk disk'"
proof -
  have "purgeRequestByIDOn db' (px_RequestID exec) = Inr r" using assms(3,5) by (simp add: purgeRequestByIDOn_def)
  then have "pq_Status r = PurgeRequestStatusApproved \<and> unblocked db' r
     \<and> (\<exists>obj bytes. evidenceObjectByIDOn db' (pq_ObjectID r) = Some obj \<and> disk (eo_RelPath obj) = Some bytes
          \<and> ComputeObjectID bytes = pq_ObjectID r \<and> int (length bytes) = eo_Size obj \<and> disk' = disk(eo_RelPath obj := None))"
    using executeAndCompleteOn_disk [OF assms(1)] assms(2,4) bytes_removed_facts by blast
  then show ?thesis using assms(3,6) unblocked_same_environment [OF assms(6)]
    unfolding removed_under_def evidenceObjectByIDOn_def same_environment_def by auto
qed

text \<open>
  C20: ExecutePurge touches the disk only by removing the bytes of one object, those of the approved
  request it names, and only while nothing blocks the purge: the period is writable, the bound
  policy still resolves to one whose retention has elapsed, no hold of a blocking kind is active,
  and the bytes removed are the ones the object id is the digest of. This covers fresh attempts,
  recoveries of the same attempt and every failure.
\<close>

theorem bytes_removed_only_when_unblocked:
  assumes "ExecutePurge s w cmd who now ids = (w', res)" and "w_Disk w' \<noteq> w_Disk w"
  shows "\<exists>r obj bytes. purgeRequestByIDOn (w_DB w) (ec_RequestID cmd) = Inr r
     \<and> pq_Status r = PurgeRequestStatusApproved \<and> unblocked (w_DB w) r
     \<and> evidenceObjectByIDOn (w_DB w) (pq_ObjectID r) = Some obj \<and> w_Disk w (eo_RelPath obj) = Some bytes
     \<and> ComputeObjectID bytes = pq_ObjectID r \<and> w_Disk w' = (w_Disk w)(eo_RelPath obj := None)"
proof -
  obtain u where v: "AssertValidExecutePurgeCommand cmd = Inr u"
    using assms by (cases "AssertValidExecutePurgeCommand cmd") (auto simp: ExecutePurge_def)
  obtain disk out where i: "executeIntent s (w_DB w) (w_Disk w) cmd who now ids = (disk, out)" by fastforce
  have "removed_under (w_DB w) (ec_RequestID cmd) (w_Disk w) (w_Disk w')"
  proof (cases "\<exists>db r exec. out = Inr (Opened db r exec)")
    case True
    then obtain db r exec where o: "out = Inr (Opened db r exec)" by blast
    obtain disk' res' where x: "executeAndCompleteOn s db disk cmd exec who now (ids 1) = (disk', res')" by fastforce
    have d: "w_Disk w' = disk'" using assms(1) v i o x by (auto simp: ExecutePurge_def split: sum.splits)
    have f: "disk = w_Disk w" "purgeRequestByIDOn (w_DB w) (ec_RequestID cmd) = Inr r" "pd_Requests db = pd_Requests (w_DB w)"
        "same_environment (w_DB w) db" "px_RequestID exec = pq_RequestID r" "px_ObjectID exec = pq_ObjectID r"
      using opened_frame [of s "w_DB w" "w_Disk w" cmd who now ids disk db r exec] i o by auto
    moreover have "pq_RequestID r = ec_RequestID cmd" using request_by_id_D [OF f(2)] by simp
    ultimately show ?thesis
      using flight_removal [OF x, of "w_DB w" r] assms(2) d by simp
  next
    case False
    then have "w_Disk w' = disk"
      using assms(1) v i by (auto simp: ExecutePurge_def split: sum.splits intent_outcome.splits)
    then show ?thesis using executeIntent_removal [OF i] assms(2) by auto
  qed
  then show ?thesis unfolding removed_under_def by blast
qed

theorem bytes_removed_only_when_unblocked_witness:
  "\<exists>w cmd w' res. ExecutePurge None w cmd (actor ''carol'') demo_time (ids_of [''e4'', ''e5'']) = (w', res)
     \<and> purge_reach None w [] \<and> w_Disk w' \<noteq> w_Disk w \<and> unblocked (w_DB w) approved_row"
proof -
  obtain db db' exec where r: "purge_reach None (stored_world\<lparr>w_DB := db\<rparr>) []" "purgeRequestByIDOn db demo_id = Inr approved_row"
    and it: "executeIntent None db (w_Disk stored_world) (demo_execute_cmd db) (actor ''carol'') demo_time (ids_of [''e4'', ''e5'']) =
       (w_Disk stored_world, Inr (Opened db' approved_row exec))"
    and g: "execution_gates db' exec = Inr (approved_row, object_row demo_input demo_time, demo_current db)"
    and h: "hash64_ok (demo_hash db)"
    by (rule demo_opened)
  have v: "AssertValidExecutePurgeCommand (demo_execute_cmd db) = Inr ()"
    using h by (simp add: AssertValidExecutePurgeCommand_def demo_execute_cmd_def text_eval)
  obtain w' res where e: "ExecutePurge None (stored_world\<lparr>w_DB := db\<rparr>) (demo_execute_cmd db) (actor ''carol'') demo_time (ids_of [''e4'', ''e5'']) = (w', res)"
    by fastforce
  moreover have "removeObjectBytes (w_Disk stored_world) (ObjectRelPath demo_object) demo_object 4
     = Inr ((w_Disk stored_world)(ObjectRelPath demo_object := None))"
    by (simp add: removeObjectBytes_Inr stored_world_def)
  ultimately have "w_Disk w' = (w_Disk stored_world)(ObjectRelPath demo_object := None)"
    using v it g by (auto simp: ExecutePurge_def executeAndCompleteOn_def demo_input_def split: sum.splits)
  then have d: "w_Disk w' \<noteq> w_Disk (stored_world\<lparr>w_DB := db\<rparr>)"
    by (simp add: stored_world_def fun_eq_iff)
  from bytes_removed_only_when_unblocked [OF e d] have "unblocked db approved_row"
    using r(2) by (simp add: demo_execute_cmd_def)
  with e d r(1) show ?thesis by force
qed

section \<open>Separation of duties at every approval\<close>

abbreviation decisions_of :: "PurgeDB \<Rightarrow> string \<Rightarrow> EvidencePurgeApproval list" where
  "decisions_of db i \<equiv> filter (\<lambda>a. pa_RequestID a = i) (pd_Approvals db)"

lemma length_approvalIDsOn: "length (approvalIDsOn db i) = length (decisions_of db i)"
  by (simp add: approvalIDsOn_def)

lemma approval_position_cases:
  assumes "approval_position db (approvalIDsOn db i) = Inr (act, order, first)" and "distinct (map pa_ApprovalID (pd_Approvals db))"
  obtains (one) "decisions_of db i = []" "act = ActionApprovePurge" "order = 1" "first = ''''"
  | (two) a where "decisions_of db i = [a]" "act = ActionSecondApprove" "order = 2" "first = ps_SubjectID (pa_PrincipalSnapshot a)"
proof (cases "decisions_of db i")
  case Nil
  then have "approvalIDsOn db i = []" by (simp add: approvalIDsOn_def)
  then show thesis using one [OF Nil] assms(1) by (simp add: approval_position_def)
next
  case (Cons a as)
  show thesis
  proof (cases as)
    case Nil
    have m: "a \<in> set (pd_Approvals db)" using Cons by (metis list.set_intros(1) mem_Collect_eq set_filter)
    have "approvalIDsOn db i = [pa_ApprovalID a]" using Cons Nil by (simp add: approvalIDsOn_def)
    moreover have "purgeApprovalByIDOn db (pa_ApprovalID a) = Some a"
      using find_distinct_key [OF assms(2) m] by (simp add: purgeApprovalByIDOn_def)
    ultimately show thesis using two Cons Nil assms(1) by (auto simp: approval_position_def guard_simps)
  next
    case (Cons b bs)
    then have "length (approvalIDsOn db i) = length bs + 2"
      using \<open>decisions_of db i = a # as\<close> by (simp add: length_approvalIDsOn)
    then obtain x y zs where "approvalIDsOn db i = x # y # zs" by (metis Suc_eq_plus1 add_2_eq_Suc' length_Suc_conv)
    then show thesis using assms(1) by (simp add: approval_position_def)
  qed
qed

lemma environment_frame:
  "same_environment db db' \<Longrightarrow> retentionPolicyByIDOn db' = retentionPolicyByIDOn db \<and> resolveRetentionPolicyOn db' = resolveRetentionPolicyOn db"
  by (auto simp: same_environment_def retentionPolicyByIDOn_def resolveRetentionPolicyOn_def fun_eq_iff)

lemma approve_gates_Inr:
  "approve_gates db cmd r scope who = Inr (p, el, cur, h, order) \<Longrightarrow>
     pq_Status r = PurgeRequestStatusRequested \<and> bound_policy_gate db r scope = Inr (p, el)
     \<and> snapshot_gate db (pq_ObjectID r) scope (rp_BlockingHoldKinds p) (ac_ExpectedLifecycleHash cmd) = Inr (cur, h)
     \<and> (\<exists>act first. approval_position db (approvalIDsOn db (pq_RequestID r)) = Inr (act, order, first)
          \<and> authorizePurgeAct who scope act (rp_Category p) (rp_DualApprovalRequired p) (pq_RequestedBy r) first = Inr ())"
  unfolding approve_gates_def approve_status_gate_def guard_simps split_paired_Ex prod.case
  by (auto split: if_splits)

text \<open>
  C21: An approval that is not a replay was given on a requested, unblocked purge by a principal
  with an active membership of the tenant and the company who is neither its requester nor its
  first approver; it appends exactly one decision, signed with that principal, and it settles the
  request when the policy wants one approval or when it is the second.
\<close>

theorem approve_is_independent:
  assumes "ApprovePurge s db cmd who now ids = Inr (db', v)" and "\<not> av_IdempotentReplay v"
    and "distinct (map pa_ApprovalID (pd_Approvals db))"
  shows "\<exists>r bound p. purgeRequestByIDOn db (ac_RequestID cmd) = Inr r \<and> pq_Status r = PurgeRequestStatusRequested \<and> unblocked db r
     \<and> p_TenantID who = pq_TenantID r \<and> pq_CompanyID r \<in> set (p_CompanyScopes who) \<and> p_MembershipID who \<noteq> ''''
     \<and> (pq_RequestedBy r \<noteq> '''' \<longrightarrow> p_SubjectID who \<noteq> pq_RequestedBy r)
     \<and> retentionPolicyByIDOn db (pq_PolicyID r) = Some bound
     \<and> resolveRetentionPolicyOn db (purgeRequestScope r) (rp_Jurisdiction bound) (rp_Legislation bound) (pq_Category r) = Inr (Some p)
     \<and> pd_Approvals db' = pd_Approvals db @ [av_Approval v]
     \<and> pa_RequestID (av_Approval v) = pq_RequestID r \<and> pa_Decision (av_Approval v) = PurgeApprovalDecisionApproved
     \<and> pa_PrincipalSnapshot (av_Approval v) = PrincipalSnapshot_of who
     \<and> ((decisions_of db (pq_RequestID r) = [] \<and> av_ApprovalOrder v = 1)
        \<or> (\<exists>a. decisions_of db (pq_RequestID r) = [a] \<and> av_ApprovalOrder v = 2 \<and> rp_DualApprovalRequired p
              \<and> (ps_SubjectID (pa_PrincipalSnapshot a) \<noteq> '''' \<longrightarrow> p_SubjectID who \<noteq> ps_SubjectID (pa_PrincipalSnapshot a))))
     \<and> pq_Status (av_Request v) = (if rp_DualApprovalRequired p \<and> av_ApprovalOrder v = 1
          then PurgeRequestStatusRequested else PurgeRequestStatusApproved)"
proof -
  obtain r where r: "purgeRequestByIDOn db (ac_RequestID cmd) = Inr r" and act: "approve_act s db cmd r who now ids = Inr (db', v)"
    using ApprovePurge_Inr [OF assms(1)] assms(2) by blast
  let ?scope = "purgeRequestScope r"
  obtain db1 p el cur h order db2 r' ap where k: "reserveIdempotencyKey db (pq_TenantID r) (ac_RequestIDKey cmd)
          (purgeCommandHash (approvePurgeCommandShape cmd)) (p_SubjectID who) now = Inr db1"
    and g: "approve_gates db1 cmd r ?scope who = Inr (p, el, cur, h, order)"
    and rec: "approve_record s db1 cmd r ?scope who p el cur h order now (ids 0) (ids 1) = Inr (db2, r', ap)"
    and v: "v = \<lparr>av_Request = r', av_Approval = ap, av_ApprovalOrder = order, av_IdempotentReplay = False\<rparr>"
    and db': "db' = completePurgeIdempotencyOn db2 (pq_TenantID r) (ac_RequestIDKey cmd) (pq_RequestID r) (stored_approve v) now"
    using act unfolding approve_act_Inr by blast
  obtain ks where db1: "db1 = db\<lparr>pd_Keys := ks\<rparr>" using reserve_Inr [OF k] by blast
  have env: "same_environment db db1" by (simp add: same_environment_def db1)
  obtain act first where gates: "pq_Status r = PurgeRequestStatusRequested" "bound_policy_gate db1 r ?scope = Inr (p, el)"
      "snapshot_gate db1 (pq_ObjectID r) ?scope (rp_BlockingHoldKinds p) (ac_ExpectedLifecycleHash cmd) = Inr (cur, h)"
      "approval_position db1 (approvalIDsOn db1 (pq_RequestID r)) = Inr (act, order, first)"
      "authorizePurgeAct who ?scope act (rp_Category p) (rp_DualApprovalRequired p) (pq_RequestedBy r) first = Inr ()"
    using approve_gates_Inr [OF g] by blast
  have u: "unblocked db r" using gates_unblocked [OF gates(2,3)] unblocked_same_environment [OF env] by simp
  obtain bound where bound: "retentionPolicyByIDOn db (pq_PolicyID r) = Some bound"
      "resolveRetentionPolicyOn db ?scope (rp_Jurisdiction bound) (rp_Legislation bound) (pq_Category r) = Inr (Some p)"
    using gates(2) environment_frame [OF env] unfolding bound_policy_gate_Inr by auto
  note authz = authorizePurgeAct_Inr [OF gates(5)]
  have pos: "(decisions_of db (pq_RequestID r) = [] \<and> order = 1)
        \<or> (\<exists>a. decisions_of db (pq_RequestID r) = [a] \<and> order = 2 \<and> rp_DualApprovalRequired p
              \<and> (ps_SubjectID (pa_PrincipalSnapshot a) \<noteq> '''' \<longrightarrow> p_SubjectID who \<noteq> ps_SubjectID (pa_PrincipalSnapshot a)))"
    using gates(4) by (rule approval_position_cases) (use authz assms(3) in \<open>auto simp: db1\<close>)
  have r': "r' = (if \<not> rp_DualApprovalRequired p \<or> order = 2 then r\<lparr>pq_Status := PurgeRequestStatusApproved, pq_ApprovedAt := now\<rparr> else r)"
    using rec unfolding approve_record_Inr by blast
  have st: "pq_Status r' = (if rp_DualApprovalRequired p \<and> order = 1 then PurgeRequestStatusRequested else PurgeRequestStatusApproved)"
    using r' pos gates(1) by auto
  have "pd_Approvals db' = pd_Approvals db @ [ap]" "pa_RequestID ap = pq_RequestID r" "pa_Decision ap = PurgeApprovalDecisionApproved"
      "pa_PrincipalSnapshot ap = PrincipalSnapshot_of who"
    using approve_record_effect [OF rec] by (simp_all add: db' db1 completePurgeIdempotencyOn_def)
  then show ?thesis using r gates(1) u authz bound pos st unfolding v
    by (intro exI [of _ r] exI [of _ bound] exI [of _ p]) (simp add: purgeRequestScope_def)
qed

theorem approve_is_independent_witness:
  "\<exists>db cmd db' v. ApprovePurge None db cmd (actor ''bob'') demo_time (ids_of [''a1'', ''e3'']) = Inr (db', v)
     \<and> pd_Requests db = [demo_row] \<and> ''bob'' \<noteq> pq_RequestedBy demo_row \<and> pd_Approvals db' = pd_Approvals db @ [av_Approval v]
     \<and> unblocked db demo_row"
proof -
  obtain db es ks ss a es' ks' ss' v where db: "db = stored_db\<lparr>pd_Requests := [demo_row], pd_Events := es, pd_States := ss, pd_Keys := ks\<rparr>"
    and ap: "ApprovePurge None db (demo_approve_cmd db) (actor ''bob'') demo_time (ids_of [''a1'', ''e3'']) =
      Inr (db\<lparr>pd_Approvals := [a], pd_Requests := [approved_row], pd_Events := es', pd_States := ss', pd_Keys := ks'\<rparr>, v)"
    by (rule demo_approved)
  have "db\<lparr>pd_Approvals := [a], pd_Requests := [approved_row], pd_Events := es', pd_States := ss', pd_Keys := ks'\<rparr> \<noteq> db"
    by (auto simp: db dest!: arg_cong [of _ _ pd_Approvals])
  then have "\<not> av_IdempotentReplay v"
    using ApprovePurge_Inr [OF ap] unfolding approve_act_Inr by auto
  note th = approve_is_independent [OF ap this]
  have "pd_Requests db = [demo_row]" "pd_Approvals db = []" by (simp_all add: db)
  moreover from this have "purgeRequestByIDOn db (ac_RequestID (demo_approve_cmd db)) = Inr demo_row"
    by (simp add: demo_approve_cmd_def purgeRequestByIDOn_def)
  ultimately have "pd_Requests db = [demo_row] \<and> [a] = pd_Approvals db @ [av_Approval v] \<and> unblocked db demo_row"
    using th by auto
  then show ?thesis by - (intro exI conjI, rule ap, simp_all)
qed

end
