(* ===== verification/Retention_Store.thy ===== *)
theory Retention_Store
  imports Hold_Store
begin

text \<open>
  The versioned retention policies: internal/store/retention_policy_store.go. A put appends one
  immutable version to the chain of its exact tuple under the expected-version guard; resolution
  and eligibility read the enabled versions.
\<close>

record PutRetentionPolicyCommand =
  rk_Scope :: Scope
  rk_Jurisdiction :: string
  rk_Legislation :: string
  rk_Authority :: string
  rk_Source :: string
  rk_Category :: string
  rk_MinPeriod :: string
  rk_ExpectedVersion :: int
  rk_DualApprovalRequired :: bool
  rk_DualApproverRoles :: "string list"
  rk_BlockingHoldKinds :: "string list"
  rk_Enabled :: bool
  rk_RequestID :: string

record PutRetentionPolicyResult =
  rv_Policy :: RetentionPolicy
  rv_Created :: bool
  rv_IdempotentReplay :: bool

record EvaluatePurgeEligibilityInput =
  ei_Scope :: Scope
  ei_Jurisdiction :: string
  ei_Legislation :: string
  ei_Category :: string
  ei_ObjectPeriod :: string

record RetentionEligibilityResult =
  re_Eligibility :: RetentionEligibility
  re_PolicyID :: string
  re_PolicyVersion :: int
  re_MinPeriod :: string
  re_Jurisdiction :: string
  re_Legislation :: string
  re_Category :: string
  re_ModelVersion :: string

definition RetentionPolicyModelVersion :: string where
  "RetentionPolicyModelVersion = ''retention-policy/v0.8.0''"

section \<open>The put\<close>

definition retentionRoleDenied :: "AccountingRole list \<Rightarrow> bool" where
  "retentionRoleDenied roles = list_ex (\<lambda>r. r = RoleOperationalAccountant \<or> contains_sub ''admin'' (Role_str r)) roles"

definition retentionHasAnyRole :: "AccountingRole list \<Rightarrow> AccountingRole list \<Rightarrow> bool" where
  "retentionHasAnyRole roles required = list_ex (\<lambda>r. list_ex (\<lambda>want. r = want) required) roles"

definition authorizeRetentionPolicyPut :: "Principal \<Rightarrow> string \<Rightarrow> unit result" where
  "authorizeRetentionPolicyPut who tenantID =
     (if p_TenantID who \<noteq> tenantID then Inl (AuthErr ''TENANT_SCOPE_MISMATCH'')
      else if p_MembershipID who = '''' then Inl (AuthErr ''MEMBERSHIP_INACTIVE'')
      else if retentionRoleDenied (p_Roles who) then Inl (AuthErr ''ROLE_DENIED'')
      else if \<not> retentionHasAnyRole (p_Roles who) [RoleRecordsComplianceOfficer, RoleTenantRecordsOwner]
      then Inl (AuthErr ''ROLE_NOT_AUTHORIZED'')
      else if p_Assurance who \<noteq> AssuranceStandard \<and> p_Assurance who \<noteq> AssuranceStrong
      then Inl (AuthErr ''ASSURANCE_TOO_LOW'')
      else Inr ())"

fun ScopeKind_str :: "ScopeKind \<Rightarrow> string" where
  "ScopeKind_str ScopeKindCompany = ''company''"
| "ScopeKind_str ScopeKindInstitutional = ''institutional''"
| "ScopeKind_str (ScopeKindOther s) = s"

definition scope_shape :: "Scope \<Rightarrow> (string \<times> json) list" where
  "scope_shape s =
     [(''kind'', JStr (ScopeKind_str (sc_Kind s)))] @ fld_omit ''organizationId'' (JStr (sc_OrganizationID s))
     @ fld_omit ''companyId'' (JStr (sc_CompanyID s)) @ fld_omit ''ruc'' (JStr (sc_RUC s)) @ fld_omit ''period'' (JStr (sc_Period s))"

definition retentionPutCommandHash :: "PutRetentionPolicyCommand \<Rightarrow> string" where
  "retentionPutCommandHash cmd = sha256_hex (enc True (JObj (
     [(''scope'', JObj (scope_shape (rk_Scope cmd))), (''jurisdiction'', JStr (rk_Jurisdiction cmd)),
      (''legislation'', JStr (rk_Legislation cmd)), (''authority'', JStr (rk_Authority cmd)), (''source'', JStr (rk_Source cmd)),
      (''category'', JStr (rk_Category cmd)), (''minPeriod'', JStr (rk_MinPeriod cmd)),
      (''expectedVersion'', JInt (rk_ExpectedVersion cmd)), (''dualApprovalRequired'', JBool (rk_DualApprovalRequired cmd))]
     @ fld_omit ''dualApproverRoles'' (str_arr (rk_DualApproverRoles cmd))
     @ fld_omit ''blockingHoldKinds'' (str_arr (rk_BlockingHoldKinds cmd))
     @ [(''enabled'', JBool (rk_Enabled cmd))])))"

definition put_guards :: "PutRetentionPolicyCommand \<Rightarrow> Principal \<Rightarrow> unit result" where
  "put_guards cmd who =
     and_then (AssertValidRetentionScope (rk_Scope cmd)) (\<lambda>_.
     if sc_Kind (rk_Scope cmd) \<noteq> ScopeKindCompany then Inl (AuthErr ''INVALID_TRANSITION'')
     else if \<not> jurisdiction_ok (rk_Jurisdiction cmd) then Inl (PlainErr ''INVALID_RETENTION_JURISDICTION'')
     else if blank (rk_Legislation cmd) \<or> blank (rk_Authority cmd) \<or> blank (rk_Source cmd)
     then Inl (AuthErr ''POLICY_EVIDENCE_REQUIRED'')
     else if blank (rk_Category cmd) then Inl (PlainErr ''INVALID_RETENTION_CATEGORY'')
     else if \<not> IsValidPeriod (rk_MinPeriod cmd) then Inl (PlainErr ''INVALID_RETENTION_MIN_PERIOD'')
     else if rk_ExpectedVersion cmd < 0 then Inl (PlainErr ''INVALID_RETENTION_EXPECTED_VERSION'')
     else if blank (rk_RequestID cmd) then Inl (AuthErr ''IDEMPOTENCY_CONFLICT'')
     else authorizeRetentionPolicyPut who (sc_OrganizationID (rk_Scope cmd)))"

text \<open>The tuple a chain of versions belongs to, and the head of the chain.\<close>

definition policy_tuple :: "RetentionPolicy \<Rightarrow> string list" where
  "policy_tuple p = [rp_TenantID p, rp_CompanyID p, rp_RUC p, rp_Period p, rp_Jurisdiction p, rp_Legislation p, rp_Category p]"

definition command_tuple :: "PutRetentionPolicyCommand \<Rightarrow> string list" where
  "command_tuple cmd =
     [sc_OrganizationID (rk_Scope cmd), sc_CompanyID (rk_Scope cmd), sc_RUC (rk_Scope cmd), sc_Period (rk_Scope cmd),
      rk_Jurisdiction cmd, rk_Legislation cmd, rk_Category cmd]"

definition chain_head :: "PurgeDB \<Rightarrow> string list \<Rightarrow> int \<times> string" where
  "chain_head db t =
     (case sort_key (\<lambda>p. - rp_Version p) (filter (\<lambda>p. policy_tuple p = t) (pd_Policies db)) of
        [] \<Rightarrow> (0, '''')
      | p # _ \<Rightarrow> (rp_Version p, rp_PolicyID p))"

definition insertRetentionPolicyOn :: "PurgeDB \<Rightarrow> RetentionPolicy \<Rightarrow> PurgeDB result" where
  "insertRetentionPolicyOn db p =
     (if list_ex (\<lambda>x. rp_PolicyID x = rp_PolicyID p \<or> (policy_tuple x = policy_tuple p \<and> rp_Version x = rp_Version p)) (pd_Policies db)
      then Inl (StoreErr ''UNIQUE'')
      else if rp_Version p < 1 \<or> length (rp_MinPeriod p) \<noteq> 6 \<or> \<not> list_all is_digit (rp_MinPeriod p) then Inl (StoreErr ''CHECK'')
      else Inr (db\<lparr>pd_Policies := pd_Policies db @ [p]\<rparr>))"

text \<open>The expected-version guard and the new version.\<close>

definition put_act :: "PurgeDB \<Rightarrow> PutRetentionPolicyCommand \<Rightarrow> Principal \<Rightarrow> string \<Rightarrow> string \<Rightarrow> (PurgeDB \<times> RetentionPolicy) result" where
  "put_act db cmd who now policyID =
     (case chain_head db (command_tuple cmd) of (currentVersion, currentPolicyID) \<Rightarrow>
      if rk_ExpectedVersion cmd \<noteq> currentVersion then Inl (AuthErr ''LIFECYCLE_VERSION_MISMATCH'')
      else
        and_then (AssertValidRetentionPolicy
          \<lparr>rp_PolicyID = policyID, rp_TenantID = sc_OrganizationID (rk_Scope cmd), rp_CompanyID = sc_CompanyID (rk_Scope cmd),
           rp_RUC = sc_RUC (rk_Scope cmd), rp_Period = sc_Period (rk_Scope cmd), rp_Jurisdiction = rk_Jurisdiction cmd,
           rp_Legislation = rk_Legislation cmd, rp_Authority = rk_Authority cmd, rp_Source = rk_Source cmd,
           rp_Category = rk_Category cmd, rp_MinPeriod = rk_MinPeriod cmd, rp_Version = currentVersion + 1,
           rp_SupersedesPolicyID = currentPolicyID, rp_DualApprovalRequired = rk_DualApprovalRequired cmd,
           rp_DualApproverRoles = rk_DualApproverRoles cmd, rp_BlockingHoldKinds = rk_BlockingHoldKinds cmd,
           rp_Enabled = rk_Enabled cmd, rp_CreatedAt = now, rp_CreatedBy = p_SubjectID who\<rparr>) (\<lambda>policy.
        and_then (insertRetentionPolicyOn db policy) (\<lambda>db. Inr (db, policy))))"

definition PutRetentionPolicy :: "LifecycleDB \<Rightarrow> PutRetentionPolicyCommand \<Rightarrow> Principal \<Rightarrow> string \<Rightarrow> string
    \<Rightarrow> (LifecycleDB \<times> PutRetentionPolicyResult) result" where
  "PutRetentionPolicy db cmd who now policyID =
     and_then (put_guards cmd who) (\<lambda>_.
     let commandHash = retentionPutCommandHash cmd; tenant = sc_OrganizationID (rk_Scope cmd)
     in and_then (replay_key (ld_PolicyKeys db) tenant (rk_RequestID cmd) commandHash (p_SubjectID who)) (\<lambda>replay.
        case replay of
          Some p \<Rightarrow> Inr (db, \<lparr>rv_Policy = p, rv_Created = False, rv_IdempotentReplay = True\<rparr>)
        | None \<Rightarrow>
            let keys = reserve_key (ld_PolicyKeys db) tenant (rk_RequestID cmd) commandHash (p_SubjectID who) now
            in and_then (put_act (ld_Purge db) cmd who now policyID) (\<lambda>(purge, p).
               Inr (db\<lparr>ld_Purge := purge, ld_PolicyKeys := complete_key keys tenant (rk_RequestID cmd) (rp_PolicyID p) p now\<rparr>,
                    \<lparr>rv_Policy = p, rv_Created = True, rv_IdempotentReplay = False\<rparr>))))"

definition EvaluatePurgeEligibility :: "PurgeDB \<Rightarrow> EvaluatePurgeEligibilityInput \<Rightarrow> RetentionEligibilityResult result" where
  "EvaluatePurgeEligibility db input =
     (if sc_Kind (ei_Scope input) = ScopeKindInstitutional then Inl (AuthErr ''NOT_PURGEABLE'')
      else
        and_then (AssertValidRetentionScope (ei_Scope input)) (\<lambda>_.
        and_then (ensure (IsValidPeriod (ei_ObjectPeriod input)) (PlainErr ''INVALID_OBJECT_PERIOD'')) (\<lambda>_.
        and_then (resolveRetentionPolicyOn db (ei_Scope input) (ei_Jurisdiction input) (ei_Legislation input) (ei_Category input)) (\<lambda>m.
        and_then (from_option (AuthErr ''UNKNOWN_RETENTION_STATE'') m) (\<lambda>policy.
        let eligibility = EvaluateRetentionEligibility policy (ei_ObjectPeriod input) in
        if eligibility = EligibilityUnknown then Inl (AuthErr ''UNKNOWN_RETENTION_STATE'')
        else Inr \<lparr>re_Eligibility = eligibility, re_PolicyID = rp_PolicyID policy, re_PolicyVersion = rp_Version policy,
          re_MinPeriod = rp_MinPeriod policy, re_Jurisdiction = rp_Jurisdiction policy, re_Legislation = rp_Legislation policy,
          re_Category = rp_Category policy, re_ModelVersion = RetentionPolicyModelVersion\<rparr>)))))"

end
