(* ===== verification/Lifecycle_System.thy ===== *)
theory Lifecycle_System
  imports Purge_Properties Retention_Store
begin

text \<open>
  The evidence lifecycle as one system: the purge pipeline with the handlers of holds and retention
  policies in place of an arbitrary environment. Its states are states of the purge system, so every
  theorem about reachable purge states holds of it; holds and policies are permanent records, policy
  chains are well formed, and a hold keeps the bytes it protects.
\<close>

section \<open>Effects\<close>

lemma replay_reserved:
  assumes "replay_key keys t k h a = Inr None" and "e \<noteq> ''''"
  shows "replay_key (complete_key (reserve_key keys t k h a now) t k e v now') t k h a = Inr (Some v)"
proof -
  have "find (\<lambda>x. ky_TenantID x = t \<and> ky_RequestID x = k) keys = None"
    using assms(1) by (auto simp: replay_key_def split: option.splits if_splits)
  then show ?thesis using assms(2)
    by (simp add: replay_key_def complete_key_def reserve_key_def find_append find_map_pred)
qed

lemma place_act_Inr:
  assumes "place_act s db cmd scope who now i = Inr (db', h)"
  shows "\<exists>rs. db' = db\<lparr>pd_Holds := pd_Holds db @ [h], pd_Receipts := rs\<rparr> \<and> prefix (rs_Receipts (pd_Receipts db)) (rs_Receipts rs)
     \<and> h_HoldID h = i \<and> h_ObjectID h = hc_ObjectID cmd \<and> h_Kind h = hc_Kind cmd \<and> h_LiftedAt h = ''''
     \<and> i \<notin> h_HoldID ` set (pd_Holds db) \<and> authorizeHoldAct who scope ActionPlaceHold = Inr ()
     \<and> h_TenantID h = sc_OrganizationID scope"
proof -
  obtain db1 r where a: "authorizeHoldAct who scope ActionPlaceHold = Inr ()" and i: "insertHoldOn db h = Inr db1"
    and e: "emitObjectReceipt s db1 (hc_ObjectID cmd) HoldPlaced (hold_payload h (hc_Reason cmd) who) now = Inr (db', r)"
    and h: "h = \<lparr>h_HoldID = i, h_ObjectID = hc_ObjectID cmd, h_TenantID = sc_OrganizationID scope,
            h_CompanyID = sc_CompanyID scope, h_RUC = sc_RUC scope, h_Period = sc_Period scope, h_Kind = hc_Kind cmd,
            h_Reason = hc_Reason cmd, h_OwnerSubjectID = hc_OwnerSubjectID cmd, h_PlacedAt = now,
            h_PlacedBy = p_SubjectID who, h_LiftedAt = '''', h_LiftedBy = '''', h_LiftReason = ''''\<rparr>"
    using assms unfolding place_act_def Let_def guard_simps split_paired_Ex prod.case by auto
  have db1: "db1 = db\<lparr>pd_Holds := pd_Holds db @ [h]\<rparr>" "h_HoldID h \<notin> h_HoldID ` set (pd_Holds db)"
    using i by (auto simp: insertHoldOn_def list_ex_iff split: if_splits)
  moreover obtain rs where "db' = db1\<lparr>pd_Receipts := rs\<rparr>" using emit_Inr [OF e] by blast
  moreover have "prefix (rs_Receipts (pd_Receipts db1)) (rs_Receipts (pd_Receipts db'))"
    using emit_evolves [OF e] by (simp add: db_evolves_def ledgers_evolve_def)
  ultimately show ?thesis using a by (intro exI [of _ rs]) (simp add: h)
qed

lemma lift_act_Inr:
  assumes "lift_act s db cmd hold who now = Inr (db', h)"
  shows "\<exists>rs. db' = (liftHoldOn db (lc_HoldID cmd) now (p_SubjectID who) (lc_Reason cmd))\<lparr>pd_Receipts := rs\<rparr>
     \<and> prefix (rs_Receipts (pd_Receipts db)) (rs_Receipts rs) \<and> h_LiftedAt hold = ''''
     \<and> h = hold\<lparr>h_LiftedAt := now, h_LiftedBy := p_SubjectID who, h_LiftReason := lc_Reason cmd\<rparr>"
proof -
  let ?db = "liftHoldOn db (lc_HoldID cmd) now (p_SubjectID who) (lc_Reason cmd)"
  obtain r where l: "h_LiftedAt hold = ''''"
    and e: "emitObjectReceipt s ?db (h_ObjectID hold) HoldLifted (hold_payload hold (lc_Reason cmd) who) now = Inr (db', r)"
    and h: "h = hold\<lparr>h_LiftedAt := now, h_LiftedBy := p_SubjectID who, h_LiftReason := lc_Reason cmd\<rparr>"
    using assms unfolding lift_act_def Let_def guard_simps split_paired_Ex prod.case by auto
  moreover obtain rs where "db' = ?db\<lparr>pd_Receipts := rs\<rparr>" using emit_Inr [OF e] by blast
  moreover have "prefix (rs_Receipts (pd_Receipts ?db)) (rs_Receipts (pd_Receipts db'))"
    using emit_evolves [OF e] by (simp add: db_evolves_def ledgers_evolve_def)
  ultimately show ?thesis by (intro exI [of _ rs]) (simp add: liftHoldOn_def)
qed

lemma put_act_Inr:
  assumes "put_act db cmd who now i = Inr (db', p)"
  shows "db' = db\<lparr>pd_Policies := pd_Policies db @ [p]\<rparr> \<and> policy_tuple p = command_tuple cmd
     \<and> rp_Version p = fst (chain_head db (command_tuple cmd)) + 1 \<and> rp_SupersedesPolicyID p = snd (chain_head db (command_tuple cmd))
     \<and> rk_ExpectedVersion cmd = fst (chain_head db (command_tuple cmd)) \<and> rp_PolicyID p = i
     \<and> rp_Enabled p = rk_Enabled cmd \<and> i \<notin> rp_PolicyID ` set (pd_Policies db)"
proof -
  obtain v hid where c: "chain_head db (command_tuple cmd) = (v, hid)" by fastforce
  obtain q where val: "AssertValidRetentionPolicy q = Inr p" and i: "insertRetentionPolicyOn db p = Inr db'" and ev: "rk_ExpectedVersion cmd = v"
    and q: "policy_tuple q = command_tuple cmd" "rp_Version q = v + 1" "rp_SupersedesPolicyID q = hid" "rp_PolicyID q = i" "rp_Enabled q = rk_Enabled cmd"
    using assms c unfolding put_act_def guard_simps split_paired_Ex prod.case
    by (auto simp: guard_simps policy_tuple_def command_tuple_def split: if_splits)
  have "\<exists>roles kinds. p = q\<lparr>rp_DualApproverRoles := roles, rp_BlockingHoldKinds := kinds\<rparr>"
    using val unfolding AssertValidRetentionPolicy_def guard_simps by auto
  then show ?thesis using q ev c i by (auto simp: insertRetentionPolicyOn_def policy_tuple_def list_ex_iff split: if_splits)
qed

section \<open>Policy chains\<close>

definition chain_of :: "PurgeDB \<Rightarrow> string list \<Rightarrow> RetentionPolicy list" where
  "chain_of db t = filter (\<lambda>p. policy_tuple p = t) (pd_Policies db)"

text \<open>Versions count from 1 and every version supersedes the one before it.\<close>

definition chain_ok :: "RetentionPolicy list \<Rightarrow> bool" where
  "chain_ok ps \<longleftrightarrow> (\<forall>i < length ps. rp_Version (ps ! i) = int i + 1
     \<and> rp_SupersedesPolicyID (ps ! i) = (if i = 0 then '''' else rp_PolicyID (ps ! (i - 1))))"

lemma chain_ok_snoc:
  "chain_ok (ps @ [p]) \<longleftrightarrow> chain_ok ps \<and> rp_Version p = int (length ps) + 1
     \<and> rp_SupersedesPolicyID p = (if ps = [] then '''' else rp_PolicyID (last ps))"
proof -
  have "(ps @ [p]) ! i = ps ! i \<and> (ps @ [p]) ! (i - 1) = ps ! (i - 1)" if "i < length ps" for i
    using that by (simp add: nth_append)
  then show ?thesis
    by (cases ps rule: rev_cases) (auto simp: chain_ok_def All_less_Suc nth_append)
qed

lemma chain_ok_sorted: "chain_ok ps \<Longrightarrow> sorted_wrt (<) (map rp_Version ps)"
  by (simp add: sorted_wrt_iff_nth_less chain_ok_def)

lemma chain_ok_version: "chain_ok ps \<Longrightarrow> p \<in> set ps \<Longrightarrow> 1 \<le> rp_Version p"
  by (auto simp: chain_ok_def in_set_conv_nth)

text \<open>In an ascending list the last element is the only one of the highest version.\<close>

lemma ascending_last:
  assumes "sorted_wrt (<) (map rp_Version ps)" and "p \<in> set ps" and "\<forall>q \<in> set ps. rp_Version q \<le> rp_Version p"
  shows "p = last ps"
proof -
  obtain i where i: "i < length ps" "p = ps ! i" using assms(2) by (auto simp: in_set_conv_nth)
  have "\<not> i < length ps - 1"
  proof
    assume lt: "i < length ps - 1"
    then have "rp_Version (ps ! i) < rp_Version (ps ! (length ps - 1))"
      using assms(1) by (auto simp: sorted_wrt_iff_nth_less)
    moreover have "ps ! (length ps - 1) \<in> set ps" using lt by simp
    ultimately show False using assms(3) i(2) by fastforce
  qed
  with i show ?thesis by (cases ps rule: rev_cases) (auto simp: nth_append)
qed

lemma ascending_distinct: "sorted_wrt (<) (map f xs) \<Longrightarrow> distinct (map f xs)" for f :: "'a \<Rightarrow> int"
  by (simp add: strict_sorted_iff)

lemma chain_head_last:
  assumes "chain_ok (chain_of db t)"
  shows "chain_head db t = (if chain_of db t = [] then (0, '''') else (int (length (chain_of db t)), rp_PolicyID (last (chain_of db t))))"
proof (cases "chain_of db t = []")
  case True
  then show ?thesis by (simp add: chain_head_def chain_of_def [symmetric])
next
  case False
  let ?ps = "chain_of db t"
  obtain y ys where y: "sort_key (\<lambda>p. - rp_Version p) ?ps = y # ys"
    using False by (metis length_sort list.exhaust length_0_conv)
  have s: "set (y # ys) = set ?ps" using y by (metis set_sort)
  have "sorted (map (\<lambda>p. - rp_Version p) (y # ys))" using y by (metis sorted_sort_key)
  then have "\<forall>q \<in> set ?ps. rp_Version q \<le> rp_Version y" using s by auto
  then have "y = last ?ps" using ascending_last [OF chain_ok_sorted [OF assms], of y] s by auto
  moreover have "rp_Version (?ps ! (length ?ps - 1)) = int (length ?ps - 1) + 1" using assms False by (simp add: chain_ok_def)
  then have "rp_Version (last ?ps) = int (length ?ps)" using False by (cases ?ps rule: rev_cases) (simp_all add: nth_append)
  ultimately show ?thesis using y False by (simp add: chain_head_def chain_of_def [symmetric])
qed

definition policies_inv :: "PurgeDB \<Rightarrow> bool" where
  "policies_inv db \<longleftrightarrow> (\<forall>t. chain_ok (chain_of db t))"

lemma put_act_inv:
  assumes "put_act db cmd who now i = Inr (db', p)" and "policies_inv db"
  shows "policies_inv db'"
  unfolding policies_inv_def
proof
  fix t
  have ok: "chain_ok (chain_of db t)" for t using assms(2) by (simp add: policies_inv_def)
  show "chain_ok (chain_of db' t)"
  proof (cases "t = command_tuple cmd")
    case True
    have "chain_of db' t = chain_of db t @ [p]" using put_act_Inr [OF assms(1)] True by (simp add: chain_of_def)
    then show ?thesis using put_act_Inr [OF assms(1)] chain_head_last [OF ok] ok True by (simp add: chain_ok_snoc)
  next
    case False
    then have "chain_of db' t = chain_of db t" using put_act_Inr [OF assms(1)] by (simp add: chain_of_def)
    then show ?thesis using ok by simp
  qed
qed

text \<open>On well-formed chains resolution is the last enabled version and never ambiguous.\<close>

definition resolution_input :: "Scope \<Rightarrow> string \<Rightarrow> string \<Rightarrow> string \<Rightarrow> bool" where
  "resolution_input scope j l c \<longleftrightarrow> sc_Kind scope \<noteq> ScopeKindInstitutional \<and> AssertValidRetentionScope scope = Inr ()
     \<and> jurisdiction_ok j \<and> \<not> blank l \<and> \<not> blank c"


lemma resolve_max:
  assumes cand: "\<forall>p \<in> set ps. policy_candidate scope j l c p" and d: "distinct (map rp_Version ps)"
    and q: "q \<in> set ps" "\<forall>p \<in> set ps. rp_Version p \<le> rp_Version q"
  shows "ResolveRetentionPolicy ps scope j l c = Some q"
proof -
  obtain b v n where r: "resolve_loop (\<lambda>_. True) None 0 0 ps = (b, v, n)" by (metis prod_cases3)
  have "filter (policy_candidate scope j l c) ps = ps" using cand by (simp add: filter_id_conv)
  then have r': "resolve_loop (policy_candidate scope j l c) None 0 0 ps = (b, v, n)"
    using r resolve_loop_filter by metis
  have bound: "\<forall>p \<in> set ps. rp_Version p \<le> v" and pick: "v \<noteq> 0 \<longrightarrow> (\<exists>p. b = Some p \<and> p \<in> set ps \<and> rp_Version p = v)"
    and n: "n = (if v = 0 then 0 else 0) + length (filter (\<lambda>p. rp_Version p = v) ps)"
    using resolve_loop_spec [OF r] by blast+
  have "1 \<le> rp_Version q" using cand q(1) policy_candidate_version by blast
  with bound q(1) have "v \<noteq> 0" by fastforce
  with pick obtain p where p: "b = Some p" "p \<in> set ps" "rp_Version p = v" by blast
  have v: "v = rp_Version q" using bound p q by fastforce
  have pq: "p = q" using d p q(1) v by (metis distinct_map inj_onD)
  have "filter (\<lambda>p. rp_Version p = v) ps = filter (\<lambda>p. p = q) ps"
    using d q(1) v by (intro filter_cong) (auto simp: distinct_map dest: inj_onD)
  moreover have "distinct ps" using d by (simp add: distinct_map)
  ultimately have "n = 1" using n q(1) by (simp add: distinct_length_filter Int_absorb1 Collect_conv_if)
  then show ?thesis using r' p(1) pq by (simp add: ResolveRetentionPolicy_def)
qed

definition tuple_of :: "Scope \<Rightarrow> string \<Rightarrow> string \<Rightarrow> string \<Rightarrow> string list" where
  "tuple_of scope j l c = [sc_OrganizationID scope, sc_CompanyID scope, sc_RUC scope, sc_Period scope, j, l, c]"

lemma resolution_on_chains:
  assumes inv: "policies_inv db" and input: "resolution_input scope j l c"
  shows "resolveRetentionPolicyOn db scope j l c = Inr (
     let ps = filter rp_Enabled (chain_of db (tuple_of scope j l c)) in if ps = [] then None else Some (last ps))"
proof -
  define ps where "ps = filter rp_Enabled (chain_of db (tuple_of scope j l c))"
  let ?es = "sort_key (\<lambda>p. - rp_Version p) ps"
  have es: "filter (\<lambda>p. rp_TenantID p = sc_OrganizationID scope \<and> rp_CompanyID p = sc_CompanyID scope
                \<and> rp_RUC p = sc_RUC scope \<and> rp_Period p = sc_Period scope
                \<and> rp_Jurisdiction p = j \<and> rp_Legislation p = l \<and> rp_Category p = c \<and> rp_Enabled p) (pd_Policies db) = ps"
    by (simp add: ps_def chain_of_def policy_tuple_def tuple_of_def conj_ac)
  have ok: "chain_ok (chain_of db (tuple_of scope j l c))" using inv by (simp add: policies_inv_def)
  have asc: "sorted_wrt (<) (map rp_Version ps)"
    using chain_ok_sorted [OF ok] unfolding ps_def by (simp add: sorted_wrt_map sorted_wrt_filter)
  have cand: "\<forall>p \<in> set ?es. policy_candidate scope j l c p"
    using chain_ok_version [OF ok, THEN leD] by (auto simp: ps_def chain_of_def policy_candidate_def policy_tuple_def tuple_of_def)
  have "resolveRetentionPolicyOn db scope j l c = (case ResolveRetentionPolicy ?es scope j l c of
      Some p \<Rightarrow> Inr (Some p) | None \<Rightarrow> if length ?es > 0 then Inl (AuthErr ''RETENTION_POLICY_AMBIGUOUS'') else Inr None)"
    using input unfolding resolveRetentionPolicyOn_def resolution_input_def es by (simp add: Let_def)
  moreover have "ResolveRetentionPolicy [] scope j l c = None" by (simp add: ResolveRetentionPolicy_def)
  moreover have "ResolveRetentionPolicy ?es scope j l c = Some (last ps)" if "ps \<noteq> []"
  proof (rule resolve_max [OF cand])
    have "distinct (map rp_Version ps)" by (rule ascending_distinct [OF asc])
    then show "distinct (map rp_Version ?es)" by (simp add: distinct_map)
    show "last ps \<in> set ?es" using that by simp
    show "\<forall>p \<in> set ?es. rp_Version p \<le> rp_Version (last ps)"
      using asc that by (cases ps rule: rev_cases) (auto simp: sorted_wrt_append)
  qed
  ultimately show ?thesis by (cases "ps = []") (simp_all add: ps_def [symmetric])
qed

lemma enabled_last_grows:
  assumes "prefix ps qs" and "sorted_wrt (<) (map rp_Version qs)" and "ps \<noteq> []" and "\<forall>q \<in> set qs. rp_Enabled q"
  shows "qs \<noteq> [] \<and> rp_Enabled (last qs) \<and> rp_Version (last ps) \<le> rp_Version (last qs)"
proof -
  obtain zs where q: "qs = ps @ zs" using assms(1) by (auto simp: prefix_def)
  have "rp_Version (last ps) < rp_Version z" if "z \<in> set zs" for z
    using assms(2,3) that unfolding q by (auto simp: sorted_wrt_append)
  then have "rp_Version (last ps) \<le> rp_Version (last qs)" by (cases "zs = []") (auto simp: q intro: less_imp_le)
  moreover have "qs \<noteq> []" using q assms(3) by simp
  moreover from this have "last qs \<in> set qs" by simp
  ultimately show ?thesis using assms(4) by blast
qed

section \<open>The evidence lifecycle\<close>

type_synonym LifecycleState = "LifecycleDB \<times> disk \<times> PurgeFlight list"

abbreviation world_of :: "LifecycleDB \<Rightarrow> disk \<Rightarrow> PurgeWorld" where
  "world_of db disk \<equiv> \<lparr>w_DB = ld_Purge db, w_Disk = disk\<rparr>"

text \<open>
  A step of the pipeline that leaves holds and policies alone (closures may change), or a
  successful placement, lift or put.
\<close>

inductive lifecycle_step :: "Signer option \<Rightarrow> LifecycleState \<Rightarrow> LifecycleState \<Rightarrow> bool" for s where
  ls_purge: "purge_step s (world_of db disk, fs) (w', fs') \<Longrightarrow> pd_Policies (w_DB w') = pd_Policies (ld_Purge db)
     \<Longrightarrow> pd_Holds (w_DB w') = pd_Holds (ld_Purge db)
     \<Longrightarrow> lifecycle_step s (db, disk, fs) (db\<lparr>ld_Purge := w_DB w'\<rparr>, w_Disk w', fs')"
| ls_place: "PlaceHold s db pc who now i = Inr (db', v1) \<Longrightarrow> lifecycle_step s (db, disk, fs) (db', disk, fs)"
| ls_lift: "LiftHold s db lc who now = Inr (db', v2) \<Longrightarrow> lifecycle_step s (db, disk, fs) (db', disk, fs)"
| ls_put: "PutRetentionPolicy db rk who now i = Inr (db', v3) \<Longrightarrow> lifecycle_step s (db, disk, fs) (db', disk, fs)"

inductive_cases lifecycle_stepE: "lifecycle_step s (db, disk, fs) (db', disk', fs')"

lemmas lifecycle_step_cases = lifecycle_stepE [consumes 1, case_names ls_purge ls_place ls_lift ls_put]

inductive lifecycle_reach :: "Signer option \<Rightarrow> LifecycleState \<Rightarrow> bool" for s where
  lr_start: "pd_Objects (ld_Purge db) = [] \<Longrightarrow> pd_Requests (ld_Purge db) = [] \<Longrightarrow> pd_Executions (ld_Purge db) = []
     \<Longrightarrow> pd_Policies (ld_Purge db) = [] \<Longrightarrow> pd_Holds (ld_Purge db) = [] \<Longrightarrow> lifecycle_reach s (db, (\<lambda>_. None), [])"
| lr_step: "lifecycle_reach s st \<Longrightarrow> lifecycle_step s st st' \<Longrightarrow> lifecycle_reach s st'"

text \<open>What each handler does to the shared tables.\<close>

lemma PlaceHold_Inr:
  assumes "PlaceHold s db cmd who now i = Inr (db', v)"
  shows "(db' = db \<and> hv_IdempotentReplay v)
    \<or> (\<exists>rs keys. db' = db\<lparr>ld_Purge := (ld_Purge db)\<lparr>pd_Holds := pd_Holds (ld_Purge db) @ [hv_Hold v], pd_Receipts := rs\<rparr>, ld_HoldKeys := keys\<rparr>
         \<and> prefix (rs_Receipts (pd_Receipts (ld_Purge db))) (rs_Receipts rs)
         \<and> h_ObjectID (hv_Hold v) = hc_ObjectID cmd \<and> h_Kind (hv_Hold v) = hc_Kind cmd \<and> h_LiftedAt (hv_Hold v) = ''''
         \<and> h_HoldID (hv_Hold v) \<notin> h_HoldID ` set (pd_Holds (ld_Purge db)))"
proof -
  obtain scope replay f where rest: "(case replay of
          Some h \<Rightarrow> Inr (db, \<lparr>hv_Hold = h, hv_Created = False, hv_IdempotentReplay = True\<rparr>)
        | None \<Rightarrow> and_then (place_act s (ld_Purge db) cmd scope who now i) (\<lambda>(purge, h).
               Inr (db\<lparr>ld_Purge := purge, ld_HoldKeys := f h\<rparr>,
                    \<lparr>hv_Hold = h, hv_Created = True, hv_IdempotentReplay = False\<rparr>))) = Inr (db', v)"
    using assms unfolding PlaceHold_def Let_def guard_simps by (elim exE conjE) (rule that)
  show ?thesis
  proof (cases replay)
    case None
    then obtain purge h where p: "place_act s (ld_Purge db) cmd scope who now i = Inr (purge, h)"
      and d: "db' = db\<lparr>ld_Purge := purge, ld_HoldKeys := f h\<rparr>" and v: "hv_Hold v = h"
      using rest by (auto simp: guard_simps)
    from place_act_Inr [OF p] d v show ?thesis by blast
  qed (use rest in auto)
qed

lemma LiftHold_Inr:
  assumes "LiftHold s db cmd who now = Inr (db', v)"
  shows "(db' = db \<and> lv_IdempotentReplay v)
    \<or> (\<exists>rs keys hold. db' = db\<lparr>ld_Purge := (liftHoldOn (ld_Purge db) (lc_HoldID cmd) now (p_SubjectID who) (lc_Reason cmd))\<lparr>pd_Receipts := rs\<rparr>,
            ld_HoldKeys := keys\<rparr>
         \<and> prefix (rs_Receipts (pd_Receipts (ld_Purge db))) (rs_Receipts rs)
         \<and> find (\<lambda>h. h_HoldID h = lc_HoldID cmd) (pd_Holds (ld_Purge db)) = Some hold \<and> h_LiftedAt hold = '''')"
proof -
  obtain hold replay f where hold: "find (\<lambda>h. h_HoldID h = lc_HoldID cmd) (pd_Holds (ld_Purge db)) = Some hold"
    and rest: "(case replay of
          Some h \<Rightarrow> Inr (db, \<lparr>lv_Hold = h, lv_Lifted = True, lv_IdempotentReplay = True\<rparr>)
        | None \<Rightarrow> and_then (lift_act s (ld_Purge db) cmd hold who now) (\<lambda>(purge, h).
               Inr (db\<lparr>ld_Purge := purge, ld_HoldKeys := f h\<rparr>,
                    \<lparr>lv_Hold = h, lv_Lifted = True, lv_IdempotentReplay = False\<rparr>))) = Inr (db', v)"
    using assms unfolding LiftHold_def Let_def guard_simps by (elim exE conjE) (rule that)
  show ?thesis
  proof (cases replay)
    case None
    then obtain purge h where p: "lift_act s (ld_Purge db) cmd hold who now = Inr (purge, h)"
      and d: "db' = db\<lparr>ld_Purge := purge, ld_HoldKeys := f h\<rparr>"
      using rest by (auto simp: guard_simps)
    from lift_act_Inr [OF p] d hold show ?thesis by blast
  qed (use rest in auto)
qed

lemma PutRetentionPolicy_Inr:
  assumes "PutRetentionPolicy db cmd who now i = Inr (db', v)"
  shows "(db' = db \<and> rv_IdempotentReplay v)
    \<or> (\<exists>purge keys. db' = db\<lparr>ld_Purge := purge, ld_PolicyKeys := keys\<rparr> \<and> put_act (ld_Purge db) cmd who now i = Inr (purge, rv_Policy v))"
  using assms unfolding PutRetentionPolicy_def Let_def guard_simps split_paired_Ex prod.case
  by (elim exE conjE) (auto simp: guard_simps split: option.splits)


section \<open>States of the purge system\<close>

lemma purge_step_same: "purge_step s (w, fs) (w, fs)"
  by (rule step_crash) simp

lemma environment_step:
  assumes "db' = db\<lparr>pd_Policies := ps, pd_Holds := hs, pd_Receipts := rs\<rparr>"
    and "prefix (rs_Receipts (pd_Receipts db)) (rs_Receipts rs)"
  shows "purge_step s (\<lparr>w_DB = db, w_Disk = disk\<rparr>, fs) (\<lparr>w_DB = db', w_Disk = disk\<rparr>, fs)"
  using step_environment [where w = "\<lparr>w_DB = db, w_Disk = disk\<rparr>" and rs = rs and s = s and fs = fs
      and cs = "pd_Closures db" and ps = ps and hs = hs] assms by simp

lemma lifecycle_step_purge:
  assumes "lifecycle_step s (db, disk, fs) (db', disk', fs')"
  shows "purge_step s (world_of db disk, fs) (world_of db' disk', fs')"
  using assms
proof (cases rule: lifecycle_step_cases)
  case (ls_purge w')
  then show ?thesis by (cases w') simp
next
  case (ls_place pc who now i v1)
  from PlaceHold_Inr [OF ls_place(1)] show ?thesis
  proof (elim disjE conjE exE)
    fix rs keys
    assume "db' = db\<lparr>ld_Purge := (ld_Purge db)\<lparr>pd_Holds := pd_Holds (ld_Purge db) @ [hv_Hold v1], pd_Receipts := rs\<rparr>, ld_HoldKeys := keys\<rparr>"
      "prefix (rs_Receipts (pd_Receipts (ld_Purge db))) (rs_Receipts rs)"
    then show ?thesis unfolding ls_place(2,3)
      by (intro environment_step [where ps = "pd_Policies (ld_Purge db)"
            and hs = "pd_Holds (ld_Purge db) @ [hv_Hold v1]" and rs = rs]) simp_all
  qed (simp add: ls_place purge_step_same)
next
  case (ls_lift lc who now v2)
  from LiftHold_Inr [OF ls_lift(1)] show ?thesis
  proof (elim disjE conjE exE)
    fix rs keys hold
    assume "db' = db\<lparr>ld_Purge := (liftHoldOn (ld_Purge db) (lc_HoldID lc) now (p_SubjectID who) (lc_Reason lc))\<lparr>pd_Receipts := rs\<rparr>,
            ld_HoldKeys := keys\<rparr>" "prefix (rs_Receipts (pd_Receipts (ld_Purge db))) (rs_Receipts rs)"
    then show ?thesis unfolding ls_lift(2,3)
      by (intro environment_step [where ps = "pd_Policies (ld_Purge db)" and rs = rs
            and hs = "pd_Holds (liftHoldOn (ld_Purge db) (lc_HoldID lc) now (p_SubjectID who) (lc_Reason lc))"])
        (simp_all add: liftHoldOn_def)
  qed (simp add: ls_lift purge_step_same)
next
  case (ls_put rk who now i v3)
  from PutRetentionPolicy_Inr [OF ls_put(1)] show ?thesis
  proof (elim disjE conjE exE)
    fix purge keys
    assume "db' = db\<lparr>ld_Purge := purge, ld_PolicyKeys := keys\<rparr>" "put_act (ld_Purge db) rk who now i = Inr (purge, rv_Policy v3)"
    then show ?thesis using put_act_Inr unfolding ls_put(2,3)
      by (intro environment_step [where ps = "pd_Policies (ld_Purge db) @ [rv_Policy v3]" and hs = "pd_Holds (ld_Purge db)"
            and rs = "pd_Receipts (ld_Purge db)"]) fastforce+
  qed (simp add: ls_put purge_step_same)
qed

lemma reach_refines: "lifecycle_reach s st \<Longrightarrow> purge_reach s (world_of (fst st) (fst (snd st))) (snd (snd st))"
proof (induction rule: lifecycle_reach.induct)
  case (lr_start db)
  then show ?case by (simp add: reach_start)
next
  case (lr_step st st')
  then show ?case using lifecycle_step_purge reach_step by (cases st, cases st') fastforce
qed

section \<open>Permanence of holds and policies\<close>

text \<open>A hold keeps its placement columns, and its closure is one-way.\<close>

definition placement :: "EvidenceHold \<Rightarrow> EvidenceHold" where
  "placement h = h\<lparr>h_LiftedAt := '''', h_LiftedBy := '''', h_LiftReason := ''''\<rparr>"

definition hold_evolves :: "EvidenceHold \<Rightarrow> EvidenceHold \<Rightarrow> bool" where
  "hold_evolves h h' \<longleftrightarrow> placement h' = placement h \<and> (h_LiftedAt h \<noteq> '''' \<longrightarrow> h' = h)"

lemma hold_evolves_refl [simp]: "hold_evolves h h"
  by (simp add: hold_evolves_def)

lemma hold_evolves_trans: "hold_evolves a b \<Longrightarrow> hold_evolves b c \<Longrightarrow> hold_evolves a c"
  unfolding hold_evolves_def by metis

lemma placement_columns:
  assumes "placement h' = placement h"
  shows "h_HoldID h' = h_HoldID h \<and> h_ObjectID h' = h_ObjectID h \<and> h_Kind h' = h_Kind h"
  using arg_cong [OF assms, of h_HoldID] arg_cong [OF assms, of h_ObjectID] arg_cong [OF assms, of h_Kind]
  by (simp add: placement_def)

lemma hold_evolves_columns:
  "hold_evolves h h' \<Longrightarrow> h_HoldID h' = h_HoldID h \<and> h_ObjectID h' = h_ObjectID h \<and> h_Kind h' = h_Kind h
     \<and> (h_LiftedAt h' = '''' \<longrightarrow> h_LiftedAt h = '''')"
  using placement_columns [of h' h] unfolding hold_evolves_def by blast

definition records_evolve :: "PurgeDB \<Rightarrow> PurgeDB \<Rightarrow> bool" where
  "records_evolve db db' \<longleftrightarrow> rows_evolve hold_evolves (pd_Holds db) (pd_Holds db') \<and> prefix (pd_Policies db) (pd_Policies db')"

lemma records_evolve_same: "pd_Holds db' = pd_Holds db \<Longrightarrow> pd_Policies db' = pd_Policies db \<Longrightarrow> records_evolve db db'"
  by (simp add: records_evolve_def rows_evolve_refl)

lemma records_evolve_trans:
  assumes "records_evolve a b" and "records_evolve b c"
  shows "records_evolve a c"
proof -
  have "rows_evolve hold_evolves (pd_Holds a) (pd_Holds c)"
    by (rule rows_evolve_trans [OF hold_evolves_trans, where ys = "pd_Holds b"]) (use assms in \<open>simp_all add: records_evolve_def\<close>)
  moreover have "prefix (pd_Policies a) (pd_Policies c)"
    by (rule prefix_order.trans [of _ "pd_Policies b"]) (use assms in \<open>simp_all add: records_evolve_def\<close>)
  ultimately show ?thesis by (simp add: records_evolve_def)
qed

lemma lift_records: "records_evolve db (liftHoldOn db i now who reason)"
  unfolding records_evolve_def liftHoldOn_def by (auto intro!: rows_evolve_map simp: hold_evolves_def placement_def)

lemma lifecycle_step_records:
  assumes "lifecycle_step s (db, disk, fs) (db', disk', fs')"
  shows "records_evolve (ld_Purge db) (ld_Purge db')"
  using assms
proof (cases rule: lifecycle_step_cases)
  case (ls_place pc who now i v1)
  from PlaceHold_Inr [OF ls_place(1)] show ?thesis
    by (auto simp: records_evolve_def rows_evolve_refl rows_evolve_append)
next
  case (ls_lift lc who now v2)
  from LiftHold_Inr [OF ls_lift(1)] show ?thesis
    using lift_records [of "ld_Purge db" "lc_HoldID lc" now "p_SubjectID who" "lc_Reason lc"]
    by (auto simp: records_evolve_def rows_evolve_refl)
next
  case (ls_put rk who now i v3)
  from PutRetentionPolicy_Inr [OF ls_put(1)] show ?thesis
    by (auto simp: records_evolve_def rows_evolve_refl dest!: put_act_Inr)
qed (simp add: records_evolve_same)

lemma lifecycle_steps_records:
  "(lifecycle_step s)\<^sup>*\<^sup>* st st' \<Longrightarrow> records_evolve (ld_Purge (fst st)) (ld_Purge (fst st'))"
proof (induction rule: rtranclp_induct)
  case base
  then show ?case by (simp add: records_evolve_same)
next
  case (step y z)
  then show ?case using lifecycle_step_records records_evolve_trans by (cases y, cases z) fastforce
qed


text \<open>Reachable states: hold ids and the policy chains stay well formed.\<close>

definition records_inv :: "PurgeDB \<Rightarrow> bool" where
  "records_inv db \<longleftrightarrow> distinct (map h_HoldID (pd_Holds db)) \<and> policies_inv db"

lemma policies_inv_same: "pd_Policies db' = pd_Policies db \<Longrightarrow> policies_inv db' \<longleftrightarrow> policies_inv db"
  by (simp add: policies_inv_def chain_of_def)

lemma lifecycle_step_records_inv:
  assumes "lifecycle_step s (db, disk, fs) (db', disk', fs')" and "records_inv (ld_Purge db)"
  shows "records_inv (ld_Purge db')"
  using assms(1)
proof (cases rule: lifecycle_step_cases)
  case (ls_purge w')
  then show ?thesis using assms(2) policies_inv_same [of "w_DB w'" "ld_Purge db"] by (simp add: records_inv_def)
next
  case (ls_place pc who now i v1)
  from PlaceHold_Inr [OF ls_place(1)] show ?thesis
    using assms(2) policies_inv_same [of "ld_Purge db'" "ld_Purge db"] by (auto simp: records_inv_def)
next
  case (ls_lift lc who now v2)
  have "map h_HoldID (pd_Holds (ld_Purge db')) = map h_HoldID (pd_Holds (ld_Purge db))
      \<and> pd_Policies (ld_Purge db') = pd_Policies (ld_Purge db)"
    using LiftHold_Inr [OF ls_lift(1)] by (auto simp: liftHoldOn_def)
  then show ?thesis using assms(2) policies_inv_same [of "ld_Purge db'" "ld_Purge db"] by (simp add: records_inv_def)
next
  case (ls_put rk who now i v3)
  from PutRetentionPolicy_Inr [OF ls_put(1)] consider (same) "db' = db"
    | (put) purge keys where "db' = db\<lparr>ld_Purge := purge, ld_PolicyKeys := keys\<rparr>" "put_act (ld_Purge db) rk who now i = Inr (purge, rv_Policy v3)"
    by blast
  then show ?thesis
  proof cases
    case put
    then show ?thesis using put_act_inv [OF put(2)] put_act_Inr [OF put(2)] assms(2) by (auto simp: records_inv_def)
  qed (use assms(2) in simp)
qed

lemma lifecycle_reach_records: "lifecycle_reach s st \<Longrightarrow> records_inv (ld_Purge (fst st))"
proof (induction rule: lifecycle_reach.induct)
  case (lr_start db)
  then show ?case by (simp add: records_inv_def policies_inv_def chain_of_def chain_ok_def)
next
  case (lr_step st st')
  then show ?case using lifecycle_step_records_inv by (cases st, cases st') fastforce
qed

lemma lifecycle_reach_steps: "(lifecycle_step s)\<^sup>*\<^sup>* st st' \<Longrightarrow> lifecycle_reach s st \<Longrightarrow> lifecycle_reach s st'"
  by (induction rule: rtranclp_induct) (auto intro: lr_step)

section \<open>Holds keep bytes\<close>

lemma resolve_loop_member:
  "resolve_loop cand b v n ps = (Some p, v', n') \<Longrightarrow> b = Some p \<or> (p \<in> set ps \<and> cand p)"
  by (induction cand b v n ps rule: resolve_loop.induct) (auto split: if_splits)

lemma resolved_policy_member:
  assumes "resolveRetentionPolicyOn db scope j l c = Inr (Some p)"
  shows "p \<in> set (pd_Policies db) \<and> rp_Enabled p"
proof -
  define es where "es = sort_key (\<lambda>p. - rp_Version p) (filter (\<lambda>p.
                rp_TenantID p = sc_OrganizationID scope \<and> rp_CompanyID p = sc_CompanyID scope
                \<and> rp_RUC p = sc_RUC scope \<and> rp_Period p = sc_Period scope
                \<and> rp_Jurisdiction p = j \<and> rp_Legislation p = l \<and> rp_Category p = c
                \<and> rp_Enabled p) (pd_Policies db))"
  have "ResolveRetentionPolicy es scope j l c = Some p"
    using assms unfolding resolveRetentionPolicyOn_def Let_def es_def [symmetric]
    by (auto simp: guard_simps split: if_splits option.splits)
  then obtain v n where "resolve_loop (policy_candidate scope j l c) None 0 0 es = (Some p, v, n)"
    by (auto simp: ResolveRetentionPolicy_def split: prod.splits if_splits)
  then have "p \<in> set es" using resolve_loop_member by fastforce
  then show ?thesis by (simp add: es_def)
qed

lemma bytes_removed_removed_under:
  assumes "bytes_removed db exec disk disk'" and "purge_inv db disk" and "recorded db exec"
  shows "removed_under db (px_RequestID exec) disk disk'"
proof -
  obtain r where r: "purgeRequestByIDOn db (px_RequestID exec) = Inr r"
    using assms(1) execution_gates_Inr unfolding bytes_removed_def by blast
  have d: "distinct (map pq_RequestID (pd_Requests db))" using assms(2) by (simp add: inv_defs)
  obtain e where e: "e \<in> set (pd_Executions db)" "px_RequestID e = px_RequestID exec" "px_ObjectID e = px_ObjectID exec"
    using assms(3) by (auto simp: recorded_def)
  have "\<forall>e \<in> set (pd_Executions db). backed db (px_RequestID e) (px_ObjectID e)" using assms(2) by (simp add: inv_defs)
  then have "backed db (px_RequestID exec) (px_ObjectID exec)" using e by metis
  then obtain q where "q \<in> set (pd_Requests db)" "pq_RequestID q = px_RequestID exec" "pq_ObjectID q = px_ObjectID exec"
    by (auto simp: backed_def)
  then have "px_ObjectID exec = pq_ObjectID r"
    using request_by_id_D [OF r] d by (metis (no_types) distinct_map inj_onD)
  then show ?thesis using bytes_removed_facts [OF assms(1) _ r] r unfolding removed_under_def by blast
qed

lemma purge_step_removal:
  assumes "purge_step s (w, fs) (w', fs')" and "system_inv w fs" and "w_Disk w p \<noteq> None" and "w_Disk w' p = None"
  shows "\<exists>i. removed_under (w_DB w) i (w_Disk w) (w_Disk w')"
proof -
  have ne: "w_Disk w' \<noteq> w_Disk w" using assms(3,4) by auto
  have flight: "\<exists>i. removed_under (w_DB w) i (w_Disk w) disk'"
    if "x \<in> set fs" "run_flight s w x = (disk', res)" "disk' \<noteq> w_Disk w" for x disk' res
    using that(2,3) executeAndCompleteOn_disk bytes_removed_removed_under assms(2) that(1)
    unfolding run_flight_def system_inv_def by metis
  from assms(1) show ?thesis
  proof (cases rule: purge_step_cases)
    case (step_store frozen mode i now)
    obtain res where "StoreObject s frozen mode w i now = (w', res)" using step_store by (metis prod.collapse)
    then show ?thesis using assms(3,4) by (cases rule: StoreObject_cases) (auto split: if_splits)
  next
    case (step_intent_failed cmd who now ids disk' res)
    then show ?thesis using executeIntent_removal [OF step_intent_failed(1)] ne by auto
  next
    case (step_intent_finished cmd who now ids disk' db' v)
    then show ?thesis using executeIntent_removal [OF step_intent_finished(1)] ne by auto
  next
    case (step_intent_opened cmd who now ids disk' db' r exec)
    then show ?thesis using executeIntent_removal [OF step_intent_opened(1)] ne by auto
  next
    case (step_flight_failed x disk' res)
    then show ?thesis using flight ne by simp
  next
    case (step_flight_finished x disk' db' v)
    then show ?thesis using flight ne by (simp add: finish_world_def)
  qed (use ne in simp_all)
qed


lemma purge_step_objects:
  assumes "purge_step s (w, fs) (w', fs')"
  shows "set (pd_Objects (w_DB w)) \<subseteq> set (pd_Objects (w_DB w'))"
  using assms
proof (cases rule: purge_step_cases)
  case (step_store frozen mode i now)
  obtain res where "StoreObject s frozen mode w i now = (w', res)" using step_store by (metis prod.collapse)
  then show ?thesis by (cases rule: StoreObject_cases) auto
next
  case (step_intent_finished cmd who now ids disk' db' v)
  then have "same_environment (w_DB w) db'" using executeIntent_evolves by (fastforce simp: db_evolves_def)
  then show ?thesis using step_intent_finished by (simp add: same_environment_def)
next
  case (step_intent_opened cmd who now ids disk' db' r exec)
  then have "same_environment (w_DB w) db'" using executeIntent_evolves by (fastforce simp: db_evolves_def)
  then show ?thesis using step_intent_opened by (simp add: same_environment_def)
next
  case (step_flight_finished x disk' db' v)
  then have "db_evolves (w_DB w) db'" using executeAndCompleteOn_evolves by (simp add: run_flight_def)
  then show ?thesis using step_flight_finished
    by (simp add: finish_world_def completePurgeIdempotencyOn_def db_evolves_def same_environment_def)
qed (use RequestPurge_evolves ApprovePurge_evolves RejectPurge_evolves CancelPurge_evolves WithdrawPurge_evolves in
     \<open>auto simp: db_evolves_def same_environment_def\<close>)

text \<open>An active hold of a kind every enabled policy blocks on.\<close>

definition protects :: "PurgeDB \<Rightarrow> EvidenceHold \<Rightarrow> string \<Rightarrow> bool" where
  "protects db h objectID \<longleftrightarrow> h \<in> set (pd_Holds db) \<and> h_ObjectID h = objectID \<and> h_LiftedAt h = ''''
     \<and> (\<forall>p \<in> set (pd_Policies db). rp_Enabled p \<longrightarrow> h_Kind h \<in> set (rp_BlockingHoldKinds p))"

lemma protected_not_removed:
  assumes "removed_under db i disk disk'" and "purge_inv db disk" and "ob \<in> set (pd_Objects db)"
    and "protects db h (eo_ObjectID ob)" and "disk (eo_RelPath ob) \<noteq> None"
  shows "disk' (eo_RelPath ob) \<noteq> None"
proof
  assume gone: "disk' (eo_RelPath ob) = None"
  obtain r b where u: "unblocked db r" and b: "evidenceObjectByIDOn db (pq_ObjectID r) = Some b"
    and d: "disk' = disk(eo_RelPath b := None)"
    using assms(1) unfolding removed_under_def by blast
  have "eo_RelPath ob = eo_RelPath b" using gone assms(5) d by (auto split: if_splits)
  moreover have "\<forall>x \<in> set (pd_Objects db). hash64_ok (eo_ObjectID x) \<and> eo_RelPath x = ObjectRelPath (eo_ObjectID x)"
    using assms(2) by (simp add: inv_defs)
  ultimately have same: "eo_ObjectID ob = pq_ObjectID r"
    using object_by_id_D [OF b] assms(3) ObjectRelPath_inject by metis
  obtain p where "p \<in> set (pd_Policies db) \<and> rp_Enabled p"
    and "\<forall>h \<in> set (pd_Holds db). h_ObjectID h = pq_ObjectID r \<longrightarrow> \<not> HasActiveBlockingHold h (rp_BlockingHoldKinds p)"
    using u resolved_policy_member unfolding unblocked_def by blast
  then show False using assms(4) same unfolding protects_def by (auto simp: HasActiveBlockingHold_def list_ex_iff)
qed

text \<open>A hold that is active at the end was active all along, and the policies of the past are still there.\<close>

lemma protects_backwards:
  assumes "records_evolve db db'" and "records_inv db'" and "h \<in> set (pd_Holds db)"
    and "h' \<in> set (pd_Holds db')" and "h_HoldID h' = h_HoldID h" and "protects db' h' i"
  shows "protects db h i"
proof -
  have "rows_evolve hold_evolves (pd_Holds db) (pd_Holds db')" using assms(1) by (simp add: records_evolve_def)
  from rows_evolve_member [OF this assms(3)] obtain k where k: "k \<in> set (pd_Holds db')" "hold_evolves h k" by blast
  have id: "h_HoldID k = h_HoldID h'" using hold_evolves_columns [OF k(2)] assms(5) by simp
  have inj: "inj_on h_HoldID (set (pd_Holds db'))" using assms(2) by (simp add: records_inv_def distinct_map)
  have "k = h'"
    by (rule inj_onD [OF inj id k(1) assms(4)])
  moreover have "set (pd_Policies db) \<subseteq> set (pd_Policies db')"
    using assms(1) by (auto simp: records_evolve_def dest: set_mono_prefix)
  ultimately show ?thesis
    using hold_evolves_columns [OF k(2)] assms(3,6) unfolding protects_def by (metis subsetD)
qed

lemma held_step:
  assumes "lifecycle_reach s (db, disk, fs)" and "lifecycle_step s (db, disk, fs) (db', disk', fs')"
    and "ob \<in> set (pd_Objects (ld_Purge db))" and "protects (ld_Purge db) h (eo_ObjectID ob)" and "disk (eo_RelPath ob) \<noteq> None"
  shows "disk' (eo_RelPath ob) \<noteq> None \<and> ob \<in> set (pd_Objects (ld_Purge db'))"
proof -
  have st: "purge_step s (world_of db disk, fs) (world_of db' disk', fs')" by (rule lifecycle_step_purge [OF assms(2)])
  have "purge_reach s (world_of db disk) fs" using reach_refines [OF assms(1)] by simp
  then have inv: "system_inv (world_of db disk) fs" by (rule purge_reach_inv)
  have "disk' (eo_RelPath ob) \<noteq> None"
  proof
    assume gone: "disk' (eo_RelPath ob) = None"
    then obtain i where "removed_under (ld_Purge db) i disk disk'"
      using purge_step_removal [OF st inv, of "eo_RelPath ob"] assms(5) by auto
    then show False
      using protected_not_removed [of "ld_Purge db" i disk disk' ob h] inv assms(3-5) gone by (simp add: system_inv_def)
  qed
  moreover have "ob \<in> set (pd_Objects (ld_Purge db'))" using purge_step_objects [OF st] assms(3) by auto
  ultimately show ?thesis by blast
qed

lemma held_bytes_kept:
  assumes "lifecycle_reach s (db, disk, fs)" and "(lifecycle_step s)\<^sup>*\<^sup>* (db, disk, fs) (db', disk', fs')"
    and "ob \<in> set (pd_Objects (ld_Purge db))" and "disk (eo_RelPath ob) \<noteq> None" and "h \<in> set (pd_Holds (ld_Purge db))"
    and "h' \<in> set (pd_Holds (ld_Purge db'))" and "h_HoldID h' = h_HoldID h" and "protects (ld_Purge db') h' (eo_ObjectID ob)"
  shows "\<exists>bytes. disk' (eo_RelPath ob) = Some bytes \<and> ComputeObjectID bytes = eo_ObjectID ob"
proof -
  have reach: "lifecycle_reach s (db', disk', fs')" by (rule lifecycle_reach_steps [OF assms(2,1)])
  have "lifecycle_reach s (fst st, fst (snd st), snd (snd st)) \<longrightarrow> ob \<in> set (pd_Objects (ld_Purge (fst st)))
      \<longrightarrow> fst (snd st) (eo_RelPath ob) \<noteq> None \<longrightarrow> (\<exists>k \<in> set (pd_Holds (ld_Purge (fst st))). h_HoldID k = h_HoldID h)
      \<longrightarrow> disk' (eo_RelPath ob) \<noteq> None \<and> ob \<in> set (pd_Objects (ld_Purge db'))"
    if "(lifecycle_step s)\<^sup>*\<^sup>* st (db', disk', fs')" for st
    using that
  proof (induction rule: converse_rtranclp_induct)
    case (step y z)
    obtain d k f d2 k2 f2 where yz: "y = (d, k, f)" "z = (d2, k2, f2)" by (cases y, cases z) auto
    show ?case
    proof (intro impI)
      assume a: "lifecycle_reach s (fst y, fst (snd y), snd (snd y))" "ob \<in> set (pd_Objects (ld_Purge (fst y)))"
        "fst (snd y) (eo_RelPath ob) \<noteq> None" "\<exists>k \<in> set (pd_Holds (ld_Purge (fst y))). h_HoldID k = h_HoldID h"
      obtain x where x: "x \<in> set (pd_Holds (ld_Purge d))" "h_HoldID x = h_HoldID h" using a(4) yz by auto
      have "records_evolve (ld_Purge d) (ld_Purge db')"
        using lifecycle_steps_records [OF converse_rtranclp_into_rtranclp [OF step(1,2)]] yz by simp
      then have "protects (ld_Purge d) x (eo_ObjectID ob)"
        using protects_backwards [OF _ _ x(1) assms(6) _ assms(8)] lifecycle_reach_records [OF reach] x(2) assms(7) by simp
      then have "k2 (eo_RelPath ob) \<noteq> None \<and> ob \<in> set (pd_Objects (ld_Purge d2))"
        using held_step [of s d k f d2 k2 f2 ob x] step(1) a yz by simp
      moreover have "\<exists>k \<in> set (pd_Holds (ld_Purge d2)). h_HoldID k = h_HoldID h"
        using lifecycle_step_records [of s d k f d2 k2 f2] step(1) x yz rows_evolve_member hold_evolves_columns
        unfolding records_evolve_def by metis
      moreover have "lifecycle_reach s z" using a(1) step(1) yz by (auto intro: lr_step)
      ultimately show "disk' (eo_RelPath ob) \<noteq> None \<and> ob \<in> set (pd_Objects (ld_Purge db'))" using step.IH yz by simp
    qed
  qed simp
  from this [OF assms(2)] have "disk' (eo_RelPath ob) \<noteq> None" "ob \<in> set (pd_Objects (ld_Purge db'))" using assms(1,3-5) by auto
  moreover have "purge_inv (ld_Purge db') disk'"
    using purge_reach_inv [OF reach_refines [OF reach]] by (simp add: system_inv_def)
  ultimately show ?thesis by (auto simp: inv_defs disk_inv_def)
qed

end
