(* ===== verification/Memory_Steps.thy ===== *)
theory Memory_Steps
  imports Memory_Ledger Lifecycle_System "HOL-Library.Multiset"
begin

text \<open>
  What each handler of Memory_Save leaves alone and what it does to the abstract ledger of
  Memory_Ledger.
\<close>

section \<open>History\<close>

text \<open>The columns of an observation no statement updates.\<close>

definition frozen_columns :: "Observation \<Rightarrow> Observation" where
  "frozen_columns o' = o'\<lparr>ob_AuthorityStatus := '''', ob_Status := StatusActive, ob_EnvelopeHash := '''', ob_SupersedesID := ''''\<rparr>"

definition history_kept :: "MemoryDB \<Rightarrow> MemoryDB \<Rightarrow> bool" where
  "history_kept db db' \<longleftrightarrow>
     prefix (map frozen_columns (md_Observations db)) (map frozen_columns (md_Observations db'))
     \<and> prefix (md_Transitions db) (md_Transitions db') \<and> prefix (md_Relations db) (md_Relations db')
     \<and> prefix (md_EvidenceLinks db) (md_EvidenceLinks db') \<and> prefix (md_RuleLinks db) (md_RuleLinks db')
     \<and> prefix (md_Bindings db) (md_Bindings db') \<and> prefix (md_FiscalLinks db) (md_FiscalLinks db')
     \<and> prefix (md_Approvals db) (md_Approvals db') \<and> prefix (md_Decisions db) (md_Decisions db')
     \<and> prefix (md_Velocity db) (md_Velocity db') \<and> prefix (md_ClosureEvents db) (md_ClosureEvents db')
     \<and> prefix (rs_Receipts (pd_Receipts (md_Purge db))) (rs_Receipts (pd_Receipts (md_Purge db')))"

text \<open>A completed idempotency key answers the same for ever.\<close>

definition keys_kept :: "('k \<Rightarrow> string \<times> string) \<Rightarrow> ('k \<Rightarrow> bool) \<Rightarrow> 'k list \<Rightarrow> 'k list \<Rightarrow> bool" where
  "keys_kept key fin ks ks' \<longleftrightarrow> (\<forall>q k. find (\<lambda>k. key k = q) ks = Some k \<longrightarrow> fin k \<longrightarrow> find (\<lambda>k. key k = q) ks' = Some k)"

definition approval_key :: "ApprovalKeyRow \<Rightarrow> string \<times> string" where
  "approval_key k = (ak_TenantID k, ak_RequestID k)"

definition decision_key :: "'a KeyRow \<Rightarrow> string \<times> string" where
  "decision_key k = (ky_TenantID k, ky_RequestID k)"

definition memory_keys_kept :: "MemoryDB \<Rightarrow> MemoryDB \<Rightarrow> bool" where
  "memory_keys_kept db db' \<longleftrightarrow>
     keys_kept approval_key (\<lambda>k. ak_CompletedAt k \<noteq> None) (md_ApprovalKeys db) (md_ApprovalKeys db')
     \<and> keys_kept decision_key (\<lambda>k. ky_Result k \<noteq> None) (md_ReviewKeys db) (md_ReviewKeys db')"

text \<open>Of the purge, hold and retention tables a handler touches the closures and the receipt chain only.\<close>

definition life_kept :: "MemoryDB \<Rightarrow> MemoryDB \<Rightarrow> bool" where
  "life_kept db db' \<longleftrightarrow> (\<exists>cs rs. md_Life db' = (md_Life db)\<lparr>ld_Purge := (md_Purge db)\<lparr>pd_Closures := cs, pd_Receipts := rs\<rparr>\<rparr>)"

definition adjudication_kept :: "MemoryDB \<Rightarrow> MemoryDB \<Rightarrow> bool" where
  "adjudication_kept db db' \<longleftrightarrow> md_Judgments db' = md_Judgments db \<and> md_Reconciliations db' = md_Reconciliations db"

definition mem_evolves :: "MemoryDB \<Rightarrow> MemoryDB \<Rightarrow> bool" where
  "mem_evolves db db' \<longleftrightarrow> history_kept db db' \<and> memory_keys_kept db db' \<and> life_kept db db' \<and> adjudication_kept db db'"

definition memory_of :: "AccountingMemory \<Rightarrow> MemoryRow" where
  "memory_of m = \<lparr>mr_ID = m_ID m, mr_Topic = m_TopicKey m, mr_Scope = m_Scope m, mr_Revision = m_Revision m,
     mr_Status = m_Status m, mr_Actor = src_ActorID (m_Source m), mr_Close = IsCloseMemory m\<rparr>"

definition memory_row :: "Observation \<Rightarrow> MemoryRow" where
  "memory_row o' = memory_of (scanMemory o')"

text \<open>The abstraction function.\<close>

definition ledger_of :: "MemoryDB \<Rightarrow> MemoryLedger" where
  "ledger_of db = \<lparr>ml_Rows = map memory_row (md_Observations db), ml_Approvals = md_Approvals db,
     ml_Decisions = md_Decisions db, ml_Closures = pd_Closures (md_Purge db)\<rparr>"

definition quiet :: "MemoryDB \<Rightarrow> MemoryDB \<Rightarrow> bool" where
  "quiet db db' \<longleftrightarrow> mem_evolves db db' \<and> ledger_of db' = ledger_of db \<and> md_ApprovalKeys db' = md_ApprovalKeys db"

named_theorems evolves

lemma keys_kept_refl [simp]: "keys_kept key fin ks ks"
  by (simp add: keys_kept_def)

lemma keys_kept_trans: "keys_kept key fin a b \<Longrightarrow> keys_kept key fin b c \<Longrightarrow> keys_kept key fin a c"
  by (simp add: keys_kept_def)

lemma history_kept_trans: "history_kept a b \<Longrightarrow> history_kept b c \<Longrightarrow> history_kept a c"
  unfolding history_kept_def by (elim conjE, intro conjI; erule (1) prefix_order.trans)

lemma life_kept_trans:
  assumes "life_kept a b" and "life_kept b c"
  shows "life_kept a c"
proof -
  obtain cs rs where 1: "md_Life b = (md_Life a)\<lparr>ld_Purge := (md_Purge a)\<lparr>pd_Closures := cs, pd_Receipts := rs\<rparr>\<rparr>"
    using assms(1) by (auto simp: life_kept_def)
  obtain cs' rs' where 2: "md_Life c = (md_Life b)\<lparr>ld_Purge := (md_Purge b)\<lparr>pd_Closures := cs', pd_Receipts := rs'\<rparr>\<rparr>"
    using assms(2) by (auto simp: life_kept_def)
  have "md_Life c = (md_Life a)\<lparr>ld_Purge := (md_Purge a)\<lparr>pd_Closures := cs', pd_Receipts := rs'\<rparr>\<rparr>"
    using 2 by (simp add: 1 md_Purge_def)
  then show ?thesis by (auto simp: life_kept_def)
qed

lemma life_kept_same: "md_Life db' = md_Life db \<Longrightarrow> life_kept db db'"
  by (auto simp: life_kept_def md_Purge_def intro!: exI [of _ "pd_Closures (md_Purge db)"] exI [of _ "pd_Receipts (md_Purge db)"])

lemma mem_evolves_refl [simp]: "mem_evolves db db"
  by (simp add: mem_evolves_def history_kept_def memory_keys_kept_def life_kept_same adjudication_kept_def)

lemma mem_evolves_trans: "mem_evolves a b \<Longrightarrow> mem_evolves b c \<Longrightarrow> mem_evolves a c"
  unfolding mem_evolves_def memory_keys_kept_def adjudication_kept_def
  by (auto intro: history_kept_trans keys_kept_trans life_kept_trans)

lemma quiet_refl [simp]: "quiet db db"
  by (simp add: quiet_def)

lemma quiet_trans: "quiet a b \<Longrightarrow> quiet b c \<Longrightarrow> quiet a c"
  by (auto simp: quiet_def intro: mem_evolves_trans)

lemma quiet_evolves: "quiet a b \<Longrightarrow> mem_evolves a b"
  by (simp add: quiet_def)

lemma quiet_ledger: "quiet a b \<Longrightarrow> ledger_of b = ledger_of a"
  by (simp add: quiet_def)

lemmas kept_defs = mem_evolves_def history_kept_def memory_keys_kept_def adjudication_kept_def


section \<open>Writes\<close>

lemma IsCloseMemory_cong:
  "m_Kind a = m_Kind b \<Longrightarrow> m_FiscalEffect a = m_FiscalEffect b \<Longrightarrow> m_Scope a = m_Scope b \<Longrightarrow> m_TopicKey a = m_TopicKey b
   \<Longrightarrow> IsCloseMemory a = IsCloseMemory b"
  by (simp add: IsCloseMemory_def)

lemma memory_row_frozen: "memory_row o' = (memory_row (frozen_columns o'))\<lparr>mr_Status := m_Status (scanMemory o')\<rparr>"
proof -
  have "IsCloseMemory (scanMemory (frozen_columns o')) = IsCloseMemory (scanMemory o')"
    by (rule IsCloseMemory_cong) (simp_all add: scanMemory_def frozen_columns_def)
  then show ?thesis by (simp add: memory_row_def memory_of_def) (simp add: scanMemory_def frozen_columns_def)
qed

lemma memory_row_cong:
  "frozen_columns a = frozen_columns b \<Longrightarrow> m_Status (scanMemory a) = m_Status (scanMemory b) \<Longrightarrow> memory_row a = memory_row b"
  using memory_row_frozen [of a] memory_row_frozen [of b] by simp

lemma prefix_snoc_self [simp]: "prefix xs (xs @ ys)"
  by (simp add: prefix_def)

lemma frozen_update: "(\<And>o'. frozen_columns (f o') = frozen_columns o') \<Longrightarrow>
    map frozen_columns (map (\<lambda>o'. if P o' then f o' else o') os) = map frozen_columns os"
  by simp

lemma evolves_append:
  assumes "db' = db\<lparr>md_Transitions := md_Transitions db @ ts, md_Relations := md_Relations db @ rs,
     md_EvidenceLinks := md_EvidenceLinks db @ es, md_RuleLinks := md_RuleLinks db @ us, md_Bindings := md_Bindings db @ bs,
     md_FiscalLinks := md_FiscalLinks db @ fs, md_Velocity := md_Velocity db @ vs, md_ClosureEvents := md_ClosureEvents db @ cs\<rparr>"
  shows "quiet db db'"
  unfolding assms by (simp add: quiet_def kept_defs ledger_of_def md_Purge_def life_kept_same)

lemma insertRelation_quiet [evolves]: "insertRelation db r = Inr db' \<Longrightarrow> quiet db db'"
  by (auto simp: insertRelation_def split: if_splits intro!: evolves_append [where rs = "[r]" and ts = "[]" and es = "[]" and us = "[]"
      and bs = "[]" and fs = "[]" and vs = "[]" and cs = "[]"])

lemma insertTransition_quiet [evolves]: "insertTransition db t = Inr db' \<Longrightarrow> quiet db db'"
  by (auto simp: insertTransition_def split: if_splits intro!: evolves_append [where rs = "[]" and ts = "[t]" and es = "[]" and us = "[]"
      and bs = "[]" and fs = "[]" and vs = "[]" and cs = "[]"])

lemma insertLink_quiet [evolves]: "insertLink t db l = (db', b) \<Longrightarrow> quiet db db'"
  by (cases t) (auto simp: insertLink_def quiet_def kept_defs ledger_of_def md_Purge_def split: if_splits intro!: life_kept_same)

lemma storeFiscalScopeBindingTx_quiet [evolves]: "storeFiscalScopeBindingTx db b now = Inr (db', h) \<Longrightarrow> quiet db db'"
  by (auto simp: storeFiscalScopeBindingTx_def Let_def guard_simps quiet_def kept_defs ledger_of_def md_Purge_def
      split: if_splits intro!: life_kept_same)

lemma insertFiscalLink_quiet [evolves]: "insertFiscalLink db k = Inr db' \<Longrightarrow> quiet db db'"
  by (auto simp: insertFiscalLink_def quiet_def kept_defs ledger_of_def md_Purge_def split: if_splits intro!: life_kept_same)

lemma insertVelocityAlert_quiet [evolves]: "insertVelocityAlert db a = Inr db' \<Longrightarrow> quiet db db'"
  by (auto simp: insertVelocityAlert_def quiet_def kept_defs ledger_of_def md_Purge_def split: if_splits intro!: life_kept_same)

lemma emitMemoryReceipt_quiet [evolves]:
  assumes "emitMemoryReceipt cfg db i a p now = Inr db'"
  shows "quiet db db'"
proof -
  obtain rs r where e: "emitReceipt (cf_Signer cfg) (pd_Receipts (md_Purge db)) SubjectMemory i a p now = Inr (rs, r)"
    and d: "db' = set_purge ((md_Purge db)\<lparr>pd_Receipts := rs\<rparr>) db"
    using assms by (auto simp: emitMemoryReceipt_def guard_simps)
  have "life_kept db db'" unfolding life_kept_def
    by (intro exI [of _ "pd_Closures (md_Purge db)"] exI [of _ rs]) (simp add: d set_purge_def)
  then show ?thesis using emitReceipt_prefix [OF e]
    by (simp add: d quiet_def kept_defs ledger_of_def set_purge_def md_Purge_def)
qed

lemma updateObservation_evolves [evolves]:
  assumes "\<And>o'. frozen_columns (f o') = frozen_columns o'"
  shows "mem_evolves db (updateObservation db i f)"
  using assms by (simp add: kept_defs updateObservation_def md_Purge_def comp_def life_kept_same if_distrib [of frozen_columns] cong: if_cong)

lemma refreshEnvelopeCache_quiet [evolves]:
  assumes "refreshEnvelopeCache db i = Inr db'"
  shows "quiet db db'"
proof -
  obtain h where d: "db' = updateObservation db i (\<lambda>o'. o'\<lparr>ob_EnvelopeHash := h\<rparr>)"
    using assms by (auto simp: refreshEnvelopeCache_def guard_simps)
  have "mem_evolves db db'" unfolding d by (rule updateObservation_evolves) (simp add: frozen_columns_def)
  moreover have "memory_row (o'\<lparr>ob_EnvelopeHash := h\<rparr>) = memory_row o'" for o'
    by (rule memory_row_cong) (simp_all add: frozen_columns_def scanMemory_def)
  ultimately show ?thesis
    by (simp add: quiet_def d ledger_of_def updateObservation_def md_Purge_def comp_def if_distrib [of memory_row] cong: if_cong)
qed

lemma maybeRecord_quiet [evolves]: "maybeRecordReviewVelocityAlerts db t s a now w i j = Inr db' \<Longrightarrow> quiet db db'"
  by (auto simp: maybeRecordReviewVelocityAlerts_def Let_def guard_simps split: if_splits
      dest!: insertVelocityAlert_quiet intro: quiet_trans)

lemma insertApprovalEvent_Inr:
  "insertApprovalEvent db e = Inr db' \<Longrightarrow> db' = db\<lparr>md_Approvals := md_Approvals db @ [e]\<rparr> \<and> \<not> decision_conflict (md_Approvals db) e"
  by (auto simp: insertApprovalEvent_def split: if_splits)

lemma insertDecisionEvent_Inr:
  "insertDecisionEvent db e = Inr db' \<Longrightarrow> db' = db\<lparr>md_Decisions := md_Decisions db @ [e]\<rparr> \<and> \<not> decision_conflict (md_Decisions db) e"
  by (auto simp: insertDecisionEvent_def split: if_splits)

section \<open>Reads\<close>

lemma memory_of_withLinks [simp]: "memory_of (withLinks db m) = memory_of m"
  by (simp add: memory_of_def withLinks_def IsCloseMemory_def)

lemma memory_of_simps [simp]:
  "mr_ID (memory_of m) = m_ID m" "mr_Topic (memory_of m) = m_TopicKey m" "mr_Scope (memory_of m) = m_Scope m"
  "mr_Revision (memory_of m) = m_Revision m" "mr_Status (memory_of m) = m_Status m"
  "mr_Actor (memory_of m) = src_ActorID (m_Source m)" "mr_Close (memory_of m) = IsCloseMemory m"
  by (simp_all add: memory_of_def)

lemma memory_row_simps [simp]:
  "mr_ID (memory_row o') = ob_ID o'" "mr_Topic (memory_row o') = ob_TopicKey o'" "mr_Scope (memory_row o') = ob_Scope o'"
  "mr_Revision (memory_row o') = ob_Revision o'"
  by (simp_all add: memory_row_def scanMemory_def)

lemma ledger_of_simps [simp]:
  "ml_Rows (ledger_of db) = map memory_row (md_Observations db)" "ml_Approvals (ledger_of db) = md_Approvals db"
  "ml_Decisions (ledger_of db) = md_Decisions db" "ml_Closures (ledger_of db) = pd_Closures (md_Purge db)"
  by (simp_all add: ledger_of_def)

lemma readMemoryWithLinks_SomeD:
  assumes "readMemoryWithLinks db i = Some m"
  obtains o' where "observationByID db i = Some o'" "o' \<in> set (md_Observations db)" "ob_ID o' = i" "m = withLinks db (scanMemory o')"
    "memory_row o' = memory_of m" "m_ID m = i"
proof -
  from assms obtain o' where o: "observationByID db i = Some o'" "m = withLinks db (scanMemory o')"
    by (auto simp: readMemoryWithLinks_def)
  moreover have "o' \<in> set (md_Observations db) \<and> ob_ID o' = i"
    using o(1) unfolding observationByID_def by (rule find_SomeD)
  moreover have "m_ID (withLinks db (scanMemory o')) = ob_ID o'" by (simp add: withLinks_def scanMemory_def)
  ultimately show ?thesis using that by (simp add: memory_row_def)
qed

lemma readMemory_row: "readMemoryWithLinks db i = Some m \<Longrightarrow> memory_of m \<in> set (ml_Rows (ledger_of db)) \<and> m_ID m = i"
  by (erule readMemoryWithLinks_SomeD) force

lemma scan_source [simp]: "m_Source (scanMemory (o'\<lparr>ob_Status := s\<rparr>)) = m_Source (scanMemory o')"
  by (simp add: scanMemory_def)

text \<open>A status update of one memory, as the ledger sees it.\<close>

lemma ledger_status_update:
  assumes "IsValidMemoryStatus s" and "\<And>o'. frozen_columns (f o') = frozen_columns o'" and "\<And>o'. ob_Status (f o') = s"
  shows "ledger_of (updateObservation db i f) = (ledger_of db)\<lparr>ml_Rows := map (retire i s) (ml_Rows (ledger_of db))\<rparr>"
proof -
  have "memory_row (f o') = (memory_row o')\<lparr>mr_Status := s\<rparr>" for o'
    using memory_row_frozen [of "f o'"] memory_row_frozen [of o'] assms(1) assms(2,3) [of o'] by (simp add: scanMemory_def)
  then show ?thesis
    by (simp add: ledger_of_def updateObservation_def md_Purge_def comp_def retire_def if_distrib [of memory_row] cong: if_cong)
qed


section \<open>Save\<close>

lemma chain_filter: "filter (\<lambda>x. mr_Topic x = t \<and> mr_Scope x = s) (map memory_row os)
    = map memory_row (filter (\<lambda>o'. ob_TopicKey o' = t \<and> ob_Scope o' = s) os)"
  by (simp add: filter_map comp_def)

lemma chainRows_head:
  assumes "chains_inv (ledger_of db)"
  shows "chainRows db t s = rev (filter (\<lambda>o'. ob_TopicKey o' = t \<and> ob_Scope o' = s) (md_Observations db))" (is "_ = rev ?c")
proof -
  have ok: "revisions_ok (map memory_row ?c)" using assms by (simp add: chains_inv_def flip: chain_filter)
  then have revs: "map ob_Revision ?c = map int [1..<Suc (length ?c)]" by (simp add: revisions_ok_def comp_def)
  then have "distinct (map ob_Revision ?c)" by (simp only: distinct_map distinct_upt) simp
  then have "inj_on (\<lambda>o'. - ob_Revision o') (set ?c)" by (auto simp: distinct_map inj_on_def)
  moreover have "sorted (map (\<lambda>o'. - ob_Revision o') (rev ?c))"
  proof -
    have "map (\<lambda>o'. - ob_Revision o') (rev ?c) = rev (map uminus (map ob_Revision ?c))" by (simp add: rev_map comp_def)
    also have "\<dots> = rev (map (\<lambda>n. - int n) [1..<Suc (length ?c)])" by (simp only: revs map_map comp_def)
    finally show ?thesis by (simp add: sorted_wrt_rev sorted_wrt_map sorted_wrt_upt del: upt_Suc)
  qed
  ultimately show ?thesis unfolding chainRows_def by (intro sort_key_inj_key_eq) simp_all
qed

lemma updateObservation_byID [simp]:
  "(\<And>o'. ob_ID (f o') = ob_ID o') \<Longrightarrow> observationByID (updateObservation db i f) j
     = map_option (\<lambda>o'. if ob_ID o' = i then f o' else o') (observationByID db j)"
  unfolding observationByID_def updateObservation_def by (simp add: find_map_pred)

lemma supersedePrevious_Inr:
  assumes "supersedePrevious db h i src now = Inr (db', envs)" and "h \<in> set (md_Observations db)"
    and "distinct (map ob_ID (md_Observations db))"
  shows "mem_evolves db db'"
    and "ledger_of db' = (ledger_of db)\<lparr>ml_Rows := (if live_status (mr_Status (memory_row h))
       then map (retire (ob_ID h) StatusSuperseded) (ml_Rows (ledger_of db)) else ml_Rows (ledger_of db))\<rparr>"
proof -
  have find: "observationByID db (ob_ID h) = Some h"
    unfolding observationByID_def using find_distinct_key [OF assms(3,2)] by simp
  have status: "m_Status (withLinks db (scanMemory h)) = mr_Status (memory_row h)"
    by (simp add: withLinks_def memory_row_def)
  have "mem_evolves db db' \<and> ledger_of db' = (ledger_of db)\<lparr>ml_Rows := (if live_status (mr_Status (memory_row h))
       then map (retire (ob_ID h) StatusSuperseded) (ml_Rows (ledger_of db)) else ml_Rows (ledger_of db))\<rparr>"
  proof (cases "live_status (mr_Status (memory_row h))")
    case False
    then have "db' = db"
      using assms(1) by (auto simp: supersedePrevious_def readMemoryWithLinks_def find SupersedePrev_def status live_status_def)
    then show ?thesis using False by (simp add: ledger_of_def)
  next
    case True
    let ?f = "\<lambda>o'. o'\<lparr>ob_Status := StatusSuperseded, ob_SupersedesID := i\<rparr>"
    obtain t where t: "insertTransition (updateObservation db (ob_ID h) ?f) t = Inr db'"
      using assms(1) True
      by (auto simp: supersedePrevious_def readMemoryWithLinks_def find SupersedePrev_def status live_status_def guard_simps)
    have frozen: "frozen_columns (?f o') = frozen_columns o'" for o' by (simp add: frozen_columns_def)
    have "mem_evolves db (updateObservation db (ob_ID h) ?f)" using frozen by (rule updateObservation_evolves)
    then show ?thesis using True insertTransition_quiet [OF t] ledger_status_update [of StatusSuperseded ?f] frozen
      by (auto simp: quiet_def intro: mem_evolves_trans)
  qed
  then show "mem_evolves db db'" and "ledger_of db' = (ledger_of db)\<lparr>ml_Rows := (if live_status (mr_Status (memory_row h))
       then map (retire (ob_ID h) StatusSuperseded) (ml_Rows (ledger_of db)) else ml_Rows (ledger_of db))\<rparr>" by simp_all
qed

text \<open>Only the newest revision of a chain can be live, so superseding it supersedes the chain.\<close>

lemma supersede_newest:
  assumes "chains_inv l" and "filter (same_chain r) (ml_Rows l) = c @ [h]"
  shows "map (supersede_chain r) (ml_Rows l) = (if live_status (mr_Status h)
    then map (retire (mr_ID h) StatusSuperseded) (ml_Rows l) else ml_Rows l)"
proof -
  have "revisions_ok (filter (same_chain r) (ml_Rows l))"
    using assms(1) unfolding chains_inv_def same_chain_def [abs_def] by blast
  then have "revisions_ok (c @ [h])" by (simp add: assms(2))
  then have dead: "\<not> live_status (mr_Status x)" if "x \<in> set c" for x using that by (simp add: revisions_ok_def butlast_append)
  have mem: "x \<in> set (ml_Rows l) \<and> same_chain r x \<longleftrightarrow> x \<in> set c \<or> x = h" for x
    using arg_cong [OF assms(2), of set] by auto
  have same: "x = h" if "x \<in> set (ml_Rows l)" "mr_ID x = mr_ID h" for x
    using distinct_key_eq [of mr_ID "ml_Rows l"] assms(1) that mem [of h] by (auto simp: chains_inv_def)
  have "supersede_chain r x = (if live_status (mr_Status h) then retire (mr_ID h) StatusSuperseded x else x)"
    if x: "x \<in> set (ml_Rows l)" for x
  proof (cases "x = h")
    case True
    then show ?thesis using mem [of h] x by (simp add: supersede_chain_def retire_def)
  next
    case False
    then have "mr_ID x \<noteq> mr_ID h" using same x by blast
    moreover have "\<not> (same_chain r x \<and> live_status (mr_Status x))" using mem [of x] x dead False by blast
    ultimately show ?thesis by (auto simp: supersede_chain_def retire_def)
  qed
  then show ?thesis by (simp add: map_idI)
qed


lemma insertObservation_Inr:
  assumes "insertObservation db o' = Inr db'"
  shows "mem_evolves db db'" and "ob_ID o' \<notin> ob_ID ` set (md_Observations db)"
    and "ledger_of db' = (ledger_of db)\<lparr>ml_Rows := ml_Rows (ledger_of db) @ [memory_row o']\<rparr>"
  using assms by (auto simp: insertObservation_def observationByID_def find_None_iff kept_defs ledger_of_def md_Purge_def
      split: if_splits intro!: life_kept_same)

lemma recordSupersedes_quiet [evolves]: "recordSupersedes db head i src now = Inr db' \<Longrightarrow> quiet db db'"
  by (auto simp: recordSupersedes_def split: option.splits if_splits dest: insertRelation_quiet)

lemma insertLink_fst_quiet: "quiet db (fst (insertLink t db l))"
  by (cases "insertLink t db l") (simp add: insertLink_quiet)

lemma insertRuleLinks_quiet [evolves]: "insertRuleLinks db m ls act now = Inr db' \<Longrightarrow> quiet db db'"
  by (induction ls arbitrary: db) (auto simp: guard_simps split: if_splits intro: quiet_trans [OF insertLink_fst_quiet])

lemma bindSaved_quiet:
  assumes "bindSaved db m intent i now = Inr (db', m')"
  shows "quiet db db' \<and> m_ID m' = m_ID m"
proof (cases intent)
  case (Some b)
  then obtain h db1 k where 1: "storeFiscalScopeBindingTx db b now = Inr (db1, h)" and 2: "insertFiscalLink db1 k = Inr db'"
    and 3: "m_ID m' = m_ID m"
    using assms by (auto simp: bindSaved_def guard_simps Let_def)
  then show ?thesis using storeFiscalScopeBindingTx_quiet [OF 1] insertFiscalLink_quiet [OF 2] by (blast intro: quiet_trans)
qed (use assms in \<open>simp add: bindSaved_def\<close>)

lemma save_receipts_quiet [evolves]: "save_receipts cfg db m head superseded now = Inr db' \<Longrightarrow> quiet db db'"
  by (auto simp: save_receipts_def guard_simps split: option.splits prod.splits intro: quiet_trans dest!: emitMemoryReceipt_quiet)

lemma memory_row_observation_row:
  assumes "IsValidMemoryKind (m_Kind m)" and "IsValidMemoryStatus (m_Status m)" and "IsValidFiscalEffect (m_FiscalEffect m)"
  shows "memory_row (observation_row m) = memory_of m"
proof -
  have "IsCloseMemory (scanMemory (observation_row m)) = IsCloseMemory m"
    by (rule IsCloseMemory_cong) (simp_all add: scanMemory_def observation_row_def assms)
  then show ?thesis
    by (simp add: memory_row_def memory_of_def) (simp add: scanMemory_def observation_row_def sourceFromJSON_def assms)
qed

text \<open>The writes of a save after the chain lookup.\<close>

lemma save_tx_Inr:
  assumes "save_tx cfg db input m head linkID = Inr (db', m')"
  obtains db1 db2 where
    "case head of None \<Rightarrow> db1 = db | Some h \<Rightarrow> (\<exists>envs. supersedePrevious db h (m_ID m) (si_Source input) (m_RecordedAt m) = Inr (db1, envs))"
    "insertObservation db1 (observation_row m) = Inr db2" "quiet db2 db'"
proof -
  let ?head = "case head of None \<Rightarrow> Inr (db, None) | Some h \<Rightarrow> supersedePrevious db h (m_ID m) (si_Source input) (m_RecordedAt m)"
  obtain db1 envs db2 db3 db4 db5 m5 db6 db7 where *: "?head = Inr (db1, envs)" "insertObservation db1 (observation_row m) = Inr db2"
    "recordSupersedes db2 head (m_ID m) (si_Source input) (m_RecordedAt m) = Inr db3"
    "insertRuleLinks db3 m (si_RuleLinks input) (src_ActorID (si_Source input)) (m_RecordedAt m) = Inr db4"
    "bindSaved db4 m (si_FiscalIntent input) linkID (m_RecordedAt m) = Inr (db5, m5)"
    "save_receipts cfg db5 m5 head envs (m_RecordedAt m5) = Inr db6" "refreshEnvelopeCache db6 (m_ID m5) = Inr db7" "db7 = db'"
    using assms unfolding save_tx_def guard_simps split_paired_Ex prod.case by (elim exE conjE) (rule that, auto)
  have "quiet db2 db'"
    using recordSupersedes_quiet [OF *(3)] insertRuleLinks_quiet [OF *(4)] bindSaved_quiet [OF *(5)]
      save_receipts_quiet [OF *(6)] refreshEnvelopeCache_quiet [OF *(7)] *(8) by (blast intro: quiet_trans)
  with *(1,2) show ?thesis by (intro that [of db1 db2]) (auto split: option.splits)
qed


lemma assertPeriodWritable_open:
  assumes "assertPeriodWritable p s = Inr ()" and "distinct (map closure_id (pd_Closures p))" and "closable s"
  shows "\<not> period_closed (pd_Closures p) s"
proof -
  have key: "closure_key s = (\<lambda>c. closure_id c = (sc_OrganizationID s, sc_CompanyID s, sc_Period s))"
    by (simp add: closure_key_def closure_id_def fun_eq_iff)
  have "find (closure_key s) (pd_Closures p) = Some c" if "c \<in> set (pd_Closures p)" "closure_key s c" for c
    using find_distinct_key [OF assms(2) that(1)] that(2) unfolding key by simp
  then show ?thesis using assms(1,3)
    by (auto simp: assertPeriodWritable_def period_closed_def closable_def closure_key_def [abs_def] split: option.splits if_splits)
qed

lemma Save_tx:
  assumes "Save cfg db input now ids = Inr (db', m', outcome)"
  obtains input' linkID m where "assertPeriodWritable (md_Purge db) (m_Scope m) = Inr ()"
    "AssertValidScope (m_Scope m) = Inr ()" "IsValidMemoryKind (m_Kind m)" "IsValidFiscalEffect (m_FiscalEffect m)" "m_Status m = StatusActive \<or> m_Status m = StatusPendingReview"
    "save_tx cfg db input' m (case chainRows db (m_TopicKey m) (m_Scope m) of [] \<Rightarrow> None | h # _ \<Rightarrow> Some h) linkID = Inr (db', m')"
    "m_Revision m = head_revision (case chainRows db (m_TopicKey m) (m_Scope m) of [] \<Rightarrow> None | h # _ \<Rightarrow> Some h) + 1"
proof -
  obtain input0 where s: "save_checks cfg input = Inr input0" using assms by (auto simp: Save_def guard_simps)
  define input' where "input' = input0\<lparr>si_EffectiveAt := (if si_EffectiveAt input0 = '''' then now else si_EffectiveAt input0)\<rparr>"
  let ?head = "case chainRows db (si_TopicKey input') (si_Scope input') of [] \<Rightarrow> None | h # _ \<Rightarrow> Some h"
  let ?m = "buildMemory input' (ids 0) 1 (InitialStatus (si_FiscalEffect input')) now"
  have same: "si_TopicKey input0 = si_TopicKey input'" "si_Scope input0 = si_Scope input'" "si_FiscalEffect input0 = si_FiscalEffect input'"
    by (simp_all add: input'_def)
  have valid: "AssertValidMemory ?m = Inr ()" and *: "assertPeriodWritable (md_Purge db) (si_Scope input') = Inr ()"
    "save_tx cfg db input' (?m\<lparr>m_Revision := head_revision ?head + 1\<rparr>) ?head (ids 1) = Inr (db', m')"
    using assms by (auto simp: Save_def s guard_simps Let_def input'_def [symmetric] same)
  show ?thesis
    by (rule that [of "?m\<lparr>m_Revision := head_revision ?head + 1\<rparr>" input' "ids 1"]) (use * valid in \<open>auto simp: InitialStatus_def AssertValidMemory_def guard_simps\<close>)
qed

lemma Save_Inr:
  assumes "Save cfg db input now ids = Inr (db', m', outcome)" and "ledger_inv (ledger_of db)"
  shows "mem_evolves db db'" and "ledger_step (ledger_of db) (ledger_of db')"
proof -
  obtain input' linkID m where w: "assertPeriodWritable (md_Purge db) (m_Scope m) = Inr ()"
    and ok: "AssertValidScope (m_Scope m) = Inr ()" "IsValidMemoryKind (m_Kind m)" "IsValidFiscalEffect (m_FiscalEffect m)" and new: "m_Status m = StatusActive \<or> m_Status m = StatusPendingReview"
    and tx: "save_tx cfg db input' m (case chainRows db (m_TopicKey m) (m_Scope m) of [] \<Rightarrow> None | h # _ \<Rightarrow> Some h) linkID = Inr (db', m')"
    and rev: "m_Revision m = head_revision (case chainRows db (m_TopicKey m) (m_Scope m) of [] \<Rightarrow> None | h # _ \<Rightarrow> Some h) + 1"
    using Save_tx [OF assms(1)] by blast
  let ?r = "memory_of m"
  let ?c = "filter (\<lambda>o'. ob_TopicKey o' = m_TopicKey m \<and> ob_Scope o' = m_Scope m) (md_Observations db)"
  have inv: "chains_inv (ledger_of db)" "closures_inv (ledger_of db)" using assms(2) by (simp_all add: ledger_inv_def)
  have ids: "distinct (map ob_ID (md_Observations db))" using inv(1) by (simp add: chains_inv_def comp_def)
  have chain: "filter (same_chain ?r) (ml_Rows (ledger_of db)) = map memory_row ?c"
    by (simp add: same_chain_def [abs_def] filter_map comp_def)
  have row: "memory_row (observation_row m) = ?r"
    using ok new by (intro memory_row_observation_row) auto
  have "mem_evolves db db' \<and> ledger_of db' = (ledger_of db)\<lparr>ml_Rows := map (supersede_chain ?r) (ml_Rows (ledger_of db)) @ [?r]\<rparr>
      \<and> mr_ID ?r \<notin> mr_ID ` set (ml_Rows (ledger_of db)) \<and> mr_Revision ?r = int (length ?c) + 1"
  proof (cases "?c" rule: rev_cases)
    case Nil
    have none: "chainRows db (m_TopicKey m) (m_Scope m) = []" by (simp add: chainRows_head [OF inv(1)] Nil)
    obtain db2 where 2: "insertObservation db (observation_row m) = Inr db2" "quiet db2 db'"
      using save_tx_Inr [OF tx] none by auto
    have "map (supersede_chain ?r) (ml_Rows (ledger_of db)) = ml_Rows (ledger_of db)"
      using chain Nil by (intro map_idI) (auto simp: supersede_chain_def filter_empty_conv)
    moreover have "mr_ID ?r \<notin> mr_ID ` set (ml_Rows (ledger_of db))"
      using insertObservation_Inr(2) [OF 2(1)] by (auto simp: observation_row_def)
    ultimately show ?thesis using insertObservation_Inr [OF 2(1)] 2(2) rev none Nil row
      by (auto simp: quiet_def head_revision_def intro: mem_evolves_trans)
  next
    case (snoc c h)
    have head: "chainRows db (m_TopicKey m) (m_Scope m) = h # rev c" by (simp add: chainRows_head [OF inv(1)] snoc)
    obtain db1 envs db2 where 1: "supersedePrevious db h (m_ID m) (si_Source input') (m_RecordedAt m) = Inr (db1, envs)"
      and 2: "insertObservation db1 (observation_row m) = Inr db2" "quiet db2 db'"
      by (rule save_tx_Inr [OF tx]) (use head in auto)
    have h: "h \<in> set (md_Observations db)" using snoc by (metis filter_is_subset in_set_conv_decomp subsetD)
    note p = supersedePrevious_Inr [OF 1 h ids]
    have newest: "filter (same_chain ?r) (ml_Rows (ledger_of db)) = map memory_row c @ [memory_row h]" using chain snoc by simp
    have l1: "ledger_of db1 = (ledger_of db)\<lparr>ml_Rows := map (supersede_chain ?r) (ml_Rows (ledger_of db))\<rparr>"
      using p(2) supersede_newest [OF inv(1) newest] by (simp del: ledger_of_simps(1) map_map)
    have l2: "ledger_of db' = (ledger_of db)\<lparr>ml_Rows := map (supersede_chain ?r) (ml_Rows (ledger_of db)) @ [?r]\<rparr>"
      using insertObservation_Inr(3) [OF 2(1)] 2(2) row by (simp add: quiet_def l1 del: ledger_of_simps(1) map_map)
    have "revisions_ok (map memory_row ?c)" using inv(1) by (simp add: chains_inv_def flip: chain_filter)
    then have "ob_Revision h = int (length ?c)" by (simp add: snoc revisions_ok_def)
    then have "mr_Revision ?r = int (length ?c) + 1" using rev head by (simp add: head_revision_def)
    moreover have "mr_ID ?r \<notin> mr_ID ` set (ml_Rows (ledger_of db1))"
      using insertObservation_Inr(2) [OF 2(1)] by (auto simp: observation_row_def)
    then have "mr_ID ?r \<notin> mr_ID ` set (ml_Rows (ledger_of db))" by (simp add: l1 image_image del: ledger_of_simps(1) map_map)
    moreover have "mem_evolves db db'"
      using p(1) insertObservation_Inr(1) [OF 2(1)] 2(2) by (blast intro: mem_evolves_trans quiet_evolves)
    ultimately show ?thesis using l2 by blast
  qed
  moreover have "ledger_step (ledger_of db) ((ledger_of db)\<lparr>ml_Rows := map (supersede_chain ?r) (ml_Rows (ledger_of db)) @ [?r]\<rparr>)"
    if "mr_ID ?r \<notin> mr_ID ` set (ml_Rows (ledger_of db))" "mr_Revision ?r = int (length ?c) + 1"
    using that new ok w inv(2) assertPeriodWritable_open
    by (intro lg_record) (auto simp: chain closures_inv_def simp del: ledger_of_simps(1))
  ultimately show "mem_evolves db db'" and "ledger_step (ledger_of db) (ledger_of db')" by auto
qed


section \<open>Links and relations\<close>

lemma Relate_quiet [evolves]: "Relate cfg db i j r a t = Inr db' \<Longrightarrow> quiet db db'"
  by (auto simp: Relate_def guard_simps split: if_splits dest: insertRelation_quiet)

lemma link_receipt_quiet [evolves]: "link_receipt cfg db t b m ref a now = Inr db' \<Longrightarrow> quiet db db'"
  by (auto simp: link_receipt_def guard_simps split: if_splits dest: emitMemoryReceipt_quiet)

lemma addLink_quiet [evolves]:
  assumes "addLink cfg db t i ref a now = Inr db'"
  shows "quiet db db'"
proof -
  obtain db1 b where 1: "insertLink t db (bare_link i ref a now) = (db1, b)" by fastforce
  from assms obtain m db2 where 2: "refreshEnvelopeCache db1 i = Inr db2" "link_receipt cfg db2 t b m ref a now = Inr db'"
    by (auto simp: addLink_def guard_simps 1)
  show ?thesis using insertLink_quiet [OF 1] refreshEnvelopeCache_quiet [OF 2(1)] link_receipt_quiet [OF 2(2)]
    by (blast intro: quiet_trans)
qed

lemma insertBareLinks_quiet [evolves]: "insertBareLinks t db i refs a now = (db', b) \<Longrightarrow> quiet db db'"
  by (induction refs arbitrary: db b) (auto split: prod.splits intro: quiet_trans insertLink_quiet)

lemma bindLinked_quiet [evolves]:
  assumes "bindLinked db m intent b i now = Inr db'"
  shows "quiet db db'"
proof (cases intent)
  case (Some x)
  show ?thesis
  proof (cases b)
    case True
    obtain db1 h k where 1: "storeFiscalScopeBindingTx db x now = Inr (db1, h)"
      and 2: "(case insertFiscalLink db1 k of Inr db \<Rightarrow> Inr db
               | Inl e \<Rightarrow> if e = StoreErr ''act_evidence_hash'' then Inr db1 else Inl e) = Inr db'"
      using assms Some True unfolding bindLinked_def by (auto simp: guard_simps Let_def)
    from 2 have "quiet db1 db'" by (auto split: sum.splits if_splits dest: insertFiscalLink_quiet)
    then show ?thesis using storeFiscalScopeBindingTx_quiet [OF 1] by (blast intro: quiet_trans)
  qed (use assms Some in \<open>simp add: bindLinked_def\<close>)
qed (use assms in \<open>simp add: bindLinked_def\<close>)

lemma addLinksBound_quiet [evolves]:
  assumes "addLinksBound cfg db t i refs a intent linkID now = Inr db'"
  shows "quiet db db'"
proof -
  obtain db1 b where 1: "insertBareLinks t db i refs a now = (db1, b)" by fastforce
  from assms obtain m db2 db3 where 2: "bindLinked db1 m intent b linkID now = Inr db2" "refreshEnvelopeCache db2 i = Inr db3"
    "link_receipt cfg db3 t b m '''' a now = Inr db'"
    by (auto simp: addLinksBound_def guard_simps 1)
  show ?thesis
    using insertBareLinks_quiet [OF 1] bindLinked_quiet [OF 2(1)] refreshEnvelopeCache_quiet [OF 2(2)] link_receipt_quiet [OF 2(3)]
    by (blast intro: quiet_trans)
qed

lemma AddRuleLinkVersion_quiet [evolves]:
  "AddRuleLinkVersion cfg db i link a now = Inr db' \<Longrightarrow> quiet db db'"
  by (auto simp: AddRuleLinkVersion_def guard_simps Let_def insertLink_fst_quiet split: option.splits if_splits
      intro: quiet_trans [OF insertLink_fst_quiet] dest: refreshEnvelopeCache_quiet)

section \<open>Supersession and status transitions\<close>

lemma retire_step:
  assumes "readMemoryWithLinks db i = Some m" and "assertPeriodWritable (md_Purge db) (m_Scope m) = Inr ()"
    and "ledger_inv (ledger_of db)" and "\<not> live_status s"
  shows "ledger_step (ledger_of db) ((ledger_of db)\<lparr>ml_Rows := map (retire i s) (ml_Rows (ledger_of db))\<rparr>)"
proof -
  from readMemory_row [OF assms(1)] have "memory_of m \<in> set (ml_Rows (ledger_of db))" "mr_ID (memory_of m) = i" by auto
  then show ?thesis using lg_retire [of "memory_of m" "ledger_of db" s] assms assertPeriodWritable_open [OF assms(2)]
    by (simp add: ledger_inv_def closures_inv_def)
qed

lemma bindSuperseded_quiet [evolves]:
  assumes "bindSuperseded db m intent linkID now = Inr (db', m')"
  shows "quiet db db'"
proof (cases intent)
  case (Some b)
  then obtain h db1 k where 1: "storeFiscalScopeBindingTx db b now = Inr (db1, h)" "insertFiscalLink db1 k = Inr db'"
    using assms by (auto simp: bindSuperseded_def guard_simps Let_def)
  show ?thesis using storeFiscalScopeBindingTx_quiet [OF 1(1)] insertFiscalLink_quiet [OF 1(2)] by (rule quiet_trans)
qed (use assms in \<open>simp add: bindSuperseded_def\<close>)

lemma readMemoryWithLinks_quiet_row:
  "quiet db db' \<Longrightarrow> ml_Rows (ledger_of db') = ml_Rows (ledger_of db) \<and> pd_Closures (md_Purge db') = pd_Closures (md_Purge db)"
  by (simp add: quiet_def ledger_of_def)

lemma status_update_Inr:
  assumes "insertTransition (updateObservation db i f) t = Inr db'" and "IsValidMemoryStatus s"
    and "\<And>o'. frozen_columns (f o') = frozen_columns o'" and "\<And>o'. ob_Status (f o') = s"
  shows "mem_evolves db db'" and "ledger_of db' = (ledger_of db)\<lparr>ml_Rows := map (retire i s) (ml_Rows (ledger_of db))\<rparr>"
  using insertTransition_quiet [OF assms(1)] updateObservation_evolves [OF assms(3), of db i]
    ledger_status_update [OF assms(2-4), of db i] by (auto simp: quiet_def simp del: ledger_of_simps intro: mem_evolves_trans)

lemma SupersedeExplicit_Inr:
  assumes "SupersedeExplicit cfg db i j meta linkID = Inr (db', m')" and "ledger_inv (ledger_of db)"
  shows "mem_evolves db db'" and "ledger_step (ledger_of db) (ledger_of db')"
proof -
  let ?f = "\<lambda>o'. o'\<lparr>ob_Status := StatusSuperseded, ob_AuthorityStatus := legacyStatusFor StatusSuperseded, ob_SupersedesID := j\<rparr>"
  obtain m db1 s db2 t db3 r p where 1: "readMemoryWithLinks db i = Some m" "assertPeriodWritable (md_Purge db) (m_Scope m) = Inr ()"
    "bindSuperseded db (m\<lparr>m_Status := StatusSuperseded, m_SupersedesID := j\<rparr>) (tm_FiscalIntent meta) linkID (tm_Timestamp meta) = Inr (db1, s)"
    "insertTransition (updateObservation db1 i ?f) t = Inr db2" "insertRelation db2 r = Inr db3"
    "emitMemoryReceipt cfg db3 i MemorySuperseded p (tm_Timestamp meta) = Inr db'"
    using assms(1) unfolding SupersedeExplicit_def guard_simps split_paired_Ex prod.case by (elim exE conjE) (rule that, auto)
  note q = bindSuperseded_quiet [OF 1(3)]
  have u: "mem_evolves db1 db2" "ledger_of db2 = (ledger_of db1)\<lparr>ml_Rows := map (retire i StatusSuperseded) (ml_Rows (ledger_of db1))\<rparr>"
    by (rule status_update_Inr [OF 1(4), of StatusSuperseded]; simp add: frozen_columns_def)+
  have r: "quiet db2 db'" using insertRelation_quiet [OF 1(5)] emitMemoryReceipt_quiet [OF 1(6)] by (rule quiet_trans)
  show "mem_evolves db db'" using q u(1) r by (blast intro: mem_evolves_trans quiet_evolves)
  show "ledger_step (ledger_of db) (ledger_of db')"
    using retire_step [OF 1(1,2) assms(2), of StatusSuperseded] u(2) quiet_ledger [OF q] quiet_ledger [OF r] by simp
qed

lemma ApplyStatusTransition_Inr:
  assumes "ApplyStatusTransition cfg db i s meta = Inr (db', m')" and "ledger_inv (ledger_of db)" and "\<not> live_status s"
  shows "mem_evolves db db'" and "ledger_step (ledger_of db) (ledger_of db')"
proof -
  let ?f = "\<lambda>o'. o'\<lparr>ob_Status := s, ob_AuthorityStatus := legacyStatusFor s\<rparr>"
  obtain m db2 t p where 1: "IsValidMemoryStatus s" "readMemoryWithLinks db i = Some m" "assertPeriodWritable (md_Purge db) (m_Scope m) = Inr ()"
    "insertTransition (updateObservation db i ?f) t = Inr db2"
    "(if s = StatusRejected then emitMemoryReceipt cfg db2 i MemoryRejected p (tm_Timestamp meta)
      else if s = StatusVoided then emitMemoryReceipt cfg db2 i MemoryVoided p (tm_Timestamp meta) else Inr db2) = Inr db'"
    using assms(1) unfolding ApplyStatusTransition_def guard_simps Let_def by (elim exE conjE) (rule that, auto)
  have u: "mem_evolves db db2" "ledger_of db2 = (ledger_of db)\<lparr>ml_Rows := map (retire i s) (ml_Rows (ledger_of db))\<rparr>"
    by (rule status_update_Inr [OF 1(4,1)]; simp add: frozen_columns_def)+
  have r: "quiet db2 db'" using 1(5) by (auto split: if_splits dest: emitMemoryReceipt_quiet)
  show "mem_evolves db db'" using u(1) r by (blast intro: mem_evolves_trans quiet_evolves)
  show "ledger_step (ledger_of db) (ledger_of db')"
    using retire_step [OF 1(2,3) assms(2,3)] u(2) quiet_ledger [OF r] by simp
qed

end
