(* ===== verification/Memory_System.thy ===== *)
theory Memory_System
  imports Memory_Steps
begin

text \<open>
  The decisions of Memory_Review and Review_Workspace against the abstract ledger, and the whole
  store: its steps interleave the memory handlers with those of Lifecycle_System.
\<close>

section \<open>Decisions\<close>

lemma decideObservation_Inr:
  assumes "decideObservation db i s h = Inr db'" and "distinct (map ob_ID (md_Observations db))" and "IsValidMemoryStatus s"
  shows "mem_evolves db db'" and "ledger_of db' = (ledger_of db)\<lparr>ml_Rows := map (retire i s) (ml_Rows (ledger_of db))\<rparr>"
proof -
  let ?P = "\<lambda>o'. ob_ID o' = i \<and> ob_Status o' = StatusPendingReview"
  let ?f = "\<lambda>o'. o'\<lparr>ob_Status := s, ob_AuthorityStatus := legacyStatusFor s, ob_EnvelopeHash := h\<rparr>"
  from assms(1) have one: "length (filter ?P (md_Observations db)) = 1"
    and db': "db' = db\<lparr>md_Observations := map (\<lambda>o'. if ?P o' then ?f o' else o') (md_Observations db)\<rparr>"
    by (auto simp: decideObservation_def split: if_splits)
  from one obtain a where a: "a \<in> set (md_Observations db)" "?P a"
    by (metis (mono_tags, lifting) One_nat_def filter_False length_0_conv list.size(3) zero_neq_one)
  have "?P o' \<longleftrightarrow> ob_ID o' = i" if "o' \<in> set (md_Observations db)" for o'
    using distinct_key_eq [OF assms(2) that a(1)] a(2) by auto
  then have upd: "db' = updateObservation db i ?f" by (simp add: db' updateObservation_def cong: map_cong)
  have "frozen_columns (?f o') = frozen_columns o'" for o' by (simp add: frozen_columns_def)
  then show "mem_evolves db db'" and "ledger_of db' = (ledger_of db)\<lparr>ml_Rows := map (retire i s) (ml_Rows (ledger_of db))\<rparr>"
    unfolding upd by (intro updateObservation_evolves ledger_status_update assms(3); simp)+
qed

lemma insertApprovalEvent_evolves: "insertApprovalEvent db e = Inr db' \<Longrightarrow> mem_evolves db db'"
  by (auto dest!: insertApprovalEvent_Inr simp: kept_defs md_Purge_def life_kept_same)

lemma insertDecisionEvent_evolves: "insertDecisionEvent db e = Inr db' \<Longrightarrow> mem_evolves db db'"
  by (auto dest!: insertDecisionEvent_Inr simp: kept_defs md_Purge_def life_kept_same)

lemma ledger_of_events:
  "insertApprovalEvent db e = Inr db' \<Longrightarrow> ledger_of db' = (ledger_of db)\<lparr>ml_Approvals := ml_Approvals (ledger_of db) @ [e]\<rparr>"
  "insertDecisionEvent db e = Inr db' \<Longrightarrow> ledger_of db' = (ledger_of db)\<lparr>ml_Decisions := ml_Decisions (ledger_of db) @ [e]\<rparr>"
  by (auto dest!: insertApprovalEvent_Inr insertDecisionEvent_Inr simp: ledger_of_def md_Purge_def)

lemma approve_binding_quiet:
  assumes "approve_binding db cmd m now = Inr (db', a)"
  shows "quiet db db'"
  using assms by (auto simp: approve_binding_def guard_simps Let_def split: option.splits dest: storeFiscalScopeBindingTx_quiet)

lemma approve_link_quiet: "approve_link db cmd m a i now = Inr db' \<Longrightarrow> quiet db db'"
  by (auto simp: approve_link_def Let_def split: option.splits dest: insertFiscalLink_quiet)

lemma approve_receipts_quiet: "approve_receipts cfg db cmd m h who now = Inr db' \<Longrightarrow> quiet db db'"
  by (auto simp: approve_receipts_def Let_def guard_simps split: if_splits intro: quiet_trans dest!: emitMemoryReceipt_quiet)

lemma project_closure_Inr:
  assumes "project_closure p m eventID now = Inr p'" and "distinct (map closure_id (pd_Closures p))"
  shows "(\<not> IsCloseMemory m \<and> p' = p) \<or> (\<exists>row. IsCloseMemory m \<and> closable (m_Scope m) \<and> \<not> period_closed (pd_Closures p) (m_Scope m)
     \<and> p' = p\<lparr>pd_Closures := close_rows row (pd_Closures p)\<rparr> \<and> closure_key (m_Scope m) row \<and> pc_CloseMemoryID row = m_ID m
     \<and> pc_Status row = ''closed'' \<and> pc_CloseApprovalEventID row = eventID)"
proof (cases "IsCloseMemory m")
  case False
  then show ?thesis using assms(1) by (simp add: project_closure_def)
next
  case True
  let ?s = "m_Scope m"
  define row where "row = \<lparr>pc_TenantID = sc_OrganizationID ?s, pc_CompanyID = sc_CompanyID ?s, pc_FiscalPeriodID = sc_Period ?s,
    pc_CloseMemoryID = m_ID m, pc_Status = ''closed'', pc_CloseApprovalEventID = eventID, pc_ClosedAt = now,
    pc_ReopenedAt = '''', pc_ReopenedBySubjectID = '''', pc_ReopenReason = ''''\<rparr>"
  have key: "closure_key ?s = (\<lambda>c. closure_id c = closure_id row)"
    by (auto simp: closure_key_def closure_id_def fun_eq_iff row_def)
  have "p' = p\<lparr>pd_Closures := close_rows row (pd_Closures p)\<rparr> \<and> \<not> period_closed (pd_Closures p) ?s"
  proof (cases "find (closure_key ?s) (pd_Closures p)")
    case None
    then have "closure_id row \<notin> closure_id ` set (pd_Closures p)" unfolding key by (force simp: find_None_iff)
    then show ?thesis using assms(1) True None
      by (auto simp: project_closure_def Let_def row_def [symmetric] close_rows_def period_closed_def key image_iff split: if_splits)
  next
    case (Some c)
    have c: "c \<in> set (pd_Closures p)" "closure_id c = closure_id row" using find_SomeD [OF Some] by (simp_all add: key)
    have open': "pc_Status c \<noteq> ''closed''" and p': "p' = p\<lparr>pd_Closures := map (\<lambda>x. if closure_key ?s x then row else x) (pd_Closures p)\<rparr>"
      using assms(1) True Some by (auto simp: project_closure_def Let_def row_def [symmetric] split: if_splits)
    have "x = c" if "x \<in> set (pd_Closures p)" "closure_key ?s x" for x
      using distinct_key_eq [OF assms(2) that(1) c(1)] that(2) c(2) by (simp add: key)
    then have "\<not> period_closed (pd_Closures p) ?s" using open' unfolding period_closed_def by blast
    moreover have "closure_id row \<in> closure_id ` set (pd_Closures p)" using c by (metis imageI)
    ultimately show ?thesis by (simp add: p' close_rows_def key)
  qed
  moreover have "closable (m_Scope m)" using True by (simp add: closable_def IsCloseMemory_def split: if_splits)
  moreover have "closure_key (m_Scope m) row \<and> pc_CloseMemoryID row = m_ID m \<and> pc_Status row = ''closed'' \<and> pc_CloseApprovalEventID row = eventID"
    by (simp add: row_def closure_key_def)
  ultimately show ?thesis using True by blast
qed

lemma set_purge_closures:
  "mem_evolves db (set_purge ((md_Purge db)\<lparr>pd_Closures := cs\<rparr>) db)"
  "ledger_of (set_purge ((md_Purge db)\<lparr>pd_Closures := cs\<rparr>) db) = (ledger_of db)\<lparr>ml_Closures := cs\<rparr>"
proof -
  have "life_kept db (set_purge ((md_Purge db)\<lparr>pd_Closures := cs\<rparr>) db)" unfolding life_kept_def
    by (intro exI [of _ cs] exI [of _ "pd_Receipts (md_Purge db)"]) (simp add: set_purge_def)
  then show "mem_evolves db (set_purge ((md_Purge db)\<lparr>pd_Closures := cs\<rparr>) db)"
    by (simp add: kept_defs set_purge_def md_Purge_def)
  show "ledger_of (set_purge ((md_Purge db)\<lparr>pd_Closures := cs\<rparr>) db) = (ledger_of db)\<lparr>ml_Closures := cs\<rparr>"
    by (simp add: ledger_of_def set_purge_def md_Purge_def)
qed

lemma set_purge_self [simp]: "set_purge (md_Purge db) db = db"
  by (simp add: set_purge_def md_Purge_def)

text \<open>The writes of an approval: one step of the ledger, which closes the period of a close memory.\<close>

lemma approve_writes_Inr:
  assumes w: "approve_writes cfg db cmd m who now ws ids = Inr (db', h)" and inv: "ledger_inv (ledger_of db)"
    and m: "memory_of m \<in> set (ml_Rows (ledger_of db))" "m_Status m = StatusPendingReview"
      "\<not> SODViolation (src_ActorID (m_Source m)) (p_SubjectID who)"
  shows "mem_evolves db db'" and "ledger_step (ledger_of db) (ledger_of db')"
    and "md_ApprovalKeys db' = md_ApprovalKeys db"
    and "\<exists>e. md_Approvals db' = md_Approvals db @ [e] \<and> de_MemoryID e = m_ID m \<and> de_ID e = ids 0 \<and> de_ReviewedEnvelopeHash e = ComputeEnvelopeHash m
      \<and> de_ResultingEnvelopeHash e = h \<and> de_Principal e = PrincipalSnapshot_of who \<and> h \<noteq> ComputeEnvelopeHash m"
proof -
  let ?ev = "decision_event m (ids 0) (mc_RequestID cmd) ''approved'' StatusApproved (ComputeEnvelopeHash m) h (mc_Reason cmd) who PolicyVersion
    ''AUTHORIZED'' now"
  let ?al = "\<lambda>db. maybeRecordReviewVelocityAlerts db (sc_OrganizationID (m_Scope m)) (p_SubjectID who) ''approved'' now ws (ids 2) (ids 3)"
  obtain db1 a db2 db3 db4 db5 db6 p where 1: "approve_binding db cmd m now = Inr (db1, a)" "h = ComputeEnvelopeHash a"
    "h \<noteq> ComputeEnvelopeHash m"
    "decideObservation db1 (m_ID m) StatusApproved h = Inr db2" "insertApprovalEvent db2 ?ev = Inr db3"
    "insertTransition db3 (decision_transition (m_ID m) StatusApproved who now) = Inr db4"
    "approve_link db4 cmd m a (ids 1) now = Inr db5" "?al db5 = Inr db6"
    "project_closure (md_Purge db6) m (ids 0) now = Inr p" "approve_receipts cfg (set_purge p db6) cmd m h who now = Inr db'"
    using w unfolding approve_writes_def guard_simps split_paired_Ex prod.case Let_def by (elim exE conjE) (rule that, auto)
  have ids: "distinct (map ob_ID (md_Observations db))" "distinct (map closure_id (pd_Closures (md_Purge db)))"
    using inv by (simp_all add: ledger_inv_def chains_inv_def closures_inv_def comp_def)
  note q1 = approve_binding_quiet [OF 1(1)]
  have "map mr_ID (ml_Rows (ledger_of db1)) = map mr_ID (ml_Rows (ledger_of db))" by (simp only: quiet_ledger [OF q1])
  then have ids1: "distinct (map ob_ID (md_Observations db1))" using ids(1) by (simp add: comp_def)
  have d: "mem_evolves db1 db2" "ledger_of db2 = (ledger_of db1)\<lparr>ml_Rows := map (retire (m_ID m) StatusApproved) (ml_Rows (ledger_of db1))\<rparr>"
    using decideObservation_Inr [OF 1(4) ids1] by simp_all
  have q46: "quiet db3 db6" using insertTransition_quiet [OF 1(6)] approve_link_quiet [OF 1(7)] maybeRecord_quiet [OF 1(8)]
    by (blast intro: quiet_trans)
  note q7 = approve_receipts_quiet [OF 1(10)]
  have l6: "ledger_of db6 = (ledger_of db)\<lparr>ml_Rows := map (retire (m_ID m) StatusApproved) (ml_Rows (ledger_of db)), ml_Approvals := ml_Approvals (ledger_of db) @ [?ev]\<rparr>"
    using d(2) quiet_ledger [OF q1] quiet_ledger [OF q46] ledger_of_events(1) [OF 1(5)] by (simp del: ledger_of_simps)
  have c6: "pd_Closures (md_Purge db6) = pd_Closures (md_Purge db)" using arg_cong [OF l6, of ml_Closures] by simp
  have ev: "decides (memory_of m) ?ev" using m(3) by (simp add: decides_def decision_event_def PrincipalSnapshot_of_def)
  have e6: "mem_evolves db db6"
    using q1 d(1) insertApprovalEvent_evolves [OF 1(5)] q46 by (blast intro: mem_evolves_trans quiet_evolves)
  from project_closure_Inr [OF 1(9)] ids(2) c6 consider
    (plain) "\<not> IsCloseMemory m" "p = md_Purge db6"
  | (close) row where "IsCloseMemory m" "closable (m_Scope m)" "\<not> period_closed (pd_Closures (md_Purge db)) (m_Scope m)"
      "p = (md_Purge db6)\<lparr>pd_Closures := close_rows row (pd_Closures (md_Purge db))\<rparr>" "closes (memory_of m) ?ev row"
    by (auto simp: closes_def decision_event_def)
  then show "ledger_step (ledger_of db) (ledger_of db')"
  proof cases
    case plain
    then show ?thesis using lg_approve [OF m(1), of ?ev] m(2) ev quiet_ledger [OF q7] l6
      by (simp add: decision_event_def del: ledger_of_simps)
  next
    case close
    then show ?thesis using lg_close [OF m(1), of ?ev row] m(2) ev quiet_ledger [OF q7] l6 set_purge_closures(2)
      by (simp add: decision_event_def del: ledger_of_simps(1,2,3))
  qed
  have "mem_evolves db6 (set_purge p db6)"
    using project_closure_Inr [OF 1(9)] ids(2) c6 set_purge_closures(1) by auto
  then show "mem_evolves db db'" using e6 q7 by (blast intro: mem_evolves_trans quiet_evolves)
  have "md_ApprovalKeys db3 = md_ApprovalKeys db1"
    using 1(4) insertApprovalEvent_Inr [OF 1(5)] by (auto simp: decideObservation_def split: if_splits)
  then show "md_ApprovalKeys db' = md_ApprovalKeys db" using q1 q46 q7 by (simp add: quiet_def set_purge_def)
  have "ml_Approvals (ledger_of db') = md_Approvals db @ [?ev]"
    using quiet_ledger [OF q7] arg_cong [OF l6, of ml_Approvals] by (simp add: set_purge_def)
  then show "\<exists>e. md_Approvals db' = md_Approvals db @ [e] \<and> de_MemoryID e = m_ID m \<and> de_ID e = ids 0 \<and> de_ReviewedEnvelopeHash e = ComputeEnvelopeHash m
      \<and> de_ResultingEnvelopeHash e = h \<and> de_Principal e = PrincipalSnapshot_of who \<and> h \<noteq> ComputeEnvelopeHash m"
    using 1(3) by (intro exI [of _ ?ev]) (simp add: decision_event_def)
qed


lemma decide_writes_Inr:
  assumes w: "decide_writes cfg db cmd m who kind now ws ids = Inr db'" and inv: "ledger_inv (ledger_of db)"
    and m: "memory_of m \<in> set (ml_Rows (ledger_of db))" "m_Status m = StatusPendingReview"
      "\<not> SODViolation (src_ActorID (m_Source m)) (p_SubjectID who)"
    and kind: "dk_To kind = StatusRejected \<or> dk_To kind = StatusReturned"
  shows "mem_evolves db db'" and "ledger_step (ledger_of db) (ledger_of db')"
proof -
  let ?h = "ComputeEnvelopeHash (m\<lparr>m_Status := dk_To kind\<rparr>)"
  let ?ev = "decision_event m (ids 0) (dc_RequestID cmd) (dk_Action kind) (dk_To kind) (ComputeEnvelopeHash m) ?h (dc_Reason cmd) who
    kernelPolicyVersion (dk_ReasonCode kind) now"
  let ?al = "\<lambda>db. maybeRecordReviewVelocityAlerts db (sc_OrganizationID (m_Scope m)) (p_SubjectID who) (dk_Action kind) now ws (ids 1) (ids 2)"
  obtain db2 db3 db4 db5 p where 1: "decideObservation db (m_ID m) (dk_To kind) ?h = Inr db2" "insertDecisionEvent db2 ?ev = Inr db3"
    "insertTransition db3 (decision_transition (m_ID m) (dk_To kind) who now) = Inr db4"
    "emitMemoryReceipt cfg db4 (m_ID m) (dk_ReceiptAction kind) p now = Inr db5" "?al db5 = Inr db'"
    using w unfolding decide_writes_def guard_simps Let_def by (elim exE conjE) (rule that, auto)
  have ids: "distinct (map ob_ID (md_Observations db))" using inv by (simp add: ledger_inv_def chains_inv_def comp_def)
  have valid: "IsValidMemoryStatus (dk_To kind)" using kind by auto
  note d = decideObservation_Inr [OF 1(1) ids valid]
  have q: "quiet db3 db'" using insertTransition_quiet [OF 1(3)] emitMemoryReceipt_quiet [OF 1(4)] maybeRecord_quiet [OF 1(5)]
    by (blast intro: quiet_trans)
  have l: "ledger_of db' = (ledger_of db)\<lparr>ml_Rows := map (retire (m_ID m) (dk_To kind)) (ml_Rows (ledger_of db)),
      ml_Decisions := ml_Decisions (ledger_of db) @ [?ev]\<rparr>"
    using d(2) quiet_ledger [OF q] ledger_of_events(2) [OF 1(2)] by (simp del: ledger_of_simps)
  have "decides (memory_of m) ?ev" using m(3) by (simp add: decides_def decision_event_def PrincipalSnapshot_of_def)
  then show "ledger_step (ledger_of db) (ledger_of db')"
    using lg_decline [OF m(1), of ?ev] m(2) kind l by (simp add: decision_event_def del: ledger_of_simps)
  show "mem_evolves db db'" using d(1) insertDecisionEvent_evolves [OF 1(2)] q by (blast intro: mem_evolves_trans quiet_evolves)
qed

text \<open>Reserving a key and completing it keep every completed answer.\<close>

lemma keys_kept_append: "keys_kept key fin ks (ks @ xs)"
  by (simp add: keys_kept_def find_append)

lemma keys_kept_complete:
  assumes "keys_kept key fin ks ks'" and "\<And>k. key (f k) = key k" and "\<And>k. find (\<lambda>k. key k = q) ks = Some k \<Longrightarrow> \<not> fin k"
  shows "keys_kept key fin ks (map (\<lambda>k. if key k = q then f k else k) ks')"
proof -
  have "find (\<lambda>k. key k = r) (map (\<lambda>k. if key k = q then f k else k) ks')
      = map_option (\<lambda>k. if key k = q then f k else k) (find (\<lambda>k. key k = r) ks')" for r
    by (rule find_map_pred) (simp add: assms(2))
  note mapped = this
  show ?thesis unfolding keys_kept_def
  proof (intro allI impI)
    fix r k assume k: "find (\<lambda>k. key k = r) ks = Some k" "fin k"
    then have "find (\<lambda>k. key k = r) ks' = Some k" using assms(1) unfolding keys_kept_def by blast
    moreover have "key k = r" using find_SomeD [OF k(1)] by simp
    moreover have "r \<noteq> q" using assms(3) k by blast
    ultimately show "find (\<lambda>k. key k = r) (map (\<lambda>k. if key k = q then f k else k) ks') = Some k" by (simp add: mapped)
  qed
qed


lemma approval_gates_Inr:
  assumes "approval_gates cfg db cmd who = Inr m"
  shows "readMemoryWithLinks db (mc_MemoryID cmd) = Some m" and "m_Status m = StatusPendingReview"
    and "\<not> SODViolation (src_ActorID (m_Source m)) (p_SubjectID who)" and "approval_Authorize who m = None"
    and "p_TenantID who = sc_OrganizationID (m_Scope m)" and "principalHasCompanyScope who (sc_CompanyID (m_Scope m))"
    and "EqualFold (TrimSpace (mc_ExpectedEnvelopeHash cmd)) (ComputeEnvelopeHash m)"
    and "sc_Kind (m_Scope m) = ScopeKindCompany" and "ValidateReviewChecksV1 (m_MaterialityLevel m) (mc_ReviewChecks cmd) = Inr ()"
    and "m_FiscalLinks m \<noteq> [] \<Longrightarrow> mc_FiscalIntent cmd \<noteq> None"
  using assms by (auto simp: approval_gates_def guard_simps requireFiscalIntentForBoundSubject_def split: if_splits option.splits)

lemma decide_gates_Inr:
  assumes "decide_gates db cmd who kind = Inr m"
  shows "readMemoryWithLinks db (dc_MemoryID cmd) = Some m" and "m_Status m = StatusPendingReview"
    and "\<not> SODViolation (src_ActorID (m_Source m)) (p_SubjectID who)"
  using assms by (auto simp: decide_gates_def guard_simps split: MemoryStatus.splits)

lemma reserve_approval_simps [simp]:
  "ledger_of (reserve_approval db cmd who now) = ledger_of db" "md_Approvals (reserve_approval db cmd who now) = md_Approvals db"
  "mem_evolves db (reserve_approval db cmd who now)"
  by (simp_all add: reserve_approval_def ledger_of_def md_Purge_def kept_defs keys_kept_append life_kept_same)

lemma complete_approval_simps [simp]:
  "ledger_of (complete_approval db t r v now) = ledger_of db" "md_Approvals (complete_approval db t r v now) = md_Approvals db"
  by (simp_all add: complete_approval_def ledger_of_def md_Purge_def)

lemma complete_approval_evolves:
  assumes "mem_evolves db db1" and "\<And>k. find (\<lambda>k. approval_key k = (t, r)) (md_ApprovalKeys db) = Some k \<Longrightarrow> ak_CompletedAt k = None"
  shows "mem_evolves db (complete_approval db1 t r v now)"
proof -
  have "keys_kept approval_key (\<lambda>k. ak_CompletedAt k \<noteq> None) (md_ApprovalKeys db) (md_ApprovalKeys (complete_approval db1 t r v now))"
    using keys_kept_complete [where q = "(t, r)" and key = approval_key and fin = "\<lambda>k. ak_CompletedAt k \<noteq> None"
        and f = "\<lambda>k. k\<lparr>ak_Result := Some v, ak_CompletedAt := Some now, ak_ApprovalEventID := Some (ap_ApprovalEventID v)\<rparr>"
        and ks = "md_ApprovalKeys db" and ks' = "md_ApprovalKeys db1"] assms
    by (simp add: complete_approval_def kept_defs approval_key_def)
  moreover have "history_kept db (complete_approval db1 t r v now) \<and> life_kept db (complete_approval db1 t r v now)
      \<and> md_ReviewKeys (complete_approval db1 t r v now) = md_ReviewKeys db1"
    using assms(1) by (simp add: mem_evolves_def history_kept_def life_kept_def complete_approval_def md_Purge_def)
  moreover have "adjudication_kept db (complete_approval db1 t r v now)"
    using assms(1) by (simp add: mem_evolves_def adjudication_kept_def complete_approval_def)
  ultimately show ?thesis using assms(1) by (simp add: mem_evolves_def memory_keys_kept_def)
qed

text \<open>What an approval that is no replay does, and what it has checked.\<close>

lemma approval_act_Inr:
  assumes "approval_act cfg db cmd who now ws ids = Inr (db', v)" and "ledger_inv (ledger_of db)"
  obtains m h db1 where "approval_gates cfg db cmd who = Inr m" "approve_writes cfg db cmd m who now ws ids = Inr (db1, h)"
    "db' = complete_approval db1 (p_TenantID who) (mc_RequestID cmd) v now" "v = approval_result m (ids 0) h who now"
    "mem_evolves db db1" "ledger_step (ledger_of db) (ledger_of db')"
proof -
  obtain m h db1 where 1: "approval_gates cfg db cmd who = Inr m" "approve_writes cfg db cmd m who now ws ids = Inr (db1, h)"
    "db' = complete_approval db1 (p_TenantID who) (mc_RequestID cmd) v now" "v = approval_result m (ids 0) h who now"
    using assms(1) by (auto simp: approval_act_def guard_simps Let_def)
  note g = approval_gates_Inr [OF 1(1)]
  from readMemory_row [OF g(1)] have "memory_of m \<in> set (ml_Rows (ledger_of db))" by blast
  note w = approve_writes_Inr [OF 1(2) assms(2) this g(2,3)]
  show ?thesis by (rule that [OF 1 w(1)]) (use w(2) 1(3) in simp)
qed

text \<open>The key row of a request, with the command and principal it answers.\<close>

definition key_answers :: "MemoryDB \<Rightarrow> ApproveMemoryCommand \<Rightarrow> Principal \<Rightarrow> ApprovalKeyRow \<Rightarrow> bool" where
  "key_answers db cmd who k \<longleftrightarrow>
     find (\<lambda>k. approval_key k = (p_TenantID who, mc_RequestID cmd)) (md_ApprovalKeys db) = Some k
     \<and> ak_CommandHash k = approve_command_hash cmd \<and> ak_SubjectID k = p_SubjectID who \<and> ak_MembershipID k = p_MembershipID who"

lemma find_approval_key:
  "find (\<lambda>k. ak_TenantID k = p_TenantID who \<and> ak_RequestID k = mc_RequestID cmd) (md_ApprovalKeys db) = Some k
     \<longleftrightarrow> find (\<lambda>k. approval_key k = (p_TenantID who, mc_RequestID cmd)) (md_ApprovalKeys db) = Some k"
  by (simp add: approval_key_def)

lemma reserve_finds:
  assumes "find (\<lambda>k. approval_key k = (p_TenantID who, mc_RequestID cmd)) (md_ApprovalKeys db) = None"
  shows "\<exists>k. key_answers (reserve_approval db cmd who now) cmd who k"
  using assms by (simp add: key_answers_def reserve_approval_def find_append approval_key_def)

text \<open>An approval is a replay of a completed request, or decides the memory after every gate.\<close>

lemma ApproveMemory_cases:
  assumes "ApproveMemory cfg db cmd who now ws ids = Inr (db', v)"
  obtains (replay) k r where "find (\<lambda>k. approval_key k = (p_TenantID who, mc_RequestID cmd)) (md_ApprovalKeys db) = Some k"
      "ak_CompletedAt k \<noteq> None" "ak_Result k = Some r" "v = r\<lparr>ap_IdempotentReplay := True\<rparr>" "db' = db"
  | (fresh) db0 k where "db0 = db \<or> db0 = reserve_approval db cmd who now" "approval_act cfg db0 cmd who now ws ids = Inr (db', v)"
      "key_answers db0 cmd who k"
      "\<And>k. find (\<lambda>k. approval_key k = (p_TenantID who, mc_RequestID cmd)) (md_ApprovalKeys db) = Some k \<Longrightarrow> ak_CompletedAt k = None"
proof -
  have key: "(\<lambda>k. approval_key k = (p_TenantID who, mc_RequestID cmd)) = (\<lambda>k. ak_TenantID k = p_TenantID who \<and> ak_RequestID k = mc_RequestID cmd)"
    by (simp add: approval_key_def fun_eq_iff)
  show ?thesis
  proof (cases "find (\<lambda>k. approval_key k = (p_TenantID who, mc_RequestID cmd)) (md_ApprovalKeys db)")
    case None
    then show ?thesis using assms fresh [of "reserve_approval db cmd who now"] reserve_finds [OF None]
      by (auto simp: ApproveMemory_def guard_simps key)
  next
    case (Some k)
    show ?thesis
    proof (cases "ak_CompletedAt k")
      case None
      then show ?thesis using assms Some fresh [of db k]
        by (auto simp: ApproveMemory_def guard_simps key key_answers_def split: if_splits)
    next
      case (Some t)
      then show ?thesis using assms \<open>find _ _ = Some k\<close> replay [of k]
        by (auto simp: ApproveMemory_def guard_simps key split: if_splits option.splits)
    qed
  qed
qed

lemma ApproveMemory_Inr:
  assumes "ApproveMemory cfg db cmd who now ws ids = Inr (db', v)" and "ledger_inv (ledger_of db)"
  shows "mem_evolves db db'" and "ledger_step (ledger_of db) (ledger_of db')"
proof -
  have "mem_evolves db db' \<and> ledger_step (ledger_of db) (ledger_of db')"
    using assms(1)
  proof (cases rule: ApproveMemory_cases)
    case (replay k r)
    then show ?thesis by (simp add: lg_quiet)
  next
    case (fresh db0 k)
    then have l: "ledger_of db0 = ledger_of db" and e: "mem_evolves db db0" by auto
    from approval_act_Inr [OF fresh(2)] assms(2) l obtain h db1 where
      "db' = complete_approval db1 (p_TenantID who) (mc_RequestID cmd) v now" "mem_evolves db0 db1" "ledger_step (ledger_of db) (ledger_of db')"
      by metis
    then show ?thesis using complete_approval_evolves [OF mem_evolves_trans [OF e] fresh(4)] by blast
  qed
  then show "mem_evolves db db'" and "ledger_step (ledger_of db) (ledger_of db')" by simp_all
qed


lemma decidePendingMemory_Inr:
  assumes d: "decidePendingMemory cfg db cmd who kind now ws ids = Inr (db', v)" and inv: "ledger_inv (ledger_of db)"
    and kind: "dk_To kind = StatusRejected \<or> dk_To kind = StatusReturned"
  shows "mem_evolves db db'" and "ledger_step (ledger_of db) (ledger_of db')"
proof -
  let ?h = "decisionCommandHash (dc_MemoryID cmd) (dc_ExpectedEnvelopeHash cmd) (dc_Reason cmd)"
  let ?a = "p_SubjectID who @ NUL @ p_MembershipID who" and ?t = "p_TenantID who" and ?r = "dc_RequestID cmd"
  obtain replay where r: "replay_key (md_ReviewKeys db) ?t ?r ?h ?a = Inr replay"
    using d by (auto simp: decidePendingMemory_def Let_def guard_simps)
  have "mem_evolves db db' \<and> ledger_step (ledger_of db) (ledger_of db')"
  proof (cases replay)
    case (Some x)
    then have "db' = db" using d r by (simp add: decidePendingMemory_def Let_def guard_simps)
    then show ?thesis by (simp add: lg_quiet)
  next
    case None
    define db0 where "db0 = db\<lparr>md_ReviewKeys := reserve_key (md_ReviewKeys db) ?t ?r ?h ?a now\<rparr>"
    obtain m db1 where 1: "decide_gates db0 cmd who kind = Inr m" "decide_writes cfg db0 cmd m who kind now ws ids = Inr db1"
      "db' = db1\<lparr>md_ReviewKeys := complete_key (md_ReviewKeys db1) ?t ?r (ids 0) v now\<rparr>"
      using d r None by (auto simp: decidePendingMemory_def Let_def guard_simps db0_def)
    have l0: "ledger_of db0 = ledger_of db" by (simp add: db0_def ledger_of_def md_Purge_def)
    have e0: "mem_evolves db db0"
      by (simp add: db0_def kept_defs md_Purge_def keys_kept_append reserve_key_def life_kept_same)
    note g = decide_gates_Inr [OF 1(1)]
    have inv0: "ledger_inv (ledger_of db0)" using inv l0 by simp
    have row: "memory_of m \<in> set (ml_Rows (ledger_of db0))" using readMemory_row [OF g(1)] by blast
    note w = decide_writes_Inr [OF 1(2) inv0 row g(2,3) kind]
    have e1: "mem_evolves db db1" using e0 w(1) by (rule mem_evolves_trans)
    have fresh: "find (\<lambda>k. decision_key k = (?t, ?r)) (md_ReviewKeys db) = None"
      using r None by (auto simp: replay_key_def decision_key_def split: option.splits if_splits)
    have "keys_kept decision_key (\<lambda>k. ky_Result k \<noteq> None) (md_ReviewKeys db) (md_ReviewKeys db')"
      using keys_kept_complete [where q = "(?t, ?r)" and key = decision_key and fin = "\<lambda>k. ky_Result k \<noteq> None"
          and f = "\<lambda>k. k\<lparr>ky_EntityID := ids 0, ky_Result := Some v, ky_CompletedAt := now\<rparr>" and ks = "md_ReviewKeys db"
          and ks' = "md_ReviewKeys db1"] e1 fresh
      by (simp add: 1(3) complete_key_def kept_defs decision_key_def)
    moreover have "history_kept db db' \<and> life_kept db db' \<and> md_ApprovalKeys db' = md_ApprovalKeys db1 \<and> ledger_of db' = ledger_of db1"
      using e1 by (simp add: 1(3) mem_evolves_def history_kept_def life_kept_def md_Purge_def ledger_of_def)
    moreover have "adjudication_kept db db'" using e1 by (simp add: 1(3) mem_evolves_def adjudication_kept_def)
    ultimately show ?thesis using e1 w(2) l0 by (simp add: mem_evolves_def memory_keys_kept_def)
  qed
  then show "mem_evolves db db'" and "ledger_step (ledger_of db) (ledger_of db')" by simp_all
qed

section \<open>Reopening\<close>

lemma reopen_act_Inr:
  assumes "reopen_act cfg db cmd who now i = Inr (db', v)"
  shows "\<exists>c. find (closure_key (oc_Scope cmd)) (pd_Closures (md_Purge db)) = Some c \<and> pc_Status c = ''closed''
      \<and> pc_CloseMemoryID c = oc_ExpectedCloseMemoryID cmd"
    and "approval_Authorize who (closing_probe (oc_Scope cmd)) = None"
    and "mem_evolves db db'"
    and "ledger_of db' = (ledger_of db)\<lparr>ml_Closures :=
      map (reopen_update (oc_Scope cmd) now (p_SubjectID who) (oc_Reason cmd)) (ml_Closures (ledger_of db))\<rparr>"
proof -
  define db1 where "db1 = set_purge ((md_Purge db)\<lparr>pd_Closures :=
    map (reopen_update (oc_Scope cmd) now (p_SubjectID who) (oc_Reason cmd)) (pd_Closures (md_Purge db))\<rparr>) db"
  obtain c e p where 1: "find (closure_key (oc_Scope cmd)) (pd_Closures (md_Purge db)) = Some c" "pc_Status c = ''closed''"
    "pc_CloseMemoryID c = oc_ExpectedCloseMemoryID cmd" "approval_Authorize who (closing_probe (oc_Scope cmd)) = None"
    "emitMemoryReceipt cfg (db1\<lparr>md_ClosureEvents := md_ClosureEvents db1 @ [e]\<rparr>) (oc_ExpectedCloseMemoryID cmd) MemoryReopened p now = Inr db'"
    using assms unfolding reopen_act_def Let_def guard_simps split_paired_Ex prod.case db1_def [symmetric]
    by (elim exE conjE) (rule that, auto split: option.splits)
  then show "\<exists>c. find (closure_key (oc_Scope cmd)) (pd_Closures (md_Purge db)) = Some c \<and> pc_Status c = ''closed''
      \<and> pc_CloseMemoryID c = oc_ExpectedCloseMemoryID cmd" by blast
  have "quiet db1 (db1\<lparr>md_ClosureEvents := md_ClosureEvents db1 @ [e]\<rparr>)"
    by (simp add: quiet_def kept_defs ledger_of_def md_Purge_def life_kept_same)
  then have q: "quiet db1 db'" using emitMemoryReceipt_quiet [OF 1(5)] by (rule quiet_trans)
  show "approval_Authorize who (closing_probe (oc_Scope cmd)) = None" by fact
  show "mem_evolves db db'" using set_purge_closures(1) q unfolding db1_def by (blast intro: mem_evolves_trans quiet_evolves)
  show "ledger_of db' = (ledger_of db)\<lparr>ml_Closures :=
      map (reopen_update (oc_Scope cmd) now (p_SubjectID who) (oc_Reason cmd)) (ml_Closures (ledger_of db))\<rparr>"
    using quiet_ledger [OF q] set_purge_closures(2) by (simp add: db1_def)
qed

lemma ReopenPeriod_cases:
  assumes "ReopenPeriod cfg db cmd who now i = Inr (db', v)"
  obtains (replay) "db' = db" "ov_IdempotentReplay v" | (fresh) "reopen_act cfg db cmd who now i = Inr (db', v)"
  using assms by (auto simp: ReopenPeriod_def Let_def guard_simps reopen_result_def split: option.splits if_splits)

lemma ReopenPeriod_Inr:
  assumes "ReopenPeriod cfg db cmd who now i = Inr (db', v)"
  shows "mem_evolves db db'" and "ledger_step (ledger_of db) (ledger_of db')"
proof -
  have "mem_evolves db db' \<and> ledger_step (ledger_of db) (ledger_of db')"
    using assms
  proof (cases rule: ReopenPeriod_cases)
    case replay
    then show ?thesis by (simp add: lg_quiet)
  next
    case fresh
    note r = reopen_act_Inr [OF fresh]
    have "period_closed (ml_Closures (ledger_of db)) (oc_Scope cmd)"
      using r(1) by (auto simp: period_closed_def dest: find_SomeD)
    then show ?thesis using lg_reopen r(3,4) by metis
  qed
  then show "mem_evolves db db'" and "ledger_step (ledger_of db) (ledger_of db')" by simp_all
qed

end
