(* ===== verification/Adjudication_Store.thy ===== *)
theory Adjudication_Store
  imports Memory_Review
begin

text \<open>
  What the judgment handlers of internal/store/store.go and the reconciliation handlers of
  internal/store/reconciliation.go share: proposer identity, idempotency keys, guarded updates under
  the immutability triggers, the transition log, the routing rows and the gates over the pair of
  observations.
\<close>

section \<open>Provenance\<close>

definition proposerBinding :: "Source \<Rightarrow> string" where
  "proposerBinding caller = join NUL [src_System caller, src_ActorID caller, ActorKind_str (src_ActorKind caller), src_Session caller]"

text \<open>The four provenance columns a row stores of its proposer.\<close>

definition stored_proposer :: "Source \<Rightarrow> Source" where
  "stored_proposer caller = caller\<lparr>src_Reference := '''', src_Model := ''''\<rparr>"

text \<open>The adjudicator read back from its columns: an empty subject reads as none.\<close>

definition stored_adjudicator :: "PrincipalSnapshot \<Rightarrow> PrincipalSnapshot option" where
  "stored_adjudicator s = (if ps_SubjectID s = '''' then None else Some s)"

text \<open>
  \<^verbatim>\<open>length(trim(resolution)) > 0\<close> of the CHECK constraints: SQLite trims blanks only and counts up to
  the first NUL.
\<close>

definition sql_nonempty :: "string \<Rightarrow> bool" where
  "sql_nonempty s = (case dropWhile (\<lambda>c. c = CHR '' '') s of [] \<Rightarrow> False | c # _ \<Rightarrow> c \<noteq> CHR 0x00)"

section \<open>Idempotency keys\<close>

text \<open>The tables of a store that has just been migrated.\<close>

definition no_cases :: "'a AdjudicationTables" where
  "no_cases = \<lparr>ad_Rows = [], ad_Events = [], ad_Keys = [], ad_Routes = []\<rparr>"

definition find_key :: "'a AdjudicationTables \<Rightarrow> string \<Rightarrow> string \<Rightarrow> 'a AdjudicationKey option" where
  "find_key t tenant requestID = find (\<lambda>k. jk_TenantID k = tenant \<and> jk_RequestID k = requestID) (ad_Keys t)"

text \<open>
  The lookup every handler starts with: a foreign key conflicts, a completed one is returned for the
  replay, an incomplete one is reused, a missing one is reserved.
\<close>

definition claim_key :: "'a AdjudicationTables \<Rightarrow> string \<Rightarrow> string \<Rightarrow> string \<Rightarrow> string \<Rightarrow> string option \<Rightarrow> string
    \<Rightarrow> ('a AdjudicationTables \<times> 'a AdjudicationKey option) result" where
  "claim_key t tenant requestID commandHash binding entityID now =
     (case find_key t tenant requestID of
        Some k \<Rightarrow>
          if jk_CommandHash k \<noteq> commandHash \<or> jk_ActorBinding k \<noteq> binding then Inl (AuthErr ''IDEMPOTENCY_CONFLICT'')
          else if jk_CompletedAt k \<noteq> None then Inr (t, Some k) else Inr (t, None)
      | None \<Rightarrow> Inr (t\<lparr>ad_Keys := ad_Keys t @
          [\<lparr>jk_TenantID = tenant, jk_RequestID = requestID, jk_CommandHash = commandHash, jk_ActorBinding = binding,
            jk_EntityID = entityID, jk_Result = None, jk_CreatedAt = now, jk_CompletedAt = None\<rparr>]\<rparr>, None))"

definition update_key :: "'a AdjudicationTables \<Rightarrow> string \<Rightarrow> string \<Rightarrow> ('a AdjudicationKey \<Rightarrow> 'a AdjudicationKey) \<Rightarrow> 'a AdjudicationTables" where
  "update_key t tenant requestID f =
     t\<lparr>ad_Keys := map (\<lambda>k. if jk_TenantID k = tenant \<and> jk_RequestID k = requestID then f k else k) (ad_Keys t)\<rparr>"

definition complete_decision_key :: "'a AdjudicationTables \<Rightarrow> string \<Rightarrow> string \<Rightarrow> 'a \<Rightarrow> string \<Rightarrow> string \<Rightarrow> 'a AdjudicationTables" where
  "complete_decision_key t tenant requestID x eventID now =
     update_key t tenant requestID (\<lambda>k. k\<lparr>jk_Result := Some (x, eventID), jk_CompletedAt := Some now\<rparr>)"

definition complete_proposal_key :: "'a AdjudicationTables \<Rightarrow> string \<Rightarrow> string \<Rightarrow> string \<Rightarrow> string \<Rightarrow> 'a AdjudicationTables" where
  "complete_proposal_key t tenant requestID entityID now =
     update_key t tenant requestID (\<lambda>k. k\<lparr>jk_EntityID := Some entityID, jk_CompletedAt := Some now\<rparr>)"

section \<open>Rows\<close>

text \<open>
  A guarded \<^verbatim>\<open>UPDATE\<close> that must match exactly one row; the trigger sees the old and the new row first.
\<close>

definition guarded_update :: "('a \<Rightarrow> 'a \<Rightarrow> bool) \<Rightarrow> ('a \<Rightarrow> bool) \<Rightarrow> ('a \<Rightarrow> 'a) \<Rightarrow> err \<Rightarrow> err \<Rightarrow> 'a AdjudicationTables \<Rightarrow> 'a AdjudicationTables result" where
  "guarded_update allowed P f immutable unmatched t =
     (if \<not> list_all (\<lambda>x. P x \<longrightarrow> allowed x (f x)) (ad_Rows t) then Inl immutable
      else if length (filter P (ad_Rows t)) \<noteq> 1 then Inl unmatched
      else Inr (t\<lparr>ad_Rows := map (\<lambda>x. if P x then f x else x) (ad_Rows t)\<rparr>))"

definition insert_event :: "AdjudicationEvent \<Rightarrow> 'a AdjudicationTables \<Rightarrow> 'a AdjudicationTables result" where
  "insert_event e t =
     (if list_ex (\<lambda>x. ae_ID x = ae_ID e) (ad_Events t) then Inl (StoreErr ''UNIQUE'')
      else Inr (t\<lparr>ad_Events := ad_Events t @ [e]\<rparr>))"

definition insert_route :: "string \<Rightarrow> string \<Rightarrow> string \<Rightarrow> string \<Rightarrow> 'a AdjudicationTables \<Rightarrow> 'a AdjudicationTables result" where
  "insert_route fromID toID actorID now t =
     (if list_ex (\<lambda>x. ro_FromID x = fromID \<and> ro_ToID x = toID) (ad_Routes t) then Inl (StoreErr ''UNIQUE'')
      else Inr (t\<lparr>ad_Routes := ad_Routes t @ [\<lparr>ro_FromID = fromID, ro_ToID = toID, ro_Actor = actorID, ro_Timestamp = now\<rparr>]\<rparr>))"

definition route_of :: "'a AdjudicationTables \<Rightarrow> string \<Rightarrow> string option" where
  "route_of t i = map_option ro_ToID (find (\<lambda>x. ro_FromID x = i) (ad_Routes t))"

definition supersede_event :: "string \<Rightarrow> string \<Rightarrow> string \<Rightarrow> string \<Rightarrow> string \<Rightarrow> string \<Rightarrow> string \<Rightarrow> AdjudicationEvent" where
  "supersede_event eventID entityID requestID from hash reason now =
     \<lparr>ae_ID = eventID, ae_EntityID = entityID, ae_RequestID = requestID, ae_Action = ''supersede'', ae_From = from,
      ae_To = ''superseded'', ae_Hash = hash, ae_Principal = None, ae_PolicyVersion = None, ae_Reason = reason,
      ae_CreatedAt = now\<rparr>"

definition withdraw_event :: "string \<Rightarrow> string \<Rightarrow> string \<Rightarrow> string \<Rightarrow> string \<Rightarrow> AdjudicationEvent" where
  "withdraw_event eventID entityID requestID hash now =
     \<lparr>ae_ID = eventID, ae_EntityID = entityID, ae_RequestID = requestID, ae_Action = ''withdraw'', ae_From = ''proposed'',
      ae_To = ''withdrawn'', ae_Hash = hash, ae_Principal = None, ae_PolicyVersion = None, ae_Reason = '''', ae_CreatedAt = now\<rparr>"

definition verdict_event :: "string \<Rightarrow> string \<Rightarrow> string \<Rightarrow> string \<Rightarrow> string \<Rightarrow> string \<Rightarrow> PrincipalSnapshot \<Rightarrow> string \<Rightarrow> string \<Rightarrow> string \<Rightarrow> AdjudicationEvent" where
  "verdict_event eventID entityID requestID action to hash snapshot policyVersion reason now =
     \<lparr>ae_ID = eventID, ae_EntityID = entityID, ae_RequestID = requestID, ae_Action = action, ae_From = ''proposed'',
      ae_To = to, ae_Hash = hash, ae_Principal = Some snapshot, ae_PolicyVersion = Some policyVersion, ae_Reason = reason,
      ae_CreatedAt = now\<rparr>"

definition verdict_action :: "bool \<Rightarrow> string" where
  "verdict_action confirm = (if confirm then ''confirm'' else ''reject'')"

section \<open>The pair of observations\<close>

text \<open>Tenant, company and period of a proposal, derived from the scopes of both observations.\<close>

definition proposal_scope :: "MemoryDB \<Rightarrow> string \<Rightarrow> string \<Rightarrow> (string \<times> string \<times> string) result" where
  "proposal_scope db i j =
     (case (readMemoryWithLinks db i, readMemoryWithLinks db j) of
        (Some a, Some b) \<Rightarrow>
          (let s = m_Scope a; u = m_Scope b in
           and_then (ensure (sc_Kind s = ScopeKindCompany \<and> sc_Kind u = ScopeKindCompany) (AuthErr ''COMPANY_SCOPE_DENIED'')) (\<lambda>_.
           and_then (ensure (sc_OrganizationID s = sc_OrganizationID u) (AuthErr ''TENANT_SCOPE_MISMATCH'')) (\<lambda>_.
           and_then (ensure (sc_CompanyID s = sc_CompanyID u) (AuthErr ''COMPANY_SCOPE_DENIED'')) (\<lambda>_.
           and_then (assertPeriodWritable (md_Purge db) s) (\<lambda>_.
           and_then (assertPeriodWritable (md_Purge db) u) (\<lambda>_.
           Inr (sc_OrganizationID s, sc_CompanyID s, if sc_Period s \<noteq> '''' \<and> sc_Period s = sc_Period u then sc_Period s else '''')))))))
      | _ \<Rightarrow> Inl (AuthErr ''MEMORY_NOT_FOUND''))"

text \<open>Both observations of a decision, whose periods must be writable.\<close>

definition decision_pair :: "MemoryDB \<Rightarrow> string \<Rightarrow> string \<Rightarrow> (AccountingMemory \<times> AccountingMemory) result" where
  "decision_pair db i j =
     and_then (from_option (AuthErr ''MEMORY_NOT_FOUND'') (readMemoryWithLinks db i)) (\<lambda>a.
     and_then (from_option (AuthErr ''MEMORY_NOT_FOUND'') (readMemoryWithLinks db j)) (\<lambda>b.
     and_then (assertPeriodWritable (md_Purge db) (m_Scope a)) (\<lambda>_.
     and_then (assertPeriodWritable (md_Purge db) (m_Scope b)) (\<lambda>_.
     Inr (a, b)))))"

text \<open>\<^verbatim>\<open>INSERT INTO relations ... WHERE NOT EXISTS\<close>: the projection of a confirmed adjudication.\<close>

definition project_relation :: "MemoryDB \<Rightarrow> string \<Rightarrow> string \<Rightarrow> Relation \<Rightarrow> string \<Rightarrow> string \<Rightarrow> MemoryDB result" where
  "project_relation db i j r subject now =
     (if list_ex (\<lambda>x. re_FromID x = i \<and> re_ToID x = j \<and> re_Relation x = r) (md_Relations db) then Inr db
      else insertRelation db \<lparr>re_FromID = i, re_ToID = j, re_Relation = r, re_Actor = subject, re_Timestamp = now\<rparr>)"

definition verdict_payload :: "string \<Rightarrow> string \<Rightarrow> string \<Rightarrow> string \<Rightarrow> string \<Rightarrow> AccountingMemory \<Rightarrow> AccountingMemory \<Rightarrow> string
    \<Rightarrow> PrincipalSnapshot \<Rightarrow> string \<Rightarrow> ReceiptPayload" where
  "verdict_payload tenant company period reviewed resulting a b reason s policyVersion =
     blank_payload\<lparr>py_TenantID := tenant, py_CompanyID := company, py_FiscalPeriodID := period,
       py_ReviewedJudgmentHash := reviewed, py_ResultingJudgmentHash := resulting,
       py_FromMemoryID := m_ID a, py_FromEnvelopeHash := ComputeEnvelopeHash a,
       py_ToMemoryID := m_ID b, py_ToEnvelopeHash := ComputeEnvelopeHash b, py_Reason := reason,
       py_PrincipalID := ps_SubjectID s, py_MembershipID := ps_MembershipID s, py_PrincipalRoles := ps_Roles s,
       py_AuthenticationMethod := AuthMethod_str (ps_Method s), py_AssuranceLevel := Assurance_str (ps_Assurance s),
       py_PrincipalAuthenticatedAt := ps_AuthenticatedAt s, py_PolicyVersion := policyVersion\<rparr>"

definition emit_verdict_receipt :: "StoreConfig \<Rightarrow> MemoryDB \<Rightarrow> SubjectType \<Rightarrow> string \<Rightarrow> ReceiptAction \<Rightarrow> ReceiptPayload \<Rightarrow> string \<Rightarrow> MemoryDB result" where
  "emit_verdict_receipt cfg db subject i action p now =
     and_then (emitReceipt (cf_Signer cfg) (pd_Receipts (md_Purge db)) subject i action p now)
       (\<lambda>(rs, r). Inr (set_purge ((md_Purge db)\<lparr>pd_Receipts := rs\<rparr>) db))"

end
