(* ===== verification/Adjudication_Docket.thy ===== *)
theory Adjudication_Docket
  imports Adjudication_Store
begin

text \<open>
  The contract of an adjudication machine, over both of which the program runs: a docket of cases
  that are proposed, decided and superseded, an immutable log of the transitions and the routing of
  superseded cases to their successors. The invariant says that a row is the replay of its log.
\<close>

section \<open>Dockets\<close>

text \<open>Adjudicator, resolution and policy version.\<close>

type_synonym Verdict = "PrincipalSnapshot option \<times> string \<times> string"

definition no_verdict :: Verdict where
  "no_verdict = (None, '''', '''')"

text \<open>\<open>cs_Fixed\<close> is the part of a row no transition writes.\<close>

record 'a DocketCase =
  cs_ID :: string
  cs_Tuple :: "string list"
  cs_Predecessor :: string
  cs_Fixed :: 'a
  cs_Status :: string
  cs_Successor :: string
  cs_Verdict :: Verdict

record 'a Docket =
  dt_Cases :: "'a DocketCase list"
  dt_Events :: "AdjudicationEvent list"
  dt_Routes :: "(string \<times> string) list"

text \<open>The pair and the relation or method: the tuple without tenant and company.\<close>

definition cs_Subject :: "'a DocketCase \<Rightarrow> string list" where
  "cs_Subject c = drop 2 (cs_Tuple c)"

definition docket_of :: "('a \<Rightarrow> 'a DocketCase) \<Rightarrow> 'a AdjudicationTables \<Rightarrow> 'a Docket" where
  "docket_of view t = \<lparr>dt_Cases = map view (ad_Rows t), dt_Events = ad_Events t,
     dt_Routes = map (\<lambda>r. (ro_FromID r, ro_ToID r)) (ad_Routes t)\<rparr>"

definition docket_empty :: "'a Docket" where
  "docket_empty = \<lparr>dt_Cases = [], dt_Events = [], dt_Routes = []\<rparr>"

definition settle :: "string \<Rightarrow> string \<Rightarrow> Verdict \<Rightarrow> string \<Rightarrow> 'a DocketCase \<Rightarrow> 'a DocketCase" where
  "settle i status v successor c = (if cs_ID c = i then c\<lparr>cs_Status := status, cs_Verdict := v, cs_Successor := successor\<rparr> else c)"

definition verdict_of :: "AdjudicationEvent \<Rightarrow> Verdict" where
  "verdict_of e = (Option.bind (ae_Principal e) stored_adjudicator, ae_Reason e, (case ae_PolicyVersion e of None \<Rightarrow> '''' | Some v \<Rightarrow> v))"

text \<open>The event of one transition, as the CHECK constraints of the event tables admit it.\<close>

definition logs :: "AdjudicationEvent \<Rightarrow> string \<Rightarrow> string \<Rightarrow> string \<Rightarrow> string \<Rightarrow> bool" where
  "logs e i action from to \<longleftrightarrow> ae_EntityID e = i \<and> ae_Action e = action \<and> ae_From e = from \<and> ae_To e = to
     \<and> (ae_Principal e \<noteq> None) = (action \<in> {''confirm'', ''reject''})
     \<and> (ae_PolicyVersion e \<noteq> None) = (action \<in> {''confirm'', ''reject''})"

definition fresh_event :: "'a Docket \<Rightarrow> AdjudicationEvent \<Rightarrow> bool" where
  "fresh_event d e \<longleftrightarrow> ae_ID e \<notin> ae_ID ` set (dt_Events d)"

text \<open>A new case: proposed, under an unused id, the only open one of its tuple.\<close>

definition opens :: "'a Docket \<Rightarrow> 'a DocketCase \<Rightarrow> bool" where
  "opens d c \<longleftrightarrow> cs_Status c = ''proposed'' \<and> cs_Successor c = '''' \<and> cs_Verdict c = no_verdict \<and> cs_ID c \<noteq> ''''
     \<and> cs_ID c \<notin> cs_ID ` set (dt_Cases d)
     \<and> (\<forall>x \<in> set (dt_Cases d). cs_Tuple x = cs_Tuple c \<longrightarrow> cs_Status x \<noteq> ''proposed'')"

inductive docket_step :: "'a Docket \<Rightarrow> 'a Docket \<Rightarrow> bool" where
  dk_open: "opens d c \<Longrightarrow> cs_Predecessor c = '''' \<or> (\<exists>p \<in> set (dt_Cases d). cs_ID p = cs_Predecessor c \<and> cs_Subject p = cs_Subject c)
    \<Longrightarrow> docket_step d (d\<lparr>dt_Cases := dt_Cases d @ [c]\<rparr>)"
| dk_correct: "p \<in> set (dt_Cases d) \<Longrightarrow> cs_Status p = ''proposed'' \<Longrightarrow> cs_ID p = cs_Predecessor c \<Longrightarrow> cs_Subject p = cs_Subject c
    \<Longrightarrow> logs e (cs_ID p) ''supersede'' ''proposed'' ''superseded'' \<Longrightarrow> fresh_event d e
    \<Longrightarrow> d1 = d\<lparr>dt_Cases := map (settle (cs_ID p) ''superseded'' (cs_Verdict p) (cs_ID c)) (dt_Cases d), dt_Events := dt_Events d @ [e]\<rparr>
    \<Longrightarrow> opens d1 c
    \<Longrightarrow> docket_step d (d1\<lparr>dt_Cases := dt_Cases d1 @ [c], dt_Routes := dt_Routes d @ [(cs_ID p, cs_ID c)]\<rparr>)"
| dk_decide: "c \<in> set (dt_Cases d) \<Longrightarrow> cs_Status c = ''proposed''
    \<Longrightarrow> (action, to) \<in> {(''confirm'', ''confirmed''), (''reject'', ''rejected''), (''withdraw'', ''withdrawn'')}
    \<Longrightarrow> logs e (cs_ID c) action ''proposed'' to \<Longrightarrow> fresh_event d e
    \<Longrightarrow> v = (if action = ''withdraw'' then cs_Verdict c else verdict_of e)
    \<Longrightarrow> (action = ''confirm'' \<longrightarrow> cs_Predecessor c = '''' \<or> (\<exists>p \<in> set (dt_Cases d). cs_ID p = cs_Predecessor c \<and> cs_Successor p = cs_ID c))
    \<Longrightarrow> docket_step d (d\<lparr>dt_Cases := map (settle (cs_ID c) to v '''') (dt_Cases d), dt_Events := dt_Events d @ [e]\<rparr>)"
| dk_confirm_correction: "c \<in> set (dt_Cases d) \<Longrightarrow> cs_Status c = ''proposed'' \<Longrightarrow> p \<in> set (dt_Cases d) \<Longrightarrow> cs_Status p = ''confirmed''
    \<Longrightarrow> cs_ID p = cs_Predecessor c \<Longrightarrow> cs_ID p \<noteq> ''''
    \<Longrightarrow> logs e (cs_ID c) ''confirm'' ''proposed'' ''confirmed'' \<Longrightarrow> fresh_event d e
    \<Longrightarrow> d1 = d\<lparr>dt_Cases := map (settle (cs_ID c) ''confirmed'' (verdict_of e) '''') (dt_Cases d), dt_Events := dt_Events d @ [e]\<rparr>
    \<Longrightarrow> logs e' (cs_ID p) ''supersede'' ''confirmed'' ''superseded'' \<Longrightarrow> fresh_event d1 e'
    \<Longrightarrow> docket_step d (d1\<lparr>dt_Cases := map (settle (cs_ID p) ''superseded'' (cs_Verdict p) (cs_ID c)) (dt_Cases d1),
          dt_Events := dt_Events d1 @ [e'], dt_Routes := dt_Routes d @ [(cs_ID p, cs_ID c)]\<rparr>)"

section \<open>The invariant\<close>

definition transition_table :: "(string \<times> string \<times> string) list" where
  "transition_table = [(''confirm'', ''proposed'', ''confirmed''), (''reject'', ''proposed'', ''rejected''),
     (''withdraw'', ''proposed'', ''withdrawn''), (''supersede'', ''proposed'', ''superseded''),
     (''supersede'', ''confirmed'', ''superseded'')]"

definition replay_event :: "AdjudicationEvent \<Rightarrow> string \<times> Verdict \<Rightarrow> (string \<times> Verdict) option" where
  "replay_event e s =
     (if ae_From e = fst s \<and> (ae_Action e, ae_From e, ae_To e) \<in> set transition_table
      then Some (ae_To e, if ae_Action e \<in> {''confirm'', ''reject''} then verdict_of e else snd s) else None)"

definition replay_log :: "AdjudicationEvent list \<Rightarrow> (string \<times> Verdict) option" where
  "replay_log es = foldl (\<lambda>s e. Option.bind s (replay_event e)) (Some (''proposed'', no_verdict)) es"

definition log_of :: "AdjudicationEvent list \<Rightarrow> string \<Rightarrow> AdjudicationEvent list" where
  "log_of es i = filter (\<lambda>e. ae_EntityID e = i) es"

definition ids_ok :: "'a Docket \<Rightarrow> bool" where
  "ids_ok d \<longleftrightarrow> distinct (map cs_ID (dt_Cases d)) \<and> '''' \<notin> cs_ID ` set (dt_Cases d) \<and> distinct (map ae_ID (dt_Events d))
     \<and> ae_EntityID ` set (dt_Events d) \<subseteq> cs_ID ` set (dt_Cases d)"

definition log_ok :: "'a Docket \<Rightarrow> bool" where
  "log_ok d \<longleftrightarrow> (\<forall>c \<in> set (dt_Cases d). replay_log (log_of (dt_Events d) (cs_ID c)) = Some (cs_Status c, cs_Verdict c))"

definition open_ok :: "'a Docket \<Rightarrow> bool" where
  "open_ok d \<longleftrightarrow> inj_on cs_Tuple {c \<in> set (dt_Cases d). cs_Status c = ''proposed''}"

text \<open>Superseded cases and their routes: each has one route, to a later case that names it as predecessor.\<close>

definition routes_ok :: "'a Docket \<Rightarrow> bool" where
  "routes_ok d \<longleftrightarrow> (\<forall>c \<in> set (dt_Cases d). cs_Status c = ''superseded'' \<longleftrightarrow> cs_Successor c \<noteq> '''')
     \<and> distinct (map fst (dt_Routes d))
     \<and> set (dt_Routes d) = {(cs_ID c, cs_Successor c) |c. c \<in> set (dt_Cases d) \<and> cs_Status c = ''superseded''}
     \<and> (\<forall>c \<in> set (dt_Cases d). cs_Status c = ''superseded'' \<longrightarrow>
          (\<exists>s \<in> set (dt_Cases d). cs_ID s = cs_Successor c \<and> cs_Predecessor s = cs_ID c))"

definition skeleton :: "'a DocketCase \<Rightarrow> string \<times> string list \<times> string \<times> 'a" where
  "skeleton c = (cs_ID c, cs_Tuple c, cs_Predecessor c, cs_Fixed c)"

definition order_ok :: "'a Docket \<Rightarrow> bool" where
  "order_ok d \<longleftrightarrow> (\<forall>xs c ys. dt_Cases d = xs @ c # ys \<longrightarrow> cs_Predecessor c \<noteq> '''' \<longrightarrow>
     (\<exists>p \<in> set xs. cs_ID p = cs_Predecessor c \<and> cs_Subject p = cs_Subject c))"

definition docket_inv :: "'a Docket \<Rightarrow> bool" where
  "docket_inv d \<longleftrightarrow> ids_ok d \<and> log_ok d \<and> open_ok d \<and> routes_ok d \<and> order_ok d"

lemma docket_empty_inv: "docket_inv docket_empty"
  by (simp add: docket_inv_def docket_empty_def ids_ok_def log_ok_def open_ok_def routes_ok_def order_ok_def)

section \<open>Settling a case\<close>

lemma settle_simps [simp]:
  "cs_ID (settle i s v t c) = cs_ID c" "cs_Tuple (settle i s v t c) = cs_Tuple c"
  "cs_Predecessor (settle i s v t c) = cs_Predecessor c" "cs_Fixed (settle i s v t c) = cs_Fixed c"
  "skeleton (settle i s v t c) = skeleton c" "cs_Subject (settle i s v t c) = cs_Subject c"
  "cs_ID c = i \<Longrightarrow> settle i s v t c = c\<lparr>cs_Status := s, cs_Verdict := v, cs_Successor := t\<rparr>"
  "cs_ID c \<noteq> i \<Longrightarrow> settle i s v t c = c"
  by (auto simp: settle_def skeleton_def cs_Subject_def)

lemma map_settle_ids [simp]: "map (\<lambda>c. cs_ID (settle i s v t c)) cs = map cs_ID cs"
  by simp

lemma replay_log_snoc: "replay_log (es @ [e]) = Option.bind (replay_log es) (replay_event e)"
  by (simp add: replay_log_def)

lemma log_of_snoc: "log_of (es @ [e]) i = (if ae_EntityID e = i then log_of es i @ [e] else log_of es i)"
  by (simp add: log_of_def)

lemma same_id: "ids_ok d \<Longrightarrow> c \<in> set (dt_Cases d) \<Longrightarrow> c' \<in> set (dt_Cases d) \<Longrightarrow> cs_ID c = cs_ID c' \<Longrightarrow> c = c'"
  unfolding ids_ok_def distinct_map inj_on_def by blast

lemma logs_replay:
  assumes "logs e i a f t" and "(a, f, t) \<in> set transition_table"
  shows "replay_event e (f, v) = Some (t, if a \<in> {''confirm'', ''reject''} then verdict_of e else v)"
  using assms by (simp add: logs_def replay_event_def)

text \<open>One transition: the case takes the new status, its log the event.\<close>

definition transit :: "'a DocketCase \<Rightarrow> string \<Rightarrow> Verdict \<Rightarrow> string \<Rightarrow> AdjudicationEvent \<Rightarrow> 'a Docket \<Rightarrow> 'a Docket" where
  "transit c to v successor e d = d\<lparr>dt_Cases := map (settle (cs_ID c) to v successor) (dt_Cases d), dt_Events := dt_Events d @ [e]\<rparr>"

definition admits :: "'a Docket \<Rightarrow> 'a DocketCase \<Rightarrow> string \<Rightarrow> string \<Rightarrow> string \<Rightarrow> AdjudicationEvent \<Rightarrow> bool" where
  "admits d c a f t e \<longleftrightarrow> c \<in> set (dt_Cases d) \<and> cs_Status c = f \<and> logs e (cs_ID c) a f t \<and> fresh_event d e
     \<and> (a, f, t) \<in> set transition_table"

lemma transit_ids: "admits d c a f t e \<Longrightarrow> ids_ok d \<Longrightarrow> ids_ok (transit c t v s e d)"
  by (auto simp: ids_ok_def transit_def admits_def logs_def fresh_event_def image_image comp_def)

lemma transit_log:
  assumes "admits d c a f t e" "ids_ok d" "log_ok d" "v = (if a \<in> {''confirm'', ''reject''} then verdict_of e else cs_Verdict c)"
  shows "log_ok (transit c t v s e d)"
proof -
  have "replay_log (log_of (dt_Events d @ [e]) (cs_ID x))
      = Some (cs_Status (settle (cs_ID c) t v s x), cs_Verdict (settle (cs_ID c) t v s x))" if x: "x \<in> set (dt_Cases d)" for x
  proof -
  have old: "replay_log (log_of (dt_Events d) (cs_ID x)) = Some (cs_Status x, cs_Verdict x)"
    using assms(3) x by (simp add: log_ok_def)
  show ?thesis
  proof (cases "cs_ID x = cs_ID c")
    case True
    then have "x = c" using same_id [OF assms(2) x] assms(1) by (simp add: admits_def)
    moreover have "ae_EntityID e = cs_ID c" "cs_Status c = f" using assms(1) by (simp_all add: admits_def logs_def)
    ultimately show ?thesis using old assms(1) logs_replay [of e "cs_ID c" a f t "cs_Verdict c"]
      by (simp add: log_of_snoc replay_log_snoc admits_def assms(4))
  next
    case False
    then show ?thesis using old assms(1) by (simp add: log_of_snoc admits_def logs_def)
  qed
  qed
  then show ?thesis by (simp add: log_ok_def transit_def)
qed

lemma transit_open:
  assumes "t \<noteq> ''proposed''" "open_ok d"
  shows "open_ok (transit c t v s e d)"
proof -
  have "x \<in> set (dt_Cases d)" if "x \<in> set (dt_Cases (transit c t v s e d))" "cs_Status x = ''proposed''" for x
    using that assms(1) by (auto simp: transit_def settle_def split: if_splits)
  then have "{x \<in> set (dt_Cases (transit c t v s e d)). cs_Status x = ''proposed''} \<subseteq> {x \<in> set (dt_Cases d). cs_Status x = ''proposed''}"
    by blast
  then show ?thesis using assms(2) unfolding open_ok_def by (rule inj_on_subset [rotated])
qed

lemma order_ok_map:
  assumes "order_ok d" "dt_Cases d' = map g (dt_Cases d)" "\<And>c. skeleton (g c) = skeleton c"
  shows "order_ok d'"
  unfolding order_ok_def
proof (intro allI impI)
  fix xs c ys assume "dt_Cases d' = xs @ c # ys" and p: "cs_Predecessor c \<noteq> ''''"
  then obtain xs' c' ys' where d: "dt_Cases d = xs' @ c' # ys'" and x: "xs = map g xs'" "c = g c'"
    using assms(2) by (auto simp: map_eq_append_conv map_eq_Cons_conv)
  have g [simp]: "cs_Predecessor (g x) = cs_Predecessor x" "cs_Subject (g x) = cs_Subject x" "cs_ID (g x) = cs_ID x" for x
    using assms(3) [of x] by (auto simp: skeleton_def cs_Subject_def)
  obtain q where "q \<in> set xs'" "cs_ID q = cs_Predecessor c'" "cs_Subject q = cs_Subject c'"
    using assms(1) [unfolded order_ok_def, rule_format, OF d] p x(2) by auto
  then show "\<exists>q \<in> set xs. cs_ID q = cs_Predecessor c \<and> cs_Subject q = cs_Subject c"
    using x by auto
qed

lemma transit_order: "order_ok d \<Longrightarrow> order_ok (transit c t v s e d)"
  by (erule order_ok_map [where g = "settle (cs_ID c) t v s"]) (simp_all add: transit_def)

section \<open>Opening a case\<close>

definition enter :: "'a DocketCase \<Rightarrow> 'a Docket \<Rightarrow> 'a Docket" where
  "enter c d = d\<lparr>dt_Cases := dt_Cases d @ [c]\<rparr>"

lemma enter_ids: "opens d c \<Longrightarrow> ids_ok d \<Longrightarrow> ids_ok (enter c d)"
  by (auto simp: ids_ok_def enter_def opens_def)

lemma enter_log:
  assumes "opens d c" "ids_ok d" "log_ok d"
  shows "log_ok (enter c d)"
proof -
  have "cs_ID c \<notin> ae_EntityID ` set (dt_Events d)" using assms(1,2) unfolding opens_def ids_ok_def by blast
  then have "log_of (dt_Events d) (cs_ID c) = []" by (auto simp: log_of_def filter_empty_conv image_iff)
  then show ?thesis using assms(1,3) by (simp add: log_ok_def enter_def opens_def replay_log_def)
qed

lemma enter_open: "opens d c \<Longrightarrow> open_ok d \<Longrightarrow> open_ok (enter c d)"
  by (auto simp: open_ok_def enter_def opens_def inj_on_def)

lemma enter_order:
  assumes "order_ok d" "cs_Predecessor c = '''' \<or> (\<exists>p \<in> set (dt_Cases d). cs_ID p = cs_Predecessor c \<and> cs_Subject p = cs_Subject c)"
  shows "order_ok (enter c d)"
  unfolding order_ok_def
proof (intro allI impI)
  fix xs x ys assume e: "dt_Cases (enter c d) = xs @ x # ys" and p: "cs_Predecessor x \<noteq> ''''"
  show "\<exists>q \<in> set xs. cs_ID q = cs_Predecessor x \<and> cs_Subject q = cs_Subject x"
  proof (cases ys rule: rev_cases)
    case Nil
    then have "xs = dt_Cases d" "x = c" using e by (simp_all add: enter_def)
    then show ?thesis using assms(2) p by blast
  next
    case (snoc zs z)
    then have "dt_Cases d @ [c] = (xs @ x # zs) @ [z]" using e by (simp add: enter_def)
    then have "dt_Cases d = xs @ x # zs" by (simp only: append1_eq_conv)
    then show ?thesis using assms(1) p by (simp add: order_ok_def)
  qed
qed

section \<open>Routes\<close>

definition settled :: "'a DocketCase \<Rightarrow> string \<Rightarrow> Verdict \<Rightarrow> string \<Rightarrow> 'a DocketCase" where
  "settled c t v s = c\<lparr>cs_Status := t, cs_Verdict := v, cs_Successor := s\<rparr>"

lemma settled_simps [simp]:
  "cs_ID (settled c t v s) = cs_ID c" "cs_Tuple (settled c t v s) = cs_Tuple c" "cs_Predecessor (settled c t v s) = cs_Predecessor c"
  "cs_Status (settled c t v s) = t" "cs_Verdict (settled c t v s) = v" "cs_Successor (settled c t v s) = s"
  "skeleton (settled c t v s) = skeleton c" "cs_Subject (settled c t v s) = cs_Subject c"
  by (simp_all add: settled_def skeleton_def cs_Subject_def)

lemma transit_cases:
  assumes "ids_ok d" "c \<in> set (dt_Cases d)"
  shows "set (dt_Cases (transit c t v s e d)) = insert (settled c t v s) (set (dt_Cases d) - {c})"
proof -
  have "settle (cs_ID c) t v s x = (if x = c then settled c t v s else x)" if "x \<in> set (dt_Cases d)" for x
    using same_id [OF assms(1) that assms(2)] by (auto simp: settle_def settled_def)
  then have "set (dt_Cases (transit c t v s e d)) = (\<lambda>x. if x = c then settled c t v s else x) ` set (dt_Cases d)"
    by (simp add: transit_def)
  then show ?thesis using assms(2) by auto
qed

lemma transit_routes:
  assumes "ids_ok d" "routes_ok d" "c \<in> set (dt_Cases d)" "cs_Status c \<noteq> ''superseded''" "t \<noteq> ''superseded''"
  shows "routes_ok (transit c t v '''' e d)"
proof -
  let ?d = "transit c t v '''' e d"
  note cases = transit_cases [OF assms(1,3), of t v "''''" e]
  have sup: "x \<in> set (dt_Cases ?d) \<and> cs_Status x = ''superseded'' \<longleftrightarrow> x \<in> set (dt_Cases d) \<and> cs_Status x = ''superseded''" for x
    using assms(4,5) by (auto simp: cases)
  have kept: "\<exists>y \<in> set (dt_Cases ?d). cs_ID y = cs_ID x \<and> cs_Predecessor y = cs_Predecessor x" if "x \<in> set (dt_Cases d)" for x
    unfolding cases using that by (cases "x = c") auto
  have "\<exists>s \<in> set (dt_Cases ?d). cs_ID s = cs_Successor x \<and> cs_Predecessor s = cs_ID x"
    if "x \<in> set (dt_Cases ?d)" "cs_Status x = ''superseded''" for x
    using assms(2) sup [of x] that kept unfolding routes_ok_def by metis
  moreover have "cs_Status x = ''superseded'' \<longleftrightarrow> cs_Successor x \<noteq> ''''" if "x \<in> set (dt_Cases ?d)" for x
    using that assms(2,5) unfolding cases routes_ok_def by auto
  moreover have "dt_Routes ?d = dt_Routes d" by (simp add: transit_def)
  moreover have "{(cs_ID x, cs_Successor x) |x. x \<in> set (dt_Cases ?d) \<and> cs_Status x = ''superseded''}
      = {(cs_ID x, cs_Successor x) |x. x \<in> set (dt_Cases d) \<and> cs_Status x = ''superseded''}" by (simp only: sup)
  ultimately show ?thesis using assms(2) unfolding routes_ok_def by simp
qed

lemma supersede_routes:
  assumes ok: "ids_ok d" "routes_ok d" and p: "p \<in> set (dt_Cases d)" "cs_Status p \<noteq> ''superseded''" and s: "s \<noteq> ''''"
    and d': "set (dt_Cases d') = set (dt_Cases (transit p ''superseded'' v s e d)) \<union> set cs" "dt_Routes d' = dt_Routes d @ [(cs_ID p, s)]"
    and cs: "\<And>c. c \<in> set cs \<Longrightarrow> cs_Status c \<noteq> ''superseded'' \<and> cs_Successor c = ''''"
    and succ: "\<exists>c \<in> set (dt_Cases d'). cs_ID c = s \<and> cs_Predecessor c = cs_ID p"
  shows "routes_ok d'"
proof -
  let ?p = "settled p ''superseded'' v s"
  have cases: "set (dt_Cases d') = insert ?p (set (dt_Cases d) - {p}) \<union> set cs"
    using d'(1) transit_cases [OF ok(1) p(1)] by simp
  have sup: "x \<in> set (dt_Cases d') \<and> cs_Status x = ''superseded'' \<longleftrightarrow> x = ?p \<or> x \<in> set (dt_Cases d) \<and> cs_Status x = ''superseded''" for x
    using cs p(2) by (auto simp: cases)
  have new: "cs_ID p \<notin> fst ` set (dt_Routes d)"
  proof
    assume "cs_ID p \<in> fst ` set (dt_Routes d)"
    then obtain x where "x \<in> set (dt_Cases d)" "cs_Status x = ''superseded''" "cs_ID x = cs_ID p"
      using ok(2) unfolding routes_ok_def by auto
    then show False using same_id [OF ok(1) _ p(1)] p(2) by blast
  qed
  have kept: "\<exists>y \<in> set (dt_Cases d'). cs_ID y = cs_ID x \<and> cs_Predecessor y = cs_Predecessor x" if "x \<in> set (dt_Cases d)" for x
    unfolding cases using that by (cases "x = p") auto
  have "\<exists>y \<in> set (dt_Cases d'). cs_ID y = cs_Successor x \<and> cs_Predecessor y = cs_ID x"
    if x: "x \<in> set (dt_Cases d')" "cs_Status x = ''superseded''" for x
  proof (cases "x = ?p")
    case True
    then show ?thesis using succ by simp
  next
    case False
    then have "x \<in> set (dt_Cases d)" using sup [of x] x by blast
    then obtain y where "y \<in> set (dt_Cases d)" "cs_ID y = cs_Successor x" "cs_Predecessor y = cs_ID x"
      using ok(2) x(2) unfolding routes_ok_def by blast
    then show ?thesis using kept [of y] by auto
  qed
  moreover have "cs_Status x = ''superseded'' \<longleftrightarrow> cs_Successor x \<noteq> ''''" if "x \<in> set (dt_Cases d')" for x
    using that ok(2) cs s unfolding cases routes_ok_def by auto
  moreover have "{(cs_ID x, cs_Successor x) |x. x \<in> set (dt_Cases d') \<and> cs_Status x = ''superseded''}
      = insert (cs_ID p, s) {(cs_ID x, cs_Successor x) |x. x \<in> set (dt_Cases d) \<and> cs_Status x = ''superseded''}"
    unfolding sup by (auto simp: conj_disj_distribL conj_disj_distribR ex_disj_distrib)
  ultimately show ?thesis using ok(2) new unfolding routes_ok_def d'(2) by simp
qed

lemma enter_routes: "routes_ok d \<Longrightarrow> opens d c \<Longrightarrow> routes_ok (enter c d)"
  unfolding routes_ok_def enter_def opens_def by (auto; blast)

section \<open>Steps\<close>

lemma transit_inv:
  assumes "docket_inv d" "admits d c a f t e" "t \<noteq> ''proposed''" "t \<noteq> ''superseded''" "f \<noteq> ''superseded''"
    "v = (if a \<in> {''confirm'', ''reject''} then verdict_of e else cs_Verdict c)"
  shows "docket_inv (transit c t v '''' e d)"
  using assms transit_ids [of d c a f t e v "''''"] transit_log [of d c a f t e v "''''"] transit_open [of t d c v "''''" e]
    transit_order [of d c t v "''''" e] transit_routes [of d c t v e]
  by (auto simp: docket_inv_def admits_def)

lemma docket_inv_routes_irrelevant:
  "ids_ok (dt_Routes_update g d) = ids_ok d" "log_ok (dt_Routes_update g d) = log_ok d" "open_ok (dt_Routes_update g d) = open_ok d"
  "order_ok (dt_Routes_update g d) = order_ok d"
  by (simp_all add: ids_ok_def log_ok_def open_ok_def order_ok_def)

lemma docket_step_inv:
  assumes "docket_step d d'" and inv: "docket_inv d"
  shows "docket_inv d'"
  using assms(1)
proof cases
  case (dk_open c)
  then show ?thesis using inv enter_ids enter_log enter_open enter_order enter_routes
    unfolding docket_inv_def enter_def by metis
next
  case (dk_correct p c e d1)
  have ad: "admits d p ''supersede'' ''proposed'' ''superseded'' e" using dk_correct by (simp add: admits_def transition_table_def)
  have d1: "d1 = transit p ''superseded'' (cs_Verdict p) (cs_ID c) e d" using dk_correct by (simp add: transit_def)
  have ok: "ids_ok d1" "log_ok d1" "open_ok d1" "order_ok d1"
    using inv transit_ids [OF ad] transit_log [OF ad] transit_open [of "''superseded''" d] transit_order [of d]
    by (simp_all add: docket_inv_def d1)
  have "p \<in> set (dt_Cases d1) \<or> settled p ''superseded'' (cs_Verdict p) (cs_ID c) \<in> set (dt_Cases d1)"
    using transit_cases [of d p] inv dk_correct(2) by (simp add: docket_inv_def d1)
  then have pred: "\<exists>q \<in> set (dt_Cases d1). cs_ID q = cs_Predecessor c \<and> cs_Subject q = cs_Subject c"
    using dk_correct by (metis settled_simps(1,8))
  have d': "d' = dt_Routes_update (\<lambda>_. dt_Routes d @ [(cs_ID p, cs_ID c)]) (enter c d1)" using dk_correct by (simp add: enter_def)
  have "routes_ok d'"
  proof (rule supersede_routes [of d p "cs_ID c" d' "cs_Verdict p" e "[c]"])
    show "set (dt_Cases d') = set (dt_Cases (transit p ''superseded'' (cs_Verdict p) (cs_ID c) e d)) \<union> set [c]"
      by (simp add: d' enter_def d1)
  qed (use inv dk_correct in \<open>auto simp: docket_inv_def opens_def\<close>)
  moreover have op: "opens d1 c" using dk_correct by simp
  ultimately show ?thesis
    using enter_ids [OF op ok(1)] enter_log [OF op ok(1,2)] enter_open [OF op ok(3)] enter_order [OF ok(4) disjI2 [OF pred]]
    unfolding docket_inv_def d' docket_inv_routes_irrelevant by simp
next
  case (dk_decide c action to e v)
  have "admits d c action ''proposed'' to e" using dk_decide by (auto simp: admits_def transition_table_def)
  moreover have "v = (if action \<in> {''confirm'', ''reject''} then verdict_of e else cs_Verdict c)" "to \<noteq> ''proposed''" "to \<noteq> ''superseded''"
    using dk_decide by auto
  ultimately have "docket_inv (transit c to v '''' e d)" using transit_inv [OF inv] by simp
  then show ?thesis using dk_decide by (simp add: transit_def)
next
  case (dk_confirm_correction c p e d1 e')
  have d1: "d1 = transit c ''confirmed'' (verdict_of e) '''' e d" using dk_confirm_correction by (simp add: transit_def)
  have "admits d c ''confirm'' ''proposed'' ''confirmed'' e" using dk_confirm_correction by (simp add: admits_def transition_table_def)
  from transit_inv [OF inv this, of "verdict_of e"] have inv1: "docket_inv d1" by (simp add: d1)
  have mem: "set (dt_Cases d1) = insert (settled c ''confirmed'' (verdict_of e) '''') (set (dt_Cases d) - {c})"
    unfolding d1 using inv dk_confirm_correction(2) by (intro transit_cases) (simp_all add: docket_inv_def)
  then have p: "p \<in> set (dt_Cases d1)" using dk_confirm_correction by auto
  have ad: "admits d1 p ''supersede'' ''confirmed'' ''superseded'' e'"
    using dk_confirm_correction p by (simp add: admits_def transition_table_def)
  let ?d2 = "transit p ''superseded'' (cs_Verdict p) (cs_ID c) e' d1"
  have ok: "ids_ok ?d2" "log_ok ?d2" "open_ok ?d2" "order_ok ?d2"
    using inv1 transit_ids [OF ad] transit_log [OF ad] transit_open [of "''superseded''" d1] transit_order [of d1]
    by (simp_all add: docket_inv_def)
  have d': "d' = dt_Routes_update (\<lambda>_. dt_Routes d @ [(cs_ID p, cs_ID c)]) ?d2"
    using dk_confirm_correction by (simp add: transit_def)
  have "cs_ID c \<in> cs_ID ` set (dt_Cases d)" using dk_confirm_correction(2) by (rule imageI)
  then have "cs_ID c \<noteq> ''''" using inv by (auto simp: docket_inv_def ids_ok_def)
  have "c \<noteq> p" using dk_confirm_correction(3,5) by auto
  then have "cs_ID (settled c ''confirmed'' (verdict_of e) '''') \<noteq> cs_ID p"
    using same_id [of d c p] inv dk_confirm_correction(2,4) by (auto simp: docket_inv_def)
  then have "settled c ''confirmed'' (verdict_of e) '''' \<noteq> p" by blast
  then have "settled c ''confirmed'' (verdict_of e) '''' \<in> set (dt_Cases d')"
    using transit_cases [of d1 p] inv1 p mem by (simp add: docket_inv_def d')
  then have succ: "\<exists>x \<in> set (dt_Cases d'). cs_ID x = cs_ID c \<and> cs_Predecessor x = cs_ID p"
    using dk_confirm_correction(6) by (metis settled_simps(1,3))
  have "routes_ok d'"
    by (rule supersede_routes [of d1 p "cs_ID c" d' "cs_Verdict p" e' "[]"])
      (use inv1 p dk_confirm_correction \<open>cs_ID c \<noteq> ''''\<close> succ in \<open>auto simp: docket_inv_def d' d1 transit_def\<close>)
  then show ?thesis using ok by (simp add: docket_inv_def d' docket_inv_routes_irrelevant)
qed

section \<open>What no step takes back\<close>

definition case_le :: "'a DocketCase \<Rightarrow> 'a DocketCase \<Rightarrow> bool" where
  "case_le c c' \<longleftrightarrow> skeleton c' = skeleton c \<and> (cs_Status c \<noteq> ''proposed'' \<longrightarrow>
     cs_Verdict c' = cs_Verdict c \<and> (c' = c \<or> cs_Status c = ''confirmed'' \<and> cs_Status c' = ''superseded''))"

definition docket_le :: "'a Docket \<Rightarrow> 'a Docket \<Rightarrow> bool" where
  "docket_le d d' \<longleftrightarrow> prefix (dt_Events d) (dt_Events d') \<and> prefix (dt_Routes d) (dt_Routes d')
     \<and> (\<exists>cs cs'. dt_Cases d' = cs @ cs' \<and> list_all2 case_le (dt_Cases d) cs)"

lemma case_le_refl [simp]: "case_le c c"
  by (simp add: case_le_def)

lemma case_le_trans: "case_le a b \<Longrightarrow> case_le b c \<Longrightarrow> case_le a c"
  by (auto simp: case_le_def)

lemma docket_leI:
  "prefix (dt_Events d) (dt_Events d') \<Longrightarrow> prefix (dt_Routes d) (dt_Routes d') \<Longrightarrow> dt_Cases d' = cs @ cs' \<Longrightarrow> list_all2 case_le (dt_Cases d) cs
   \<Longrightarrow> docket_le d d'"
  unfolding docket_le_def by blast

lemma cases_le_refl [simp]: "list_all2 case_le cs cs"
  by (simp add: list_all2_refl)

lemma docket_le_refl [simp]: "docket_le d d"
  by (rule docket_leI [of _ _ "dt_Cases d" "[]"]) simp_all

lemma docket_le_trans:
  assumes "docket_le a b" "docket_le b c"
  shows "docket_le a c"
proof -
  obtain xs xs' where 1: "dt_Cases b = xs @ xs'" "list_all2 case_le (dt_Cases a) xs" using assms(1) by (auto simp: docket_le_def)
  obtain ys ys' where 2: "dt_Cases c = ys @ ys'" "list_all2 case_le (dt_Cases b) ys" using assms(2) by (auto simp: docket_le_def)
  obtain us us' where 3: "ys = us @ us'" "list_all2 case_le xs us" using 2(2) unfolding 1(1) list_all2_append1 by blast
  have "list_all2 case_le (dt_Cases a) us"
    using list_all2_trans [OF _ 1(2) 3(2), of case_le] case_le_trans by blast
  moreover have "dt_Cases c = us @ (us' @ ys')" by (simp add: 2(1) 3(1))
  moreover have "prefix (dt_Events a) (dt_Events c)" "prefix (dt_Routes a) (dt_Routes c)"
    using assms by (auto simp: docket_le_def intro: prefix_order.trans)
  ultimately show ?thesis unfolding docket_le_def by blast
qed

lemma transit_le:
  assumes "ids_ok d" "admits d c a f t e" "f = ''proposed'' \<or> f = ''confirmed'' \<and> t = ''superseded'' \<and> v = cs_Verdict c"
  shows "docket_le d (transit c t v s e d)"
proof -
  have "case_le x (settle (cs_ID c) t v s x)" if "x \<in> set (dt_Cases d)" for x
  proof (cases "cs_ID x = cs_ID c")
    case True
    then have "x = c" using same_id [OF assms(1) that] assms(2) by (simp add: admits_def)
    then show ?thesis using assms(2,3) by (auto simp: case_le_def admits_def skeleton_def)
  qed simp
  then have "list_all2 case_le (dt_Cases d) (map (settle (cs_ID c) t v s) (dt_Cases d))"
    by (simp add: list.rel_map list_all2_same)
  then show ?thesis by (auto simp: docket_le_def transit_def)
qed

lemma enter_le: "docket_le d (enter c d)"
  by (rule docket_leI [of _ _ "dt_Cases d" "[c]"]) (simp_all add: enter_def)

lemma routes_le: "prefix (dt_Routes d) rs \<Longrightarrow> docket_le d (d\<lparr>dt_Routes := rs\<rparr>)"
  by (rule docket_leI [of _ _ "dt_Cases d" "[]"]) simp_all

lemma docket_step_le:
  assumes "docket_step d d'" and inv: "docket_inv d"
  shows "docket_le d d'"
  using assms(1)
proof cases
  case dk_open
  then show ?thesis using enter_le by (simp add: enter_def)
next
  case (dk_correct p c e d1)
  have d1: "d1 = transit p ''superseded'' (cs_Verdict p) (cs_ID c) e d" using dk_correct by (simp add: transit_def)
  have "docket_le d d1" unfolding d1
    by (rule transit_le [of _ _ "''supersede''" "''proposed''"])
      (use inv dk_correct in \<open>auto simp: docket_inv_def admits_def transition_table_def\<close>)
  moreover have "docket_le (enter c d1) d'" using dk_correct(1) routes_le [of "enter c d1" "dt_Routes d @ [(cs_ID p, cs_ID c)]"]
    by (simp add: enter_def d1 transit_def)
  ultimately show ?thesis using enter_le docket_le_trans by blast
next
  case (dk_decide c action to e v)
  then have "docket_le d (transit c to v '''' e d)" using inv
    by (intro transit_le [of _ _ action "''proposed''"]) (auto simp: docket_inv_def admits_def transition_table_def)
  then show ?thesis using dk_decide(1) by (simp add: transit_def)
next
  case (dk_confirm_correction c p e d1 e')
  have d1: "d1 = transit c ''confirmed'' (verdict_of e) '''' e d" using dk_confirm_correction by (simp add: transit_def)
  have ad: "admits d c ''confirm'' ''proposed'' ''confirmed'' e" using dk_confirm_correction by (simp add: admits_def transition_table_def)
  have ids: "ids_ok d" "ids_ok d1" using inv transit_ids [OF ad] by (simp_all add: docket_inv_def d1)
  have le1: "docket_le d d1" unfolding d1 by (rule transit_le [OF ids(1) ad]) simp
  have "p \<noteq> c" using dk_confirm_correction(3,5) by auto
  then have "p \<in> set (dt_Cases d1)" unfolding d1 transit_cases [OF ids(1) dk_confirm_correction(2)] using dk_confirm_correction(4) by simp
  then have "docket_le d1 (transit p ''superseded'' (cs_Verdict p) (cs_ID c) e' d1)"
    by (intro transit_le [OF ids(2), of _ "''supersede''" "''confirmed''"])
      (use dk_confirm_correction in \<open>auto simp: admits_def transition_table_def\<close>)
  moreover have "docket_le (transit p ''superseded'' (cs_Verdict p) (cs_ID c) e' d1) d'"
    using dk_confirm_correction(1) routes_le [of "transit p ''superseded'' (cs_Verdict p) (cs_ID c) e' d1" "dt_Routes d @ [(cs_ID p, cs_ID c)]"]
    by (simp add: d1 transit_def)
  ultimately show ?thesis using le1 docket_le_trans by blast
qed

section \<open>Following the successors\<close>

definition succeeds :: "'a Docket \<Rightarrow> 'a DocketCase \<Rightarrow> 'a DocketCase \<Rightarrow> bool" where
  "succeeds d c s \<longleftrightarrow> s \<in> set (dt_Cases d) \<and> (cs_ID c, cs_ID s) \<in> set (dt_Routes d)"

lemma later_successor:
  assumes inv: "docket_inv d" and c: "dt_Cases d = xs @ c # ys" "cs_Status c = ''superseded''"
  obtains us s vs where "ys = us @ s # vs" "cs_ID s = cs_Successor c" "cs_Subject s = cs_Subject c" "succeeds d c s"
proof -
  obtain s where s: "s \<in> set (dt_Cases d)" "cs_ID s = cs_Successor c" "cs_Predecessor s = cs_ID c"
    using inv c unfolding docket_inv_def routes_ok_def by auto
  obtain as bs where split: "dt_Cases d = as @ s # bs" using s(1) by (meson split_list)
  have ids: "distinct (map cs_ID (dt_Cases d))" "cs_ID c \<noteq> ''''" using inv c by (auto simp: docket_inv_def ids_ok_def)
  obtain p where p: "p \<in> set as" "cs_ID p = cs_ID c" "cs_Subject p = cs_Subject s"
    using inv split ids(2) s(3) unfolding docket_inv_def order_ok_def by metis
  have "p \<in> set (dt_Cases d)" using p(1) split by simp
  moreover have "c \<in> set (dt_Cases d)" using c(1) by simp
  ultimately have "p = c" using same_id [of d p c] inv p(2) by (simp add: docket_inv_def)
  then obtain ps qs where "as = ps @ c # qs" using p(1) by (meson split_list)
  then have e: "xs @ c # ys = ps @ c # qs @ s # bs" using split c(1) by simp
  have "distinct (xs @ c # ys)" unfolding c(1) [symmetric] using ids(1) distinct_map by blast
  then have "c \<notin> set xs" "c \<notin> set ys" by simp_all
  from e [unfolded append_Cons_eq_iff [OF this]] have "ys = qs @ s # bs" by simp
  moreover have "succeeds d c s" using inv c s unfolding docket_inv_def routes_ok_def succeeds_def by auto
  ultimately show thesis using that s p(3) \<open>p = c\<close> by simp
qed

lemma successors_end:
  assumes "docket_inv d" "c \<in> set (dt_Cases d)"
  shows "\<exists>x \<in> set (dt_Cases d). (succeeds d)\<^sup>*\<^sup>* c x \<and> cs_Status x \<noteq> ''superseded'' \<and> cs_Subject x = cs_Subject c"
proof -
  obtain xs ys where "dt_Cases d = xs @ c # ys" using assms(2) by (meson split_list)
  then show ?thesis
  proof (induction ys arbitrary: xs c rule: length_induct)
    case (1 ys)
    show ?case
    proof (cases "cs_Status c = ''superseded''")
      case True
      obtain us s vs where s: "ys = us @ s # vs" "cs_Subject s = cs_Subject c" "succeeds d c s"
        using later_successor [OF assms(1) 1(2) True] by metis
      have "dt_Cases d = (xs @ c # us) @ s # vs" "length vs < length ys" using 1(2) s(1) by simp_all
      from 1(1) [rule_format, OF this(2,1)] show ?thesis using s(2,3) by (metis converse_rtranclp_into_rtranclp)
    next
      case False
      then show ?thesis using 1(2) by (intro bexI [of _ c]) simp_all
    qed
  qed
qed

end
