(* ===== verification/Adjudication_Steps.thy ===== *)
theory Adjudication_Steps
  imports Memory_Steps Adjudication_Docket
begin

text \<open>
  How the shared table operations of Adjudication_Store act on a docket, the steps of the docket in
  the form the handlers take them, and the part of the store an adjudication leaves alone.
\<close>

section \<open>Tables\<close>

lemma docket_of_simps [simp]:
  "dt_Cases (docket_of view t) = map view (ad_Rows t)" "dt_Events (docket_of view t) = ad_Events t"
  "docket_of view (t\<lparr>ad_Keys := ks\<rparr>) = docket_of view t" "docket_of view (update_key t a b f) = docket_of view t"
  "docket_of view (complete_decision_key t a b x e now) = docket_of view t"
  "docket_of view (complete_proposal_key t a b i now) = docket_of view t"
  by (simp_all add: docket_of_def update_key_def complete_decision_key_def complete_proposal_key_def)

lemma claim_key_docket: "claim_key t a b h w i now = Inr (t', None) \<Longrightarrow> docket_of view t' = docket_of view t \<and> ad_Rows t' = ad_Rows t"
  by (auto simp: claim_key_def docket_of_def split: option.splits if_splits)

lemma claim_key_replay: "claim_key t a b h w i now = Inr (t', Some k) \<Longrightarrow> t' = t"
  by (auto simp: claim_key_def split: option.splits if_splits)

lemma insert_event_docket:
  "insert_event e t = Inr t' \<Longrightarrow> fresh_event (docket_of view t) e
     \<and> docket_of view t' = (docket_of view t)\<lparr>dt_Events := dt_Events (docket_of view t) @ [e]\<rparr> \<and> ad_Rows t' = ad_Rows t"
  by (auto simp: insert_event_def fresh_event_def docket_of_def list_ex_iff split: if_splits)

lemma insert_route_docket:
  "insert_route i j a now t = Inr t' \<Longrightarrow>
     docket_of view t' = (docket_of view t)\<lparr>dt_Routes := dt_Routes (docket_of view t) @ [(i, j)]\<rparr> \<and> ad_Rows t' = ad_Rows t"
  by (auto simp: insert_route_def docket_of_def split: if_splits)

text \<open>A guarded update followed by its event is one transition of the docket.\<close>

lemma guarded_update_docket:
  assumes u: "guarded_update al (\<lambda>x. key x = i \<and> Q x) f e1 e2 t = Inr t'" and d: "distinct (map key (ad_Rows t))"
    and key: "\<And>x. cs_ID (view x) = key x" and f: "\<And>x. view (f x) = settled (view x) to (v x) (s x)"
  obtains a where "a \<in> set (ad_Rows t)" "key a = i" "Q a" "al a (f a)"
    "docket_of view t' = (docket_of view t)\<lparr>dt_Cases := map (settle i to (v a) (s a)) (dt_Cases (docket_of view t))\<rparr>"
    "ad_Rows t' = map (\<lambda>x. if x = a then f a else x) (ad_Rows t)"
proof -
  from u have al: "\<And>x. x \<in> set (ad_Rows t) \<Longrightarrow> key x = i \<Longrightarrow> Q x \<Longrightarrow> al x (f x)"
    and one: "length (filter (\<lambda>x. key x = i \<and> Q x) (ad_Rows t)) = 1"
    and t': "t' = t\<lparr>ad_Rows := map (\<lambda>x. if key x = i \<and> Q x then f x else x) (ad_Rows t)\<rparr>"
    by (auto simp: guarded_update_def list_all_iff split: if_splits)
  from one obtain a where "a \<in> set (filter (\<lambda>x. key x = i \<and> Q x) (ad_Rows t))"
    by (metis length_0_conv list.set_intros(1) neq_Nil_conv zero_neq_one)
  then have a: "a \<in> set (ad_Rows t)" "key a = i" "Q a" by simp_all
  have eq: "x = a \<longleftrightarrow> key x = i" if "x \<in> set (ad_Rows t)" for x
    using d that a(1,2) unfolding distinct_map inj_on_def by blast
  have rows: "ad_Rows t' = map (\<lambda>x. if x = a then f a else x) (ad_Rows t)"
    unfolding t' using eq a(3) by auto
  moreover have "view (if x = a then f a else x) = settle i to (v a) (s a) (view x)" if "x \<in> set (ad_Rows t)" for x
    using eq [OF that] a(2) key f by (auto simp: settled_def)
  ultimately have "docket_of view t' = (docket_of view t)\<lparr>dt_Cases := map (settle i to (v a) (s a)) (dt_Cases (docket_of view t))\<rparr>"
    by (simp add: docket_of_def t')
  with that a al rows show thesis by blast
qed

lemma settle_event:
  assumes "docket_of view t1 = (docket_of view t)\<lparr>dt_Cases := map (settle (cs_ID c) to v s) (dt_Cases (docket_of view t))\<rparr>"
    and "insert_event e t1 = Inr t2"
  shows "docket_of view t2 = transit c to v s e (docket_of view t)" "fresh_event (docket_of view t) e"
  using insert_event_docket [OF assms(2), of view] by (simp_all add: transit_def assms(1) fresh_event_def)

section \<open>Steps of the docket\<close>

lemma supersede_logs [simp]: "logs (supersede_event eventID i requestID from h reason now) i ''supersede'' from ''superseded''"
  by (simp add: logs_def supersede_event_def)

lemma withdraw_logs [simp]: "logs (withdraw_event eventID i requestID h now) i ''withdraw'' ''proposed'' ''withdrawn''"
  by (simp add: logs_def withdraw_event_def)

lemma dk_enter: "opens d c \<Longrightarrow> cs_Predecessor c = '''' \<or> (\<exists>p \<in> set (dt_Cases d). cs_ID p = cs_Predecessor c \<and> cs_Subject p = cs_Subject c)
    \<Longrightarrow> docket_step d (enter c d)"
  unfolding enter_def by (rule dk_open)

lemma dk_enter_correction:
  assumes "p \<in> set (dt_Cases d)" "cs_Status p = ''proposed''" "cs_ID p = cs_Predecessor c" "cs_Subject p = cs_Subject c"
    "logs e (cs_ID p) ''supersede'' ''proposed'' ''superseded''" "fresh_event d e"
    "d1 = transit p ''superseded'' (cs_Verdict p) (cs_ID c) e d" "opens d1 c"
    "d' = (enter c d1)\<lparr>dt_Routes := dt_Routes (enter c d1) @ [(cs_ID p, cs_ID c)]\<rparr>"
  shows "docket_step d d'"
proof -
  have "d' = d1\<lparr>dt_Cases := dt_Cases d1 @ [c], dt_Routes := dt_Routes d @ [(cs_ID p, cs_ID c)]\<rparr>"
    by (simp add: assms(7,9) transit_def enter_def)
  then show ?thesis using dk_correct [OF assms(1-6), of d1] assms(7,8) by (simp add: transit_def)
qed

lemma dk_transit:
  assumes "c \<in> set (dt_Cases d)" "cs_Status c = ''proposed''"
    "(action, to) \<in> {(''confirm'', ''confirmed''), (''reject'', ''rejected''), (''withdraw'', ''withdrawn'')}"
    "logs e (cs_ID c) action ''proposed'' to" "fresh_event d e" "v = (if action = ''withdraw'' then cs_Verdict c else verdict_of e)"
    "action = ''confirm'' \<Longrightarrow> cs_Predecessor c = '''' \<or> (\<exists>p \<in> set (dt_Cases d). cs_ID p = cs_Predecessor c \<and> cs_Successor p = cs_ID c)"
  shows "docket_step d (transit c to v '''' e d)"
  unfolding transit_def using assms by (intro dk_decide [where action = action]) auto

lemma dk_transit_correction:
  assumes "c \<in> set (dt_Cases d)" "cs_Status c = ''proposed''" "p \<in> set (dt_Cases d)" "cs_Status p = ''confirmed''"
    "cs_ID p = cs_Predecessor c" "cs_ID p \<noteq> ''''" "logs e (cs_ID c) ''confirm'' ''proposed'' ''confirmed''" "fresh_event d e"
    "d1 = transit c ''confirmed'' (verdict_of e) '''' e d" "logs e' (cs_ID p) ''supersede'' ''confirmed'' ''superseded''" "fresh_event d1 e'"
    "d' = (transit p ''superseded'' (cs_Verdict p) (cs_ID c) e' d1)\<lparr>dt_Routes := dt_Routes d1 @ [(cs_ID p, cs_ID c)]\<rparr>"
  shows "docket_step d d'"
proof -
  have "d' = d1\<lparr>dt_Cases := map (settle (cs_ID p) ''superseded'' (cs_Verdict p) (cs_ID c)) (dt_Cases d1),
      dt_Events := dt_Events d1 @ [e'], dt_Routes := dt_Routes d @ [(cs_ID p, cs_ID c)]\<rparr>"
    by (simp add: assms(9,12) transit_def)
  then show ?thesis using dk_confirm_correction [OF assms(1-8), of d1 e'] assms(9-11) by (simp add: transit_def)
qed

lemma predecessor_other:
  assumes "docket_inv d" "c \<in> set (dt_Cases d)" "cs_Predecessor c \<noteq> ''''"
  shows "cs_Predecessor c \<noteq> cs_ID c"
proof -
  obtain xs ys where d: "dt_Cases d = xs @ c # ys" using assms(2) by (meson split_list)
  then obtain p where "p \<in> set xs" "cs_ID p = cs_Predecessor c" using assms(1,3) unfolding docket_inv_def order_ok_def by metis
  moreover have "cs_ID c \<notin> cs_ID ` set xs" using assms(1) by (simp add: docket_inv_def ids_ok_def d)
  ultimately show ?thesis by (metis imageI)
qed

lemma proposed_unrouted: "docket_inv d \<Longrightarrow> c \<in> set (dt_Cases d) \<Longrightarrow> cs_Status c = ''proposed'' \<Longrightarrow> cs_Successor c = ''''"
  unfolding docket_inv_def routes_ok_def by auto

section \<open>The rest of the store\<close>

definition core_kept :: "MemoryDB \<Rightarrow> MemoryDB \<Rightarrow> bool" where
  "core_kept db db' \<longleftrightarrow> history_kept db db' \<and> memory_keys_kept db db' \<and> life_kept db db' \<and> ledger_of db' = ledger_of db"

lemma core_kept_refl [simp]: "core_kept db db"
  by (simp add: core_kept_def history_kept_def memory_keys_kept_def life_kept_same)

lemma core_kept_trans: "core_kept a b \<Longrightarrow> core_kept b c \<Longrightarrow> core_kept a c"
  unfolding core_kept_def memory_keys_kept_def by (auto intro: history_kept_trans keys_kept_trans life_kept_trans)

lemma quiet_core: "quiet a b \<Longrightarrow> core_kept a b"
  by (simp add: quiet_def mem_evolves_def core_kept_def)

lemma core_kept_tables [simp]:
  "core_kept db (db\<lparr>md_Judgments := t\<rparr>)" "core_kept db (db\<lparr>md_Reconciliations := u\<rparr>)"
  by (simp_all add: core_kept_def history_kept_def memory_keys_kept_def ledger_of_def md_Purge_def life_kept_same)

lemma project_relation_quiet: "project_relation db i j r s now = Inr db' \<Longrightarrow> quiet db db'"
  by (auto simp: project_relation_def split: if_splits dest: insertRelation_quiet)

lemma emit_verdict_receipt_quiet:
  assumes "emit_verdict_receipt cfg db s i a p now = Inr db'"
  shows "quiet db db'"
proof -
  obtain rs r where e: "emitReceipt (cf_Signer cfg) (pd_Receipts (md_Purge db)) s i a p now = Inr (rs, r)"
    and d: "db' = set_purge ((md_Purge db)\<lparr>pd_Receipts := rs\<rparr>) db"
    using assms by (auto simp: emit_verdict_receipt_def guard_simps)
  have "life_kept db db'" unfolding life_kept_def
    by (intro exI [of _ "pd_Closures (md_Purge db)"] exI [of _ rs]) (simp add: d set_purge_def)
  then show ?thesis using emitReceipt_prefix [OF e]
    by (simp add: d quiet_def kept_defs ledger_of_def set_purge_def md_Purge_def)
qed

lemma quiet_tables: "quiet a b \<Longrightarrow> md_Judgments b = md_Judgments a \<and> md_Reconciliations b = md_Reconciliations a"
  by (simp add: quiet_def mem_evolves_def adjudication_kept_def)

end
