(* ===== verification/Judgment_Store.thy ===== *)
theory Judgment_Store
  imports Adjudication_Store Authz
begin

text \<open>
  The judgment handlers of internal/store/store.go. Each is one write transaction: the pure machine
  of Judgment on the locked row, the period and policy gates, the immutable event, the projection
  into the relations, the supersession of a predecessor and the receipt. Commands carry the fields
  of internal/core/judgment.go; the clock and the minted ids are arguments. The store's handlers
  share their names with the pure transitions and carry the prefix \<open>store_\<close>.
\<close>

section \<open>Commands\<close>

record ProposeJudgmentCommand =
  pj_FromID :: string
  pj_ToID :: string
  pj_Relation :: Relation
  pj_Reason :: string
  pj_PredecessorID :: string
  pj_RequestID :: string

record ConfirmJudgmentCommand =
  cj_JudgmentID :: string
  cj_Resolution :: string
  cj_ExpectedJudgmentHash :: string
  cj_RequestID :: string

record RejectJudgmentCommand =
  xj_JudgmentID :: string
  xj_Reason :: string
  xj_ExpectedJudgmentHash :: string
  xj_RequestID :: string

record WithdrawJudgmentCommand =
  wj_JudgmentID :: string
  wj_RequestID :: string

text \<open>The outcome of a handler: the judgment, the event id and whether it is a replay.\<close>

type_synonym JudgmentOutcome = "AccountingJudgment \<times> string \<times> bool"

definition JudgmentPolicyVersion :: string where
  "JudgmentPolicyVersion = ''judgment-policy/v0.4.0''"

definition proposeJudgmentCommandHash :: "ProposeJudgmentCommand \<Rightarrow> string" where
  "proposeJudgmentCommandHash cmd =
     sha256_hex (pj_FromID cmd @ NUL @ pj_ToID cmd @ NUL @ Relation_str (pj_Relation cmd) @ NUL @ pj_Reason cmd
       @ NUL @ pj_PredecessorID cmd)"

definition decideJudgmentCommandHash :: "string \<Rightarrow> string \<Rightarrow> string \<Rightarrow> string" where
  "decideJudgmentCommandHash judgmentID expectedHash resolution =
     sha256_hex (judgmentID @ NUL @ map ascii_lower expectedHash @ NUL @ resolution)"

definition withdrawJudgmentCommandHash :: "string \<Rightarrow> string" where
  "withdrawJudgmentCommandHash judgmentID = sha256_hex judgmentID"

section \<open>Rows\<close>

type_synonym JudgmentTables = "AccountingJudgment AdjudicationTables"

definition readJudgment :: "JudgmentTables \<Rightarrow> string \<Rightarrow> AccountingJudgment option" where
  "readJudgment t i = find (\<lambda>j. j_ID j = i) (ad_Rows t)"

definition judgment_tuple :: "AccountingJudgment \<Rightarrow> string list" where
  "judgment_tuple j = [j_TenantID j, j_CompanyID j, j_FromID j, j_ToID j, Relation_str (j_Relation j)]"

definition readOpenProposal :: "JudgmentTables \<Rightarrow> string list \<Rightarrow> AccountingJudgment option" where
  "readOpenProposal t tuple = find (\<lambda>j. judgment_tuple j = tuple \<and> j_Status j = JudgmentProposed) (ad_Rows t)"

definition readLatestTupleJudgment :: "JudgmentTables \<Rightarrow> string list \<Rightarrow> AccountingJudgment option" where
  "readLatestTupleJudgment t tuple = find (\<lambda>j. judgment_tuple j = tuple) (rev (ad_Rows t))"

text \<open>
  The trigger judgments_immutable_update: a terminal row never changes, a confirmed row may only be
  superseded, with nothing but its routing fields changed.
\<close>

definition judgments_immutable_update :: "AccountingJudgment \<Rightarrow> AccountingJudgment \<Rightarrow> bool" where
  "judgments_immutable_update old new \<longleftrightarrow>
     j_Status old \<notin> {JudgmentRejected, JudgmentWithdrawn, JudgmentSuperseded}
     \<and> (j_Status old = JudgmentConfirmed \<longrightarrow>
          j_Status new = JudgmentSuperseded \<and> j_SupersedesID old = '''' \<and> j_SupersedesID new \<noteq> ''''
          \<and> new\<lparr>j_Status := j_Status old, j_SupersedesID := j_SupersedesID old, j_UpdatedAt := j_UpdatedAt old\<rparr> = old)"

definition update_judgment :: "string \<Rightarrow> JudgmentStatus \<Rightarrow> (AccountingJudgment \<Rightarrow> AccountingJudgment) \<Rightarrow> JudgmentTables \<Rightarrow> JudgmentTables result" where
  "update_judgment i from f t =
     guarded_update judgments_immutable_update (\<lambda>j. j_ID j = i \<and> j_Status j = from) f
       (StoreErr ''IMMUTABLE_JUDGMENT'') (AuthErr ''INVALID_JUDGMENT_TRANSITION'') t"

text \<open>The primary key and the partial unique index over open tuples.\<close>

definition insert_judgment :: "AccountingJudgment \<Rightarrow> JudgmentTables \<Rightarrow> JudgmentTables result" where
  "insert_judgment j t =
     (if list_ex (\<lambda>x. j_ID x = j_ID j) (ad_Rows t) then Inl (StoreErr ''PRIMARY KEY'')
      else if list_ex (\<lambda>x. judgment_tuple x = judgment_tuple j \<and> j_Status x = JudgmentProposed) (ad_Rows t)
      then Inl (AuthErr ''JUDGMENT_CONFLICT'')
      else Inr (t\<lparr>ad_Rows := ad_Rows t @ [j]\<rparr>))"

section \<open>Proposal\<close>

definition proposed_judgment :: "ProposeJudgmentCommand \<Rightarrow> Source \<Rightarrow> string \<times> string \<times> string \<Rightarrow> string \<Rightarrow> string \<Rightarrow> AccountingJudgment" where
  "proposed_judgment cmd caller = (\<lambda>(tenant, company, period) i now.
     \<lparr>j_ID = i, j_TenantID = tenant, j_CompanyID = company, j_FiscalPeriodID = period, j_FromID = pj_FromID cmd,
      j_ToID = pj_ToID cmd, j_Relation = pj_Relation cmd, j_Status = JudgmentProposed, j_Proposer = stored_proposer caller,
      j_ProposalReason = pj_Reason cmd, j_Resolution = '''', j_Adjudicator = None, j_PolicyVersion = '''',
      j_PredecessorID = pj_PredecessorID cmd, j_SupersedesID = '''', j_ProposedAt = now, j_UpdatedAt = now, j_DecidedAt = ''''\<rparr>)"

definition supersedeProposedPredecessor :: "AccountingJudgment \<Rightarrow> string \<Rightarrow> string \<Rightarrow> string \<Rightarrow> string \<Rightarrow> JudgmentTables \<Rightarrow> JudgmentTables result" where
  "supersedeProposedPredecessor pred successorID requestID eventID now t =
     (let f = \<lambda>j. j\<lparr>j_Status := JudgmentSuperseded, j_SupersedesID := successorID, j_DecidedAt := now, j_UpdatedAt := now\<rparr>
      in and_then (update_judgment (j_ID pred) JudgmentProposed f t) (\<lambda>t.
         insert_event (supersede_event eventID (j_ID pred) requestID ''proposed'' (ComputeJudgmentHash (f pred)) '''' now) t))"

text \<open>Step 4: a proposed predecessor of the same proposer is superseded at once, a confirmed one when the correction confirms.\<close>

definition judgment_predecessor :: "ProposeJudgmentCommand \<Rightarrow> Source \<Rightarrow> string \<Rightarrow> string \<Rightarrow> string \<Rightarrow> JudgmentTables
    \<Rightarrow> (JudgmentTables \<times> bool) result" where
  "judgment_predecessor cmd caller i eventID now t =
     (if pj_PredecessorID cmd = '''' then Inr (t, False)
      else and_then (from_option (AuthErr ''JUDGMENT_NOT_FOUND'') (readJudgment t (pj_PredecessorID cmd))) (\<lambda>pred.
        if j_FromID pred \<noteq> pj_FromID cmd \<or> j_ToID pred \<noteq> pj_ToID cmd \<or> j_Relation pred \<noteq> pj_Relation cmd
        then Inl (AuthErr ''JUDGMENT_CONFLICT'')
        else case j_Status pred of
          JudgmentConfirmed \<Rightarrow> Inr (t, False)
        | JudgmentProposed \<Rightarrow>
            if proposerBinding (j_Proposer pred) \<noteq> proposerBinding caller then Inl (AuthErr ''PROPOSAL_UNAUTHORIZED'')
            else and_then (supersedeProposedPredecessor pred i (pj_RequestID cmd) eventID now t) (\<lambda>t. Inr (t, True))
        | _ \<Rightarrow> Inl (AuthErr ''INVALID_JUDGMENT_TRANSITION'')))"

definition replay_proposal :: "JudgmentTables \<Rightarrow> AccountingJudgment AdjudicationKey \<Rightarrow> string list \<Rightarrow> AccountingJudgment result" where
  "replay_proposal t k tuple =
     (case Option.bind (jk_EntityID k) (readJudgment t) of Some j \<Rightarrow> Inr j
      | None \<Rightarrow> (case readOpenProposal t tuple of Some j \<Rightarrow> Inr j
          | None \<Rightarrow> from_option (AuthErr ''JUDGMENT_NOT_FOUND'') (readLatestTupleJudgment t tuple)))"

text \<open>Steps 4 to 7: \<open>ids 0\<close> is the judgment, \<open>ids 1\<close> the event of the superseded predecessor.\<close>

definition propose_writes :: "ProposeJudgmentCommand \<Rightarrow> Source \<Rightarrow> string \<times> string \<times> string \<Rightarrow> string \<Rightarrow> (nat \<Rightarrow> string)
    \<Rightarrow> JudgmentTables \<Rightarrow> (JudgmentTables \<times> AccountingJudgment) result" where
  "propose_writes cmd caller scope now ids t =
     (let j = proposed_judgment cmd caller scope (ids 0) now
      in and_then (judgment_predecessor cmd caller (ids 0) (ids 1) now t) (\<lambda>(t, superseded).
         and_then (insert_judgment j t) (\<lambda>t.
         and_then (if superseded then insert_route (pj_PredecessorID cmd) (ids 0) (proposerBinding caller) now t else Inr t) (\<lambda>t.
         Inr (complete_proposal_key t (fst scope) (pj_RequestID cmd) (ids 0) now, j)))))"

definition ProposeJudgment :: "MemoryDB \<Rightarrow> ProposeJudgmentCommand \<Rightarrow> Source \<Rightarrow> string \<Rightarrow> (nat \<Rightarrow> string) \<Rightarrow> (MemoryDB \<times> JudgmentOutcome) result" where
  "ProposeJudgment db cmd caller now ids =
     and_then (ensure (\<not> blank (pj_FromID cmd) \<and> \<not> blank (pj_ToID cmd) \<and> \<not> blank (pj_Reason cmd) \<and> \<not> blank (pj_RequestID cmd))
       (AuthErr ''MEMORY_NOT_FOUND'')) (\<lambda>_.
     and_then (ensure (IsProposableRelation (pj_Relation cmd)) (AuthErr ''RELATION_NOT_PROPOSABLE'')) (\<lambda>_.
     and_then (ensure (CanPropose caller) (AuthErr ''PROPOSAL_UNAUTHORIZED'')) (\<lambda>_.
     and_then (ensure (pj_FromID cmd \<noteq> pj_ToID cmd) (AuthErr ''MEMORY_NOT_FOUND'')) (\<lambda>_.
     and_then (proposal_scope db (pj_FromID cmd) (pj_ToID cmd)) (\<lambda>scope.
     and_then (claim_key (md_Judgments db) (fst scope) (pj_RequestID cmd) (proposeJudgmentCommandHash cmd) (proposerBinding caller)
        (Some (ids 0)) now) (\<lambda>(t, replay).
     case replay of
       Some k \<Rightarrow>
         and_then (replay_proposal t k [fst scope, fst (snd scope), pj_FromID cmd, pj_ToID cmd, Relation_str (pj_Relation cmd)]) (\<lambda>j.
         Inr (db, j, '''', True))
     | None \<Rightarrow>
         and_then (propose_writes cmd caller scope now ids t) (\<lambda>(t, j).
         Inr (db\<lparr>md_Judgments := t\<rparr>, j, '''', False))))))))"

section \<open>Decision\<close>

record judgmentDecisionParams =
  jp_JudgmentID :: string
  jp_Resolution :: string
  jp_ExpectedJudgmentHash :: string
  jp_RequestID :: string
  jp_Confirm :: bool

definition judgment_verdict :: "judgmentDecisionParams \<Rightarrow> JudgmentStatus" where
  "judgment_verdict p = (if jp_Confirm p then JudgmentConfirmed else JudgmentRejected)"

text \<open>Steps 3 to 6: the locked row, both observations, the status gate, the reviewed hash and the policy.\<close>

definition judgment_gates :: "MemoryDB \<Rightarrow> judgmentDecisionParams \<Rightarrow> Principal \<Rightarrow> (AccountingJudgment \<times> AccountingMemory \<times> AccountingMemory) result" where
  "judgment_gates db p who =
     and_then (from_option (AuthErr ''JUDGMENT_NOT_FOUND'') (readJudgment (md_Judgments db) (jp_JudgmentID p))) (\<lambda>j.
     and_then (decision_pair db (j_FromID j) (j_ToID j)) (\<lambda>(a, b).
     and_then (ensure (j_Status j = JudgmentProposed) (AuthErr ''INVALID_JUDGMENT_TRANSITION'')) (\<lambda>_.
     and_then (ensure (EqualFold (TrimSpace (jp_ExpectedJudgmentHash p)) (ComputeJudgmentHash j)) (AuthErr ''JUDGMENT_HASH_MISMATCH'')) (\<lambda>_.
     and_then (case judgment_Authorize who (j_TenantID j) (j_CompanyID j) of Some code \<Rightarrow> Inl (AuthErr code) | None \<Rightarrow> Inr ()) (\<lambda>_.
     Inr (j, a, b))))))"

definition resulting_judgment :: "judgmentDecisionParams \<Rightarrow> AccountingJudgment \<Rightarrow> PrincipalSnapshot \<Rightarrow> string \<Rightarrow> AccountingJudgment result" where
  "resulting_judgment p j snapshot now =
     (if jp_Confirm p then ConfirmJudgment j (jp_Resolution p) (Some snapshot) JudgmentPolicyVersion now
      else RejectJudgment j (jp_Resolution p) (Some snapshot) JudgmentPolicyVersion now)"

text \<open>Step 8: the columns of the guarded update; the membership is a foreign key.\<close>

definition decide_judgment_row :: "judgmentDecisionParams \<Rightarrow> string list \<Rightarrow> PrincipalSnapshot \<Rightarrow> string \<Rightarrow> JudgmentTables \<Rightarrow> JudgmentTables result" where
  "decide_judgment_row p memberships snapshot now t =
     and_then (update_judgment (jp_JudgmentID p) JudgmentProposed
        (\<lambda>j. j\<lparr>j_Status := judgment_verdict p, j_Resolution := jp_Resolution p, j_PolicyVersion := JudgmentPolicyVersion,
            j_Adjudicator := stored_adjudicator snapshot, j_DecidedAt := now, j_UpdatedAt := now\<rparr>) t) (\<lambda>t.
     and_then (ensure (sql_nonempty (jp_Resolution p)) (StoreErr ''CHECK'')) (\<lambda>_.
     and_then (ensure (ps_MembershipID snapshot \<in> set memberships) (StoreErr ''FOREIGN KEY'')) (\<lambda>_.
     Inr t)))"

text \<open>Step 11: a confirmed correction supersedes its confirmed predecessor.\<close>

definition supersede_confirmed_judgment :: "judgmentDecisionParams \<Rightarrow> AccountingJudgment \<Rightarrow> string \<Rightarrow> string \<Rightarrow> string \<Rightarrow> JudgmentTables \<Rightarrow> JudgmentTables result" where
  "supersede_confirmed_judgment p j subject eventID now t =
     (if \<not> jp_Confirm p \<or> j_PredecessorID j = '''' then Inr t
      else and_then (from_option (AuthErr ''JUDGMENT_NOT_FOUND'') (readJudgment t (j_PredecessorID j))) (\<lambda>pred.
        case j_Status pred of
          JudgmentConfirmed \<Rightarrow>
            and_then (update_judgment (j_ID pred) JudgmentConfirmed
              (\<lambda>x. x\<lparr>j_Status := JudgmentSuperseded, j_SupersedesID := j_ID j, j_UpdatedAt := now\<rparr>) t) (\<lambda>t.
            and_then (SupersedeJudgment pred (j_ID j) now) (\<lambda>superseded.
            and_then (insert_event (supersede_event eventID (j_ID pred) (jp_RequestID p) ''confirmed''
              (ComputeJudgmentHash superseded) (jp_Resolution p) now) t) (\<lambda>t.
            insert_route (j_ID pred) (j_ID j) subject now t)))
        | JudgmentSuperseded \<Rightarrow>
            if j_SupersedesID pred \<noteq> j_ID j then Inl (AuthErr ''INVALID_JUDGMENT_TRANSITION'') else Inr t
        | _ \<Rightarrow> Inl (AuthErr ''INVALID_JUDGMENT_TRANSITION'')))"

text \<open>Steps 3 to 13: \<open>ids 0\<close> is the decision event, \<open>ids 1\<close> the event of the superseded predecessor.\<close>

definition decide_judgment :: "StoreConfig \<Rightarrow> MemoryDB \<Rightarrow> judgmentDecisionParams \<Rightarrow> Principal \<Rightarrow> string \<Rightarrow> (nat \<Rightarrow> string)
    \<Rightarrow> (MemoryDB \<times> JudgmentOutcome) result" where
  "decide_judgment cfg db p who now ids =
     (let s = PrincipalSnapshot_of who in
      and_then (judgment_gates db p who) (\<lambda>(j, a, b).
      and_then (resulting_judgment p j s now) (\<lambda>resulting.
      and_then (decide_judgment_row p (md_Memberships db) s now (md_Judgments db)) (\<lambda>t.
      and_then (insert_event (verdict_event (ids 0) (jp_JudgmentID p) (jp_RequestID p) (verdict_action (jp_Confirm p))
         (JudgmentStatus_str (judgment_verdict p)) (ComputeJudgmentHash resulting) s JudgmentPolicyVersion (jp_Resolution p) now) t) (\<lambda>t.
      and_then (if jp_Confirm p then project_relation db (j_FromID j) (j_ToID j) (j_Relation j) (ps_SubjectID s) now else Inr db) (\<lambda>db.
      and_then (supersede_confirmed_judgment p j (ps_SubjectID s) (ids 1) now t) (\<lambda>t.
      and_then (emit_verdict_receipt cfg db SubjectJudgment (j_ID j) (if jp_Confirm p then RelationConfirmed else RelationRejected)
         (verdict_payload (j_TenantID j) (j_CompanyID j) (j_FiscalPeriodID j) (ComputeJudgmentHash j) (ComputeJudgmentHash resulting)
            a b (jp_Resolution p) s JudgmentPolicyVersion) now) (\<lambda>db.
      Inr (db\<lparr>md_Judgments := complete_decision_key t (p_TenantID who) (jp_RequestID p) resulting (ids 0) now\<rparr>,
           resulting, ids 0, False)))))))))"

definition adjudicateJudgment :: "StoreConfig \<Rightarrow> MemoryDB \<Rightarrow> judgmentDecisionParams \<Rightarrow> Principal \<Rightarrow> string \<Rightarrow> (nat \<Rightarrow> string)
    \<Rightarrow> (MemoryDB \<times> JudgmentOutcome) result" where
  "adjudicateJudgment cfg db p who now ids =
     and_then (claim_key (md_Judgments db) (p_TenantID who) (jp_RequestID p)
        (decideJudgmentCommandHash (jp_JudgmentID p) (jp_ExpectedJudgmentHash p) (jp_Resolution p)) (p_SubjectID who) None now) (\<lambda>(t, replay).
     case replay of
       Some k \<Rightarrow> (case jk_Result k of None \<Rightarrow> Inl (PlainErr ''persistence error'') | Some (j, e) \<Rightarrow> Inr (db, j, e, True))
     | None \<Rightarrow> decide_judgment cfg (db\<lparr>md_Judgments := t\<rparr>) p who now ids)"

definition store_ConfirmJudgment :: "StoreConfig \<Rightarrow> MemoryDB \<Rightarrow> ConfirmJudgmentCommand \<Rightarrow> Principal \<Rightarrow> string \<Rightarrow> (nat \<Rightarrow> string)
    \<Rightarrow> (MemoryDB \<times> JudgmentOutcome) result" where
  "store_ConfirmJudgment cfg db cmd who now ids =
     and_then (ensure (\<not> blank (cj_Resolution cmd)) (AuthErr ''RESOLUTION_REQUIRED'')) (\<lambda>_.
     and_then (ensure (\<not> blank (cj_JudgmentID cmd) \<and> \<not> blank (cj_ExpectedJudgmentHash cmd) \<and> \<not> blank (cj_RequestID cmd))
       (AuthErr ''JUDGMENT_NOT_FOUND'')) (\<lambda>_.
     adjudicateJudgment cfg db \<lparr>jp_JudgmentID = cj_JudgmentID cmd, jp_Resolution = cj_Resolution cmd,
       jp_ExpectedJudgmentHash = cj_ExpectedJudgmentHash cmd, jp_RequestID = cj_RequestID cmd, jp_Confirm = True\<rparr> who now ids))"

definition store_RejectJudgment :: "StoreConfig \<Rightarrow> MemoryDB \<Rightarrow> RejectJudgmentCommand \<Rightarrow> Principal \<Rightarrow> string \<Rightarrow> (nat \<Rightarrow> string)
    \<Rightarrow> (MemoryDB \<times> JudgmentOutcome) result" where
  "store_RejectJudgment cfg db cmd who now ids =
     and_then (ensure (\<not> blank (xj_Reason cmd)) (AuthErr ''RESOLUTION_REQUIRED'')) (\<lambda>_.
     and_then (ensure (\<not> blank (xj_JudgmentID cmd) \<and> \<not> blank (xj_ExpectedJudgmentHash cmd) \<and> \<not> blank (xj_RequestID cmd))
       (AuthErr ''JUDGMENT_NOT_FOUND'')) (\<lambda>_.
     adjudicateJudgment cfg db \<lparr>jp_JudgmentID = xj_JudgmentID cmd, jp_Resolution = xj_Reason cmd,
       jp_ExpectedJudgmentHash = xj_ExpectedJudgmentHash cmd, jp_RequestID = xj_RequestID cmd, jp_Confirm = False\<rparr> who now ids))"

section \<open>Withdrawal\<close>

definition withdrawn_judgment :: "string \<Rightarrow> AccountingJudgment \<Rightarrow> AccountingJudgment" where
  "withdrawn_judgment now j = j\<lparr>j_Status := JudgmentWithdrawn, j_DecidedAt := now, j_UpdatedAt := now\<rparr>"

definition withdraw_writes :: "WithdrawJudgmentCommand \<Rightarrow> Source \<Rightarrow> AccountingJudgment \<Rightarrow> string \<Rightarrow> string \<Rightarrow> JudgmentTables
    \<Rightarrow> (JudgmentTables \<times> AccountingJudgment) result" where
  "withdraw_writes cmd caller j now eventID t =
     and_then (ensure (j_Status j = JudgmentProposed) (AuthErr ''INVALID_JUDGMENT_TRANSITION'')) (\<lambda>_.
     and_then (ensure (proposerBinding (j_Proposer j) = proposerBinding caller) (AuthErr ''PROPOSAL_UNAUTHORIZED'')) (\<lambda>_.
     and_then (update_judgment (wj_JudgmentID cmd) JudgmentProposed (withdrawn_judgment now) t) (\<lambda>t.
     and_then (WithdrawJudgment j now) (\<lambda>withdrawn.
     let withdrawn = withdrawn\<lparr>j_DecidedAt := now\<rparr> in
     and_then (insert_event (withdraw_event eventID (wj_JudgmentID cmd) (wj_RequestID cmd) (ComputeJudgmentHash withdrawn) now) t) (\<lambda>t.
     Inr (complete_decision_key t (j_TenantID j) (wj_RequestID cmd) withdrawn eventID now, withdrawn))))))"

definition store_WithdrawJudgment :: "MemoryDB \<Rightarrow> WithdrawJudgmentCommand \<Rightarrow> Source \<Rightarrow> string \<Rightarrow> string \<Rightarrow> (MemoryDB \<times> JudgmentOutcome) result" where
  "store_WithdrawJudgment db cmd caller now eventID =
     and_then (ensure (\<not> blank (wj_JudgmentID cmd) \<and> \<not> blank (wj_RequestID cmd)) (AuthErr ''JUDGMENT_NOT_FOUND'')) (\<lambda>_.
     and_then (ensure (CanPropose caller) (AuthErr ''PROPOSAL_UNAUTHORIZED'')) (\<lambda>_.
     and_then (from_option (AuthErr ''JUDGMENT_NOT_FOUND'') (readJudgment (md_Judgments db) (wj_JudgmentID cmd))) (\<lambda>j.
     and_then (claim_key (md_Judgments db) (j_TenantID j) (wj_RequestID cmd) (withdrawJudgmentCommandHash (wj_JudgmentID cmd))
        (proposerBinding caller) None now) (\<lambda>(t, replay).
     case replay of
       Some k \<Rightarrow> (case jk_Result k of None \<Rightarrow> Inl (PlainErr ''persistence error'') | Some (x, e) \<Rightarrow> Inr (db, x, e, True))
     | None \<Rightarrow>
         and_then (withdraw_writes cmd caller j now eventID t) (\<lambda>(t, x).
         Inr (db\<lparr>md_Judgments := t\<rparr>, x, eventID, False))))))"

section \<open>Reads\<close>

definition GetJudgment :: "MemoryDB \<Rightarrow> string \<Rightarrow> AccountingJudgment option" where
  "GetJudgment db i = readJudgment (md_Judgments db) i"

definition JudgmentSuccessorOf :: "MemoryDB \<Rightarrow> string \<Rightarrow> AccountingJudgment option" where
  "JudgmentSuccessorOf db i = Option.bind (route_of (md_Judgments db) i) (readJudgment (md_Judgments db))"

end
