(* ===== verification/Judgment_Steps.thy ===== *)
theory Judgment_Steps
  imports Adjudication_Steps Judgment_Store
begin

text \<open>The judgment handlers refine the docket of Adjudication_Docket.\<close>

section \<open>Judgments as cases\<close>

fun judgment_status :: "JudgmentStatus \<Rightarrow> string" where
  "judgment_status (JudgmentStatusOther s) = ''''"
| "judgment_status st = JudgmentStatus_str st"

lemma judgment_status_eq [simp]:
  "judgment_status s = ''proposed'' \<longleftrightarrow> s = JudgmentProposed" "judgment_status s = ''confirmed'' \<longleftrightarrow> s = JudgmentConfirmed"
  "judgment_status s = ''superseded'' \<longleftrightarrow> s = JudgmentSuperseded"
  by (cases s; simp)+

definition view_judgment :: "AccountingJudgment \<Rightarrow> AccountingJudgment DocketCase" where
  "view_judgment j = \<lparr>cs_ID = j_ID j, cs_Tuple = judgment_tuple j, cs_Predecessor = j_PredecessorID j,
     cs_Fixed = j\<lparr>j_Status := JudgmentProposed, j_Resolution := '''', j_Adjudicator := None, j_PolicyVersion := '''',
       j_SupersedesID := '''', j_UpdatedAt := '''', j_DecidedAt := ''''\<rparr>,
     cs_Status = judgment_status (j_Status j), cs_Successor = j_SupersedesID j,
     cs_Verdict = (j_Adjudicator j, j_Resolution j, j_PolicyVersion j)\<rparr>"

abbreviation judgment_docket :: "AccountingJudgment AdjudicationTables \<Rightarrow> AccountingJudgment Docket" where
  "judgment_docket \<equiv> docket_of view_judgment"

lemma view_judgment_simps [simp]:
  "cs_ID (view_judgment j) = j_ID j" "cs_Tuple (view_judgment j) = judgment_tuple j" "cs_Predecessor (view_judgment j) = j_PredecessorID j"
  "cs_Status (view_judgment j) = judgment_status (j_Status j)" "cs_Successor (view_judgment j) = j_SupersedesID j"
  "cs_Verdict (view_judgment j) = (j_Adjudicator j, j_Resolution j, j_PolicyVersion j)"
  by (simp_all add: view_judgment_def)

lemma judgment_ids: "docket_inv (judgment_docket t) \<Longrightarrow> distinct (map j_ID (ad_Rows t))"
  by (simp add: docket_inv_def ids_ok_def comp_def)

lemma readJudgment_eq:
  assumes "readJudgment t i = Some j" "distinct (map j_ID (ad_Rows t))" "x \<in> set (ad_Rows t)" "j_ID x = i"
  shows "x = j"
proof -
  have "j \<in> set (ad_Rows t)" "j_ID j = i" using find_SomeD [OF assms(1) [unfolded readJudgment_def]] by simp_all
  then show ?thesis using assms(2,3,4) unfolding distinct_map inj_on_def by blast
qed

lemma readJudgment_in: "readJudgment t i = Some j \<Longrightarrow> j \<in> set (ad_Rows t) \<and> j_ID j = i"
  unfolding readJudgment_def by (rule find_SomeD)

text \<open>A guarded update of the row a handler read, with its event.\<close>

lemma update_judgment_docket:
  assumes u: "update_judgment i from f t = Inr t1" and e: "insert_event e t1 = Inr t2"
    and inv: "docket_inv (judgment_docket t)" and r: "readJudgment t i = Some j"
    and f: "\<And>x. view_judgment (f x) = settled (view_judgment x) to (v x) (s x)"
  shows "j_Status j = from" "judgments_immutable_update j (f j)"
    "judgment_docket t2 = transit (view_judgment j) to (v j) (s j) e (judgment_docket t)" "fresh_event (judgment_docket t) e"
    "ad_Rows t2 = map (\<lambda>x. if x = j then f j else x) (ad_Rows t)"
proof -
  obtain a where a: "a \<in> set (ad_Rows t)" "j_ID a = i" "j_Status a = from" "judgments_immutable_update a (f a)"
    "judgment_docket t1 = (judgment_docket t)\<lparr>dt_Cases := map (settle i to (v a) (s a)) (dt_Cases (judgment_docket t))\<rparr>"
    "ad_Rows t1 = map (\<lambda>x. if x = a then f a else x) (ad_Rows t)"
    using guarded_update_docket [OF u [unfolded update_judgment_def] judgment_ids [OF inv], of view_judgment, OF _ f] by auto
  have "a = j" by (rule readJudgment_eq [OF r judgment_ids [OF inv] a(1,2)])
  with a show "j_Status j = from" "judgments_immutable_update j (f j)" by simp_all
  have "docket_of view_judgment t1 = (judgment_docket t)\<lparr>dt_Cases := map (settle (cs_ID (view_judgment j)) to (v j) (s j)) (dt_Cases (judgment_docket t))\<rparr>"
    using a(2,5) \<open>a = j\<close> by simp
  from settle_event [OF this e] show "judgment_docket t2 = transit (view_judgment j) to (v j) (s j) e (judgment_docket t)"
    "fresh_event (judgment_docket t) e" .
  show "ad_Rows t2 = map (\<lambda>x. if x = j then f j else x) (ad_Rows t)"
    using a(6) \<open>a = j\<close> insert_event_docket [OF e, of view_judgment] by simp
qed

lemma insert_judgment_docket:
  assumes "insert_judgment j t = Inr t'" "j_Status j = JudgmentProposed" "j_SupersedesID j = ''''"
    "(j_Adjudicator j, j_Resolution j, j_PolicyVersion j) = no_verdict" "j_ID j \<noteq> ''''"
  shows "opens (judgment_docket t) (view_judgment j)" "judgment_docket t' = enter (view_judgment j) (judgment_docket t)"
  using assms by (auto simp: insert_judgment_def opens_def enter_def docket_of_def list_ex_iff split: if_splits)

lemma proposed_judgment_simps [simp]:
  "j_ID (proposed_judgment cmd caller scope i now) = i" "j_Status (proposed_judgment cmd caller scope i now) = JudgmentProposed"
  "j_PredecessorID (proposed_judgment cmd caller scope i now) = pj_PredecessorID cmd"
  "j_SupersedesID (proposed_judgment cmd caller scope i now) = ''''" "j_Adjudicator (proposed_judgment cmd caller scope i now) = None"
  "j_Resolution (proposed_judgment cmd caller scope i now) = ''''" "j_PolicyVersion (proposed_judgment cmd caller scope i now) = ''''"
  "cs_Subject (view_judgment (proposed_judgment cmd caller scope i now)) = [pj_FromID cmd, pj_ToID cmd, Relation_str (pj_Relation cmd)]"
  by (simp_all add: proposed_judgment_def split_beta cs_Subject_def judgment_tuple_def)

lemma judgment_subject: "cs_Subject (view_judgment j) = [j_FromID j, j_ToID j, Relation_str (j_Relation j)]"
  by (simp add: cs_Subject_def judgment_tuple_def)

lemma judgment_predecessor_cases:
  assumes "judgment_predecessor cmd caller i eventID now t = Inr (t1, b)"
  obtains (none) "pj_PredecessorID cmd = ''''" "t1 = t" "\<not> b"
  | (confirmed) pred where "readJudgment t (pj_PredecessorID cmd) = Some pred" "t1 = t" "\<not> b"
      "cs_Subject (view_judgment pred) = [pj_FromID cmd, pj_ToID cmd, Relation_str (pj_Relation cmd)]"
  | (proposed) pred where "readJudgment t (pj_PredecessorID cmd) = Some pred" b
      "cs_Subject (view_judgment pred) = [pj_FromID cmd, pj_ToID cmd, Relation_str (pj_Relation cmd)]"
      "supersedeProposedPredecessor pred i (pj_RequestID cmd) eventID now t = Inr t1"
  using assms by (auto simp: judgment_predecessor_def guard_simps judgment_subject split: if_splits JudgmentStatus.splits)

lemma propose_writes_docket:
  assumes w: "propose_writes cmd caller scope now ids t = Inr (t', j)" and inv: "docket_inv (judgment_docket t)" and i: "ids 0 \<noteq> ''''"
  shows "docket_step (judgment_docket t) (judgment_docket t')"
proof -
  let ?j = "proposed_judgment cmd caller scope (ids 0) now"
  obtain t1 b t2 t3 where p: "judgment_predecessor cmd caller (ids 0) (ids 1) now t = Inr (t1, b)" and ins: "insert_judgment ?j t1 = Inr t2"
    and rt: "(if b then insert_route (pj_PredecessorID cmd) (ids 0) (proposerBinding caller) now t2 else Inr t2) = Inr t3"
    and done': "t' = complete_proposal_key t3 (fst scope) (pj_RequestID cmd) (ids 0) now"
    using w unfolding propose_writes_def guard_simps split_paired_Ex prod.case Let_def by (elim exE conjE) (rule that, auto)
  have t': "judgment_docket t' = judgment_docket t3" by (simp add: done')
  have op: "opens (judgment_docket t1) (view_judgment ?j)" "judgment_docket t2 = enter (view_judgment ?j) (judgment_docket t1)"
    using insert_judgment_docket [OF ins] i by (simp_all add: no_verdict_def)
  from p show ?thesis
  proof (cases rule: judgment_predecessor_cases)
    case none
    then show ?thesis using dk_enter [OF op(1)] op(2) rt by (simp add: t')
  next
    case (confirmed pred)
    have "\<exists>q \<in> set (dt_Cases (judgment_docket t)). cs_ID q = cs_Predecessor (view_judgment ?j) \<and> cs_Subject q = cs_Subject (view_judgment ?j)"
      using readJudgment_in [OF confirmed(1)] confirmed(4) by (intro bexI [of _ "view_judgment pred"]) simp_all
    then show ?thesis using dk_enter [OF op(1)] op(2) rt confirmed(2,3) by (simp add: t')
  next
    case (proposed pred)
    let ?e = "supersede_event (ids 1) (j_ID pred) (pj_RequestID cmd) ''proposed''
      (ComputeJudgmentHash (pred\<lparr>j_Status := JudgmentSuperseded, j_SupersedesID := ids 0, j_DecidedAt := now, j_UpdatedAt := now\<rparr>)) '''' now"
    obtain t0 where u: "update_judgment (j_ID pred) JudgmentProposed
        (\<lambda>j. j\<lparr>j_Status := JudgmentSuperseded, j_SupersedesID := ids 0, j_DecidedAt := now, j_UpdatedAt := now\<rparr>) t = Inr t0"
      and e: "insert_event ?e t0 = Inr t1"
      using proposed(4) unfolding supersedeProposedPredecessor_def guard_simps Let_def by blast
    have pred: "pred \<in> set (ad_Rows t)" "j_ID pred = pj_PredecessorID cmd" using readJudgment_in [OF proposed(1)] by simp_all
    note step = update_judgment_docket [OF u e inv, of pred "''superseded''" "\<lambda>x. cs_Verdict (view_judgment x)" "\<lambda>_. ids 0"]
    have s: "j_Status pred = JudgmentProposed" "fresh_event (judgment_docket t) ?e"
      "judgment_docket t1 = transit (view_judgment pred) ''superseded'' (cs_Verdict (view_judgment pred)) (ids 0) ?e (judgment_docket t)"
      using step proposed(1) pred(2) by (simp_all add: view_judgment_def settled_def judgment_tuple_def)
    have "judgment_docket t3 = (judgment_docket t2)\<lparr>dt_Routes := dt_Routes (judgment_docket t2) @ [(j_ID pred, ids 0)]\<rparr>"
      using rt proposed(2) insert_route_docket [of "pj_PredecessorID cmd" "ids 0" "proposerBinding caller" now t2 t3 view_judgment] pred(2)
      by simp
    then show ?thesis using s op pred proposed(3)
      by (intro dk_enter_correction [of "view_judgment pred" _ "view_judgment ?j" ?e]) (simp_all add: t')
  qed
qed

lemma judgment_gates_Inr:
  "judgment_gates db p who = Inr (j, a, b) \<longleftrightarrow>
     readJudgment (md_Judgments db) (jp_JudgmentID p) = Some j \<and> decision_pair db (j_FromID j) (j_ToID j) = Inr (a, b)
     \<and> j_Status j = JudgmentProposed \<and> EqualFold (TrimSpace (jp_ExpectedJudgmentHash p)) (ComputeJudgmentHash j)
     \<and> judgment_Authorize who (j_TenantID j) (j_CompanyID j) = None"
  by (auto simp: judgment_gates_def guard_simps split: option.splits)

lemma decide_judgment_cases:
  assumes "decide_judgment cfg db p who now ids = Inr (db', out)"
  obtains j a b resulting t1 t2 db1 t3 db2 action' payload where
    "judgment_gates db p who = Inr (j, a, b)" "resulting_judgment p j (PrincipalSnapshot_of who) now = Inr resulting"
    "decide_judgment_row p (md_Memberships db) (PrincipalSnapshot_of who) now (md_Judgments db) = Inr t1"
    "insert_event (verdict_event (ids 0) (jp_JudgmentID p) (jp_RequestID p) (verdict_action (jp_Confirm p))
         (JudgmentStatus_str (judgment_verdict p)) (ComputeJudgmentHash resulting) (PrincipalSnapshot_of who) JudgmentPolicyVersion
         (jp_Resolution p) now) t1 = Inr t2"
    "(if jp_Confirm p then project_relation db (j_FromID j) (j_ToID j) (j_Relation j) (ps_SubjectID (PrincipalSnapshot_of who)) now
      else Inr db) = Inr db1"
    "supersede_confirmed_judgment p j (ps_SubjectID (PrincipalSnapshot_of who)) (ids 1) now t2 = Inr t3"
    "emit_verdict_receipt cfg db1 SubjectJudgment (j_ID j) action' payload now = Inr db2"
    "db' = db2\<lparr>md_Judgments := complete_decision_key t3 (p_TenantID who) (jp_RequestID p) resulting (ids 0) now\<rparr>"
    "out = (resulting, ids 0, False)"
  using assms unfolding decide_judgment_def guard_simps split_paired_Ex prod.case Let_def
  by (elim exE conjE) (rule that, auto)

lemma supersede_confirmed_judgment_cases:
  assumes "supersede_confirmed_judgment p j subject eventID now t = Inr t'"
  obtains (none) "jp_Confirm p \<Longrightarrow> j_PredecessorID j = ''''" "t' = t"
  | (superseded) q where "jp_Confirm p" "j_PredecessorID j \<noteq> ''''" "readJudgment t (j_PredecessorID j) = Some q" "j_SupersedesID q = j_ID j" "t' = t"
  | (confirmed) q t1 x t2 where "jp_Confirm p" "j_PredecessorID j \<noteq> ''''" "readJudgment t (j_PredecessorID j) = Some q"
      "update_judgment (j_ID q) JudgmentConfirmed
         (\<lambda>x. x\<lparr>j_Status := JudgmentSuperseded, j_SupersedesID := j_ID j, j_UpdatedAt := now\<rparr>) t = Inr t1"
      "insert_event (supersede_event eventID (j_ID q) (jp_RequestID p) ''confirmed'' (ComputeJudgmentHash x) (jp_Resolution p) now) t1 = Inr t2"
      "insert_route (j_ID q) (j_ID j) subject now t2 = Inr t'"
proof (cases "jp_Confirm p \<and> j_PredecessorID j \<noteq> ''''")
  case False
  then show thesis using that(1) assms by (auto simp: supersede_confirmed_judgment_def)
next
  case True
  then obtain q where q: "readJudgment t (j_PredecessorID j) = Some q"
    using assms by (auto simp: supersede_confirmed_judgment_def guard_simps)
  show thesis
  proof (cases "j_Status q")
    case JudgmentConfirmed
    then show thesis using assms True q that(3) [OF _ _ q]
      by (simp add: supersede_confirmed_judgment_def guard_simps) blast
  next
    case JudgmentSuperseded
    then show thesis using assms True q that(2) [OF _ _ q] by (simp add: supersede_confirmed_judgment_def split: if_splits)
  qed (use assms True q in \<open>simp_all add: supersede_confirmed_judgment_def\<close>)
qed

lemma decide_judgment_docket:
  assumes d: "decide_judgment cfg db p who now ids = Inr (db', out)" and inv: "docket_inv (judgment_docket (md_Judgments db))"
  shows "docket_step (judgment_docket (md_Judgments db)) (judgment_docket (md_Judgments db'))"
proof -
  let ?t = "md_Judgments db" and ?s = "PrincipalSnapshot_of who"
  let ?a = "verdict_action (jp_Confirm p)" and ?to = "judgment_status (judgment_verdict p)"
  from d show ?thesis
  proof (cases rule: decide_judgment_cases)
    case (1 j a b resulting t1 t2 db1 t3 db2 action' payload)
    let ?e = "verdict_event (ids 0) (jp_JudgmentID p) (jp_RequestID p) ?a (JudgmentStatus_str (judgment_verdict p))
      (ComputeJudgmentHash resulting) ?s JudgmentPolicyVersion (jp_Resolution p) now"
    let ?c = "view_judgment j"
    have g: "readJudgment ?t (jp_JudgmentID p) = Some j" "j_Status j = JudgmentProposed" using 1(1) by (simp_all add: judgment_gates_Inr)
    have j: "j \<in> set (ad_Rows ?t)" "j_ID j = jp_JudgmentID p" using readJudgment_in [OF g(1)] by simp_all
    have c: "?c \<in> set (dt_Cases (judgment_docket ?t))" "cs_Status ?c = ''proposed''" using j(1) g(2) by simp_all
    have free: "j_SupersedesID j = ''''" using proposed_unrouted [OF inv c] by simp
    have u: "update_judgment (jp_JudgmentID p) JudgmentProposed
        (\<lambda>j. j\<lparr>j_Status := judgment_verdict p, j_Resolution := jp_Resolution p, j_PolicyVersion := JudgmentPolicyVersion,
            j_Adjudicator := stored_adjudicator ?s, j_DecidedAt := now, j_UpdatedAt := now\<rparr>) ?t = Inr t1"
      using 1(3) by (auto simp: decide_judgment_row_def guard_simps)
    note up = update_judgment_docket [OF u 1(4) inv g(1), of ?to "\<lambda>_. (stored_adjudicator ?s, jp_Resolution p, JudgmentPolicyVersion)" j_SupersedesID]
    have v: "verdict_of ?e = (stored_adjudicator ?s, jp_Resolution p, JudgmentPolicyVersion)"
      by (simp add: verdict_of_def verdict_event_def)
    have logs: "logs ?e (cs_ID ?c) ?a ''proposed'' ?to"
      using j(2) by (simp add: logs_def verdict_event_def verdict_action_def judgment_verdict_def)
    have upd: "judgment_docket t2 = transit ?c ?to (verdict_of ?e) '''' ?e (judgment_docket ?t)" "fresh_event (judgment_docket ?t) ?e"
      "ad_Rows t2 = map (\<lambda>x. if x = j then j\<lparr>j_Status := judgment_verdict p, j_Resolution := jp_Resolution p,
          j_PolicyVersion := JudgmentPolicyVersion, j_Adjudicator := stored_adjudicator ?s, j_DecidedAt := now, j_UpdatedAt := now\<rparr> else x) (ad_Rows ?t)"
      using up(3-5) free by (simp_all add: v view_judgment_def settled_def judgment_tuple_def)
    have other: "q \<in> set (ad_Rows ?t)" if "readJudgment t2 (j_PredecessorID j) = Some q" "j_PredecessorID j \<noteq> ''''" for q
    proof -
      have "q \<in> set (ad_Rows t2)" "j_ID q \<noteq> j_ID j" using readJudgment_in [OF that(1)] predecessor_other [OF inv c(1)] that(2) by simp_all
      then show ?thesis by (auto simp: upd(3) split: if_splits)
    qed
    have db': "judgment_docket (md_Judgments db') = judgment_docket t3" by (simp add: 1(8))
    have act: "(?a, ?to) \<in> {(''confirm'', ''confirmed''), (''reject'', ''rejected''), (''withdraw'', ''withdrawn'')}" "?a \<noteq> ''withdraw''"
      by (simp_all add: verdict_action_def judgment_verdict_def)
    from 1(6) show ?thesis
    proof (cases rule: supersede_confirmed_judgment_cases)
      case none
      then show ?thesis unfolding db' none(2) upd(1)
        by (intro dk_transit [OF c act(1) logs upd(2)]) (use act(2) in \<open>auto simp: verdict_action_def split: if_splits\<close>)
    next
      case (superseded q)
      have "\<exists>x \<in> set (dt_Cases (judgment_docket ?t)). cs_ID x = cs_Predecessor ?c \<and> cs_Successor x = cs_ID ?c"
        using other [OF superseded(3,2)] readJudgment_in [OF superseded(3)] superseded(4) by (intro bexI [of _ "view_judgment q"]) simp_all
      then show ?thesis unfolding db' superseded(5) upd(1)
        by (intro dk_transit [OF c act(1) logs upd(2)]) (use act(2) in simp_all)
    next
      case (confirmed q t1' x t2')
      let ?e' = "supersede_event (ids 1) (j_ID q) (jp_RequestID p) ''confirmed'' (ComputeJudgmentHash x) (jp_Resolution p) now"
      have conf: "?a = ''confirm''" "?to = ''confirmed''" using confirmed(1) by (simp_all add: verdict_action_def judgment_verdict_def)
      have logs': "logs ?e (cs_ID ?c) ''confirm'' ''proposed'' ''confirmed''" using logs by (simp only: conf)
      have t2: "judgment_docket t2 = transit ?c ''confirmed'' (verdict_of ?e) '''' ?e (judgment_docket ?t)" using upd(1) by (simp only: conf)
      have "admits (judgment_docket ?t) ?c ''confirm'' ''proposed'' ''confirmed'' ?e"
        using c logs' upd(2) by (simp only: admits_def transition_table_def) simp
      then have inv2: "docket_inv (judgment_docket t2)"
        unfolding t2 by (rule transit_inv [OF inv]) simp_all
      have q: "q \<in> set (ad_Rows ?t)" "j_ID q = j_PredecessorID j"
        using other [OF confirmed(3,2)] readJudgment_in [OF confirmed(3)] by simp_all
      have r: "readJudgment t2 (j_ID q) = Some q" using confirmed(3) q(2) by simp
      note up2 = update_judgment_docket [OF confirmed(4,5) inv2 r, of "''superseded''" "\<lambda>x. cs_Verdict (view_judgment x)" "\<lambda>_. j_ID j"]
      have s: "j_Status q = JudgmentConfirmed" "fresh_event (judgment_docket t2) ?e'"
        "judgment_docket t2' = transit (view_judgment q) ''superseded'' (cs_Verdict (view_judgment q)) (cs_ID ?c) ?e' (judgment_docket t2)"
        using up2(1,3,4) by (simp_all add: view_judgment_def settled_def judgment_tuple_def)
      have qc: "view_judgment q \<in> set (dt_Cases (judgment_docket ?t))" "cs_Status (view_judgment q) = ''confirmed''"
        "cs_ID (view_judgment q) = cs_Predecessor ?c" "cs_ID (view_judgment q) \<noteq> ''''" using q s(1) confirmed(2) by simp_all
      have "dt_Routes (judgment_docket t2') = dt_Routes (judgment_docket t2)" unfolding s(3) by (simp add: transit_def)
      then have "judgment_docket t3 = (transit (view_judgment q) ''superseded'' (cs_Verdict (view_judgment q)) (cs_ID ?c) ?e' (judgment_docket t2))
          \<lparr>dt_Routes := dt_Routes (judgment_docket t2) @ [(cs_ID (view_judgment q), cs_ID ?c)]\<rparr>"
        using insert_route_docket [OF confirmed(6), of view_judgment] s(3) by simp
      from dk_transit_correction [OF c qc logs' upd(2) t2 _ s(2) this] show ?thesis unfolding db' by simp
    qed
  qed
qed

section \<open>Withdrawal\<close>

lemma withdraw_writes_docket:
  assumes w: "withdraw_writes cmd caller j now eventID t = Inr (t', x)" and inv: "docket_inv (judgment_docket t)"
    and r: "readJudgment t (wj_JudgmentID cmd) = Some j"
  shows "docket_step (judgment_docket t) (judgment_docket t')"
proof -
  obtain t1 y t2 where g: "j_Status j = JudgmentProposed" and u: "update_judgment (wj_JudgmentID cmd) JudgmentProposed (withdrawn_judgment now) t = Inr t1"
    and e: "insert_event (withdraw_event eventID (wj_JudgmentID cmd) (wj_RequestID cmd) (ComputeJudgmentHash y) now) t1 = Inr t2"
    and t': "judgment_docket t' = judgment_docket t2"
    using w unfolding withdraw_writes_def guard_simps Let_def by auto
  let ?e = "withdraw_event eventID (wj_JudgmentID cmd) (wj_RequestID cmd) (ComputeJudgmentHash y) now"
  have j: "j \<in> set (ad_Rows t)" "j_ID j = wj_JudgmentID cmd" using readJudgment_in [OF r] by simp_all
  have c: "view_judgment j \<in> set (dt_Cases (judgment_docket t))" "cs_Status (view_judgment j) = ''proposed''" using j(1) g by simp_all
  have free: "j_SupersedesID j = ''''" using proposed_unrouted [OF inv c] by simp
  note up = update_judgment_docket [OF u e inv r, of "''withdrawn''" "\<lambda>x. cs_Verdict (view_judgment x)" j_SupersedesID]
  have s: "fresh_event (judgment_docket t) ?e"
    "judgment_docket t2 = transit (view_judgment j) ''withdrawn'' (cs_Verdict (view_judgment j)) '''' ?e (judgment_docket t)"
    using up(3,4) free by (simp_all add: view_judgment_def settled_def judgment_tuple_def withdrawn_judgment_def)
  show ?thesis unfolding t' s(2)
    by (rule dk_transit [OF c, of "''withdraw''"]) (use j(2) s(1) in simp_all)
qed

section \<open>Handlers\<close>

text \<open>An act of the judgment machine; a minted id is not empty.\<close>

inductive judgment_act :: "StoreConfig \<Rightarrow> MemoryDB \<Rightarrow> MemoryDB \<Rightarrow> bool" for cfg where
  ja_propose: "ProposeJudgment db pc caller now ids = Inr (db', out) \<Longrightarrow> ids 0 \<noteq> '''' \<Longrightarrow> judgment_act cfg db db'"
| ja_confirm: "store_ConfirmJudgment cfg db cc who now ids = Inr (db', out) \<Longrightarrow> judgment_act cfg db db'"
| ja_reject: "store_RejectJudgment cfg db xc who now ids = Inr (db', out) \<Longrightarrow> judgment_act cfg db db'"
| ja_withdraw: "store_WithdrawJudgment db wc caller now i = Inr (db', out) \<Longrightarrow> judgment_act cfg db db'"

inductive_cases judgment_actE: "judgment_act cfg db db'"

definition judgment_effect :: "MemoryDB \<Rightarrow> MemoryDB \<Rightarrow> bool" where
  "judgment_effect db db' \<longleftrightarrow> core_kept db db' \<and> md_Reconciliations db' = md_Reconciliations db
     \<and> (docket_inv (judgment_docket (md_Judgments db)) \<longrightarrow> judgment_docket (md_Judgments db') = judgment_docket (md_Judgments db)
        \<or> docket_step (judgment_docket (md_Judgments db)) (judgment_docket (md_Judgments db')))"

lemma judgment_effect_refl [simp]: "judgment_effect db db"
  by (simp add: judgment_effect_def)

lemma ProposeJudgment_effect:
  assumes h: "ProposeJudgment db cmd caller now ids = Inr (db', out)" and i: "ids 0 \<noteq> ''''"
  shows "judgment_effect db db'"
proof -
  obtain scope t replay where k: "claim_key (md_Judgments db) (fst scope) (pj_RequestID cmd) (proposeJudgmentCommandHash cmd)
      (proposerBinding caller) (Some (ids 0)) now = Inr (t, replay)"
    and c: "(case replay of
       Some k \<Rightarrow>
         and_then (replay_proposal t k [fst scope, fst (snd scope), pj_FromID cmd, pj_ToID cmd, Relation_str (pj_Relation cmd)]) (\<lambda>j.
         Inr (db, j, '''', True))
     | None \<Rightarrow>
         and_then (propose_writes cmd caller scope now ids t) (\<lambda>(t, j).
         Inr (db\<lparr>md_Judgments := t\<rparr>, j, '''', False))) = Inr (db', out)"
    using h unfolding ProposeJudgment_def and_then_eq_Inr split_paired_Ex prod.case by blast
  show ?thesis
  proof (cases replay)
    case None
    then obtain t' j where w: "propose_writes cmd caller scope now ids t = Inr (t', j)" "db' = db\<lparr>md_Judgments := t'\<rparr>"
      using c by (auto simp: guard_simps)
    have "judgment_docket t = judgment_docket (md_Judgments db)" using claim_key_docket k None by blast
    then show ?thesis using propose_writes_docket [OF w(1) _ i] by (simp add: w(2) judgment_effect_def)
  qed (use c in \<open>auto simp: guard_simps split: option.splits\<close>)
qed

lemma adjudicateJudgment_effect:
  assumes h: "adjudicateJudgment cfg db p who now ids = Inr (db', out)"
  shows "judgment_effect db db'"
proof -
  obtain t replay where k: "claim_key (md_Judgments db) (p_TenantID who) (jp_RequestID p)
        (decideJudgmentCommandHash (jp_JudgmentID p) (jp_ExpectedJudgmentHash p) (jp_Resolution p)) (p_SubjectID who) None now = Inr (t, replay)"
    and c: "(case replay of
       Some k \<Rightarrow> (case jk_Result k of None \<Rightarrow> Inl (PlainErr ''persistence error'') | Some (j, e) \<Rightarrow> Inr (db, j, e, True))
     | None \<Rightarrow> decide_judgment cfg (db\<lparr>md_Judgments := t\<rparr>) p who now ids) = Inr (db', out)"
    using h unfolding adjudicateJudgment_def and_then_eq_Inr split_paired_Ex prod.case by blast
  show ?thesis
  proof (cases replay)
    case None
    let ?db = "db\<lparr>md_Judgments := t\<rparr>"
    have d: "decide_judgment cfg ?db p who now ids = Inr (db', out)" using c None by simp
    have t: "judgment_docket (md_Judgments ?db) = judgment_docket (md_Judgments db)" using claim_key_docket k None by (simp, blast)
    then have "docket_step (judgment_docket (md_Judgments db)) (judgment_docket (md_Judgments db'))"
      if "docket_inv (judgment_docket (md_Judgments db))"
      using decide_judgment_docket [OF d] that by (simp only:)
    moreover have "core_kept ?db db' \<and> md_Reconciliations db' = md_Reconciliations db"
      using d
    proof (cases rule: decide_judgment_cases)
      case (1 j a b resulting t1 t2 db1 t3 db2 action' payload)
      have "quiet ?db db1" using 1(5) by (auto split: if_splits dest: project_relation_quiet)
      moreover note emit_verdict_receipt_quiet [OF 1(7)]
      ultimately have "quiet ?db db2" by (rule quiet_trans)
      then have "core_kept ?db db2" "md_Reconciliations db2 = md_Reconciliations db" using quiet_core quiet_tables by force+
      then show ?thesis unfolding 1(8) using core_kept_trans core_kept_tables(1) by fastforce
    qed
    ultimately show ?thesis unfolding judgment_effect_def using core_kept_trans core_kept_tables(1) by blast
  qed (use c in \<open>auto simp: guard_simps split: option.splits\<close>)
qed

lemma WithdrawJudgment_effect:
  assumes h: "store_WithdrawJudgment db cmd caller now eventID = Inr (db', out)"
  shows "judgment_effect db db'"
proof -
  obtain j t replay where r: "readJudgment (md_Judgments db) (wj_JudgmentID cmd) = Some j"
    and k: "claim_key (md_Judgments db) (j_TenantID j) (wj_RequestID cmd) (withdrawJudgmentCommandHash (wj_JudgmentID cmd))
        (proposerBinding caller) None now = Inr (t, replay)"
    and c: "(case replay of
       Some k \<Rightarrow> (case jk_Result k of None \<Rightarrow> Inl (PlainErr ''persistence error'') | Some (x, e) \<Rightarrow> Inr (db, x, e, True))
     | None \<Rightarrow>
         and_then (withdraw_writes cmd caller j now eventID t) (\<lambda>(t, x).
         Inr (db\<lparr>md_Judgments := t\<rparr>, x, eventID, False))) = Inr (db', out)"
    using h unfolding store_WithdrawJudgment_def and_then_eq_Inr from_option_eq_Inr split_paired_Ex prod.case by blast
  show ?thesis
  proof (cases replay)
    case None
    then obtain t' x where w: "withdraw_writes cmd caller j now eventID t = Inr (t', x)" "db' = db\<lparr>md_Judgments := t'\<rparr>"
      using c by (auto simp: guard_simps)
    have t: "judgment_docket t = judgment_docket (md_Judgments db)" "ad_Rows t = ad_Rows (md_Judgments db)"
      using claim_key_docket k None by blast+
    have "readJudgment t (wj_JudgmentID cmd) = Some j" using r by (simp add: readJudgment_def t(2))
    then show ?thesis using withdraw_writes_docket [OF w(1)] t(1) by (simp add: w(2) judgment_effect_def)
  qed (use c in \<open>auto simp: guard_simps split: option.splits\<close>)
qed

lemma judgment_act_effect:
  assumes "judgment_act cfg db db'"
  shows "judgment_effect db db'"
  using assms
proof cases
  case ja_propose
  then show ?thesis using ProposeJudgment_effect by blast
next
  case ja_confirm
  then show ?thesis using adjudicateJudgment_effect unfolding store_ConfirmJudgment_def guard_simps by blast
next
  case ja_reject
  then show ?thesis using adjudicateJudgment_effect unfolding store_RejectJudgment_def guard_simps by blast
next
  case ja_withdraw
  then show ?thesis using WithdrawJudgment_effect by blast
qed

end
