(* ===== verification/Reconciliation_Store.thy ===== *)
theory Reconciliation_Store
  imports Adjudication_Store Authz
begin

text \<open>
  The reconciliation handlers of internal/store/reconciliation.go: the judgment handlers' shape over
  the reconciliation machine of Judgment. Amounts are int64 cents, the variance is the wrapped
  difference, and the schema checks it against the exact one. The store's handlers share their names
  with the pure transitions and carry the prefix \<open>store_\<close>.
\<close>

section \<open>Commands\<close>

record ProposeReconciliationCommand =
  pr_LeftMemoryID :: string
  pr_RightMemoryID :: string
  pr_Method :: string
  pr_Currency :: string
  pr_LeftAmountCents :: "64 word"
  pr_RightAmountCents :: "64 word"
  pr_ToleranceCents :: "64 word"
  pr_Reason :: string
  pr_PredecessorID :: string
  pr_RequestID :: string

record ConfirmReconciliationCommand =
  cr_ReconciliationID :: string
  cr_Resolution :: string
  cr_ExpectedReconciliationHash :: string
  cr_RequestID :: string

record RejectReconciliationCommand =
  xr_ReconciliationID :: string
  xr_Reason :: string
  xr_ExpectedReconciliationHash :: string
  xr_RequestID :: string

record WithdrawReconciliationCommand =
  wr_ReconciliationID :: string
  wr_RequestID :: string

type_synonym ReconciliationOutcome = "Reconciliation \<times> string \<times> bool"

definition ReconciliationPolicyVersion :: string where
  "ReconciliationPolicyVersion = ''reconciliation-policy/v0.5.0''"

definition proposeReconciliationCommandHash :: "ProposeReconciliationCommand \<Rightarrow> string" where
  "proposeReconciliationCommandHash cmd =
     sha256_hex (pr_LeftMemoryID cmd @ NUL @ pr_RightMemoryID cmd @ NUL @ pr_Method cmd @ NUL @ pr_Currency cmd @ NUL
       @ dec_int (sint (pr_LeftAmountCents cmd)) @ NUL @ dec_int (sint (pr_RightAmountCents cmd)) @ NUL
       @ dec_int (sint (pr_ToleranceCents cmd)) @ NUL @ pr_Reason cmd @ NUL @ pr_PredecessorID cmd)"

definition decideReconciliationCommandHash :: "string \<Rightarrow> string \<Rightarrow> string \<Rightarrow> string" where
  "decideReconciliationCommandHash reconciliationID expectedHash resolution =
     sha256_hex (reconciliationID @ NUL @ map ascii_lower expectedHash @ NUL @ resolution)"

definition withdrawReconciliationCommandHash :: "string \<Rightarrow> string" where
  "withdrawReconciliationCommandHash reconciliationID = sha256_hex reconciliationID"

section \<open>Rows\<close>

type_synonym ReconciliationTables = "Reconciliation AdjudicationTables"

definition readReconciliation :: "ReconciliationTables \<Rightarrow> string \<Rightarrow> Reconciliation option" where
  "readReconciliation t i = find (\<lambda>r. r_ID r = i) (ad_Rows t)"

definition reconciliation_tuple :: "Reconciliation \<Rightarrow> string list" where
  "reconciliation_tuple r = [r_TenantID r, r_CompanyID r, r_LeftMemoryID r, r_RightMemoryID r, r_Method r]"

definition readOpenReconciliation :: "ReconciliationTables \<Rightarrow> string list \<Rightarrow> Reconciliation option" where
  "readOpenReconciliation t tuple = find (\<lambda>r. reconciliation_tuple r = tuple \<and> r_Status r = ReconciliationProposed) (ad_Rows t)"

definition readLatestTupleReconciliation :: "ReconciliationTables \<Rightarrow> string list \<Rightarrow> Reconciliation option" where
  "readLatestTupleReconciliation t tuple = find (\<lambda>r. reconciliation_tuple r = tuple) (rev (ad_Rows t))"

text \<open>The trigger reconciliations_immutable_update.\<close>

definition reconciliations_immutable_update :: "Reconciliation \<Rightarrow> Reconciliation \<Rightarrow> bool" where
  "reconciliations_immutable_update old new \<longleftrightarrow>
     r_Status old \<notin> {ReconciliationRejected, ReconciliationWithdrawn, ReconciliationSuperseded}
     \<and> (r_Status old = ReconciliationConfirmed \<longrightarrow>
          r_Status new = ReconciliationSuperseded \<and> r_SupersedesID old = '''' \<and> r_SupersedesID new \<noteq> ''''
          \<and> new\<lparr>r_Status := r_Status old, r_SupersedesID := r_SupersedesID old\<rparr> = old)"

definition update_reconciliation :: "string \<Rightarrow> ReconciliationStatus \<Rightarrow> (Reconciliation \<Rightarrow> Reconciliation) \<Rightarrow> ReconciliationTables \<Rightarrow> ReconciliationTables result" where
  "update_reconciliation i from f t =
     guarded_update reconciliations_immutable_update (\<lambda>r. r_ID r = i \<and> r_Status r = from) f
       (StoreErr ''IMMUTABLE_RECONCILIATION'') (AuthErr ''INVALID_RECONCILIATION_TRANSITION'') t"

text \<open>
  The primary key, the checks of the amounts and the partial unique index over open tuples. SQLite
  continues an overflowing subtraction in floating point, where it never equals a wrapped integer.
\<close>

definition insert_reconciliation :: "Reconciliation \<Rightarrow> ReconciliationTables \<Rightarrow> ReconciliationTables result" where
  "insert_reconciliation r t =
     (if r_VarianceCents r \<noteq> r_LeftAmountCents r - r_RightAmountCents r \<or> r_ToleranceCents r < 0 then Inl (StoreErr ''CHECK'')
      else if list_ex (\<lambda>x. r_ID x = r_ID r) (ad_Rows t) then Inl (StoreErr ''PRIMARY KEY'')
      else if list_ex (\<lambda>x. reconciliation_tuple x = reconciliation_tuple r \<and> r_Status x = ReconciliationProposed) (ad_Rows t)
      then Inl (AuthErr ''RECONCILIATION_CONFLICT'')
      else Inr (t\<lparr>ad_Rows := ad_Rows t @ [r]\<rparr>))"

section \<open>Proposal\<close>

definition proposed_reconciliation :: "ProposeReconciliationCommand \<Rightarrow> Source \<Rightarrow> string \<times> string \<times> string \<Rightarrow> string \<Rightarrow> string \<Rightarrow> Reconciliation" where
  "proposed_reconciliation cmd caller = (\<lambda>(tenant, company, period) i now.
     \<lparr>r_ID = i, r_TenantID = tenant, r_CompanyID = company, r_FiscalPeriodID = period, r_LeftMemoryID = pr_LeftMemoryID cmd,
      r_RightMemoryID = pr_RightMemoryID cmd, r_Method = pr_Method cmd, r_Currency = pr_Currency cmd,
      r_LeftAmountCents = sint (pr_LeftAmountCents cmd), r_RightAmountCents = sint (pr_RightAmountCents cmd),
      r_VarianceCents = sint (pr_LeftAmountCents cmd - pr_RightAmountCents cmd), r_ToleranceCents = sint (pr_ToleranceCents cmd),
      r_Status = ReconciliationProposed, r_Proposer = stored_proposer caller, r_ProposalReason = pr_Reason cmd, r_Resolution = '''',
      r_Adjudicator = None, r_PolicyVersion = '''', r_PredecessorID = pr_PredecessorID cmd, r_SupersedesID = '''',
      r_ProposedAt = now, r_DecidedAt = ''''\<rparr>)"

definition supersedeProposedReconciliationPredecessor :: "Reconciliation \<Rightarrow> string \<Rightarrow> string \<Rightarrow> string \<Rightarrow> string \<Rightarrow> ReconciliationTables \<Rightarrow> ReconciliationTables result" where
  "supersedeProposedReconciliationPredecessor pred successorID requestID eventID now t =
     (let f = \<lambda>r. r\<lparr>r_Status := ReconciliationSuperseded, r_SupersedesID := successorID, r_DecidedAt := now\<rparr>
      in and_then (update_reconciliation (r_ID pred) ReconciliationProposed f t) (\<lambda>t.
         insert_event (supersede_event eventID (r_ID pred) requestID ''proposed'' (ComputeReconciliationHash (f pred)) '''' now) t))"

definition reconciliation_predecessor :: "ProposeReconciliationCommand \<Rightarrow> Source \<Rightarrow> string \<Rightarrow> string \<Rightarrow> string \<Rightarrow> ReconciliationTables
    \<Rightarrow> (ReconciliationTables \<times> bool) result" where
  "reconciliation_predecessor cmd caller i eventID now t =
     (if pr_PredecessorID cmd = '''' then Inr (t, False)
      else and_then (from_option (AuthErr ''RECONCILIATION_NOT_FOUND'') (readReconciliation t (pr_PredecessorID cmd))) (\<lambda>pred.
        if r_LeftMemoryID pred \<noteq> pr_LeftMemoryID cmd \<or> r_RightMemoryID pred \<noteq> pr_RightMemoryID cmd \<or> r_Method pred \<noteq> pr_Method cmd
        then Inl (AuthErr ''RECONCILIATION_CONFLICT'')
        else case r_Status pred of
          ReconciliationConfirmed \<Rightarrow> Inr (t, False)
        | ReconciliationProposed \<Rightarrow>
            if proposerBinding (r_Proposer pred) \<noteq> proposerBinding caller then Inl (AuthErr ''PROPOSAL_UNAUTHORIZED'')
            else and_then (supersedeProposedReconciliationPredecessor pred i (pr_RequestID cmd) eventID now t) (\<lambda>t. Inr (t, True))
        | _ \<Rightarrow> Inl (AuthErr ''INVALID_RECONCILIATION_TRANSITION'')))"

definition replay_reconciliation :: "ReconciliationTables \<Rightarrow> Reconciliation AdjudicationKey \<Rightarrow> string list \<Rightarrow> Reconciliation result" where
  "replay_reconciliation t k tuple =
     (case Option.bind (jk_EntityID k) (readReconciliation t) of Some r \<Rightarrow> Inr r
      | None \<Rightarrow> (case readOpenReconciliation t tuple of Some r \<Rightarrow> Inr r
          | None \<Rightarrow> from_option (AuthErr ''RECONCILIATION_NOT_FOUND'') (readLatestTupleReconciliation t tuple)))"

definition propose_reconciliation_writes :: "ProposeReconciliationCommand \<Rightarrow> Source \<Rightarrow> string \<times> string \<times> string \<Rightarrow> string \<Rightarrow> (nat \<Rightarrow> string)
    \<Rightarrow> ReconciliationTables \<Rightarrow> (ReconciliationTables \<times> Reconciliation) result" where
  "propose_reconciliation_writes cmd caller scope now ids t =
     (let r = proposed_reconciliation cmd caller scope (ids 0) now
      in and_then (reconciliation_predecessor cmd caller (ids 0) (ids 1) now t) (\<lambda>(t, superseded).
         and_then (insert_reconciliation r t) (\<lambda>t.
         and_then (if superseded then insert_route (pr_PredecessorID cmd) (ids 0) (proposerBinding caller) now t else Inr t) (\<lambda>t.
         Inr (complete_proposal_key t (fst scope) (pr_RequestID cmd) (ids 0) now, r)))))"

definition ProposeReconciliation :: "MemoryDB \<Rightarrow> ProposeReconciliationCommand \<Rightarrow> Source \<Rightarrow> string \<Rightarrow> (nat \<Rightarrow> string) \<Rightarrow> (MemoryDB \<times> ReconciliationOutcome) result" where
  "ProposeReconciliation db cmd caller now ids =
     and_then (ensure (\<not> blank (pr_LeftMemoryID cmd) \<and> \<not> blank (pr_RightMemoryID cmd) \<and> \<not> blank (pr_Method cmd)
        \<and> \<not> blank (pr_Currency cmd) \<and> \<not> blank (pr_Reason cmd) \<and> \<not> blank (pr_RequestID cmd)) (AuthErr ''RECONCILIATION_NOT_FOUND'')) (\<lambda>_.
     and_then (ensure (CanPropose caller) (AuthErr ''PROPOSAL_UNAUTHORIZED'')) (\<lambda>_.
     and_then (ensure (pr_LeftMemoryID cmd \<noteq> pr_RightMemoryID cmd) (AuthErr ''RECONCILIATION_NOT_FOUND'')) (\<lambda>_.
     and_then (ensure (0 \<le> sint (pr_ToleranceCents cmd)) (AuthErr ''RECONCILIATION_NOT_FOUND'')) (\<lambda>_.
     and_then (proposal_scope db (pr_LeftMemoryID cmd) (pr_RightMemoryID cmd)) (\<lambda>scope.
     and_then (claim_key (md_Reconciliations db) (fst scope) (pr_RequestID cmd) (proposeReconciliationCommandHash cmd)
        (proposerBinding caller) (Some (ids 0)) now) (\<lambda>(t, replay).
     case replay of
       Some k \<Rightarrow>
         and_then (replay_reconciliation t k [fst scope, fst (snd scope), pr_LeftMemoryID cmd, pr_RightMemoryID cmd, pr_Method cmd]) (\<lambda>r.
         Inr (db, r, '''', True))
     | None \<Rightarrow>
         and_then (propose_reconciliation_writes cmd caller scope now ids t) (\<lambda>(t, r).
         Inr (db\<lparr>md_Reconciliations := t\<rparr>, r, '''', False))))))))"

section \<open>Decision\<close>

record reconciliationDecisionParams =
  qp_ReconciliationID :: string
  qp_Resolution :: string
  qp_ExpectedReconciliationHash :: string
  qp_RequestID :: string
  qp_Confirm :: bool

definition reconciliation_verdict :: "reconciliationDecisionParams \<Rightarrow> ReconciliationStatus" where
  "reconciliation_verdict p = (if qp_Confirm p then ReconciliationConfirmed else ReconciliationRejected)"

text \<open>Steps 3 to 6: the locked row, both observations, the status gate, the reviewed hash and the policy.\<close>

definition reconciliation_gates :: "MemoryDB \<Rightarrow> reconciliationDecisionParams \<Rightarrow> Principal \<Rightarrow> (Reconciliation \<times> AccountingMemory \<times> AccountingMemory) result" where
  "reconciliation_gates db p who =
     and_then (from_option (AuthErr ''RECONCILIATION_NOT_FOUND'') (readReconciliation (md_Reconciliations db) (qp_ReconciliationID p))) (\<lambda>r.
     and_then (decision_pair db (r_LeftMemoryID r) (r_RightMemoryID r)) (\<lambda>(a, b).
     and_then (ensure (r_Status r = ReconciliationProposed) (AuthErr ''INVALID_RECONCILIATION_TRANSITION'')) (\<lambda>_.
     and_then (ensure (EqualFold (TrimSpace (qp_ExpectedReconciliationHash p)) (ComputeReconciliationHash r)) (AuthErr ''RECONCILIATION_HASH_MISMATCH'')) (\<lambda>_.
     and_then (case reconciliation_Authorize who (r_TenantID r) (r_CompanyID r) of Some code \<Rightarrow> Inl (AuthErr code) | None \<Rightarrow> Inr ()) (\<lambda>_.
     Inr (r, a, b))))))"

definition resulting_reconciliation :: "reconciliationDecisionParams \<Rightarrow> Reconciliation \<Rightarrow> PrincipalSnapshot \<Rightarrow> string \<Rightarrow> Reconciliation result" where
  "resulting_reconciliation p r snapshot now =
     (if qp_Confirm p then ConfirmReconciliation r (qp_Resolution p) (Some snapshot) ReconciliationPolicyVersion now
      else RejectReconciliation r (qp_Resolution p) (Some snapshot) ReconciliationPolicyVersion now)"

text \<open>Step 8: the columns of the guarded update; the membership is a foreign key.\<close>

definition decide_reconciliation_row :: "reconciliationDecisionParams \<Rightarrow> string list \<Rightarrow> PrincipalSnapshot \<Rightarrow> string \<Rightarrow> ReconciliationTables \<Rightarrow> ReconciliationTables result" where
  "decide_reconciliation_row p memberships snapshot now t =
     and_then (update_reconciliation (qp_ReconciliationID p) ReconciliationProposed
        (\<lambda>r. r\<lparr>r_Status := reconciliation_verdict p, r_Resolution := qp_Resolution p, r_PolicyVersion := ReconciliationPolicyVersion,
            r_Adjudicator := stored_adjudicator snapshot, r_DecidedAt := now\<rparr>) t) (\<lambda>t.
     and_then (ensure (sql_nonempty (qp_Resolution p)) (StoreErr ''CHECK'')) (\<lambda>_.
     and_then (ensure (ps_MembershipID snapshot \<in> set memberships) (StoreErr ''FOREIGN KEY'')) (\<lambda>_.
     Inr t)))"

text \<open>Step 11: a confirmed correction supersedes its confirmed predecessor.\<close>

definition supersede_confirmed_reconciliation :: "reconciliationDecisionParams \<Rightarrow> Reconciliation \<Rightarrow> string \<Rightarrow> string \<Rightarrow> string \<Rightarrow> ReconciliationTables \<Rightarrow> ReconciliationTables result" where
  "supersede_confirmed_reconciliation p r subject eventID now t =
     (if \<not> qp_Confirm p \<or> r_PredecessorID r = '''' then Inr t
      else and_then (from_option (AuthErr ''RECONCILIATION_NOT_FOUND'') (readReconciliation t (r_PredecessorID r))) (\<lambda>pred.
        case r_Status pred of
          ReconciliationConfirmed \<Rightarrow>
            and_then (update_reconciliation (r_ID pred) ReconciliationConfirmed
              (\<lambda>x. x\<lparr>r_Status := ReconciliationSuperseded, r_SupersedesID := r_ID r\<rparr>) t) (\<lambda>t.
            and_then (SupersedeReconciliation pred (r_ID r)) (\<lambda>superseded.
            and_then (insert_event (supersede_event eventID (r_ID pred) (qp_RequestID p) ''confirmed''
              (ComputeReconciliationHash superseded) (qp_Resolution p) now) t) (\<lambda>t.
            insert_route (r_ID pred) (r_ID r) subject now t)))
        | ReconciliationSuperseded \<Rightarrow>
            if r_SupersedesID pred \<noteq> r_ID r then Inl (AuthErr ''INVALID_RECONCILIATION_TRANSITION'') else Inr t
        | _ \<Rightarrow> Inl (AuthErr ''INVALID_RECONCILIATION_TRANSITION'')))"

text \<open>Steps 3 to 13: \<open>ids 0\<close> is the decision event, \<open>ids 1\<close> the event of the superseded predecessor.\<close>

definition decide_reconciliation :: "StoreConfig \<Rightarrow> MemoryDB \<Rightarrow> reconciliationDecisionParams \<Rightarrow> Principal \<Rightarrow> string \<Rightarrow> (nat \<Rightarrow> string)
    \<Rightarrow> (MemoryDB \<times> ReconciliationOutcome) result" where
  "decide_reconciliation cfg db p who now ids =
     (let s = PrincipalSnapshot_of who in
      and_then (reconciliation_gates db p who) (\<lambda>(r, a, b).
      and_then (resulting_reconciliation p r s now) (\<lambda>resulting.
      and_then (decide_reconciliation_row p (md_Memberships db) s now (md_Reconciliations db)) (\<lambda>t.
      and_then (insert_event (verdict_event (ids 0) (qp_ReconciliationID p) (qp_RequestID p) (verdict_action (qp_Confirm p))
         (ReconciliationStatus_str (reconciliation_verdict p)) (ComputeReconciliationHash resulting) s ReconciliationPolicyVersion (qp_Resolution p) now) t) (\<lambda>t.
      and_then (if qp_Confirm p then project_relation db (r_LeftMemoryID r) (r_RightMemoryID r) RelationReconciles (ps_SubjectID s) now else Inr db) (\<lambda>db.
      and_then (supersede_confirmed_reconciliation p r (ps_SubjectID s) (ids 1) now t) (\<lambda>t.
      and_then (emit_verdict_receipt cfg db SubjectReconciliation (r_ID r) (if qp_Confirm p then ReconciliationConfirmedAct else ReconciliationRejectedAct)
         ((verdict_payload (r_TenantID r) (r_CompanyID r) (r_FiscalPeriodID r) (ComputeReconciliationHash r) (ComputeReconciliationHash resulting)
            a b (qp_Resolution p) s ReconciliationPolicyVersion)\<lparr>py_Version := ReceiptPayloadVersionV05\<rparr>) now) (\<lambda>db.
      Inr (db\<lparr>md_Reconciliations := complete_decision_key t (p_TenantID who) (qp_RequestID p) resulting (ids 0) now\<rparr>,
           resulting, ids 0, False)))))))))"

definition adjudicateReconciliation :: "StoreConfig \<Rightarrow> MemoryDB \<Rightarrow> reconciliationDecisionParams \<Rightarrow> Principal \<Rightarrow> string \<Rightarrow> (nat \<Rightarrow> string)
    \<Rightarrow> (MemoryDB \<times> ReconciliationOutcome) result" where
  "adjudicateReconciliation cfg db p who now ids =
     and_then (claim_key (md_Reconciliations db) (p_TenantID who) (qp_RequestID p)
        (decideReconciliationCommandHash (qp_ReconciliationID p) (qp_ExpectedReconciliationHash p) (qp_Resolution p)) (p_SubjectID who) None now) (\<lambda>(t, replay).
     case replay of
       Some k \<Rightarrow> (case jk_Result k of None \<Rightarrow> Inl (PlainErr ''persistence error'') | Some (r, e) \<Rightarrow> Inr (db, r, e, True))
     | None \<Rightarrow> decide_reconciliation cfg (db\<lparr>md_Reconciliations := t\<rparr>) p who now ids)"

definition store_ConfirmReconciliation :: "StoreConfig \<Rightarrow> MemoryDB \<Rightarrow> ConfirmReconciliationCommand \<Rightarrow> Principal \<Rightarrow> string \<Rightarrow> (nat \<Rightarrow> string)
    \<Rightarrow> (MemoryDB \<times> ReconciliationOutcome) result" where
  "store_ConfirmReconciliation cfg db cmd who now ids =
     and_then (ensure (\<not> blank (cr_Resolution cmd)) (AuthErr ''RESOLUTION_REQUIRED'')) (\<lambda>_.
     and_then (ensure (\<not> blank (cr_ReconciliationID cmd) \<and> \<not> blank (cr_ExpectedReconciliationHash cmd) \<and> \<not> blank (cr_RequestID cmd))
       (AuthErr ''RECONCILIATION_NOT_FOUND'')) (\<lambda>_.
     adjudicateReconciliation cfg db \<lparr>qp_ReconciliationID = cr_ReconciliationID cmd, qp_Resolution = cr_Resolution cmd,
       qp_ExpectedReconciliationHash = cr_ExpectedReconciliationHash cmd, qp_RequestID = cr_RequestID cmd, qp_Confirm = True\<rparr> who now ids))"

definition store_RejectReconciliation :: "StoreConfig \<Rightarrow> MemoryDB \<Rightarrow> RejectReconciliationCommand \<Rightarrow> Principal \<Rightarrow> string \<Rightarrow> (nat \<Rightarrow> string)
    \<Rightarrow> (MemoryDB \<times> ReconciliationOutcome) result" where
  "store_RejectReconciliation cfg db cmd who now ids =
     and_then (ensure (\<not> blank (xr_Reason cmd)) (AuthErr ''RESOLUTION_REQUIRED'')) (\<lambda>_.
     and_then (ensure (\<not> blank (xr_ReconciliationID cmd) \<and> \<not> blank (xr_ExpectedReconciliationHash cmd) \<and> \<not> blank (xr_RequestID cmd))
       (AuthErr ''RECONCILIATION_NOT_FOUND'')) (\<lambda>_.
     adjudicateReconciliation cfg db \<lparr>qp_ReconciliationID = xr_ReconciliationID cmd, qp_Resolution = xr_Reason cmd,
       qp_ExpectedReconciliationHash = xr_ExpectedReconciliationHash cmd, qp_RequestID = xr_RequestID cmd, qp_Confirm = False\<rparr> who now ids))"

section \<open>Withdrawal\<close>

definition withdrawn_reconciliation :: "string \<Rightarrow> Reconciliation \<Rightarrow> Reconciliation" where
  "withdrawn_reconciliation now r = r\<lparr>r_Status := ReconciliationWithdrawn, r_DecidedAt := now\<rparr>"

definition withdraw_reconciliation_writes :: "WithdrawReconciliationCommand \<Rightarrow> Source \<Rightarrow> Reconciliation \<Rightarrow> string \<Rightarrow> string \<Rightarrow> ReconciliationTables
    \<Rightarrow> (ReconciliationTables \<times> Reconciliation) result" where
  "withdraw_reconciliation_writes cmd caller r now eventID t =
     and_then (ensure (r_Status r = ReconciliationProposed) (AuthErr ''INVALID_RECONCILIATION_TRANSITION'')) (\<lambda>_.
     and_then (ensure (proposerBinding (r_Proposer r) = proposerBinding caller) (AuthErr ''PROPOSAL_UNAUTHORIZED'')) (\<lambda>_.
     and_then (update_reconciliation (wr_ReconciliationID cmd) ReconciliationProposed (withdrawn_reconciliation now) t) (\<lambda>t.
     and_then (WithdrawReconciliation r now) (\<lambda>withdrawn.
     and_then (insert_event (withdraw_event eventID (wr_ReconciliationID cmd) (wr_RequestID cmd) (ComputeReconciliationHash withdrawn) now) t) (\<lambda>t.
     Inr (complete_decision_key t (r_TenantID r) (wr_RequestID cmd) withdrawn eventID now, withdrawn))))))"

definition store_WithdrawReconciliation :: "MemoryDB \<Rightarrow> WithdrawReconciliationCommand \<Rightarrow> Source \<Rightarrow> string \<Rightarrow> string \<Rightarrow> (MemoryDB \<times> ReconciliationOutcome) result" where
  "store_WithdrawReconciliation db cmd caller now eventID =
     and_then (ensure (\<not> blank (wr_ReconciliationID cmd) \<and> \<not> blank (wr_RequestID cmd)) (AuthErr ''RECONCILIATION_NOT_FOUND'')) (\<lambda>_.
     and_then (ensure (CanPropose caller) (AuthErr ''PROPOSAL_UNAUTHORIZED'')) (\<lambda>_.
     and_then (from_option (AuthErr ''RECONCILIATION_NOT_FOUND'') (readReconciliation (md_Reconciliations db) (wr_ReconciliationID cmd))) (\<lambda>r.
     and_then (claim_key (md_Reconciliations db) (r_TenantID r) (wr_RequestID cmd) (withdrawReconciliationCommandHash (wr_ReconciliationID cmd))
        (proposerBinding caller) None now) (\<lambda>(t, replay).
     case replay of
       Some k \<Rightarrow> (case jk_Result k of None \<Rightarrow> Inl (PlainErr ''persistence error'') | Some (x, e) \<Rightarrow> Inr (db, x, e, True))
     | None \<Rightarrow>
         and_then (withdraw_reconciliation_writes cmd caller r now eventID t) (\<lambda>(t, x).
         Inr (db\<lparr>md_Reconciliations := t\<rparr>, x, eventID, False))))))"

section \<open>Reads\<close>

definition GetReconciliation :: "MemoryDB \<Rightarrow> string \<Rightarrow> Reconciliation option" where
  "GetReconciliation db i = readReconciliation (md_Reconciliations db) i"

definition ReconciliationSuccessorOf :: "MemoryDB \<Rightarrow> string \<Rightarrow> Reconciliation option" where
  "ReconciliationSuccessorOf db i = Option.bind (route_of (md_Reconciliations db) i) (readReconciliation (md_Reconciliations db))"

end
