(* ===== verification/Reconciliation_Steps.thy ===== *)
theory Reconciliation_Steps
  imports Adjudication_Steps Reconciliation_Store
begin

text \<open>The reconciliation handlers refine the docket of Adjudication_Docket; amounts stay within their checks.\<close>

section \<open>Reconciliations as cases\<close>

fun reconciliation_status :: "ReconciliationStatus \<Rightarrow> string" where
  "reconciliation_status (ReconciliationStatusOther s) = ''''"
| "reconciliation_status st = ReconciliationStatus_str st"

lemma reconciliation_status_eq [simp]:
  "reconciliation_status s = ''proposed'' \<longleftrightarrow> s = ReconciliationProposed"
  "reconciliation_status s = ''confirmed'' \<longleftrightarrow> s = ReconciliationConfirmed"
  "reconciliation_status s = ''superseded'' \<longleftrightarrow> s = ReconciliationSuperseded"
  by (cases s; simp)+

definition view_reconciliation :: "Reconciliation \<Rightarrow> Reconciliation DocketCase" where
  "view_reconciliation r = \<lparr>cs_ID = r_ID r, cs_Tuple = reconciliation_tuple r, cs_Predecessor = r_PredecessorID r,
     cs_Fixed = r\<lparr>r_Status := ReconciliationProposed, r_Resolution := '''', r_Adjudicator := None, r_PolicyVersion := '''',
       r_SupersedesID := '''', r_DecidedAt := ''''\<rparr>,
     cs_Status = reconciliation_status (r_Status r), cs_Successor = r_SupersedesID r,
     cs_Verdict = (r_Adjudicator r, r_Resolution r, r_PolicyVersion r)\<rparr>"

abbreviation reconciliation_docket :: "Reconciliation AdjudicationTables \<Rightarrow> Reconciliation Docket" where
  "reconciliation_docket \<equiv> docket_of view_reconciliation"

lemma view_reconciliation_simps [simp]:
  "cs_ID (view_reconciliation j) = r_ID j" "cs_Tuple (view_reconciliation j) = reconciliation_tuple j" "cs_Predecessor (view_reconciliation j) = r_PredecessorID j"
  "cs_Status (view_reconciliation j) = reconciliation_status (r_Status j)" "cs_Successor (view_reconciliation j) = r_SupersedesID j"
  "cs_Verdict (view_reconciliation j) = (r_Adjudicator j, r_Resolution j, r_PolicyVersion j)"
  by (simp_all add: view_reconciliation_def)

lemma reconciliation_ids: "docket_inv (reconciliation_docket t) \<Longrightarrow> distinct (map r_ID (ad_Rows t))"
  by (simp add: docket_inv_def ids_ok_def comp_def)

lemma readReconciliation_eq:
  assumes "readReconciliation t i = Some j" "distinct (map r_ID (ad_Rows t))" "x \<in> set (ad_Rows t)" "r_ID x = i"
  shows "x = j"
proof -
  have "j \<in> set (ad_Rows t)" "r_ID j = i" using find_SomeD [OF assms(1) [unfolded readReconciliation_def]] by simp_all
  then show ?thesis using assms(2,3,4) unfolding distinct_map inj_on_def by blast
qed

lemma readReconciliation_in: "readReconciliation t i = Some j \<Longrightarrow> j \<in> set (ad_Rows t) \<and> r_ID j = i"
  unfolding readReconciliation_def by (rule find_SomeD)

text \<open>A guarded update of the row a handler read, with its event.\<close>

lemma update_reconciliation_docket:
  assumes u: "update_reconciliation i from f t = Inr t1" and e: "insert_event e t1 = Inr t2"
    and inv: "docket_inv (reconciliation_docket t)" and r: "readReconciliation t i = Some j"
    and f: "\<And>x. view_reconciliation (f x) = settled (view_reconciliation x) to (v x) (s x)"
  shows "r_Status j = from" "reconciliations_immutable_update j (f j)"
    "reconciliation_docket t2 = transit (view_reconciliation j) to (v j) (s j) e (reconciliation_docket t)" "fresh_event (reconciliation_docket t) e"
    "ad_Rows t2 = map (\<lambda>x. if x = j then f j else x) (ad_Rows t)"
proof -
  obtain a where a: "a \<in> set (ad_Rows t)" "r_ID a = i" "r_Status a = from" "reconciliations_immutable_update a (f a)"
    "reconciliation_docket t1 = (reconciliation_docket t)\<lparr>dt_Cases := map (settle i to (v a) (s a)) (dt_Cases (reconciliation_docket t))\<rparr>"
    "ad_Rows t1 = map (\<lambda>x. if x = a then f a else x) (ad_Rows t)"
    using guarded_update_docket [OF u [unfolded update_reconciliation_def] reconciliation_ids [OF inv], of view_reconciliation, OF _ f] by auto
  have "a = j" by (rule readReconciliation_eq [OF r reconciliation_ids [OF inv] a(1,2)])
  with a show "r_Status j = from" "reconciliations_immutable_update j (f j)" by simp_all
  have "docket_of view_reconciliation t1 = (reconciliation_docket t)\<lparr>dt_Cases := map (settle (cs_ID (view_reconciliation j)) to (v j) (s j)) (dt_Cases (reconciliation_docket t))\<rparr>"
    using a(2,5) \<open>a = j\<close> by simp
  from settle_event [OF this e] show "reconciliation_docket t2 = transit (view_reconciliation j) to (v j) (s j) e (reconciliation_docket t)"
    "fresh_event (reconciliation_docket t) e" .
  show "ad_Rows t2 = map (\<lambda>x. if x = j then f j else x) (ad_Rows t)"
    using a(6) \<open>a = j\<close> insert_event_docket [OF e, of view_reconciliation] by simp
qed

lemma insert_reconciliation_docket:
  assumes "insert_reconciliation j t = Inr t'" "r_Status j = ReconciliationProposed" "r_SupersedesID j = ''''"
    "(r_Adjudicator j, r_Resolution j, r_PolicyVersion j) = no_verdict" "r_ID j \<noteq> ''''"
  shows "opens (reconciliation_docket t) (view_reconciliation j)" "reconciliation_docket t' = enter (view_reconciliation j) (reconciliation_docket t)"
  using assms by (auto simp: insert_reconciliation_def opens_def enter_def docket_of_def list_ex_iff split: if_splits)

lemma proposed_reconciliation_simps [simp]:
  "r_ID (proposed_reconciliation cmd caller scope i now) = i" "r_Status (proposed_reconciliation cmd caller scope i now) = ReconciliationProposed"
  "r_PredecessorID (proposed_reconciliation cmd caller scope i now) = pr_PredecessorID cmd"
  "r_SupersedesID (proposed_reconciliation cmd caller scope i now) = ''''" "r_Adjudicator (proposed_reconciliation cmd caller scope i now) = None"
  "r_Resolution (proposed_reconciliation cmd caller scope i now) = ''''" "r_PolicyVersion (proposed_reconciliation cmd caller scope i now) = ''''"
  "cs_Subject (view_reconciliation (proposed_reconciliation cmd caller scope i now)) = [pr_LeftMemoryID cmd, pr_RightMemoryID cmd, pr_Method cmd]"
  by (simp_all add: proposed_reconciliation_def split_beta cs_Subject_def reconciliation_tuple_def)

lemma reconciliation_subject: "cs_Subject (view_reconciliation j) = [r_LeftMemoryID j, r_RightMemoryID j, r_Method j]"
  by (simp add: cs_Subject_def reconciliation_tuple_def)

lemma reconciliation_predecessor_cases:
  assumes "reconciliation_predecessor cmd caller i eventID now t = Inr (t1, b)"
  obtains (none) "pr_PredecessorID cmd = ''''" "t1 = t" "\<not> b"
  | (confirmed) pred where "readReconciliation t (pr_PredecessorID cmd) = Some pred" "t1 = t" "\<not> b"
      "cs_Subject (view_reconciliation pred) = [pr_LeftMemoryID cmd, pr_RightMemoryID cmd, pr_Method cmd]"
  | (proposed) pred where "readReconciliation t (pr_PredecessorID cmd) = Some pred" b
      "cs_Subject (view_reconciliation pred) = [pr_LeftMemoryID cmd, pr_RightMemoryID cmd, pr_Method cmd]"
      "supersedeProposedReconciliationPredecessor pred i (pr_RequestID cmd) eventID now t = Inr t1"
  using assms by (auto simp: reconciliation_predecessor_def guard_simps reconciliation_subject split: if_splits ReconciliationStatus.splits)

lemma propose_reconciliation_writes_docket:
  assumes w: "propose_reconciliation_writes cmd caller scope now ids t = Inr (t', j)" and inv: "docket_inv (reconciliation_docket t)" and i: "ids 0 \<noteq> ''''"
  shows "docket_step (reconciliation_docket t) (reconciliation_docket t')"
proof -
  let ?j = "proposed_reconciliation cmd caller scope (ids 0) now"
  obtain t1 b t2 t3 where p: "reconciliation_predecessor cmd caller (ids 0) (ids 1) now t = Inr (t1, b)" and ins: "insert_reconciliation ?j t1 = Inr t2"
    and rt: "(if b then insert_route (pr_PredecessorID cmd) (ids 0) (proposerBinding caller) now t2 else Inr t2) = Inr t3"
    and done': "t' = complete_proposal_key t3 (fst scope) (pr_RequestID cmd) (ids 0) now"
    using w unfolding propose_reconciliation_writes_def guard_simps split_paired_Ex prod.case Let_def by (elim exE conjE) (rule that, auto)
  have t': "reconciliation_docket t' = reconciliation_docket t3" by (simp add: done')
  have op: "opens (reconciliation_docket t1) (view_reconciliation ?j)" "reconciliation_docket t2 = enter (view_reconciliation ?j) (reconciliation_docket t1)"
    using insert_reconciliation_docket [OF ins] i by (simp_all add: no_verdict_def)
  from p show ?thesis
  proof (cases rule: reconciliation_predecessor_cases)
    case none
    then show ?thesis using dk_enter [OF op(1)] op(2) rt by (simp add: t')
  next
    case (confirmed pred)
    have "\<exists>q \<in> set (dt_Cases (reconciliation_docket t)). cs_ID q = cs_Predecessor (view_reconciliation ?j) \<and> cs_Subject q = cs_Subject (view_reconciliation ?j)"
      using readReconciliation_in [OF confirmed(1)] confirmed(4) by (intro bexI [of _ "view_reconciliation pred"]) simp_all
    then show ?thesis using dk_enter [OF op(1)] op(2) rt confirmed(2,3) by (simp add: t')
  next
    case (proposed pred)
    let ?e = "supersede_event (ids 1) (r_ID pred) (pr_RequestID cmd) ''proposed''
      (ComputeReconciliationHash (pred\<lparr>r_Status := ReconciliationSuperseded, r_SupersedesID := ids 0, r_DecidedAt := now\<rparr>)) '''' now"
    obtain t0 where u: "update_reconciliation (r_ID pred) ReconciliationProposed
        (\<lambda>j. j\<lparr>r_Status := ReconciliationSuperseded, r_SupersedesID := ids 0, r_DecidedAt := now\<rparr>) t = Inr t0"
      and e: "insert_event ?e t0 = Inr t1"
      using proposed(4) unfolding supersedeProposedReconciliationPredecessor_def guard_simps Let_def by blast
    have pred: "pred \<in> set (ad_Rows t)" "r_ID pred = pr_PredecessorID cmd" using readReconciliation_in [OF proposed(1)] by simp_all
    note step = update_reconciliation_docket [OF u e inv, of pred "''superseded''" "\<lambda>x. cs_Verdict (view_reconciliation x)" "\<lambda>_. ids 0"]
    have s: "r_Status pred = ReconciliationProposed" "fresh_event (reconciliation_docket t) ?e"
      "reconciliation_docket t1 = transit (view_reconciliation pred) ''superseded'' (cs_Verdict (view_reconciliation pred)) (ids 0) ?e (reconciliation_docket t)"
      using step proposed(1) pred(2) by (simp_all add: view_reconciliation_def settled_def reconciliation_tuple_def)
    have "reconciliation_docket t3 = (reconciliation_docket t2)\<lparr>dt_Routes := dt_Routes (reconciliation_docket t2) @ [(r_ID pred, ids 0)]\<rparr>"
      using rt proposed(2) insert_route_docket [of "pr_PredecessorID cmd" "ids 0" "proposerBinding caller" now t2 t3 view_reconciliation] pred(2)
      by simp
    then show ?thesis using s op pred proposed(3)
      by (intro dk_enter_correction [of "view_reconciliation pred" _ "view_reconciliation ?j" ?e]) (simp_all add: t')
  qed
qed

lemma reconciliation_gates_Inr:
  "reconciliation_gates db p who = Inr (j, a, b) \<longleftrightarrow>
     readReconciliation (md_Reconciliations db) (qp_ReconciliationID p) = Some j \<and> decision_pair db (r_LeftMemoryID j) (r_RightMemoryID j) = Inr (a, b)
     \<and> r_Status j = ReconciliationProposed \<and> EqualFold (TrimSpace (qp_ExpectedReconciliationHash p)) (ComputeReconciliationHash j)
     \<and> reconciliation_Authorize who (r_TenantID j) (r_CompanyID j) = None"
  by (auto simp: reconciliation_gates_def guard_simps split: option.splits)

lemma decide_reconciliation_cases:
  assumes "decide_reconciliation cfg db p who now ids = Inr (db', out)"
  obtains j a b resulting t1 t2 db1 t3 db2 action' payload where
    "reconciliation_gates db p who = Inr (j, a, b)" "resulting_reconciliation p j (PrincipalSnapshot_of who) now = Inr resulting"
    "decide_reconciliation_row p (md_Memberships db) (PrincipalSnapshot_of who) now (md_Reconciliations db) = Inr t1"
    "insert_event (verdict_event (ids 0) (qp_ReconciliationID p) (qp_RequestID p) (verdict_action (qp_Confirm p))
         (ReconciliationStatus_str (reconciliation_verdict p)) (ComputeReconciliationHash resulting) (PrincipalSnapshot_of who) ReconciliationPolicyVersion
         (qp_Resolution p) now) t1 = Inr t2"
    "(if qp_Confirm p then project_relation db (r_LeftMemoryID j) (r_RightMemoryID j) RelationReconciles (ps_SubjectID (PrincipalSnapshot_of who)) now
      else Inr db) = Inr db1"
    "supersede_confirmed_reconciliation p j (ps_SubjectID (PrincipalSnapshot_of who)) (ids 1) now t2 = Inr t3"
    "emit_verdict_receipt cfg db1 SubjectReconciliation (r_ID j) action' payload now = Inr db2"
    "db' = db2\<lparr>md_Reconciliations := complete_decision_key t3 (p_TenantID who) (qp_RequestID p) resulting (ids 0) now\<rparr>"
    "out = (resulting, ids 0, False)"
  using assms unfolding decide_reconciliation_def guard_simps split_paired_Ex prod.case Let_def
  by (elim exE conjE) (rule that, auto)

lemma supersede_confirmed_reconciliation_cases:
  assumes "supersede_confirmed_reconciliation p j subject eventID now t = Inr t'"
  obtains (none) "qp_Confirm p \<Longrightarrow> r_PredecessorID j = ''''" "t' = t"
  | (superseded) q where "qp_Confirm p" "r_PredecessorID j \<noteq> ''''" "readReconciliation t (r_PredecessorID j) = Some q" "r_SupersedesID q = r_ID j" "t' = t"
  | (confirmed) q t1 x t2 where "qp_Confirm p" "r_PredecessorID j \<noteq> ''''" "readReconciliation t (r_PredecessorID j) = Some q"
      "update_reconciliation (r_ID q) ReconciliationConfirmed
         (\<lambda>x. x\<lparr>r_Status := ReconciliationSuperseded, r_SupersedesID := r_ID j\<rparr>) t = Inr t1"
      "insert_event (supersede_event eventID (r_ID q) (qp_RequestID p) ''confirmed'' (ComputeReconciliationHash x) (qp_Resolution p) now) t1 = Inr t2"
      "insert_route (r_ID q) (r_ID j) subject now t2 = Inr t'"
proof (cases "qp_Confirm p \<and> r_PredecessorID j \<noteq> ''''")
  case False
  then show thesis using that(1) assms by (auto simp: supersede_confirmed_reconciliation_def)
next
  case True
  then obtain q where q: "readReconciliation t (r_PredecessorID j) = Some q"
    using assms by (auto simp: supersede_confirmed_reconciliation_def guard_simps)
  show thesis
  proof (cases "r_Status q")
    case ReconciliationConfirmed
    then show thesis using assms True q that(3) [OF _ _ q]
      by (simp add: supersede_confirmed_reconciliation_def guard_simps) blast
  next
    case ReconciliationSuperseded
    then show thesis using assms True q that(2) [OF _ _ q] by (simp add: supersede_confirmed_reconciliation_def split: if_splits)
  qed (use assms True q in \<open>simp_all add: supersede_confirmed_reconciliation_def\<close>)
qed

lemma decide_reconciliation_docket:
  assumes d: "decide_reconciliation cfg db p who now ids = Inr (db', out)" and inv: "docket_inv (reconciliation_docket (md_Reconciliations db))"
  shows "docket_step (reconciliation_docket (md_Reconciliations db)) (reconciliation_docket (md_Reconciliations db'))"
proof -
  let ?t = "md_Reconciliations db" and ?s = "PrincipalSnapshot_of who"
  let ?a = "verdict_action (qp_Confirm p)" and ?to = "reconciliation_status (reconciliation_verdict p)"
  from d show ?thesis
  proof (cases rule: decide_reconciliation_cases)
    case (1 j a b resulting t1 t2 db1 t3 db2 action' payload)
    let ?e = "verdict_event (ids 0) (qp_ReconciliationID p) (qp_RequestID p) ?a (ReconciliationStatus_str (reconciliation_verdict p))
      (ComputeReconciliationHash resulting) ?s ReconciliationPolicyVersion (qp_Resolution p) now"
    let ?c = "view_reconciliation j"
    have g: "readReconciliation ?t (qp_ReconciliationID p) = Some j" "r_Status j = ReconciliationProposed" using 1(1) by (simp_all add: reconciliation_gates_Inr)
    have j: "j \<in> set (ad_Rows ?t)" "r_ID j = qp_ReconciliationID p" using readReconciliation_in [OF g(1)] by simp_all
    have c: "?c \<in> set (dt_Cases (reconciliation_docket ?t))" "cs_Status ?c = ''proposed''" using j(1) g(2) by simp_all
    have free: "r_SupersedesID j = ''''" using proposed_unrouted [OF inv c] by simp
    have u: "update_reconciliation (qp_ReconciliationID p) ReconciliationProposed
        (\<lambda>j. j\<lparr>r_Status := reconciliation_verdict p, r_Resolution := qp_Resolution p, r_PolicyVersion := ReconciliationPolicyVersion,
            r_Adjudicator := stored_adjudicator ?s, r_DecidedAt := now\<rparr>) ?t = Inr t1"
      using 1(3) by (auto simp: decide_reconciliation_row_def guard_simps)
    note up = update_reconciliation_docket [OF u 1(4) inv g(1), of ?to "\<lambda>_. (stored_adjudicator ?s, qp_Resolution p, ReconciliationPolicyVersion)" r_SupersedesID]
    have v: "verdict_of ?e = (stored_adjudicator ?s, qp_Resolution p, ReconciliationPolicyVersion)"
      by (simp add: verdict_of_def verdict_event_def)
    have logs: "logs ?e (cs_ID ?c) ?a ''proposed'' ?to"
      using j(2) by (simp add: logs_def verdict_event_def verdict_action_def reconciliation_verdict_def)
    have upd: "reconciliation_docket t2 = transit ?c ?to (verdict_of ?e) '''' ?e (reconciliation_docket ?t)" "fresh_event (reconciliation_docket ?t) ?e"
      "ad_Rows t2 = map (\<lambda>x. if x = j then j\<lparr>r_Status := reconciliation_verdict p, r_Resolution := qp_Resolution p,
          r_PolicyVersion := ReconciliationPolicyVersion, r_Adjudicator := stored_adjudicator ?s, r_DecidedAt := now\<rparr> else x) (ad_Rows ?t)"
      using up(3-5) free by (simp_all add: v view_reconciliation_def settled_def reconciliation_tuple_def)
    have other: "q \<in> set (ad_Rows ?t)" if "readReconciliation t2 (r_PredecessorID j) = Some q" "r_PredecessorID j \<noteq> ''''" for q
    proof -
      have "q \<in> set (ad_Rows t2)" "r_ID q \<noteq> r_ID j" using readReconciliation_in [OF that(1)] predecessor_other [OF inv c(1)] that(2) by simp_all
      then show ?thesis by (auto simp: upd(3) split: if_splits)
    qed
    have db': "reconciliation_docket (md_Reconciliations db') = reconciliation_docket t3" by (simp add: 1(8))
    have act: "(?a, ?to) \<in> {(''confirm'', ''confirmed''), (''reject'', ''rejected''), (''withdraw'', ''withdrawn'')}" "?a \<noteq> ''withdraw''"
      by (simp_all add: verdict_action_def reconciliation_verdict_def)
    from 1(6) show ?thesis
    proof (cases rule: supersede_confirmed_reconciliation_cases)
      case none
      then show ?thesis unfolding db' none(2) upd(1)
        by (intro dk_transit [OF c act(1) logs upd(2)]) (use act(2) in \<open>auto simp: verdict_action_def split: if_splits\<close>)
    next
      case (superseded q)
      have "\<exists>x \<in> set (dt_Cases (reconciliation_docket ?t)). cs_ID x = cs_Predecessor ?c \<and> cs_Successor x = cs_ID ?c"
        using other [OF superseded(3,2)] readReconciliation_in [OF superseded(3)] superseded(4) by (intro bexI [of _ "view_reconciliation q"]) simp_all
      then show ?thesis unfolding db' superseded(5) upd(1)
        by (intro dk_transit [OF c act(1) logs upd(2)]) (use act(2) in simp_all)
    next
      case (confirmed q t1' x t2')
      let ?e' = "supersede_event (ids 1) (r_ID q) (qp_RequestID p) ''confirmed'' (ComputeReconciliationHash x) (qp_Resolution p) now"
      have conf: "?a = ''confirm''" "?to = ''confirmed''" using confirmed(1) by (simp_all add: verdict_action_def reconciliation_verdict_def)
      have logs': "logs ?e (cs_ID ?c) ''confirm'' ''proposed'' ''confirmed''" using logs by (simp only: conf)
      have t2: "reconciliation_docket t2 = transit ?c ''confirmed'' (verdict_of ?e) '''' ?e (reconciliation_docket ?t)" using upd(1) by (simp only: conf)
      have "admits (reconciliation_docket ?t) ?c ''confirm'' ''proposed'' ''confirmed'' ?e"
        using c logs' upd(2) by (simp only: admits_def transition_table_def) simp
      then have inv2: "docket_inv (reconciliation_docket t2)"
        unfolding t2 by (rule transit_inv [OF inv]) simp_all
      have q: "q \<in> set (ad_Rows ?t)" "r_ID q = r_PredecessorID j"
        using other [OF confirmed(3,2)] readReconciliation_in [OF confirmed(3)] by simp_all
      have r: "readReconciliation t2 (r_ID q) = Some q" using confirmed(3) q(2) by simp
      note up2 = update_reconciliation_docket [OF confirmed(4,5) inv2 r, of "''superseded''" "\<lambda>x. cs_Verdict (view_reconciliation x)" "\<lambda>_. r_ID j"]
      have s: "r_Status q = ReconciliationConfirmed" "fresh_event (reconciliation_docket t2) ?e'"
        "reconciliation_docket t2' = transit (view_reconciliation q) ''superseded'' (cs_Verdict (view_reconciliation q)) (cs_ID ?c) ?e' (reconciliation_docket t2)"
        using up2(1,3,4) by (simp_all add: view_reconciliation_def settled_def reconciliation_tuple_def)
      have qc: "view_reconciliation q \<in> set (dt_Cases (reconciliation_docket ?t))" "cs_Status (view_reconciliation q) = ''confirmed''"
        "cs_ID (view_reconciliation q) = cs_Predecessor ?c" "cs_ID (view_reconciliation q) \<noteq> ''''" using q s(1) confirmed(2) by simp_all
      have "dt_Routes (reconciliation_docket t2') = dt_Routes (reconciliation_docket t2)" unfolding s(3) by (simp add: transit_def)
      then have "reconciliation_docket t3 = (transit (view_reconciliation q) ''superseded'' (cs_Verdict (view_reconciliation q)) (cs_ID ?c) ?e' (reconciliation_docket t2))
          \<lparr>dt_Routes := dt_Routes (reconciliation_docket t2) @ [(cs_ID (view_reconciliation q), cs_ID ?c)]\<rparr>"
        using insert_route_docket [OF confirmed(6), of view_reconciliation] s(3) by simp
      from dk_transit_correction [OF c qc logs' upd(2) t2 _ s(2) this] show ?thesis unfolding db' by simp
    qed
  qed
qed

section \<open>Withdrawal\<close>

lemma withdraw_reconciliation_writes_docket:
  assumes w: "withdraw_reconciliation_writes cmd caller j now eventID t = Inr (t', x)" and inv: "docket_inv (reconciliation_docket t)"
    and r: "readReconciliation t (wr_ReconciliationID cmd) = Some j"
  shows "docket_step (reconciliation_docket t) (reconciliation_docket t')"
proof -
  obtain t1 y t2 where g: "r_Status j = ReconciliationProposed" and u: "update_reconciliation (wr_ReconciliationID cmd) ReconciliationProposed (withdrawn_reconciliation now) t = Inr t1"
    and e: "insert_event (withdraw_event eventID (wr_ReconciliationID cmd) (wr_RequestID cmd) (ComputeReconciliationHash y) now) t1 = Inr t2"
    and t': "reconciliation_docket t' = reconciliation_docket t2"
    using w unfolding withdraw_reconciliation_writes_def guard_simps Let_def by auto
  let ?e = "withdraw_event eventID (wr_ReconciliationID cmd) (wr_RequestID cmd) (ComputeReconciliationHash y) now"
  have j: "j \<in> set (ad_Rows t)" "r_ID j = wr_ReconciliationID cmd" using readReconciliation_in [OF r] by simp_all
  have c: "view_reconciliation j \<in> set (dt_Cases (reconciliation_docket t))" "cs_Status (view_reconciliation j) = ''proposed''" using j(1) g by simp_all
  have free: "r_SupersedesID j = ''''" using proposed_unrouted [OF inv c] by simp
  note up = update_reconciliation_docket [OF u e inv r, of "''withdrawn''" "\<lambda>x. cs_Verdict (view_reconciliation x)" r_SupersedesID]
  have s: "fresh_event (reconciliation_docket t) ?e"
    "reconciliation_docket t2 = transit (view_reconciliation j) ''withdrawn'' (cs_Verdict (view_reconciliation j)) '''' ?e (reconciliation_docket t)"
    using up(3,4) free by (simp_all add: view_reconciliation_def settled_def reconciliation_tuple_def withdrawn_reconciliation_def)
  show ?thesis unfolding t' s(2)
    by (rule dk_transit [OF c, of "''withdraw''"]) (use j(2) s(1) in simp_all)
qed

section \<open>Handlers\<close>

text \<open>An act of the reconciliation machine; a minted id is not empty.\<close>

inductive reconciliation_act :: "StoreConfig \<Rightarrow> MemoryDB \<Rightarrow> MemoryDB \<Rightarrow> bool" for cfg where
  ra_propose: "ProposeReconciliation db pc caller now ids = Inr (db', out) \<Longrightarrow> ids 0 \<noteq> '''' \<Longrightarrow> reconciliation_act cfg db db'"
| ra_confirm: "store_ConfirmReconciliation cfg db cc who now ids = Inr (db', out) \<Longrightarrow> reconciliation_act cfg db db'"
| ra_reject: "store_RejectReconciliation cfg db xc who now ids = Inr (db', out) \<Longrightarrow> reconciliation_act cfg db db'"
| ra_withdraw: "store_WithdrawReconciliation db wc caller now i = Inr (db', out) \<Longrightarrow> reconciliation_act cfg db db'"

inductive_cases reconciliation_actE: "reconciliation_act cfg db db'"

definition reconciliation_effect :: "MemoryDB \<Rightarrow> MemoryDB \<Rightarrow> bool" where
  "reconciliation_effect db db' \<longleftrightarrow> core_kept db db' \<and> md_Judgments db' = md_Judgments db
     \<and> (docket_inv (reconciliation_docket (md_Reconciliations db)) \<longrightarrow> reconciliation_docket (md_Reconciliations db') = reconciliation_docket (md_Reconciliations db)
        \<or> docket_step (reconciliation_docket (md_Reconciliations db)) (reconciliation_docket (md_Reconciliations db')))"

lemma reconciliation_effect_refl [simp]: "reconciliation_effect db db"
  by (simp add: reconciliation_effect_def)

lemma ProposeReconciliation_effect:
  assumes h: "ProposeReconciliation db cmd caller now ids = Inr (db', out)" and i: "ids 0 \<noteq> ''''"
  shows "reconciliation_effect db db'"
proof -
  obtain scope t replay where k: "claim_key (md_Reconciliations db) (fst scope) (pr_RequestID cmd) (proposeReconciliationCommandHash cmd)
      (proposerBinding caller) (Some (ids 0)) now = Inr (t, replay)"
    and c: "(case replay of
       Some k \<Rightarrow>
         and_then (replay_reconciliation t k [fst scope, fst (snd scope), pr_LeftMemoryID cmd, pr_RightMemoryID cmd, pr_Method cmd]) (\<lambda>j.
         Inr (db, j, '''', True))
     | None \<Rightarrow>
         and_then (propose_reconciliation_writes cmd caller scope now ids t) (\<lambda>(t, j).
         Inr (db\<lparr>md_Reconciliations := t\<rparr>, j, '''', False))) = Inr (db', out)"
    using h unfolding ProposeReconciliation_def and_then_eq_Inr split_paired_Ex prod.case by blast
  show ?thesis
  proof (cases replay)
    case None
    then obtain t' j where w: "propose_reconciliation_writes cmd caller scope now ids t = Inr (t', j)" "db' = db\<lparr>md_Reconciliations := t'\<rparr>"
      using c by (auto simp: guard_simps)
    have "reconciliation_docket t = reconciliation_docket (md_Reconciliations db)" using claim_key_docket k None by blast
    then show ?thesis using propose_reconciliation_writes_docket [OF w(1) _ i] by (simp add: w(2) reconciliation_effect_def)
  qed (use c in \<open>auto simp: guard_simps split: option.splits\<close>)
qed

lemma adjudicateReconciliation_effect:
  assumes h: "adjudicateReconciliation cfg db p who now ids = Inr (db', out)"
  shows "reconciliation_effect db db'"
proof -
  obtain t replay where k: "claim_key (md_Reconciliations db) (p_TenantID who) (qp_RequestID p)
        (decideReconciliationCommandHash (qp_ReconciliationID p) (qp_ExpectedReconciliationHash p) (qp_Resolution p)) (p_SubjectID who) None now = Inr (t, replay)"
    and c: "(case replay of
       Some k \<Rightarrow> (case jk_Result k of None \<Rightarrow> Inl (PlainErr ''persistence error'') | Some (j, e) \<Rightarrow> Inr (db, j, e, True))
     | None \<Rightarrow> decide_reconciliation cfg (db\<lparr>md_Reconciliations := t\<rparr>) p who now ids) = Inr (db', out)"
    using h unfolding adjudicateReconciliation_def and_then_eq_Inr split_paired_Ex prod.case by blast
  show ?thesis
  proof (cases replay)
    case None
    let ?db = "db\<lparr>md_Reconciliations := t\<rparr>"
    have d: "decide_reconciliation cfg ?db p who now ids = Inr (db', out)" using c None by simp
    have t: "reconciliation_docket (md_Reconciliations ?db) = reconciliation_docket (md_Reconciliations db)" using claim_key_docket k None by (simp, blast)
    then have "docket_step (reconciliation_docket (md_Reconciliations db)) (reconciliation_docket (md_Reconciliations db'))"
      if "docket_inv (reconciliation_docket (md_Reconciliations db))"
      using decide_reconciliation_docket [OF d] that by (simp only:)
    moreover have "core_kept ?db db' \<and> md_Judgments db' = md_Judgments db"
      using d
    proof (cases rule: decide_reconciliation_cases)
      case (1 j a b resulting t1 t2 db1 t3 db2 action' payload)
      have "quiet ?db db1" using 1(5) by (auto split: if_splits dest: project_relation_quiet)
      moreover note emit_verdict_receipt_quiet [OF 1(7)]
      ultimately have "quiet ?db db2" by (rule quiet_trans)
      then have "core_kept ?db db2" "md_Judgments db2 = md_Judgments db" using quiet_core quiet_tables by force+
      then show ?thesis unfolding 1(8) using core_kept_trans core_kept_tables(2) by fastforce
    qed
    ultimately show ?thesis unfolding reconciliation_effect_def using core_kept_trans core_kept_tables(2) by blast
  qed (use c in \<open>auto simp: guard_simps split: option.splits\<close>)
qed

lemma WithdrawReconciliation_effect:
  assumes h: "store_WithdrawReconciliation db cmd caller now eventID = Inr (db', out)"
  shows "reconciliation_effect db db'"
proof -
  obtain j t replay where r: "readReconciliation (md_Reconciliations db) (wr_ReconciliationID cmd) = Some j"
    and k: "claim_key (md_Reconciliations db) (r_TenantID j) (wr_RequestID cmd) (withdrawReconciliationCommandHash (wr_ReconciliationID cmd))
        (proposerBinding caller) None now = Inr (t, replay)"
    and c: "(case replay of
       Some k \<Rightarrow> (case jk_Result k of None \<Rightarrow> Inl (PlainErr ''persistence error'') | Some (x, e) \<Rightarrow> Inr (db, x, e, True))
     | None \<Rightarrow>
         and_then (withdraw_reconciliation_writes cmd caller j now eventID t) (\<lambda>(t, x).
         Inr (db\<lparr>md_Reconciliations := t\<rparr>, x, eventID, False))) = Inr (db', out)"
    using h unfolding store_WithdrawReconciliation_def and_then_eq_Inr from_option_eq_Inr split_paired_Ex prod.case by blast
  show ?thesis
  proof (cases replay)
    case None
    then obtain t' x where w: "withdraw_reconciliation_writes cmd caller j now eventID t = Inr (t', x)" "db' = db\<lparr>md_Reconciliations := t'\<rparr>"
      using c by (auto simp: guard_simps)
    have t: "reconciliation_docket t = reconciliation_docket (md_Reconciliations db)" "ad_Rows t = ad_Rows (md_Reconciliations db)"
      using claim_key_docket k None by blast+
    have "readReconciliation t (wr_ReconciliationID cmd) = Some j" using r by (simp add: readReconciliation_def t(2))
    then show ?thesis using withdraw_reconciliation_writes_docket [OF w(1)] t(1) by (simp add: w(2) reconciliation_effect_def)
  qed (use c in \<open>auto simp: guard_simps split: option.splits\<close>)
qed

lemma reconciliation_act_effect:
  assumes "reconciliation_act cfg db db'"
  shows "reconciliation_effect db db'"
  using assms
proof cases
  case ra_propose
  then show ?thesis using ProposeReconciliation_effect by blast
next
  case ra_confirm
  then show ?thesis using adjudicateReconciliation_effect unfolding store_ConfirmReconciliation_def guard_simps by blast
next
  case ra_reject
  then show ?thesis using adjudicateReconciliation_effect unfolding store_RejectReconciliation_def guard_simps by blast
next
  case ra_withdraw
  then show ?thesis using WithdrawReconciliation_effect by blast
qed

section \<open>Amounts\<close>

text \<open>The variance is the exact difference and every amount an int64.\<close>

definition int64 :: "int \<Rightarrow> bool" where
  "int64 i \<longleftrightarrow> - (2 ^ 63) \<le> i \<and> i < 2 ^ 63"

definition amounts_ok :: "Reconciliation \<Rightarrow> bool" where
  "amounts_ok r \<longleftrightarrow> r_VarianceCents r = r_LeftAmountCents r - r_RightAmountCents r \<and> 0 \<le> r_ToleranceCents r
     \<and> int64 (r_LeftAmountCents r) \<and> int64 (r_RightAmountCents r) \<and> int64 (r_VarianceCents r) \<and> int64 (r_ToleranceCents r)"

lemma int64_sint [simp]: "int64 (sint (w :: 64 word))"
  using sint_greater_eq [of w] sint_less [of w] by (simp add: int64_def)

definition all_amounts_ok :: "ReconciliationTables \<Rightarrow> bool" where
  "all_amounts_ok t \<longleftrightarrow> (\<forall>r \<in> set (ad_Rows t). amounts_ok r)"

lemma update_reconciliation_amounts:
  "update_reconciliation i from f t = Inr t' \<Longrightarrow> (\<And>r. amounts_ok (f r) = amounts_ok r) \<Longrightarrow> all_amounts_ok t \<Longrightarrow> all_amounts_ok t'"
  by (auto simp: update_reconciliation_def guarded_update_def all_amounts_ok_def split: if_splits)

lemma insert_event_amounts: "insert_event e t = Inr t' \<Longrightarrow> all_amounts_ok t \<Longrightarrow> all_amounts_ok t'"
  by (auto simp: insert_event_def all_amounts_ok_def split: if_splits)

lemma insert_route_amounts: "insert_route i j a now t = Inr t' \<Longrightarrow> all_amounts_ok t \<Longrightarrow> all_amounts_ok t'"
  by (auto simp: insert_route_def all_amounts_ok_def split: if_splits)

lemma claim_key_amounts: "claim_key t a b h w i now = Inr (t', k) \<Longrightarrow> all_amounts_ok t \<Longrightarrow> all_amounts_ok t'"
  by (auto simp: claim_key_def all_amounts_ok_def split: option.splits if_splits)

lemma complete_amounts [simp]:
  "all_amounts_ok (complete_decision_key t a b x e now) = all_amounts_ok t"
  "all_amounts_ok (complete_proposal_key t a b i now) = all_amounts_ok t"
  by (simp_all add: complete_decision_key_def complete_proposal_key_def update_key_def all_amounts_ok_def)

lemma insert_reconciliation_amounts:
  "insert_reconciliation (proposed_reconciliation cmd caller scope i now) t = Inr t' \<Longrightarrow> all_amounts_ok t \<Longrightarrow> all_amounts_ok t'"
proof -
  let ?r = "proposed_reconciliation cmd caller scope i now"
  assume ins: "insert_reconciliation ?r t = Inr t'" and ok: "all_amounts_ok t"
  from ins have c: "r_VarianceCents ?r = r_LeftAmountCents ?r - r_RightAmountCents ?r" "0 \<le> r_ToleranceCents ?r"
    and t': "t' = t\<lparr>ad_Rows := ad_Rows t @ [?r]\<rparr>" by (auto simp: insert_reconciliation_def split: if_splits)
  have "int64 (r_VarianceCents ?r)" "int64 (r_LeftAmountCents ?r)" "int64 (r_RightAmountCents ?r)" "int64 (r_ToleranceCents ?r)"
    by (simp_all add: proposed_reconciliation_def split_beta)
  then have "amounts_ok ?r" using c unfolding amounts_ok_def by blast
  then show "all_amounts_ok t'" using ok by (simp add: t' all_amounts_ok_def)
qed

lemma propose_amounts:
  assumes "propose_reconciliation_writes cmd caller scope now ids t = Inr (t', r)" "all_amounts_ok t"
  shows "all_amounts_ok t'"
proof -
  obtain t1 b t2 t3 where p: "reconciliation_predecessor cmd caller (ids 0) (ids 1) now t = Inr (t1, b)"
    and ins: "insert_reconciliation (proposed_reconciliation cmd caller scope (ids 0) now) t1 = Inr t2"
    and rt: "(if b then insert_route (pr_PredecessorID cmd) (ids 0) (proposerBinding caller) now t2 else Inr t2) = Inr t3"
    and done': "t' = complete_proposal_key t3 (fst scope) (pr_RequestID cmd) (ids 0) now"
    using assms(1) unfolding propose_reconciliation_writes_def guard_simps split_paired_Ex prod.case Let_def
    by (elim exE conjE) (rule that, auto)
  from p have "all_amounts_ok t1"
  proof (cases rule: reconciliation_predecessor_cases)
    case (proposed pred)
    then show ?thesis using assms(2) unfolding supersedeProposedReconciliationPredecessor_def guard_simps Let_def
      by (auto elim!: insert_event_amounts update_reconciliation_amounts simp: amounts_ok_def)
  qed (use assms(2) in simp_all)
  then have "all_amounts_ok t2" by (rule insert_reconciliation_amounts [OF ins])
  then show ?thesis using rt insert_route_amounts by (auto simp: done' split: if_splits)
qed

lemma decide_amounts:
  assumes "decide_reconciliation cfg db p who now ids = Inr (db', out)" "all_amounts_ok (md_Reconciliations db)"
  shows "all_amounts_ok (md_Reconciliations db')"
  using assms(1)
proof (cases rule: decide_reconciliation_cases)
  case (1 r a b resulting t1 t2 db1 t3 db2 action' payload)
  have "all_amounts_ok t1"
    using 1(3) assms(2) by (auto simp: decide_reconciliation_row_def guard_simps amounts_ok_def elim!: update_reconciliation_amounts)
  then have t2: "all_amounts_ok t2" by (rule insert_event_amounts [OF 1(4)])
  from 1(6) have "all_amounts_ok t3"
  proof (cases rule: supersede_confirmed_reconciliation_cases)
    case (confirmed q t1' x t2')
    have "all_amounts_ok t1'" by (rule update_reconciliation_amounts [OF confirmed(4) _ t2]) (simp add: amounts_ok_def)
    then show ?thesis using confirmed(5,6) insert_event_amounts insert_route_amounts by blast
  qed (use t2 in simp_all)
  then show ?thesis by (simp add: 1(8))
qed

lemma withdraw_amounts:
  assumes "withdraw_reconciliation_writes cmd caller r now eventID t = Inr (t', x)" "all_amounts_ok t"
  shows "all_amounts_ok t'"
  using assms unfolding withdraw_reconciliation_writes_def guard_simps Let_def
  by (auto simp: withdrawn_reconciliation_def amounts_ok_def elim!: insert_event_amounts update_reconciliation_amounts)

lemma reconciliation_act_amounts:
  assumes "reconciliation_act cfg db db'" "all_amounts_ok (md_Reconciliations db)"
  shows "all_amounts_ok (md_Reconciliations db')"
  using assms(1)
proof cases
  case (ra_propose pc caller now ids out)
  then show ?thesis using assms(2) unfolding ProposeReconciliation_def guard_simps split_paired_Ex
    by (auto simp: guard_simps split: option.splits elim!: propose_amounts claim_key_amounts)
next
  case (ra_confirm cc who now ids out)
  then show ?thesis using assms(2) unfolding store_ConfirmReconciliation_def adjudicateReconciliation_def guard_simps split_paired_Ex
    by (auto split: option.splits elim!: decide_amounts claim_key_amounts)
next
  case (ra_reject xc who now ids out)
  then show ?thesis using assms(2) unfolding store_RejectReconciliation_def adjudicateReconciliation_def guard_simps split_paired_Ex
    by (auto split: option.splits elim!: decide_amounts claim_key_amounts)
next
  case (ra_withdraw wc caller now i out)
  then show ?thesis using assms(2) unfolding store_WithdrawReconciliation_def guard_simps split_paired_Ex
    by (auto simp: guard_simps split: option.splits elim!: withdraw_amounts claim_key_amounts)
qed

end
