(* ===== verification/Engram_System.thy ===== *)
theory Engram_System
  imports Memory_System Judgment_Steps Reconciliation_Steps
begin

text \<open>
  The whole store: its steps interleave the memory handlers with the evidence lifecycle of
  Lifecycle_System, which they share a database with. The store is opened with one configuration.
  Left out are the sync imports and the HTTP approve route, which is off unless a daemon opts in.
\<close>

section \<open>Simulation\<close>

text \<open>
  A system that an abstract one simulates under an invariant of the abstract state, and a preorder
  every step climbs.
\<close>

locale simulation =
  fixes step :: "'s \<Rightarrow> 's \<Rightarrow> bool" and astep :: "'a \<Rightarrow> 'a \<Rightarrow> bool" and abs :: "'s \<Rightarrow> 'a" and inv :: "'a \<Rightarrow> bool"
  assumes astep_inv: "inv a \<Longrightarrow> astep a b \<Longrightarrow> inv b"
    and sim: "inv (abs s) \<Longrightarrow> step s t \<Longrightarrow> astep (abs s) (abs t)"
begin

lemma run: "step\<^sup>*\<^sup>* s t \<Longrightarrow> inv (abs s) \<Longrightarrow> astep\<^sup>*\<^sup>* (abs s) (abs t) \<and> inv (abs t)"
proof (induction rule: rtranclp_induct)
  case (step t u)
  then show ?case using sim astep_inv by (meson rtranclp.rtrancl_into_rtrancl)
qed simp

end

locale evolution = simulation step astep abs inv
  for step :: "'s \<Rightarrow> 's \<Rightarrow> bool" and astep :: "'a \<Rightarrow> 'a \<Rightarrow> bool" and abs :: "'s \<Rightarrow> 'a" and inv :: "'a \<Rightarrow> bool" +
  fixes le :: "'s \<Rightarrow> 's \<Rightarrow> bool"
  assumes le_refl: "le s s" and le_trans: "le s t \<Longrightarrow> le t u \<Longrightarrow> le s u"
    and step_le: "inv (abs s) \<Longrightarrow> step s t \<Longrightarrow> le s t"
begin

lemma run_le: "step\<^sup>*\<^sup>* s t \<Longrightarrow> inv (abs s) \<Longrightarrow> le s t"
proof (induction rule: rtranclp_induct)
  case base
  show ?case by (rule le_refl)
next
  case (step t u)
  then show ?case using run step_le le_trans by meson
qed

end

section \<open>The system\<close>

type_synonym EngramState = "MemoryDB \<times> disk \<times> PurgeFlight list"

text \<open>
  The status transitions are those of API.Reject and API.Void; as the check and the write are two
  transactions, the memory may have any status when the write happens.
\<close>

inductive engram_step :: "StoreConfig \<Rightarrow> EngramState \<Rightarrow> EngramState \<Rightarrow> bool" for cfg where
  es_save: "Save cfg db input now ids = Inr (db', m, out) \<Longrightarrow> engram_step cfg (db, disk, fs) (db', disk, fs)"
| es_relate: "Relate cfg db i j r a now = Inr db' \<Longrightarrow> engram_step cfg (db, disk, fs) (db', disk, fs)"
| es_supersede: "SupersedeExplicit cfg db i j meta k = Inr (db', m) \<Longrightarrow> engram_step cfg (db, disk, fs) (db', disk, fs)"
| es_status: "ApplyStatusTransition cfg db i s meta = Inr (db', m) \<Longrightarrow> s = StatusRejected \<or> s = StatusVoided
    \<Longrightarrow> engram_step cfg (db, disk, fs) (db', disk, fs)"
| es_link: "addLink cfg db t i ref a now = Inr db' \<Longrightarrow> engram_step cfg (db, disk, fs) (db', disk, fs)"
| es_links: "addLinksBound cfg db t i refs a intent k now = Inr db' \<Longrightarrow> engram_step cfg (db, disk, fs) (db', disk, fs)"
| es_rule_link: "AddRuleLinkVersion cfg db i link a now = Inr db' \<Longrightarrow> engram_step cfg (db, disk, fs) (db', disk, fs)"
| es_approve: "ApproveMemory cfg db ac who now ws ids = Inr (db', v) \<Longrightarrow> engram_step cfg (db, disk, fs) (db', disk, fs)"
| es_reject: "RejectMemory cfg db dc who now ws ids = Inr (db', w) \<Longrightarrow> engram_step cfg (db, disk, fs) (db', disk, fs)"
| es_return: "ReturnMemory cfg db dc who now ws ids = Inr (db', w) \<Longrightarrow> engram_step cfg (db, disk, fs) (db', disk, fs)"
| es_reopen: "ReopenPeriod cfg db oc who now i = Inr (db', x) \<Longrightarrow> engram_step cfg (db, disk, fs) (db', disk, fs)"
| es_lifecycle: "lifecycle_step (cf_Signer cfg) (md_Life db, disk, fs) (life, disk', fs')
    \<Longrightarrow> pd_Closures (ld_Purge life) = pd_Closures (md_Purge db)
    \<Longrightarrow> engram_step cfg (db, disk, fs) (db\<lparr>md_Life := life\<rparr>, disk', fs')"
| es_judgment: "judgment_act cfg db db' \<Longrightarrow> engram_step cfg (db, disk, fs) (db', disk, fs)"
| es_reconciliation: "reconciliation_act cfg db db' \<Longrightarrow> engram_step cfg (db, disk, fs) (db', disk, fs)"
| es_memberships: "engram_step cfg (db, disk, fs) (db\<lparr>md_Memberships := ms\<rparr>, disk, fs)"

inductive_cases engram_stepE: "engram_step cfg (db, disk, fs) (db', disk', fs')"

lemmas engram_step_cases = engram_stepE [consumes 1, case_names es_save es_relate es_supersede es_status es_link es_links
  es_rule_link es_approve es_reject es_return es_reopen es_lifecycle es_judgment es_reconciliation es_memberships]

definition engram_start :: "EngramState \<Rightarrow> bool" where
  "engram_start st \<longleftrightarrow> (case st of (db, disk, fs) \<Rightarrow>
     md_Observations db = [] \<and> md_Approvals db = [] \<and> md_Decisions db = [] \<and> pd_Closures (md_Purge db) = []
     \<and> md_Judgments db = no_cases \<and> md_Reconciliations db = no_cases \<and> pd_Objects (md_Purge db) = [] \<and> pd_Requests (md_Purge db) = [] \<and> pd_Executions (md_Purge db) = []
     \<and> pd_Policies (md_Purge db) = [] \<and> pd_Holds (md_Purge db) = [] \<and> disk = (\<lambda>_. None) \<and> fs = [])"

section \<open>Every step is a step of the ledger and of the lifecycle\<close>

text \<open>The part of history a step outside the lifecycle tables keeps.\<close>

definition state_evolves :: "EngramState \<Rightarrow> EngramState \<Rightarrow> bool" where
  "state_evolves st st' \<longleftrightarrow> history_kept (fst st) (fst st') \<and> memory_keys_kept (fst st) (fst st')"

definition abstraction :: "EngramState \<Rightarrow> MemoryLedger \<times> LifecycleState" where
  "abstraction st = (case st of (db, disk, fs) \<Rightarrow> (ledger_of db, (md_Life db, disk, fs)))"

definition abstract_step :: "StoreConfig \<Rightarrow> MemoryLedger \<times> LifecycleState \<Rightarrow> MemoryLedger \<times> LifecycleState \<Rightarrow> bool" where
  "abstract_step cfg a b \<longleftrightarrow> ledger_step (fst a) (fst b) \<and> lifecycle_step (cf_Signer cfg) (snd a) (snd b)"

lemma life_kept_step:
  assumes "history_kept db db'" "life_kept db db'"
  shows "lifecycle_step s (md_Life db, disk, fs) (md_Life db', disk, fs)"
proof -
  obtain cs rs where l: "md_Life db' = (md_Life db)\<lparr>ld_Purge := (md_Purge db)\<lparr>pd_Closures := cs, pd_Receipts := rs\<rparr>\<rparr>"
    using assms by (auto simp: life_kept_def)
  then have "prefix (rs_Receipts (pd_Receipts (md_Purge db))) (rs_Receipts rs)"
    using assms by (simp add: history_kept_def md_Purge_def)
  then have "purge_step s (world_of (md_Life db) disk, fs)
      ((world_of (md_Life db) disk)\<lparr>w_DB := (md_Purge db)\<lparr>pd_Closures := cs, pd_Receipts := rs\<rparr>\<rparr>, fs)"
    using step_environment [where w = "world_of (md_Life db) disk" and rs = rs and s = s and fs = fs and cs = cs
        and ps = "pd_Policies (md_Purge db)" and hs = "pd_Holds (md_Purge db)"] by (simp add: md_Purge_def)
  from ls_purge [OF this] show ?thesis by (simp add: l md_Purge_def)
qed

lemma lifecycle_receipts:
  assumes "lifecycle_step s (a, disk, fs) (b, disk', fs')"
  shows "prefix (rs_Receipts (pd_Receipts (ld_Purge a))) (rs_Receipts (pd_Receipts (ld_Purge b)))"
  using purge_step_ledgers [OF lifecycle_step_purge [OF assms]] by (simp add: ledgers_evolve_def)

lemma engram_step_effect:
  assumes "engram_step cfg (db, disk, fs) (db', disk', fs')" and "ledger_inv (ledger_of db)"
  shows "(mem_evolves db db' \<and> ledger_step (ledger_of db) (ledger_of db') \<and> disk' = disk \<and> fs' = fs)
    \<or> ((judgment_act cfg db db' \<or> reconciliation_act cfg db db') \<and> disk' = disk \<and> fs' = fs)
    \<or> (\<exists>life. db' = db\<lparr>md_Life := life\<rparr> \<and> lifecycle_step (cf_Signer cfg) (md_Life db, disk, fs) (life, disk', fs')
         \<and> pd_Closures (ld_Purge life) = pd_Closures (md_Purge db))"
  using assms(1)
proof (cases rule: engram_step_cases)
  case es_save
  then show ?thesis using Save_Inr assms(2) by blast
next
  case es_relate
  then show ?thesis using Relate_quiet lg_quiet by (metis quiet_evolves quiet_ledger)
next
  case es_supersede
  then show ?thesis using SupersedeExplicit_Inr assms(2) by blast
next
  case (es_status i s meta m)
  then have "\<not> live_status s" by auto
  then show ?thesis using es_status ApplyStatusTransition_Inr [OF es_status(1) assms(2)] by blast
next
  case es_link
  then show ?thesis using addLink_quiet lg_quiet by (metis quiet_evolves quiet_ledger)
next
  case es_links
  then show ?thesis using addLinksBound_quiet lg_quiet by (metis quiet_evolves quiet_ledger)
next
  case es_rule_link
  then show ?thesis using AddRuleLinkVersion_quiet lg_quiet by (metis quiet_evolves quiet_ledger)
next
  case es_approve
  then show ?thesis using ApproveMemory_Inr assms(2) by blast
next
  case es_reject
  then show ?thesis using decidePendingMemory_Inr [OF _ assms(2), where kind = rejectDecision]
    unfolding RejectMemory_def by (simp add: rejectDecision_def)
next
  case es_return
  then show ?thesis using decidePendingMemory_Inr [OF _ assms(2), where kind = returnDecision]
    unfolding ReturnMemory_def by (simp add: returnDecision_def)
next
  case es_reopen
  then show ?thesis using ReopenPeriod_Inr by blast
next
  case es_lifecycle
  then show ?thesis by blast
next
  case es_judgment
  then show ?thesis by blast
next
  case es_reconciliation
  then show ?thesis by blast
next
  case (es_memberships ms)
  have "mem_evolves db db'" by (simp add: es_memberships kept_defs md_Purge_def life_kept_same)
  moreover have "ledger_of db' = ledger_of db" by (simp add: es_memberships ledger_of_def md_Purge_def)
  ultimately show ?thesis using lg_quiet es_memberships by simp
qed

lemma engram_step_evolves:
  assumes "engram_step cfg (db, disk, fs) (db', disk', fs')" and "ledger_inv (ledger_of db)"
  shows "history_kept db db' \<and> memory_keys_kept db db'"
    and "ledger_step (ledger_of db) (ledger_of db') \<and> lifecycle_step (cf_Signer cfg) (md_Life db, disk, fs) (md_Life db', disk', fs')"
proof -
  have core: "history_kept db db' \<and> memory_keys_kept db db' \<and> life_kept db db' \<and> ledger_of db' = ledger_of db"
    if "judgment_act cfg db db' \<or> reconciliation_act cfg db db'"
    using that judgment_act_effect reconciliation_act_effect
    unfolding judgment_effect_def reconciliation_effect_def core_kept_def by metis
  from engram_step_effect [OF assms] have "(history_kept db db' \<and> memory_keys_kept db db') \<and> ledger_step (ledger_of db) (ledger_of db')
      \<and> lifecycle_step (cf_Signer cfg) (md_Life db, disk, fs) (md_Life db', disk', fs')"
  proof (elim disjE exE conjE)
    assume "mem_evolves db db'" "ledger_step (ledger_of db) (ledger_of db')" "disk' = disk" "fs' = fs"
    then show ?thesis using life_kept_step by (simp add: mem_evolves_def)
  next
    assume a: "judgment_act cfg db db'" and same: "disk' = disk" "fs' = fs"
    then show ?thesis using core life_kept_step [of db db'] lg_quiet by simp
  next
    assume a: "reconciliation_act cfg db db'" and same: "disk' = disk" "fs' = fs"
    then show ?thesis using core life_kept_step [of db db'] lg_quiet by simp
  next
    fix life assume l: "db' = db\<lparr>md_Life := life\<rparr>" "lifecycle_step (cf_Signer cfg) (md_Life db, disk, fs) (life, disk', fs')"
      "pd_Closures (ld_Purge life) = pd_Closures (md_Purge db)"
    then have "ledger_of db' = ledger_of db" by (simp add: ledger_of_def md_Purge_def)
    moreover have "history_kept db db' \<and> memory_keys_kept db db'"
      using lifecycle_receipts [OF l(2)] by (simp add: l(1) history_kept_def memory_keys_kept_def md_Purge_def)
    ultimately show ?thesis using l lg_quiet by simp
  qed
  then show "history_kept db db' \<and> memory_keys_kept db db'"
    and "ledger_step (ledger_of db) (ledger_of db') \<and> lifecycle_step (cf_Signer cfg) (md_Life db, disk, fs) (md_Life db', disk', fs')"
    by simp_all
qed

interpretation engram: evolution "engram_step cfg" "abstract_step cfg" abstraction "\<lambda>a. ledger_inv (fst a)" state_evolves
proof unfold_locales
  fix a b show "ledger_inv (fst a) \<Longrightarrow> abstract_step cfg a b \<Longrightarrow> ledger_inv (fst b)"
    using ledger_step_inv by (auto simp: abstract_step_def)
next
  fix s t show "ledger_inv (fst (abstraction s)) \<Longrightarrow> engram_step cfg s t \<Longrightarrow> abstract_step cfg (abstraction s) (abstraction t)"
    using engram_step_evolves(2) by (cases s, cases t) (auto simp: abstraction_def abstract_step_def)
next
  fix s t show "ledger_inv (fst (abstraction s)) \<Longrightarrow> engram_step cfg s t \<Longrightarrow> state_evolves s t"
    using engram_step_evolves(1) by (cases s, cases t) (auto simp: abstraction_def state_evolves_def)
next
  fix s show "state_evolves s s" by (simp add: state_evolves_def history_kept_def memory_keys_kept_def)
next
  fix s t u show "state_evolves s t \<Longrightarrow> state_evolves t u \<Longrightarrow> state_evolves s u"
    unfolding state_evolves_def memory_keys_kept_def by (blast intro: history_kept_trans keys_kept_trans)
qed

definition engram_reach :: "StoreConfig \<Rightarrow> EngramState \<Rightarrow> bool" where
  "engram_reach cfg st \<longleftrightarrow> (\<exists>st0. engram_start st0 \<and> (engram_step cfg)\<^sup>*\<^sup>* st0 st)"

lemma start_abstraction: "engram_start (db, disk, fs) \<Longrightarrow> ledger_of db = ledger_empty"
  by (simp add: engram_start_def ledger_of_def ledger_empty_def)

lemma reach_steps:
  assumes "engram_reach cfg (db, disk, fs)"
  obtains db0 where "engram_start (db0, (\<lambda>_. None), [])" "(engram_step cfg)\<^sup>*\<^sup>* (db0, (\<lambda>_. None), []) (db, disk, fs)"
  using assms by (auto simp: engram_reach_def engram_start_def)

lemma reach_run:
  assumes "engram_reach cfg (db, disk, fs)"
  shows "ledger_step\<^sup>*\<^sup>* ledger_empty (ledger_of db) \<and> ledger_inv (ledger_of db) \<and> lifecycle_reach (cf_Signer cfg) (md_Life db, disk, fs)"
proof -
  obtain db0 where s: "engram_start (db0, (\<lambda>_. None), [])" and r: "(engram_step cfg)\<^sup>*\<^sup>* (db0, (\<lambda>_. None), []) (db, disk, fs)"
    using reach_steps [OF assms] by blast
  have e: "ledger_of db0 = ledger_empty" by (rule start_abstraction [OF s])
  have "(abstract_step cfg)\<^sup>*\<^sup>* (ledger_empty, (md_Life db0, (\<lambda>_. None), [])) (ledger_of db, (md_Life db, disk, fs)) \<and> ledger_inv (ledger_of db)"
    using engram.run [OF r] ledger_empty_inv e by (simp add: abstraction_def)
  moreover have "ledger_step\<^sup>*\<^sup>* (fst a) (fst b) \<and> (lifecycle_step (cf_Signer cfg))\<^sup>*\<^sup>* (snd a) (snd b)"
    if "(abstract_step cfg)\<^sup>*\<^sup>* a b" for a b
    using that by (induction rule: rtranclp_induct) (auto simp: abstract_step_def intro: rtranclp.rtrancl_into_rtrancl)
  ultimately have run: "ledger_step\<^sup>*\<^sup>* ledger_empty (ledger_of db)" "ledger_inv (ledger_of db)"
    "(lifecycle_step (cf_Signer cfg))\<^sup>*\<^sup>* (md_Life db0, (\<lambda>_. None), []) (md_Life db, disk, fs)" by force+
  have "lifecycle_reach (cf_Signer cfg) (md_Life db0, (\<lambda>_. None), [])"
    using s by (intro lr_start) (simp_all add: engram_start_def md_Purge_def)
  with run(3) have "lifecycle_reach (cf_Signer cfg) (md_Life db, disk, fs)"
    by (induction rule: rtranclp_induct) (auto intro: lr_step)
  then show ?thesis using run by simp
qed

lemma reach_inv: "engram_reach cfg (db, disk, fs) \<Longrightarrow> ledger_inv (ledger_of db)"
  using reach_run by blast

lemma reach_evolves:
  assumes "engram_reach cfg st" and "(engram_step cfg)\<^sup>*\<^sup>* st st'"
  shows "history_kept (fst st) (fst st') \<and> memory_keys_kept (fst st) (fst st')"
proof -
  have "ledger_inv (fst (abstraction st))" using reach_inv assms(1) by (cases st) (auto simp: abstraction_def)
  then show ?thesis using engram.run_le [OF assms(2)] by (simp add: state_evolves_def)
qed

lemma reach_more: "engram_reach cfg st \<Longrightarrow> (engram_step cfg)\<^sup>*\<^sup>* st st' \<Longrightarrow> engram_reach cfg st'"
  unfolding engram_reach_def by (blast intro: rtranclp_trans)

text \<open>What a step does to the rows of a closed period.\<close>

lemma ledger_step_closed:
  assumes "ledger_step l l'" and "ledger_inv l" and "closable s" and "period_closed (ml_Closures l) s"
  defines "rows \<equiv> \<lambda>l. filter (\<lambda>r. mr_Scope r = s) (ml_Rows l)"
  shows "length (rows l') = length (rows l) \<and> (\<forall>i < length (rows l). rows l' ! i = rows l ! i \<or> mr_Status (rows l ! i) = StatusPendingReview)"
proof -
  have keep: "length (rows l') = length (rows l) \<and> (\<forall>i < length (rows l). rows l' ! i = rows l ! i \<or> mr_Status (rows l ! i) = StatusPendingReview)"
    if "ml_Rows l' = map f (ml_Rows l) @ new" "\<And>x. x \<in> set new \<Longrightarrow> mr_Scope x \<noteq> s" "\<And>x. mr_Scope (f x) = mr_Scope x"
      "\<And>x. x \<in> set (ml_Rows l) \<Longrightarrow> mr_Scope x = s \<Longrightarrow> f x = x \<or> mr_Status x = StatusPendingReview" for f new
  proof -
    have "filter (\<lambda>r. mr_Scope r = s) new = []" using that(2) by (auto simp: filter_empty_conv)
    then have "rows l' = map f (rows l)" by (simp add: rows_def that(1) filter_map_keep that(3))
    moreover have "f (rows l ! i) = rows l ! i \<or> mr_Status (rows l ! i) = StatusPendingReview" if "i < length (rows l)" for i
      using that(1) nth_mem [OF that] \<open>\<And>x. x \<in> set (ml_Rows l) \<Longrightarrow> mr_Scope x = s \<Longrightarrow> _ x\<close> by (auto simp: rows_def)
    ultimately show ?thesis by simp
  qed
  have ids: "distinct (map mr_ID (ml_Rows l))" using assms(2) by (simp add: ledger_inv_def chains_inv_def)
  note same = distinct_key_eq [OF ids]
  from assms(1) show ?thesis
  proof (cases rule: ledger_step_cases)
    case lg_quiet
    then show ?thesis by (intro keep [where f = "\<lambda>x. x" and new = "[]"]) auto
  next
    case (lg_record r)
    then show ?thesis using assms(3,4) by (intro keep [where f = "supersede_chain r" and new = "[r]"])
      (auto simp: supersede_chain_def same_chain_def)
  next
    case (lg_retire r t)
    then show ?thesis using assms(3,4) same [of _ r] by (intro keep [where f = "retire (mr_ID r) t" and new = "[]"]) (auto simp: retire_def)
  next
    case (lg_decline r e)
    then show ?thesis using same [of _ r] by (intro keep [where f = "retire (mr_ID r) (de_ToStatus e)" and new = "[]"]) (auto simp: retire_def)
  next
    case (lg_approve r e)
    then show ?thesis using same [of _ r] by (intro keep [where f = "retire (mr_ID r) StatusApproved" and new = "[]"]) (auto simp: retire_def)
  next
    case (lg_close r e row)
    then show ?thesis using same [of _ r] by (intro keep [where f = "retire (mr_ID r) StatusApproved" and new = "[]"]) (auto simp: retire_def)
  next
    case lg_reopen
    then show ?thesis by (intro keep [where f = "\<lambda>x. x" and new = "[]"]) auto
  qed
qed

end
