(* ===== verification/Adjudication_System.thy ===== *)
theory Adjudication_System
  imports Engram_System
begin

text \<open>
  The two adjudication machines inside the whole store: in every run their dockets take steps of
  Adjudication_Docket only, whatever the other handlers do in between.
\<close>

section \<open>The dockets of a state\<close>

definition judgments_of :: "EngramState \<Rightarrow> AccountingJudgment Docket" where
  "judgments_of st = judgment_docket (md_Judgments (fst st))"

definition reconciliations_of :: "EngramState \<Rightarrow> Reconciliation Docket" where
  "reconciliations_of st = reconciliation_docket (md_Reconciliations (fst st))"

type_synonym AdjudicationState = "MemoryLedger \<times> AccountingJudgment Docket \<times> Reconciliation Docket"

definition adjudication :: "EngramState \<Rightarrow> AdjudicationState" where
  "adjudication st = (ledger_of (fst st), judgments_of st, reconciliations_of st)"

fun adjudication_inv :: "AdjudicationState \<Rightarrow> bool" where
  "adjudication_inv (l, j, r) \<longleftrightarrow> ledger_inv l \<and> docket_inv j \<and> docket_inv r"

text \<open>A step of the store is at most one step of one docket.\<close>

fun adjudication_step :: "AdjudicationState \<Rightarrow> AdjudicationState \<Rightarrow> bool" where
  "adjudication_step (l, j, r) (l', j', r') \<longleftrightarrow> ledger_step l l' \<and>
     ((j' = j \<and> r' = r) \<or> (docket_step j j' \<and> r' = r) \<or> (j' = j \<and> docket_step r r'))"

definition adjudication_le :: "EngramState \<Rightarrow> EngramState \<Rightarrow> bool" where
  "adjudication_le st st' \<longleftrightarrow> docket_le (judgments_of st) (judgments_of st') \<and> docket_le (reconciliations_of st) (reconciliations_of st')"

section \<open>Every step is a step of the dockets\<close>

lemma engram_step_tables:
  assumes "engram_step cfg (db, disk, fs) (db', disk', fs')" and "ledger_inv (ledger_of db)"
  shows "(md_Judgments db' = md_Judgments db \<and> md_Reconciliations db' = md_Reconciliations db)
    \<or> judgment_act cfg db db' \<or> reconciliation_act cfg db db'"
  using engram_step_effect [OF assms]
proof (elim disjE exE conjE)
  assume "mem_evolves db db'"
  then show ?thesis by (simp add: mem_evolves_def adjudication_kept_def)
qed simp_all

lemma engram_step_dockets:
  assumes step: "engram_step cfg s t" and inv: "adjudication_inv (adjudication s)"
  shows "adjudication_step (adjudication s) (adjudication t)"
proof -
  obtain db disk fs db' disk' fs' where st: "s = (db, disk, fs)" "t = (db', disk', fs')" by (cases s, cases t) blast
  have i: "ledger_inv (ledger_of db)" "docket_inv (judgment_docket (md_Judgments db))" "docket_inv (reconciliation_docket (md_Reconciliations db))"
    using inv by (simp_all add: st adjudication_def judgments_of_def reconciliations_of_def)
  have l: "ledger_step (ledger_of db) (ledger_of db')" using engram_step_evolves(2) step i(1) unfolding st by blast
  from engram_step_tables [OF step [unfolded st] i(1)] show ?thesis
  proof (elim disjE conjE)
    assume "judgment_act cfg db db'"
    then have "judgment_effect db db'" by (rule judgment_act_effect)
    then show ?thesis using l i(2) unfolding judgment_effect_def st adjudication_def judgments_of_def reconciliations_of_def fst_conv
      adjudication_step.simps by metis
  next
    assume "reconciliation_act cfg db db'"
    then have "reconciliation_effect db db'" by (rule reconciliation_act_effect)
    then show ?thesis using l i(3) unfolding reconciliation_effect_def st adjudication_def judgments_of_def reconciliations_of_def fst_conv
      adjudication_step.simps by metis
  qed (simp add: l st adjudication_def judgments_of_def reconciliations_of_def)
qed

interpretation adjudicating: evolution "engram_step cfg" adjudication_step adjudication adjudication_inv adjudication_le
proof unfold_locales
  fix a b :: AdjudicationState
  show "adjudication_inv a \<Longrightarrow> adjudication_step a b \<Longrightarrow> adjudication_inv b"
    by (cases a; cases b) (use ledger_step_inv docket_step_inv in \<open>simp, blast\<close>)
next
  fix s t show "adjudication_inv (adjudication s) \<Longrightarrow> engram_step cfg s t \<Longrightarrow> adjudication_step (adjudication s) (adjudication t)"
    using engram_step_dockets by blast
next
  fix s t assume i: "adjudication_inv (adjudication s)" and "engram_step cfg s t"
  then have "adjudication_step (adjudication s) (adjudication t)" using engram_step_dockets by blast
  then show "adjudication_le s t" using i docket_step_le unfolding adjudication_def adjudication_le_def adjudication_step.simps adjudication_inv.simps
      by (metis docket_le_refl)
next
  fix s show "adjudication_le s s" by (simp add: adjudication_le_def)
next
  fix s t u show "adjudication_le s t \<Longrightarrow> adjudication_le t u \<Longrightarrow> adjudication_le s u"
    unfolding adjudication_le_def by (elim conjE, intro conjI; erule docket_le_trans; assumption)
qed

section \<open>Reachable states\<close>

lemma start_dockets: "engram_start st \<Longrightarrow> adjudication st = (ledger_empty, docket_empty, docket_empty)"
  by (cases st) (auto simp: adjudication_def judgments_of_def reconciliations_of_def start_abstraction engram_start_def no_cases_def
      docket_of_def docket_empty_def)

lemma empty_adjudication_inv: "adjudication_inv (ledger_empty, docket_empty, docket_empty)"
  by (simp add: ledger_empty_inv docket_empty_inv)

lemma reach_dockets:
  assumes "engram_reach cfg st"
  shows "docket_step\<^sup>*\<^sup>* docket_empty (judgments_of st) \<and> docket_step\<^sup>*\<^sup>* docket_empty (reconciliations_of st)
    \<and> docket_inv (judgments_of st) \<and> docket_inv (reconciliations_of st)"
proof -
  obtain st0 where s: "engram_start st0" and r: "(engram_step cfg)\<^sup>*\<^sup>* st0 st" using assms by (auto simp: engram_reach_def)
  have run: "adjudication_step\<^sup>*\<^sup>* (ledger_empty, docket_empty, docket_empty) (adjudication st) \<and> adjudication_inv (adjudication st)"
    using adjudicating.run [OF r] empty_adjudication_inv start_dockets [OF s] by (simp only:)
  have "docket_step\<^sup>*\<^sup>* (fst (snd a)) (fst (snd b)) \<and> docket_step\<^sup>*\<^sup>* (snd (snd a)) (snd (snd b))" if "adjudication_step\<^sup>*\<^sup>* a b" for a b
    using that
  proof (induction rule: rtranclp_induct)
    case (step b c)
    then show ?case by (cases b; cases c) (auto intro: rtranclp.rtrancl_into_rtrancl)
  qed simp
  from this [OF conjunct1 [OF run]] conjunct2 [OF run] show ?thesis by (simp add: adjudication_def)
qed

lemma reach_docket_inv:
  assumes "engram_reach cfg (db, disk, fs)"
  shows "docket_inv (judgment_docket (md_Judgments db))" "docket_inv (reconciliation_docket (md_Reconciliations db))"
  using reach_dockets [OF assms] by (simp_all add: judgments_of_def reconciliations_of_def)

lemma reach_docket_le:
  assumes "engram_reach cfg st" and "(engram_step cfg)\<^sup>*\<^sup>* st st'"
  shows "docket_le (judgments_of st) (judgments_of st') \<and> docket_le (reconciliations_of st) (reconciliations_of st')"
proof -
  have "adjudication_inv (adjudication st)" using reach_dockets [OF assms(1)] reach_inv assms(1) by (cases st) (auto simp: adjudication_def)
  then show ?thesis using adjudicating.run_le [OF assms(2)] by (simp add: adjudication_le_def)
qed

lemma reach_amounts:
  assumes "engram_reach cfg st"
  shows "all_amounts_ok (md_Reconciliations (fst st))"
proof -
  obtain st0 where s: "engram_start st0" and r: "(engram_step cfg)\<^sup>*\<^sup>* st0 st" using assms by (auto simp: engram_reach_def)
  from r show ?thesis
  proof (induction rule: rtranclp_induct)
    case base
    then show ?case using s by (cases st0) (auto simp: engram_start_def no_cases_def all_amounts_ok_def)
  next
    case (step t u)
    obtain db disk fs db' disk' fs' where st: "t = (db, disk, fs)" "u = (db', disk', fs')" by (cases t, cases u) blast
    have "engram_reach cfg t" unfolding engram_reach_def using s step(1) by blast
    then have "ledger_inv (ledger_of db)" using reach_inv st(1) by blast
    from engram_step_tables [OF step(2) [unfolded st] this] step(3) show ?case
    proof (elim disjE conjE)
      assume "judgment_act cfg db db'"
      then show ?thesis using judgment_act_effect step(3) by (auto simp: judgment_effect_def st)
    next
      assume "reconciliation_act cfg db db'"
      then show ?thesis using reconciliation_act_amounts step(3) by (auto simp: st)
    qed (simp add: st)
  qed
qed

end
