(* ===== verification/Sha256_Eval.thy ===== *)
theory Sha256_Eval
  imports Sha256
begin

text \<open>
  SHA-256 on integers below \<open>2 ^ 32\<close>, equal to the definition on words and fast enough to evaluate
  in the kernel: the concrete runs of the development compute their envelope hashes with it.
\<close>

definition low32 :: "int \<Rightarrow> int" where
  "low32 x = x mod 4294967296"

text \<open>Rotation of a value below \<open>2 ^ 32\<close>; the shifted-out bits come in on the left.\<close>

definition irot :: "int \<Rightarrow> int \<Rightarrow> int \<Rightarrow> int" where
  "irot p q x = x div p + (x mod p) * q"

abbreviation irotr :: "nat \<Rightarrow> int \<Rightarrow> int" where
  "irotr n \<equiv> irot (2 ^ n) (2 ^ (32 - n))"

abbreviation w32_of :: "int \<Rightarrow> w32" where "w32_of \<equiv> word_of_int"

lemma low32_code [code]: "low32 x = (if 0 \<le> x \<and> x < 4294967296 then x else x mod 4294967296)"
  by (simp add: low32_def)

lemma low32_bits: "low32 x = take_bit 32 x"
  by (simp add: low32_def take_bit_eq_mod)

lemma w_low32 [simp]: "w32_of (low32 x) = w32_of x"
  by (simp add: low32_bits word_of_int_eq_iff)

lemma irotr_bits:
  assumes "n \<le> 32" and "take_bit 32 x = x"
  shows "irotr n x = drop_bit n x OR push_bit (32 - n) (take_bit n x)"
proof -
  have "\<not> bit (drop_bit n x) k \<or> \<not> bit (push_bit (32 - n) (take_bit n x)) k" for k
    using assms by (metis bit_drop_bit_eq bit_push_bit_iff bit_take_bit_iff comp_apply le_add_diff_inverse linorder_not_less nat_add_left_cancel_le)
  then have "drop_bit n x AND push_bit (32 - n) (take_bit n x) = 0" by (simp add: bit_eq_iff bit_and_iff)
  then show ?thesis by (simp add: irot_def drop_bit_eq_div push_bit_eq_mult take_bit_eq_mod disjunctive_add_eq_or)
qed

lemma xor_w: "w32_of x XOR w32_of y = w32_of (x XOR y)" and and_w: "w32_of x AND w32_of y = w32_of (x AND y)" and or_w: "w32_of x OR w32_of y = w32_of (x OR y)"
  by (transfer; simp)+

lemma push_w: "push_bit n (w32_of x) = w32_of (push_bit n x)"
  by (rule bit_word_eqI) (auto simp: bit_push_bit_iff bit_word_of_int_iff)

lemma drop_low32: "drop_bit n (w32_of x) = w32_of (drop_bit n (low32 x))"
  by (simp add: low32_bits) (transfer, simp)

lemma drop_w: "drop_bit n (w32_of x) = w32_of (low32 x div 2 ^ n)"
  by (simp only: drop_low32 drop_bit_eq_div [symmetric])

lemma push_w_take: "n \<le> 32 \<Longrightarrow> w32_of (push_bit (32 - n) (take_bit n x)) = w32_of (push_bit (32 - n) x)"
  by (rule bit_word_eqI) (auto simp: bit_push_bit_iff bit_word_of_int_iff bit_take_bit_iff)

lemma rotr_w: "n \<le> 32 \<Longrightarrow> rotr n (w32_of x) = w32_of (irotr n (low32 x))"
  by (subst irotr_bits) (simp_all add: rotr_def drop_low32 push_w push_w_take low32_bits flip: or_w)

lemma not_w: "NOT (w32_of x) = w32_of (4294967295 - x)"
proof -
  have "NOT (w32_of x) = w32_of (- 1 - x)" by (simp add: not_eq_complement)
  also have "\<dots> = w32_of 4294967296 + w32_of (- 1 - x)" by simp
  also have "\<dots> = w32_of (4294967295 - x)" by (simp only: of_int_add [symmetric]) simp
  finally show ?thesis .
qed


text \<open>The round functions.\<close>

definition ixor :: "int \<Rightarrow> int \<Rightarrow> int" where "ixor = (XOR)"
definition iand :: "int \<Rightarrow> int \<Rightarrow> int" where "iand = (AND)"

definition issig0 :: "int \<Rightarrow> int" where
  "issig0 x = (let y = low32 x in ixor (irot 128 33554432 y) (ixor (irot 262144 16384 y) (y div 8)))"

definition issig1 :: "int \<Rightarrow> int" where
  "issig1 x = (let y = low32 x in ixor (irot 131072 32768 y) (ixor (irot 524288 8192 y) (y div 1024)))"

definition ibsig0 :: "int \<Rightarrow> int" where
  "ibsig0 x = (let y = low32 x in ixor (irot 4 1073741824 y) (ixor (irot 8192 524288 y) (irot 4194304 1024 y)))"

definition ibsig1 :: "int \<Rightarrow> int" where
  "ibsig1 x = (let y = low32 x in ixor (irot 64 67108864 y) (ixor (irot 2048 2097152 y) (irot 33554432 128 y)))"

definition ich :: "int \<Rightarrow> int \<Rightarrow> int \<Rightarrow> int" where
  "ich x y z = ixor (iand x y) (iand (4294967295 - x) z)"

definition imaj :: "int \<Rightarrow> int \<Rightarrow> int \<Rightarrow> int" where
  "imaj x y z = ixor (iand x y) (ixor (iand x z) (iand y z))"

lemma round_functions_w:
  "ssig0 (w32_of x) = w32_of (issig0 x)" "ssig1 (w32_of x) = w32_of (issig1 x)"
  "bsig0 (w32_of x) = w32_of (ibsig0 x)" "bsig1 (w32_of x) = w32_of (ibsig1 x)"
  by (simp_all add: ssig0_def ssig1_def bsig0_def bsig1_def issig0_def issig1_def ibsig0_def ibsig1_def rotr_w xor_w drop_w ixor_def Let_def)

lemma choice_w: "ch (w32_of x) (w32_of y) (w32_of z) = w32_of (ich x y z)" "maj (w32_of x) (w32_of y) (w32_of z) = w32_of (imaj x y z)"
  by (simp_all add: ch_def maj_def ich_def imaj_def not_w ixor_def iand_def flip: xor_w and_w del: of_int_diff)

type_synonym iregs = "int \<times> int \<times> int \<times> int \<times> int \<times> int \<times> int \<times> int"

fun iround :: "iregs \<Rightarrow> int \<Rightarrow> int \<Rightarrow> iregs" where
  "iround (a, b, c, d, e, f, g, h) k x =
     (let t1 = h + ibsig1 e + ich e f g + k + x; t2 = ibsig0 a + imaj a b c
      in (low32 (t1 + t2), a, b, c, low32 (d + t1), e, f, g))"

fun irounds :: "int list \<Rightarrow> int list \<Rightarrow> iregs \<Rightarrow> iregs" where
  "irounds (k # ks) (x # xs) r = irounds ks xs (iround r k x)"
| "irounds _ _ r = r"

fun isched :: "nat \<Rightarrow> int list \<Rightarrow> int list" where
  "isched 0 xs = xs"
| "isched (Suc n) xs = isched n (low32 (issig1 (xs ! 1) + xs ! 6 + issig0 (xs ! 14) + xs ! 15) # xs)"

fun iwords :: "int list \<Rightarrow> int list" where
  "iwords (a # b # c # d # r) = (((a * 256 + b) * 256 + c) * 256 + d) # iwords r"
| "iwords _ = []"


fun wr :: "iregs \<Rightarrow> regs" where
  "wr (a, b, c, d, e, f, g, h) = (w32_of a, w32_of b, w32_of c, w32_of d, w32_of e, w32_of f, w32_of g, w32_of h)"

lemma iround_w: "round256 (wr r) (w32_of k) (w32_of x) = wr (iround r k x)"
  by (cases r rule: wr.cases) (simp add: Let_def round_functions_w choice_w)

lemma irounds_w: "rounds (map w32_of ks) (map w32_of xs) (wr r) = wr (irounds ks xs r)"
  by (induction ks xs r rule: irounds.induct) (simp_all add: iround_w)

lemma isched_w: "16 \<le> length xs \<Longrightarrow> sched n (map w32_of xs) = map w32_of (isched n xs)"
  by (induction n xs rule: isched.induct) (simp_all add: round_functions_w)

lemma iwords_w: "words32 b = map w32_of (iwords b)"
  by (induction b rule: iwords.induct) simp_all

lemma length_iwords: "length (iwords b) = length b div 4"
  by (induction b rule: iwords.induct) simp_all

definition isha_k :: "int list" where
  "isha_k =
    [1116352408, 1899447441, 3049323471, 3921009573, 961987163, 1508970993, 2453635748, 2870763221,
     3624381080, 310598401, 607225278, 1426881987, 1925078388, 2162078206, 2614888103, 3248222580,
     3835390401, 4022224774, 264347078, 604807628, 770255983, 1249150122, 1555081692, 1996064986,
     2554220882, 2821834349, 2952996808, 3210313671, 3336571891, 3584528711, 113926993, 338241895,
     666307205, 773529912, 1294757372, 1396182291, 1695183700, 1986661051, 2177026350, 2456956037,
     2730485921, 2820302411, 3259730800, 3345764771, 3516065817, 3600352804, 4094571909, 275423344,
     430227734, 506948616, 659060556, 883997877, 958139571, 1322822218, 1537002063, 1747873779,
     1955562222, 2024104815, 2227730452, 2361852424, 2428436474, 2756734187, 3204031479, 3329325298]"

fun iadd_regs :: "iregs \<Rightarrow> iregs \<Rightarrow> iregs" where
  "iadd_regs (a, b, c, d, e, f, g, h) (a', b', c', d', e', f', g', h') =
     (low32 (a + a'), low32 (b + b'), low32 (c + c'), low32 (d + d'), low32 (e + e'), low32 (f + f'), low32 (g + g'), low32 (h + h'))"

definition icompress :: "iregs \<Rightarrow> int list \<Rightarrow> iregs" where
  "icompress r blk = iadd_regs r (irounds isha_k (rev (isched 48 (rev (iwords blk)))) r)"

fun iblocks :: "nat \<Rightarrow> int list \<Rightarrow> iregs \<Rightarrow> iregs" where
  "iblocks 0 m r = r"
| "iblocks (Suc n) m r = iblocks n (drop 64 m) (icompress r (take 64 m))"

definition isha_init :: iregs where
  "isha_init = (1779033703, 3144134277, 1013904242, 2773480762, 1359893119, 2600822924, 528734635, 1541459225)"

lemma iadd_regs_w: "add_regs (wr r) (wr s) = wr (iadd_regs r s)"
  by (cases r rule: wr.cases; cases s rule: wr.cases) simp

lemma isha_k_w: "sha_k = map w32_of isha_k"
  by (simp add: sha_k_def isha_k_def)

lemma icompress_w: "length blk = 64 \<Longrightarrow> compress_block (wr r) blk = wr (icompress r blk)"
  by (simp add: compress_block_def icompress_def isha_k_w iwords_w rev_map isched_w length_iwords irounds_w iadd_regs_w)

lemma iblocks_w: "64 * n \<le> length m \<Longrightarrow> blocks n m (wr r) = wr (iblocks n m r)"
  by (induction n m r rule: iblocks.induct) (simp_all add: icompress_w)

lemma sha_init_w: "sha_init = wr isha_init"
  by (simp add: sha_init_def sha_h0_def isha_init_def)

text \<open>Hexadecimal digits of a value below \<open>2 ^ 32\<close>.\<close>

definition ihex_word :: "int \<Rightarrow> string" where
  "ihex_word x = map (\<lambda>i. hex_char (nat (x div 16 ^ (7 - i) mod 16))) [0..<8]"

lemma hex_word_w: "hex_word (w32_of x) = ihex_word (low32 x)"
proof -
  have "unat (drop_bit (4 * k) (w32_of x) AND 15) = nat (low32 x div 16 ^ k mod 16)" for k
  proof -
    have "y AND 15 = y mod 16" for y :: int
      using take_bit_eq_mask [of 4 y] by (simp add: take_bit_eq_mod mask_eq_exp_minus_1)
    then have "w32_of (low32 x div 16 ^ k) AND w32_of 15 = w32_of (low32 x div 16 ^ k mod 16)" by (simp only: and_w)
    then have "drop_bit (4 * k) (w32_of x) AND 15 = w32_of (low32 x div 16 ^ k mod 16)" by (simp add: drop_w power_mult)
    moreover have "0 \<le> y mod 16" "y mod 16 < 16" for y :: int by simp_all
    ultimately show ?thesis by (simp add: unsigned_of_int take_bit_eq_mod mod_pos_pos_trivial order.strict_trans [of _ 16])
  qed
  then show ?thesis by (simp add: hex_word_def ihex_word_def)
qed


text \<open>A table of the digits evaluates faster.\<close>

lemma hex_char_table [code]: "hex_char n = (if n < 16 then ''0123456789abcdef'' ! n else char_of (87 + n))"
proof -
  have "list_all (\<lambda>n. hex_char n = ''0123456789abcdef'' ! n) [0..<16]" by code_simp
  then have "n < 16 \<Longrightarrow> hex_char n = ''0123456789abcdef'' ! n" by (simp add: list_all_iff)
  then show ?thesis by (simp add: hex_char_def)
qed

definition isha256_hex :: "string \<Rightarrow> string" where
  "isha256_hex s =
     (let m = sha_pad (map of_char s)
      in case iblocks (length m div 64) m isha_init of (a, b, c, d, e, f, g, h) \<Rightarrow>
        concat (map (\<lambda>x. ihex_word (low32 x)) [a, b, c, d, e, f, g, h]))"

lemma regs_list_w: "map hex_word (regs_list (wr r)) = (case r of (a, b, c, d, e, f, g, h) \<Rightarrow>
    map (\<lambda>x. ihex_word (low32 x)) [a, b, c, d, e, f, g, h])"
  by (cases r rule: wr.cases) (simp add: hex_word_w)

lemma sha256_hex_eval: "sha256_hex s = isha256_hex s"
  by (simp add: sha256_hex_def isha256_hex_def Let_def sha_init_w iblocks_w regs_list_w split: prod.splits)

end
