(* ===== verification/Engram_Demo.thy ===== *)
theory Engram_Demo
  imports Adjudication_Store Purge_Run Sha256_Eval
begin

text \<open>
  The close memory of the concrete run and its hashes, evaluated: the envelope of the pending memory
  and the envelope of the approved one differ, as the approval demands.
\<close>

section \<open>The saved close memory\<close>

definition demo_cfg :: StoreConfig where
  "demo_cfg = \<lparr>cf_Signer = None, cf_Frozen = False, cf_Mode = FiscalRuntimeLegacyCompat\<rparr>"

definition demo_start :: MemoryDB where
  "demo_start = \<lparr>md_Life = \<lparr>ld_Purge = empty_db\<lparr>pd_Policies := []\<rparr>, ld_HoldKeys = [], ld_PolicyKeys = []\<rparr>, md_Observations = [],
     md_Relations = [], md_Transitions = [], md_EvidenceLinks = [], md_RuleLinks = [], md_Bindings = [], md_FiscalLinks = [],
     md_Approvals = [], md_ApprovalKeys = [], md_Decisions = [], md_ReviewKeys = [], md_Velocity = [], md_ClosureEvents = [],
     md_Judgments = no_cases, md_Reconciliations = no_cases, md_Memberships = [p_MembershipID (actor ''alice'')]\<rparr>"

definition demo_save_input :: "FiscalEffect \<Rightarrow> SaveInput" where
  "demo_save_input effect =
     \<lparr>si_TopicKey = ''closing/CIERRE-202601'', si_Title = ''cierre'', si_Kind = KindSummary, si_Scope = demo_scope,
      si_Content = \<lparr>co_What = ''w'', co_Why = ''y'', co_Where = ''r'', co_Learned = ''l''\<rparr>, si_FiscalEffect = effect,
      si_EffectiveAt = '''', si_ObservedAt = '''',
      si_Source = \<lparr>src_System = ''erp'', src_Reference = ''r'', src_ActorID = ''bot'', src_ActorKind = ActorKindAgent, src_Model = '''',
        src_Session = ''''\<rparr>,
      si_Validity = None, si_RuleRefs = [], si_Confidence = Fin 1, si_Materiality = None, si_MaterialityLevel = None,
      si_CloseSnapshot = None, si_PolicyRule = None, si_RuleLinks = [], si_ReceiptID = '''', si_FiscalIntent = None\<rparr>"

definition demo_memory :: "string \<Rightarrow> int \<Rightarrow> AccountingMemory" where
  "demo_memory i n = (buildMemory ((demo_save_input FiscalEffectClosing)\<lparr>si_EffectiveAt := demo_time\<rparr>) i n StatusPendingReview demo_time)"

definition demo_close_row :: "string \<Rightarrow> int \<Rightarrow> Observation" where
  "demo_close_row i n = (observation_row (demo_memory i n))\<lparr>ob_EnvelopeHash := ComputeEnvelopeHash (demo_memory i n)\<rparr>"

definition demo_pending :: MemoryDB where
  "demo_pending = demo_start\<lparr>md_Observations := [demo_close_row ''m1'' 1]\<rparr>"

lemma demo_memory_simps [simp]:
  "m_ID (demo_memory i n) = i" "m_Scope (demo_memory i n) = demo_scope" "m_Status (demo_memory i n) = StatusPendingReview"
  "m_TopicKey (demo_memory i n) = ''closing/CIERRE-202601''" "m_Kind (demo_memory i n) = KindSummary" "m_Revision (demo_memory i n) = n"
  "m_FiscalEffect (demo_memory i n) = FiscalEffectClosing" "m_RecordedAt (demo_memory i n) = demo_time"
  by (simp_all add: demo_memory_def demo_save_input_def)

section \<open>Its hashes\<close>

lemma demo_scope_key: "ScopeKey demo_scope = join NUL [''company'', ''o'', ''c'', ''20100070970'', ''202601'']"
  by (simp add: ScopeKey_def) (simp add: demo_scope_def company_scope_def del: demo_scope_fold)

lemma demo_source:
  "m_EffectiveAt (demo_memory i n) = demo_time" "src_Reference (m_Source (demo_memory i n)) = ''r''"
  by (simp_all add: demo_memory_def buildMemory_def Let_def demo_save_input_def)

lemma demo_identity_hash: "ComputeIdentityHash (demo_memory ''m1'' 1) = ''4547f81ef0b3dfb4ac359bfe6e932bbd9935e370b31173a16dd3999ace2d159b''"
proof -
  have "identity_canonical (demo_memory ''m1'' 1) = join NUL [''company'', ''o'', ''c'', ''20100070970'', ''202601'', ''closing/CIERRE-202601'', ''2026-02-01T00:00:00Z'', ''r'']"
    by (simp add: identity_canonical_def demo_scope_key demo_source demo_time_def)
  moreover have "isha256_hex (join NUL [''company'', ''o'', ''c'', ''20100070970'', ''202601'', ''closing/CIERRE-202601'', ''2026-02-01T00:00:00Z'', ''r'']) = ''4547f81ef0b3dfb4ac359bfe6e932bbd9935e370b31173a16dd3999ace2d159b''" by code_simp
  ultimately show ?thesis unfolding ComputeIdentityHash_def sha256_hex_eval by (simp only:)
qed

lemma demo_content_hash: "m_ContentHash (demo_memory ''m1'' 1) = ''5b91c33b342971377604fc906806d1c97586e26b73750ca56f2780b4339e96af''"
proof -
  let ?m = "demo_memory ''m1'' 1"
  have "m_ContentHash ?m = sha256_hex (join NUL [''company'', ''o'', ''c'', ''20100070970'', ''202601'', ''summary'', ''cierre'', ''closing'', ''2026-02-01T00:00:00Z'', ''w'', ''y'', ''r'', ''l'', ''erp'', ''agent''])"
    by (simp add: demo_memory_def buildMemory_def Let_def ComputeContentHash_def content_canonical_def demo_save_input_def demo_scope_key demo_time_def
       closeSnapshotCanonicalContribution_def policyRuleCanonicalContribution_def append_nonempty_def)
  moreover have "isha256_hex (join NUL [''company'', ''o'', ''c'', ''20100070970'', ''202601'', ''summary'', ''cierre'', ''closing'', ''2026-02-01T00:00:00Z'', ''w'', ''y'', ''r'', ''l'', ''erp'', ''agent'']) = ''5b91c33b342971377604fc906806d1c97586e26b73750ca56f2780b4339e96af''" by code_simp
  ultimately show ?thesis unfolding sha256_hex_eval by (simp only:)
qed

text \<open>The envelope hash of the memory in a given status.\<close>

lemma demo_envelope:
  "ComputeEnvelopeHash ((demo_memory ''m1'' 1)\<lparr>m_Status := st\<rparr>) = isha256_hex (join NUL
     [''4547f81ef0b3dfb4ac359bfe6e932bbd9935e370b31173a16dd3999ace2d159b'', ''5b91c33b342971377604fc906806d1c97586e26b73750ca56f2780b4339e96af'', ''closing'', MemoryStatus_str st, ''erp'', ''bot'', ''agent'', '''', '''', ''2026-02-01T00:00:00Z'', '''', '''', '''', '''', ''''])"
proof -
  let ?m = "(demo_memory ''m1'' 1)\<lparr>m_Status := st\<rparr>"
  have "ComputeIdentityHash ?m = ComputeIdentityHash (demo_memory ''m1'' 1)"
    by (simp add: ComputeIdentityHash_def identity_canonical_def)
  then have hashes: "ComputeIdentityHash ?m = ''4547f81ef0b3dfb4ac359bfe6e932bbd9935e370b31173a16dd3999ace2d159b''" "m_ContentHash ?m = ''5b91c33b342971377604fc906806d1c97586e26b73750ca56f2780b4339e96af''"
    using demo_identity_hash demo_content_hash by simp_all
  have "m_CloseSnapshot ?m = None" "m_FiscalLinks ?m = []" "m_EvidenceRefs ?m = []" "m_RuleRefs ?m = []" "policyRuleCanonicalContribution ?m = ''''"
    "m_Source ?m = si_Source (demo_save_input FiscalEffectClosing)" "m_ObservedAt ?m = ''''" "m_SupersedesID ?m = ''''" "m_ReceiptID ?m = ''''"
    by (simp_all add: demo_memory_def buildMemory_def Let_def demo_save_input_def policyRuleCanonicalContribution_def)
  then show ?thesis unfolding ComputeEnvelopeHash_def sha256_hex_eval envelope_canonical_def hashes
    by (simp add: demo_save_input_def demo_time_def canonicalRefs_def dedup_def closeSnapshotCanonicalContribution_def append_nonempty_def
        fiscalLinksEnvelopeContribution_def)
qed

lemma demo_pending_hash: "ComputeEnvelopeHash ((demo_memory ''m1'' 1)\<lparr>m_Status := StatusPendingReview\<rparr>) = ''865310c074d7778fd207b3a38409422d1686f45fc96251191c5a04793dc269c9''"
  unfolding demo_envelope MemoryStatus_str.simps by code_simp

lemma demo_approved_hash: "ComputeEnvelopeHash ((demo_memory ''m1'' 1)\<lparr>m_Status := StatusApproved\<rparr>) = ''59f1338a016f3911ee5d5a173b10adabd71186ccd1b2d12022ec44639b737f0b''"
  unfolding demo_envelope MemoryStatus_str.simps by code_simp

lemma demo_hashes_differ:
  "ComputeEnvelopeHash ((demo_memory ''m1'' 1)\<lparr>m_Status := StatusApproved\<rparr>) \<noteq> ComputeEnvelopeHash (demo_memory ''m1'' 1)"
proof -
  have "ComputeEnvelopeHash ((demo_memory ''m1'' 1)\<lparr>m_Status := StatusPendingReview\<rparr>) = ComputeEnvelopeHash (demo_memory ''m1'' 1)"
    by (rule arg_cong [of _ _ ComputeEnvelopeHash]) (simp add: demo_memory_def buildMemory_def Let_def)
  then show ?thesis unfolding demo_pending_hash demo_approved_hash by (elim subst) simp
qed

end
