(* ===== verification/Engram_Run.thy ===== *)
theory Engram_Run
  imports Engram_System Engram_Demo
begin

text \<open>
  A concrete run of the whole store, for the witnesses of the system properties: the agent bot saves
  the close memory of a period, alice approves it and the period closes. Its two
  envelope hashes are evaluated in Engram_Demo.
\<close>

section \<open>The save\<close>

lemma demo_scan:
  "withLinks demo_pending (scanMemory (demo_close_row ''m1'' 1)) = (demo_memory ''m1'' 1)\<lparr>m_EnvelopeHash := ComputeEnvelopeHash (demo_memory ''m1'' 1)\<rparr>"
  by (simp add: demo_close_row_def demo_memory_def observation_row_def buildMemory_def demo_save_input_def Let_def withLinks_def scanMemory_def
      demo_pending_def demo_start_def mergeRefs_def linkRefs_def ruleLinksQuery_def fiscalBindingLinkContributions_def dedup_def
      sourceFromJSON_def validitySource_def validityEffectiveAt_def validityExpiresAt_def nullableFloat_def)

lemma envelope_cache [simp]: "ComputeEnvelopeHash (m\<lparr>m_EnvelopeHash := h\<rparr>) = ComputeEnvelopeHash m"
proof -
  have "policyRuleCanonicalContribution (m\<lparr>m_EnvelopeHash := h\<rparr>) = policyRuleCanonicalContribution m"
    by (cases "m_PolicyRule m"; cases "m_Validity m") (simp_all add: policyRuleCanonicalContribution_def)
  then show ?thesis by (simp add: ComputeEnvelopeHash_def envelope_canonical_def ComputeIdentityHash_def identity_canonical_def)
qed

lemma demo_checks: "save_checks demo_cfg (demo_save_input FiscalEffectClosing) = Inr (demo_save_input FiscalEffectClosing)"
  by (simp add: save_checks_def demo_save_input_def demo_scope_def company_scope_def AssertValidScope_def IsValidRUC_def IsValidPeriod_def
      text_eval AssertValidContent_def AssertValidSource_def AssertValidValidity_def AssertValidPolicyRule_def AssertValidRuleLinks_def
      verifyFiscalIntentAxes_def checkFiscalRuntimeGate_def CheckProtectedWrite_def demo_cfg_def)

lemma demo_time_parses: "\<exists>y. ParseDateTime demo_time = Some y"
  using demo_time_ok by blast

lemma demo_valid: "AssertValidMemory (demo_memory i n) = Inr ()"
  by (simp add: AssertValidMemory_def) (simp add: demo_time_parses demo_memory_def buildMemory_def Let_def demo_save_input_def demo_scope_def company_scope_def
      AssertValidScope_def IsValidRUC_def IsValidPeriod_def text_eval AssertValidContent_def AssertValidSource_def AssertValidPolicyRule_def)

text \<open>Saving it leaves one pending revision.\<close>

lemma demo_save:
  "Save demo_cfg demo_start (demo_save_input FiscalEffectClosing) demo_time (\<lambda>_. ''m1'') = Inr (demo_pending, demo_memory ''m1'' 1, WriteCreated)"
proof -
  let ?i = "(demo_save_input FiscalEffectClosing)\<lparr>si_EffectiveAt := demo_time\<rparr>"
  have i: "si_EffectiveAt (demo_save_input FiscalEffectClosing) = ''''" "si_TopicKey (demo_save_input FiscalEffectClosing) = ''closing/CIERRE-202601''"
    "si_Scope (demo_save_input FiscalEffectClosing) = demo_scope" "si_FiscalEffect (demo_save_input FiscalEffectClosing) = FiscalEffectClosing"
    "si_RuleLinks (demo_save_input FiscalEffectClosing) = []" "si_FiscalIntent (demo_save_input FiscalEffectClosing) = None"
    by (simp_all add: demo_save_input_def)
  have start: "beginWriteTx demo_cfg = Inr ()" "pd_Closures (md_Purge demo_start) = []" "chainRows demo_start t s = []" for t s
    by (simp_all add: beginWriteTx_def demo_cfg_def demo_start_def empty_db_def md_Purge_def chainRows_def)
  have m: "buildMemory ?i ''m1'' 1 StatusPendingReview demo_time = demo_memory ''m1'' 1" by (simp add: demo_memory_def)
  have rev: "(demo_memory ''m1'' 1)\<lparr>m_Revision := 1\<rparr> = demo_memory ''m1'' 1"
    by (simp add: demo_memory_def buildMemory_def Let_def)
  let ?db = "demo_start\<lparr>md_Observations := [observation_row (demo_memory ''m1'' 1)]\<rparr>"
  have ins: "insertObservation demo_start (observation_row (demo_memory ''m1'' 1)) = Inr ?db"
    by (simp add: insertObservation_def observationByID_def demo_start_def)
  have id': "ob_ID (observation_row (demo_memory ''m1'' 1)) = ''m1''" by (simp add: observation_row_def)
  have env: "ComputeEnvelopeHash (withLinks ?db (scanMemory (observation_row (demo_memory ''m1'' 1)))) = ComputeEnvelopeHash (demo_memory ''m1'' 1)"
    by (simp add: demo_memory_def observation_row_def buildMemory_def demo_save_input_def Let_def withLinks_def scanMemory_def
      demo_pending_def demo_start_def mergeRefs_def linkRefs_def ruleLinksQuery_def fiscalBindingLinkContributions_def dedup_def
      sourceFromJSON_def validitySource_def validityEffectiveAt_def validityExpiresAt_def nullableFloat_def)
  have "refreshEnvelopeCache ?db ''m1'' = Inr demo_pending"
    by (simp add: refreshEnvelopeCache_def readMemoryWithLinks_def observationByID_def id' env updateObservation_def demo_pending_def demo_close_row_def)
  moreover have "emitMemoryReceipt demo_cfg db j a p t = Inr db" for db j a p t
    by (simp add: emitMemoryReceipt_def emitReceipt_def demo_cfg_def set_purge_def md_Purge_def)
  ultimately show ?thesis
    by (simp add: Save_def demo_checks i Let_def InitialStatus_def m demo_valid start assertPeriodWritable_def
        head_revision_def rev save_tx_def ins recordSupersedes_def bindSaved_def save_receipts_def)
qed


section \<open>Its approval\<close>

lemma lower_hex_text:
  assumes "is_lower_hex a"
  shows "\<not> ascii_space a" and "\<not> space2 (of_char a) n" and "\<not> space3 (of_char a) n k"
  using assms by (auto simp: is_lower_hex_def ascii_space_def space2_def space3_def Let_def)

lemma trim_left_hex: "list_all is_lower_hex s \<Longrightarrow> trim_left s = s"
  by (cases s rule: trim_left.cases) (simp_all add: lower_hex_text)

lemma trim_rev_hex: "list_all is_lower_hex s \<Longrightarrow> trim_rev s = s"
  by (cases s rule: trim_rev.cases) (simp_all add: lower_hex_text)

lemma TrimSpace_digest [simp]: "TrimSpace (sha256_hex s) = sha256_hex s"
  using hash64_ok_sha256_hex [of s] by (simp add: TrimSpace_def hash64_ok_def trim_left_hex trim_rev_hex list_all_rev)

lemma blank_digest [simp]: "\<not> blank (sha256_hex s)"
proof -
  have "\<not> blank t" if "list_all is_lower_hex t" "t \<noteq> []" for t
    using that by (cases t rule: blank.cases) (simp_all add: lower_hex_text)
  moreover have "sha256_hex s \<noteq> []" using hash64_ok_sha256_hex [of s] by (auto simp: hash64_ok_def)
  ultimately show ?thesis using hash64_ok_sha256_hex [of s] by (simp add: hash64_ok_def)
qed

definition no_checks :: ReviewChecksV1 where
  "no_checks = \<lparr>rc_EvidenceInspected = no_ack, rc_RuleInspected = no_ack\<rparr>"

definition demo_approve_close :: ApproveMemoryCommand where
  "demo_approve_close = \<lparr>mc_MemoryID = ''m1'', mc_ExpectedEnvelopeHash = ComputeEnvelopeHash (demo_memory ''m1'' 1), mc_Reason = ''ok'',
     mc_RequestID = ''r1'', mc_ReviewChecks = no_checks, mc_FiscalIntent = None\<rparr>"

definition demo_closed_period :: PeriodClosure where
  "demo_closed_period = \<lparr>pc_TenantID = ''o'', pc_CompanyID = ''c'', pc_FiscalPeriodID = ''202601'', pc_CloseMemoryID = ''m1'',
     pc_Status = ''closed'', pc_CloseApprovalEventID = ''e1'', pc_ClosedAt = demo_time, pc_ReopenedAt = '''', pc_ReopenedBySubjectID = '''',
     pc_ReopenReason = ''''\<rparr>"

lemma demo_gates:
  assumes "md_Observations db = md_Observations demo_pending" "md_EvidenceLinks db = []" "md_RuleLinks db = []" "md_FiscalLinks db = []"
  shows "approval_gates demo_cfg db demo_approve_close (actor ''alice'')
    = Inr ((demo_memory ''m1'' 1)\<lparr>m_EnvelopeHash := ComputeEnvelopeHash (demo_memory ''m1'' 1)\<rparr>)"
proof -
  let ?m = "(demo_memory ''m1'' 1)\<lparr>m_EnvelopeHash := ComputeEnvelopeHash (demo_memory ''m1'' 1)\<rparr>"
  have "withLinks db = withLinks demo_pending"
    using assms by (simp add: withLinks_def fun_eq_iff demo_pending_def demo_start_def ruleLinksQuery_def fiscalBindingLinkContributions_def)
  moreover have "ob_ID (demo_close_row ''m1'' 1) = ''m1''" by (simp add: demo_close_row_def observation_row_def)
  ultimately have read: "readMemoryWithLinks db ''m1'' = Some ?m"
    using assms(1) demo_scan by (simp add: readMemoryWithLinks_def observationByID_def demo_pending_def)
  have m: "m_FiscalLinks ?m = []" "src_ActorID (m_Source ?m) = ''bot''" "m_MaterialityLevel ?m = None" "IsCloseMemory ?m"
    by (simp_all add: demo_memory_def buildMemory_def Let_def demo_save_input_def IsCloseMemory_def demo_scope_def company_scope_def)
  show ?thesis
    by (simp add: approval_gates_def demo_approve_close_def read m [simplified] requireFiscalIntentForBoundSubject_def verifyFiscalIntentAxes_def
        demo_scope_def company_scope_def checkFiscalRuntimeGate_def CheckProtectedWrite_def demo_cfg_def actor_def sample_principal_def
        principalHasCompanyScope_def approval_Authorize_def contains_scope_def baseRole_def satisfies_def ladderRank_def assuranceRank_def
        requiredRole_def SODViolation_def ValidateReviewChecksV1_def ReviewChecksRequired_def EqualFold_def)
      (simp add: ComputeEnvelopeHash_def EqualFold_def)
qed


lemma demo_close_approval:
 "\<exists>db' v. ApproveMemory demo_cfg demo_pending demo_approve_close (actor ''alice'') demo_time ''2026'' (\<lambda>_. ''e1'') = Inr (db', v)
    \<and> \<not> ap_IdempotentReplay v \<and> pd_Closures (md_Purge db') = [demo_closed_period]"
proof -
  let ?m = "(demo_memory ''m1'' 1)\<lparr>m_EnvelopeHash := ComputeEnvelopeHash (demo_memory ''m1'' 1)\<rparr>"
  let ?who = "actor ''alice''" and ?cmd = demo_approve_close
  let ?h1 = "ComputeEnvelopeHash (demo_memory ''m1'' 1)" and ?h2 = "ComputeEnvelopeHash ((demo_memory ''m1'' 1)\<lparr>m_Status := StatusApproved\<rparr>)"
  define db0 where "db0 = reserve_approval demo_pending ?cmd ?who demo_time"
  have db0: "md_Observations db0 = md_Observations demo_pending" "md_EvidenceLinks db0 = []" "md_RuleLinks db0 = []" "md_FiscalLinks db0 = []"
    "md_Approvals db0 = []" "md_Decisions db0 = []" "md_Memberships db0 = [p_MembershipID ?who]" "md_Purge db0 = empty_db\<lparr>pd_Policies := []\<rparr>"
    by (simp_all add: db0_def reserve_approval_def demo_pending_def demo_start_def md_Purge_def)
  have status: "(?m\<lparr>m_Status := StatusApproved\<rparr>) = ((demo_memory ''m1'' 1)\<lparr>m_Status := StatusApproved\<rparr>)\<lparr>m_EnvelopeHash := ?h1\<rparr>" by simp
  have h2: "ComputeEnvelopeHash (?m\<lparr>m_Status := StatusApproved\<rparr>) = ?h2" unfolding status by (rule envelope_cache)
  have row: "ob_ID (demo_close_row ''m1'' 1) = ''m1''" "ob_Status (demo_close_row ''m1'' 1) = StatusPendingReview"
    by (simp_all add: demo_close_row_def observation_row_def)
  have cmd: "mc_RequestID ?cmd = ''r1''" "mc_Reason ?cmd = ''ok''" by (simp_all add: demo_approve_close_def)
  have who: "p_TenantID ?who = ''o''" by (simp add: actor_def sample_principal_def)
  have bind: "approve_binding db0 ?cmd ?m demo_time = Inr (db0, ?m\<lparr>m_Status := StatusApproved\<rparr>)"
    by (simp add: approve_binding_def demo_approve_close_def)
  obtain db1 where db1: "decideObservation db0 ''m1'' StatusApproved ?h2 = Inr db1" "md_Approvals db1 = []" "md_Memberships db1 = [p_MembershipID ?who]"
    "observationByID db1 ''m1'' \<noteq> None" "md_Purge db1 = empty_db\<lparr>pd_Policies := []\<rparr>"
    by (simp add: decideObservation_def db0 demo_pending_def row observationByID_def md_Purge_def) (simp add: db0 md_Purge_def [symmetric])
  let ?ev = "decision_event ?m ''e1'' ''r1'' ''approved'' StatusApproved ?h1 ?h2 ''ok'' ?who PolicyVersion ''AUTHORIZED'' demo_time"
  let ?db2 = "db1\<lparr>md_Approvals := [?ev]\<rparr>"
  have db2: "insertApprovalEvent db1 ?ev = Inr ?db2"
    by (simp add: insertApprovalEvent_def decision_conflict_def db1 decision_event_def PrincipalSnapshot_of_def)
  obtain db3 where db3: "insertTransition ?db2 (decision_transition ''m1'' StatusApproved ?who demo_time) = Inr db3" "md_Approvals db3 = [?ev]"
    "md_Purge db3 = empty_db\<lparr>pd_Policies := []\<rparr>"
    using db1(4,5) by (simp add: insertTransition_def decision_transition_def observationByID_def md_Purge_def)
  have link: "approve_link db3 ?cmd ?m a i t = Inr db3" for a i t by (simp add: approve_link_def demo_approve_close_def)
  have alert: "maybeRecordReviewVelocityAlerts db3 t s ''approved'' n w x y = Inr db3" for t s n w x y
    by (simp add: maybeRecordReviewVelocityAlerts_def Let_def approvals_since_def db3(2) ApprovalVelocityThreshold_def)
  have closed: "project_closure (md_Purge db3) ?m ''e1'' demo_time = Inr ((md_Purge db3)\<lparr>pd_Closures := [demo_closed_period]\<rparr>)"
    by (simp add: project_closure_def Let_def IsCloseMemory_def db3(3) empty_db_def demo_closed_period_def demo_scope_def company_scope_def)
  have receipts: "approve_receipts demo_cfg db c m h w t = Inr db" for db c m h w t
    by (simp add: approve_receipts_def Let_def emitMemoryReceipt_def emitReceipt_def demo_cfg_def)
  have writes: "approve_writes demo_cfg db0 ?cmd ?m ?who demo_time ''2026'' (\<lambda>_. ''e1'')
      = Inr (set_purge ((md_Purge db3)\<lparr>pd_Closures := [demo_closed_period]\<rparr>) db3, ?h2)"
    using demo_hashes_differ h2 by (simp add: approve_writes_def bind Let_def db1(1) cmd db2 db3(1) link alert closed receipts)
  have "ApproveMemory demo_cfg demo_pending ?cmd ?who demo_time ''2026'' (\<lambda>_. ''e1'') = approval_act demo_cfg db0 ?cmd ?who demo_time ''2026'' (\<lambda>_. ''e1'')"
    by (simp add: ApproveMemory_def demo_approve_close_def text_eval ComputeEnvelopeHash_def db0_def demo_pending_def demo_start_def)
  also have "\<dots> = Inr (complete_approval (set_purge ((md_Purge db3)\<lparr>pd_Closures := [demo_closed_period]\<rparr>) db3) ''o'' ''r1''
      (approval_result ?m ''e1'' ?h2 ?who demo_time) demo_time, approval_result ?m ''e1'' ?h2 ?who demo_time)"
    by (simp add: approval_act_def demo_gates db0 writes Let_def cmd who)
  finally show ?thesis by (simp add: approval_result_def complete_approval_def set_purge_def md_Purge_def)
qed

end
