(* ===== verification/Engram_Properties.thy ===== *)
theory Engram_Properties
  imports Engram_Run
begin

text \<open>The system properties of the memory store, over every reachable state of Engram_System.\<close>

section \<open>Reachable states\<close>

lemma demo_started: "engram_start (demo_start, (\<lambda>_. None), [])"
  by (simp add: engram_start_def demo_start_def md_Purge_def empty_db_def)

lemma demo_saved: "engram_step demo_cfg (demo_start, (\<lambda>_. None), []) (demo_pending, (\<lambda>_. None), [])"
  using demo_save by (rule es_save)

lemma demo_reach: "engram_reach demo_cfg (demo_pending, (\<lambda>_. None), [])"
  unfolding engram_reach_def using demo_started demo_saved by blast

lemma demo_closed:
  "\<exists>db'. engram_step demo_cfg (demo_pending, (\<lambda>_. None), []) (db', (\<lambda>_. None), [])
     \<and> pd_Closures (md_Purge db') = [demo_closed_period]"
  using demo_close_approval es_approve by blast

text \<open>An approval that is no replay completes its key with its result.\<close>

lemma approval_completes:
  assumes a: "ApproveMemory cfg db cmd who now ws ids = Inr (db', v)" and inv: "ledger_inv (ledger_of db)" and f: "\<not> ap_IdempotentReplay v"
  shows "\<exists>k. key_answers db' cmd who k \<and> ak_CompletedAt k \<noteq> None \<and> ak_Result k = Some v"
  using a
proof (cases rule: ApproveMemory_cases)
  case (replay k r)
  then show ?thesis using f by simp
next
  case (fresh db0 k)
  have inv0: "ledger_inv (ledger_of db0)" using inv fresh(1) by auto
  obtain m h db1 where 1: "approval_gates cfg db0 cmd who = Inr m" "approve_writes cfg db0 cmd m who now ws ids = Inr (db1, h)"
    "db' = complete_approval db1 (p_TenantID who) (mc_RequestID cmd) v now"
    by (rule approval_act_Inr [OF fresh(2) inv0])
  note g = approval_gates_Inr [OF 1(1)]
  have row: "memory_of m \<in> set (ml_Rows (ledger_of db0))" using readMemory_row [OF g(1)] by blast
  have same: "md_ApprovalKeys db1 = md_ApprovalKeys db0" by (rule approve_writes_Inr(3) [OF 1(2) inv0 row g(2,3)])
  let ?P = "\<lambda>k. approval_key k = (p_TenantID who, mc_RequestID cmd)"
  let ?f = "\<lambda>k. if ak_TenantID k = p_TenantID who \<and> ak_RequestID k = mc_RequestID cmd
    then k\<lparr>ak_Result := Some v, ak_CompletedAt := Some now, ak_ApprovalEventID := Some (ap_ApprovalEventID v)\<rparr> else k"
  have "find ?P (md_ApprovalKeys db') = map_option ?f (find ?P (md_ApprovalKeys db0))"
    unfolding 1(3) complete_approval_def same by (simp add: find_map_pred approval_key_def)
  moreover have "?P k" "find ?P (md_ApprovalKeys db0) = Some k" using fresh(3) find_SomeD unfolding key_answers_def by fastforce+
  ultimately have "key_answers db' cmd who (?f k)" using fresh(3) by (simp add: key_answers_def approval_key_def)
  then show ?thesis using \<open>?P k\<close> by (intro exI [of _ "?f k"]) (simp add: approval_key_def)
qed


lemma approval_replays:
  assumes ok: "ApproveMemory cfg db cmd who now ws ids = Inr (db', v)" and k: "key_answers db2 cmd who k" "ak_CompletedAt k \<noteq> None" "ak_Result k = Some v"
  shows "ApproveMemory cfg2 db2 cmd who now2 ws2 ids2 = Inr (db2, v\<lparr>ap_IdempotentReplay := True\<rparr>)"
  using ok k find_approval_key [of who cmd db2 k] by (auto simp: ApproveMemory_def guard_simps key_answers_def)

lemma settled_memory:
  assumes "i \<in> settled_ids (map memory_row os)"
  obtains x where "x \<in> set os" "mr_Status (memory_row x) \<noteq> StatusPendingReview" "ob_ID x = i"
  using assms unfolding settled_ids_def by (auto simp del: memory_of_simps)

section \<open>Properties\<close>

text \<open>
  C1: The memory store refines two abstract machines at once: in every reachable state of the whole
  store, the observation, decision and closure tables are reached by steps of the abstract ledger,
  and the purge, hold and retention tables by steps of the evidence lifecycle, whatever the
  interleaving of saves, links, transitions, decisions, reopenings and lifecycle acts.
\<close>

theorem engram_refines_ledger_and_lifecycle:
  assumes "engram_reach cfg (db, disk, fs)"
  shows "ledger_step\<^sup>*\<^sup>* ledger_empty (ledger_of db) \<and> lifecycle_reach (cf_Signer cfg) (md_Life db, disk, fs)"
  using reach_run [OF assms] by blast

lemma engram_refines_ledger_and_lifecycle_witness:
  "ledger_step\<^sup>*\<^sup>* ledger_empty (ledger_of demo_pending) \<and> lifecycle_reach None (md_Life demo_pending, (\<lambda>_. None), [])
     \<and> ledger_of demo_pending \<noteq> ledger_empty"
  using engram_refines_ledger_and_lifecycle [OF demo_reach] by (simp add: demo_cfg_def ledger_of_def ledger_empty_def demo_pending_def)

text \<open>
  C2: In every reachable state memory ids are unique, and the revisions of a topic in one scope are
  numbered 1, 2, 3 and so on in the order they were saved, where all but the newest are superseded,
  rejected or voided - also when a rejection, a voiding or an explicit supersession races with a save.
\<close>

theorem revision_chains_hold:
  assumes "engram_reach cfg (db, disk, fs)"
  shows "distinct (map ob_ID (md_Observations db))
    \<and> (let chain = filter (\<lambda>o'. ob_TopicKey o' = topic \<and> ob_Scope o' = scope) (md_Observations db)
       in map ob_Revision chain = map int [1..<Suc (length chain)]
          \<and> (\<forall>o' \<in> set (butlast chain). m_Status (scanMemory o') \<notin> {StatusActive, StatusPendingReview, StatusApproved, StatusReturned}))"
proof -
  let ?c = "filter (\<lambda>o'. ob_TopicKey o' = topic \<and> ob_Scope o' = scope) (md_Observations db)"
  have inv: "chains_inv (ledger_of db)" using reach_inv [OF assms] by (simp add: ledger_inv_def)
  then have "revisions_ok (map memory_row ?c)" by (simp add: chains_inv_def flip: chain_filter)
  then have "map ob_Revision ?c = map int [1..<Suc (length ?c)]" "\<forall>o' \<in> set (butlast ?c). \<not> live_status (mr_Status (memory_row o'))"
    by (auto simp: revisions_ok_def comp_def map_butlast [symmetric])
  moreover have "distinct (map ob_ID (md_Observations db))" using inv by (simp add: chains_inv_def comp_def)
  ultimately show ?thesis by (simp add: Let_def live_status_def memory_row_def del: upt_Suc)
qed

lemma revision_chains_hold_witness:
  "map ob_Revision (filter (\<lambda>o'. ob_TopicKey o' = ''closing/CIERRE-202601'' \<and> ob_Scope o' = demo_scope) (md_Observations demo_pending)) = [1]"
  using revision_chains_hold [OF demo_reach, of "''closing/CIERRE-202601''" demo_scope]
  by (simp add: Let_def demo_pending_def demo_close_row_def observation_row_def)

text \<open>
  C3: A memory is decided at most once, by an approval or by a rejection or return. A pending memory
  has no decision on record, and an approved one has an approval event in its own tenant and company
  whose subject is not the actor that recorded it.
\<close>

theorem memory_decided_once:
  assumes "engram_reach cfg (db, disk, fs)"
  shows "distinct (map de_MemoryID (md_Approvals db @ md_Decisions db))
    \<and> (\<forall>o' \<in> set (md_Observations db).
         (m_Status (scanMemory o') = StatusPendingReview \<longrightarrow> ob_ID o' \<notin> set (map de_MemoryID (md_Approvals db @ md_Decisions db)))
       \<and> (m_Status (scanMemory o') = StatusApproved \<longrightarrow> (\<exists>e \<in> set (md_Approvals db). de_MemoryID e = ob_ID o'
            \<and> de_TenantID e = sc_OrganizationID (ob_Scope o') \<and> de_CompanyID e = sc_CompanyID (ob_Scope o')
            \<and> \<not> SODViolation (src_ActorID (m_Source (scanMemory o'))) (ps_SubjectID (de_Principal e)))))"
proof -
  have inv: "decisions_inv (ledger_of db)" "distinct (map ob_ID (md_Observations db))"
    using reach_inv [OF assms] by (simp_all add: ledger_inv_def chains_inv_def comp_def)
  then have dec: "distinct (map de_MemoryID (md_Approvals db @ md_Decisions db))"
    "set (map de_MemoryID (md_Approvals db @ md_Decisions db)) \<subseteq> settled_ids (map memory_row (md_Observations db))"
    by (simp_all add: decisions_inv_def decided_ids_def)
  have "ob_ID o' \<notin> set (map de_MemoryID (md_Approvals db @ md_Decisions db))"
    if o: "o' \<in> set (md_Observations db)" "m_Status (scanMemory o') = StatusPendingReview" for o'
  proof
    assume "ob_ID o' \<in> set (map de_MemoryID (md_Approvals db @ md_Decisions db))"
    with dec(2) have "ob_ID o' \<in> settled_ids (map memory_row (md_Observations db))" by (rule subsetD)
    then obtain x where x: "x \<in> set (md_Observations db)" "mr_Status (memory_row x) \<noteq> StatusPendingReview" "ob_ID x = ob_ID o'"
      by (rule settled_memory)
    then show False using distinct_key_eq [OF inv(2) x(1) o(1) x(3)] o(2) by (simp add: memory_row_def)
  qed
  moreover have "\<exists>e \<in> set (md_Approvals db). de_MemoryID e = ob_ID o' \<and> de_TenantID e = sc_OrganizationID (ob_Scope o')
      \<and> de_CompanyID e = sc_CompanyID (ob_Scope o') \<and> \<not> SODViolation (src_ActorID (m_Source (scanMemory o'))) (ps_SubjectID (de_Principal e))"
    if o: "o' \<in> set (md_Observations db)" "m_Status (scanMemory o') = StatusApproved" for o'
  proof -
    have "memory_row o' \<in> set (ml_Rows (ledger_of db))" "mr_Status (memory_row o') = StatusApproved"
      using o by (simp_all add: memory_row_def)
    moreover have "\<forall>r \<in> set (ml_Rows (ledger_of db)). mr_Status r = StatusApproved \<longrightarrow> (\<exists>e \<in> set (ml_Approvals (ledger_of db)). decides r e)"
      using inv(1) unfolding decisions_inv_def by (elim conjE)
    ultimately obtain e where e: "e \<in> set (ml_Approvals (ledger_of db))" "decides (memory_row o') e" by blast
    moreover have "mr_Actor (memory_row o') = src_ActorID (m_Source (scanMemory o'))" by (simp add: memory_row_def)
    ultimately show ?thesis by (intro bexI [of _ e]) (simp_all add: decides_def)
  qed
  ultimately show ?thesis using dec(1) by blast
qed

lemma memory_decided_once_witness:
  "ob_ID (demo_close_row ''m1'' 1) \<notin> set (map de_MemoryID (md_Approvals demo_pending @ md_Decisions demo_pending))"
  using memory_decided_once [OF demo_reach]
  by (simp add: demo_pending_def demo_close_row_def observation_row_def scanMemory_def)


text \<open>
  C5: In every reachable state a closed period is backed by an approval: its close memory exists in
  the period's own tenant, company and period, is a close memory, is still approved, and the
  approval event the closure names is on the ledger.
\<close>

theorem closed_period_is_backed:
  assumes "engram_reach cfg (db, disk, fs)" and "c \<in> set (pd_Closures (md_Purge db))" and "pc_Status c = ''closed''"
  shows "\<exists>o' \<in> set (md_Observations db). \<exists>e \<in> set (md_Approvals db).
    ob_ID o' = pc_CloseMemoryID c \<and> closure_key (ob_Scope o') c \<and> IsCloseMemory (scanMemory o')
    \<and> m_Status (scanMemory o') = StatusApproved \<and> de_ID e = pc_CloseApprovalEventID c \<and> de_MemoryID e = ob_ID o'
    \<and> \<not> SODViolation (src_ActorID (m_Source (scanMemory o'))) (ps_SubjectID (de_Principal e))"
proof -
  have "closures_inv (ledger_of db)" using reach_inv [OF assms(1)] by (simp add: ledger_inv_def)
  then have "\<exists>r \<in> set (ml_Rows (ledger_of db)). \<exists>e \<in> set (ml_Approvals (ledger_of db)). mr_Status r = StatusApproved \<and> mr_Close r
      \<and> closable (mr_Scope r) \<and> closes r e c \<and> decides r e"
    using assms(2,3) unfolding closures_inv_def by simp
  then obtain o' e where o: "o' \<in> set (md_Observations db)" and e: "e \<in> set (md_Approvals db)"
    and r: "mr_Status (memory_row o') = StatusApproved" "mr_Close (memory_row o')" "closes (memory_row o') e c" "decides (memory_row o') e"
    by (auto simp del: memory_of_simps)
  have m: "mr_Status (memory_row o') = m_Status (scanMemory o')" "mr_Close (memory_row o') = IsCloseMemory (scanMemory o')"
    "mr_Actor (memory_row o') = src_ActorID (m_Source (scanMemory o'))" by (simp_all add: memory_row_def)
  show ?thesis using r by (intro bexI [OF _ o] bexI [OF _ e]) (simp add: closes_def decides_def m)
qed

lemma closed_period_is_backed_witness:
  "\<exists>db'. engram_reach demo_cfg (db', (\<lambda>_. None), [])
     \<and> (\<exists>o' \<in> set (md_Observations db'). \<exists>e \<in> set (md_Approvals db').
       ob_ID o' = ''m1'' \<and> closure_key (ob_Scope o') demo_closed_period \<and> IsCloseMemory (scanMemory o')
       \<and> m_Status (scanMemory o') = StatusApproved \<and> de_ID e = ''e1'' \<and> de_MemoryID e = ob_ID o'
       \<and> \<not> SODViolation (src_ActorID (m_Source (scanMemory o'))) (ps_SubjectID (de_Principal e)))"
proof -
  obtain db' where step: "engram_step demo_cfg (demo_pending, (\<lambda>_. None), []) (db', (\<lambda>_. None), [])"
    and c: "pd_Closures (md_Purge db') = [demo_closed_period]" using demo_closed by blast
  have reach: "engram_reach demo_cfg (db', (\<lambda>_. None), [])" using reach_more [OF demo_reach] step by blast
  have "pc_Status demo_closed_period = ''closed''" "pc_CloseMemoryID demo_closed_period = ''m1''" "pc_CloseApprovalEventID demo_closed_period = ''e1''"
    by (simp_all add: demo_closed_period_def)
  then show ?thesis using closed_period_is_backed [OF reach, of demo_closed_period] reach c by (intro exI [of _ db']) simp
qed

text \<open>
  C6: While a period is closed, no step adds a memory to its scope or changes the status of one in
  it, except that a memory that was pending when the period closed may still be decided.
\<close>

theorem closed_period_is_frozen:
  assumes "engram_reach cfg (db, disk, fs)" and "engram_step cfg (db, disk, fs) (db', disk', fs')"
    and "c \<in> set (pd_Closures (md_Purge db))" and "pc_Status c = ''closed''" and "closure_key scope c" and "closable scope"
  shows "let rows = filter (\<lambda>o'. ob_Scope o' = scope) (md_Observations db); rows' = filter (\<lambda>o'. ob_Scope o' = scope) (md_Observations db')
    in length rows' = length rows \<and> (\<forall>i < length rows. ob_ID (rows' ! i) = ob_ID (rows ! i)
         \<and> (m_Status (scanMemory (rows' ! i)) = m_Status (scanMemory (rows ! i)) \<or> m_Status (scanMemory (rows ! i)) = StatusPendingReview))"
proof -
  let ?rows = "\<lambda>db. filter (\<lambda>o'. ob_Scope o' = scope) (md_Observations db)"
  have inv: "ledger_inv (ledger_of db)" by (rule reach_inv [OF assms(1)])
  have "period_closed (ml_Closures (ledger_of db)) scope" using assms(3-5) by (auto simp: period_closed_def)
  note closed = ledger_step_closed [OF conjunct1 [OF engram_step_evolves(2) [OF assms(2) inv]] inv assms(6) this]
  have rows: "filter (\<lambda>r. mr_Scope r = scope) (ml_Rows (ledger_of db)) = map memory_row (?rows db)" for db
    by (simp add: filter_map comp_def)
  have len: "length (?rows db') = length (?rows db)" using closed by (simp only: rows length_map)
  have "ob_ID (?rows db' ! i) = ob_ID (?rows db ! i)" if i: "i < length (?rows db)" for i
  proof -
    have h: "history_kept db db'" using engram_step_evolves(1) [OF assms(2) inv] by blast
    obtain zs where zs: "map frozen_columns (md_Observations db') = map frozen_columns (md_Observations db) @ zs"
      using h by (auto simp: history_kept_def prefix_def)
    have f: "map ob_ID (?rows db) = map ob_ID (filter (\<lambda>o'. ob_Scope o' = scope) (map frozen_columns (md_Observations db)))" for db
      by (simp add: filter_map comp_def frozen_columns_def)
    have "map ob_ID (?rows db') = map ob_ID (?rows db) @ map ob_ID (filter (\<lambda>o'. ob_Scope o' = scope) zs)"
      by (simp only: f zs filter_append map_append)
    then have "map ob_ID (?rows db') ! i = map ob_ID (?rows db) ! i" using i by (simp only: nth_append length_map if_True)
    then show ?thesis using i len by (simp only: nth_map)
  qed
  moreover have "m_Status (scanMemory (?rows db' ! i)) = m_Status (scanMemory (?rows db ! i)) \<or> m_Status (scanMemory (?rows db ! i)) = StatusPendingReview"
    if i: "i < length (?rows db)" for i
  proof -
    have "\<forall>i < length (?rows db). map memory_row (?rows db') ! i = map memory_row (?rows db) ! i
        \<or> mr_Status (map memory_row (?rows db) ! i) = StatusPendingReview"
      using conjunct2 [OF closed] by (simp only: rows length_map)
    then have "map memory_row (?rows db') ! i = map memory_row (?rows db) ! i \<or> mr_Status (map memory_row (?rows db) ! i) = StatusPendingReview"
      by (elim allE impE) (rule i)
    moreover have "i < length (?rows db')" using i by (simp only: len)
    ultimately have "memory_row (?rows db' ! i) = memory_row (?rows db ! i) \<or> mr_Status (memory_row (?rows db ! i)) = StatusPendingReview"
      using i by (simp only: nth_map)
    then show ?thesis
    proof
      assume "memory_row (?rows db' ! i) = memory_row (?rows db ! i)"
      then have "mr_Status (memory_row (?rows db' ! i)) = mr_Status (memory_row (?rows db ! i))" by (rule arg_cong)
      then show ?thesis by (simp only: memory_row_def memory_of_simps) simp
    qed (simp only: memory_row_def memory_of_simps, simp)
  qed
  ultimately show ?thesis using len by (simp add: Let_def)
qed

lemma closed_period_is_frozen_witness:
  "\<exists>db' db''. demo_closed_period \<in> set (pd_Closures (md_Purge db'))
     \<and> engram_step demo_cfg (db', (\<lambda>_. None), []) (db'', (\<lambda>_. None), [])
     \<and> length (filter (\<lambda>o'. ob_Scope o' = demo_scope) (md_Observations db''))
         = length (filter (\<lambda>o'. ob_Scope o' = demo_scope) (md_Observations db'))"
proof -
  obtain db' where step: "engram_step demo_cfg (demo_pending, (\<lambda>_. None), []) (db', (\<lambda>_. None), [])"
    and c: "pd_Closures (md_Purge db') = [demo_closed_period]" using demo_closed by blast
  have reach: "engram_reach demo_cfg (db', (\<lambda>_. None), [])" using reach_more [OF demo_reach] step by blast
  let ?db = "db'\<lparr>md_Memberships := []\<rparr>"
  have next_step: "engram_step demo_cfg (db', (\<lambda>_. None), []) (?db, (\<lambda>_. None), [])" by (rule es_memberships)
  have "pc_Status demo_closed_period = ''closed''" "closure_key demo_scope demo_closed_period" "closable demo_scope"
    by (simp_all add: demo_closed_period_def closure_key_def closable_def demo_scope_def company_scope_def)
  moreover have closed: "demo_closed_period \<in> set (pd_Closures (md_Purge db'))" using c by simp
  ultimately have len: "length (filter (\<lambda>o'. ob_Scope o' = demo_scope) (md_Observations ?db)) = length (filter (\<lambda>o'. ob_Scope o' = demo_scope) (md_Observations db'))"
    using conjunct1 [OF closed_period_is_frozen [OF reach next_step closed, of demo_scope, unfolded Let_def]] by blast
  show ?thesis by (rule exI [of _ db'], rule exI [of _ ?db]) (rule conjI [OF closed conjI [OF next_step len]])
qed


text \<open>
  C7: No step ever deletes or rewrites history: whatever runs after a reachable state, the saved
  memories stay in place with every column but status, authority status, envelope cache and
  predecessor unchanged, and links, relations, transitions, approvals, decisions, bindings, closure
  events and receipts only grow.
\<close>

theorem memory_history_permanent:
  assumes "engram_reach cfg (db, disk, fs)" and "(engram_step cfg)\<^sup>*\<^sup>* (db, disk, fs) (db', disk', fs')"
  shows "prefix (map frozen_columns (md_Observations db)) (map frozen_columns (md_Observations db'))
    \<and> prefix (md_Transitions db) (md_Transitions db') \<and> prefix (md_Relations db) (md_Relations db')
    \<and> prefix (md_EvidenceLinks db) (md_EvidenceLinks db') \<and> prefix (md_RuleLinks db) (md_RuleLinks db')
    \<and> prefix (md_Bindings db) (md_Bindings db') \<and> prefix (md_FiscalLinks db) (md_FiscalLinks db')
    \<and> prefix (md_Approvals db) (md_Approvals db') \<and> prefix (md_Decisions db) (md_Decisions db')
    \<and> prefix (md_ClosureEvents db) (md_ClosureEvents db')
    \<and> prefix (rs_Receipts (pd_Receipts (md_Purge db))) (rs_Receipts (pd_Receipts (md_Purge db')))"
  using reach_evolves [OF assms] by (simp add: history_kept_def)

lemma memory_history_permanent_witness:
  "prefix (map frozen_columns (md_Observations demo_start)) (map frozen_columns (md_Observations demo_pending))
     \<and> md_Observations demo_pending \<noteq> []"
  using memory_history_permanent [of demo_cfg demo_start "\<lambda>_. None" "[]" demo_pending "\<lambda>_. None" "[]"] demo_started demo_saved
  by (auto simp: engram_reach_def demo_pending_def)

text \<open>
  C8: An approval is idempotent for ever: once a request succeeded, repeating it as the same
  principal with the same memory, hash and reason - after any number of further steps, under any
  store configuration, clock and fresh ids - returns the recorded result flagged as a replay and
  writes nothing.
\<close>

theorem approval_replay_stable:
  assumes "engram_reach cfg (db, disk, fs)" and ok: "ApproveMemory cfg db cmd who now ws ids = Inr (db1, v)" and fresh: "\<not> ap_IdempotentReplay v"
    and later: "(engram_step cfg)\<^sup>*\<^sup>* (db1, disk, fs) (db2, disk2, fs2)"
  shows "ApproveMemory cfg2 db2 cmd who now2 ws2 ids2 = Inr (db2, v\<lparr>ap_IdempotentReplay := True\<rparr>)"
proof -
  have inv: "ledger_inv (ledger_of db)" by (rule reach_inv [OF assms(1)])
  obtain k where k: "key_answers db1 cmd who k" "ak_CompletedAt k \<noteq> None" "ak_Result k = Some v"
    using approval_completes [OF ok inv fresh] by blast
  have "engram_step cfg (db, disk, fs) (db1, disk, fs)" using ok by (rule es_approve)
  then have "engram_reach cfg (db1, disk, fs)" using reach_more [OF assms(1)] by blast
  from reach_evolves [OF this later] have "memory_keys_kept db1 db2" by simp
  then have "key_answers db2 cmd who k" using k(1,2) unfolding key_answers_def memory_keys_kept_def keys_kept_def by blast
  then show ?thesis using k(2,3) by (rule approval_replays [OF ok])
qed

lemma approval_replay_stable_witness:
  "\<exists>db1 v. \<not> ap_IdempotentReplay v
     \<and> ApproveMemory demo_cfg demo_pending demo_approve_close (actor ''alice'') demo_time ''2026'' (\<lambda>_. ''e1'') = Inr (db1, v)
     \<and> ApproveMemory demo_cfg db1 demo_approve_close (actor ''alice'') ''later'' ''2027'' (\<lambda>_. ''e2'') = Inr (db1, v\<lparr>ap_IdempotentReplay := True\<rparr>)"
proof -
  obtain db1 v where a: "ApproveMemory demo_cfg demo_pending demo_approve_close (actor ''alice'') demo_time ''2026'' (\<lambda>_. ''e1'') = Inr (db1, v)"
    and f: "\<not> ap_IdempotentReplay v" using demo_close_approval by blast
  from approval_replay_stable [OF demo_reach a f rtranclp.rtrancl_refl]
  have "ApproveMemory demo_cfg db1 demo_approve_close (actor ''alice'') ''later'' ''2027'' (\<lambda>_. ''e2'') = Inr (db1, v\<lparr>ap_IdempotentReplay := True\<rparr>)" .
  with a f show ?thesis by blast
qed

text \<open>
  C4: A memory is approved only under authority: an approval that is no replay read the memory
  pending and with the envelope the command quotes, in the principal's tenant and a company of its
  scopes, met the policy for its materiality and the review checks, was not requested by the memory's
  recorder, carried a fiscal intent when the memory is fiscally bound - and it leaves exactly one
  event, by that principal, whose two envelope hashes differ.
\<close>

theorem approval_is_authorized:
  assumes "engram_reach cfg (db, disk, fs)" and "ApproveMemory cfg db cmd who now ws ids = Inr (db', v)" and "\<not> ap_IdempotentReplay v"
  shows "\<exists>m e. readMemoryWithLinks db (mc_MemoryID cmd) = Some m \<and> m_Status m = StatusPendingReview
    \<and> EqualFold (TrimSpace (mc_ExpectedEnvelopeHash cmd)) (ComputeEnvelopeHash m)
    \<and> p_TenantID who = sc_OrganizationID (m_Scope m) \<and> principalHasCompanyScope who (sc_CompanyID (m_Scope m))
    \<and> approval_Authorize who m = None \<and> ValidateReviewChecksV1 (m_MaterialityLevel m) (mc_ReviewChecks cmd) = Inr ()
    \<and> \<not> SODViolation (src_ActorID (m_Source m)) (p_SubjectID who) \<and> (m_FiscalLinks m = [] \<or> mc_FiscalIntent cmd \<noteq> None)
    \<and> md_Approvals db' = md_Approvals db @ [e] \<and> de_MemoryID e = mc_MemoryID cmd \<and> de_Principal e = PrincipalSnapshot_of who
    \<and> de_ReviewedEnvelopeHash e = ComputeEnvelopeHash m \<and> de_ResultingEnvelopeHash e \<noteq> ComputeEnvelopeHash m"
  using assms(2)
proof (cases rule: ApproveMemory_cases)
  case (replay k r)
  then show ?thesis using assms(3) by simp
next
  case (fresh db0 k)
  have inv: "ledger_inv (ledger_of db0)" using reach_inv [OF assms(1)] fresh(1) by auto
  obtain m h db1 where 1: "approval_gates cfg db0 cmd who = Inr m" "approve_writes cfg db0 cmd m who now ws ids = Inr (db1, h)"
    "db' = complete_approval db1 (p_TenantID who) (mc_RequestID cmd) v now"
    by (rule approval_act_Inr [OF fresh(2) inv])
  note g = approval_gates_Inr [OF 1(1)]
  have same: "readMemoryWithLinks db0 i = readMemoryWithLinks db i" "md_Approvals db0 = md_Approvals db" for i
    using fresh(1) by (auto simp: reserve_approval_def readMemoryWithLinks_def observationByID_def withLinks_def ruleLinksQuery_def
        fiscalBindingLinkContributions_def)
  have row: "memory_of m \<in> set (ml_Rows (ledger_of db0))" "m_ID m = mc_MemoryID cmd" using readMemory_row [OF g(1)] by auto
  obtain e where "md_Approvals db1 = md_Approvals db0 @ [e]" "de_MemoryID e = m_ID m" "de_Principal e = PrincipalSnapshot_of who"
    "de_ReviewedEnvelopeHash e = ComputeEnvelopeHash m" "de_ResultingEnvelopeHash e \<noteq> ComputeEnvelopeHash m"
    using approve_writes_Inr(4) [OF 1(2) inv row(1) g(2,3)] by blast
  moreover have "m_FiscalLinks m = [] \<or> mc_FiscalIntent cmd \<noteq> None" using g(10) by blast
  ultimately show ?thesis using g(1-9) row(2) 1(3) by (intro exI [of _ m] exI [of _ e]) (simp add: same)
qed

lemma approval_is_authorized_witness:
  "\<exists>(db' :: MemoryDB) (e :: DecisionEvent). md_Approvals db' = md_Approvals demo_pending @ [e] \<and> de_MemoryID e = ''m1''
     \<and> ps_SubjectID (de_Principal e) = ''alice''"
proof -
  obtain db1 v where a: "ApproveMemory demo_cfg demo_pending demo_approve_close (actor ''alice'') demo_time ''2026'' (\<lambda>_. ''e1'') = Inr (db1, v)"
    and f: "\<not> ap_IdempotentReplay v" using demo_close_approval by blast
  from approval_is_authorized [OF demo_reach a f] obtain e where "md_Approvals db1 = md_Approvals demo_pending @ [e]"
    "de_MemoryID e = mc_MemoryID demo_approve_close" "de_Principal e = PrincipalSnapshot_of (actor ''alice'')" by blast
  moreover have "mc_MemoryID demo_approve_close = ''m1''" by (simp only: demo_approve_close_def ApproveMemoryCommand.simps)
  moreover have "ps_SubjectID (PrincipalSnapshot_of (actor ''alice'')) = ''alice''" by (simp add: PrincipalSnapshot_of_def actor_def sample_principal_def)
  ultimately have "md_Approvals db1 = md_Approvals demo_pending @ [e] \<and> de_MemoryID e = ''m1'' \<and> ps_SubjectID (de_Principal e) = ''alice''"
    by (simp only:)
  then show ?thesis by blast
qed

end
