(* ===== verification/Adjudication_Run.thy ===== *)
theory Adjudication_Run
  imports Adjudication_System Engram_Properties
begin

text \<open>
  A concrete run of the adjudication machines, for the witnesses: a second memory, a judgment
  between both, its correction, the confirmation of the correction by alice, and a reconciliation.
\<close>

section \<open>The second memory\<close>

definition note_input :: SaveInput where
  "note_input = (demo_save_input FiscalEffectNone)\<lparr>si_TopicKey := ''nota''\<rparr>"

definition note_memory :: AccountingMemory where
  "note_memory = buildMemory (note_input\<lparr>si_EffectiveAt := demo_time\<rparr>) ''m2'' 1 StatusActive demo_time"

definition note_row :: Observation where
  "note_row = (observation_row note_memory)\<lparr>ob_EnvelopeHash := ComputeEnvelopeHash note_memory\<rparr>"

definition demo_pair :: MemoryDB where
  "demo_pair = demo_pending\<lparr>md_Observations := [demo_close_row ''m1'' 1, note_row]\<rparr>"

lemma note_simps [simp]:
  "m_ID note_memory = ''m2''" "m_Scope note_memory = demo_scope" "m_Revision note_memory = 1" "m_RecordedAt note_memory = demo_time"
  "ob_ID note_row = ''m2''" "ob_Scope note_row = demo_scope" "ob_ID (demo_close_row i n) = i" "ob_Scope (demo_close_row i n) = demo_scope"
  by (simp_all add: note_memory_def note_input_def demo_save_input_def note_row_def observation_row_def demo_close_row_def)

lemma withLinks_scope [simp]: "m_Scope (withLinks db m) = m_Scope m" "m_ID (withLinks db m) = m_ID m"
  by (simp_all add: withLinks_def Let_def)

lemma note_checks: "save_checks demo_cfg note_input = Inr note_input"
  by (simp add: save_checks_def note_input_def demo_save_input_def demo_scope_def company_scope_def AssertValidScope_def IsValidRUC_def IsValidPeriod_def
      text_eval AssertValidContent_def AssertValidSource_def AssertValidValidity_def AssertValidPolicyRule_def AssertValidRuleLinks_def
      verifyFiscalIntentAxes_def checkFiscalRuntimeGate_def CheckProtectedWrite_def demo_cfg_def)

lemma note_valid: "AssertValidMemory note_memory = Inr ()"
  by (simp add: AssertValidMemory_def) (simp add: demo_time_parses note_memory_def note_input_def buildMemory_def Let_def demo_save_input_def
      demo_scope_def company_scope_def AssertValidScope_def IsValidRUC_def IsValidPeriod_def text_eval AssertValidContent_def
      AssertValidSource_def AssertValidPolicyRule_def)

lemma note_save: "Save demo_cfg demo_pending note_input demo_time (\<lambda>_. ''m2'') = Inr (demo_pair, note_memory, WriteCreated)"
proof -
  have i: "si_EffectiveAt note_input = ''''" "si_TopicKey note_input = ''nota''" "si_Scope note_input = demo_scope"
    "si_FiscalEffect note_input = FiscalEffectNone" "si_RuleLinks note_input = []" "si_FiscalIntent note_input = None"
    by (simp_all add: note_input_def demo_save_input_def)
  have start: "beginWriteTx demo_cfg = Inr ()" "pd_Closures (md_Purge demo_pending) = []" "chainRows demo_pending ''nota'' demo_scope = []"
    by (simp_all add: beginWriteTx_def demo_cfg_def demo_pending_def demo_start_def empty_db_def md_Purge_def chainRows_def
        demo_close_row_def observation_row_def)
  have m: "buildMemory (note_input\<lparr>si_EffectiveAt := demo_time\<rparr>) ''m2'' 1 StatusActive demo_time = note_memory" by (simp add: note_memory_def)
  have rev: "note_memory\<lparr>m_Revision := 1\<rparr> = note_memory" by (simp add: note_memory_def buildMemory_def Let_def)
  have row: "ob_ID (observation_row note_memory) = ''m2''" by (simp add: observation_row_def)
  let ?db = "demo_pending\<lparr>md_Observations := [demo_close_row ''m1'' 1, observation_row note_memory]\<rparr>"
  have ins: "insertObservation demo_pending (observation_row note_memory) = Inr ?db"
    by (simp add: insertObservation_def observationByID_def demo_pending_def row)
  have env: "ComputeEnvelopeHash (withLinks ?db (scanMemory (observation_row note_memory))) = ComputeEnvelopeHash note_memory"
    by (simp add: note_memory_def observation_row_def buildMemory_def note_input_def demo_save_input_def Let_def withLinks_def scanMemory_def
      demo_pending_def demo_start_def mergeRefs_def linkRefs_def ruleLinksQuery_def fiscalBindingLinkContributions_def dedup_def
      sourceFromJSON_def validitySource_def validityEffectiveAt_def validityExpiresAt_def nullableFloat_def)
  have "refreshEnvelopeCache ?db ''m2'' = Inr demo_pair"
    by (simp add: refreshEnvelopeCache_def readMemoryWithLinks_def observationByID_def row env updateObservation_def demo_pair_def note_row_def)
  moreover have "emitMemoryReceipt demo_cfg db j a p t = Inr db" for db j a p t
    by (simp add: emitMemoryReceipt_def emitReceipt_def demo_cfg_def set_purge_def md_Purge_def)
  ultimately show ?thesis
    by (simp add: Save_def note_checks i Let_def InitialStatus_def m note_valid start assertPeriodWritable_def
        head_revision_def rev save_tx_def ins recordSupersedes_def bindSaved_def save_receipts_def)
qed

lemma pair_reach: "engram_reach demo_cfg (demo_pair, (\<lambda>_. None), [])"
  using reach_more [OF demo_reach] es_save [OF note_save] by blast

section \<open>A judgment, its correction and the confirmation\<close>

definition bot :: Source where
  "bot = si_Source note_input"

definition demo_proposal :: "string \<Rightarrow> string \<Rightarrow> ProposeJudgmentCommand" where
  "demo_proposal pred req = \<lparr>pj_FromID = ''m1'', pj_ToID = ''m2'', pj_Relation = RelationSupports, pj_Reason = ''r'', pj_PredecessorID = pred,
     pj_RequestID = req\<rparr>"

definition demo_judgment :: "string \<Rightarrow> string \<Rightarrow> AccountingJudgment" where
  "demo_judgment i pred = proposed_judgment (demo_proposal pred '''') bot (''o'', ''c'', ''202601'') i demo_time"

definition demo_corrected :: AccountingJudgment where
  "demo_corrected = (demo_judgment ''j1'' '''')\<lparr>j_Status := JudgmentSuperseded, j_SupersedesID := ''j2'', j_DecidedAt := demo_time,
     j_UpdatedAt := demo_time\<rparr>"

definition demo_confirmed :: AccountingJudgment where
  "demo_confirmed = (demo_judgment ''j2'' ''j1'')\<lparr>j_Status := JudgmentConfirmed, j_Resolution := ''ok'', j_PolicyVersion := JudgmentPolicyVersion,
     j_Adjudicator := Some (PrincipalSnapshot_of (actor ''alice'')), j_DecidedAt := demo_time, j_UpdatedAt := demo_time\<rparr>"

lemma demo_judgment_any: "proposed_judgment (demo_proposal pred req) bot (''o'', ''c'', ''202601'') i demo_time = demo_judgment i pred"
  by (simp add: demo_judgment_def proposed_judgment_def demo_proposal_def)

lemma demo_judgment_simps [simp]:
  "j_ID (demo_judgment i pred) = i" "j_Status (demo_judgment i pred) = JudgmentProposed" "j_PredecessorID (demo_judgment i pred) = pred"
  "j_FromID (demo_judgment i pred) = ''m1''" "j_ToID (demo_judgment i pred) = ''m2''" "j_Relation (demo_judgment i pred) = RelationSupports"
  "j_TenantID (demo_judgment i pred) = ''o''" "j_CompanyID (demo_judgment i pred) = ''c''"
  "proposerBinding (j_Proposer (demo_judgment i pred)) = proposerBinding bot" "j_SupersedesID (demo_judgment i pred) = ''''"
  by (simp_all add: demo_judgment_def proposed_judgment_def demo_proposal_def stored_proposer_def proposerBinding_def)

text \<open>The state of the pair in any database that keeps the observations and the closures.\<close>

definition pair_kept :: "MemoryDB \<Rightarrow> bool" where
  "pair_kept db \<longleftrightarrow> md_Observations db = md_Observations demo_pair \<and> pd_Closures (md_Purge db) = []"

lemma demo_pair_fields [simp]:
  "md_Memberships demo_pair = [p_MembershipID (actor ''alice'')]" "md_Relations demo_pair = []"
  "md_Judgments demo_pair = no_cases" "md_Reconciliations demo_pair = no_cases"
  by (simp_all add: demo_pair_def demo_pending_def demo_start_def)

lemma pair_kept_demo: "pair_kept demo_pair"
  by (simp add: pair_kept_def demo_pair_def demo_pending_def demo_start_def md_Purge_def empty_db_def)

lemma pair_kept_tables [simp]:
  "pair_kept (db\<lparr>md_Judgments := t\<rparr>) = pair_kept db" "pair_kept (db\<lparr>md_Reconciliations := u\<rparr>) = pair_kept db"
  "pair_kept (db\<lparr>md_Relations := rs\<rparr>) = pair_kept db"
  by (simp_all add: pair_kept_def md_Purge_def)

lemma pair_read:
  assumes "pair_kept db"
  obtains a b where "readMemoryWithLinks db ''m1'' = Some a" "readMemoryWithLinks db ''m2'' = Some b"
    "m_Scope a = demo_scope" "m_Scope b = demo_scope" "m_ID a = ''m1''" "m_ID b = ''m2''"
proof (rule that)
  show "readMemoryWithLinks db ''m1'' = Some (withLinks db (scanMemory (demo_close_row ''m1'' 1)))"
    "readMemoryWithLinks db ''m2'' = Some (withLinks db (scanMemory note_row))"
    using assms by (simp_all add: pair_kept_def demo_pair_def readMemoryWithLinks_def observationByID_def)
qed (simp_all add: scanMemory_def)

lemma pair_writable: "pair_kept db \<Longrightarrow> assertPeriodWritable (md_Purge db) s = Inr ()"
  by (simp add: pair_kept_def assertPeriodWritable_def)

lemma pair_scope:
  assumes "pair_kept db"
  shows "proposal_scope db ''m1'' ''m2'' = Inr (''o'', ''c'', ''202601'')"
proof -
  obtain a b where r: "readMemoryWithLinks db ''m1'' = Some a" "readMemoryWithLinks db ''m2'' = Some b"
    "m_Scope a = demo_scope" "m_Scope b = demo_scope" using pair_read [OF assms] by metis
  have s: "sc_Kind demo_scope = ScopeKindCompany" "sc_OrganizationID demo_scope = ''o''" "sc_CompanyID demo_scope = ''c''" "sc_Period demo_scope = ''202601''"
    by (simp_all add: demo_scope_def company_scope_def del: demo_scope_fold)
  show ?thesis by (simp add: proposal_scope_def r s pair_writable [OF assms] Let_def)
qed

lemma pair_decision:
  assumes "pair_kept db"
  obtains a b where "decision_pair db ''m1'' ''m2'' = Inr (a, b)" "m_ID a = ''m1''" "m_ID b = ''m2''"
proof -
  obtain a b where "readMemoryWithLinks db ''m1'' = Some a" "readMemoryWithLinks db ''m2'' = Some b" "m_ID a = ''m1''" "m_ID b = ''m2''"
    using pair_read [OF assms] by metis
  then show thesis using that by (simp add: decision_pair_def pair_writable [OF assms])
qed

lemma claim_key_new:
  assumes "req \<notin> jk_RequestID ` set (ad_Keys t)"
  obtains k where "claim_key t a req h b i now = Inr (t\<lparr>ad_Keys := ad_Keys t @ [k]\<rparr>, None)" "jk_RequestID k = req"
proof -
  have "find_key t a req = None" using assms by (auto simp: find_key_def find_None_iff)
  then show ?thesis using that by (auto simp: claim_key_def)
qed

lemma update_key_image: "(\<And>k. jk_RequestID (f k) = jk_RequestID k) \<Longrightarrow> jk_RequestID ` set (ad_Keys (update_key t a b f)) = jk_RequestID ` set (ad_Keys t)"
proof -
  assume "\<And>k. jk_RequestID (f k) = jk_RequestID k"
  then have "map jk_RequestID (ad_Keys (update_key t a b f)) = map jk_RequestID (ad_Keys t)" by (simp add: update_key_def)
  then show ?thesis by (metis set_map)
qed

lemma update_key_requests [simp]:
  "jk_RequestID ` set (ad_Keys (complete_proposal_key t a b i now)) = jk_RequestID ` set (ad_Keys t)"
  "jk_RequestID ` set (ad_Keys (complete_decision_key t a b x e now)) = jk_RequestID ` set (ad_Keys t)"
  "ad_Rows (complete_proposal_key t a b i now) = ad_Rows t" "ad_Rows (complete_decision_key t a b x e now) = ad_Rows t"
  "ad_Events (complete_proposal_key t a b i now) = ad_Events t" "ad_Events (complete_decision_key t a b x e now) = ad_Events t"
  "ad_Routes (complete_proposal_key t a b i now) = ad_Routes t" "ad_Routes (complete_decision_key t a b x e now) = ad_Routes t"
  unfolding complete_proposal_key_def complete_decision_key_def by (simp_all add: update_key_image) (simp_all add: update_key_def)

text \<open>What a table holds, its keys by their request ids.\<close>

definition demo_tables :: "'a AdjudicationTables \<Rightarrow> 'a list \<Rightarrow> string list \<Rightarrow> (string \<times> string) list \<Rightarrow> string list \<Rightarrow> bool" where
  "demo_tables t rows events routes requests \<longleftrightarrow> ad_Rows t = rows \<and> map ae_ID (ad_Events t) = events
     \<and> map (\<lambda>r. (ro_FromID r, ro_ToID r)) (ad_Routes t) = routes \<and> jk_RequestID ` set (ad_Keys t) = set requests"

lemma demo_propose:
  obtains t where "ProposeJudgment demo_pair (demo_proposal '''' ''q1'') bot demo_time (\<lambda>_. ''j1'')
      = Inr (demo_pair\<lparr>md_Judgments := t\<rparr>, demo_judgment ''j1'' '''', '''', False)"
    "demo_tables t [demo_judgment ''j1'' ''''] [] [] [''q1'']"
proof -
  let ?c = "demo_proposal '''' ''q1''"
  obtain k where k: "claim_key no_cases ''o'' ''q1'' (proposeJudgmentCommandHash ?c) (proposerBinding bot) (Some ''j1'') demo_time
      = Inr (no_cases\<lparr>ad_Keys := ad_Keys no_cases @ [k]\<rparr>, None :: AccountingJudgment AdjudicationKey option)" "jk_RequestID k = ''q1''"
    by (rule claim_key_new [of _ no_cases]) (simp add: no_cases_def)
  have c: "pj_FromID ?c = ''m1''" "pj_ToID ?c = ''m2''" "pj_RequestID ?c = ''q1''" "pj_Relation ?c = RelationSupports" "pj_PredecessorID ?c = ''''"
     "pj_Reason ?c = ''r''" by (simp_all add: demo_proposal_def)
  have b: "CanPropose bot" by (simp add: CanPropose_def bot_def note_input_def demo_save_input_def)
  have "ProposeJudgment demo_pair ?c bot demo_time (\<lambda>_. ''j1'')
      = Inr (demo_pair\<lparr>md_Judgments := complete_proposal_key (no_cases\<lparr>ad_Keys := [k], ad_Rows := [demo_judgment ''j1'' '''']\<rparr>) ''o'' ''q1'' ''j1'' demo_time\<rparr>,
             demo_judgment ''j1'' '''', '''', False)"
    by (simp add: ProposeJudgment_def c b IsProposableRelation_def pair_scope [OF pair_kept_demo] k(1) text_eval propose_writes_def
        judgment_predecessor_def Let_def demo_judgment_any insert_judgment_def)
      (simp add: no_cases_def)
  moreover have "demo_tables (complete_proposal_key (no_cases\<lparr>ad_Keys := [k], ad_Rows := [demo_judgment ''j1'' '''']\<rparr>) ''o'' ''q1'' ''j1'' demo_time)
     [demo_judgment ''j1'' ''''] [] [] [''q1'']"
    by (simp add: demo_tables_def k(2)) (simp add: no_cases_def)
  ultimately show thesis using that by blast
qed

lemma demo_correct:
  assumes p: "pair_kept db" and t: "demo_tables (md_Judgments db) [demo_judgment ''j1'' ''''] [] [] [''q1'']"
  obtains t' where "ProposeJudgment db (demo_proposal ''j1'' ''q2'') bot demo_time (\<lambda>n. if n = 0 then ''j2'' else ''v1'')
      = Inr (db\<lparr>md_Judgments := t'\<rparr>, demo_judgment ''j2'' ''j1'', '''', False)"
    "demo_tables t' [demo_corrected, demo_judgment ''j2'' ''j1''] [''v1''] [(''j1'', ''j2'')] [''q1'', ''q2'']"
proof -
  let ?c = "demo_proposal ''j1'' ''q2''" and ?t = "md_Judgments db"
  have keys: "''q2'' \<notin> jk_RequestID ` set (ad_Keys ?t)" and rows: "ad_Rows ?t = [demo_judgment ''j1'' '''']" "ad_Events ?t = []" "ad_Routes ?t = []"
    using t by (simp_all add: demo_tables_def)
  obtain k where k: "claim_key ?t ''o'' ''q2'' (proposeJudgmentCommandHash ?c) (proposerBinding bot) (Some ''j2'') demo_time
      = Inr (?t\<lparr>ad_Keys := ad_Keys ?t @ [k]\<rparr>, None)" "jk_RequestID k = ''q2''"
    using claim_key_new [OF keys] by blast
  have c: "pj_FromID ?c = ''m1''" "pj_ToID ?c = ''m2''" "pj_RequestID ?c = ''q2''" "pj_Relation ?c = RelationSupports" "pj_PredecessorID ?c = ''j1''"
     "pj_Reason ?c = ''r''" by (simp_all add: demo_proposal_def)
  have b: "CanPropose bot" by (simp add: CanPropose_def bot_def note_input_def demo_save_input_def)
  have j: "(demo_judgment ''j1'' '''')\<lparr>j_Status := JudgmentSuperseded, j_SupersedesID := ''j2'', j_DecidedAt := demo_time, j_UpdatedAt := demo_time\<rparr> = demo_corrected"
    "j_ID demo_corrected = ''j1''" "j_Status demo_corrected = JudgmentSuperseded" by (simp_all add: demo_corrected_def)
  let ?t1 = "?t\<lparr>ad_Keys := ad_Keys ?t @ [k], ad_Rows := [demo_corrected],
     ad_Events := [supersede_event ''v1'' ''j1'' ''q2'' ''proposed'' (ComputeJudgmentHash demo_corrected) '''' demo_time]\<rparr>"
  have pre: "judgment_predecessor ?c bot ''j2'' ''v1'' demo_time (?t\<lparr>ad_Keys := ad_Keys ?t @ [k]\<rparr>) = Inr (?t1, True)"
    by (simp add: judgment_predecessor_def c readJudgment_def rows supersedeProposedPredecessor_def Let_def update_judgment_def guarded_update_def
        judgments_immutable_update_def insert_event_def j)
  let ?t2 = "?t1\<lparr>ad_Rows := [demo_corrected, demo_judgment ''j2'' ''j1'']\<rparr>"
  have ins: "insert_judgment (demo_judgment ''j2'' ''j1'') ?t1 = Inr ?t2" by (simp add: insert_judgment_def j)
  obtain r where r: "insert_route ''j1'' ''j2'' (proposerBinding bot) demo_time ?t2 = Inr (?t2\<lparr>ad_Routes := [r]\<rparr>)" "ro_FromID r = ''j1''" "ro_ToID r = ''j2''"
    by (simp add: insert_route_def rows)
  let ?t3 = "complete_proposal_key (?t2\<lparr>ad_Routes := [r]\<rparr>) ''o'' ''q2'' ''j2'' demo_time"
  have "ProposeJudgment db ?c bot demo_time (\<lambda>n. if n = 0 then ''j2'' else ''v1'') = Inr (db\<lparr>md_Judgments := ?t3\<rparr>, demo_judgment ''j2'' ''j1'', '''', False)"
    using pre ins r(1) by (simp add: ProposeJudgment_def c b IsProposableRelation_def pair_scope [OF p] k(1) text_eval propose_writes_def Let_def demo_judgment_any)
  moreover have "demo_tables ?t3 [demo_corrected, demo_judgment ''j2'' ''j1''] [''v1''] [(''j1'', ''j2'')] [''q1'', ''q2'']"
    using t by (simp add: demo_tables_def k(2) r(2,3) supersede_event_def insert_commute)
  ultimately show thesis using that by blast
qed

section \<open>The confirmation\<close>

definition demo_confirm :: ConfirmJudgmentCommand where
  "demo_confirm = \<lparr>cj_JudgmentID = ''j2'', cj_Resolution = ''ok'', cj_ExpectedJudgmentHash = ComputeJudgmentHash (demo_judgment ''j2'' ''j1''),
     cj_RequestID = ''q3''\<rparr>"

lemma demo_confirmation:
  assumes p: "pair_kept db" and m: "md_Memberships db = [p_MembershipID (actor ''alice'')]" and rel: "md_Relations db = []"
    and t: "demo_tables (md_Judgments db) [demo_corrected, demo_judgment ''j2'' ''j1''] [''v1''] [(''j1'', ''j2'')] [''q1'', ''q2'']"
  obtains db' t' where "store_ConfirmJudgment demo_cfg db demo_confirm (actor ''alice'') demo_time (\<lambda>_. ''v2'') = Inr (db', demo_confirmed, ''v2'', False)"
    "md_Judgments db' = t'" "demo_tables t' [demo_corrected, demo_confirmed] [''v1'', ''v2''] [(''j1'', ''j2'')] [''q1'', ''q2'', ''q3'']"
    "md_Reconciliations db' = md_Reconciliations db" "pair_kept db'"
proof -
  let ?t = "md_Judgments db" and ?who = "actor ''alice''" and ?h = "ComputeJudgmentHash (demo_judgment ''j2'' ''j1'')"
  let ?p = "\<lparr>jp_JudgmentID = ''j2'', jp_Resolution = ''ok'', jp_ExpectedJudgmentHash = ?h, jp_RequestID = ''q3'', jp_Confirm = True\<rparr>"
  have keys: "''q3'' \<notin> jk_RequestID ` set (ad_Keys ?t)" and rows: "ad_Rows ?t = [demo_corrected, demo_judgment ''j2'' ''j1'']"
    using t by (simp_all add: demo_tables_def)
  obtain k where k: "claim_key ?t ''o'' ''q3'' (decideJudgmentCommandHash ''j2'' ?h ''ok'') ''alice'' None demo_time
      = Inr (?t\<lparr>ad_Keys := ad_Keys ?t @ [k]\<rparr>, None)" "jk_RequestID k = ''q3''"
    using claim_key_new [OF keys] by blast
  let ?db = "db\<lparr>md_Judgments := ?t\<lparr>ad_Keys := ad_Keys ?t @ [k]\<rparr>\<rparr>"
  have j: "j_ID demo_corrected = ''j1''" "j_Status demo_corrected = JudgmentSuperseded" "j_SupersedesID demo_corrected = ''j2''" by (simp_all add: demo_corrected_def)
  have who: "p_TenantID ?who = ''o''" "p_SubjectID ?who = ''alice''" by (simp_all add: actor_def sample_principal_def)
  have kept: "pair_kept ?db" using p by simp
  obtain a b where ab: "decision_pair ?db ''m1'' ''m2'' = Inr (a, b)" using pair_decision [OF kept] by metis
  have auth: "judgment_Authorize ?who ''o'' ''c'' = None"
    by (simp add: judgment_Authorize_def adjudication_Authorize_def actor_def sample_principal_def contains_scope_def satisfies_def ladderRank_def)
  have hash: "EqualFold (TrimSpace ?h) ?h" by (simp add: ComputeJudgmentHash_def EqualFold_def)
  have gates: "judgment_gates ?db ?p ?who = Inr (demo_judgment ''j2'' ''j1'', a, b)"
    by (simp add: judgment_gates_def readJudgment_def rows j ab auth hash)
  let ?s = "PrincipalSnapshot_of ?who"
  have nb: "\<not> blank ?h" "ps_SubjectID ?s = ''alice''" by (simp_all add: ComputeJudgmentHash_def PrincipalSnapshot_of_def who)
  have s: "stored_adjudicator ?s = Some ?s" "ps_MembershipID ?s \<in> set (md_Memberships db)"
    by (simp_all add: stored_adjudicator_def PrincipalSnapshot_of_def who(2) m)
  have res: "resulting_judgment ?p (demo_judgment ''j2'' ''j1'') ?s demo_time = Inr demo_confirmed"
    by (simp add: resulting_judgment_def ConfirmJudgment_def text_eval demo_confirmed_def)
  let ?t1 = "?t\<lparr>ad_Keys := ad_Keys ?t @ [k], ad_Rows := [demo_corrected, demo_confirmed]\<rparr>"
  have row: "decide_judgment_row ?p (md_Memberships ?db) ?s demo_time (md_Judgments ?db) = Inr ?t1"
    using s by (simp add: decide_judgment_row_def update_judgment_def guarded_update_def judgments_immutable_update_def rows j judgment_verdict_def
        sql_nonempty_def demo_confirmed_def)
  let ?e = "verdict_event ''v2'' ''j2'' ''q3'' ''confirm'' ''confirmed'' (ComputeJudgmentHash demo_confirmed) ?s JudgmentPolicyVersion ''ok'' demo_time"
  have "set (map ae_ID (ad_Events ?t)) = {''v1''}" using t unfolding demo_tables_def by (elim conjE) (simp only: list.set)
  then have "\<forall>x \<in> set (ad_Events ?t). ae_ID x = ''v1''" by (metis imageI list.set_map singletonD)
  then have ev: "insert_event ?e ?t1 = Inr (?t1\<lparr>ad_Events := ad_Events ?t @ [?e]\<rparr>)"
    by (auto simp: insert_event_def list_ex_iff verdict_event_def)
  obtain rs where proj: "project_relation ?db ''m1'' ''m2'' RelationSupports ''alice'' demo_time = Inr (?db\<lparr>md_Relations := rs\<rparr>)"
    using p rel by (auto simp: project_relation_def insertRelation_def observationByID_def pair_kept_def demo_pair_def split: if_splits)
  let ?db1 = "?db\<lparr>md_Relations := rs\<rparr>" and ?t2 = "?t1\<lparr>ad_Events := ad_Events ?t @ [?e]\<rparr>"
  have sup: "supersede_confirmed_judgment ?p (demo_judgment ''j2'' ''j1'') ''alice'' ''v2'' demo_time ?t2 = Inr ?t2"
    by (simp add: supersede_confirmed_judgment_def readJudgment_def j)
  have rec: "emit_verdict_receipt demo_cfg db x i act p now = Inr db" for db x i act p now
    by (simp add: emit_verdict_receipt_def emitReceipt_def demo_cfg_def set_purge_def md_Purge_def)
  let ?t3 = "complete_decision_key ?t2 ''o'' ''q3'' demo_confirmed ''v2'' demo_time"
  have "store_ConfirmJudgment demo_cfg db demo_confirm ?who demo_time (\<lambda>_. ''v2'') = Inr (?db1\<lparr>md_Judgments := ?t3\<rparr>, demo_confirmed, ''v2'', False)"
    using gates res row ev proj sup
    by (simp add: store_ConfirmJudgment_def demo_confirm_def text_eval nb adjudicateJudgment_def who k(1) decide_judgment_def Let_def
        verdict_action_def judgment_verdict_def rec)
  moreover have "demo_tables ?t3 [demo_corrected, demo_confirmed] [''v1'', ''v2''] [(''j1'', ''j2'')] [''q1'', ''q2'', ''q3'']"
    using t by (simp add: demo_tables_def k(2) verdict_event_def insert_commute)
  moreover have "pair_kept (?db1\<lparr>md_Judgments := ?t3\<rparr>)" "md_Reconciliations (?db1\<lparr>md_Judgments := ?t3\<rparr>) = md_Reconciliations db" using p by simp_all
  ultimately show thesis using that by fastforce
qed

section \<open>A reconciliation\<close>

definition demo_amounts :: ProposeReconciliationCommand where
  "demo_amounts = \<lparr>pr_LeftMemoryID = ''m1'', pr_RightMemoryID = ''m2'', pr_Method = ''bank'', pr_Currency = ''PEN'', pr_LeftAmountCents = 1050,
     pr_RightAmountCents = 1000, pr_ToleranceCents = 10, pr_Reason = ''r'', pr_PredecessorID = '''', pr_RequestID = ''q1''\<rparr>"

definition demo_reconciliation :: Reconciliation where
  "demo_reconciliation = proposed_reconciliation demo_amounts bot (''o'', ''c'', ''202601'') ''n1'' demo_time"

lemma demo_reconcile:
  assumes p: "pair_kept db" and t: "md_Reconciliations db = no_cases"
  obtains t' where "ProposeReconciliation db demo_amounts bot demo_time (\<lambda>_. ''n1'') = Inr (db\<lparr>md_Reconciliations := t'\<rparr>, demo_reconciliation, '''', False)"
    "demo_tables t' [demo_reconciliation] [] [] [''q1'']"
proof -
  obtain k where k: "claim_key no_cases ''o'' ''q1'' (proposeReconciliationCommandHash demo_amounts) (proposerBinding bot) (Some ''n1'') demo_time
      = Inr (no_cases\<lparr>ad_Keys := ad_Keys no_cases @ [k]\<rparr>, None :: Reconciliation AdjudicationKey option)" "jk_RequestID k = ''q1''"
    by (rule claim_key_new [of _ no_cases]) (simp add: no_cases_def)
  have c: "pr_LeftMemoryID demo_amounts = ''m1''" "pr_RightMemoryID demo_amounts = ''m2''" "pr_RequestID demo_amounts = ''q1''" "pr_Method demo_amounts = ''bank''"
    "pr_Currency demo_amounts = ''PEN''" "pr_PredecessorID demo_amounts = ''''" "pr_Reason demo_amounts = ''r''" "pr_ToleranceCents demo_amounts = 10"
    by (simp_all add: demo_amounts_def)
  have b: "CanPropose bot" by (simp add: CanPropose_def bot_def note_input_def demo_save_input_def)
  have v: "r_VarianceCents demo_reconciliation = r_LeftAmountCents demo_reconciliation - r_RightAmountCents demo_reconciliation"
    "\<not> r_ToleranceCents demo_reconciliation < 0"
    by (simp_all add: demo_reconciliation_def proposed_reconciliation_def demo_amounts_def)
  let ?t = "complete_proposal_key (no_cases\<lparr>ad_Keys := [k], ad_Rows := [demo_reconciliation]\<rparr>) ''o'' ''q1'' ''n1'' demo_time"
  have "ProposeReconciliation db demo_amounts bot demo_time (\<lambda>_. ''n1'') = Inr (db\<lparr>md_Reconciliations := ?t\<rparr>, demo_reconciliation, '''', False)"
    using v by (simp add: ProposeReconciliation_def c b pair_scope [OF p] t k(1) text_eval propose_reconciliation_writes_def
        reconciliation_predecessor_def Let_def demo_reconciliation_def [symmetric] insert_reconciliation_def)
      (simp add: no_cases_def)
  moreover have "demo_tables ?t [demo_reconciliation] [] [] [''q1'']" by (simp add: demo_tables_def k(2)) (simp add: no_cases_def)
  ultimately show thesis using that by blast
qed

section \<open>The states of the run\<close>

text \<open>After the correction, with both proposals on the table, and after the confirmation and the reconciliation.\<close>

lemma demo_open_reach:
  obtains db where "engram_reach demo_cfg (db, (\<lambda>_. None), [])" "pair_kept db" "md_Memberships db = [p_MembershipID (actor ''alice'')]"
    "md_Relations db = []" "md_Reconciliations db = no_cases"
    "demo_tables (md_Judgments db) [demo_corrected, demo_judgment ''j2'' ''j1''] [''v1''] [(''j1'', ''j2'')] [''q1'', ''q2'']"
proof -
  obtain t where p: "ProposeJudgment demo_pair (demo_proposal '''' ''q1'') bot demo_time (\<lambda>_. ''j1'')
      = Inr (demo_pair\<lparr>md_Judgments := t\<rparr>, demo_judgment ''j1'' '''', '''', False)" and t: "demo_tables t [demo_judgment ''j1'' ''''] [] [] [''q1'']"
    by (rule demo_propose)
  let ?db = "demo_pair\<lparr>md_Judgments := t\<rparr>"
  have kept: "pair_kept ?db" using pair_kept_demo by simp
  obtain t' where q: "ProposeJudgment ?db (demo_proposal ''j1'' ''q2'') bot demo_time (\<lambda>n. if n = 0 then ''j2'' else ''v1'')
      = Inr (?db\<lparr>md_Judgments := t'\<rparr>, demo_judgment ''j2'' ''j1'', '''', False)"
    and t': "demo_tables t' [demo_corrected, demo_judgment ''j2'' ''j1''] [''v1''] [(''j1'', ''j2'')] [''q1'', ''q2'']"
    by (rule demo_correct [OF kept]) (simp_all add: t)
  have "engram_step demo_cfg (demo_pair, (\<lambda>_. None), []) (?db, (\<lambda>_. None), [])"
    "engram_step demo_cfg (?db, (\<lambda>_. None), []) (?db\<lparr>md_Judgments := t'\<rparr>, (\<lambda>_. None), [])"
    using es_judgment ja_propose [OF p] ja_propose [OF q] by simp_all
  then have "engram_reach demo_cfg (?db\<lparr>md_Judgments := t'\<rparr>, (\<lambda>_. None), [])"
    using reach_more [OF pair_reach] by (metis r_into_rtranclp rtranclp_trans)
  then show thesis using that [of "?db\<lparr>md_Judgments := t'\<rparr>"] t' kept by simp
qed

lemma demo_decided_reach:
  obtains db where "engram_reach demo_cfg (db, (\<lambda>_. None), [])"
    "demo_tables (md_Judgments db) [demo_corrected, demo_confirmed] [''v1'', ''v2''] [(''j1'', ''j2'')] [''q1'', ''q2'', ''q3'']"
    "demo_tables (md_Reconciliations db) [demo_reconciliation] [] [] [''q1'']"
proof -
  obtain db where r: "engram_reach demo_cfg (db, (\<lambda>_. None), [])" and k: "pair_kept db" "md_Memberships db = [p_MembershipID (actor ''alice'')]"
    "md_Relations db = []" "md_Reconciliations db = no_cases"
    and t: "demo_tables (md_Judgments db) [demo_corrected, demo_judgment ''j2'' ''j1''] [''v1''] [(''j1'', ''j2'')] [''q1'', ''q2'']"
    by (rule demo_open_reach)
  obtain db' t' where c: "store_ConfirmJudgment demo_cfg db demo_confirm (actor ''alice'') demo_time (\<lambda>_. ''v2'') = Inr (db', demo_confirmed, ''v2'', False)"
    and d: "md_Judgments db' = t'" "demo_tables t' [demo_corrected, demo_confirmed] [''v1'', ''v2''] [(''j1'', ''j2'')] [''q1'', ''q2'', ''q3'']"
    "md_Reconciliations db' = md_Reconciliations db" "pair_kept db'"
    by (rule demo_confirmation [OF k(1-3) t])
  have n: "md_Reconciliations db' = no_cases" using d(3) k(4) by simp
  obtain u where p: "ProposeReconciliation db' demo_amounts bot demo_time (\<lambda>_. ''n1'') = Inr (db'\<lparr>md_Reconciliations := u\<rparr>, demo_reconciliation, '''', False)"
    and u: "demo_tables u [demo_reconciliation] [] [] [''q1'']"
    by (rule demo_reconcile [OF d(4) n])
  have "engram_step demo_cfg (db, (\<lambda>_. None), []) (db', (\<lambda>_. None), [])"
    "engram_step demo_cfg (db', (\<lambda>_. None), []) (db'\<lparr>md_Reconciliations := u\<rparr>, (\<lambda>_. None), [])"
    using es_judgment [OF ja_confirm [OF c]] es_reconciliation [OF ra_propose [OF p]] by simp_all
  then have "engram_reach demo_cfg (db'\<lparr>md_Reconciliations := u\<rparr>, (\<lambda>_. None), [])" using reach_more [OF r] by (metis r_into_rtranclp rtranclp_trans)
  then show thesis using that [of "db'\<lparr>md_Reconciliations := u\<rparr>"] d u by simp
qed

end
