(* ===== verification/Adjudication_Properties.thy ===== *)
theory Adjudication_Properties
  imports Adjudication_Run
begin

text \<open>The properties of the judgments and reconciliations, over every reachable state of Engram_System.\<close>

section \<open>Successors\<close>

lemma find_key_in: "distinct (map key xs) \<Longrightarrow> find (\<lambda>x. key x = i) xs = Some x \<longleftrightarrow> x \<in> set xs \<and> key x = i"
  by (induction xs) auto

lemma readJudgment_iff: "docket_inv (judgment_docket t) \<Longrightarrow> readJudgment t i = Some j \<longleftrightarrow> j \<in> set (ad_Rows t) \<and> j_ID j = i"
  unfolding readJudgment_def by (rule find_key_in [OF judgment_ids])

lemma route_of_iff:
  assumes "routes_ok (docket_of view t)"
  shows "route_of t i = Some k \<longleftrightarrow> (\<exists>c \<in> view ` set (ad_Rows t). cs_ID c = i \<and> cs_Successor c = k \<and> cs_Status c = ''superseded'')"
proof -
  have d: "distinct (map ro_FromID (ad_Routes t))" using assms by (simp add: routes_ok_def docket_of_def comp_def)
  have "route_of t i = Some k \<longleftrightarrow> (i, k) \<in> set (dt_Routes (docket_of view t))"
    using find_key_in [OF d, of i] by (auto simp: route_of_def docket_of_def)
  then show ?thesis using assms unfolding routes_ok_def by (auto simp del: docket_of_simps) (auto simp: docket_of_def)
qed

lemma judgment_successor:
  assumes inv: "docket_inv (judgment_docket (md_Judgments db))" and j: "j \<in> set (ad_Rows (md_Judgments db))"
  shows "JudgmentSuccessorOf db (j_ID j) = Some s \<longleftrightarrow>
    j_Status j = JudgmentSuperseded \<and> s \<in> set (ad_Rows (md_Judgments db)) \<and> j_ID s = j_SupersedesID j"
proof -
  have r: "routes_ok (judgment_docket (md_Judgments db))" using inv by (simp add: docket_inv_def)
  have "route_of (md_Judgments db) (j_ID j) = Some k \<longleftrightarrow> j_Status j = JudgmentSuperseded \<and> j_SupersedesID j = k" for k
    unfolding route_of_iff [OF r] using j judgment_ids [OF inv] by (auto simp: distinct_map inj_on_def)
  then show ?thesis unfolding JudgmentSuccessorOf_def by (auto simp: bind_eq_Some_conv readJudgment_iff [OF inv])
qed

lemma judgment_successor_exists:
  assumes inv: "docket_inv (judgment_docket (md_Judgments db))" and j: "j \<in> set (ad_Rows (md_Judgments db))" "j_Status j = JudgmentSuperseded"
  obtains s where "s \<in> set (ad_Rows (md_Judgments db))" "j_ID s = j_SupersedesID j" "j_PredecessorID s = j_ID j"
proof -
  have "view_judgment j \<in> set (dt_Cases (judgment_docket (md_Judgments db)))" "cs_Status (view_judgment j) = ''superseded''" using j by simp_all
  then obtain c where "c \<in> set (dt_Cases (judgment_docket (md_Judgments db)))" "cs_ID c = j_SupersedesID j" "cs_Predecessor c = j_ID j"
    using inv unfolding docket_inv_def routes_ok_def by fastforce
  then show thesis using that by auto
qed

text \<open>A successor is proposed after the judgment it supersedes and relates the same pair.\<close>

lemma later_judgment:
  assumes inv: "docket_inv (judgment_docket (md_Judgments db))" and j: "ad_Rows (md_Judgments db) = xs @ j # ys" "j_Status j = JudgmentSuperseded"
  obtains us s vs where "ys = us @ s # vs" "j_ID s = j_SupersedesID j" "cs_Subject (view_judgment s) = cs_Subject (view_judgment j)"
proof -
  have "dt_Cases (judgment_docket (md_Judgments db)) = map view_judgment xs @ view_judgment j # map view_judgment ys"
    "cs_Status (view_judgment j) = ''superseded''" using j by simp_all
  then obtain us c vs where c: "map view_judgment ys = us @ c # vs" "cs_ID c = j_SupersedesID j" "cs_Subject c = cs_Subject (view_judgment j)"
    using later_successor [OF inv] by (metis view_judgment_simps(5))
  from c(1) obtain us' s vs' where "ys = us' @ s # vs'" "c = view_judgment s" by (auto simp: map_eq_append_conv map_eq_Cons_conv)
  then show thesis using that c(2,3) by simp
qed

lemma open_judgments_unique:
  assumes "docket_inv (judgment_docket t)"
  shows "inj_on judgment_tuple {x \<in> set (ad_Rows t). j_Status x = JudgmentProposed}"
proof (rule inj_onI)
  fix x y assume x: "x \<in> {x \<in> set (ad_Rows t). j_Status x = JudgmentProposed}" "y \<in> {x \<in> set (ad_Rows t). j_Status x = JudgmentProposed}"
    and t: "judgment_tuple x = judgment_tuple y"
  have "inj_on cs_Tuple {c \<in> set (dt_Cases (judgment_docket t)). cs_Status c = ''proposed''}"
    using assms by (simp add: docket_inv_def open_ok_def)
  then have "view_judgment x = view_judgment y" by (rule inj_onD) (use x t in simp_all)
  then have "j_ID x = j_ID y" by (metis view_judgment_simps(1))
  then show "x = y" using distinct_key_eq [OF judgment_ids [OF assms]] x by blast
qed

text \<open>Following the successors, with as many hops as \<open>n\<close> allows.\<close>

fun follow_judgment :: "nat \<Rightarrow> MemoryDB \<Rightarrow> AccountingJudgment \<Rightarrow> AccountingJudgment option" where
  "follow_judgment 0 db j = None"
| "follow_judgment (Suc n) db j = (case JudgmentSuccessorOf db (j_ID j) of None \<Rightarrow> Some j | Some s \<Rightarrow> follow_judgment n db s)"

lemma follow_judgment_ends:
  assumes inv: "docket_inv (judgment_docket (md_Judgments db))"
  shows "ad_Rows (md_Judgments db) = xs @ j # ys \<Longrightarrow> length ys < n \<Longrightarrow>
    \<exists>x \<in> set (ad_Rows (md_Judgments db)). follow_judgment n db j = Some x \<and> j_Status x \<noteq> JudgmentSuperseded
      \<and> cs_Subject (view_judgment x) = cs_Subject (view_judgment j)"
proof (induction n arbitrary: xs j ys)
  case (Suc n)
  let ?rows = "ad_Rows (md_Judgments db)"
  have j: "j \<in> set ?rows" using Suc.prems(1) by simp
  show ?case
  proof (cases "j_Status j = JudgmentSuperseded")
    case True
    obtain us' c vs' where c: "ys = us' @ c # vs'" "j_ID c = j_SupersedesID j" "cs_Subject (view_judgment c) = cs_Subject (view_judgment j)"
      by (rule later_judgment [OF inv Suc.prems(1) True])
    have split: "?rows = (xs @ j # us') @ c # vs'" using Suc.prems(1) c(1) by simp
    have "JudgmentSuccessorOf db (j_ID j) = Some c" using judgment_successor [OF inv j] True c(2) by (simp add: split)
    moreover have "length vs' < n" using Suc.prems(2) c(1) by simp
    ultimately show ?thesis using Suc.IH [OF split] c(3) by simp
  next
    case False
    then have "JudgmentSuccessorOf db (j_ID j) = None" using judgment_successor [OF inv j] by (metis not_Some_eq)
    then show ?thesis using j False by (intro bexI [of _ j]) simp_all
  qed
qed simp

section \<open>Properties\<close>

text \<open>
  C9: The judgment and reconciliation handlers of the store refine one abstract machine, the docket:
  in every reachable state, whatever else ran in between, both pairs of tables are reached from the
  empty docket by openings, corrections, decisions and supersessions.
\<close>

theorem adjudications_refine_dockets:
  assumes "engram_reach cfg (db, disk, fs)"
  shows "docket_step\<^sup>*\<^sup>* docket_empty (judgment_docket (md_Judgments db))
    \<and> docket_step\<^sup>*\<^sup>* docket_empty (reconciliation_docket (md_Reconciliations db))"
  using reach_dockets [OF assms] by (simp add: judgments_of_def reconciliations_of_def)

lemma adjudications_refine_dockets_witness:
  "\<exists>(db :: MemoryDB). docket_step\<^sup>*\<^sup>* docket_empty (judgment_docket (md_Judgments db)) \<and> md_Judgments db \<noteq> no_cases
     \<and> docket_step\<^sup>*\<^sup>* docket_empty (reconciliation_docket (md_Reconciliations db)) \<and> md_Reconciliations db \<noteq> no_cases"
proof -
  obtain db where r: "engram_reach demo_cfg (db, (\<lambda>_. None), [])"
    and t: "demo_tables (md_Judgments db) [demo_corrected, demo_confirmed] [''v1'', ''v2''] [(''j1'', ''j2'')] [''q1'', ''q2'', ''q3'']"
      "demo_tables (md_Reconciliations db) [demo_reconciliation] [] [] [''q1'']" by (rule demo_decided_reach)
  have "md_Judgments db \<noteq> no_cases" "md_Reconciliations db \<noteq> no_cases"
    by (rule notI, use t in \<open>simp add: demo_tables_def no_cases_def\<close>)+
  then show ?thesis using adjudications_refine_dockets [OF r] by blast
qed

text \<open>
  C10: In every reachable state the status, adjudicator, resolution and policy version of a judgment
  or reconciliation are those its immutable transition log replays to.
\<close>

theorem adjudications_replay_their_log:
  assumes "engram_reach cfg (db, disk, fs)"
  shows "(\<forall>j \<in> set (ad_Rows (md_Judgments db)). replay_log (log_of (ad_Events (md_Judgments db)) (j_ID j))
      = Some (judgment_status (j_Status j), j_Adjudicator j, j_Resolution j, j_PolicyVersion j))
    \<and> (\<forall>r \<in> set (ad_Rows (md_Reconciliations db)). replay_log (log_of (ad_Events (md_Reconciliations db)) (r_ID r))
      = Some (reconciliation_status (r_Status r), r_Adjudicator r, r_Resolution r, r_PolicyVersion r))"
  using reach_docket_inv [OF assms] by (simp add: docket_inv_def log_ok_def)

lemma adjudications_replay_their_log_witness:
  "\<exists>(db :: MemoryDB). replay_log (log_of (ad_Events (md_Judgments db)) ''j2'')
      = Some (''confirmed'', Some (PrincipalSnapshot_of (actor ''alice'')), ''ok'', JudgmentPolicyVersion)"
proof -
  obtain db where r: "engram_reach demo_cfg (db, (\<lambda>_. None), [])"
    and t: "demo_tables (md_Judgments db) [demo_corrected, demo_confirmed] [''v1'', ''v2''] [(''j1'', ''j2'')] [''q1'', ''q2'', ''q3'']"
    by (rule demo_decided_reach)
  have "demo_confirmed \<in> set (ad_Rows (md_Judgments db))" using t by (simp add: demo_tables_def)
  then have "replay_log (log_of (ad_Events (md_Judgments db)) (j_ID demo_confirmed)) = Some (judgment_status (j_Status demo_confirmed),
      j_Adjudicator demo_confirmed, j_Resolution demo_confirmed, j_PolicyVersion demo_confirmed)"
    using adjudications_replay_their_log [OF r] by blast
  then show ?thesis by (intro exI [of _ db]) (simp add: demo_confirmed_def)
qed

text \<open>
  C11: Supersession routing is exact: a judgment has a successor if and only if it is superseded, and
  the successor is the stored judgment it routes to, which names it as its predecessor and relates
  the same two memories in the same way. Two open proposals never concern the same tuple.
\<close>

theorem judgment_routing_exact:
  assumes "engram_reach cfg (db, disk, fs)" and "j \<in> set (ad_Rows (md_Judgments db))"
  shows "(case JudgmentSuccessorOf db (j_ID j) of None \<Rightarrow> j_Status j \<noteq> JudgmentSuperseded
      | Some s \<Rightarrow> j_Status j = JudgmentSuperseded \<and> s \<in> set (ad_Rows (md_Judgments db)) \<and> j_ID s = j_SupersedesID j
          \<and> j_PredecessorID s = j_ID j \<and> j_FromID s = j_FromID j \<and> j_ToID s = j_ToID j
          \<and> Relation_str (j_Relation s) = Relation_str (j_Relation j))
    \<and> inj_on judgment_tuple {x \<in> set (ad_Rows (md_Judgments db)). j_Status x = JudgmentProposed}"
proof
  let ?rows = "ad_Rows (md_Judgments db)"
  note inv = reach_docket_inv(1) [OF assms(1)]
  show "case JudgmentSuccessorOf db (j_ID j) of None \<Rightarrow> j_Status j \<noteq> JudgmentSuperseded
      | Some s \<Rightarrow> j_Status j = JudgmentSuperseded \<and> s \<in> set (ad_Rows (md_Judgments db)) \<and> j_ID s = j_SupersedesID j
          \<and> j_PredecessorID s = j_ID j \<and> j_FromID s = j_FromID j \<and> j_ToID s = j_ToID j
          \<and> Relation_str (j_Relation s) = Relation_str (j_Relation j)"
  proof (cases "JudgmentSuccessorOf db (j_ID j)")
    case None
    then have "j_Status j \<noteq> JudgmentSuperseded"
      using judgment_successor [OF inv assms(2)] judgment_successor_exists [OF inv assms(2)] by (metis option.distinct(1))
    then show ?thesis using None by simp
  next
    case (Some s)
    then have s: "j_Status j = JudgmentSuperseded" "s \<in> set ?rows" "j_ID s = j_SupersedesID j"
      using judgment_successor [OF inv assms(2)] by simp_all
    obtain s' where "s' \<in> set ?rows" "j_ID s' = j_SupersedesID j" "j_PredecessorID s' = j_ID j"
      using judgment_successor_exists [OF inv assms(2) s(1)] by metis
    then have pred: "j_PredecessorID s = j_ID j"
      using s(2,3) judgment_ids [OF inv] unfolding distinct_map inj_on_def by metis
    obtain xs ys where "?rows = xs @ j # ys" using assms(2) by (meson split_list)
    then obtain us x vs where x: "ys = us @ x # vs" "j_ID x = j_SupersedesID j" "cs_Subject (view_judgment x) = cs_Subject (view_judgment j)"
      using later_judgment [OF inv _ s(1)] by metis
    moreover have "x \<in> set ?rows" using x(1) \<open>?rows = xs @ j # ys\<close> by simp
    ultimately have "x = s" using distinct_key_eq [OF judgment_ids [OF inv]] s(2,3) by metis
    then show ?thesis using Some s pred x(3) by (simp add: judgment_subject)
  qed
  show "inj_on judgment_tuple {x \<in> set ?rows. j_Status x = JudgmentProposed}" by (rule open_judgments_unique [OF inv])
qed

lemma judgment_routing_exact_witness:
  "\<exists>db. engram_reach demo_cfg (db, (\<lambda>_. None), []) \<and> JudgmentSuccessorOf db ''j1'' = Some demo_confirmed \<and> j_PredecessorID demo_confirmed = ''j1''"
proof -
  obtain db where r: "engram_reach demo_cfg (db, (\<lambda>_. None), [])"
    and t: "demo_tables (md_Judgments db) [demo_corrected, demo_confirmed] [''v1'', ''v2''] [(''j1'', ''j2'')] [''q1'', ''q2'', ''q3'']"
    by (rule demo_decided_reach)
  have j: "j_ID demo_corrected = ''j1''" "j_Status demo_corrected = JudgmentSuperseded" "j_SupersedesID demo_corrected = ''j2''" "j_ID demo_confirmed = ''j2''"
    "j_PredecessorID demo_confirmed = ''j1''" by (simp_all add: demo_corrected_def demo_confirmed_def)
  have rows: "ad_Rows (md_Judgments db) = [demo_corrected, demo_confirmed]" using t by (simp add: demo_tables_def)
  have "demo_corrected \<in> set (ad_Rows (md_Judgments db))" by (simp add: rows)
  from conjunct1 [OF judgment_routing_exact [OF r this]] have "JudgmentSuccessorOf db ''j1'' = Some demo_confirmed"
    by (auto simp: rows j split: option.splits)
  then show ?thesis using r j(5) by blast
qed

text \<open>
  C12: Following the successors of a judgment always ends, after fewer hops than there are judgments,
  at a judgment that is not superseded and relates the same two memories in the same way.
\<close>

theorem judgment_successors_terminate:
  assumes "engram_reach cfg (db, disk, fs)" and "GetJudgment db i = Some j"
  shows "\<exists>x. follow_judgment (length (ad_Rows (md_Judgments db))) db j = Some x \<and> x \<in> set (ad_Rows (md_Judgments db))
    \<and> j_Status x \<noteq> JudgmentSuperseded \<and> JudgmentSuccessorOf db (j_ID x) = None
    \<and> j_FromID x = j_FromID j \<and> j_ToID x = j_ToID j \<and> Relation_str (j_Relation x) = Relation_str (j_Relation j)"
proof -
  note inv = reach_docket_inv(1) [OF assms(1)]
  have "j \<in> set (ad_Rows (md_Judgments db))" using assms(2) readJudgment_in unfolding GetJudgment_def by blast
  then obtain xs ys where split: "ad_Rows (md_Judgments db) = xs @ j # ys" by (meson split_list)
  then have "length ys < length (ad_Rows (md_Judgments db))" by simp
  from follow_judgment_ends [OF inv split this] obtain x where x: "x \<in> set (ad_Rows (md_Judgments db))"
    "follow_judgment (length (ad_Rows (md_Judgments db))) db j = Some x" "j_Status x \<noteq> JudgmentSuperseded"
    "cs_Subject (view_judgment x) = cs_Subject (view_judgment j)" by blast
  moreover have "JudgmentSuccessorOf db (j_ID x) = None" using judgment_successor [OF inv x(1)] x(3) by (metis not_Some_eq)
  ultimately show ?thesis by (simp add: judgment_subject)
qed

lemma judgment_successors_terminate_witness:
  "\<exists>db. engram_reach demo_cfg (db, (\<lambda>_. None), []) \<and> (\<exists>x. follow_judgment 2 db demo_corrected = Some x \<and> j_FromID x = ''m1'')"
proof -
  obtain db where r: "engram_reach demo_cfg (db, (\<lambda>_. None), [])"
    and t: "demo_tables (md_Judgments db) [demo_corrected, demo_confirmed] [''v1'', ''v2''] [(''j1'', ''j2'')] [''q1'', ''q2'', ''q3'']"
    by (rule demo_decided_reach)
  have j: "j_ID demo_corrected = ''j1''" "j_FromID demo_corrected = ''m1''" by (simp_all add: demo_corrected_def)
  have rows: "ad_Rows (md_Judgments db) = [demo_corrected, demo_confirmed]" using t by (simp add: demo_tables_def)
  have "GetJudgment db ''j1'' = Some demo_corrected" by (simp add: GetJudgment_def readJudgment_def rows j)
  from judgment_successors_terminate [OF r this] show ?thesis using r by (auto simp: rows j numeral_2_eq_2)
qed

text \<open>The part of a row no later transition changes: everything but status, route and times of the transition.\<close>

definition judgment_record :: "AccountingJudgment \<Rightarrow> AccountingJudgment" where
  "judgment_record j = j\<lparr>j_Status := JudgmentProposed, j_SupersedesID := '''', j_UpdatedAt := '''', j_DecidedAt := ''''\<rparr>"

definition reconciliation_record :: "Reconciliation \<Rightarrow> Reconciliation" where
  "reconciliation_record r = r\<lparr>r_Status := ReconciliationProposed, r_SupersedesID := '''', r_DecidedAt := ''''\<rparr>"

lemma docket_le_case:
  assumes "docket_le d d'" "c \<in> set (dt_Cases d)"
  obtains c' where "c' \<in> set (dt_Cases d')" "case_le c c'"
proof -
  obtain cs cs' where d: "dt_Cases d' = cs @ cs'" "list_all2 case_le (dt_Cases d) cs" using assms(1) by (auto simp: docket_le_def)
  obtain i where i: "i < length (dt_Cases d)" "dt_Cases d ! i = c" using assms(2) by (auto simp: in_set_conv_nth)
  then have "cs ! i \<in> set (dt_Cases d')" "case_le c (cs ! i)" using d by (auto simp: list_all2_conv_all_nth)
  then show thesis using that by blast
qed

lemma docket_le_row:
  assumes "docket_le (docket_of view t) (docket_of view t')" "x \<in> set (ad_Rows t)"
  shows "\<exists>y \<in> set (ad_Rows t'). case_le (view x) (view y)"
proof -
  have "view x \<in> set (dt_Cases (docket_of view t))" using assms(2) by simp
  from docket_le_case [OF assms(1) this] obtain c where "c \<in> set (dt_Cases (docket_of view t'))" "case_le (view x) c" by blast
  then show ?thesis by auto
qed

lemma judgment_record_view:
  assumes "case_le (view_judgment j) (view_judgment j')" "j_Status j \<noteq> JudgmentProposed"
  shows "j_ID j' = j_ID j" "judgment_record j' = judgment_record j"
    "judgment_status (j_Status j') = judgment_status (j_Status j) \<or> j_Status j = JudgmentConfirmed \<and> j_Status j' = JudgmentSuperseded"
proof -
  from assms have c: "skeleton (view_judgment j') = skeleton (view_judgment j)" "cs_Verdict (view_judgment j') = cs_Verdict (view_judgment j)"
    and st: "view_judgment j' = view_judgment j \<or> cs_Status (view_judgment j) = ''confirmed'' \<and> cs_Status (view_judgment j') = ''superseded''"
    by (simp_all add: case_le_def)
  then show "j_ID j' = j_ID j" by (simp add: skeleton_def)
  have "cs_Fixed (view_judgment j') = cs_Fixed (view_judgment j)" "cs_Verdict (view_judgment j') = cs_Verdict (view_judgment j)"
    using c by (simp_all add: skeleton_def)
  then show "judgment_record j' = judgment_record j"
    by (cases j; cases j') (simp add: judgment_record_def view_judgment_def)
  from st show "judgment_status (j_Status j') = judgment_status (j_Status j) \<or> j_Status j = JudgmentConfirmed \<and> j_Status j' = JudgmentSuperseded"
    by (metis judgment_status_eq(2,3) view_judgment_simps(4))
qed

lemma reconciliation_record_view:
  assumes "case_le (view_reconciliation r) (view_reconciliation r')" "r_Status r \<noteq> ReconciliationProposed"
  shows "r_ID r' = r_ID r" "reconciliation_record r' = reconciliation_record r"
    "reconciliation_status (r_Status r') = reconciliation_status (r_Status r) \<or> r_Status r = ReconciliationConfirmed \<and> r_Status r' = ReconciliationSuperseded"
proof -
  from assms have c: "skeleton (view_reconciliation r') = skeleton (view_reconciliation r)"
    "cs_Verdict (view_reconciliation r') = cs_Verdict (view_reconciliation r)"
    and st: "view_reconciliation r' = view_reconciliation r
      \<or> cs_Status (view_reconciliation r) = ''confirmed'' \<and> cs_Status (view_reconciliation r') = ''superseded''"
    by (simp_all add: case_le_def)
  then show "r_ID r' = r_ID r" by (simp add: skeleton_def)
  have "cs_Fixed (view_reconciliation r') = cs_Fixed (view_reconciliation r)" "cs_Verdict (view_reconciliation r') = cs_Verdict (view_reconciliation r)"
    using c by (simp_all add: skeleton_def)
  then show "reconciliation_record r' = reconciliation_record r"
    by (cases r; cases r') (simp add: reconciliation_record_def view_reconciliation_def)
  from st show "reconciliation_status (r_Status r') = reconciliation_status (r_Status r) \<or> r_Status r = ReconciliationConfirmed \<and> r_Status r' = ReconciliationSuperseded"
    by (metis reconciliation_status_eq(2,3) view_reconciliation_simps(4))
qed

text \<open>
  C13: A decision on a judgment or reconciliation is permanent. Whatever the store does afterwards, a
  row that was no longer proposed keeps all its fields but the route and the transition times, its
  status changes at most from confirmed to superseded, and its transition log only grows.
\<close>

theorem decided_adjudications_permanent:
  assumes "engram_reach cfg (db, disk, fs)" and "(engram_step cfg)\<^sup>*\<^sup>* (db, disk, fs) (db', disk', fs')"
  shows "(\<forall>j \<in> set (ad_Rows (md_Judgments db)). j_Status j \<noteq> JudgmentProposed \<longrightarrow>
        (\<exists>j' \<in> set (ad_Rows (md_Judgments db')). judgment_record j' = judgment_record j
          \<and> (judgment_status (j_Status j') = judgment_status (j_Status j) \<or> j_Status j = JudgmentConfirmed \<and> j_Status j' = JudgmentSuperseded)))
    \<and> (\<forall>r \<in> set (ad_Rows (md_Reconciliations db)). r_Status r \<noteq> ReconciliationProposed \<longrightarrow>
        (\<exists>r' \<in> set (ad_Rows (md_Reconciliations db')). reconciliation_record r' = reconciliation_record r
          \<and> (reconciliation_status (r_Status r') = reconciliation_status (r_Status r)
             \<or> r_Status r = ReconciliationConfirmed \<and> r_Status r' = ReconciliationSuperseded)))
    \<and> prefix (ad_Events (md_Judgments db)) (ad_Events (md_Judgments db'))
    \<and> prefix (ad_Events (md_Reconciliations db)) (ad_Events (md_Reconciliations db'))"
proof -
  have le: "docket_le (judgment_docket (md_Judgments db)) (judgment_docket (md_Judgments db'))"
    "docket_le (reconciliation_docket (md_Reconciliations db)) (reconciliation_docket (md_Reconciliations db'))"
    using reach_docket_le [OF assms] by (simp_all add: judgments_of_def reconciliations_of_def)
  have "\<exists>j' \<in> set (ad_Rows (md_Judgments db')). case_le (view_judgment j) (view_judgment j')" if "j \<in> set (ad_Rows (md_Judgments db))" for j
    using le(1) that by (rule docket_le_row)
  moreover have "\<exists>r' \<in> set (ad_Rows (md_Reconciliations db')). case_le (view_reconciliation r) (view_reconciliation r')"
    if "r \<in> set (ad_Rows (md_Reconciliations db))" for r
    using le(2) that by (rule docket_le_row)
  moreover have "prefix (ad_Events (md_Judgments db)) (ad_Events (md_Judgments db'))"
    "prefix (ad_Events (md_Reconciliations db)) (ad_Events (md_Reconciliations db'))"
    using le by (simp_all add: docket_le_def)
  ultimately show ?thesis
    by (intro conjI ballI impI) (use judgment_record_view(2,3) in blast, use reconciliation_record_view(2,3) in blast, assumption+)
qed

lemma decided_adjudications_permanent_witness:
  "\<exists>(db :: MemoryDB) (db' :: MemoryDB). md_Reconciliations db' = no_cases \<and> demo_corrected \<in> set (ad_Rows (md_Judgments db))
     \<and> (\<exists>j' \<in> set (ad_Rows (md_Judgments db')). judgment_record j' = judgment_record demo_corrected)"
proof -
  obtain db where r: "engram_reach demo_cfg (db, (\<lambda>_. None), [])" and k: "pair_kept db" "md_Memberships db = [p_MembershipID (actor ''alice'')]"
    "md_Relations db = []" "md_Reconciliations db = no_cases"
    and t: "demo_tables (md_Judgments db) [demo_corrected, demo_judgment ''j2'' ''j1''] [''v1''] [(''j1'', ''j2'')] [''q1'', ''q2'']"
    by (rule demo_open_reach)
  obtain db' where c: "store_ConfirmJudgment demo_cfg db demo_confirm (actor ''alice'') demo_time (\<lambda>_. ''v2'') = Inr (db', demo_confirmed, ''v2'', False)"
    and d: "md_Reconciliations db' = md_Reconciliations db"
    by (rule demo_confirmation [OF k(1-3) t])
  have run: "(engram_step demo_cfg)\<^sup>*\<^sup>* (db, (\<lambda>_. None), []) (db', (\<lambda>_. None), [])" using es_judgment [OF ja_confirm [OF c]] by (rule r_into_rtranclp)
  have j: "demo_corrected \<in> set (ad_Rows (md_Judgments db))" "j_Status demo_corrected \<noteq> JudgmentProposed"
    using t by (simp_all add: demo_tables_def demo_corrected_def)
  with conjunct1 [OF decided_adjudications_permanent [OF r run]] have "\<exists>j' \<in> set (ad_Rows (md_Judgments db')). judgment_record j' = judgment_record demo_corrected"
    by blast
  moreover have "md_Reconciliations db' = no_cases" using d k(4) by simp
  ultimately show ?thesis using j(1) by blast
qed

text \<open>
  C15: In every reachable state the variance of a reconciliation is the exact difference of its two
  amounts, which no overflow has wrapped, all amounts are int64 values and the tolerance is not
  negative.
\<close>

theorem reconciliation_amounts_exact:
  assumes "engram_reach cfg (db, disk, fs)" and "GetReconciliation db i = Some r"
  shows "r_VarianceCents r = r_LeftAmountCents r - r_RightAmountCents r \<and> 0 \<le> r_ToleranceCents r
    \<and> int64 (r_LeftAmountCents r) \<and> int64 (r_RightAmountCents r) \<and> int64 (r_VarianceCents r) \<and> int64 (r_ToleranceCents r)"
proof -
  have "r \<in> set (ad_Rows (md_Reconciliations db))" using assms(2) readReconciliation_in unfolding GetReconciliation_def by blast
  then have "amounts_ok r" using reach_amounts [OF assms(1)] by (simp add: all_amounts_ok_def)
  then show ?thesis unfolding amounts_ok_def by blast
qed

lemma reconciliation_amounts_exact_witness:
  "\<exists>db. engram_reach demo_cfg (db, (\<lambda>_. None), []) \<and> GetReconciliation db ''n1'' = Some demo_reconciliation
     \<and> r_VarianceCents demo_reconciliation = 1050 - 1000 \<and> int64 (r_VarianceCents demo_reconciliation)"
proof -
  obtain db where r: "engram_reach demo_cfg (db, (\<lambda>_. None), [])" and t: "demo_tables (md_Reconciliations db) [demo_reconciliation] [] [] [''q1'']"
    by (rule demo_decided_reach)
  have "r_ID demo_reconciliation = ''n1''" "r_LeftAmountCents demo_reconciliation = 1050" "r_RightAmountCents demo_reconciliation = 1000"
    by (simp_all add: demo_reconciliation_def proposed_reconciliation_def demo_amounts_def)
  moreover from this(1) have g: "GetReconciliation db ''n1'' = Some demo_reconciliation"
    using t by (simp add: GetReconciliation_def readReconciliation_def demo_tables_def)
  ultimately show ?thesis using reconciliation_amounts_exact [OF r g] r by auto
qed

section \<open>What a confirmation takes\<close>

lemma update_judgment_other:
  "update_judgment i from f t = Inr t' \<Longrightarrow> x \<in> set (ad_Rows t) \<Longrightarrow> j_ID x \<noteq> i \<Longrightarrow> x \<in> set (ad_Rows t')"
  by (force simp: update_judgment_def guarded_update_def split: if_splits)

lemma insert_rows: "insert_event e t = Inr t' \<Longrightarrow> ad_Rows t' = ad_Rows t" "insert_route i k a now t = Inr t' \<Longrightarrow> ad_Rows t' = ad_Rows t"
  by (auto simp: insert_event_def insert_route_def split: if_splits)

lemma decided_judgment_row:
  assumes d: "decide_judgment cfg db p who now ids = Inr (db', out)" and inv: "docket_inv (judgment_docket (md_Judgments db))"
  obtains x where "x \<in> set (ad_Rows (md_Judgments db'))" "j_ID x = jp_JudgmentID p" "j_Status x = judgment_verdict p"
    "j_Resolution x = jp_Resolution p" "j_Adjudicator x = stored_adjudicator (PrincipalSnapshot_of who)"
  using d
proof (cases rule: decide_judgment_cases)
  case (1 j a b resulting t1 t2 db1 t3 db2 action' payload)
  let ?t = "md_Judgments db" and ?s = "PrincipalSnapshot_of who"
  let ?f = "\<lambda>j. j\<lparr>j_Status := judgment_verdict p, j_Resolution := jp_Resolution p, j_PolicyVersion := JudgmentPolicyVersion,
            j_Adjudicator := stored_adjudicator ?s, j_DecidedAt := now, j_UpdatedAt := now\<rparr>"
  have g: "readJudgment ?t (jp_JudgmentID p) = Some j" "j_Status j = JudgmentProposed" using 1(1) by (simp_all add: judgment_gates_Inr)
  have j: "j \<in> set (ad_Rows ?t)" "j_ID j = jp_JudgmentID p" using readJudgment_in [OF g(1)] by simp_all
  have "update_judgment (jp_JudgmentID p) JudgmentProposed ?f ?t = Inr t1" using 1(3) by (auto simp: decide_judgment_row_def guard_simps)
  then have t1: "?f j \<in> set (ad_Rows t1)" using j g(2) by (force simp: update_judgment_def guarded_update_def split: if_splits)
  then have t2: "?f j \<in> set (ad_Rows t2)" using insert_rows(1) [OF 1(4)] by simp
  from 1(6) have "?f j \<in> set (ad_Rows t3)"
  proof (cases rule: supersede_confirmed_judgment_cases)
    case (confirmed q t1' x t2')
    have "j_ID q = j_PredecessorID j" using confirmed(3) readJudgment_in by blast
    moreover have "view_judgment j \<in> set (dt_Cases (judgment_docket ?t))" using j(1) by simp
    ultimately have "j_ID (?f j) \<noteq> j_ID q" using predecessor_other [OF inv] confirmed(2) by fastforce
    from update_judgment_other [OF confirmed(4) t2 this] show ?thesis using insert_rows(1) [OF confirmed(5)] insert_rows(2) [OF confirmed(6)] by simp
  qed (use t2 in simp_all)
  then show thesis using that [of "?f j"] j(2) by (simp add: 1(8))
qed

lemma receipt_relations: "emit_verdict_receipt cfg db s i a p now = Inr db' \<Longrightarrow> md_Relations db' = md_Relations db"
  by (auto simp: emit_verdict_receipt_def guard_simps set_purge_def)

lemma confirmed_relation:
  assumes "decide_judgment cfg db p who now ids = Inr (db', out)" and "jp_Confirm p" and "readJudgment (md_Judgments db) (jp_JudgmentID p) = Some j"
  shows "\<exists>r \<in> set (md_Relations db'). re_FromID r = j_FromID j \<and> re_ToID r = j_ToID j \<and> re_Relation r = j_Relation j"
  using assms(1)
proof (cases rule: decide_judgment_cases)
  case (1 k a b resulting t1 t2 db1 t3 db2 action' payload)
  have "k = j" using 1(1) assms(3) by (simp add: judgment_gates_Inr)
  with 1(5) assms(2) have "project_relation db (j_FromID j) (j_ToID j) (j_Relation j) (ps_SubjectID (PrincipalSnapshot_of who)) now = Inr db1" by simp
  then have "\<exists>r \<in> set (md_Relations db1). re_FromID r = j_FromID j \<and> re_ToID r = j_ToID j \<and> re_Relation r = j_Relation j"
    by (auto simp: project_relation_def insertRelation_def list_ex_iff split: if_splits)
  then show ?thesis using receipt_relations [OF 1(7)] by (simp add: 1(8))
qed

lemma judgments_unread [simp]:
  "readMemoryWithLinks (db\<lparr>md_Judgments := t\<rparr>) = readMemoryWithLinks db" "md_Purge (db\<lparr>md_Judgments := t\<rparr>) = md_Purge db"
  "readMemoryWithLinks (db\<lparr>md_Reconciliations := u\<rparr>) = readMemoryWithLinks db" "md_Purge (db\<lparr>md_Reconciliations := u\<rparr>) = md_Purge db"
  by (simp_all add: fun_eq_iff readMemoryWithLinks_def observationByID_def withLinks_def ruleLinksQuery_def fiscalBindingLinkContributions_def md_Purge_def)

lemma decision_pair_Inr:
  "decision_pair db i k = Inr (a, b) \<longleftrightarrow> readMemoryWithLinks db i = Some a \<and> readMemoryWithLinks db k = Some b
     \<and> assertPeriodWritable (md_Purge db) (m_Scope a) = Inr () \<and> assertPeriodWritable (md_Purge db) (m_Scope b) = Inr ()"
  by (auto simp: decision_pair_def guard_simps)

lemma fresh_adjudication:
  assumes h: "adjudicateJudgment cfg db p who now ids = Inr (db', j', e, False)"
  obtains t where "claim_key (md_Judgments db) (p_TenantID who) (jp_RequestID p)
       (decideJudgmentCommandHash (jp_JudgmentID p) (jp_ExpectedJudgmentHash p) (jp_Resolution p)) (p_SubjectID who) None now = Inr (t, None)"
    "decide_judgment cfg (db\<lparr>md_Judgments := t\<rparr>) p who now ids = Inr (db', j', e, False)"
proof -
  obtain t replay where k: "claim_key (md_Judgments db) (p_TenantID who) (jp_RequestID p)
        (decideJudgmentCommandHash (jp_JudgmentID p) (jp_ExpectedJudgmentHash p) (jp_Resolution p)) (p_SubjectID who) None now = Inr (t, replay)"
    and c: "(case replay of
       Some k \<Rightarrow> (case jk_Result k of None \<Rightarrow> Inl (PlainErr ''persistence error'') | Some (j, e) \<Rightarrow> Inr (db, j, e, True))
     | None \<Rightarrow> decide_judgment cfg (db\<lparr>md_Judgments := t\<rparr>) p who now ids) = Inr (db', j', e, False)"
    using h unfolding adjudicateJudgment_def and_then_eq_Inr split_paired_Ex prod.case by blast
  show thesis
  proof (cases replay)
    case None
    then show thesis using that k c by simp
  qed (use c in \<open>auto split: option.splits\<close>)
qed

text \<open>
  C14: A confirmation that is no replay decides a judgment that was proposed, under the reviewed hash,
  by a member of the judgment's tenant with its company in scope, at least senior accountant and
  standard assurance, while the periods of both memories are writable. It leaves the judgment
  confirmed with the given resolution and principal, and the relation between the two memories.
\<close>

theorem judgment_confirmation_authorized:
  assumes "engram_reach cfg (db, disk, fs)" and "store_ConfirmJudgment cfg db cmd who now ids = Inr (db', j', e, False)"
  shows "\<exists>j a b x. GetJudgment db (cj_JudgmentID cmd) = Some j \<and> j_Status j = JudgmentProposed
    \<and> EqualFold (TrimSpace (cj_ExpectedJudgmentHash cmd)) (ComputeJudgmentHash j)
    \<and> p_TenantID who = j_TenantID j \<and> j_CompanyID j \<in> set (p_CompanyScopes who) \<and> p_MembershipID who \<noteq> ''''
    \<and> satisfies (p_Roles who) RoleSeniorAccountant \<and> 1 \<le> assuranceRank (p_Assurance who)
    \<and> readMemoryWithLinks db (j_FromID j) = Some a \<and> assertPeriodWritable (md_Purge db) (m_Scope a) = Inr ()
    \<and> readMemoryWithLinks db (j_ToID j) = Some b \<and> assertPeriodWritable (md_Purge db) (m_Scope b) = Inr ()
    \<and> GetJudgment db' (cj_JudgmentID cmd) = Some x \<and> j_Status x = JudgmentConfirmed \<and> j_Resolution x = cj_Resolution cmd
    \<and> j_Adjudicator x = stored_adjudicator (PrincipalSnapshot_of who)
    \<and> (\<exists>r \<in> set (md_Relations db'). re_FromID r = j_FromID j \<and> re_ToID r = j_ToID j \<and> re_Relation r = j_Relation j)"
proof -
  let ?p = "\<lparr>jp_JudgmentID = cj_JudgmentID cmd, jp_Resolution = cj_Resolution cmd,
       jp_ExpectedJudgmentHash = cj_ExpectedJudgmentHash cmd, jp_RequestID = cj_RequestID cmd, jp_Confirm = True\<rparr>"
  have h: "adjudicateJudgment cfg db ?p who now ids = Inr (db', j', e, False)"
    using assms(2) unfolding store_ConfirmJudgment_def guard_simps by blast
  obtain t where k: "claim_key (md_Judgments db) (p_TenantID who) (jp_RequestID ?p)
       (decideJudgmentCommandHash (jp_JudgmentID ?p) (jp_ExpectedJudgmentHash ?p) (jp_Resolution ?p)) (p_SubjectID who) None now = Inr (t, None)"
    and d: "decide_judgment cfg (db\<lparr>md_Judgments := t\<rparr>) ?p who now ids = Inr (db', j', e, False)"
    by (rule fresh_adjudication [OF h])
  let ?db = "db\<lparr>md_Judgments := t\<rparr>"
  have rows: "ad_Rows t = ad_Rows (md_Judgments db)" and dk: "judgment_docket t = judgment_docket (md_Judgments db)"
    using claim_key_docket [OF k] by blast+
  obtain j a b where g: "judgment_gates ?db ?p who = Inr (j, a, b)" using d by (cases rule: decide_judgment_cases) blast
  then have j: "readJudgment t (cj_JudgmentID cmd) = Some j" by (simp add: judgment_gates_Inr)
  obtain x where x: "x \<in> set (ad_Rows (md_Judgments db'))" "j_ID x = jp_JudgmentID ?p" "j_Status x = judgment_verdict ?p"
    "j_Resolution x = jp_Resolution ?p" "j_Adjudicator x = stored_adjudicator (PrincipalSnapshot_of who)"
    using decided_judgment_row [OF d] reach_docket_inv(1) [OF assms(1)] dk by (metis MemoryDB.select_convs(15) MemoryDB.surjective MemoryDB.update_convs(15))
  have "engram_reach cfg (db', disk, fs)" using reach_more [OF assms(1)] es_judgment [OF ja_confirm [OF assms(2)]] by blast
  then have "GetJudgment db' (cj_JudgmentID cmd) = Some x" using readJudgment_iff [OF reach_docket_inv(1)] x(1,2) by (simp add: GetJudgment_def)
  moreover have "GetJudgment db (cj_JudgmentID cmd) = Some j" using j by (simp add: GetJudgment_def readJudgment_def rows)
  moreover have "\<exists>r \<in> set (md_Relations db'). re_FromID r = j_FromID j \<and> re_ToID r = j_ToID j \<and> re_Relation r = j_Relation j"
    using confirmed_relation [OF d] j by simp
  ultimately show ?thesis using g x(3-5)
    by (simp add: judgment_gates_Inr decision_pair_Inr judgment_Authorize_def adjudication_Authorize_None judgment_verdict_def)
qed

lemma judgment_confirmation_authorized_witness:
  "\<exists>(db :: MemoryDB) (db' :: MemoryDB). (\<exists>x. GetJudgment db' ''j2'' = Some x \<and> j_Status x = JudgmentConfirmed \<and> j_Resolution x = ''ok'')
     \<and> (\<exists>j. GetJudgment db ''j2'' = Some j \<and> j_TenantID j = ''o'')"
proof -
  obtain db where r: "engram_reach demo_cfg (db, (\<lambda>_. None), [])" and k: "pair_kept db" "md_Memberships db = [p_MembershipID (actor ''alice'')]"
    "md_Relations db = []"
    and t: "demo_tables (md_Judgments db) [demo_corrected, demo_judgment ''j2'' ''j1''] [''v1''] [(''j1'', ''j2'')] [''q1'', ''q2'']"
    by (rule demo_open_reach)
  obtain db' where c: "store_ConfirmJudgment demo_cfg db demo_confirm (actor ''alice'') demo_time (\<lambda>_. ''v2'') = Inr (db', demo_confirmed, ''v2'', False)"
    by (rule demo_confirmation [OF k t])
  have cmd: "cj_JudgmentID demo_confirm = ''j2''" "cj_Resolution demo_confirm = ''ok''" by (simp_all add: demo_confirm_def)
  have who: "p_TenantID (actor ''alice'') = ''o''" by (simp add: actor_def sample_principal_def)
  show ?thesis using judgment_confirmation_authorized [OF r c] unfolding cmd who by metis
qed

end
