(* ===== verification/Adjudication_Retry.thy ===== *)
theory Adjudication_Retry
  imports Adjudication_Properties
begin

text \<open>What a repeated request of the judgment handlers returns, and what a closed period does to it.\<close>

section \<open>Keys\<close>

lemma claim_key_find:
  "claim_key t a b h w i now = Inr (t', None) \<Longrightarrow> \<exists>k. find_key t' a b = Some k \<and> jk_CommandHash k = h \<and> jk_ActorBinding k = w"
  by (fastforce simp: claim_key_def find_key_def find_append split: option.splits if_splits)

lemma claim_key_completed:
  "find_key t a b = Some k \<Longrightarrow> jk_CommandHash k = h \<Longrightarrow> jk_ActorBinding k = w \<Longrightarrow> jk_CompletedAt k \<noteq> None
   \<Longrightarrow> claim_key t a b h w i now = Inr (t, Some k)"
  by (simp add: claim_key_def)

lemma find_update_key:
  assumes "\<And>k. jk_TenantID (f k) = jk_TenantID k \<and> jk_RequestID (f k) = jk_RequestID k"
  shows "find_key (update_key t a b f) a b = map_option f (find_key t a b)"
proof -
  let ?P = "\<lambda>k. jk_TenantID k = a \<and> jk_RequestID k = b"
  have "find ?P (map (\<lambda>k. if ?P k then f k else k) (ad_Keys t)) = map_option (\<lambda>k. if ?P k then f k else k) (find ?P (ad_Keys t))"
    by (rule find_map_pred) (simp add: assms)
  also have "\<dots> = map_option f (find ?P (ad_Keys t))"
  proof (cases "find ?P (ad_Keys t)")
    case (Some k)
    from find_SomeD [OF Some] show ?thesis by (simp add: Some)
  qed simp
  finally show ?thesis by (simp add: find_key_def update_key_def)
qed

lemma tables_keys:
  "update_judgment i from f t = Inr t' \<Longrightarrow> ad_Keys t' = ad_Keys t"
  "insert_judgment j t = Inr t' \<Longrightarrow> ad_Keys t' = ad_Keys t"
  "insert_event e t = Inr t' \<Longrightarrow> ad_Keys t' = ad_Keys t"
  "insert_route x y a now t = Inr t' \<Longrightarrow> ad_Keys t' = ad_Keys t"
  by (auto simp: update_judgment_def guarded_update_def insert_judgment_def insert_event_def insert_route_def split: if_splits)

lemma find_key_cong: "ad_Keys t' = ad_Keys t \<Longrightarrow> find_key t' a b = find_key t a b"
  by (simp add: find_key_def)

lemma decided_key:
  assumes "decide_judgment cfg db p who now ids = Inr (db', j', e, f)" and "find_key (md_Judgments db) (p_TenantID who) (jp_RequestID p) = Some k"
  shows "find_key (md_Judgments db') (p_TenantID who) (jp_RequestID p) = Some (k\<lparr>jk_Result := Some (j', e), jk_CompletedAt := Some now\<rparr>)"
  using assms(1)
proof (cases rule: decide_judgment_cases)
  case (1 j a b resulting t1 t2 db1 t3 db2 action' payload)
  have "ad_Keys t1 = ad_Keys (md_Judgments db)" using 1(3) tables_keys(1) by (auto simp: decide_judgment_row_def guard_simps)
  then have "ad_Keys t2 = ad_Keys (md_Judgments db)" using tables_keys(3) [OF 1(4)] by simp
  moreover from 1(6) have "ad_Keys t3 = ad_Keys t2"
    by (cases rule: supersede_confirmed_judgment_cases) (simp_all add: tables_keys(1,3,4))
  ultimately have "find_key t3 (p_TenantID who) (jp_RequestID p) = Some k" using assms(2) find_key_cong by metis
  then show ?thesis using 1(9) by (simp add: 1(8) complete_decision_key_def find_update_key)
qed

text \<open>
  C16: A verdict replays under its request id: repeating a confirmation returns the recorded outcome and
  writes nothing. As both verdicts hash the same command text, a rejection sent with the request id,
  judgment, reviewed hash and text of that confirmation also reports the confirmation as its own success.
\<close>

theorem rejection_replays_confirmation:
  assumes "store_ConfirmJudgment cfg db cmd who now ids = Inr (db', j', e, False)"
  shows "store_ConfirmJudgment cfg' db' cmd who now' ids' = Inr (db', j', e, True)
    \<and> store_RejectJudgment cfg' db' \<lparr>xj_JudgmentID = cj_JudgmentID cmd, xj_Reason = cj_Resolution cmd,
        xj_ExpectedJudgmentHash = cj_ExpectedJudgmentHash cmd, xj_RequestID = cj_RequestID cmd\<rparr> who now' ids' = Inr (db', j', e, True)"
proof -
  let ?p = "\<lambda>c. \<lparr>jp_JudgmentID = cj_JudgmentID cmd, jp_Resolution = cj_Resolution cmd,
       jp_ExpectedJudgmentHash = cj_ExpectedJudgmentHash cmd, jp_RequestID = cj_RequestID cmd, jp_Confirm = c\<rparr>"
  have g: "\<not> blank (cj_Resolution cmd)" "\<not> blank (cj_JudgmentID cmd)" "\<not> blank (cj_ExpectedJudgmentHash cmd)" "\<not> blank (cj_RequestID cmd)"
    and h: "adjudicateJudgment cfg db (?p True) who now ids = Inr (db', j', e, False)"
    using assms unfolding store_ConfirmJudgment_def guard_simps by blast+
  let ?h = "decideJudgmentCommandHash (cj_JudgmentID cmd) (cj_ExpectedJudgmentHash cmd) (cj_Resolution cmd)"
  obtain t where k: "claim_key (md_Judgments db) (p_TenantID who) (cj_RequestID cmd) ?h (p_SubjectID who) None now = Inr (t, None)"
    and d: "decide_judgment cfg (db\<lparr>md_Judgments := t\<rparr>) (?p True) who now ids = Inr (db', j', e, False)"
    by (rule fresh_adjudication [OF h]) simp
  obtain x where x: "find_key t (p_TenantID who) (cj_RequestID cmd) = Some x" "jk_CommandHash x = ?h" "jk_ActorBinding x = p_SubjectID who"
    using claim_key_find [OF k] by blast
  have f: "find_key (md_Judgments db') (p_TenantID who) (cj_RequestID cmd) = Some (x\<lparr>jk_Result := Some (j', e), jk_CompletedAt := Some now\<rparr>)"
    using decided_key [OF d] x(1) by simp
  have "claim_key (md_Judgments db') (p_TenantID who) (cj_RequestID cmd) ?h (p_SubjectID who) None now'
      = Inr (md_Judgments db', Some (x\<lparr>jk_Result := Some (j', e), jk_CompletedAt := Some now\<rparr>))"
    using x(2,3) by (intro claim_key_completed [OF f]) simp_all
  then have "adjudicateJudgment cfg' db' (?p c) who now' ids' = Inr (db', j', e, True)" for c
    by (simp add: adjudicateJudgment_def)
  then show ?thesis using g by (simp add: store_ConfirmJudgment_def store_RejectJudgment_def)
qed

lemma rejection_replays_confirmation_witness:
  "\<exists>(db' :: MemoryDB). store_RejectJudgment demo_cfg db' \<lparr>xj_JudgmentID = ''j2'', xj_Reason = ''ok'',
        xj_ExpectedJudgmentHash = ComputeJudgmentHash (demo_judgment ''j2'' ''j1''), xj_RequestID = ''q3''\<rparr> (actor ''alice'') '''' (\<lambda>_. '''')
      = Inr (db', demo_confirmed, ''v2'', True)"
proof -
  obtain db where k: "pair_kept db" "md_Memberships db = [p_MembershipID (actor ''alice'')]" "md_Relations db = []"
    and t: "demo_tables (md_Judgments db) [demo_corrected, demo_judgment ''j2'' ''j1''] [''v1''] [(''j1'', ''j2'')] [''q1'', ''q2'']"
    by (rule demo_open_reach)
  obtain db' where c: "store_ConfirmJudgment demo_cfg db demo_confirm (actor ''alice'') demo_time (\<lambda>_. ''v2'') = Inr (db', demo_confirmed, ''v2'', False)"
    by (rule demo_confirmation [OF k t])
  have cmd: "cj_JudgmentID demo_confirm = ''j2''" "cj_Resolution demo_confirm = ''ok''" "cj_RequestID demo_confirm = ''q3''"
    "cj_ExpectedJudgmentHash demo_confirm = ComputeJudgmentHash (demo_judgment ''j2'' ''j1'')" by (simp_all add: demo_confirm_def)
  show ?thesis using rejection_replays_confirmation [OF c, of demo_cfg "''''" "\<lambda>_. ''''"] unfolding cmd by blast
qed

section \<open>Proposals\<close>

lemma fresh_proposal:
  assumes h: "ProposeJudgment db cmd caller now ids = Inr (db', j, e, False)"
  obtains scope t t' where "proposal_scope db (pj_FromID cmd) (pj_ToID cmd) = Inr scope"
    "claim_key (md_Judgments db) (fst scope) (pj_RequestID cmd) (proposeJudgmentCommandHash cmd) (proposerBinding caller) (Some (ids 0)) now = Inr (t, None)"
    "propose_writes cmd caller scope now ids t = Inr (t', j)" "db' = db\<lparr>md_Judgments := t'\<rparr>"
proof -
  obtain scope t replay where s: "proposal_scope db (pj_FromID cmd) (pj_ToID cmd) = Inr scope"
    and k: "claim_key (md_Judgments db) (fst scope) (pj_RequestID cmd) (proposeJudgmentCommandHash cmd)
      (proposerBinding caller) (Some (ids 0)) now = Inr (t, replay)"
    and c: "(case replay of
       Some k \<Rightarrow>
         and_then (replay_proposal t k [fst scope, fst (snd scope), pj_FromID cmd, pj_ToID cmd, Relation_str (pj_Relation cmd)]) (\<lambda>j.
         Inr (db, j, '''', True))
     | None \<Rightarrow>
         and_then (propose_writes cmd caller scope now ids t) (\<lambda>(t, j).
         Inr (db\<lparr>md_Judgments := t\<rparr>, j, '''', False))) = Inr (db', j, e, False)"
    using h unfolding ProposeJudgment_def and_then_eq_Inr split_paired_Ex prod.case by blast
  show thesis
  proof (cases replay)
    case None
    then obtain t' where "propose_writes cmd caller scope now ids t = Inr (t', j)" "db' = db\<lparr>md_Judgments := t'\<rparr>"
      using c by (auto simp: guard_simps)
    then show thesis using that [OF s] k None by blast
  qed (use c in \<open>auto simp: guard_simps\<close>)
qed

lemma proposed_row_and_key:
  assumes "propose_writes cmd caller scope now ids t = Inr (t', j)" and "find_key t (fst scope) (pj_RequestID cmd) = Some k"
  shows "readJudgment t' (ids 0) = Some j"
    "find_key t' (fst scope) (pj_RequestID cmd) = Some (k\<lparr>jk_EntityID := Some (ids 0), jk_CompletedAt := Some now\<rparr>)"
proof -
  let ?j = "proposed_judgment cmd caller scope (ids 0) now"
  obtain t1 b t2 t3 where p: "judgment_predecessor cmd caller (ids 0) (ids 1) now t = Inr (t1, b)" and ins: "insert_judgment ?j t1 = Inr t2"
    and rt: "(if b then insert_route (pj_PredecessorID cmd) (ids 0) (proposerBinding caller) now t2 else Inr t2) = Inr t3"
    and ret: "Inr (complete_proposal_key t3 (fst scope) (pj_RequestID cmd) (ids 0) now, ?j) = (Inr (t', j) :: (JudgmentTables \<times> AccountingJudgment) result)"
    using assms(1) unfolding propose_writes_def and_then_eq_Inr split_paired_Ex prod.case Let_def by blast
  from ret have done': "t' = complete_proposal_key t3 (fst scope) (pj_RequestID cmd) (ids 0) now" "j = ?j" by blast+
  from p have k1: "ad_Keys t1 = ad_Keys t"
  proof (cases rule: judgment_predecessor_cases)
    case (proposed pred)
    then show ?thesis unfolding supersedeProposedPredecessor_def Let_def guard_simps using tables_keys(1,3) by metis
  qed simp_all
  have keys: "ad_Keys t3 = ad_Keys t" and rows: "ad_Rows t3 = ad_Rows t2"
    using rt k1 tables_keys(2) [OF ins] by (cases b; simp add: tables_keys(4) insert_rows(2))+
  have "find_key t3 (fst scope) (pj_RequestID cmd) = Some k" using assms(2) find_key_cong [OF keys] by simp
  then show "find_key t' (fst scope) (pj_RequestID cmd) = Some (k\<lparr>jk_EntityID := Some (ids 0), jk_CompletedAt := Some now\<rparr>)"
    by (simp add: done'(1) complete_proposal_key_def find_update_key)
  have new: "ad_Rows t2 = ad_Rows t1 @ [?j]" "\<not> list_ex (\<lambda>x. j_ID x = ids 0) (ad_Rows t1)"
    using ins by (auto simp: insert_judgment_def split: if_splits)
  have "find (\<lambda>x. j_ID x = ids 0) (ad_Rows t1) = None" using new(2) by (simp add: find_None_iff list_ex_iff)
  then show "readJudgment t' (ids 0) = Some j" by (simp add: done' readJudgment_def rows new(1) find_append)
qed

lemma proposal_checks:
  assumes "ProposeJudgment db cmd caller now ids = Inr out"
  shows "ProposeJudgment db2 cmd caller now2 ids2 = and_then (proposal_scope db2 (pj_FromID cmd) (pj_ToID cmd)) (\<lambda>scope.
     and_then (claim_key (md_Judgments db2) (fst scope) (pj_RequestID cmd) (proposeJudgmentCommandHash cmd) (proposerBinding caller)
        (Some (ids2 0)) now2) (\<lambda>(t, replay).
     case replay of
       Some k \<Rightarrow>
         and_then (replay_proposal t k [fst scope, fst (snd scope), pj_FromID cmd, pj_ToID cmd, Relation_str (pj_Relation cmd)]) (\<lambda>j.
         Inr (db2, j, '''', True))
     | None \<Rightarrow>
         and_then (propose_writes cmd caller scope now2 ids2 t) (\<lambda>(t, j).
         Inr (db2\<lparr>md_Judgments := t\<rparr>, j, '''', False))))"
proof -
  have "\<not> blank (pj_FromID cmd) \<and> \<not> blank (pj_ToID cmd) \<and> \<not> blank (pj_Reason cmd) \<and> \<not> blank (pj_RequestID cmd)"
    "IsProposableRelation (pj_Relation cmd)" "CanPropose caller" "pj_FromID cmd \<noteq> pj_ToID cmd"
    using assms unfolding ProposeJudgment_def guard_simps by blast+
  then show ?thesis unfolding ProposeJudgment_def by simp
qed

text \<open>
  C17: A proposal repeated at once returns the recorded judgment as a replay and writes nothing. As the
  period gate runs before the key is looked up, the same request fails with PERIOD_CLOSED once the
  period of the first memory is closed, although it has nothing left to write.
\<close>

theorem proposal_retry_until_close:
  assumes "ProposeJudgment db cmd caller now ids = Inr (db', j, e, False)"
    and "readMemoryWithLinks later (pj_FromID cmd) = Some a" and "readMemoryWithLinks later (pj_FromID cmd) = readMemoryWithLinks db (pj_FromID cmd)"
    and "readMemoryWithLinks later (pj_ToID cmd) = readMemoryWithLinks db (pj_ToID cmd)"
    and "FindPeriodClosure (md_Purge later) (m_Scope a) = Some c" and "pc_Status c = ''closed''"
  shows "ProposeJudgment db' cmd caller now' ids' = Inr (db', j, '''', True)
    \<and> ProposeJudgment later cmd caller now' ids' = Inl (AuthErr ''PERIOD_CLOSED'')"
proof
  obtain scope t t' where s: "proposal_scope db (pj_FromID cmd) (pj_ToID cmd) = Inr scope"
    and k: "claim_key (md_Judgments db) (fst scope) (pj_RequestID cmd) (proposeJudgmentCommandHash cmd) (proposerBinding caller) (Some (ids 0)) now = Inr (t, None)"
    and w: "propose_writes cmd caller scope now ids t = Inr (t', j)" and db': "db' = db\<lparr>md_Judgments := t'\<rparr>"
    by (rule fresh_proposal [OF assms(1)])
  obtain x where x: "find_key t (fst scope) (pj_RequestID cmd) = Some x" "jk_CommandHash x = proposeJudgmentCommandHash cmd"
    "jk_ActorBinding x = proposerBinding caller" using claim_key_find [OF k] by blast
  note row = proposed_row_and_key [OF w x(1)]
  have "claim_key t' (fst scope) (pj_RequestID cmd) (proposeJudgmentCommandHash cmd) (proposerBinding caller) (Some (ids' 0)) now'
      = Inr (t', Some (x\<lparr>jk_EntityID := Some (ids 0), jk_CompletedAt := Some now\<rparr>))"
    using x(2,3) by (intro claim_key_completed [OF row(2)]) simp_all
  moreover have "proposal_scope db' (pj_FromID cmd) (pj_ToID cmd) = Inr scope" using s by (simp only: proposal_scope_def db' judgments_unread)
  moreover have "md_Judgments db' = t'" by (simp add: db')
  ultimately show "ProposeJudgment db' cmd caller now' ids' = Inr (db', j, '''', True)"
    unfolding proposal_checks [OF assms(1)] using row(1) by (simp add: replay_proposal_def)
  obtain a' b' where r: "readMemoryWithLinks db (pj_FromID cmd) = Some a'" "readMemoryWithLinks db (pj_ToID cmd) = Some b'"
    "sc_Kind (m_Scope a') = ScopeKindCompany" "sc_Kind (m_Scope b') = ScopeKindCompany"
    "sc_OrganizationID (m_Scope a') = sc_OrganizationID (m_Scope b')" "sc_CompanyID (m_Scope a') = sc_CompanyID (m_Scope b')"
    using s by (auto simp: proposal_scope_def Let_def guard_simps split: option.splits)
  have "assertPeriodWritable (md_Purge later) (m_Scope a) = Inl (AuthErr ''PERIOD_CLOSED'')"
    using assms(5,6) by (auto simp: FindPeriodClosure_def assertPeriodWritable_def closure_key_def [abs_def] split: if_splits)
  moreover have "a' = a" using assms(2,3) r(1) by simp
  ultimately have "proposal_scope later (pj_FromID cmd) (pj_ToID cmd) = Inl (AuthErr ''PERIOD_CLOSED'')"
    using assms(2-4) r by (simp add: proposal_scope_def Let_def)
  then show "ProposeJudgment later cmd caller now' ids' = Inl (AuthErr ''PERIOD_CLOSED'')"
    unfolding proposal_checks [OF assms(1)] by simp
qed

lemma proposal_retry_until_close_witness:
  "\<exists>(later :: MemoryDB). ProposeJudgment later (demo_proposal '''' ''q1'') bot demo_time (\<lambda>_. ''j9'') = Inl (AuthErr ''PERIOD_CLOSED'')
     \<and> (\<exists>db'. ProposeJudgment demo_pair (demo_proposal '''' ''q1'') bot demo_time (\<lambda>_. ''j1'') = Inr (db', demo_judgment ''j1'' '''', '''', False)
          \<and> ProposeJudgment db' (demo_proposal '''' ''q1'') bot demo_time (\<lambda>_. ''j9'') = Inr (db', demo_judgment ''j1'' '''', '''', True))"
proof -
  let ?c = "demo_proposal '''' ''q1''" and ?later = "set_purge ((md_Purge demo_pair)\<lparr>pd_Closures := [demo_closed_period]\<rparr>) demo_pair"
  obtain t where p: "ProposeJudgment demo_pair ?c bot demo_time (\<lambda>_. ''j1'') = Inr (demo_pair\<lparr>md_Judgments := t\<rparr>, demo_judgment ''j1'' '''', '''', False)"
    by (rule demo_propose)
  have c: "pj_FromID ?c = ''m1''" "pj_ToID ?c = ''m2''" by (simp_all add: demo_proposal_def)
  obtain a where a: "readMemoryWithLinks demo_pair (pj_FromID ?c) = Some a" "m_Scope a = demo_scope" using pair_read [OF pair_kept_demo] c(1) by metis
  have read: "readMemoryWithLinks ?later = readMemoryWithLinks demo_pair"
    by (simp add: fun_eq_iff readMemoryWithLinks_def observationByID_def withLinks_def ruleLinksQuery_def fiscalBindingLinkContributions_def set_purge_def)
  have closed: "FindPeriodClosure (md_Purge ?later) (m_Scope a) = Some demo_closed_period"
    by (simp add: a(2) FindPeriodClosure_def set_purge_def md_Purge_def closure_key_def demo_closed_period_def demo_scope_def company_scope_def
        del: demo_scope_fold)
  have st: "pc_Status demo_closed_period = ''closed''" by (simp add: demo_closed_period_def)
  have fst: "readMemoryWithLinks ?later (pj_FromID ?c) = Some a" using a(1) read by simp
  from proposal_retry_until_close [OF p fst _ _ closed st, of demo_time "\<lambda>_. ''j9''"] read p show ?thesis by auto
qed

end
