(* ===== verification/Purge_Liveness.thy ===== *)
theory Purge_Liveness
  imports Purge_Properties
begin

text \<open>
  An approved purge whose gates hold is executed: both transactions of ExecutePurge commit and issue
  their receipts, the bytes are gone, the request and its attempt are closed, attempts left open
  before are interrupted, and the byte verifier explains the absence.
\<close>

section \<open>The tables the gates read\<close>

definition gate_frame :: "PurgeDB \<Rightarrow> PurgeDB \<Rightarrow> bool" where
  "gate_frame db db' \<longleftrightarrow> same_environment db db' \<and> pd_States db' = pd_States db \<and> pd_Requests db' = pd_Requests db
     \<and> pd_Approvals db' = pd_Approvals db"

lemma gate_frame_reads:
  assumes "gate_frame db db'"
  shows "currentPurgeSnapshotOn db' = currentPurgeSnapshotOn db" "snapshot_gate db' = snapshot_gate db"
    "bound_policy_gate db' = bound_policy_gate db" "evidenceObjectByIDOn db' = evidenceObjectByIDOn db"
    "purgeRequestByIDOn db' = purgeRequestByIDOn db"
proof -
  have env: "same_environment db db'" and rows: "pd_States db' = pd_States db" "pd_Requests db' = pd_Requests db" "pd_Approvals db' = pd_Approvals db"
    using assms by (simp_all add: gate_frame_def)
  show cur: "currentPurgeSnapshotOn db' = currentPurgeSnapshotOn db"
    using snapshot_frame [of db' db] env rows by (simp add: same_environment_def)
  show "snapshot_gate db' = snapshot_gate db" by (intro ext) (simp add: snapshot_gate_def cur)
  have "assertPeriodWritable db' = assertPeriodWritable db"
    using env by (simp add: same_environment_def assertPeriodWritable_def fun_eq_iff)
  then show "bound_policy_gate db' = bound_policy_gate db"
    using environment_frame [OF env] by (intro ext) (simp add: bound_policy_gate_def)
  show "evidenceObjectByIDOn db' = evidenceObjectByIDOn db" "purgeRequestByIDOn db' = purgeRequestByIDOn db"
    using env rows by (simp_all add: same_environment_def evidenceObjectByIDOn_def purgeRequestByIDOn_def fun_eq_iff)
qed

lemma execute_gates_frame: "gate_frame db db' \<Longrightarrow> execute_gates db' cmd r scope who = execute_gates db cmd r scope who"
  by (simp add: execute_gates_def gate_frame_reads)

section \<open>The two transactions\<close>

text \<open>
  Stale attempts: while the bytes are there, a fresh attempt interrupts every other open attempt of
  its request, if there is one, and opens its own.
\<close>

lemma none_open_mark:
  assumes "purgeIntentExecutionForRequestOn db i x = None"
  shows "markInterruptedPurgeExecutionsOn db i x = db"
proof -
  let ?open = "\<lambda>e. px_RequestID e = i \<and> px_State e = PurgeExecutionIntent \<and> px_ExecutionID e \<noteq> x"
  have s: "sort_key px_IntentAt (filter ?open (pd_Executions db)) = []"
    using assms by (simp add: purgeIntentExecutionForRequestOn_def split: list.splits)
  have "filter ?open (pd_Executions db) = []" using arg_cong [OF s, of length] by (simp only: length_sort list.size length_0_conv)
  then have "map (\<lambda>e. if px_RequestID e = i \<and> px_State e = PurgeExecutionIntent \<and> px_ExecutionID e \<noteq> x
      then e\<lparr>px_State := PurgeExecutionInterrupted\<rparr> else e) (pd_Executions db) = pd_Executions db"
    by (intro map_idI) (simp add: filter_empty_conv)
  then show ?thesis by (simp add: markInterruptedPurgeExecutionsOn_def)
qed

lemma execute_fresh_opens:
  assumes "execute_gates db cmd r scope who = Inr (obj, h)" and "disk (eo_RelPath obj) = Some bytes"
  shows "execute_fresh s db disk cmd r scope who now ids
     = and_then (execute_open s (markInterruptedPurgeExecutionsOn db (pq_RequestID r) (ec_ExecutionID cmd)) cmd r scope obj h who now (ids 0))
         (\<lambda>(db, exec). Inr (Opened db r exec))"
  using assms
  by (cases "purgeIntentExecutionForRequestOn db (pq_RequestID r) (ec_ExecutionID cmd)")
    (simp_all add: execute_fresh_def none_open_mark objectBytesExist_def Let_def)

text \<open>The receipts of the two transactions, issued one after the other; without a signer there are none.\<close>

definition intent_receipt :: "Signer option \<Rightarrow> ReceiptStore \<Rightarrow> ExecutePurgeCommand \<Rightarrow> EvidencePurgeRequest \<Rightarrow> Principal \<Rightarrow> string
    \<Rightarrow> (ReceiptStore \<times> SignedReceipt option) result" where
  "intent_receipt s rs cmd r who now =
     emitReceipt s rs SubjectEvidenceObject (pq_ObjectID r) PurgeIntent (purgeReceiptPayload (purgeRequestScope r) (pq_ObjectID r)
       (ec_ExpectedLifecycleHash cmd) (ec_ExpectedLifecycleHash cmd) (ec_Reason cmd) (ec_ExecutionID cmd) who) now"

definition executed_receipt :: "Signer option \<Rightarrow> ReceiptStore \<Rightarrow> ExecutePurgeCommand \<Rightarrow> EvidencePurgeRequest \<Rightarrow> LifecycleSnapshot
    \<Rightarrow> Principal \<Rightarrow> string \<Rightarrow> (ReceiptStore \<times> SignedReceipt option) result" where
  "executed_receipt s rs cmd r cur who now =
     emitReceipt s rs SubjectEvidenceObject (pq_ObjectID r) PurgeExecuted (purgeReceiptPayload (purgeRequestScope r) (pq_ObjectID r)
       (ec_ExpectedLifecycleHash cmd) (close_hash r (purgeRequestScope r) cur PurgeLifecyclePurged (ls_ApprovalIDs cur)) (ec_Reason cmd)
       (ec_ExecutionID cmd) who) now"

lemma receipts_unsigned [simp]:
  "intent_receipt None rs cmd r who now = Inr (rs, None)" "executed_receipt None rs cmd r cur who now = Inr (rs, None)"
  by (simp_all add: intent_receipt_def executed_receipt_def emitReceipt_def)

lemma execute_open_ok:
  assumes "ec_ExecutionID cmd \<notin> px_ExecutionID ` set (pd_Executions db)" and "i \<notin> le_EventID ` set (pd_Events db)"
    and "ec_ExpectedLifecycleHash cmd \<noteq> ''''" and "0 \<le> eo_Size obj" and "intent_receipt s (pd_Receipts db) cmd r who now = Inr (rs, rc)"
  shows "\<exists>db'. execute_open s db cmd r (purgeRequestScope r) obj (ec_ExpectedLifecycleHash cmd) who now i
        = Inr (db', intent_row cmd r obj (ec_ExpectedLifecycleHash cmd) now who)
     \<and> gate_frame db db' \<and> pd_Executions db' = pd_Executions db @ [intent_row cmd r obj (ec_ExpectedLifecycleHash cmd) now who]
     \<and> (\<exists>e. pd_Events db' = pd_Events db @ [e] \<and> le_EventID e = i) \<and> pd_Receipts db' = rs"
proof -
  have "\<not> list_ex (\<lambda>x. px_ExecutionID x = ec_ExecutionID cmd) (pd_Executions db)" "\<not> list_ex (\<lambda>x. le_EventID x = i) (pd_Events db)"
    using assms(1,2) by (force simp: list_ex_iff)+
  then show ?thesis using assms(3-5)
    by (simp add: execute_open_def Let_def insertPurgeExecutionOn_def intent_row_def insertLifecycleEventOn_def lifecycle_event_def
        emitObjectReceipt_def intent_receipt_def gate_frame_def same_environment_def)
qed

lemma completeExecutionOn_ok:
  assumes ev: "i \<notin> le_EventID ` set (pd_Events db)" and xs: "pd_Executions db = es @ [exec]"
    and fresh: "px_ExecutionID exec \<notin> px_ExecutionID ` set es" and st: "px_State exec = PurgeExecutionIntent"
    and r: "r \<in> set (pd_Requests db)" "distinct (map pq_RequestID (pd_Requests db))" "pq_Status r = PurgeRequestStatusApproved"
    and rcpt: "executed_receipt s (pd_Receipts db) cmd r cur who now = Inr (rs, rc)"
    and cmd: "px_IntentReviewedHash exec = ec_ExpectedLifecycleHash cmd" "px_ExecutionID exec = ec_ExecutionID cmd"
  shows "\<exists>db' v. completeExecutionOn s db r (purgeRequestScope r) exec cur who (ec_Reason cmd) now a i rec = Inr (db', v)
     \<and> er_Request v = r\<lparr>pq_Status := PurgeRequestStatusExecuted, pq_ExecutionID := px_ExecutionID exec\<rparr>
     \<and> pd_Objects db' = pd_Objects db \<and> pd_Receipts db' = rs
     \<and> pd_Requests db' = map (\<lambda>x. if pq_RequestID x = pq_RequestID r then er_Request v else x) (pd_Requests db)
     \<and> pd_Executions db' = es @ [er_Execution v]
     \<and> er_Execution v = exec\<lparr>px_State := PurgeExecutionCompleted, px_CompletedAt := now, px_CompletedBy := a,
          px_CompletionReceiptID := (case rc of None \<Rightarrow> '''' | Some x \<Rightarrow> ReceiptHash x)\<rparr> \<and> er_Recovered v = rec"
proof -
  have e: "\<not> list_ex (\<lambda>x. le_EventID x = i) (pd_Events db)" using ev by (force simp: list_ex_iff)
  let ?hit = "\<lambda>e. px_ExecutionID e = px_ExecutionID exec \<and> px_State e = PurgeExecutionIntent"
  have ne: "px_ExecutionID e \<noteq> px_ExecutionID exec" if "e \<in> set es" for e using fresh that by (metis imageI)
  then have none: "filter ?hit es = []" by (intro filter_False) blast
  have same: "map (\<lambda>e. if ?hit e then f e else e) es = es" for f
    using ne by (intro map_idI) simp
  have only: "x = r" if "x \<in> set (pd_Requests db)" "pq_RequestID x = pq_RequestID r" for x
    using r that by (metis distinct_map inj_onD)
  have guard: "list_all (\<lambda>x. pq_RequestID x = pq_RequestID r \<longrightarrow> status_guard (pq_Status x) PurgeRequestStatusExecuted) (pd_Requests db)"
    using only r(3) by (auto simp: list_all_iff status_guard_def)
  have mapped: "map (\<lambda>x. if pq_RequestID x = pq_RequestID r then f x else x) (pd_Requests db)
      = map (\<lambda>x. if pq_RequestID x = pq_RequestID r then f r else x) (pd_Requests db)" for f
    using only by (intro map_cong) auto
  show ?thesis unfolding completeExecutionOn_Inr
    using e none same guard st rcpt cmd
    by (simp add: insertLifecycleEventOn_def lifecycle_event_def emitObjectReceipt_def executed_receipt_def completePurgeExecutionRow_def Let_def xs
        updatePurgeRequest_def upsertRetentionStateOn_def mapped [of "\<lambda>x. x\<lparr>pq_Status := PurgeRequestStatusExecuted, pq_ExecutionID := ec_ExecutionID cmd\<rparr>"])
qed

lemma mark_ids:
  "map px_ExecutionID (pd_Executions (markInterruptedPurgeExecutionsOn db i x)) = map px_ExecutionID (pd_Executions db)"
  by (simp add: markInterruptedPurgeExecutionsOn_def)

lemma mark_frame:
  "gate_frame db (markInterruptedPurgeExecutionsOn db i x)"
  "pd_Events (markInterruptedPurgeExecutionsOn db i x) = pd_Events db"
  "pd_Receipts (markInterruptedPurgeExecutionsOn db i x) = pd_Receipts db"
  by (simp_all add: markInterruptedPurgeExecutionsOn_def gate_frame_def same_environment_def)

lemma mark_id_set:
  "px_ExecutionID ` set (pd_Executions (markInterruptedPurgeExecutionsOn db i x)) = px_ExecutionID ` set (pd_Executions db)"
  by (metis mark_ids list.set_map)

lemma gate_frame_trans: "gate_frame a b \<Longrightarrow> gate_frame b c \<Longrightarrow> gate_frame a c"
  by (simp add: gate_frame_def same_environment_def)

lemma executeIntent_ok:
  assumes r: "purgeRequestByIDOn db (ec_RequestID cmd) = Inr r"
    and key: "idempotencyRowOn db (pq_TenantID r) (ec_ExecutionID cmd) = None"
    and gates: "execute_gates db cmd r (purgeRequestScope r) who = Inr (obj, ec_ExpectedLifecycleHash cmd)"
    and fresh: "ec_ExecutionID cmd \<notin> px_ExecutionID ` set (pd_Executions db)" "ids 0 \<notin> le_EventID ` set (pd_Events db)"
    and ok: "ec_ExpectedLifecycleHash cmd \<noteq> ''''" "0 \<le> eo_Size obj" "disk (eo_RelPath obj) = Some bytes"
    and rcpt: "intent_receipt s (pd_Receipts db) cmd r who now = Inr (rs, rc)"
  shows "\<exists>db'. executeIntent s db disk cmd who now ids
        = (disk, Inr (Opened db' r (intent_row cmd r obj (ec_ExpectedLifecycleHash cmd) now who)))
     \<and> gate_frame db db' \<and> pd_Receipts db' = rs \<and> (\<exists>e. pd_Events db' = pd_Events db @ [e] \<and> le_EventID e = ids 0)
     \<and> pd_Executions db' = pd_Executions (markInterruptedPurgeExecutionsOn db (pq_RequestID r) (ec_ExecutionID cmd))
          @ [intent_row cmd r obj (ec_ExpectedLifecycleHash cmd) now who]"
proof -
  define h where "h = purgeCommandHash (executePurgeCommandShape cmd)"
  define k where "k = \<lparr>ik_TenantID = pq_TenantID r, ik_RequestID = ec_ExecutionID cmd, ik_CommandHash = h, ik_ActorBinding = p_SubjectID who,
     ik_EntityID = '''', ik_Result = None, ik_CreatedAt = now, ik_CompletedAt = ''''\<rparr>"
  define db1 where "db1 = db\<lparr>pd_Keys := pd_Keys db @ [k]\<rparr>"
  define db2 where "db2 = markInterruptedPurgeExecutionsOn db1 (pq_RequestID r) (ec_ExecutionID cmd)"
  have f1: "gate_frame db db1" by (simp add: gate_frame_def same_environment_def db1_def)
  have f2: "gate_frame db db2" using gate_frame_trans [OF f1] mark_frame(1) by (simp add: db2_def)
  have same: "pd_Executions db2 = pd_Executions (markInterruptedPurgeExecutionsOn db (pq_RequestID r) (ec_ExecutionID cmd))"
    "px_ExecutionID ` set (pd_Executions db2) = px_ExecutionID ` set (pd_Executions db)" "pd_Events db2 = pd_Events db" "pd_Receipts db2 = pd_Receipts db"
    by (simp_all add: db2_def mark_frame mark_id_set db1_def) (simp add: markInterruptedPurgeExecutionsOn_def)
  obtain db' where open_tx: "execute_open s db2 cmd r (purgeRequestScope r) obj (ec_ExpectedLifecycleHash cmd) who now (ids 0)
        = Inr (db', intent_row cmd r obj (ec_ExpectedLifecycleHash cmd) now who)"
    and db': "gate_frame db2 db'" "pd_Executions db' = pd_Executions db2 @ [intent_row cmd r obj (ec_ExpectedLifecycleHash cmd) now who]"
      "\<exists>e. pd_Events db' = pd_Events db2 @ [e] \<and> le_EventID e = ids 0" "pd_Receipts db' = rs"
    using execute_open_ok [of cmd db2 "ids 0" obj s r who now rs rc] fresh ok(1,2) rcpt same by auto
  have "reserveIdempotencyKey db (pq_TenantID r) (ec_ExecutionID cmd) h (p_SubjectID who) now = Inr db1"
    using key by (simp add: reserveIdempotencyKey_def db1_def k_def)
  moreover have "execute_gates db1 cmd r (purgeRequestScope r) who = Inr (obj, ec_ExpectedLifecycleHash cmd)"
    using execute_gates_frame [OF f1] gates by simp
  from execute_fresh_opens [where disk = disk, OF this ok(3), of s now ids]
  have "execute_fresh s db1 disk cmd r (purgeRequestScope r) who now ids
      = Inr (Opened db' r (intent_row cmd r obj (ec_ExpectedLifecycleHash cmd) now who))"
    using open_tx by (simp add: db2_def)
  moreover have "sc_OrganizationID (purgeRequestScope r) = pq_TenantID r" by (simp add: purgeRequestScope_def)
  ultimately have "executeIntent s db disk cmd who now ids
        = (disk, Inr (Opened db' r (intent_row cmd r obj (ec_ExpectedLifecycleHash cmd) now who)))"
    using r key by (simp add: executeIntent_def Let_def h_def)
  then show ?thesis using db' f2 gate_frame_trans same by (intro exI [of _ db']) auto
qed

text \<open>The gates of the two transactions, on the same tables.\<close>

lemma gates_hold:
  assumes "pq_Status r = PurgeRequestStatusApproved" and "evidenceObjectByIDOn db (pq_ObjectID r) = Some obj"
    and "bound_policy_gate db r (purgeRequestScope r) = Inr (policy, el)"
    and "currentPurgeSnapshotOn db (pq_ObjectID r) (purgeRequestScope r) (rp_BlockingHoldKinds policy) = Inr (cur, h)"
    and "ls_BlockingHolds cur = []"
  shows "authorizePurgeAct who (purgeRequestScope r) ActionExecutePurge (rp_Category policy) False '''' '''' = Inr ()
       \<Longrightarrow> h = ec_ExpectedLifecycleHash cmd \<Longrightarrow> execute_gates db cmd r (purgeRequestScope r) who = Inr (obj, h)"
    and "purgeRequestByIDOn db (px_RequestID e) = Inr r \<Longrightarrow> px_ObjectID e = pq_ObjectID r \<Longrightarrow> px_IntentReviewedHash e = h
       \<Longrightarrow> execution_gates db e = Inr (r, obj, cur)"
  using assms by (simp_all add: execute_gates_def execution_gates_def execute_status_gate_def snapshot_gate_def Let_def)

lemma ExecutePurge_commits:
  assumes valid: "AssertValidExecutePurgeCommand cmd = Inr ()" and r: "purgeRequestByIDOn db (ec_RequestID cmd) = Inr r"
    and key: "idempotencyRowOn db (pq_TenantID r) (ec_ExecutionID cmd) = None"
    and status: "pq_Status r = PurgeRequestStatusApproved" and obj: "evidenceObjectByIDOn db (pq_ObjectID r) = Some obj"
    and policy: "bound_policy_gate db r (purgeRequestScope r) = Inr (policy, el)"
    and cur: "currentPurgeSnapshotOn db (pq_ObjectID r) (purgeRequestScope r) (rp_BlockingHoldKinds policy) = Inr (cur, ec_ExpectedLifecycleHash cmd)"
    and holds: "ls_BlockingHolds cur = []"
    and auth: "authorizePurgeAct who (purgeRequestScope r) ActionExecutePurge (rp_Category policy) False '''' '''' = Inr ()"
    and keys: "distinct (map pq_RequestID (pd_Requests db))" "ec_ExecutionID cmd \<notin> px_ExecutionID ` set (pd_Executions db)"
    and ids: "ids 0 \<notin> le_EventID ` set (pd_Events db)" "ids 1 \<notin> le_EventID ` set (pd_Events db)" "ids 0 \<noteq> ids 1"
    and bytes: "disk (eo_RelPath obj) = Some bytes" "ComputeObjectID bytes = pq_ObjectID r" "int (length bytes) = eo_Size obj"
    and rcpt: "intent_receipt s (pd_Receipts db) cmd r who now = Inr (rs1, rc1)" "executed_receipt s rs1 cmd r cur who now = Inr (rs2, rc2)"
  shows "\<exists>db' v. ExecutePurge s \<lparr>w_DB = db, w_Disk = disk\<rparr> cmd who now ids = (\<lparr>w_DB = db', w_Disk = disk(eo_RelPath obj := None)\<rparr>, Inr v)
     \<and> er_Request v = r\<lparr>pq_Status := PurgeRequestStatusExecuted, pq_ExecutionID := ec_ExecutionID cmd\<rparr> \<and> \<not> er_Recovered v
     \<and> er_Execution v = (intent_row cmd r obj (ec_ExpectedLifecycleHash cmd) now who)\<lparr>px_State := PurgeExecutionCompleted, px_CompletedAt := now,
          px_CompletedBy := p_SubjectID who, px_CompletionReceiptID := (case rc2 of None \<Rightarrow> '''' | Some x \<Rightarrow> ReceiptHash x)\<rparr>
     \<and> pd_Objects db' = pd_Objects db \<and> pd_Receipts db' = rs2
     \<and> pd_Requests db' = map (\<lambda>x. if pq_RequestID x = pq_RequestID r then er_Request v else x) (pd_Requests db)
     \<and> pd_Executions db' = pd_Executions (markInterruptedPurgeExecutionsOn db (pq_RequestID r) (ec_ExecutionID cmd)) @ [er_Execution v]"
proof -
  define exec where "exec = intent_row cmd r obj (ec_ExpectedLifecycleHash cmd) now who"
  have ex: "px_RequestID exec = pq_RequestID r" "px_ObjectID exec = pq_ObjectID r" "px_IntentReviewedHash exec = ec_ExpectedLifecycleHash cmd"
      "px_ExecutionID exec = ec_ExecutionID cmd" "px_State exec = PurgeExecutionIntent"
    by (simp_all add: exec_def intent_row_def)
  have rid: "r \<in> set (pd_Requests db)" "pq_RequestID r = ec_RequestID cmd" using request_by_id_D [OF r] by simp_all
  have "ec_ExpectedLifecycleHash cmd \<noteq> ''''" using valid by (auto simp: AssertValidExecutePurgeCommand_def hash64_ok_def split: if_splits)
  moreover have "0 \<le> eo_Size obj" using bytes(3) by simp
  ultimately obtain db2 where intent: "executeIntent s db disk cmd who now ids = (disk, Inr (Opened db2 r exec))"
    and frame: "gate_frame db db2" and db2: "pd_Receipts db2 = rs1" "\<exists>e. pd_Events db2 = pd_Events db @ [e] \<and> le_EventID e = ids 0"
      "pd_Executions db2 = pd_Executions (markInterruptedPurgeExecutionsOn db (pq_RequestID r) (ec_ExecutionID cmd)) @ [exec]"
    using executeIntent_ok [where disk = disk and ids = ids, OF r key gates_hold(1) [OF status obj policy cur holds auth refl] keys(2) ids(1) _ _ bytes(1) rcpt(1)]
    unfolding exec_def [symmetric] by blast
  have "execution_gates db2 exec = Inr (r, obj, cur)"
    using gates_hold(2) [OF status _ _ _ holds, of db2 obj policy el "ec_ExpectedLifecycleHash cmd" exec] obj policy cur r rid ex
    by (simp add: gate_frame_reads [OF frame])
  moreover have "\<exists>db3 v. completeExecutionOn s db2 r (purgeRequestScope r) exec cur who (ec_Reason cmd) now (p_SubjectID who) (ids 1) False = Inr (db3, v)
     \<and> er_Request v = r\<lparr>pq_Status := PurgeRequestStatusExecuted, pq_ExecutionID := px_ExecutionID exec\<rparr>
     \<and> pd_Objects db3 = pd_Objects db2 \<and> pd_Receipts db3 = rs2
     \<and> pd_Requests db3 = map (\<lambda>x. if pq_RequestID x = pq_RequestID r then er_Request v else x) (pd_Requests db2)
     \<and> pd_Executions db3 = pd_Executions (markInterruptedPurgeExecutionsOn db (pq_RequestID r) (ec_ExecutionID cmd)) @ [er_Execution v]
     \<and> er_Execution v = exec\<lparr>px_State := PurgeExecutionCompleted, px_CompletedAt := now, px_CompletedBy := p_SubjectID who,
          px_CompletionReceiptID := (case rc2 of None \<Rightarrow> '''' | Some x \<Rightarrow> ReceiptHash x)\<rparr> \<and> er_Recovered v = False"
    by (rule completeExecutionOn_ok) (use db2 ids keys ex rid status frame rcpt(2) in \<open>auto simp: mark_id_set gate_frame_def\<close>)
  then obtain db3 v where c: "completeExecutionOn s db2 r (purgeRequestScope r) exec cur who (ec_Reason cmd) now (p_SubjectID who) (ids 1) False = Inr (db3, v)"
    and v: "er_Request v = r\<lparr>pq_Status := PurgeRequestStatusExecuted, pq_ExecutionID := px_ExecutionID exec\<rparr>" "\<not> er_Recovered v"
      "er_Execution v = exec\<lparr>px_State := PurgeExecutionCompleted, px_CompletedAt := now, px_CompletedBy := p_SubjectID who,
          px_CompletionReceiptID := (case rc2 of None \<Rightarrow> '''' | Some x \<Rightarrow> ReceiptHash x)\<rparr>"
    and db3: "pd_Objects db3 = pd_Objects db2" "pd_Receipts db3 = rs2"
      "pd_Requests db3 = map (\<lambda>x. if pq_RequestID x = pq_RequestID r then er_Request v else x) (pd_Requests db2)"
      "pd_Executions db3 = pd_Executions (markInterruptedPurgeExecutionsOn db (pq_RequestID r) (ec_ExecutionID cmd)) @ [er_Execution v]"
    by blast
  ultimately have "ExecutePurge s \<lparr>w_DB = db, w_Disk = disk\<rparr> cmd who now ids
      = (\<lparr>w_DB = completePurgeIdempotencyOn db3 (pq_TenantID r) (ec_ExecutionID cmd) (pq_RequestID r) (stored_execute v) now,
          w_Disk = disk(eo_RelPath obj := None)\<rparr>, Inr v)"
    using valid intent bytes c by (simp add: ExecutePurge_def executeAndCompleteOn_def removeObjectBytes_def)
  then show ?thesis using v db3 frame ex(4)
    by (intro exI [of _ "completePurgeIdempotencyOn db3 (pq_TenantID r) (ec_ExecutionID cmd) (pq_RequestID r) (stored_execute v) now"] exI [of _ v])
      (simp add: completePurgeIdempotencyOn_def gate_frame_def same_environment_def exec_def)
qed

text \<open>Reading the tables after the run.\<close>

lemma find_request_update:
  assumes "find (\<lambda>x. pq_RequestID x = i) xs = Some r" and "pq_RequestID r' = i"
  shows "find (\<lambda>x. pq_RequestID x = i) (map (\<lambda>x. if pq_RequestID x = pq_RequestID r then r' else x) xs) = Some r'"
proof -
  have i: "pq_RequestID r = i" using find_SomeD [OF assms(1)] by simp
  show ?thesis using assms by (simp add: i find_map_pred)
qed

lemma find_fresh_snoc: "f x \<notin> f ` set xs \<Longrightarrow> find (\<lambda>y. f y = f x) (xs @ [x]) = Some x"
  by (induction xs) auto

lemma mark_none_open:
  "filter (\<lambda>e. px_RequestID e = i \<and> px_State e = PurgeExecutionIntent \<and> px_ExecutionID e \<noteq> x)
     (pd_Executions (markInterruptedPurgeExecutionsOn db i x)) = []"
  by (simp add: markInterruptedPurgeExecutionsOn_def filter_map comp_def filter_empty_conv)

section \<open>Execution goes through\<close>

text \<open>The approved demo request is ready to be executed.\<close>

lemma demo_execute_gates:
  assumes env: "demo_env db" and reqs: "pd_Requests db = [approved_row]" and objs: "pd_Objects db = pd_Objects stored_db"
    and ss: "list_all (\<lambda>s. rt_PolicyID s = demo_id) (pd_States db)"
  shows "bound_policy_gate db approved_row (purgeRequestScope approved_row) = Inr (demo_policy, Eligible)"
    and "currentPurgeSnapshotOn db (pq_ObjectID approved_row) (purgeRequestScope approved_row) (rp_BlockingHoldKinds demo_policy)
       = Inr (demo_current db, ec_ExpectedLifecycleHash (demo_execute_cmd db))"
    and "ls_BlockingHolds (demo_current db) = []" and "AssertValidExecutePurgeCommand (demo_execute_cmd db) = Inr ()"
  using demo_snapshot [OF env] demo_bound_policy [OF env, of approved_row] ss
  by (simp_all add: demo_execute_cmd_def list_all_iff AssertValidExecutePurgeCommand_def demo_policy_def)

lemma demo_executable:
  obtains db where "purge_reach None \<lparr>w_DB = db, w_Disk = w_Disk stored_world\<rparr> []" "demo_env db" "pd_Requests db = [approved_row]"
    "pd_Objects db = pd_Objects stored_db" "list_all (\<lambda>s. rt_PolicyID s = demo_id) (pd_States db)" "pd_Executions db = []"
    "le_EventID ` set (pd_Events db) = {''e1'', ''e2'', ''e3''}"
    "idempotencyRowOn db (pq_TenantID approved_row) (ec_ExecutionID (demo_execute_cmd db)) = None"
proof -
  obtain db0 es ks ss a es' ks' ss' v0 where db0: "db0 = stored_db\<lparr>pd_Requests := [demo_row], pd_Events := es, pd_States := ss, pd_Keys := ks\<rparr>"
    and i: "map le_EventID es' = [''e1'', ''e2'', ''e3'']" "map ik_RequestID ks' = [''k1'', ''k2'']" "list_all (\<lambda>s. rt_PolicyID s = demo_id) ss'"
    and r: "purge_reach None (stored_world\<lparr>w_DB := db0\<lparr>pd_Approvals := [a], pd_Requests := [approved_row], pd_Events := es', pd_States := ss', pd_Keys := ks'\<rparr>\<rparr>) []"
    by (rule demo_approved)
  define db where "db = db0\<lparr>pd_Approvals := [a], pd_Requests := [approved_row], pd_Events := es', pd_States := ss', pd_Keys := ks'\<rparr>"
  have db: "demo_env db" "pd_Requests db = [approved_row]" "pd_Objects db = pd_Objects stored_db" "list_all (\<lambda>s. rt_PolicyID s = demo_id) (pd_States db)"
      "pd_Executions db = []" "pd_Events db = es'" "pd_Keys db = ks'"
    using i(3) stored_env by (simp_all add: db_def db0 demo_env_def)
  have es: "le_EventID ` set es' = {''e1'', ''e2'', ''e3''}" and ks: "ik_RequestID ` set ks' = {''k1'', ''k2''}"
    using i(1,2) by (metis list.set_map list.simps(15) empty_set)+
  have "demo_id \<notin> ik_RequestID ` set ks'" by (auto simp: ks demo_id_def numeral_eq_Suc)
  then have "find (\<lambda>k. ik_TenantID k = ''o'' \<and> ik_RequestID k = demo_id) ks' = None" by (force simp: find_None_iff)
  then have key: "idempotencyRowOn db (pq_TenantID approved_row) (ec_ExecutionID (demo_execute_cmd db)) = None"
    by (simp add: idempotencyRowOn_def db demo_execute_cmd_def)
  have reach: "purge_reach None \<lparr>w_DB = db, w_Disk = w_Disk stored_world\<rparr> []" using r by (simp add: db_def stored_world_def)
  show thesis by (rule that [OF reach db(1-5) _ key]) (simp add: db es)
qed

lemma demo_executed:
  obtains db w' v where "ExecutePurge None \<lparr>w_DB = db, w_Disk = w_Disk stored_world\<rparr> (demo_execute_cmd db) (actor ''carol'') demo_time
      (ids_of [''e4'', ''e5'']) = (w', Inr v)" "\<not> er_Recovered v"
    "w_Disk w' (ObjectRelPath demo_object) = None" "pq_Status (er_Request v) = PurgeRequestStatusExecuted"
proof -
  obtain db where db: "demo_env db" "pd_Requests db = [approved_row]" "pd_Objects db = pd_Objects stored_db"
      "list_all (\<lambda>s. rt_PolicyID s = demo_id) (pd_States db)" "pd_Executions db = []" "le_EventID ` set (pd_Events db) = {''e1'', ''e2'', ''e3''}"
    and key: "idempotencyRowOn db (pq_TenantID approved_row) (ec_ExecutionID (demo_execute_cmd db)) = None"
    by (rule demo_executable)
  note g = demo_execute_gates [OF db(1-4)]
  have "\<exists>db' v. ExecutePurge None \<lparr>w_DB = db, w_Disk = w_Disk stored_world\<rparr> (demo_execute_cmd db) (actor ''carol'') demo_time (ids_of [''e4'', ''e5''])
       = (\<lparr>w_DB = db', w_Disk = (w_Disk stored_world)(eo_RelPath (object_row demo_input demo_time) := None)\<rparr>, Inr v)
     \<and> er_Request v = approved_row\<lparr>pq_Status := PurgeRequestStatusExecuted, pq_ExecutionID := ec_ExecutionID (demo_execute_cmd db)\<rparr> \<and> \<not> er_Recovered v"
    using ExecutePurge_commits [where who = "actor ''carol''" and ids = "ids_of [''e4'', ''e5'']" and disk = "w_Disk stored_world" and s = None
          and obj = "object_row demo_input demo_time" and bytes = demo_bytes and now = demo_time and ?rs1.0 = "pd_Receipts db" and ?rc1.0 = None
          and ?rs2.0 = "pd_Receipts db" and ?rc2.0 = None, OF g(4) _ key _ _ g(1,2,3)]
      demo_authorized [of ActionExecutePurge "''''" "''carol''"]
    by (auto simp: db ids_of_def purgeRequestByIDOn_def demo_execute_cmd_def stored_world_def demo_input_def)
  then obtain db' v where "ExecutePurge None \<lparr>w_DB = db, w_Disk = w_Disk stored_world\<rparr> (demo_execute_cmd db) (actor ''carol'') demo_time (ids_of [''e4'', ''e5''])
       = (\<lparr>w_DB = db', w_Disk = (w_Disk stored_world)(eo_RelPath (object_row demo_input demo_time) := None)\<rparr>, Inr v)"
     "er_Request v = approved_row\<lparr>pq_Status := PurgeRequestStatusExecuted, pq_ExecutionID := ec_ExecutionID (demo_execute_cmd db)\<rparr>" "\<not> er_Recovered v"
    by blast
  then show thesis by (intro that [of db _ v]) (auto simp: demo_input_def)
qed

text \<open>
  C22: When an approved request passes the gates of ExecutePurge (its policy resolves and is
  eligible, no blocking hold, the reviewed lifecycle hash is the current one, the actor is
  authorized), the command has a fresh key, execution id and event ids, the stored bytes are intact
  and the signer, if the store has one, issues the receipts of the two transactions, the command
  succeeds in one call, whether or not an earlier attempt was left open: the bytes are removed, the
  request is executed, its attempt completed under the second receipt, no other attempt of the
  request stays open, and the byte verifier reports the absence as an expected one.
\<close>

theorem execute_succeeds:
  assumes valid: "AssertValidExecutePurgeCommand cmd = Inr ()" and r: "purgeRequestByIDOn db (ec_RequestID cmd) = Inr r"
    and key: "idempotencyRowOn db (pq_TenantID r) (ec_ExecutionID cmd) = None"
    and status: "pq_Status r = PurgeRequestStatusApproved" and obj: "evidenceObjectByIDOn db (pq_ObjectID r) = Some obj"
    and policy: "bound_policy_gate db r (purgeRequestScope r) = Inr (policy, el)"
    and cur: "currentPurgeSnapshotOn db (pq_ObjectID r) (purgeRequestScope r) (rp_BlockingHoldKinds policy) = Inr (cur, ec_ExpectedLifecycleHash cmd)"
    and holds: "ls_BlockingHolds cur = []"
    and auth: "authorizePurgeAct who (purgeRequestScope r) ActionExecutePurge (rp_Category policy) False '''' '''' = Inr ()"
    and keys: "distinct (map pq_RequestID (pd_Requests db))" "ec_ExecutionID cmd \<notin> px_ExecutionID ` set (pd_Executions db)"
    and ids: "ids 0 \<notin> le_EventID ` set (pd_Events db)" "ids 1 \<notin> le_EventID ` set (pd_Events db)" "ids 0 \<noteq> ids 1"
    and bytes: "disk (eo_RelPath obj) = Some bytes" "ComputeObjectID bytes = pq_ObjectID r" "int (length bytes) = eo_Size obj"
    and rcpt: "intent_receipt s (pd_Receipts db) cmd r who now = Inr (rs1, rc1)" "executed_receipt s rs1 cmd r cur who now = Inr (rs2, rc2)"
  shows "\<exists>w' v. ExecutePurge s \<lparr>w_DB = db, w_Disk = disk\<rparr> cmd who now ids = (w', Inr v)
     \<and> w_Disk w' = disk(eo_RelPath obj := None) \<and> pd_Receipts (w_DB w') = rs2
     \<and> purgeRequestByIDOn (w_DB w') (ec_RequestID cmd) = Inr (er_Request v) \<and> pq_Status (er_Request v) = PurgeRequestStatusExecuted
     \<and> purgeExecutionOn (w_DB w') (ec_ExecutionID cmd) = Some (er_Execution v) \<and> px_State (er_Execution v) = PurgeExecutionCompleted
     \<and> px_CompletionReceiptID (er_Execution v) = (case rc2 of None \<Rightarrow> '''' | Some x \<Rightarrow> ReceiptHash x)
     \<and> purgeIntentExecutionForRequestOn (w_DB w') (pq_RequestID r) (ec_ExecutionID cmd) = None
     \<and> VerifyObjectBytes w' (pq_ObjectID r) = Inl (PlainErr ''OBJECT_PURGED_EXPECTED_ABSENCE'')"
proof -
  let ?mark = "pd_Executions (markInterruptedPurgeExecutionsOn db (pq_RequestID r) (ec_ExecutionID cmd))"
  obtain db' v where run: "ExecutePurge s \<lparr>w_DB = db, w_Disk = disk\<rparr> cmd who now ids = (\<lparr>w_DB = db', w_Disk = disk(eo_RelPath obj := None)\<rparr>, Inr v)"
    and v: "er_Request v = r\<lparr>pq_Status := PurgeRequestStatusExecuted, pq_ExecutionID := ec_ExecutionID cmd\<rparr>"
      "er_Execution v = (intent_row cmd r obj (ec_ExpectedLifecycleHash cmd) now who)\<lparr>px_State := PurgeExecutionCompleted, px_CompletedAt := now,
          px_CompletedBy := p_SubjectID who, px_CompletionReceiptID := (case rc2 of None \<Rightarrow> '''' | Some x \<Rightarrow> ReceiptHash x)\<rparr>"
    and db': "pd_Objects db' = pd_Objects db" "pd_Receipts db' = rs2" "pd_Executions db' = ?mark @ [er_Execution v]"
      "pd_Requests db' = map (\<lambda>x. if pq_RequestID x = pq_RequestID r then er_Request v else x) (pd_Requests db)"
    using ExecutePurge_commits [where s = s and disk = disk and ids = ids, OF assms] by blast
  have 1: "purgeRequestByIDOn db' (ec_RequestID cmd) = Inr (er_Request v)"
    using r find_request_update [of "ec_RequestID cmd" "pd_Requests db" r "er_Request v"] v(1) request_by_id_D [OF r]
    by (simp add: purgeRequestByIDOn_def db'(4) from_option_eq_Inr)
  have 2: "purgeExecutionOn db' (ec_ExecutionID cmd) = Some (er_Execution v)"
    using find_fresh_snoc [of px_ExecutionID "er_Execution v" ?mark] keys(2) mark_id_set [of db]
    by (simp add: purgeExecutionOn_def db'(3) v(2) intent_row_def)
  have 3: "purgeIntentExecutionForRequestOn db' (pq_RequestID r) (ec_ExecutionID cmd) = None"
    using mark_none_open [of "pq_RequestID r" "ec_ExecutionID cmd" db] db'(3) v(2) by (simp add: purgeIntentExecutionForRequestOn_def intent_row_def)
  have "evidenceObjectByIDOn db' (pq_ObjectID r) = Some obj" "eo_ObjectID obj = pq_ObjectID r"
    using obj object_by_id_D [OF obj] db'(1) by (simp_all add: evidenceObjectByIDOn_def)
  moreover from this have "authorizedPurgeAbsenceOn db' (pq_ObjectID r) (eo_Size obj)"
    using v(2) by (simp add: authorizedPurgeAbsenceOn_def db'(3) intent_row_def)
  ultimately have 4: "VerifyObjectBytes \<lparr>w_DB = db', w_Disk = disk(eo_RelPath obj := None)\<rparr> (pq_ObjectID r)
      = Inl (PlainErr ''OBJECT_PURGED_EXPECTED_ABSENCE'')"
    by (simp add: VerifyObjectBytes_def)
  show ?thesis using run 1 2 3 4 v db'(2)
    by (intro exI [of _ "\<lparr>w_DB = db', w_Disk = disk(eo_RelPath obj := None)\<rparr>"] exI [of _ v]) simp
qed

theorem execute_succeeds_witness:
  "\<exists>w w' v cmd. purge_reach None w [] \<and> ExecutePurge None w cmd (actor ''carol'') demo_time (ids_of [''e4'', ''e5'']) = (w', Inr v)
     \<and> w_Disk w (ObjectRelPath demo_object) = Some demo_bytes \<and> w_Disk w' (ObjectRelPath demo_object) = None
     \<and> pq_Status (er_Request v) = PurgeRequestStatusExecuted"
proof -
  obtain db where reach: "purge_reach None \<lparr>w_DB = db, w_Disk = w_Disk stored_world\<rparr> []"
    and db: "demo_env db" "pd_Requests db = [approved_row]" "pd_Objects db = pd_Objects stored_db"
      "list_all (\<lambda>s. rt_PolicyID s = demo_id) (pd_States db)" "pd_Executions db = []" "le_EventID ` set (pd_Events db) = {''e1'', ''e2'', ''e3''}"
    and key: "idempotencyRowOn db (pq_TenantID approved_row) (ec_ExecutionID (demo_execute_cmd db)) = None"
    by (rule demo_executable)
  note g = demo_execute_gates [OF db(1-4)]
  have "\<exists>w' v. ExecutePurge None \<lparr>w_DB = db, w_Disk = w_Disk stored_world\<rparr> (demo_execute_cmd db) (actor ''carol'') demo_time (ids_of [''e4'', ''e5'']) = (w', Inr v)
     \<and> w_Disk w' = (w_Disk stored_world)(eo_RelPath (object_row demo_input demo_time) := None) \<and> pq_Status (er_Request v) = PurgeRequestStatusExecuted"
    using execute_succeeds [where who = "actor ''carol''" and ids = "ids_of [''e4'', ''e5'']" and disk = "w_Disk stored_world" and s = None
          and obj = "object_row demo_input demo_time" and bytes = demo_bytes and now = demo_time and ?rs1.0 = "pd_Receipts db" and ?rc1.0 = None
          and ?rs2.0 = "pd_Receipts db" and ?rc2.0 = None, OF g(4) _ key _ _ g(1,2,3)]
      demo_authorized [of ActionExecutePurge "''''" "''carol''"]
    by (auto simp: db ids_of_def purgeRequestByIDOn_def demo_execute_cmd_def stored_world_def demo_input_def)
  then obtain w' v where "ExecutePurge None \<lparr>w_DB = db, w_Disk = w_Disk stored_world\<rparr> (demo_execute_cmd db) (actor ''carol'') demo_time (ids_of [''e4'', ''e5'']) = (w', Inr v)"
    "w_Disk w' = (w_Disk stored_world)(ObjectRelPath demo_object := None)" "pq_Status (er_Request v) = PurgeRequestStatusExecuted"
    by (auto simp: demo_input_def)
  then show ?thesis using reach
    by (intro exI [of _ "\<lparr>w_DB = db, w_Disk = w_Disk stored_world\<rparr>"] exI [of _ w'] exI [of _ v] exI [of _ "demo_execute_cmd db"])
      (simp add: stored_world_def)
qed

end
