(* ===== verification/Purge_Retry.thy ===== *)
theory Purge_Retry
  imports Purge_Liveness
begin

text \<open>
  Idempotency of the purge handlers: a retry replays the outcome its key recorded and changes
  nothing, a key reused for another command or by another actor conflicts; where two commands have
  the same shape, one replays the other's outcome.
\<close>

section \<open>Idempotent retries\<close>

lemma rows_evolve_find:
  assumes "rows_evolve R xs ys" and "\<And>x y. R x y \<Longrightarrow> P y = P x" and "find P xs = Some x"
  obtains y where "find P ys = Some y" "R x y"
proof -
  obtain us vs where ys: "ys = us @ vs" and us: "list_all2 R xs us" using assms(1) by (auto simp: rows_evolve_def)
  have "\<exists>y. find P (us @ vs) = Some y \<and> R x y"
    using us assms(2,3) by (induction rule: list_all2_induct) (auto split: if_splits)
  then show thesis using that ys by blast
qed

text \<open>
  The interface of an idempotent act: when it succeeds, the outcome it returned is the one its key
  replays from then on.
\<close>

locale idempotent_act =
  fixes act :: "PurgeDB \<Rightarrow> (PurgeDB \<times> 'r) result"
    and decode :: "StoredResult \<Rightarrow> 'r"
    and replayed :: "'r \<Rightarrow> 'r"
    and entity :: "'r \<Rightarrow> string"
    and tenant :: string and key :: string and hash :: string and actor :: string
  assumes outcome_recorded: "act db = Inr (db', v) \<Longrightarrow> entity v \<noteq> ''''
      \<Longrightarrow> \<exists>stored. replayPurgeIdempotencyOn db' tenant key hash actor = Inr (Some stored) \<and> decode stored = replayed v"
    and replayed_decode: "replayed (decode stored) = decode stored"
begin

lemma outcome_replays:
  assumes "with_idempotency db tenant key hash actor decode (act db) = Inr (db', v)" and "entity v \<noteq> ''''"
  shows "\<exists>stored. replayPurgeIdempotencyOn db' tenant key hash actor = Inr (Some stored) \<and> decode stored = replayed v"
  using assms(1) [unfolded with_idempotency_Inr]
proof (elim disjE exE conjE)
  fix stored assume "replayPurgeIdempotencyOn db tenant key hash actor = Inr (Some stored)" "(db', v) = (db, decode stored)"
  then show ?thesis using replayed_decode by auto
next
  assume "act db = Inr (db', v)"
  then show ?thesis using outcome_recorded assms(2) by blast
qed

lemma retry_replays:
  assumes "with_idempotency db tenant key hash actor decode (act db) = Inr (db', v)" and "entity v \<noteq> ''''"
  shows "with_idempotency db' tenant key hash actor decode again = Inr (db', replayed v)"
  using outcome_replays [OF assms] by (auto simp: with_idempotency_def)

lemma other_command_conflicts:
  assumes "with_idempotency db tenant key hash actor decode (act db) = Inr (db', v)" and "entity v \<noteq> ''''"
    and "h \<noteq> hash \<or> a \<noteq> actor"
  shows "with_idempotency db' tenant key h a dec again = Inl (AuthErr ''IDEMPOTENCY_CONFLICT'')"
  using outcome_replays [OF assms(1,2)] assms(3)
  by (auto simp: with_idempotency_def replayPurgeIdempotencyOn_def split: option.splits if_splits)

end

text \<open>A key row that is completed, at once or after further writes, replays the outcome it was completed with.\<close>

lemma completed_row_replays:
  assumes "idempotencyRowOn db1 t k = Some row" and "ik_CommandHash row = h" and "ik_ActorBinding row = a"
    and "db_evolves db1 db2" and "i \<noteq> ''''"
  shows "replayPurgeIdempotencyOn (completePurgeIdempotencyOn db2 t k i v now') t k h a = Inr (Some v)"
proof -
  let ?P = "\<lambda>x. ik_TenantID x = t \<and> ik_RequestID x = k"
  have row: "find ?P (pd_Keys db1) = Some row" using assms(1) by (simp add: idempotencyRowOn_def)
  have "rows_evolve key_evolves (pd_Keys db1) (pd_Keys db2)" using assms(4) by (simp add: db_evolves_def ledgers_evolve_def)
  then obtain row' where "find ?P (pd_Keys db2) = Some row'" "key_evolves row row'"
    by (rule rows_evolve_find [OF _ _ row]) (auto simp: key_evolves_def)
  moreover have "find ?P (map (\<lambda>x. if ?P x then f x else x) xs) = map_option f (find ?P xs)"
    if "\<And>x. ?P (f x) = ?P x" for f :: "IdempotencyRow \<Rightarrow> IdempotencyRow" and xs
    using that by (induction xs) auto
  ultimately show ?thesis using assms(2,3,5)
    by (simp add: replayPurgeIdempotencyOn_def idempotencyRowOn_def completePurgeIdempotencyOn_def key_evolves_def)
qed

lemma completed_key_replays:
  assumes "reserveIdempotencyKey db t k h a now = Inr db1" and "db_evolves db1 db2" and "i \<noteq> ''''"
  shows "replayPurgeIdempotencyOn (completePurgeIdempotencyOn db2 t k i v now') t k h a = Inr (Some v)"
proof -
  have "\<exists>row. idempotencyRowOn db1 t k = Some row \<and> ik_CommandHash row = h \<and> ik_ActorBinding row = a"
    using assms(1) by (force simp: reserveIdempotencyKey_def idempotencyRowOn_def find_append split: if_splits option.splits)
  then show ?thesis using completed_row_replays assms(2,3) by blast
qed

lemma request_act_recorded:
  assumes "request_act s db cmd scope who now ids = Inr (db', v)" and "pq_RequestID (qr_Request v) \<noteq> ''''"
  shows "\<exists>stored. replayPurgeIdempotencyOn db' (sc_OrganizationID scope) (rc_RequestID cmd)
       (purgeCommandHash (requestPurgeCommandShape cmd)) (p_SubjectID who) = Inr (Some stored)
     \<and> \<lparr>qr_Request = decode_request stored, qr_Created = False, qr_IdempotentReplay = True\<rparr>
         = v\<lparr>qr_Created := False, qr_IdempotentReplay := True\<rparr>"
proof -
  obtain db1 policy el cur h db2 r db3 db4 where
    k: "reserveIdempotencyKey db (sc_OrganizationID scope) (rc_RequestID cmd)
          (purgeCommandHash (requestPurgeCommandShape cmd)) (p_SubjectID who) now = Inr db1"
    and row: "request_row db1 cmd scope who policy el now (ids 0) = Inr (db2, r)"
    and b: "request_binding s db2 cmd scope who policy el cur r now (ids 1) = Inr db3"
    and rec: "request_record s db3 cmd scope who policy el cur h r now (ids 2) = Inr db4"
    and db': "db' = completePurgeIdempotencyOn db4 (sc_OrganizationID scope) (rc_RequestID cmd) (pq_RequestID r) (stored_request r) now"
    and v: "v = \<lparr>qr_Request = r, qr_Created = True, qr_IdempotentReplay = False\<rparr>"
    using assms(1) unfolding request_act_Inr by blast
  have "db_evolves db1 db4"
    using request_row_evolves [OF row] request_binding_evolves [OF b] request_record_evolves [OF rec] by (meson db_evolves_trans)
  then show ?thesis using completed_key_replays [OF k] assms(2)
    by (simp add: db' v decode_request_def stored_request_def or_zero_def)
qed

interpretation request_retry: idempotent_act "\<lambda>db. request_act s db cmd scope who now ids"
    "\<lambda>stored. \<lparr>qr_Request = decode_request stored, qr_Created = False, qr_IdempotentReplay = True\<rparr>"
    "\<lambda>v. v\<lparr>qr_Created := False, qr_IdempotentReplay := True\<rparr>" "\<lambda>v. pq_RequestID (qr_Request v)"
    "sc_OrganizationID scope" "rc_RequestID cmd" "purgeCommandHash (requestPurgeCommandShape cmd)" "p_SubjectID who"
  for s cmd scope who now ids
  by unfold_locales (simp_all add: request_act_recorded)

lemma approve_act_recorded:
  assumes "approve_act s db cmd r who now ids = Inr (db', v)" and "pq_RequestID r \<noteq> ''''"
  shows "\<exists>stored. replayPurgeIdempotencyOn db' (pq_TenantID r) (ac_RequestIDKey cmd)
       (purgeCommandHash (approvePurgeCommandShape cmd)) (p_SubjectID who) = Inr (Some stored)
     \<and> (decode_approve stored)\<lparr>av_IdempotentReplay := True\<rparr> = v\<lparr>av_IdempotentReplay := True\<rparr>"
  using assms completed_key_replays [OF _ _ assms(2)] unfolding approve_act_Inr
  by (force simp: decode_approve_def stored_approve_def or_zero_def dest!: approve_record_evolves)

interpretation approve_retry: idempotent_act "\<lambda>db. approve_act s db cmd r who now ids"
    "\<lambda>stored. (decode_approve stored)\<lparr>av_IdempotentReplay := True\<rparr>" "\<lambda>v. v\<lparr>av_IdempotentReplay := True\<rparr>" "\<lambda>v. pq_RequestID r"
    "pq_TenantID r" "ac_RequestIDKey cmd" "purgeCommandHash (approvePurgeCommandShape cmd)" "p_SubjectID who"
  for s cmd r who now ids
  by unfold_locales (simp_all add: approve_act_recorded)

text \<open>The closing acts share one body, so one lemma gives all three.\<close>

lemma close_recorded:
  assumes "closePurgeTransition s db r scope key hash a now who kinds authz gate tr = Inr (db', r', d)"
    and "pq_RequestID r \<noteq> ''''"
  shows "replayPurgeIdempotencyOn (completePurgeIdempotencyOn db' (pq_TenantID r) key (pq_RequestID r) v now)
     (pq_TenantID r) key hash a = Inr (Some v)"
  using assms(1) unfolding closePurgeTransition_Inr
  by (elim exE conjE) (rule completed_key_replays [OF _ close_record_evolves assms(2)])

lemma decode_close_stored: "(decode_close (stored_close v))\<lparr>xr_IdempotentReplay := True\<rparr> = v\<lparr>xr_IdempotentReplay := True\<rparr>"
  by (simp add: decode_close_def stored_close_def or_zero_def)

lemma decode_cancel_stored: "(decode_cancel (stored_cancel v))\<lparr>cr_IdempotentReplay := True\<rparr> = v\<lparr>cr_IdempotentReplay := True\<rparr>"
  by (simp add: decode_cancel_def stored_cancel_def or_zero_def)

lemma reject_act_Inr:
  "reject_act s db cmd r who now ids = Inr (db', v) \<Longrightarrow>
     \<exists>policy authz db2 r' d. retentionPolicyByIDOn db (pq_PolicyID r) = Some policy
       \<and> closePurgeTransition s db r (purgeRequestScope r) (xc_RequestIDKey cmd) (purgeCommandHash (rejectPurgeCommandShape cmd)) (p_SubjectID who) now who
           (rp_BlockingHoldKinds policy) authz reject_gate (reject_transition (purgeRequestScope r) who (approvalIDsOn db (pq_RequestID r)) (xc_Reason cmd) now ids) = Inr (db2, r', d)
       \<and> v = \<lparr>xr_Request = r', xr_Approval = or_zero zero_approval d, xr_IdempotentReplay = False\<rparr>
       \<and> db' = completePurgeIdempotencyOn db2 (pq_TenantID r) (xc_RequestIDKey cmd) (pq_RequestID r) (stored_close v) now"
  unfolding reject_act_def Let_def guard_simps split_paired_Ex prod.case unfolding sum.inject prod.inject
  by (elim exE conjE) (intro exI conjI, assumption+, rule sym, assumption, hypsubst, rule refl)

interpretation reject_retry: idempotent_act "\<lambda>db. reject_act s db cmd r who now ids"
    "\<lambda>stored. (decode_close stored)\<lparr>xr_IdempotentReplay := True\<rparr>" "\<lambda>v. v\<lparr>xr_IdempotentReplay := True\<rparr>" "\<lambda>v. pq_RequestID r"
    "pq_TenantID r" "xc_RequestIDKey cmd" "purgeCommandHash (rejectPurgeCommandShape cmd)" "p_SubjectID who"
  for s cmd r who now ids
proof
  fix db db' v assume "reject_act s db cmd r who now ids = Inr (db', v)" and "pq_RequestID r \<noteq> ''''"
  then show "\<exists>stored. replayPurgeIdempotencyOn db' (pq_TenantID r) (xc_RequestIDKey cmd)
       (purgeCommandHash (rejectPurgeCommandShape cmd)) (p_SubjectID who) = Inr (Some stored)
     \<and> (decode_close stored)\<lparr>xr_IdempotentReplay := True\<rparr> = v\<lparr>xr_IdempotentReplay := True\<rparr>"
    using reject_act_Inr close_recorded decode_close_stored by metis
qed simp

lemma cancel_act_Inr:
  "cancel_act s db cmd r who now ids = Inr (db', v) \<Longrightarrow>
     \<exists>policy authz db2 r' d. retentionPolicyByIDOn db (pq_PolicyID r) = Some policy
       \<and> closePurgeTransition s db r (purgeRequestScope r) (cn_RequestIDKey cmd) (purgeCommandHash (cancelPurgeCommandShape cmd)) (p_SubjectID who) now who
           (rp_BlockingHoldKinds policy) authz cancel_gate (cancel_transition (purgeRequestScope r) who (approvalIDsOn db (pq_RequestID r)) now ids) = Inr (db2, r', d)
       \<and> v = \<lparr>cr_Request = r', cr_IdempotentReplay = False\<rparr>
       \<and> db' = completePurgeIdempotencyOn db2 (pq_TenantID r) (cn_RequestIDKey cmd) (pq_RequestID r) (stored_cancel v) now"
  unfolding cancel_act_def Let_def guard_simps split_paired_Ex prod.case unfolding sum.inject prod.inject
  by (elim exE conjE) (intro exI conjI, assumption+, rule sym, assumption, hypsubst, rule refl)

interpretation cancel_retry: idempotent_act "\<lambda>db. cancel_act s db cmd r who now ids"
    "\<lambda>stored. (decode_cancel stored)\<lparr>cr_IdempotentReplay := True\<rparr>" "\<lambda>v. v\<lparr>cr_IdempotentReplay := True\<rparr>" "\<lambda>v. pq_RequestID r"
    "pq_TenantID r" "cn_RequestIDKey cmd" "purgeCommandHash (cancelPurgeCommandShape cmd)" "p_SubjectID who"
  for s cmd r who now ids
proof
  fix db db' v assume "cancel_act s db cmd r who now ids = Inr (db', v)" and "pq_RequestID r \<noteq> ''''"
  then show "\<exists>stored. replayPurgeIdempotencyOn db' (pq_TenantID r) (cn_RequestIDKey cmd)
       (purgeCommandHash (cancelPurgeCommandShape cmd)) (p_SubjectID who) = Inr (Some stored)
     \<and> (decode_cancel stored)\<lparr>cr_IdempotentReplay := True\<rparr> = v\<lparr>cr_IdempotentReplay := True\<rparr>"
    using cancel_act_Inr close_recorded decode_cancel_stored by metis
qed simp

lemma withdraw_act_Inr:
  "withdraw_act s db cmd r who now ids = Inr (db', v) \<Longrightarrow>
     \<exists>policy authz db2 r' d. retentionPolicyByIDOn db (pq_PolicyID r) = Some policy
       \<and> closePurgeTransition s db r (purgeRequestScope r) (xc_RequestIDKey cmd) (purgeCommandHash (withdrawPurgeCommandShape cmd)) (p_SubjectID who) now who
           (rp_BlockingHoldKinds policy) authz withdraw_gate (withdraw_transition (purgeRequestScope r) who (approvalIDsOn db (pq_RequestID r)) (xc_Reason cmd) now ids) = Inr (db2, r', d)
       \<and> v = \<lparr>xr_Request = r', xr_Approval = or_zero zero_approval d, xr_IdempotentReplay = False\<rparr>
       \<and> db' = completePurgeIdempotencyOn db2 (pq_TenantID r) (xc_RequestIDKey cmd) (pq_RequestID r) (stored_close v) now"
  unfolding withdraw_act_def Let_def guard_simps split_paired_Ex prod.case unfolding sum.inject prod.inject
  by (elim exE conjE) (intro exI conjI, assumption+, rule sym, assumption, hypsubst, rule refl)

interpretation withdraw_retry: idempotent_act "\<lambda>db. withdraw_act s db cmd r who now ids"
    "\<lambda>stored. (decode_close stored)\<lparr>xr_IdempotentReplay := True\<rparr>" "\<lambda>v. v\<lparr>xr_IdempotentReplay := True\<rparr>" "\<lambda>v. pq_RequestID r"
    "pq_TenantID r" "xc_RequestIDKey cmd" "purgeCommandHash (withdrawPurgeCommandShape cmd)" "p_SubjectID who"
  for s cmd r who now ids
proof
  fix db db' v assume "withdraw_act s db cmd r who now ids = Inr (db', v)" and "pq_RequestID r \<noteq> ''''"
  then show "\<exists>stored. replayPurgeIdempotencyOn db' (pq_TenantID r) (xc_RequestIDKey cmd)
       (purgeCommandHash (withdrawPurgeCommandShape cmd)) (p_SubjectID who) = Inr (Some stored)
     \<and> (decode_close stored)\<lparr>xr_IdempotentReplay := True\<rparr> = v\<lparr>xr_IdempotentReplay := True\<rparr>"
    using withdraw_act_Inr close_recorded decode_close_stored by metis
qed simp

section \<open>Retried handlers\<close>

lemma request_kept:
  assumes "db_evolves db db'" and "purgeRequestByIDOn db i = Inr r"
  obtains r' where "purgeRequestByIDOn db' i = Inr r'" "pq_TenantID r' = pq_TenantID r"
    "evidenceObjectByIDOn db' (pq_ObjectID r') = evidenceObjectByIDOn db (pq_ObjectID r)"
proof -
  let ?P = "\<lambda>r. pq_RequestID r = i"
  have f: "find ?P (pd_Requests db) = Some r" using assms(2) by (simp add: purgeRequestByIDOn_def guard_simps)
  have ev: "rows_evolve request_evolves (pd_Requests db) (pd_Requests db')"
    using assms(1) by (simp add: db_evolves_def ledgers_evolve_def)
  obtain r' where "find ?P (pd_Requests db') = Some r'" "request_evolves r r'"
    by (rule rows_evolve_find [OF ev _ f]) (auto simp: request_evolves_def)
  moreover from this have "sc_OrganizationID (purgeRequestScope r') = sc_OrganizationID (purgeRequestScope r)"
    by (simp add: request_evolves_def)
  then have "pq_TenantID r' = pq_TenantID r" by (simp add: purgeRequestScope_def)
  moreover have "pq_ObjectID r' = pq_ObjectID r" using \<open>request_evolves r r'\<close> by (simp add: request_evolves_def)
  moreover have "pd_Objects db' = pd_Objects db" using assms(1) by (simp add: db_evolves_def same_environment_def)
  ultimately show thesis
    by (intro that [of r']) (simp_all add: purgeRequestByIDOn_def evidenceObjectByIDOn_def)
qed

lemma pattern_nonempty: "policyIDPattern i \<Longrightarrow> i \<noteq> ''''"
  by (auto simp: policyIDPattern_def)

lemma RequestPurge_retry:
  assumes "RequestPurge s db cmd who now ids = Inr (db', v)" and "pq_RequestID (qr_Request v) \<noteq> ''''"
  shows "RequestPurge s db' cmd who now' ids' = Inr (db', v\<lparr>qr_Created := False, qr_IdempotentReplay := True\<rparr>)"
proof -
  have "evidenceObjectByIDOn db' = evidenceObjectByIDOn db"
    using RequestPurge_evolves [OF assms(1)] by (simp add: db_evolves_def same_environment_def evidenceObjectByIDOn_def fun_eq_iff)
  moreover obtain obj where "AssertValidRequestPurgeCommand cmd = Inr ()" "evidenceObjectByIDOn db (rc_ObjectID cmd) = Some obj"
    and run: "with_idempotency db (sc_OrganizationID (company_scope (eo_TenantID obj) (eo_CompanyID obj) (eo_RUC obj) (eo_Period obj)))
        (rc_RequestID cmd) (purgeCommandHash (requestPurgeCommandShape cmd)) (p_SubjectID who)
       (\<lambda>stored. \<lparr>qr_Request = decode_request stored, qr_Created = False, qr_IdempotentReplay = True\<rparr>)
       (request_act s db cmd (company_scope (eo_TenantID obj) (eo_CompanyID obj) (eo_RUC obj) (eo_Period obj)) who now ids) = Inr (db', v)"
    using assms(1) unfolding RequestPurge_def Let_def guard_simps by auto
  ultimately show ?thesis
    using request_retry.retry_replays [OF run assms(2)] by (simp add: RequestPurge_def Let_def guard_simps)
qed

lemma ApprovePurge_retry:
  assumes "ApprovePurge s db cmd who now ids = Inr (db', v)"
  shows "ApprovePurge s db' cmd who now' ids' = Inr (db', v\<lparr>av_IdempotentReplay := True\<rparr>)"
proof -
  obtain r where ok: "AssertValidApprovePurgeCommand cmd = Inr ()" and r: "purgeRequestByIDOn db (ac_RequestID cmd) = Inr r"
    and obj: "evidenceObjectByIDOn db (pq_ObjectID r) \<noteq> None"
    and run: "with_idempotency db (pq_TenantID r) (ac_RequestIDKey cmd) (purgeCommandHash (approvePurgeCommandShape cmd))
       (p_SubjectID who) (\<lambda>stored. (decode_approve stored)\<lparr>av_IdempotentReplay := True\<rparr>) (approve_act s db cmd r who now ids) = Inr (db', v)"
    using assms unfolding ApprovePurge_def guard_simps by auto
  have "pq_RequestID r \<noteq> ''''"
    using ok request_by_id_D [OF r] by (auto simp: AssertValidApprovePurgeCommand_def dest: pattern_nonempty split: if_splits)
  note retry = approve_retry.retry_replays [OF run this]
  obtain r' where "purgeRequestByIDOn db' (ac_RequestID cmd) = Inr r'" "pq_TenantID r' = pq_TenantID r"
      "evidenceObjectByIDOn db' (pq_ObjectID r') = evidenceObjectByIDOn db (pq_ObjectID r)"
    by (rule request_kept [OF ApprovePurge_evolves [OF assms] r])
  with ok obj retry show ?thesis by (simp add: ApprovePurge_def guard_simps)
qed

lemma RejectPurge_replayed:
  assumes "RejectPurge s db cmd who now ids = Inr (db', v)"
  obtains r where "purgeRequestByIDOn db' (xc_RequestID cmd) = Inr r" "AssertValidRejectPurgeCommand cmd = Inr ()"
    "\<And>again. with_idempotency db' (pq_TenantID r) (xc_RequestIDKey cmd) (purgeCommandHash (rejectPurgeCommandShape cmd))
       (p_SubjectID who) (\<lambda>stored. (decode_close stored)\<lparr>xr_IdempotentReplay := True\<rparr>) again = Inr (db', v\<lparr>xr_IdempotentReplay := True\<rparr>)"
proof -
  obtain r where ok: "AssertValidRejectPurgeCommand cmd = Inr ()" and r: "purgeRequestByIDOn db (xc_RequestID cmd) = Inr r"
    and run: "with_idempotency db (pq_TenantID r) (xc_RequestIDKey cmd) (purgeCommandHash (rejectPurgeCommandShape cmd))
       (p_SubjectID who) (\<lambda>stored. (decode_close stored)\<lparr>xr_IdempotentReplay := True\<rparr>) (reject_act s db cmd r who now ids) = Inr (db', v)"
    using assms unfolding RejectPurge_def guard_simps by auto
  have "pq_RequestID r \<noteq> ''''"
    using ok request_by_id_D [OF r] by (auto simp: AssertValidRejectPurgeCommand_def dest: pattern_nonempty split: if_splits)
  note retry = reject_retry.retry_replays [OF run this]
  obtain r' where "purgeRequestByIDOn db' (xc_RequestID cmd) = Inr r'" "pq_TenantID r' = pq_TenantID r"
    by (rule request_kept [OF RejectPurge_evolves [OF assms] r])
  with ok retry that show thesis by metis
qed

lemma RejectPurge_conflicts:
  assumes "RejectPurge s db cmd who now ids = Inr (db', v)" and q: "purgeRequestByIDOn db' (xc_RequestID cmd) = Inr q"
    and other: "h \<noteq> purgeCommandHash (rejectPurgeCommandShape cmd) \<or> a \<noteq> p_SubjectID who"
  shows "with_idempotency db' (pq_TenantID q) (xc_RequestIDKey cmd) h a dec again = Inl (AuthErr ''IDEMPOTENCY_CONFLICT'')"
proof -
  obtain r where ok: "AssertValidRejectPurgeCommand cmd = Inr ()" and r: "purgeRequestByIDOn db (xc_RequestID cmd) = Inr r"
    and run: "with_idempotency db (pq_TenantID r) (xc_RequestIDKey cmd) (purgeCommandHash (rejectPurgeCommandShape cmd))
       (p_SubjectID who) (\<lambda>stored. (decode_close stored)\<lparr>xr_IdempotentReplay := True\<rparr>) (reject_act s db cmd r who now ids) = Inr (db', v)"
    using assms(1) unfolding RejectPurge_def guard_simps by auto
  have "pq_RequestID r \<noteq> ''''"
    using ok request_by_id_D [OF r] by (auto simp: AssertValidRejectPurgeCommand_def dest: pattern_nonempty split: if_splits)
  note conflict = reject_retry.other_command_conflicts [OF run this other]
  obtain r' where "purgeRequestByIDOn db' (xc_RequestID cmd) = Inr r'" "pq_TenantID r' = pq_TenantID r"
    by (rule request_kept [OF RejectPurge_evolves [OF assms(1)] r])
  with q conflict show ?thesis by simp
qed

lemma RejectPurge_retry:
  assumes "RejectPurge s db cmd who now ids = Inr (db', v)"
  shows "RejectPurge s db' cmd who now' ids' = Inr (db', v\<lparr>xr_IdempotentReplay := True\<rparr>)"
  by (rule RejectPurge_replayed [OF assms]) (simp add: RejectPurge_def)

lemma CancelPurge_retry:
  assumes "CancelPurge s db cmd who now ids = Inr (db', v)"
  shows "CancelPurge s db' cmd who now' ids' = Inr (db', v\<lparr>cr_IdempotentReplay := True\<rparr>)"
proof -
  obtain r where ok: "AssertValidCancelPurgeCommand cmd = Inr ()" and r: "purgeRequestByIDOn db (cn_RequestID cmd) = Inr r"
    and run: "with_idempotency db (pq_TenantID r) (cn_RequestIDKey cmd) (purgeCommandHash (cancelPurgeCommandShape cmd))
       (p_SubjectID who) (\<lambda>stored. (decode_cancel stored)\<lparr>cr_IdempotentReplay := True\<rparr>) (cancel_act s db cmd r who now ids) = Inr (db', v)"
    using assms unfolding CancelPurge_def guard_simps by auto
  have "pq_RequestID r \<noteq> ''''"
    using ok request_by_id_D [OF r] by (auto simp: AssertValidCancelPurgeCommand_def dest: pattern_nonempty split: if_splits)
  note retry = cancel_retry.retry_replays [OF run this]
  obtain r' where "purgeRequestByIDOn db' (cn_RequestID cmd) = Inr r'" "pq_TenantID r' = pq_TenantID r"
    by (rule request_kept [OF CancelPurge_evolves [OF assms] r])
  with ok retry show ?thesis by (simp add: CancelPurge_def guard_simps)
qed

lemma WithdrawPurge_retry:
  assumes "WithdrawPurge s db cmd who now ids = Inr (db', v)"
  shows "WithdrawPurge s db' cmd who now' ids' = Inr (db', v\<lparr>xr_IdempotentReplay := True\<rparr>)"
proof -
  obtain r where ok: "AssertValidWithdrawPurgeCommand cmd = Inr ()" and r: "purgeRequestByIDOn db (xc_RequestID cmd) = Inr r"
    and run: "with_idempotency db (pq_TenantID r) (xc_RequestIDKey cmd) (purgeCommandHash (withdrawPurgeCommandShape cmd))
       (p_SubjectID who) (\<lambda>stored. (decode_close stored)\<lparr>xr_IdempotentReplay := True\<rparr>) (withdraw_act s db cmd r who now ids) = Inr (db', v)"
    using assms unfolding WithdrawPurge_def guard_simps by auto
  have "pq_RequestID r \<noteq> ''''"
    using ok request_by_id_D [OF r] by (auto simp: AssertValidWithdrawPurgeCommand_def dest: pattern_nonempty split: if_splits)
  note retry = withdraw_retry.retry_replays [OF run this]
  obtain r' where "purgeRequestByIDOn db' (xc_RequestID cmd) = Inr r'" "pq_TenantID r' = pq_TenantID r"
    by (rule request_kept [OF WithdrawPurge_evolves [OF assms] r])
  with ok retry show ?thesis by (simp add: WithdrawPurge_def guard_simps)
qed

text \<open>
  ExecutePurge reads its key in three ways: a completed row replays, an open row of the same command
  and actor resumes the attempt, and no row starts a fresh one.
\<close>

lemma executeIntent_key_cases:
  assumes "executeIntent s db disk cmd who now ids = (disk', Inr out)" and "purgeRequestByIDOn db (ec_RequestID cmd) = Inr r"
  defines "h \<equiv> purgeCommandHash (executePurgeCommandShape cmd)"
  obtains (replay) stored where "disk' = disk" "out = Finished db ((decode_execute stored)\<lparr>er_IdempotentReplay := True\<rparr>)"
      "replayPurgeIdempotencyOn db (pq_TenantID r) (ec_ExecutionID cmd) h (p_SubjectID who) = Inr (Some stored)"
  | (resumed) row db' v where "idempotencyRowOn db (pq_TenantID r) (ec_ExecutionID cmd) = Some row"
      "ik_CommandHash row = h" "ik_ActorBinding row = p_SubjectID who" "out = Finished db' v"
      "recoverSameExecutionOn s db disk cmd r (purgeRequestScope r) who now (ids 1) = (disk', Inr (db', v))"
  | (fresh) db1 where "disk' = disk"
      "reserveIdempotencyKey db (pq_TenantID r) (ec_ExecutionID cmd) h (p_SubjectID who) now = Inr db1"
      "execute_fresh s db1 disk cmd r (purgeRequestScope r) who now ids = Inr out"
proof (cases "idempotencyRowOn db (pq_TenantID r) (ec_ExecutionID cmd)")
  case None
  then have "disk' = disk" and f: "and_then (reserveIdempotencyKey db (pq_TenantID r) (ec_ExecutionID cmd) h (p_SubjectID who) now)
      (\<lambda>db. execute_fresh s db disk cmd r (purgeRequestScope r) who now ids) = Inr out"
    using assms(1,2) by (auto simp: executeIntent_def Let_def h_def purgeRequestScope_def)
  then show thesis using fresh unfolding and_then_eq_Inr by blast
next
  case (Some row)
  have m: "ik_CommandHash row = h \<and> ik_ActorBinding row = p_SubjectID who"
    using assms Some by (auto simp: executeIntent_def Let_def purgeRequestScope_def split: if_splits)
  show thesis
  proof (cases "ik_EntityID row = '''' \<or> ik_Result row = None")
    case True
    obtain d res where rec: "recoverSameExecutionOn s db disk cmd r (purgeRequestScope r) who now (ids 1) = (d, res)" by fastforce
    have "disk' = d" and "and_then res (\<lambda>(db, v). Inr (Finished db v)) = Inr out"
      using assms(1,2) Some m True rec by (simp_all add: executeIntent_def Let_def h_def purgeRequestScope_def)
    then obtain db' v where "res = Inr (db', v)" "out = Finished db' v" by (cases res) auto
    then show thesis using resumed [OF Some] m rec \<open>disk' = d\<close> by blast
  next
    case False
    then obtain stored where "ik_Result row = Some stored" "ik_EntityID row \<noteq> ''''" by auto
    then show thesis using replay [of stored] assms(1,2) Some m
      by (simp add: executeIntent_def replayPurgeIdempotencyOn_def Let_def h_def purgeRequestScope_def)
  qed
qed

lemma decode_execute_stored: "(decode_execute (stored_execute v))\<lparr>er_IdempotentReplay := True\<rparr> = v\<lparr>er_IdempotentReplay := True\<rparr>"
  by (cases v) (simp add: decode_execute_def stored_execute_def or_zero_def)

lemma convergePurgeOn_records:
  assumes "convergePurgeOn s db cmd r scope exec who now i = Inr (db', v)"
  shows "\<exists>db0. db_evolves db db0
     \<and> db' = completePurgeIdempotencyOn db0 (sc_OrganizationID scope) (ec_ExecutionID cmd) (pq_RequestID r) (stored_execute v) now"
  using assms unfolding convergePurgeOn_def
  by (auto simp: guard_simps split: if_splits dest!: completeExecutionOn_evolves)

lemma executeAndCompleteOn_removes:
  assumes "executeAndCompleteOn s db disk cmd exec who now i = (disk', Inr (db', v))"
  shows "disk' \<noteq> disk"
proof -
  obtain request :: EvidencePurgeRequest and obj :: EvidenceObject where "removeObjectBytes disk (eo_RelPath obj) (pq_ObjectID request) (eo_Size obj) = Inr disk'"
    using assms unfolding executeAndCompleteOn_def by (auto split: sum.splits prod.splits)
  then obtain bytes where "disk (eo_RelPath obj) = Some bytes" "disk' = disk(eo_RelPath obj := None)"
    unfolding removeObjectBytes_Inr by auto
  then show ?thesis by (metis fun_upd_same option.distinct(1))
qed

lemma recoverSameExecutionOn_records:
  assumes "recoverSameExecutionOn s db disk cmd r scope who now i = (disk', Inr (db', v))" and "er_Recovered v \<longrightarrow> disk' = disk"
  shows "\<exists>db0. db_evolves db db0
     \<and> db' = completePurgeIdempotencyOn db0 (sc_OrganizationID scope) (ec_ExecutionID cmd) (pq_RequestID r) (stored_execute v) now"
  using assms(1)
proof (cases rule: recoverSameExecutionOn_cases)
  case (closed exec u)
  then show ?thesis by (intro exI [of _ db]) simp
next
  case (converged exec obj)
  then show ?thesis using convergePurgeOn_records by metis
next
  case (executed exec obj res')
  then obtain u where "res' = Inr (db', u)" "v = u\<lparr>er_Recovered := True\<rparr>" by (cases res') auto
  then have False using executed(6) executeAndCompleteOn_removes [of s db disk cmd exec who now i disk' db' u] assms(2) by simp
  then show ?thesis ..
qed simp

text \<open>
  After a successful ExecutePurge the key replays its outcome, unless a recovery removed the bytes
  in this very call: that path leaves the key open.
\<close>

lemma ExecutePurge_recorded:
  assumes run: "ExecutePurge s w cmd who now ids = (w', Inr v)" and rec: "er_Recovered v \<longrightarrow> w_Disk w' = w_Disk w"
  obtains r stored where "AssertValidExecutePurgeCommand cmd = Inr ()" "db_evolves (w_DB w) (w_DB w')"
    "purgeRequestByIDOn (w_DB w) (ec_RequestID cmd) = Inr r"
    "replayPurgeIdempotencyOn (w_DB w') (pq_TenantID r) (ec_ExecutionID cmd) (purgeCommandHash (executePurgeCommandShape cmd))
       (p_SubjectID who) = Inr (Some stored)"
    "(decode_execute stored)\<lparr>er_IdempotentReplay := True\<rparr> = v\<lparr>er_IdempotentReplay := True\<rparr>"
proof -
  have valid: "AssertValidExecutePurgeCommand cmd = Inr ()" using run by (auto simp: ExecutePurge_def split: sum.splits)
  obtain disk out where i: "executeIntent s (w_DB w) (w_Disk w) cmd who now ids = (disk, Inr out)"
    using run valid by (auto simp: ExecutePurge_def split: sum.splits prod.splits)
  obtain r where r: "purgeRequestByIDOn (w_DB w) (ec_RequestID cmd) = Inr r"
    using i by (auto simp: executeIntent_def split: sum.splits)
  have id: "pq_RequestID r \<noteq> ''''"
    using valid request_by_id_D [OF r] by (auto simp: AssertValidExecutePurgeCommand_def dest: pattern_nonempty split: if_splits)
  have sc: "sc_OrganizationID (purgeRequestScope r) = pq_TenantID r" by (simp add: purgeRequestScope_def)
  note recorded = that [OF valid _ r]
  have ev: "db_evolves (w_DB w) (outcome_db out)" by (rule executeIntent_evolves [OF i])
  from i r show thesis
  proof (cases rule: executeIntent_key_cases)
    case (replay stored)
    then have w: "w_DB w' = w_DB w" "v = (decode_execute stored)\<lparr>er_IdempotentReplay := True\<rparr>" using run valid i by (auto simp: ExecutePurge_def)
    show thesis by (rule recorded) (use replay(3) w in simp_all)
  next
    case (resumed row db' v')
    then have w: "w' = \<lparr>w_DB = db', w_Disk = disk\<rparr>" "v' = v" using run valid i by (simp_all add: ExecutePurge_def)
    have "er_Recovered v' \<longrightarrow> disk = w_Disk w" using rec w by simp
    from recoverSameExecutionOn_records [OF resumed(5) this] obtain db0 where "db_evolves (w_DB w) db0"
      "db' = completePurgeIdempotencyOn db0 (pq_TenantID r) (ec_ExecutionID cmd) (pq_RequestID r) (stored_execute v) now"
      using w(2) sc by auto
    with completed_row_replays [OF resumed(1-3) _ id] show thesis
      by (intro recorded [of "stored_execute v"]) (use ev resumed(4) w decode_execute_stored in auto)
  next
    case (fresh db1)
    have reserve: "replayPurgeIdempotencyOn (completePurgeIdempotencyOn db2 (pq_TenantID r) (ec_ExecutionID cmd) (pq_RequestID r) (stored_execute v) now)
        (pq_TenantID r) (ec_ExecutionID cmd) (purgeCommandHash (executePurgeCommandShape cmd)) (p_SubjectID who) = Inr (Some (stored_execute v))"
      if "db_evolves db1 db2" for db2 by (rule completed_key_replays [OF fresh(2) that id])
    from fresh(3) show thesis
    proof (cases rule: execute_fresh_Inr)
      case (opened obj h db0 db' exec)
      then obtain disk' db'' where f: "executeAndCompleteOn s db' disk cmd exec who now (ids 1) = (disk', Inr (db'', v))"
        and w: "w' = \<lparr>w_DB = completePurgeIdempotencyOn db'' (pq_TenantID r) (ec_ExecutionID cmd) (pq_RequestID r) (stored_execute v) now,
             w_Disk = disk'\<rparr>"
        using run valid i by (auto simp: ExecutePurge_def split: prod.splits sum.splits)
      note f = executeAndCompleteOn_evolves [OF f]
      have "db_evolves db1 db'" using execute_fresh_evolves [OF fresh(3)] opened(4) by simp
      with f have "db_evolves db1 db''" by (rule db_evolves_trans [rotated])
      moreover have "db_evolves (w_DB w) (w_DB w')" using ev opened(4) f w by (auto intro!: evolves_complete intro: db_evolves_trans)
      ultimately show thesis using reserve w decode_execute_stored by (intro recorded [of "stored_execute v"]) simp_all
    next
      case (converged obj h stale db' v')
      then have w: "w' = \<lparr>w_DB = db', w_Disk = disk\<rparr>" "v' = v" using run valid i by (simp_all add: ExecutePurge_def)
      then show thesis using convergePurgeOn_records [OF converged(5)] reserve ev converged(6) sc decode_execute_stored
        by (intro recorded [of "stored_execute v"]) auto
    qed
  qed
qed

lemma ExecutePurge_retry:
  assumes "ExecutePurge s w cmd who now ids = (w', Inr v)" and "er_Recovered v \<longrightarrow> w_Disk w' = w_Disk w"
  shows "ExecutePurge s w' cmd who now' ids' = (w', Inr (v\<lparr>er_IdempotentReplay := True\<rparr>))"
proof -
  obtain r stored where ok: "AssertValidExecutePurgeCommand cmd = Inr ()" and ev: "db_evolves (w_DB w) (w_DB w')"
    and r: "purgeRequestByIDOn (w_DB w) (ec_RequestID cmd) = Inr r"
    and key: "replayPurgeIdempotencyOn (w_DB w') (pq_TenantID r) (ec_ExecutionID cmd) (purgeCommandHash (executePurgeCommandShape cmd))
       (p_SubjectID who) = Inr (Some stored)"
    and v: "(decode_execute stored)\<lparr>er_IdempotentReplay := True\<rparr> = v\<lparr>er_IdempotentReplay := True\<rparr>"
    by (rule ExecutePurge_recorded [OF assms])
  obtain r' where "purgeRequestByIDOn (w_DB w') (ec_RequestID cmd) = Inr r'" "pq_TenantID r' = pq_TenantID r"
    by (rule request_kept [OF ev r])
  with key v have "executeIntent s (w_DB w') (w_Disk w') cmd who now' ids'
      = (w_Disk w', Inr (Finished (w_DB w') (v\<lparr>er_IdempotentReplay := True\<rparr>)))"
    by (auto simp: executeIntent_def replayPurgeIdempotencyOn_def Let_def purgeRequestScope_def split: option.splits if_splits)
  with ok show ?thesis by (simp add: ExecutePurge_def)
qed

text \<open>
  C24: A retry is harmless: whatever the clock and the fresh ids, repeating a request, an approval,
  a rejection, a cancellation or a withdrawal of a purge right after it succeeded returns the
  recorded outcome, marked as a replay, and leaves the database as it is. So does repeating
  ExecutePurge, which also leaves the disk alone, whether it executed the purge or converged on
  bytes that were already gone. Left out is the recovery of an open attempt that removed the bytes
  in that very call: it leaves its key open, and a repeat completes it.
\<close>

theorem retries_replay:
  "(RequestPurge s db rq who now ids = Inr (db', v1) \<and> pq_RequestID (qr_Request v1) \<noteq> ''''
      \<longrightarrow> RequestPurge s db' rq who now' ids' = Inr (db', v1\<lparr>qr_Created := False, qr_IdempotentReplay := True\<rparr>))
   \<and> (ApprovePurge s db ap who now ids = Inr (db', v2)
      \<longrightarrow> ApprovePurge s db' ap who now' ids' = Inr (db', v2\<lparr>av_IdempotentReplay := True\<rparr>))
   \<and> (RejectPurge s db cl who now ids = Inr (db', v3)
      \<longrightarrow> RejectPurge s db' cl who now' ids' = Inr (db', v3\<lparr>xr_IdempotentReplay := True\<rparr>))
   \<and> (CancelPurge s db cn who now ids = Inr (db', v4)
      \<longrightarrow> CancelPurge s db' cn who now' ids' = Inr (db', v4\<lparr>cr_IdempotentReplay := True\<rparr>))
   \<and> (WithdrawPurge s db cl who now ids = Inr (db', v5)
      \<longrightarrow> WithdrawPurge s db' cl who now' ids' = Inr (db', v5\<lparr>xr_IdempotentReplay := True\<rparr>))
   \<and> (ExecutePurge s w ex who now ids = (w', Inr v6) \<and> (er_Recovered v6 \<longrightarrow> w_Disk w' = w_Disk w)
      \<longrightarrow> ExecutePurge s w' ex who now' ids' = (w', Inr (v6\<lparr>er_IdempotentReplay := True\<rparr>)))"
  by (intro conjI impI; (elim conjE)?;
      rule RequestPurge_retry ApprovePurge_retry RejectPurge_retry CancelPurge_retry WithdrawPurge_retry ExecutePurge_retry; assumption)

theorem retries_replay_witness:
  "(\<exists>db cmd db' v. ApprovePurge None db cmd (actor ''bob'') demo_time (ids_of [''a1'', ''e3'']) = Inr (db', v)
      \<and> length (pd_Approvals db') = 1
      \<and> ApprovePurge None db' cmd (actor ''bob'') ''later'' (ids_of []) = Inr (db', v\<lparr>av_IdempotentReplay := True\<rparr>))
   \<and> (\<exists>w cmd w' v. ExecutePurge None w cmd (actor ''carol'') demo_time (ids_of [''e4'', ''e5'']) = (w', Inr v)
      \<and> pq_Status (er_Request v) = PurgeRequestStatusExecuted \<and> w_Disk w' (ObjectRelPath demo_object) = None
      \<and> ExecutePurge None w' cmd (actor ''carol'') ''later'' (ids_of []) = (w', Inr (v\<lparr>er_IdempotentReplay := True\<rparr>)))"
proof
  obtain db es ks ss a es' ks' ss' v where db: "db = stored_db\<lparr>pd_Requests := [demo_row], pd_Events := es, pd_States := ss, pd_Keys := ks\<rparr>"
    and ap: "ApprovePurge None db (demo_approve_cmd db) (actor ''bob'') demo_time (ids_of [''a1'', ''e3'']) =
      Inr (db\<lparr>pd_Approvals := [a], pd_Requests := [approved_row], pd_Events := es', pd_States := ss', pd_Keys := ks'\<rparr>, v)"
    by (rule demo_approved)
  let ?db' = "db\<lparr>pd_Approvals := [a], pd_Requests := [approved_row], pd_Events := es', pd_States := ss', pd_Keys := ks'\<rparr>"
  have "ApprovePurge None ?db' (demo_approve_cmd db) (actor ''bob'') ''later'' (ids_of []) = Inr (?db', v\<lparr>av_IdempotentReplay := True\<rparr>)"
    using retries_replay [of None db _ "actor ''bob''" demo_time "ids_of [''a1'', ''e3'']" ?db'] ap by blast
  then show "\<exists>db cmd db' v. ApprovePurge None db cmd (actor ''bob'') demo_time (ids_of [''a1'', ''e3'']) = Inr (db', v)
      \<and> length (pd_Approvals db') = 1
      \<and> ApprovePurge None db' cmd (actor ''bob'') ''later'' (ids_of []) = Inr (db', v\<lparr>av_IdempotentReplay := True\<rparr>)"
    by - (intro exI conjI, rule ap, simp_all)
next
  obtain db w' v where run: "ExecutePurge None \<lparr>w_DB = db, w_Disk = w_Disk stored_world\<rparr> (demo_execute_cmd db) (actor ''carol'') demo_time
      (ids_of [''e4'', ''e5'']) = (w', Inr v)" and rec: "\<not> er_Recovered v"
    and gone: "w_Disk w' (ObjectRelPath demo_object) = None" and st: "pq_Status (er_Request v) = PurgeRequestStatusExecuted"
    by (rule demo_executed)
  have "ExecutePurge None w' (demo_execute_cmd db) (actor ''carol'') ''later'' (ids_of []) = (w', Inr (v\<lparr>er_IdempotentReplay := True\<rparr>))"
    using retries_replay [where s = None and who = "actor ''carol''" and now = demo_time and ids = "ids_of [''e4'', ''e5'']" and now' = "''later''"
        and ids' = "ids_of []" and w = "\<lparr>w_DB = db, w_Disk = w_Disk stored_world\<rparr>" and ex = "demo_execute_cmd db" and w' = w' and ?v6.0 = v]
      run rec by blast
  with run gone st show "\<exists>w cmd w' v. ExecutePurge None w cmd (actor ''carol'') demo_time (ids_of [''e4'', ''e5'']) = (w', Inr v)
      \<and> pq_Status (er_Request v) = PurgeRequestStatusExecuted \<and> w_Disk w' (ObjectRelPath demo_object) = None
      \<and> ExecutePurge None w' cmd (actor ''carol'') ''later'' (ids_of []) = (w', Inr (v\<lparr>er_IdempotentReplay := True\<rparr>))" by blast
qed

text \<open>
  C26: The command hash does not name the command: rejecting and withdrawing marshal to the same
  shape. Right after a rejection, a valid withdrawal of the same request under the key of the
  rejection is answered with the rejection's outcome as its own success, marked as a replay and
  with the database unchanged, exactly when its command hash and its actor are those of the
  rejection; the hash is the same whenever the reason is. Under that key any other hash or actor is
  an idempotency conflict.
\<close>

theorem withdraw_replays_reject:
  assumes "RejectPurge s db cmd who now ids = Inr (db', v)" and "AssertValidWithdrawPurgeCommand wd = Inr ()"
    and "xc_RequestID wd = xc_RequestID cmd" and "xc_RequestIDKey wd = xc_RequestIDKey cmd"
  shows "WithdrawPurge s db' wd who' now' ids' =
       (if purgeCommandHash (withdrawPurgeCommandShape wd) = purgeCommandHash (rejectPurgeCommandShape cmd) \<and> p_SubjectID who' = p_SubjectID who
        then Inr (db', v\<lparr>xr_IdempotentReplay := True\<rparr>) else Inl (AuthErr ''IDEMPOTENCY_CONFLICT''))
     \<and> (xc_Reason wd = xc_Reason cmd
        \<longrightarrow> purgeCommandHash (withdrawPurgeCommandShape wd) = purgeCommandHash (rejectPurgeCommandShape cmd))"
proof -
  obtain r where r: "purgeRequestByIDOn db' (xc_RequestID cmd) = Inr r"
    and same: "\<And>again. with_idempotency db' (pq_TenantID r) (xc_RequestIDKey cmd) (purgeCommandHash (rejectPurgeCommandShape cmd))
       (p_SubjectID who) (\<lambda>stored. (decode_close stored)\<lparr>xr_IdempotentReplay := True\<rparr>) again = Inr (db', v\<lparr>xr_IdempotentReplay := True\<rparr>)"
    using RejectPurge_replayed [OF assms(1)] by blast
  note other = RejectPurge_conflicts [OF assms(1) r]
  have "WithdrawPurge s db' wd who' now' ids' = with_idempotency db' (pq_TenantID r) (xc_RequestIDKey cmd)
      (purgeCommandHash (withdrawPurgeCommandShape wd)) (p_SubjectID who') (\<lambda>stored. (decode_close stored)\<lparr>xr_IdempotentReplay := True\<rparr>)
      (withdraw_act s db' wd r who' now' ids')"
    using assms(2-4) r by (simp add: WithdrawPurge_def)
  moreover have "xc_Reason wd = xc_Reason cmd \<longrightarrow> withdrawPurgeCommandShape wd = rejectPurgeCommandShape cmd"
    using assms(3) by (simp add: rejectPurgeCommandShape_def withdrawPurgeCommandShape_def)
  moreover have "with_idempotency db' (pq_TenantID r) (xc_RequestIDKey cmd) (purgeCommandHash (withdrawPurgeCommandShape wd)) (p_SubjectID who')
      (\<lambda>stored. (decode_close stored)\<lparr>xr_IdempotentReplay := True\<rparr>) again = Inl (AuthErr ''IDEMPOTENCY_CONFLICT'')"
    if "\<not> (purgeCommandHash (withdrawPurgeCommandShape wd) = purgeCommandHash (rejectPurgeCommandShape cmd) \<and> p_SubjectID who' = p_SubjectID who)" for again
    by (rule other) (use that in blast)
  ultimately show ?thesis using same by (simp add: if_split)
qed

section \<open>Closing the demo requests\<close>

definition demo_close_cmd :: ClosePurgeCommand where
  "demo_close_cmd = \<lparr>xc_RequestID = demo_id, xc_Reason = ''no'', xc_RequestIDKey = ''k3''\<rparr>"

lemma demo_close_cmd_ok [simp]: "AssertValidRejectPurgeCommand demo_close_cmd = Inr ()" "AssertValidWithdrawPurgeCommand demo_close_cmd = Inr ()"
  "xc_RequestID demo_close_cmd = demo_id" "xc_RequestIDKey demo_close_cmd = ''k3''"
  by (simp_all add: AssertValidRejectPurgeCommand_def AssertValidWithdrawPurgeCommand_def demo_close_cmd_def text_eval)

lemma demo_close_authorized:
  "act \<in> {ActionRejectPurge, ActionWithdrawApproval} \<Longrightarrow> authorizePurgeAct (actor subj) demo_scope act cat dual '''' '''' = Inr ()"
  by (auto simp: authorizePurgeAct_def lifecycle_Authorize_def demo_defs contains_scope_def roleDenied_def lifecycleRoleAllowed_def
      hasAnyRole_def assuranceRank_def Let_def satisfies_def ladderRank_def actor_def sample_principal_def)

text \<open>The shared body of a closing act succeeds on a fresh key, decision id and event id.\<close>

lemma closePurgeTransition_ok:
  assumes "idempotencyRowOn db (pq_TenantID r) key = None" and "authz = Inr ()" and "gate r = None"
    and "\<And>ks. \<exists>cur h. currentPurgeSnapshotOn (db\<lparr>pd_Keys := ks\<rparr>) (pq_ObjectID r) scope kinds = Inr (cur, h)"
    and "pd_Requests db = [r]" and "status_guard (pq_Status r) (close_status (pq_Status r) action)"
    and "\<And>cur. \<exists>post h2 d ev ra. tr r cur = (post, h2, Some d, ev, ra) \<and> le_Action ev = action \<and> le_EventID ev = i
           \<and> pa_ApprovalID d = j \<and> (pa_ApprovalOrder d = 1 \<or> pa_ApprovalOrder d = 2) \<and> IsValidPurgeApprovalDecision (pa_Decision d)"
    and "i \<notin> le_EventID ` set (pd_Events db)" and "j \<notin> pa_ApprovalID ` set (pd_Approvals db)"
  shows "\<exists>x. closePurgeTransition None db r scope key hash a now who kinds authz gate tr = Inr x"
proof -
  define k where "k = \<lparr>ik_TenantID = pq_TenantID r, ik_RequestID = key, ik_CommandHash = hash, ik_ActorBinding = a,
          ik_EntityID = '''', ik_Result = None, ik_CreatedAt = now, ik_CompletedAt = ''''\<rparr>"
  let ?db = "db\<lparr>pd_Keys := pd_Keys db @ [k]\<rparr>"
  obtain cur h where cur: "currentPurgeSnapshotOn ?db (pq_ObjectID r) scope kinds = Inr (cur, h)" using assms(4) by blast
  have k: "reserveIdempotencyKey db (pq_TenantID r) key hash a now = Inr ?db"
    using assms(1) by (simp add: reserveIdempotencyKey_def k_def)
  have "pq_Status r = PurgeRequestStatusRequested \<or> pq_Status r = PurgeRequestStatusApproved"
    using assms(6) by (auto simp: close_status_def status_guard_def split: if_splits)
  moreover obtain post h2 d ev ra where tr: "tr r cur = (post, h2, Some d, ev, ra)" "le_Action ev = action" "le_EventID ev = i"
      "pa_ApprovalID d = j" "pa_ApprovalOrder d = 1 \<or> pa_ApprovalOrder d = 2" "IsValidPurgeApprovalDecision (pa_Decision d)"
    using assms(7) by blast
  moreover have "\<not> list_ex (\<lambda>x. le_EventID x = i) (pd_Events db)" "\<not> list_ex (\<lambda>x. pa_ApprovalID x = j) (pd_Approvals db)"
    using assms(8,9) by (force simp: list_ex_iff)+
  ultimately have "\<exists>x. close_record None ?db r scope now who cur h (tr r cur) = Inr x"
    using assms(5,6)
    by (simp add: close_record_def close_flip_def Let_def updatePurgeRequest_def insertPurgeApprovalOn_def insertLifecycleEventOn_def
        emitObjectReceipt_def emitReceipt_def)
  with k cur assms(2,3) show ?thesis unfolding closePurgeTransition_Inr split_paired_Ex by blast
qed

lemma demo_reject:
  obtains db db' v where "RejectPurge None db demo_close_cmd (actor ''bob'') demo_time (ids_of [''d1'', ''e3'']) = Inr (db', v)"
    "purge_reach None (stored_world\<lparr>w_DB := db\<rparr>) []" "pd_Requests db = [demo_row]"
proof -
  obtain es ks ss v0 where i: "map le_EventID es = [''e1'', ''e2'']" "map ik_RequestID ks = [''k1'']"
      "map (\<lambda>s. (rt_ObjectID s, rt_PolicyID s)) ss = [(demo_object, demo_id)]"
    and r: "purge_reach None (stored_world\<lparr>w_DB := stored_db\<lparr>pd_Requests := [demo_row], pd_Events := es, pd_States := ss, pd_Keys := ks\<rparr>\<rparr>) []"
    by (rule demo_requested)
  define db where "db = stored_db\<lparr>pd_Requests := [demo_row], pd_Events := es, pd_States := ss, pd_Keys := ks\<rparr>"
  have es: "le_EventID ` set es = {''e1'', ''e2''}" and ks: "ik_RequestID ` set ks = {''k1''}"
    using i(1,2) by (metis list.set_map list.simps(15) empty_set)+
  have "''k3'' \<notin> ik_RequestID ` set ks" by (simp add: ks)
  then have "find (\<lambda>k. ik_TenantID k = ''o'' \<and> ik_RequestID k = ''k3'') ks = None" by (force simp: find_None_iff)
  then have key: "idempotencyRowOn db ''o'' ''k3'' = None" by (simp add: idempotencyRowOn_def db_def)
  obtain s0 where s0: "ss = [s0]" "rt_PolicyID s0 = demo_id" using i(3) by (auto simp: map_eq_Cons_conv)
  have env: "demo_env (db\<lparr>pd_Keys := k\<rparr>)" for k using stored_env by (simp add: demo_env_def db_def)
  have cur: "\<exists>c h. currentPurgeSnapshotOn (db\<lparr>pd_Keys := k\<rparr>) demo_object demo_scope (rp_BlockingHoldKinds demo_policy) = Inr (c, h)" for k
    using demo_snapshot [OF env, of k] s0 by (simp add: db_def demo_policy_def)
  have "\<exists>x. closePurgeTransition None db demo_row demo_scope ''k3'' (purgeCommandHash (rejectPurgeCommandShape demo_close_cmd)) ''bob'' demo_time
     (actor ''bob'') (rp_BlockingHoldKinds demo_policy) (authorizePurgeAct (actor ''bob'') demo_scope ActionRejectPurge ''invoice'' False '''' '''')
     reject_gate (reject_transition demo_scope (actor ''bob'') (approvalIDsOn db demo_id) (xc_Reason demo_close_cmd) demo_time (ids_of [''d1'', ''e3''])) = Inr x"
  proof (rule closePurgeTransition_ok [where action = PurgeEventRejected and i = "''e3''" and j = "''d1''"])
    show "''e3'' \<notin> le_EventID ` set (pd_Events db)" by (simp add: db_def es)
    show "\<exists>c h. currentPurgeSnapshotOn (db\<lparr>pd_Keys := k\<rparr>) (pq_ObjectID demo_row) demo_scope (rp_BlockingHoldKinds demo_policy) = Inr (c, h)" for k
      using cur by simp
    show "idempotencyRowOn db (pq_TenantID demo_row) ''k3'' = None" using key by simp
  qed (simp_all add: db_def reject_gate_def demo_close_authorized reject_transition_def Let_def lifecycle_event_def decision_row_def
        ids_of_def close_status_def status_guard_def nextDecisionOrder_def)
  then obtain db2 r' d where t: "closePurgeTransition None db demo_row demo_scope ''k3'' (purgeCommandHash (rejectPurgeCommandShape demo_close_cmd)) ''bob'' demo_time
     (actor ''bob'') (rp_BlockingHoldKinds demo_policy) (authorizePurgeAct (actor ''bob'') demo_scope ActionRejectPurge ''invoice'' False '''' '''')
     reject_gate (reject_transition demo_scope (actor ''bob'') (approvalIDsOn db demo_id) (xc_Reason demo_close_cmd) demo_time (ids_of [''d1'', ''e3''])) = Inr (db2, r', d)"
    by auto
  have find: "purgeRequestByIDOn db demo_id = Inr demo_row" "retentionPolicyByIDOn db demo_id = Some demo_policy"
    by (simp_all add: purgeRequestByIDOn_def retentionPolicyByIDOn_def db_def)
  have "\<exists>v. reject_act None db demo_close_cmd demo_row (actor ''bob'') demo_time (ids_of [''d1'', ''e3'']) = Inr v"
    using t by (simp add: reject_act_def Let_def find)
  then obtain x where act: "reject_act None db demo_close_cmd demo_row (actor ''bob'') demo_time (ids_of [''d1'', ''e3'']) = Inr x" by blast
  have "replayPurgeIdempotencyOn db ''o'' ''k3'' h a = Inr None" for h a
    using key by (simp add: replayPurgeIdempotencyOn_def)
  with act have "RejectPurge None db demo_close_cmd (actor ''bob'') demo_time (ids_of [''d1'', ''e3'']) = Inr (fst x, snd x)"
    by (simp add: RejectPurge_def find with_idempotency_def)
  from that [OF this r [folded db_def]] show thesis by (simp add: db_def)
qed

theorem withdraw_replays_reject_witness:
  "\<exists>db db' v. RejectPurge None db demo_close_cmd (actor ''bob'') demo_time (ids_of [''d1'', ''e3'']) = Inr (db', v)
     \<and> WithdrawPurge None db' demo_close_cmd (actor ''bob'') demo_time (ids_of []) = Inr (db', v\<lparr>xr_IdempotentReplay := True\<rparr>)
     \<and> WithdrawPurge None db' demo_close_cmd (actor ''alice'') demo_time (ids_of []) = Inl (AuthErr ''IDEMPOTENCY_CONFLICT'')"
proof -
  obtain db db' v where run: "RejectPurge None db demo_close_cmd (actor ''bob'') demo_time (ids_of [''d1'', ''e3'']) = Inr (db', v)"
    using demo_reject by blast
  note all = withdraw_replays_reject [OF run demo_close_cmd_ok(2) refl refl]
  have "purgeCommandHash (withdrawPurgeCommandShape demo_close_cmd) = purgeCommandHash (rejectPurgeCommandShape demo_close_cmd)" using all by blast
  with all [of "actor ''bob''"] all [of "actor ''alice''"] have
    "WithdrawPurge None db' demo_close_cmd (actor ''bob'') demo_time (ids_of []) = Inr (db', v\<lparr>xr_IdempotentReplay := True\<rparr>)"
    "WithdrawPurge None db' demo_close_cmd (actor ''alice'') demo_time (ids_of []) = Inl (AuthErr ''IDEMPOTENCY_CONFLICT'')"
    by (simp_all add: actor_def sample_principal_def)
  with run show ?thesis by blast
qed

section \<open>Withdrawn pipelines\<close>

lemma WithdrawPurge_effect:
  assumes "WithdrawPurge s db cmd who now ids = Inr (db', v)" and "\<not> xr_IdempotentReplay v"
  shows "\<exists>r d. purgeRequestByIDOn db (xc_RequestID cmd) = Inr r \<and> pq_Status r = PurgeRequestStatusApproved
     \<and> pd_Approvals db' = pd_Approvals db @ [d] \<and> pa_RequestID d = xc_RequestID cmd"
proof -
  obtain r where r: "purgeRequestByIDOn db (xc_RequestID cmd) = Inr r" and act: "withdraw_act s db cmd r who now ids = Inr (db', v)"
    using WithdrawPurge_Inr [OF assms(1)] assms(2) by blast
  obtain kinds authz db2 r' d where t: "closePurgeTransition s db r (purgeRequestScope r) (xc_RequestIDKey cmd)
        (purgeCommandHash (withdrawPurgeCommandShape cmd)) (p_SubjectID who) now who kinds authz withdraw_gate
        (withdraw_transition (purgeRequestScope r) who (approvalIDsOn db (pq_RequestID r)) (xc_Reason cmd) now ids) = Inr (db2, r', d)"
    and db': "db' = completePurgeIdempotencyOn db2 (pq_TenantID r) (xc_RequestIDKey cmd) (pq_RequestID r) (stored_close v) now"
    using withdraw_act_Inr [OF act] by blast
  obtain db1 cur h where k: "reserveIdempotencyKey db (pq_TenantID r) (xc_RequestIDKey cmd)
        (purgeCommandHash (withdrawPurgeCommandShape cmd)) (p_SubjectID who) now = Inr db1"
    and g: "withdraw_gate r = None"
    and c: "close_record s db1 r (purgeRequestScope r) now who cur h
       (withdraw_transition (purgeRequestScope r) who (approvalIDsOn db (pq_RequestID r)) (xc_Reason cmd) now ids r cur) = Inr (db2, r', d)"
    using t unfolding closePurgeTransition_Inr by blast
  define a where "a = decision_row (ids 0) r (approvalIDsOn db (pq_RequestID r)) PurgeApprovalDecisionWithdrawn (ComputeLifecycleSnapshotHash cur)
     (close_hash r (purgeRequestScope r) cur PurgeLifecycleStored (approvalIDsOn db (pq_RequestID r))) who (xc_Reason cmd) now"
  obtain db2' db3 db4 db5 rec ev ra pl row where w: "close_flip db1 r (le_Action ev) = Inr (db2', r')" "insertPurgeApprovalOn db2' a = Inr db3"
      "insertLifecycleEventOn db3 ev = Inr db4" "emitObjectReceipt s db4 (pq_ObjectID r) ra pl now = Inr (db5, rec)"
      "db2 = upsertRetentionStateOn db5 row"
    using c unfolding withdraw_transition_def Let_def close_record_Inr a_def [symmetric] by auto
  have "pd_Approvals db2' = pd_Approvals db"
    using w(1) reserve_Inr [OF k] by (auto simp: close_flip_def Let_def guard_simps split: if_splits dest!: request_update_Inr)
  then have "pd_Approvals db' = pd_Approvals db @ [a]"
    using approval_Inr [OF w(2)] event_Inr [OF w(3)] emit_Inr [OF w(4)]
    by (auto simp: db' w(5) upsertRetentionStateOn_def completePurgeIdempotencyOn_def)
  moreover have "pq_Status r = PurgeRequestStatusApproved"
    using g by (auto simp: withdraw_gate_def split: if_splits)
  ultimately show ?thesis using r request_by_id_D [OF r] by (auto simp: a_def decision_row_def)
qed

lemma two_decisions_block:
  assumes "ApprovePurge s db cmd who now ids = Inr (db', v)" and "2 \<le> length (decisions_of db (ac_RequestID cmd))"
  shows "av_IdempotentReplay v"
proof (rule ccontr)
  assume "\<not> av_IdempotentReplay v"
  then obtain r where r: "purgeRequestByIDOn db (ac_RequestID cmd) = Inr r" and act: "approve_act s db cmd r who now ids = Inr (db', v)"
    using ApprovePurge_Inr [OF assms(1)] by blast
  obtain db1 p el cur h order where k: "reserveIdempotencyKey db (pq_TenantID r) (ac_RequestIDKey cmd)
          (purgeCommandHash (approvePurgeCommandShape cmd)) (p_SubjectID who) now = Inr db1"
    and g: "approve_gates db1 cmd r (purgeRequestScope r) who = Inr (p, el, cur, h, order)"
    using act unfolding approve_act_Inr by blast
  have "length (approvalIDsOn db1 (pq_RequestID r)) = length (decisions_of db (ac_RequestID cmd))"
    using reserve_Inr [OF k] request_by_id_D [OF r] by (auto simp: length_approvalIDsOn)
  then obtain x y zs where "approvalIDsOn db1 (pq_RequestID r) = x # y # zs"
    using assms(2) by (metis Suc_le_length_iff numeral_2_eq_2)
  then show False using approve_gates_Inr [OF g] by (simp add: approval_position_def)
qed

lemma decisions_of_mono: "prefix (pd_Approvals db) (pd_Approvals db') \<Longrightarrow> length (decisions_of db i) \<le> length (decisions_of db' i)"
  by (auto elim!: prefixE)

text \<open>
  C25: Once an approved purge was withdrawn, its object can never be purged again: the next request
  reuses the same row, whose decision ledger then holds the old approval and the withdrawal, and
  with two decisions no approval other than a replay succeeds, whatever happens in between.
\<close>

theorem withdrawn_purge_never_approved:
  assumes "purge_reach s w fs" and "WithdrawPurge s (w_DB w) cl who now ids = Inr (db', v)" and "\<not> xr_IdempotentReplay v"
    and "(purge_step s)\<^sup>*\<^sup>* (w\<lparr>w_DB := db'\<rparr>, fs) (w'', fs'')"
    and "ac_RequestID ap = xc_RequestID cl"
  shows "ApprovePurge s (w_DB w'') ap who' now' ids' = Inr (db'', v') \<longrightarrow> av_IdempotentReplay v'"
proof
  assume ap: "ApprovePurge s (w_DB w'') ap who' now' ids' = Inr (db'', v')"
  let ?i = "xc_RequestID cl"
  obtain r d where r: "purgeRequestByIDOn (w_DB w) ?i = Inr r" "pq_Status r = PurgeRequestStatusApproved"
      "pd_Approvals db' = pd_Approvals (w_DB w) @ [d]" "pa_RequestID d = ?i"
    using WithdrawPurge_effect [OF assms(2,3)] by blast
  have "decided (w_DB w) ?i"
    using purge_reach_inv [OF assms(1)] request_by_id_D [OF r(1)] r(2) by (auto simp: system_inv_def purge_inv_def requests_inv_def)
  then have "decisions_of (w_DB w) ?i \<noteq> []" by (auto simp: decided_def filter_empty_conv)
  then have "2 \<le> length (decisions_of db' ?i)" using r(3,4) by (simp add: Suc_leI)
  also have "\<dots> \<le> length (decisions_of (w_DB w'') ?i)"
    using purge_steps_ledgers [OF assms(4)] by (intro decisions_of_mono) (simp add: ledgers_evolve_def)
  finally show "av_IdempotentReplay v'" using two_decisions_block [OF ap] assms(5) by simp
qed

lemma approve_act_effect_id:
  assumes "ApprovePurge s db cmd who now ids = Inr (db', v)" and "\<not> av_IdempotentReplay v"
  shows "pd_Approvals db' = pd_Approvals db @ [av_Approval v] \<and> pa_ApprovalID (av_Approval v) = ids 0"
proof -
  obtain r where "approve_act s db cmd r who now ids = Inr (db', v)" using ApprovePurge_Inr [OF assms(1)] assms(2) by blast
  then obtain db1 p el cur h order db2 r' ap where k: "reserveIdempotencyKey db (pq_TenantID r) (ac_RequestIDKey cmd)
          (purgeCommandHash (approvePurgeCommandShape cmd)) (p_SubjectID who) now = Inr db1"
    and rec: "approve_record s db1 cmd r (purgeRequestScope r) who p el cur h order now (ids 0) (ids 1) = Inr (db2, r', ap)"
    and v: "v = \<lparr>av_Request = r', av_Approval = ap, av_ApprovalOrder = order, av_IdempotentReplay = False\<rparr>"
    and db': "db' = completePurgeIdempotencyOn db2 (pq_TenantID r) (ac_RequestIDKey cmd) (pq_RequestID r) (stored_approve v) now"
    unfolding approve_act_Inr by blast
  then show ?thesis using approve_record_effect [OF rec] reserve_Inr [OF k] by (auto simp: db' completePurgeIdempotencyOn_def)
qed

lemma demo_withdraw:
  obtains db db' v where "WithdrawPurge None db demo_close_cmd (actor ''bob'') demo_time (ids_of [''d1'', ''e4'']) = Inr (db', v)"
    "purge_reach None (stored_world\<lparr>w_DB := db\<rparr>) []" "pd_Requests db = [approved_row]" "\<not> xr_IdempotentReplay v"
proof -
  obtain db0 es ks ss a es' ks' ss' v0 where db0: "db0 = stored_db\<lparr>pd_Requests := [demo_row], pd_Events := es, pd_States := ss, pd_Keys := ks\<rparr>"
    and ap: "ApprovePurge None db0 (demo_approve_cmd db0) (actor ''bob'') demo_time (ids_of [''a1'', ''e3'']) =
      Inr (db0\<lparr>pd_Approvals := [a], pd_Requests := [approved_row], pd_Events := es', pd_States := ss', pd_Keys := ks'\<rparr>, v0)"
    and i: "map le_EventID es' = [''e1'', ''e2'', ''e3'']" "map ik_RequestID ks' = [''k1'', ''k2'']" "list_all (\<lambda>s. rt_PolicyID s = demo_id) ss'"
    and r: "purge_reach None (stored_world\<lparr>w_DB := db0\<lparr>pd_Approvals := [a], pd_Requests := [approved_row], pd_Events := es', pd_States := ss', pd_Keys := ks'\<rparr>\<rparr>) []"
    by (rule demo_approved)
  define db where "db = db0\<lparr>pd_Approvals := [a], pd_Requests := [approved_row], pd_Events := es', pd_States := ss', pd_Keys := ks'\<rparr>"
  have "db \<noteq> db0" by (auto simp: db_def db0 dest!: arg_cong [of _ _ pd_Approvals])
  then have "\<not> av_IdempotentReplay v0"
    using ApprovePurge_Inr [OF ap] unfolding approve_act_Inr db_def by auto
  from approve_act_effect_id [OF ap this] have a: "pa_ApprovalID a = ''a1''" by (simp add: db0 ids_of_def)
  have es: "le_EventID ` set es' = {''e1'', ''e2'', ''e3''}" and ks: "ik_RequestID ` set ks' = {''k1'', ''k2''}"
    using i(1,2) by (metis list.set_map list.simps(15) empty_set)+
  have "''k3'' \<notin> ik_RequestID ` set ks'" by (simp add: ks)
  then have "find (\<lambda>k. ik_TenantID k = ''o'' \<and> ik_RequestID k = ''k3'') ks' = None" by (force simp: find_None_iff)
  then have key: "idempotencyRowOn db ''o'' ''k3'' = None" by (simp add: idempotencyRowOn_def db_def)
  have env: "demo_env (db\<lparr>pd_Keys := k\<rparr>)" for k using stored_env by (simp add: demo_env_def db_def db0)
  have cur: "\<exists>c h. currentPurgeSnapshotOn (db\<lparr>pd_Keys := k\<rparr>) demo_object demo_scope (rp_BlockingHoldKinds demo_policy) = Inr (c, h)" for k
    using demo_snapshot [OF env, of k] i(3) by (simp add: db_def demo_policy_def list_all_iff)
  have "\<exists>x. closePurgeTransition None db approved_row demo_scope ''k3'' (purgeCommandHash (withdrawPurgeCommandShape demo_close_cmd)) ''bob'' demo_time
     (actor ''bob'') (rp_BlockingHoldKinds demo_policy) (authorizePurgeAct (actor ''bob'') demo_scope ActionWithdrawApproval ''invoice'' False '''' '''')
     withdraw_gate (withdraw_transition demo_scope (actor ''bob'') (approvalIDsOn db demo_id) (xc_Reason demo_close_cmd) demo_time (ids_of [''d1'', ''e4''])) = Inr x"
  proof (rule closePurgeTransition_ok [where action = PurgeEventWithdrawn and i = "''e4''" and j = "''d1''"])
    show "''e4'' \<notin> le_EventID ` set (pd_Events db)" by (simp add: db_def es)
    show "''d1'' \<notin> pa_ApprovalID ` set (pd_Approvals db)" by (simp add: db_def a)
    show "\<exists>c h. currentPurgeSnapshotOn (db\<lparr>pd_Keys := k\<rparr>) (pq_ObjectID approved_row) demo_scope (rp_BlockingHoldKinds demo_policy) = Inr (c, h)" for k
      using cur by simp
    show "idempotencyRowOn db (pq_TenantID approved_row) ''k3'' = None" using key by simp
  qed (simp_all add: db_def withdraw_gate_def demo_close_authorized withdraw_transition_def Let_def lifecycle_event_def decision_row_def
        ids_of_def close_status_def status_guard_def nextDecisionOrder_def)
  then obtain db2 r' d where t: "closePurgeTransition None db approved_row demo_scope ''k3'' (purgeCommandHash (withdrawPurgeCommandShape demo_close_cmd)) ''bob'' demo_time
     (actor ''bob'') (rp_BlockingHoldKinds demo_policy) (authorizePurgeAct (actor ''bob'') demo_scope ActionWithdrawApproval ''invoice'' False '''' '''')
     withdraw_gate (withdraw_transition demo_scope (actor ''bob'') (approvalIDsOn db demo_id) (xc_Reason demo_close_cmd) demo_time (ids_of [''d1'', ''e4''])) = Inr (db2, r', d)"
    by auto
  have find: "purgeRequestByIDOn db demo_id = Inr approved_row" "retentionPolicyByIDOn db demo_id = Some demo_policy"
    by (simp_all add: purgeRequestByIDOn_def retentionPolicyByIDOn_def db_def db0)
  have "\<exists>db' v. withdraw_act None db demo_close_cmd approved_row (actor ''bob'') demo_time (ids_of [''d1'', ''e4'']) = Inr (db', v) \<and> \<not> xr_IdempotentReplay v"
    using t by (simp add: withdraw_act_def Let_def find)
  then obtain db' v where act: "withdraw_act None db demo_close_cmd approved_row (actor ''bob'') demo_time (ids_of [''d1'', ''e4'']) = Inr (db', v)"
    and v: "\<not> xr_IdempotentReplay v" by blast
  have "replayPurgeIdempotencyOn db ''o'' ''k3'' h a = Inr None" for h a
    using key by (simp add: replayPurgeIdempotencyOn_def)
  with act have "WithdrawPurge None db demo_close_cmd (actor ''bob'') demo_time (ids_of [''d1'', ''e4'']) = Inr (db', v)"
    by (simp add: WithdrawPurge_def find with_idempotency_def)
  from that [OF this r [folded db_def] _ v] show thesis by (simp add: db_def)
qed

theorem withdrawn_purge_never_approved_witness:
  "\<exists>w db' v. purge_reach None w [] \<and> pd_Requests (w_DB w) = [approved_row]
     \<and> WithdrawPurge None (w_DB w) demo_close_cmd (actor ''bob'') demo_time (ids_of [''d1'', ''e4'']) = Inr (db', v)
     \<and> (\<forall>ap who now ids db'' v'. ac_RequestID ap = demo_id \<longrightarrow> ApprovePurge None db' ap who now ids = Inr (db'', v') \<longrightarrow> av_IdempotentReplay v')"
proof -
  obtain db db' v where w: "WithdrawPurge None db demo_close_cmd (actor ''bob'') demo_time (ids_of [''d1'', ''e4'']) = Inr (db', v)"
    "purge_reach None (stored_world\<lparr>w_DB := db\<rparr>) []" "pd_Requests db = [approved_row]" "\<not> xr_IdempotentReplay v"
    by (rule demo_withdraw)
  have "\<forall>ap who now ids db'' v'. ac_RequestID ap = demo_id \<longrightarrow> ApprovePurge None db' ap who now ids = Inr (db'', v') \<longrightarrow> av_IdempotentReplay v'"
    using withdrawn_purge_never_approved [OF w(2) _ w(4), of demo_close_cmd "actor ''bob''" demo_time "ids_of [''d1'', ''e4'']" db'
        "stored_world\<lparr>w_DB := db\<rparr>\<lparr>w_DB := db'\<rparr>" "[]"] w(1) by simp
  with w show ?thesis by (intro exI [of _ "stored_world\<lparr>w_DB := db\<rparr>"] exI [of _ db'] exI [of _ v]) simp
qed

end
