(* ===== verification/Lifecycle_Run.thy ===== *)
theory Lifecycle_Run
  imports Lifecycle_System
begin

text \<open>
  What the evidence lifecycle promises over every reachable state, and a run that reaches one: a
  policy is put, an object stored, a legal hold placed and a second policy version put.
\<close>

section \<open>A run\<close>

definition demo_put :: "string \<Rightarrow> int \<Rightarrow> PutRetentionPolicyCommand" where
  "demo_put key v = \<lparr>rk_Scope = demo_scope, rk_Jurisdiction = ''PE'', rk_Legislation = ''NATIONAL-TAX'', rk_Authority = ''SUNAT'',
     rk_Source = ''board'', rk_Category = ''invoice'', rk_MinPeriod = ''202001'', rk_ExpectedVersion = v,
     rk_DualApprovalRequired = False, rk_DualApproverRoles = [], rk_BlockingHoldKinds = [''legal''], rk_Enabled = True, rk_RequestID = key\<rparr>"

definition put_row :: "string \<Rightarrow> int \<Rightarrow> string \<Rightarrow> RetentionPolicy" where
  "put_row i v prev = sample_policy\<lparr>rp_PolicyID := i, rp_Version := v, rp_SupersedesPolicyID := prev,
     rp_DualApproverRoles := sort DefaultDualApproverRoles, rp_BlockingHoldKinds := [''legal''], rp_CreatedAt := demo_time,
     rp_CreatedBy := ''alice''\<rparr>"

definition demo_id2 :: string where "demo_id2 = replicate 36 (CHR ''b'')"

lemma demo_id2_ok [simp]: "policyIDPattern demo_id2" "demo_id2 \<noteq> demo_id" "demo_id \<noteq> demo_id2"
  by (simp_all add: policyIDPattern_def demo_id2_def demo_id_def is_lower_hex_def numeral_eq_Suc upt_rec)

lemma demo_put_guards: "key = ''p1'' \<or> key = ''p2'' \<Longrightarrow> 0 \<le> v \<Longrightarrow> put_guards (demo_put key v) (actor ''alice'') = Inr ()"
  by (auto simp: put_guards_def demo_put_def demo_defs AssertValidRetentionScope_def AssertValidScope_def IsValidRUC_def IsValidPeriod_def
      text_eval authorizeRetentionPolicyPut_def actor_def sample_principal_def retentionRoleDenied_def retentionHasAnyRole_def and_then_def)

lemma put_row_valid:
  assumes "policyIDPattern i" and "1 \<le> v"
  shows "AssertValidRetentionPolicy ((put_row i v prev)\<lparr>rp_DualApproverRoles := []\<rparr>) = Inr (put_row i v prev)"
  using assms by (simp add: AssertValidRetentionPolicy_def put_row_def sample_policy_def AssertValidRetentionScope_def company_scope_def
      AssertValidScope_def IsValidRUC_def IsValidPeriod_def text_eval and_then_def canonicalRoleList_def IsValidRetentionHoldKind_def
      dedup_def)

lemma demo_put_act:
  assumes "chain_head db (command_tuple (demo_put key v)) = (v, prev)" and "policyIDPattern i" and "0 \<le> v"
    and "\<forall>p \<in> set (pd_Policies db). rp_PolicyID p \<noteq> i \<and> rp_Version p \<noteq> v + 1"
  shows "put_act db (demo_put key v) (actor ''alice'') demo_time i
     = Inr (db\<lparr>pd_Policies := pd_Policies db @ [put_row i (v + 1) prev]\<rparr>, put_row i (v + 1) prev)"
proof -
  have "AssertValidRetentionPolicy
      \<lparr>rp_PolicyID = i, rp_TenantID = ''o'', rp_CompanyID = ''c'', rp_RUC = ''20100070970'', rp_Period = ''202601'',
       rp_Jurisdiction = ''PE'', rp_Legislation = ''NATIONAL-TAX'', rp_Authority = ''SUNAT'', rp_Source = ''board'', rp_Category = ''invoice'',
       rp_MinPeriod = ''202001'', rp_Version = v + 1, rp_SupersedesPolicyID = prev, rp_DualApprovalRequired = False, rp_DualApproverRoles = [],
       rp_BlockingHoldKinds = [''legal''], rp_Enabled = True, rp_CreatedAt = demo_time, rp_CreatedBy = ''alice''\<rparr> = Inr (put_row i (v + 1) prev)"
    using put_row_valid [OF assms(2), of "v + 1" prev] assms(3) by (simp add: put_row_def sample_policy_def)
  moreover have "insertRetentionPolicyOn db (put_row i (v + 1) prev) = Inr (db\<lparr>pd_Policies := pd_Policies db @ [put_row i (v + 1) prev]\<rparr>)"
    using assms(3,4) by (auto simp: insertRetentionPolicyOn_def put_row_def sample_policy_def list_ex_iff text_eval)
  ultimately show ?thesis
    using assms(1) by (simp add: put_act_def demo_put_def and_then_def)
qed

definition run_db :: "RetentionPolicy list \<Rightarrow> EvidenceObject list \<Rightarrow> EvidenceHold list \<Rightarrow> PurgeDB" where
  "run_db ps os hs = empty_db\<lparr>pd_Policies := ps, pd_Objects := os, pd_Holds := hs\<rparr>"

lemma run_db_simps [simp]:
  "pd_Policies (run_db ps os hs) = ps" "pd_Objects (run_db ps os hs) = os" "pd_Holds (run_db ps os hs) = hs"
  "(run_db ps os hs)\<lparr>pd_Policies := ps'\<rparr> = run_db ps' os hs"
  "(run_db ps os hs)\<lparr>pd_Holds := hs'\<rparr> = run_db ps os hs'"
  "(run_db ps os hs)\<lparr>pd_Objects := os'\<rparr> = run_db ps os' hs"
  by (simp_all add: run_db_def)

definition run0 :: LifecycleDB where
  "run0 = \<lparr>ld_Purge = run_db [] [] [], ld_HoldKeys = [], ld_PolicyKeys = []\<rparr>"

lemma demo_put_run:
  assumes "chain_head (ld_Purge db) (command_tuple (demo_put key v)) = (v, prev)" and "policyIDPattern i" and "0 \<le> v"
    and "\<forall>p \<in> set (pd_Policies (ld_Purge db)). rp_PolicyID p \<noteq> i \<and> rp_Version p \<noteq> v + 1"
    and "key = ''p1'' \<or> key = ''p2''" and "\<forall>k \<in> set (ld_PolicyKeys db). ky_RequestID k \<noteq> key"
  obtains ks where "PutRetentionPolicy db (demo_put key v) (actor ''alice'') demo_time i
     = Inr (db\<lparr>ld_Purge := (ld_Purge db)\<lparr>pd_Policies := pd_Policies (ld_Purge db) @ [put_row i (v + 1) prev]\<rparr>, ld_PolicyKeys := ks\<rparr>,
         \<lparr>rv_Policy = put_row i (v + 1) prev, rv_Created = True, rv_IdempotentReplay = False\<rparr>)"
    "ky_RequestID ` set ks \<subseteq> insert key (ky_RequestID ` set (ld_PolicyKeys db))"
proof -
  have "find (\<lambda>k. ky_TenantID k = t \<and> ky_RequestID k = key) (ld_PolicyKeys db) = None" for t
    using assms(6) by (force simp: find_None_iff)
  then have "replay_key (ld_PolicyKeys db) t key c a = Inr None" for t c a by (simp add: replay_key_def)
  moreover have "rk_RequestID (demo_put key v) = key" "rk_Scope (demo_put key v) = demo_scope" by (simp_all add: demo_put_def)
  moreover define ks where "ks = complete_key (reserve_key (ld_PolicyKeys db) ''o'' key (retentionPutCommandHash (demo_put key v)) ''alice'' demo_time)
     ''o'' key (rp_PolicyID (put_row i (v + 1) prev)) (put_row i (v + 1) prev) demo_time"
  ultimately have p: "PutRetentionPolicy db (demo_put key v) (actor ''alice'') demo_time i
      = Inr (db\<lparr>ld_Purge := (ld_Purge db)\<lparr>pd_Policies := pd_Policies (ld_Purge db) @ [put_row i (v + 1) prev]\<rparr>, ld_PolicyKeys := ks\<rparr>,
          \<lparr>rv_Policy = put_row i (v + 1) prev, rv_Created = True, rv_IdempotentReplay = False\<rparr>)"
    using demo_put_guards [OF assms(5,3)] demo_put_act [OF assms(1,2,3,4)]
    by (simp add: PutRetentionPolicy_def and_then_def Let_def)
  have ks: "ky_RequestID ` set ks \<subseteq> insert key (ky_RequestID ` set (ld_PolicyKeys db))"
    by (auto simp: ks_def complete_key_def reserve_key_def)
  from that [OF p ks] show thesis .
qed

lemma demo_put_step:
  assumes "chain_head (ld_Purge db) (command_tuple (demo_put key v)) = (v, prev)" and "policyIDPattern i" and "0 \<le> v"
    and "\<forall>p \<in> set (pd_Policies (ld_Purge db)). rp_PolicyID p \<noteq> i \<and> rp_Version p \<noteq> v + 1"
    and "key = ''p1'' \<or> key = ''p2''" and "\<forall>k \<in> set (ld_PolicyKeys db). ky_RequestID k \<noteq> key"
  obtains ks where "lifecycle_step None (db, disk, fs)
     (db\<lparr>ld_Purge := (ld_Purge db)\<lparr>pd_Policies := pd_Policies (ld_Purge db) @ [put_row i (v + 1) prev]\<rparr>, ld_PolicyKeys := ks\<rparr>, disk, fs)"
    "ky_RequestID ` set ks \<subseteq> insert key (ky_RequestID ` set (ld_PolicyKeys db))"
  using demo_put_run [OF assms] ls_put that by metis


definition run_disk :: disk where
  "run_disk = (\<lambda>_. None)(ObjectRelPath demo_object := Some demo_bytes)"

abbreviation run_object :: EvidenceObject where
  "run_object \<equiv> object_row demo_input demo_time"

lemma run_store:
  "fst (StoreObject None False FiscalRuntimeLegacyCompat \<lparr>w_DB = run_db ps [] hs, w_Disk = (\<lambda>_. None)\<rparr> demo_input demo_time)
     = \<lparr>w_DB = run_db ps [run_object] hs, w_Disk = run_disk\<rparr>"
  by (simp add: StoreObject_def demo_input_def demo_scope_def company_scope_def AssertValidObjectScope_def AssertValidSource_def Let_def
      AssertValidScope_def IsValidRUC_def IsValidPeriod_def is_digit_def digit_val_def assertPeriodWritable_def empty_db_def and_then_def
      evidenceObjectByIDOn_def checkFiscalRuntimeGate_def CheckProtectedWrite_def insertEvidenceObject_def emitObjectReceipt_def
      emitReceipt_def run_disk_def run_db_def object_row_def ascii_space_def space2_def space3_def)

definition demo_place :: PlaceHoldCommand where
  "demo_place = \<lparr>hc_ObjectID = demo_object, hc_Kind = ''legal'', hc_Reason = ''suit'', hc_OwnerSubjectID = ''alice'', hc_RequestID = ''h1''\<rparr>"

definition run_hold :: EvidenceHold where
  "run_hold = \<lparr>h_HoldID = demo_id, h_ObjectID = demo_object, h_TenantID = ''o'', h_CompanyID = ''c'', h_RUC = ''20100070970'',
     h_Period = ''202601'', h_Kind = ''legal'', h_Reason = ''suit'', h_OwnerSubjectID = ''alice'', h_PlacedAt = demo_time,
     h_PlacedBy = ''alice'', h_LiftedAt = '''', h_LiftedBy = '''', h_LiftReason = ''''\<rparr>"

lemma run_place_act:
  "place_act None (run_db ps os []) demo_place demo_scope (actor ''alice'') demo_time demo_id = Inr (run_db ps os [run_hold], run_hold)"
proof -
  have "authorizeHoldAct (actor ''alice'') demo_scope ActionPlaceHold = Inr ()"
    by (simp add: authorizeHoldAct_def lifecycle_Authorize_def demo_defs contains_scope_def roleDenied_def lifecycleRoleAllowed_def
        hasAnyRole_def assuranceRank_def Let_def satisfies_def ladderRank_def actor_def sample_principal_def)
  moreover have "AssertValidEvidenceHold run_hold = Inr ()"
    by (simp add: AssertValidEvidenceHold_def run_hold_def and_then_def AssertValidObjectScope_def AssertValidScope_def company_scope_def
        IsValidRUC_def IsValidPeriod_def text_eval IsValidRetentionHoldKind_def)
  moreover have "insertHoldOn (run_db ps os []) run_hold = Inr (run_db ps os [run_hold])"
    by (simp add: insertHoldOn_def run_hold_def IsValidRetentionHoldKind_def)
  moreover have "sc_Kind demo_scope = ScopeKindCompany" by (simp add: demo_defs)
  ultimately show ?thesis
    by (simp add: place_act_def run_hold_def [symmetric] demo_place_def and_then_def emitObjectReceipt_def emitReceipt_def run_db_def
        empty_db_def)
qed

lemma run_place:
  assumes "ld_Purge db = run_db ps [run_object] []" and "ld_HoldKeys db = []"
  obtains ks where "lifecycle_step None (db, disk, fs) (db\<lparr>ld_Purge := run_db ps [run_object] [run_hold], ld_HoldKeys := ks\<rparr>, disk, fs)"
proof -
  have v: "AssertValidPlaceHoldCommand demo_place = Inr ()"
    by (simp add: AssertValidPlaceHoldCommand_def demo_place_def IsValidRetentionHoldKind_def text_eval)
  have o: "evidenceObjectByIDOn (run_db ps [run_object] []) (hc_ObjectID demo_place) = Some run_object"
    by (simp add: evidenceObjectByIDOn_def demo_place_def demo_input_def)
  obtain ks w where "PlaceHold None db demo_place (actor ''alice'') demo_time demo_id
      = Inr (db\<lparr>ld_Purge := run_db ps [run_object] [run_hold], ld_HoldKeys := ks\<rparr>, w)"
    unfolding PlaceHold_def assms v using o run_place_act [of ps "[run_object]"]
    by (simp add: and_then_def Let_def replay_key_def)
  from that [OF ls_place [OF this]] show thesis .
qed

text \<open>The state of the run: object, hold and first policy, then the second policy version.\<close>

lemma demo_lifecycle_put:
  obtains db db' v where "lifecycle_reach None (db, run_disk, [])" "lifecycle_step None (db, run_disk, []) (db', run_disk, [])"
    "ld_Purge db = run_db [put_row demo_id 1 ''''] [run_object] [run_hold]"
    "ld_Purge db' = run_db [put_row demo_id 1 '''', put_row demo_id2 2 demo_id] [run_object] [run_hold]"
    "PutRetentionPolicy db (demo_put ''p2'' 1) (actor ''alice'') demo_time demo_id2 = Inr (db', v)"
    "\<not> rv_IdempotentReplay v" "rv_Policy v = put_row demo_id2 2 demo_id"
proof -
  have r0: "lifecycle_reach None (run0, (\<lambda>_. None), [])"
    by (rule lr_start) (simp_all add: run0_def run_db_def empty_db_def)
  have p0: "ld_Purge run0 = run_db [] [] []" by (simp add: run0_def)
  obtain ks1 where s1: "lifecycle_step None (run0, (\<lambda>_. None), [])
      (run0\<lparr>ld_Purge := run_db [put_row demo_id 1 ''''] [] [], ld_PolicyKeys := ks1\<rparr>, (\<lambda>_. None), [])" (is "lifecycle_step _ _ (?db1, _, _)")
    and k1: "ky_RequestID ` set ks1 \<subseteq> {''p1''}"
    by (rule demo_put_step [of run0 "''p1''" 0 "''''" demo_id "\<lambda>_. None" "[]"])
      (simp_all add: p0 chain_head_def run0_def)
  let ?db2 = "?db1\<lparr>ld_Purge := run_db [put_row demo_id 1 ''''] [run_object] []\<rparr>"
  have s2: "lifecycle_step None (?db1, (\<lambda>_. None), []) (?db2, run_disk, [])"
    using ls_purge [OF step_store [of None "world_of ?db1 (\<lambda>_. None)" "[]" False FiscalRuntimeLegacyCompat demo_input demo_time]]
    by (simp add: run_store)
  obtain hk where s3: "lifecycle_step None (?db2, run_disk, [])
      (?db2\<lparr>ld_Purge := run_db [put_row demo_id 1 ''''] [run_object] [run_hold], ld_HoldKeys := hk\<rparr>, run_disk, [])"
      (is "lifecycle_step _ _ (?db3, _, _)")
    by (rule run_place [of ?db2 "[put_row demo_id 1 '''']" run_disk "[]"]) (simp_all add: run0_def)
  have r3: "lifecycle_reach None (?db3, run_disk, [])"
    using lr_step [OF lr_step [OF lr_step [OF r0 s1] s2] s3] .
  have "chain_head (ld_Purge ?db3) (command_tuple (demo_put ''p2'' 1)) = (1, demo_id)"
    by (simp add: chain_head_def policy_tuple_def command_tuple_def demo_put_def put_row_def sample_policy_def)
  moreover have "\<forall>k \<in> set (ld_PolicyKeys ?db3). ky_RequestID k \<noteq> ''p2''" using k1 by auto
  ultimately obtain ks2 where p4: "PutRetentionPolicy ?db3 (demo_put ''p2'' 1) (actor ''alice'') demo_time demo_id2 = Inr
      (?db3\<lparr>ld_Purge := run_db [put_row demo_id 1 '''', put_row demo_id2 2 demo_id] [run_object] [run_hold], ld_PolicyKeys := ks2\<rparr>,
       \<lparr>rv_Policy = put_row demo_id2 2 demo_id, rv_Created = True, rv_IdempotentReplay = False\<rparr>)"
    by (rule_tac demo_put_run [of ?db3 "''p2''" 1 demo_id demo_id2]) (simp_all add: put_row_def sample_policy_def)
  show thesis by (rule that [OF r3 ls_put [OF p4] _ _ p4]) simp_all
qed

lemma demo_lifecycle:
  obtains db db' where "lifecycle_reach None (db, run_disk, [])" "lifecycle_step None (db, run_disk, []) (db', run_disk, [])"
    "ld_Purge db = run_db [put_row demo_id 1 ''''] [run_object] [run_hold]"
    "ld_Purge db' = run_db [put_row demo_id 1 '''', put_row demo_id2 2 demo_id] [run_object] [run_hold]"
  using demo_lifecycle_put that by metis

section \<open>Properties\<close>

text \<open>
  C27: A legal hold keeps bytes. From any reachable state, along any further steps of the pipeline
  and of the hold and policy handlers, an object whose bytes are on disk and which carries a hold
  that is still not lifted at the end, of a kind every enabled policy blocks on, still has its
  bytes on disk, and they still hash to its id.
\<close>

theorem held_bytes_survive:
  assumes "lifecycle_reach s (db, disk, fs)" and "(lifecycle_step s)\<^sup>*\<^sup>* (db, disk, fs) (db', disk', fs')"
    and "ob \<in> set (pd_Objects (ld_Purge db))" and "disk (eo_RelPath ob) \<noteq> None" and "h \<in> set (pd_Holds (ld_Purge db))"
    and "h' \<in> set (pd_Holds (ld_Purge db'))" and "h_HoldID h' = h_HoldID h" and "protects (ld_Purge db') h' (eo_ObjectID ob)"
  shows "\<exists>bytes. disk' (eo_RelPath ob) = Some bytes \<and> ComputeObjectID bytes = eo_ObjectID ob"
  by (rule held_bytes_kept [OF assms])

theorem held_bytes_survive_witness:
  "\<exists>db db'. lifecycle_reach None (db, run_disk, []) \<and> lifecycle_step None (db, run_disk, []) (db', run_disk, [])
     \<and> run_hold \<in> set (pd_Holds (ld_Purge db)) \<and> (\<exists>bytes. run_disk (eo_RelPath run_object) = Some bytes \<and> ComputeObjectID bytes = eo_ObjectID run_object)"
proof -
  obtain db db' where r: "lifecycle_reach None (db, run_disk, [])" and st: "lifecycle_step None (db, run_disk, []) (db', run_disk, [])"
    and d: "ld_Purge db = run_db [put_row demo_id 1 ''''] [run_object] [run_hold]"
      "ld_Purge db' = run_db [put_row demo_id 1 '''', put_row demo_id2 2 demo_id] [run_object] [run_hold]"
    by (rule demo_lifecycle)
  have o: "eo_ObjectID run_object = demo_object" "run_disk (eo_RelPath run_object) = Some demo_bytes"
    by (simp_all add: demo_input_def run_disk_def object_row_def Let_def)
  have "protects (ld_Purge db') run_hold (eo_ObjectID run_object)"
    using o by (simp add: d protects_def run_hold_def put_row_def)
  from held_bytes_survive [OF r r_into_rtranclp [of "lifecycle_step None", OF st] _ _ _ _ _ this] r st o show ?thesis
    by (intro exI [of _ db] exI [of _ db']) (simp add: d)
qed

text \<open>
  C28: In every reachable state the resolution of a retention tuple succeeds: it finds the last
  enabled version of the tuple's chain or nothing, and is never ambiguous. A tuple that resolves
  once resolves for ever, to versions that never go back: a later version that is not enabled
  leaves the last enabled one in force.
\<close>

theorem policy_resolution_monotone:
  assumes "lifecycle_reach s (db, disk, fs)" and "(lifecycle_step s)\<^sup>*\<^sup>* (db, disk, fs) (db', disk', fs')"
    and "resolution_input scope j l c"
  shows "\<exists>m m'. resolveRetentionPolicyOn (ld_Purge db) scope j l c = Inr m \<and> resolveRetentionPolicyOn (ld_Purge db') scope j l c = Inr m'
     \<and> (\<forall>p. m = Some p \<longrightarrow> (\<exists>p'. m' = Some p' \<and> rp_Enabled p' \<and> rp_Version p \<le> rp_Version p'))"
proof -
  let ?es = "\<lambda>d. filter rp_Enabled (chain_of (ld_Purge d) (tuple_of scope j l c))"
  have reach: "lifecycle_reach s (db', disk', fs')" by (rule lifecycle_reach_steps [OF assms(2,1)])
  have inv: "policies_inv (ld_Purge db)" "policies_inv (ld_Purge db')"
    using lifecycle_reach_records [OF assms(1)] lifecycle_reach_records [OF reach] by (simp_all add: records_inv_def)
  have "prefix (pd_Policies (ld_Purge db)) (pd_Policies (ld_Purge db'))"
    using lifecycle_steps_records [OF assms(2)] by (simp add: records_evolve_def)
  then have "prefix (?es db) (?es db')" by (auto simp: chain_of_def prefix_def)
  moreover have "sorted_wrt (<) (map rp_Version (?es db'))"
    using chain_ok_sorted [of "chain_of (ld_Purge db') (tuple_of scope j l c)"] inv(2)
    by (simp add: policies_inv_def sorted_wrt_map sorted_wrt_filter)
  ultimately have "?es db' \<noteq> [] \<and> rp_Enabled (last (?es db')) \<and> rp_Version (last (?es db)) \<le> rp_Version (last (?es db'))"
    if "?es db \<noteq> []" using enabled_last_grows [OF _ _ that] by simp
  then show ?thesis by (simp add: resolution_on_chains [OF inv(1) assms(3)] resolution_on_chains [OF inv(2) assms(3)] Let_def)
qed

theorem policy_resolution_monotone_witness:
  "\<exists>db db'. lifecycle_reach None (db, run_disk, []) \<and> lifecycle_step None (db, run_disk, []) (db', run_disk, [])
     \<and> (\<exists>m'. resolveRetentionPolicyOn (ld_Purge db') demo_scope ''PE'' ''NATIONAL-TAX'' ''invoice'' = Inr m')"
proof -
  obtain db db' where r: "lifecycle_reach None (db, run_disk, [])" and st: "lifecycle_step None (db, run_disk, []) (db', run_disk, [])"
    by (rule demo_lifecycle)
  have "resolution_input demo_scope ''PE'' ''NATIONAL-TAX'' ''invoice''"
    by (simp add: resolution_input_def demo_defs AssertValidRetentionScope_def AssertValidScope_def IsValidRUC_def IsValidPeriod_def
        text_eval and_then_def)
  from policy_resolution_monotone [OF r r_into_rtranclp [of "lifecycle_step None", OF st] this]
  obtain m' where "resolveRetentionPolicyOn (ld_Purge db') demo_scope ''PE'' ''NATIONAL-TAX'' ''invoice'' = Inr m'"
    by (elim exE conjE) (rule that)
  with r st show ?thesis by (intro exI conjI)
qed

end
