(* ===== verification/Lifecycle_Registers.thy ===== *)
theory Lifecycle_Registers
  imports Lifecycle_Run
begin

text \<open>
  The registers of holds and retention policies as an abstract machine of guarded acts, and its
  refinement: every placement, lift and policy version the handlers commit is an allowed act on the
  registers, and every reachable register is the outcome of a run of allowed acts.
\<close>

section \<open>The abstract registers\<close>

record Registers =
  rg_Objects :: "EvidenceObject set"
  rg_Holds :: "EvidenceHold list"
  rg_Policies :: "RetentionPolicy list"

definition registers_of :: "LifecycleDB \<Rightarrow> Registers" where
  "registers_of db = \<lparr>rg_Objects = set (pd_Objects (ld_Purge db)), rg_Holds = pd_Holds (ld_Purge db),
     rg_Policies = pd_Policies (ld_Purge db)\<rparr>"

definition no_registers :: Registers where
  "no_registers = \<lparr>rg_Objects = {}, rg_Holds = [], rg_Policies = []\<rparr>"

text \<open>
  Who may act on the registers of a tenant: a member with a records role, no denied role and at
  least standard assurance. The hold and the policy handlers check it with code of their own.
\<close>

definition records_officer :: "Principal \<Rightarrow> string \<Rightarrow> bool" where
  "records_officer who tenant \<longleftrightarrow> p_TenantID who = tenant \<and> p_MembershipID who \<noteq> ''''
     \<and> RoleOperationalAccountant \<notin> set (p_Roles who) \<and> (\<forall>r \<in> set (p_Roles who). \<not> contains_sub ''admin'' (Role_str r))
     \<and> (RoleRecordsComplianceOfficer \<in> set (p_Roles who) \<or> RoleTenantRecordsOwner \<in> set (p_Roles who))
     \<and> (p_Assurance who = AssuranceStandard \<or> p_Assurance who = AssuranceStrong)"

text \<open>
  An act carries what its caller decides: the new hold; the hold to lift with reason and time; the
  version the caller expects at the head of the chain and the new policy.
\<close>

datatype RegisterAct =
    StoreObjects "EvidenceObject list"
  | PlaceAct Principal EvidenceHold
  | LiftAct Principal string string string
  | PutAct Principal int RetentionPolicy

fun register_apply :: "RegisterAct \<Rightarrow> Registers \<Rightarrow> Registers option" where
  "register_apply (StoreObjects os) g = Some (g\<lparr>rg_Objects := rg_Objects g \<union> set os\<rparr>)"
| "register_apply (PlaceAct who h) g =
     (if (\<exists>ob \<in> rg_Objects g. eo_ObjectID ob = h_ObjectID h \<and> eo_TenantID ob = h_TenantID h \<and> eo_CompanyID ob = h_CompanyID h)
         \<and> records_officer who (h_TenantID h) \<and> h_CompanyID h \<in> set (p_CompanyScopes who) \<and> h_PlacedBy h = p_SubjectID who
         \<and> IsValidRetentionHoldKind (h_Kind h) \<and> \<not> blank (h_Reason h) \<and> h_LiftedAt h = ''''
         \<and> h_HoldID h \<notin> h_HoldID ` set (rg_Holds g)
      then Some (g\<lparr>rg_Holds := rg_Holds g @ [h]\<rparr>) else None)"
| "register_apply (LiftAct who i reason now) g =
     (case find (\<lambda>h. h_HoldID h = i) (rg_Holds g) of
        None \<Rightarrow> None
      | Some h \<Rightarrow>
          if h_LiftedAt h = '''' \<and> \<not> blank reason \<and> records_officer who (h_TenantID h)
             \<and> h_CompanyID h \<in> set (p_CompanyScopes who)
          then Some (g\<lparr>rg_Holds := map (\<lambda>x. if h_HoldID x = i
                 then x\<lparr>h_LiftedAt := now, h_LiftedBy := p_SubjectID who, h_LiftReason := reason\<rparr> else x) (rg_Holds g)\<rparr>)
          else None)"
| "register_apply (PutAct who expected p) g =
     (let chain = filter (\<lambda>q. policy_tuple q = policy_tuple p) (rg_Policies g)
      in if records_officer who (rp_TenantID p) \<and> rp_CreatedBy p = p_SubjectID who
            \<and> expected = int (length chain) \<and> rp_Version p = expected + 1
            \<and> rp_SupersedesPolicyID p = (if chain = [] then '''' else rp_PolicyID (last chain))
            \<and> rp_PolicyID p \<notin> rp_PolicyID ` set (rg_Policies g)
         then Some (g\<lparr>rg_Policies := rg_Policies g @ [p]\<rparr>) else None)"

fun register_run :: "RegisterAct list \<Rightarrow> Registers \<Rightarrow> Registers option" where
  "register_run [] g = Some g"
| "register_run (a # acts) g = (case register_apply a g of None \<Rightarrow> None | Some g' \<Rightarrow> register_run acts g')"

lemma register_run_snoc:
  "register_run acts g = Some g' \<Longrightarrow> register_apply a g' = Some g'' \<Longrightarrow> register_run (acts @ [a]) g = Some g''"
  by (induction acts arbitrary: g) (auto split: option.splits)

section \<open>The guards of the handlers\<close>

lemma hold_act_officer:
  assumes "authorizeHoldAct who scope act = Inr ()" and "act = ActionPlaceHold \<or> act = ActionLiftHold"
  shows "records_officer who (sc_OrganizationID scope) \<and> sc_CompanyID scope \<in> set (p_CompanyScopes who)"
proof -
  have "lifecycle_Authorize \<lparr>lq_Action = act, lq_Principal = who, lq_ActorKind = ActorKindHuman,
      lq_TenantID = sc_OrganizationID scope, lq_CompanyID = sc_CompanyID scope, lq_Category = '''',
      lq_DualApprovalRequired = False, lq_Requester = None, lq_FirstApprover = None\<rparr> = None"
    using assms(1) by (simp add: authorizeHoldAct_def split: option.splits)
  then show ?thesis using assms(2)
    by (auto simp: lifecycle_Authorize_None records_officer_def roleDenied_def lifecycleRoleAllowed_def hasAnyRole_def list_ex_iff
        assurance_at_least_standard)
qed

lemma put_guards_officer:
  assumes "put_guards cmd who = Inr ()"
  shows "records_officer who (sc_OrganizationID (rk_Scope cmd))"
proof -
  have "authorizeRetentionPolicyPut who (sc_OrganizationID (rk_Scope cmd)) = Inr ()"
    using assms unfolding put_guards_def guard_simps by (auto split: if_splits)
  then show ?thesis
    by (auto simp: authorizeRetentionPolicyPut_def records_officer_def retentionRoleDenied_def retentionHasAnyRole_def list_ex_iff
        split: if_splits)
qed

section \<open>The handlers refine the registers\<close>

lemma PlaceHold_refines:
  assumes "PlaceHold s db cmd who now i = Inr (db', v)"
  shows "if hv_IdempotentReplay v then db' = db
     else register_apply (PlaceAct who (hv_Hold v)) (registers_of db) = Some (registers_of db')"
proof -
  obtain obj replay f u where valid: "AssertValidPlaceHoldCommand cmd = Inr u"
    and obj: "evidenceObjectByIDOn (ld_Purge db) (hc_ObjectID cmd) = Some obj"
    and rest: "(case replay of
          Some h \<Rightarrow> Inr (db, \<lparr>hv_Hold = h, hv_Created = False, hv_IdempotentReplay = True\<rparr>)
        | None \<Rightarrow> and_then (place_act s (ld_Purge db) cmd (company_scope (eo_TenantID obj) (eo_CompanyID obj) (eo_RUC obj) (eo_Period obj))
              who now i) (\<lambda>(purge, h).
               Inr (db\<lparr>ld_Purge := purge, ld_HoldKeys := f h\<rparr>,
                    \<lparr>hv_Hold = h, hv_Created = True, hv_IdempotentReplay = False\<rparr>))) = Inr (db', v)"
    using assms unfolding PlaceHold_def Let_def guard_simps by (elim exE conjE) (rule that)
  let ?scope = "company_scope (eo_TenantID obj) (eo_CompanyID obj) (eo_RUC obj) (eo_Period obj)"
  show ?thesis
  proof (cases replay)
    case None
    then obtain purge h where p: "place_act s (ld_Purge db) cmd ?scope who now i = Inr (purge, h)"
      and d: "db' = db\<lparr>ld_Purge := purge, ld_HoldKeys := f h\<rparr>" and v: "v = \<lparr>hv_Hold = h, hv_Created = True, hv_IdempotentReplay = False\<rparr>"
      using rest by (auto simp: guard_simps)
    obtain rs where r: "purge = (ld_Purge db)\<lparr>pd_Holds := pd_Holds (ld_Purge db) @ [h], pd_Receipts := rs\<rparr>"
      "h_HoldID h \<notin> h_HoldID ` set (pd_Holds (ld_Purge db))" "authorizeHoldAct who ?scope ActionPlaceHold = Inr ()" "h_LiftedAt h = ''''"
      using place_act_Inr [OF p] by blast
    have "h_TenantID h = eo_TenantID obj" "h_CompanyID h = eo_CompanyID obj" "h_ObjectID h = eo_ObjectID obj" "h_PlacedBy h = p_SubjectID who"
        "h_Kind h = hc_Kind cmd" "h_Reason h = hc_Reason cmd"
      using p object_by_id_D [OF obj] unfolding place_act_def Let_def guard_simps split_paired_Ex prod.case
      by (auto simp: company_scope_def)
    moreover have "IsValidRetentionHoldKind (hc_Kind cmd)" "\<not> blank (hc_Reason cmd)"
      using valid by (auto simp: AssertValidPlaceHoldCommand_def split: if_splits)
    moreover have "obj \<in> set (pd_Objects (ld_Purge db))" using object_by_id_D [OF obj] by simp
    ultimately show ?thesis using hold_act_officer [OF r(3)] r
      by (auto simp: registers_of_def d v company_scope_def)
  qed (use rest in auto)
qed

lemma LiftHold_refines:
  assumes "LiftHold s db cmd who now = Inr (db', v)" and "records_inv (ld_Purge db)"
  shows "if lv_IdempotentReplay v then db' = db
     else register_apply (LiftAct who (lc_HoldID cmd) (lc_Reason cmd) now) (registers_of db) = Some (registers_of db')"
proof -
  obtain hold replay f u where valid: "AssertValidLiftHoldCommand cmd = Inr u"
    and hold: "find (\<lambda>h. h_HoldID h = lc_HoldID cmd) (pd_Holds (ld_Purge db)) = Some hold"
    and rest: "(case replay of
          Some h \<Rightarrow> Inr (db, \<lparr>lv_Hold = h, lv_Lifted = True, lv_IdempotentReplay = True\<rparr>)
        | None \<Rightarrow> and_then (lift_act s (ld_Purge db) cmd hold who now) (\<lambda>(purge, h).
               Inr (db\<lparr>ld_Purge := purge, ld_HoldKeys := f h\<rparr>,
                    \<lparr>lv_Hold = h, lv_Lifted = True, lv_IdempotentReplay = False\<rparr>))) = Inr (db', v)"
    using assms(1) unfolding LiftHold_def Let_def guard_simps by (elim exE conjE) (rule that)
  show ?thesis
  proof (cases replay)
    case None
    then obtain purge h where p: "lift_act s (ld_Purge db) cmd hold who now = Inr (purge, h)"
      and d: "db' = db\<lparr>ld_Purge := purge, ld_HoldKeys := f h\<rparr>" and v: "\<not> lv_IdempotentReplay v"
      using rest by (auto simp: guard_simps)
    obtain rs where r: "purge = (liftHoldOn (ld_Purge db) (lc_HoldID cmd) now (p_SubjectID who) (lc_Reason cmd))\<lparr>pd_Receipts := rs\<rparr>"
      and l: "h_LiftedAt hold = ''''" using lift_act_Inr [OF p] by blast
    have "authorizeHoldAct who (company_scope (h_TenantID hold) (h_CompanyID hold) (h_RUC hold) (h_Period hold)) ActionLiftHold = Inr ()"
      using p unfolding lift_act_def Let_def guard_simps by auto
    from hold_act_officer [OF this] have o: "records_officer who (h_TenantID hold)" "h_CompanyID hold \<in> set (p_CompanyScopes who)"
      by (simp_all add: company_scope_def)
    have only: "x = hold" if "x \<in> set (pd_Holds (ld_Purge db))" "h_HoldID x = lc_HoldID cmd" for x
      using that find_SomeD [OF hold] assms(2) unfolding records_inv_def distinct_map by (metis (mono_tags, lifting) inj_onD)
    have "pd_Holds purge = map (\<lambda>x. if h_HoldID x = lc_HoldID cmd
        then x\<lparr>h_LiftedAt := now, h_LiftedBy := p_SubjectID who, h_LiftReason := lc_Reason cmd\<rparr> else x) (pd_Holds (ld_Purge db))"
      using only l by (auto simp: r liftHoldOn_def)
    moreover have "\<not> blank (lc_Reason cmd)" using valid by (auto simp: AssertValidLiftHoldCommand_def split: if_splits)
    ultimately show ?thesis using hold l o v by (simp add: registers_of_def d r liftHoldOn_def)
  qed (use rest in auto)
qed

lemma PutRetentionPolicy_refines:
  assumes "PutRetentionPolicy db cmd who now i = Inr (db', v)" and "records_inv (ld_Purge db)"
  shows "if rv_IdempotentReplay v then db' = db
     else register_apply (PutAct who (rk_ExpectedVersion cmd) (rv_Policy v)) (registers_of db) = Some (registers_of db')"
proof -
  have guards: "put_guards cmd who = Inr ()" using assms(1) unfolding PutRetentionPolicy_def guard_simps by auto
  obtain replay f where rest: "(case replay of
          Some p \<Rightarrow> Inr (db, \<lparr>rv_Policy = p, rv_Created = False, rv_IdempotentReplay = True\<rparr>)
        | None \<Rightarrow> and_then (put_act (ld_Purge db) cmd who now i) (\<lambda>(purge, p).
               Inr (db\<lparr>ld_Purge := purge, ld_PolicyKeys := f p\<rparr>,
                    \<lparr>rv_Policy = p, rv_Created = True, rv_IdempotentReplay = False\<rparr>))) = Inr (db', v)"
    using assms(1) unfolding PutRetentionPolicy_def Let_def guard_simps by (elim exE conjE) (rule that)
  show ?thesis
  proof (cases replay)
    case None
    then obtain purge p where p: "put_act (ld_Purge db) cmd who now i = Inr (purge, p)"
      and d: "db' = db\<lparr>ld_Purge := purge, ld_PolicyKeys := f p\<rparr>" and v: "v = \<lparr>rv_Policy = p, rv_Created = True, rv_IdempotentReplay = False\<rparr>"
      using rest by (auto simp: guard_simps)
    note e = put_act_Inr [OF p]
    have chain: "filter (\<lambda>q. policy_tuple q = policy_tuple p) (pd_Policies (ld_Purge db)) = chain_of (ld_Purge db) (command_tuple cmd)"
      using e by (simp add: chain_of_def)
    have "chain_ok (chain_of (ld_Purge db) (command_tuple cmd))" using assms(2) by (simp add: records_inv_def policies_inv_def)
    note head = chain_head_last [OF this]
    have "rp_TenantID p = sc_OrganizationID (rk_Scope cmd)" using e by (simp add: policy_tuple_def command_tuple_def)
    moreover have "rp_CreatedBy p = p_SubjectID who"
      using p unfolding put_act_def guard_simps split_paired_Ex prod.case AssertValidRetentionPolicy_def
      by (auto simp: guard_simps split: if_splits prod.splits)
    ultimately show ?thesis using put_guards_officer [OF guards] e head chain
      by (auto simp: registers_of_def d v Let_def)
  qed (use rest in auto)
qed

section \<open>Reachable registers\<close>

lemma lifecycle_step_acts:
  assumes "lifecycle_step s (db, disk, fs) (db', disk', fs')" and "records_inv (ld_Purge db)"
  shows "registers_of db' = registers_of db \<or> (\<exists>a. register_apply a (registers_of db) = Some (registers_of db'))"
  using assms(1)
proof (cases rule: lifecycle_step_cases)
  case (ls_purge w')
  have "set (pd_Objects (ld_Purge db)) \<subseteq> set (pd_Objects (w_DB w'))" 
    using purge_step_objects [of s "world_of db disk" fs w' fs'] ls_purge by simp
  then have "register_apply (StoreObjects (pd_Objects (w_DB w'))) (registers_of db) = Some (registers_of db')"
    using ls_purge by (auto simp: registers_of_def)
  then show ?thesis by blast
next
  case (ls_place pc who now i v1)
  from PlaceHold_refines [OF ls_place(1)] show ?thesis by (metis (full_types))
next
  case (ls_lift lc who now v2)
  from LiftHold_refines [OF ls_lift(1) assms(2)] show ?thesis by (metis (full_types))
next
  case (ls_put rk who now i v3)
  from PutRetentionPolicy_refines [OF ls_put(1) assms(2)] show ?thesis by (metis (full_types))
qed

lemma reachable_registers:
  "lifecycle_reach s st \<Longrightarrow> \<exists>acts. register_run acts no_registers = Some (registers_of (fst st))"
proof (induction rule: lifecycle_reach.induct)
  case (lr_start db)
  then have "register_run [] no_registers = Some (registers_of db)" by (simp add: registers_of_def no_registers_def)
  then show ?case by (simp del: register_run.simps) blast
next
  case (lr_step st st')
  then obtain acts where run: "register_run acts no_registers = Some (registers_of (fst st))" by blast
  have "records_inv (ld_Purge (fst st))" using lifecycle_reach_records lr_step(1) by blast
  then have "registers_of (fst st') = registers_of (fst st) \<or> (\<exists>a. register_apply a (registers_of (fst st)) = Some (registers_of (fst st')))"
    using lifecycle_step_acts lr_step(2) by (cases st, cases st') auto
  then show ?case using run register_run_snoc by metis
qed

section \<open>Property\<close>

text \<open>
  C29: The hold and policy handlers refine the guarded registers. In every reachable state of the
  evidence lifecycle, a placement that succeeds as a new act appends one active hold with a fresh id
  on a stored object of its tenant, placed by a records officer of that tenant and company; a lift
  finds its hold active, is made by such an officer with a reason, and closes that hold alone; a
  put appends, for a records officer, exactly the version after the one its caller expected at the
  head of the chain, superseding that head; and a success marked as a replay changes nothing. So
  the registers of a reachable state are the outcome of a run of such acts from empty registers.
\<close>

theorem handlers_refine_registers:
  assumes "lifecycle_reach s (db, disk, fs)"
  shows "(\<exists>acts. register_run acts no_registers = Some (registers_of db))
     \<and> (PlaceHold s db pc who now i = Inr (db1, v1) \<longrightarrow>
          (if hv_IdempotentReplay v1 then db1 = db
           else register_apply (PlaceAct who (hv_Hold v1)) (registers_of db) = Some (registers_of db1)))
     \<and> (LiftHold s db lc who now = Inr (db2, v2) \<longrightarrow>
          (if lv_IdempotentReplay v2 then db2 = db
           else register_apply (LiftAct who (lc_HoldID lc) (lc_Reason lc) now) (registers_of db) = Some (registers_of db2)))
     \<and> (PutRetentionPolicy db rk who now i = Inr (db3, v3) \<longrightarrow>
          (if rv_IdempotentReplay v3 then db3 = db
           else register_apply (PutAct who (rk_ExpectedVersion rk) (rv_Policy v3)) (registers_of db) = Some (registers_of db3)))"
proof -
  have inv: "records_inv (ld_Purge db)" using lifecycle_reach_records [OF assms] by simp
  have runs: "\<exists>acts. register_run acts no_registers = Some (registers_of db)" using reachable_registers [OF assms] by simp
  show ?thesis
    by (intro conjI impI runs PlaceHold_refines LiftHold_refines [OF _ inv] PutRetentionPolicy_refines [OF _ inv])
qed

theorem handlers_refine_registers_witness:
  "\<exists>db db' v. lifecycle_reach None (db, run_disk, []) \<and> rg_Holds (registers_of db) = [run_hold]
     \<and> rg_Policies (registers_of db) = [put_row demo_id 1 ''''] \<and> (\<exists>acts. register_run acts no_registers = Some (registers_of db))
     \<and> PutRetentionPolicy db (demo_put ''p2'' 1) (actor ''alice'') demo_time demo_id2 = Inr (db', v)
     \<and> register_apply (PutAct (actor ''alice'') 1 (put_row demo_id2 2 demo_id)) (registers_of db) = Some (registers_of db')"
proof -
  obtain db db' v where r: "lifecycle_reach None (db, run_disk, [])"
    and d: "ld_Purge db = run_db [put_row demo_id 1 ''''] [run_object] [run_hold]"
    and p: "PutRetentionPolicy db (demo_put ''p2'' 1) (actor ''alice'') demo_time demo_id2 = Inr (db', v)"
    and v: "\<not> rv_IdempotentReplay v" "rv_Policy v = put_row demo_id2 2 demo_id"
    by (rule demo_lifecycle_put)
  note all = handlers_refine_registers [OF r]
  have acts: "\<exists>acts. register_run acts no_registers = Some (registers_of db)" using all by blast
  have "rk_ExpectedVersion (demo_put ''p2'' 1) = 1" by (simp add: demo_put_def)
  moreover have "if rv_IdempotentReplay v then db' = db
      else register_apply (PutAct (actor ''alice'') (rk_ExpectedVersion (demo_put ''p2'' 1)) (rv_Policy v)) (registers_of db) = Some (registers_of db')"
    using all p by blast
  ultimately have put: "register_apply (PutAct (actor ''alice'') 1 (put_row demo_id2 2 demo_id)) (registers_of db) = Some (registers_of db')"
    using v by (simp only: if_False)
  have rows: "rg_Holds (registers_of db) = [run_hold]" "rg_Policies (registers_of db) = [put_row demo_id 1 '''']"
    by (simp_all add: registers_of_def d)
  show ?thesis by (intro exI [of _ db] exI [of _ db'] exI [of _ v] conjI r rows acts p put)
qed

end
