(* ===== verification/Spec2Isabelle.thy ===== *)
theory Spec2Isabelle
  imports Adjudication_Retry Purge_Retry Lifecycle_Registers Judgment Lifecycle Memory_Hash Authz
begin

text \<open>
  A verification library for drenyra-engram, an accounting memory with professional approval,
  judgments, reconciliations, signed receipts and a governed purge of evidence bytes. The library
  models the domain core (internal/core), the authorization policies (internal/authz), the signer
  (internal/receipts) and the SQLite store (internal/store) with its review service
  (internal/server/review_service.go), each as definitions that keep the names of the Go code.

  \<^bold>\<open>The program.\<close> Agents save memories, which form revision chains per topic and scope. A memory with
  a fiscal effect is pending until a verified human approves, rejects or returns it; approving a
  close memory closes a fiscal period, which then refuses writes until it is reopened. Agents also
  propose judgments (a relation between two memories) and reconciliations (two amounts and their
  variance), which a human confirms or rejects. Evidence bytes live beside the database; they are
  removed only by a purge that is requested, approved by someone else, and executed in two
  transactions around the unlink, against retention policies and legal holds. Every professional
  act leaves a row in an append-only ledger and, when a signer is configured, a receipt chained
  per subject.

  \<^bold>\<open>How the code is represented.\<close> A Go struct is a record whose fields carry a prefix, a string type
  with constants is a datatype with one constructor per constant and \<open>...Other\<close> for the rest, an
  error is a value of \<open>err\<close> in a sum (\<open>AuthErr\<close> for the stable codes of auth.New, \<open>PlainErr\<close> for
  fmt.Errorf codes, \<open>StoreErr\<close> for a constraint or trigger of the database). A table is the list of
  its rows in insertion order, a transaction a function from the database to an error (rolled
  back) or to the committed database, a trigger a guard of the write that fires it. The byte store
  is a map from relative paths to bytes and is not rolled back. The clock and minted ids are
  arguments: a handler that mints several takes a function from their position. SHA-256 is computed
  (Sha256), JSON escaping follows encoding/json (Json); Ed25519 is a parameter with the round trip
  of its documentation as hypothesis.

  \<^bold>\<open>Theories.\<close>
  Prelude: results, guards, list and byte lemmas, and the locales of state machines
  (\<open>status_machine\<close>, \<open>driven_machine\<close>), fail-closed policies and append-only ledgers.
  Sha256, Sha256_Eval, Json, Gotime: the standard library the code relies on; Sha256_Eval computes
  the hash on numbers, for the concrete runs.
  Scope_Model, Memory_Model, Memory_Hash, Lifecycle (core/types.go, ruc.go, closing.go,
  lifecycle.go): scopes, memories, content, identity and envelope hashes, the memory lifecycle.
  Judgment (core/judgment.go, reconciliation.go): the pure machines of both adjudications.
  Auth_Model, Authz (auth/types.go, authz): principals and the four policies.
  Receipt, Receipt_Store (core/receipt.go, receipts/signer.go, store.go): receipts, signing, ledger.
  Fiscal_Scope (core/fiscal_scope.go, fiscal_act_evidence.go, store/fiscal_scope_store.go): fiscal
  scope bindings, act evidence and the runtime gate.

  The evidence part of the store.
  Retention, Evidence_Object, Purge_Model (core/retention_policy.go, hold.go, evidence_object.go,
  purge_lifecycle.go): policies, holds, objects, purge records and lifecycle snapshots.
  Purge_Db, Purge_Store, Object_Store, Purge_Execution (store/purge_store.go, object_store.go,
  purge_execution_store.go): the tables and the handlers of the purge pipeline.
  Purge_Ledger, Purge_System, Purge_Safety: how every handler evolves the database; the pipeline as
  a step relation in which handlers, the two transactions of an execution, crashes and writes of
  the environment interleave; its invariant and the absence of undocumented loss.
  Purge_Run: a concrete run that reaches the states the theorems speak of.
  Purge_Properties, Purge_Liveness, Purge_Retry: permanence and separation of duties, the success of
  an execution, idempotent retries and their gaps.
  Hold_Store, Retention_Store (store/hold_store.go, retention_policy_store.go): the handlers of
  legal holds and retention policies with their idempotency ledgers.
  Lifecycle_System, Lifecycle_Run: the pipeline with those handlers in place of the environment, so
  that every theorem about reachable purge states holds of it; a concrete run.
  Lifecycle_Registers: the holds and policies as abstract registers with guarded acts, which the
  handlers refine.

  The memory part of the store.
  Memory_Store (store.go): the record \<open>MemoryDB\<close> with all tables, rows, scans and the writes the
  handlers share. It holds the evidence tables in \<open>md_Life\<close>.
  Memory_Save (store.go): Save, Relate, SupersedeExplicit, ApplyStatusTransition, the link writers
  and the imports.
  Memory_Review (store.go, review_store.go): ApproveMemory, RejectMemory, ReturnMemory, ReopenPeriod.
  Review_Workspace (review_store.go, server/review_service.go): the review queue and detail.
  Memory_Ledger: the abstract machine of memories, decisions and closures, with its invariant.
  Memory_Steps, Memory_System: every memory handler is a step of that machine and only appends to
  the history.
  Adjudication_Store, Judgment_Store, Reconciliation_Store (store.go, reconciliation.go): the
  handlers that propose, confirm, reject and withdraw, with what both machines share.
  Adjudication_Docket: the abstract machine both refine, a docket of cases with an immutable log
  and supersession routes; its invariant.
  Adjudication_Steps, Judgment_Steps, Reconciliation_Steps: every handler is a step of the docket
  and leaves the rest of the store alone; the amounts of reconciliations.
  Engram_System: the whole store as one step relation over the database, the bytes and the purge
  executions in flight, in which all handlers interleave; the locales \<open>simulation\<close> and \<open>evolution\<close>
  and their interpretation for the ledger and the evidence lifecycle. Adjudication_System
  interprets them for the dockets.
  Engram_Demo, Engram_Run, Adjudication_Run: one concrete run - a save, its approval and the close
  of a period; a second memory, a judgment, its correction and confirmation, a reconciliation.
  Engram_Properties, Adjudication_Properties, Adjudication_Retry: the properties over every
  reachable state of the whole store.

  \<^bold>\<open>What the lemmas show.\<close> The store refines its abstract machines under every interleaving. Revision
  chains are gapless with one revision in use; a memory is decided once, by an authorized human
  other than its recorder; a closed period is backed by its approved close memory and frozen;
  history is permanent; a repeated approval replays. A judgment or reconciliation is what its
  immutable log replays to; routing is exact and following it ends; decisions are permanent and
  authorized; variances never wrap. No interleaving loses evidence bytes without a recorded,
  approved purge; bytes are removed only while nothing blocks the purge; approvals are independent;
  retries replay, but for the recovery that removes the bytes itself; an execution whose gates hold
  and whose receipts are issued succeeds; holds keep bytes; hold and policy acts are guarded acts on
  their registers; policy resolution is never ambiguous. Policies confine tenants and fail closed;
  hashes determine the fields they cover where the encoding is injective, and where it is not the
  collisions are exhibited; receipts form one chain per subject while the clock does not go back.
  Lemmas without a claim id state what the code does where it departs from its comments.

  \<^bold>\<open>Bounds.\<close> Every function is total: recursion is structural, and the only fuel is the number of
  hops of \<open>follow_judgment\<close>, for which the number of stored judgments is shown to be enough.
  Integers that only count or order are unbounded; the amounts of a reconciliation are 64-bit
  words, whose difference wraps before the table's check sees it; SHA-256 works on 32-bit words.

  \<^bold>\<open>Not modelled.\<close> The HTTP, MCP and command-line front ends and OIDC token verification (transport
  and network; the verified principal is an argument), schema migrations (SQL run once by SQLite),
  full-text search and git synchronisation, path hardening against symbolic links, key rotation and
  the keyring file, at-rest encryption of the narrative, the sync imports as steps of the system
  (their definitions are in Memory_Save), the compilation of close snapshots, and the verification
  layers, rules, reconstructibility report and evidence export of the core.
\<close>

end
